(* ===== verification/Prelude.thy ===== *)
theory Prelude
  imports Main "HOL-Library.Word"
begin

unbundle bit_operations_syntax

text \<open>
  Shared vocabulary of the development: the machine types of the Go sources, Go's
  64-bit \<open>int\<close> with its wrap-around, results of fallible code, and big-endian
  byte strings.  Everything here stands for the Go language or its standard library;
  the components of the client are modelled in the other theories.
\<close>

section \<open>Machine types\<close>

type_synonym byte = "8 word"
type_synonym bytes = "byte list"
type_synonym u16 = "16 word"
type_synonym u32 = "32 word"
type_synonym u64 = "64 word"
type_synonym u256 = "256 word"

named_theorems go_int_simps
  \<open>rewriting of Go's \<open>int\<close> arithmetic in the range where it does not wrap\<close>

named_theorems be_simps
  \<open>big-endian encoding and decoding of numbers\<close>

text \<open>
  Go's \<open>int\<close> on a 64-bit platform: two's complement, arithmetic wraps silently.  A value
  of type \<open>int\<close> of the model is always kept in the range of \<open>wrap64\<close>.
\<close>

definition wrap64 :: "int \<Rightarrow> int" where
  "wrap64 x = (x + 2 ^ 63) mod 2 ^ 64 - 2 ^ 63"

lemma wrap64_id [go_int_simps]: "- (2 ^ 63) \<le> x \<Longrightarrow> x < 2 ^ 63 \<Longrightarrow> wrap64 x = x"
  by (simp add: wrap64_def)

lemma wrap64_high: "2 ^ 63 \<le> x \<Longrightarrow> x < 2 ^ 64 \<Longrightarrow> wrap64 x = x - 2 ^ 64"
proof -
  assume a: "2 ^ 63 \<le> x" "x < 2 ^ 64"
  have "(x + 2 ^ 63) mod 2 ^ 64 = (x + 2 ^ 63 - 2 ^ 64) mod 2 ^ 64"
    using mod_diff_right_eq [of "x + 2 ^ 63" "2 ^ 64" "2 ^ 64 :: int"] by simp
  also have "\<dots> = x + 2 ^ 63 - 2 ^ 64" using a by (intro mod_pos_pos_trivial) auto
  finally show ?thesis by (simp add: wrap64_def)
qed

lemma wrap64_nat: "n < 2 ^ 63 \<Longrightarrow> wrap64 (int n) = int n"
  by (rule wrap64_id) simp_all

lemma wrap64_nat_high: "2 ^ 63 \<le> n \<Longrightarrow> n < 2 ^ 64 \<Longrightarrow> wrap64 (int n) = int n - 2 ^ 64"
  by (rule wrap64_high) simp_all

lemma wrap64_lower: "- (2 ^ 63) \<le> wrap64 x"
  by (simp add: wrap64_def)

lemma wrap64_upper: "wrap64 x < 2 ^ 63"
proof -
  have "(x + 2 ^ 63) mod 2 ^ 64 < (2 ^ 64 :: int)" by simp
  then show ?thesis by (simp add: wrap64_def)
qed

text \<open>The conversion \<open>int(u)\<close> of a \<open>uint64\<close>.\<close>

definition int_of_u64 :: "u64 \<Rightarrow> int" where
  "int_of_u64 u = wrap64 (uint u)"

lemma unat_u64_less: "unat (u :: u64) < 2 ^ 64"
  by (rule order_less_le_trans [OF unsigned_less]) simp

lemma int_of_u64_small: "unat u < 2 ^ 63 \<Longrightarrow> int_of_u64 u = int (unat u)"
  unfolding int_of_u64_def uint_nat by (rule wrap64_nat)

lemma int_of_u64_neg: "2 ^ 63 \<le> unat u \<Longrightarrow> int_of_u64 u = int (unat u) - 2 ^ 64"
  unfolding int_of_u64_def uint_nat using unat_u64_less [of u] by (intro wrap64_nat_high)

lemma int_of_u64_negative: "2 ^ 63 \<le> unat u \<Longrightarrow> int_of_u64 u < 0"
proof -
  assume a: "2 ^ 63 \<le> unat u"
  have "int (unat u) < int (2 ^ 64)" using unat_u64_less [of u] by (simp only: of_nat_less_iff)
  then show ?thesis unfolding int_of_u64_neg [OF a] by simp
qed

section \<open>Fallible code\<close>

text \<open>
  A Go call returns a value, returns an error, or panics.  The slice expressions and map
  writes that can panic at run time are written out wherever the source has them.
\<close>

datatype ('e, 'a) outcome = Ok 'a | Err 'e | Panic

fun bind_outcome :: "('e, 'a) outcome \<Rightarrow> ('a \<Rightarrow> ('e, 'b) outcome) \<Rightarrow> ('e, 'b) outcome" where
  "bind_outcome (Ok a) f = f a"
| "bind_outcome (Err e) f = Err e"
| "bind_outcome Panic f = Panic"

lemma bind_outcome_Ok_iff:
  "bind_outcome m f = Ok b \<longleftrightarrow> (\<exists>a. m = Ok a \<and> f a = Ok b)"
  by (cases m) auto

lemma bind_outcome_Panic_iff:
  "bind_outcome m f = Panic \<longleftrightarrow> m = Panic \<or> (\<exists>a. m = Ok a \<and> f a = Panic)"
  by (cases m) auto

lemma bind_outcome_assoc:
  "bind_outcome (bind_outcome m f) g = bind_outcome m (\<lambda>a. bind_outcome (f a) g)"
  by (cases m) auto

fun map_ok :: "('a \<Rightarrow> 'b) \<Rightarrow> ('e, 'a) outcome \<Rightarrow> ('e, 'b) outcome" where
  "map_ok f (Ok a) = Ok (f a)"
| "map_ok f (Err e) = Err e"
| "map_ok f Panic = Panic"

lemma map_ok_Ok_iff: "map_ok f m = Ok b \<longleftrightarrow> (\<exists>a. m = Ok a \<and> b = f a)"
  by (cases m) auto

text \<open>
  Go slice expression \<open>s[i:j]\<close> with \<open>int\<close> bounds: it panics unless \<open>0 \<le> i \<le> j \<le> len(s)\<close>.
  (The sources slice within the length of the slice; the capacity beyond it is never used.)
\<close>

definition go_slice :: "'a list \<Rightarrow> int \<Rightarrow> int \<Rightarrow> 'a list option" where
  "go_slice xs i j =
     (if 0 \<le> i \<and> i \<le> j \<and> j \<le> int (length xs)
      then Some (take (nat (j - i)) (drop (nat i) xs)) else None)"

lemma go_slice_length: "go_slice xs i j = Some ys \<Longrightarrow> int (length ys) = j - i"
  by (auto simp: go_slice_def split: if_splits)

lemma go_slice_middle:
  "go_slice (xs @ ys @ zs) (int (length xs)) (int (length xs + length ys)) = Some ys"
  by (simp add: go_slice_def)

section \<open>Big-endian byte strings\<close>

text \<open>
  \<open>be_nat\<close> is the number a big-endian byte string denotes (\<open>big.Int.SetBytes\<close>) and
  \<open>nat_be\<close> the shortest such string of a number, empty for 0 (\<open>big.Int.Bytes\<close>).
\<close>

definition be_nat :: "bytes \<Rightarrow> nat" where
  "be_nat bs = foldl (\<lambda>a b. a * 256 + unat b) 0 bs"

fun nat_be :: "nat \<Rightarrow> bytes" where
  "nat_be n = (if n = 0 then [] else nat_be (n div 256) @ [of_nat n])"

declare nat_be.simps [simp del]

lemma nat_be_0 [simp]: "nat_be 0 = []"
  by (simp add: nat_be.simps)

lemma nat_be_pos: "0 < n \<Longrightarrow> nat_be n = nat_be (n div 256) @ [of_nat n]"
  by (simp add: nat_be.simps)

lemma be_nat_Nil [simp]: "be_nat [] = 0"
  by (simp add: be_nat_def)

lemma be_nat_snoc: "be_nat (bs @ [b]) = be_nat bs * 256 + unat b"
  by (simp add: be_nat_def)

lemma be_nat_append: "be_nat (as @ bs) = be_nat as * 256 ^ length bs + be_nat bs"
proof (induction bs rule: rev_induct)
  case (snoc b bs)
  have "be_nat (as @ bs @ [b]) = be_nat (as @ bs) * 256 + unat b"
    using be_nat_snoc [of "as @ bs" b] by simp
  with snoc show ?case by (simp add: be_nat_snoc algebra_simps)
qed simp

lemma be_nat_Cons: "be_nat (b # bs) = unat b * 256 ^ length bs + be_nat bs"
  using be_nat_append [of "[b]" bs] by (simp add: be_nat_def)

lemma unat_byte_less: "unat (b :: byte) < 256"
  by (rule order_less_le_trans [OF unsigned_less]) simp

lemma be_nat_less: "be_nat bs < 256 ^ length bs"
proof (induction bs rule: rev_induct)
  case (snoc b bs)
  have "be_nat (bs @ [b]) < Suc (be_nat bs) * 256"
    using unat_byte_less [of b] by (simp add: be_nat_snoc)
  also have "\<dots> \<le> 256 ^ length bs * 256"
    using snoc by (intro mult_right_mono) auto
  finally show ?case by simp
qed simp

lemma unat_of_nat_byte: "unat (of_nat n :: byte) = n mod 256"
  by (simp add: unat_of_nat)

lemma be_nat_nat_be [be_simps, simp]: "be_nat (nat_be n) = n"
proof (induction n rule: nat_be.induct)
  case (1 n)
  show ?case
  proof (cases "n = 0")
    case False
    then have "be_nat (nat_be n) = be_nat (nat_be (n div 256)) * 256 + n mod 256"
      by (simp add: nat_be_pos [of n] be_nat_snoc unat_of_nat_byte)
    with 1 False show ?thesis by simp
  qed simp
qed

lemma nat_be_eq_Nil [simp]: "nat_be n = [] \<longleftrightarrow> n = 0"
  by (cases "n = 0") (simp_all add: nat_be_pos [of n])

lemma hd_nat_be: "0 < n \<Longrightarrow> hd (nat_be n) \<noteq> 0"
proof (induction n rule: nat_be.induct)
  case (1 n)
  show ?case
  proof (cases "n div 256 = 0")
    case True
    then have "n < 256" by auto
    with "1.prems" have "unat (of_nat n :: byte) \<noteq> unat (0 :: byte)"
      by (simp add: unat_of_nat_byte)
    with "1.prems" True show ?thesis by (auto simp: nat_be_pos [of n])
  next
    case False
    with 1 have "hd (nat_be (n div 256)) \<noteq> 0" by auto
    with False "1.prems" show ?thesis by (simp add: nat_be_pos [of n] hd_append)
  qed
qed

lemma nat_be_snoc: "0 < be_nat bs * 256 + unat b \<Longrightarrow>
    nat_be (be_nat bs * 256 + unat b) = nat_be (be_nat bs) @ [b]"
proof -
  assume pos: "0 < be_nat bs * 256 + unat b"
  have "of_nat (be_nat bs * 256 + unat b) = b"
    by (rule word_unat_eq_iff [THEN iffD2])
       (simp only: unat_of_nat_byte mod_mult_self3, simp add: unat_byte_less)
  moreover have "(be_nat bs * 256 + unat b) div 256 = be_nat bs"
    using unat_byte_less [of b] by simp
  ultimately show ?thesis using nat_be_pos [OF pos] by simp
qed

lemma be_nat_pos: "bs \<noteq> [] \<Longrightarrow> hd bs \<noteq> 0 \<Longrightarrow> 0 < be_nat bs"
  by (cases bs) (auto simp: be_nat_Cons unat_gt_0)

lemma nat_be_be_nat [be_simps]: "bs = [] \<or> hd bs \<noteq> 0 \<Longrightarrow> nat_be (be_nat bs) = bs"
proof (induction bs rule: rev_induct)
  case (snoc b bs)
  have "0 < be_nat (bs @ [b])" using snoc.prems by (intro be_nat_pos) auto
  moreover have "nat_be (be_nat bs) = bs"
    using snoc by (cases bs) auto
  ultimately show ?case by (simp add: be_nat_snoc nat_be_snoc)
qed simp

lemma length_nat_be_le: "length (nat_be n) \<le> k \<longleftrightarrow> n < 256 ^ k"
proof (induction k arbitrary: n)
  case (Suc k)
  show ?case
  proof (cases "n = 0")
    case False
    then have "length (nat_be n) \<le> Suc k \<longleftrightarrow> n div 256 < 256 ^ k"
      using Suc.IH [of "n div 256"] by (simp add: nat_be_pos [of n])
    also have "\<dots> \<longleftrightarrow> n < 256 ^ Suc k"
      by (simp add: div_less_iff_less_mult mult.commute)
    finally show ?thesis .
  qed simp
qed auto

text \<open>The \<open>k\<close> low-order bytes of a number, big-endian, leading zeros kept.\<close>

definition be_fixed :: "nat \<Rightarrow> nat \<Rightarrow> bytes" where
  "be_fixed k n = map (\<lambda>i. of_nat (n div 256 ^ i)) (rev [0..<k])"

lemma length_be_fixed [simp]: "length (be_fixed k n) = k"
  by (simp add: be_fixed_def)

lemma be_fixed_0 [simp]: "be_fixed 0 n = []"
  by (simp add: be_fixed_def)

lemma be_fixed_Suc: "be_fixed (Suc k) n = be_fixed k (n div 256) @ [of_nat n]"
proof -
  have "rev [0..<Suc k] = map Suc (rev [0..<k]) @ [0]"
    by (simp add: upt_conv_Cons map_Suc_upt rev_map [symmetric] del: upt_Suc)
  then show ?thesis
    by (simp add: be_fixed_def div_mult2_eq mult.commute comp_def del: upt_Suc)
qed

lemma be_fixed_numeral: "be_fixed (numeral m) n = be_fixed (pred_numeral m) (n div 256) @ [of_nat n]"
  by (simp only: numeral_eq_Suc be_fixed_Suc)

lemma be_fixed_1: "be_fixed (Suc 0) n = [of_nat n]"
  by (simp add: be_fixed_Suc)

lemma be_fixed_upto_8:
  "be_fixed 1 n = [of_nat n]"
  "be_fixed 2 n = [of_nat (n div 2 ^ 8), of_nat n]"
  "be_fixed 3 n = [of_nat (n div 2 ^ 16), of_nat (n div 2 ^ 8), of_nat n]"
  "be_fixed 4 n = [of_nat (n div 2 ^ 24), of_nat (n div 2 ^ 16), of_nat (n div 2 ^ 8), of_nat n]"
  "be_fixed 5 n = [of_nat (n div 2 ^ 32), of_nat (n div 2 ^ 24), of_nat (n div 2 ^ 16),
     of_nat (n div 2 ^ 8), of_nat n]"
  "be_fixed 6 n = [of_nat (n div 2 ^ 40), of_nat (n div 2 ^ 32), of_nat (n div 2 ^ 24),
     of_nat (n div 2 ^ 16), of_nat (n div 2 ^ 8), of_nat n]"
  "be_fixed 7 n = [of_nat (n div 2 ^ 48), of_nat (n div 2 ^ 40), of_nat (n div 2 ^ 32),
     of_nat (n div 2 ^ 24), of_nat (n div 2 ^ 16), of_nat (n div 2 ^ 8), of_nat n]"
  "be_fixed 8 n = [of_nat (n div 2 ^ 56), of_nat (n div 2 ^ 48), of_nat (n div 2 ^ 40),
     of_nat (n div 2 ^ 32), of_nat (n div 2 ^ 24), of_nat (n div 2 ^ 16),
     of_nat (n div 2 ^ 8), of_nat n]"
  by (simp_all add: be_fixed_numeral be_fixed_1 div_mult2_eq [symmetric])

lemma be_nat_be_fixed [be_simps]: "be_nat (be_fixed k n) = n mod 256 ^ k"
proof (induction k arbitrary: n)
  case (Suc k)
  have "be_nat (be_fixed (Suc k) n) = (n div 256) mod 256 ^ k * 256 + n mod 256"
    by (simp add: be_fixed_Suc be_nat_snoc unat_of_nat_byte Suc)
  then show ?case by (simp add: mod_mult2_eq mult.commute)
qed simp

lemma be_fixed_nat_be: "n < 256 ^ k \<Longrightarrow> 256 ^ k \<le> n * 256 \<Longrightarrow> be_fixed k n = nat_be n"
proof (induction k arbitrary: n)
  case (Suc k)
  from Suc.prems have lt: "n div 256 < 256 ^ k" and ge: "256 ^ k \<le> n"
    by (auto simp: div_less_iff_less_mult mult.commute)
  then have "0 < n" by (metis gr0I less_numeral_extra(3) not_le power_not_zero zero_neq_numeral)
  have "be_fixed k (n div 256) = nat_be (n div 256)"
  proof (cases "k = 0")
    case True with lt show ?thesis by simp
  next
    case False
    then obtain m where "k = Suc m" by (cases k) auto
    with ge have "256 ^ m \<le> n div 256" by (simp add: less_eq_div_iff_mult_less_eq mult.commute)
    with \<open>k = Suc m\<close> have "256 ^ k \<le> n div 256 * 256" by simp
    with lt show ?thesis by (rule Suc.IH)
  qed
  with \<open>0 < n\<close> show ?case by (simp add: be_fixed_Suc nat_be_pos [of n])
qed simp

lemma dropWhile_zero_nat_be: "dropWhile (\<lambda>b. b = 0) bs = nat_be (be_nat bs)"
proof (induction bs)
  case (Cons b bs)
  then show ?case
    using nat_be_be_nat [of "b # bs"] by (auto simp: be_nat_Cons)
qed simp

text \<open>\<open>big.Int.Bytes\<close> drops the sign.\<close>

definition big_bytes :: "int \<Rightarrow> bytes" where
  "big_bytes i = nat_be (nat \<bar>i\<bar>)"

definition big_set_bytes :: "bytes \<Rightarrow> int" where
  "big_set_bytes bs = int (be_nat bs)"

lemma big_set_bytes_big_bytes [simp]: "0 \<le> i \<Longrightarrow> big_set_bytes (big_bytes i) = i"
  by (simp add: big_set_bytes_def big_bytes_def)

end
