(* ===== verification/Rlp_Encode.thy ===== *)
theory Rlp_Encode
  imports Prelude
begin

text \<open>
  The RLP encoder, \<^verbatim>\<open>src/pkg/rlp/encode.go\<close> and the allocation-free helpers of
  \<^verbatim>\<open>src/pkg/rlp/encoder_pool.go\<close>.  \<open>goval\<close> is the part of a Go value that
  \<open>encodeValue\<close> inspects through \<open>reflect\<close>.  The Yellow Paper's function \<open>rlp\<close> on
  abstract items is the specification; the encoders are shown to implement it.
\<close>

section \<open>Values seen through reflection\<close>

text \<open>
  One constructor per \<open>reflect.Kind\<close> the encoder distinguishes.  \<open>VUint\<close> and \<open>VInt\<close> hold
  the 64-bit result of \<open>v.Uint()\<close> and \<open>v.Int()\<close>; a struct is the list of its fields with
  the flag \<open>IsExported\<close>; \<open>VInvalid\<close> is the zero \<open>reflect.Value\<close> that
  \<open>reflect.ValueOf(nil)\<close> returns; \<open>VOther\<close> stands for every other kind (maps, floats,
  channels, functions).
\<close>

datatype goval =
    VBool bool
  | VUint u64
  | VInt u64
  | VBig int
  | VString bytes
  | VBytes bytes
  | VByteArray bytes
  | VSlice "goval list"
  | VArray "goval list"
  | VStruct "(bool \<times> goval) list"
  | VPtr "goval option"
  | VIface "goval option"
  | VInvalid
  | VOther

datatype rlp_error =
    EOF
  | ErrUnexpectedEOF
  | ErrExpectedString
  | ErrExpectedList
  | ErrCanonSize
  | ErrEOL
  | ErrCanonInt
  | ErrNonCanonicalSize
  | ErrUint64Range
  | ErrValueTooLarge

section \<open>The encoder of encode.go\<close>

definition putUintBigEndian :: "u64 \<Rightarrow> bytes" where
  "putUintBigEndian u =
     (if u < 2 ^ 8 then [ucast u]
      else if u < 2 ^ 16 then [ucast (drop_bit 8 u), ucast u]
      else if u < 2 ^ 24 then [ucast (drop_bit 16 u), ucast (drop_bit 8 u), ucast u]
      else if u < 2 ^ 32 then
        [ucast (drop_bit 24 u), ucast (drop_bit 16 u), ucast (drop_bit 8 u), ucast u]
      else if u < 2 ^ 40 then
        [ucast (drop_bit 32 u), ucast (drop_bit 24 u), ucast (drop_bit 16 u),
         ucast (drop_bit 8 u), ucast u]
      else if u < 2 ^ 48 then
        [ucast (drop_bit 40 u), ucast (drop_bit 32 u), ucast (drop_bit 24 u),
         ucast (drop_bit 16 u), ucast (drop_bit 8 u), ucast u]
      else if u < 2 ^ 56 then
        [ucast (drop_bit 48 u), ucast (drop_bit 40 u), ucast (drop_bit 32 u),
         ucast (drop_bit 24 u), ucast (drop_bit 16 u), ucast (drop_bit 8 u), ucast u]
      else
        [ucast (drop_bit 56 u), ucast (drop_bit 48 u), ucast (drop_bit 40 u),
         ucast (drop_bit 32 u), ucast (drop_bit 24 u), ucast (drop_bit 16 u),
         ucast (drop_bit 8 u), ucast u])"

definition encodeString :: "bytes \<Rightarrow> bytes" where
  "encodeString data =
     (let n = length data in
      if n = 1 \<and> hd data \<le> 0x7f then data
      else if n \<le> 55 then (0x80 + of_nat n) # data
      else let lenBytes = putUintBigEndian (of_nat n) in
        (0xb7 + of_nat (length lenBytes)) # lenBytes @ data)"

definition wrapList :: "bytes \<Rightarrow> bytes" where
  "wrapList payload =
     (let n = length payload in
      if n \<le> 55 then (0xc0 + of_nat n) # payload
      else let lenBytes = putUintBigEndian (of_nat n) in
        (0xf7 + of_nat (length lenBytes)) # lenBytes @ payload)"

definition encodeUint :: "u64 \<Rightarrow> bytes" where
  "encodeUint u =
     (if u = 0 then [0x80] else if u < 128 then [ucast u]
      else encodeString (putUintBigEndian u))"

definition encodeBigInt :: "int \<Rightarrow> bytes" where
  "encodeBigInt i = (if i = 0 then [0x80] else encodeString (big_bytes i))"

text \<open>
  \<open>encodeValue ad v\<close>: the flag \<open>ad\<close> is \<open>v.CanAddr()\<close>, which \<open>v.Addr()\<close> in the
  \<open>big.Int\<close> branch requires.  The value behind a pointer and the elements of a slice are
  addressable, the value in an interface is not, fields and array elements inherit it.
  The zero \<open>reflect.Value\<close> panics in \<open>v.Type()\<close>, before the \<open>reflect.Invalid\<close> case of
  the switch is reached.
\<close>

fun encodeValue :: "bool \<Rightarrow> goval \<Rightarrow> (rlp_error, bytes) outcome"
  and encodeList :: "bool \<Rightarrow> goval list \<Rightarrow> (rlp_error, bytes) outcome"
  and encodeStruct :: "bool \<Rightarrow> (bool \<times> goval) list \<Rightarrow> (rlp_error, bytes) outcome" where
  "encodeValue ad (VPtr None) = Ok [0x80]"
| "encodeValue ad (VPtr (Some v)) = encodeValue True v"
| "encodeValue ad (VIface None) = Ok [0x80]"
| "encodeValue ad (VIface (Some v)) = encodeValue False v"
| "encodeValue ad VInvalid = Panic"
| "encodeValue ad (VBig i) = (if ad then Ok (encodeBigInt i) else Panic)"
| "encodeValue ad (VBool b) = Ok (if b then [0x01] else [0x80])"
| "encodeValue ad (VUint u) = Ok (encodeUint u)"
| "encodeValue ad (VInt u) = Ok (encodeUint u)"
| "encodeValue ad (VString b) = Ok (encodeString b)"
| "encodeValue ad (VBytes b) = Ok (encodeString b)"
| "encodeValue ad (VByteArray b) = Ok (encodeString b)"
| "encodeValue ad (VSlice vs) = map_ok wrapList (encodeList True vs)"
| "encodeValue ad (VArray vs) = map_ok wrapList (encodeList ad vs)"
| "encodeValue ad (VStruct fs) = map_ok wrapList (encodeStruct ad fs)"
| "encodeValue ad VOther = Err ErrValueTooLarge"
| "encodeList ad [] = Ok []"
| "encodeList ad (v # vs) =
     bind_outcome (encodeValue ad v) (\<lambda>enc.
       map_ok (\<lambda>payload. enc @ payload) (encodeList ad vs))"
| "encodeStruct ad [] = Ok []"
| "encodeStruct ad ((exported, v) # fs) =
     (if \<not> exported then encodeStruct ad fs
      else bind_outcome (encodeValue ad v) (\<lambda>enc.
        map_ok (\<lambda>payload. enc @ payload) (encodeStruct ad fs)))"

definition EncodeToBytes :: "goval \<Rightarrow> (rlp_error, bytes) outcome" where
  "EncodeToBytes v = encodeValue False v"

section \<open>The reflection-free helpers of encoder\_pool.go\<close>

text \<open>\<open>binary.BigEndian.PutUint64\<close> followed by the loop that skips leading zeros.\<close>

definition putUint64 :: "u64 \<Rightarrow> bytes" where
  "putUint64 u = map (\<lambda>k. ucast (drop_bit k u)) [56, 48, 40, 32, 24, 16, 8, 0]"

definition putUintBE :: "u64 \<Rightarrow> bytes" where
  "putUintBE u =
     (case dropWhile (\<lambda>b. b = 0) (putUint64 u) of
        [] \<Rightarrow> drop 7 (putUint64 u)
      | b # bs \<Rightarrow> b # bs)"

definition uintByteLen :: "u64 \<Rightarrow> nat" where
  "uintByteLen u =
     (if u < 2 ^ 8 then 1 else if u < 2 ^ 16 then 2 else if u < 2 ^ 24 then 3
      else if u < 2 ^ 32 then 4 else if u < 2 ^ 40 then 5 else if u < 2 ^ 48 then 6
      else if u < 2 ^ 56 then 7 else 8)"

definition EncodeUint64 :: "u64 \<Rightarrow> bytes" where
  "EncodeUint64 v =
     (if v = 0 then [0x80] else if v < 128 then [ucast v]
      else let b = putUintBE v in (0x80 + of_nat (length b)) # b)"

definition EncodeBytes32 :: "bytes \<Rightarrow> bytes" where
  "EncodeBytes32 data = (0x80 + 32) # data"

definition EncodeBytes20 :: "bytes \<Rightarrow> bytes" where
  "EncodeBytes20 data = (0x80 + 20) # data"

definition EncodeBool :: "bool \<Rightarrow> bytes" where
  "EncodeBool v = (if v then [0x01] else [0x80])"

definition EstimateListSize :: "nat \<Rightarrow> nat" where
  "EstimateListSize payloadSize =
     (if payloadSize \<le> 55 then 1 + payloadSize
      else 1 + uintByteLen (of_nat payloadSize) + payloadSize)"

definition EstimateStringSize :: "nat \<Rightarrow> nat" where
  "EstimateStringSize dataLen =
     (if dataLen = 1 then 1 else if dataLen \<le> 55 then 1 + dataLen
      else 1 + uintByteLen (of_nat dataLen) + dataLen)"

definition AppendUint64 :: "bytes \<Rightarrow> u64 \<Rightarrow> bytes" where
  "AppendUint64 dst v =
     (if v = 0 then dst @ [0x80] else if v < 128 then dst @ [ucast v]
      else let b = putUintBE v in (dst @ [0x80 + of_nat (length b)]) @ b)"

definition AppendBytes :: "bytes \<Rightarrow> bytes \<Rightarrow> bytes" where
  "AppendBytes dst data =
     (let n = length data in
      if n = 1 \<and> hd data \<le> 0x7f then dst @ [hd data]
      else if n \<le> 55 then (dst @ [0x80 + of_nat n]) @ data
      else let lb = putUintBE (of_nat n) in
        ((dst @ [0xb7 + of_nat (length lb)]) @ lb) @ data)"

definition AppendListHeader :: "bytes \<Rightarrow> nat \<Rightarrow> bytes" where
  "AppendListHeader dst payloadSize =
     (if payloadSize \<le> 55 then dst @ [0xc0 + of_nat payloadSize]
      else let lb = putUintBE (of_nat payloadSize) in
        (dst @ [0xf7 + of_nat (length lb)]) @ lb)"

text \<open>
  \<open>EncoderPool.EncodeBytes\<close> and \<open>EncodeBatch\<close> with the counters of \<open>EncoderMetrics\<close>.
  The pooled scratch buffer is emptied by \<open>get\<close> before use and its contents are copied out
  by \<open>WrapList\<close>, so it does not appear in the state.  \<open>reused\<close> says whether
  \<open>sync.Pool.Get\<close> found a pooled buffer or called \<open>New\<close>.
\<close>

record encoder_metrics =
  PoolHits :: u64
  PoolMisses :: u64
  TotalEncodes :: u64
  TotalBytes :: u64

definition EncodeBytes_pool ::
    "encoder_metrics \<Rightarrow> goval \<Rightarrow> (rlp_error, bytes) outcome \<times> encoder_metrics" where
  "EncodeBytes_pool m v =
     (case EncodeToBytes v of
        Ok result \<Rightarrow> (Ok result,
          m\<lparr>TotalEncodes := TotalEncodes m + 1,
            TotalBytes := TotalBytes m + of_nat (length result)\<rparr>)
      | r \<Rightarrow> (r, m))"

definition pool_get :: "bool \<Rightarrow> encoder_metrics \<Rightarrow> encoder_metrics" where
  "pool_get reused m =
     (let m' = (if reused then m else m\<lparr>PoolMisses := PoolMisses m + 1\<rparr>)
      in m'\<lparr>PoolHits := PoolHits m' + 1\<rparr>)"

definition EncodeBatch :: "bool \<Rightarrow> encoder_metrics \<Rightarrow> goval list \<Rightarrow>
    (rlp_error, bytes) outcome \<times> encoder_metrics" where
  "EncodeBatch reused m items =
     (let m' = pool_get reused m in
      case encodeList False items of
        Ok payload \<Rightarrow> (let result = wrapList payload in (Ok result,
          m'\<lparr>TotalEncodes := TotalEncodes m' + of_nat (length items),
            TotalBytes := TotalBytes m' + of_nat (length result)\<rparr>))
      | r \<Rightarrow> (r, m'))"

section \<open>Specification: the Yellow Paper's RLP\<close>

datatype rlp_item = RStr bytes | RList "rlp_item list"

definition rlp_str :: "bytes \<Rightarrow> bytes" where
  "rlp_str x =
     (if length x = 1 \<and> unat (hd x) < 128 then x
      else if length x < 56 then of_nat (128 + length x) # x
      else of_nat (183 + length (nat_be (length x))) # nat_be (length x) @ x)"

definition rlp_list :: "bytes \<Rightarrow> bytes" where
  "rlp_list s =
     (if length s < 56 then of_nat (192 + length s) # s
      else of_nat (247 + length (nat_be (length s))) # nat_be (length s) @ s)"

fun rlp :: "rlp_item \<Rightarrow> bytes" where
  "rlp (RStr x) = rlp_str x"
| "rlp (RList xs) = rlp_list (concat (map rlp xs))"

text \<open>The item a Go value stands for; \<open>None\<close> where the encoder fails or panics.\<close>

fun item_of :: "bool \<Rightarrow> goval \<Rightarrow> rlp_item option"
  and items_of :: "bool \<Rightarrow> goval list \<Rightarrow> rlp_item list option"
  and fields_of :: "bool \<Rightarrow> (bool \<times> goval) list \<Rightarrow> rlp_item list option" where
  "item_of ad (VPtr None) = Some (RStr [])"
| "item_of ad (VPtr (Some v)) = item_of True v"
| "item_of ad (VIface None) = Some (RStr [])"
| "item_of ad (VIface (Some v)) = item_of False v"
| "item_of ad VInvalid = None"
| "item_of ad (VBig i) = (if ad then Some (RStr (nat_be (nat \<bar>i\<bar>))) else None)"
| "item_of ad (VBool b) = Some (RStr (nat_be (of_bool b)))"
| "item_of ad (VUint u) = Some (RStr (nat_be (unat u)))"
| "item_of ad (VInt u) = Some (RStr (nat_be (unat u)))"
| "item_of ad (VString b) = Some (RStr b)"
| "item_of ad (VBytes b) = Some (RStr b)"
| "item_of ad (VByteArray b) = Some (RStr b)"
| "item_of ad (VSlice vs) = map_option RList (items_of True vs)"
| "item_of ad (VArray vs) = map_option RList (items_of ad vs)"
| "item_of ad (VStruct fs) = map_option RList (fields_of ad fs)"
| "item_of ad VOther = None"
| "items_of ad [] = Some []"
| "items_of ad (v # vs) =
     (case item_of ad v of None \<Rightarrow> None | Some i \<Rightarrow> map_option (Cons i) (items_of ad vs))"
| "fields_of ad [] = Some []"
| "fields_of ad ((exported, v) # fs) =
     (if \<not> exported then fields_of ad fs
      else case item_of ad v of None \<Rightarrow> None
        | Some i \<Rightarrow> map_option (Cons i) (fields_of ad fs))"

section \<open>Correctness of the byte-level encoders\<close>

lemma ucast_byte: "(ucast u :: byte) = of_nat (unat (u :: u64))"
  by (rule word_unat_eq_iff [THEN iffD2])
     (simp add: unsigned_ucast_eq take_bit_eq_mod unat_of_nat_byte)

lemmas byte_of_shift = ucast_byte unat_drop_bit_eq drop_bit_eq_div [where ?'a = nat]

lemma putUintBigEndian_fixed:
  "putUintBigEndian u = be_fixed (uintByteLen u) (unat u)"
  unfolding putUintBigEndian_def uintByteLen_def
  by (simp only: if_distrib [of "\<lambda>k. be_fixed k (unat u)"] be_fixed_upto_8 byte_of_shift)

lemma putUint64_fixed: "putUint64 u = be_fixed 8 (unat u)"
  by (simp only: putUint64_def be_fixed_upto_8 byte_of_shift list.map power_0 div_by_1)

lemma uintByteLen_bounds:
  "u \<noteq> 0 \<Longrightarrow> unat u < 256 ^ uintByteLen u \<and> 256 ^ uintByteLen u \<le> unat u * 256"
  using unat_u64_less [of u] unat_gt_0 [of u]
  by (auto simp: uintByteLen_def word_less_nat_alt simp del: unat_gt_0)

lemma putUintBigEndian_eq: "putUintBigEndian u = (if u = 0 then [0] else nat_be (unat u))"
proof (cases "u = 0")
  case True
  then show ?thesis by (simp add: putUintBigEndian_def)
next
  case False
  with uintByteLen_bounds [of u] show ?thesis
    by (simp add: putUintBigEndian_fixed be_fixed_nat_be)
qed

lemma putUintBE_eq: "putUintBE u = putUintBigEndian u"
proof (cases "u = 0")
  case True
  then show ?thesis by (simp add: putUintBE_def putUint64_def putUintBigEndian_def)
next
  case False
  have "dropWhile (\<lambda>b. b = 0) (putUint64 u) = nat_be (unat u)"
    using unat_u64_less [of u]
    by (simp add: dropWhile_zero_nat_be putUint64_fixed be_nat_be_fixed)
  moreover have "nat_be (unat u) \<noteq> []"
    using False unat_gt_0 [of u] by auto
  ultimately show ?thesis using False
    by (auto simp: putUintBE_def putUintBigEndian_eq split: list.split)
qed

text \<open>The length prefix of a payload that fits the address space.\<close>

lemma putUint_length: "0 < n \<Longrightarrow> n < 2 ^ 64 \<Longrightarrow> putUintBigEndian (of_nat n) = nat_be n"
proof -
  assume "0 < n" and less: "n < 2 ^ 64"
  have u: "unat (of_nat n :: u64) = n" using less by (simp add: unat_of_nat)
  with \<open>0 < n\<close> have "(of_nat n :: u64) \<noteq> 0" by auto
  with u show ?thesis by (simp add: putUintBigEndian_eq)
qed

lemma putUint_long: "\<not> n < 56 \<Longrightarrow> n < 2 ^ 64 \<Longrightarrow> putUintBigEndian (of_nat n) = nat_be n"
  by (rule putUint_length) auto

lemma encodeString_rlp: "length x < 2 ^ 64 \<Longrightarrow> encodeString x = rlp_str x"
  using putUint_long [of "length x"]
  by (auto simp: encodeString_def rlp_str_def Let_def word_le_nat_alt)

lemma wrapList_rlp: "length x < 2 ^ 64 \<Longrightarrow> wrapList x = rlp_list x"
  using putUint_long [of "length x"] by (auto simp: wrapList_def rlp_list_def Let_def)

lemma length_nat_be_u64: "n < 2 ^ 64 \<Longrightarrow> length (nat_be n) \<le> 8"
  by (simp add: length_nat_be_le)

lemma rlp_str_single: "unat b < 128 \<Longrightarrow> rlp_str [b] = [b]"
  by (simp add: rlp_str_def)

lemma nat_be_byte: "0 < n \<Longrightarrow> n < 256 \<Longrightarrow> nat_be n = [of_nat n]"
  by (simp add: nat_be_pos [of n])

lemma encodeUint_rlp: "encodeUint u = rlp_str (nat_be (unat u))"
proof (cases "u = 0")
  case True
  then show ?thesis by (simp add: encodeUint_def rlp_str_def)
next
  case False
  then have pos: "0 < unat u" using unat_gt_0 [of u] by simp
  have len: "length (nat_be (unat u)) < 2 ^ 64"
    using length_nat_be_u64 [OF unat_u64_less [of u]] by simp
  show ?thesis
  proof (cases "u < 128")
    case True
    then have "unat u < 128" by (simp add: word_less_nat_alt)
    moreover from this pos have "nat_be (unat u) = [of_nat (unat u)]"
      by (intro nat_be_byte) auto
    ultimately show ?thesis
      using False True by (simp add: encodeUint_def rlp_str_def unsigned_ucast_eq take_bit_eq_mod)
  next
    case False
    then show ?thesis using \<open>u \<noteq> 0\<close> len
      by (simp add: encodeUint_def encodeString_rlp putUintBigEndian_eq)
  qed
qed

lemma encodeBigInt_rlp:
  "length (nat_be (nat \<bar>i\<bar>)) < 2 ^ 64 \<Longrightarrow> encodeBigInt i = rlp_str (nat_be (nat \<bar>i\<bar>))"
  by (auto simp: encodeBigInt_def big_bytes_def encodeString_rlp rlp_str_def)

lemma rlp_str_Nil: "rlp_str [] = [0x80]"
  by (simp add: rlp_str_def)

lemma rlp_str_of_bool: "rlp_str (nat_be (of_bool b)) = (if b then [0x01] else [0x80])"
  by (simp add: rlp_str_Nil nat_be_byte rlp_str_single)

lemma length_rlp_str_ge: "length x \<le> length (rlp_str x)"
  by (simp add: rlp_str_def)

lemma length_rlp_list_ge: "length x < length (rlp_list x)"
  by (simp add: rlp_list_def)

lemma rlp_str_fits:
  assumes "length (rlp_str x) < 2 ^ 64"
  shows "length x < 2 ^ 64" and "encodeString x = rlp_str x"
proof -
  show "length x < 2 ^ 64" using assms length_rlp_str_ge [of x] by (rule order_le_less_trans [rotated])
  then show "encodeString x = rlp_str x" by (rule encodeString_rlp)
qed

lemma rlp_list_fits:
  assumes "length (rlp_list x) < 2 ^ 64"
  shows "length x < 2 ^ 64" and "wrapList x = rlp_list x"
proof -
  show "length x < 2 ^ 64" using length_rlp_list_ge [of x] assms by (rule order_less_trans)
  then show "wrapList x = rlp_list x" by (rule wrapList_rlp)
qed

lemma wrapList_fits:
  "length (rlp_list x) < 2 ^ 64 \<Longrightarrow> (length x < 2 ^ 64 \<Longrightarrow> m = Ok x) \<Longrightarrow>
     map_ok wrapList m = Ok (rlp_list x)"
  using rlp_list_fits [of x] by simp

lemma encodeBigInt_fits:
  "length (rlp_str (nat_be (nat \<bar>i\<bar>))) < 2 ^ 64 \<Longrightarrow> encodeBigInt i = rlp_str (nat_be (nat \<bar>i\<bar>))"
  by (rule encodeBigInt_rlp) (rule rlp_str_fits)

lemmas rlp_fits = rlp_str_fits(2) encodeBigInt_fits wrapList_fits

text \<open>Refinement of the Yellow Paper's function, by induction along the encoder.\<close>

lemma encode_refines:
  shows "\<lbrakk>item_of ad v = Some i; length (rlp i) < 2 ^ 64\<rbrakk> \<Longrightarrow> encodeValue ad v = Ok (rlp i)"
    and "\<lbrakk>items_of ad vs = Some is; length (concat (map rlp is)) < 2 ^ 64\<rbrakk> \<Longrightarrow>
           encodeList ad vs = Ok (concat (map rlp is))"
    and "\<lbrakk>fields_of ad fs = Some is; length (concat (map rlp is)) < 2 ^ 64\<rbrakk> \<Longrightarrow>
           encodeStruct ad fs = Ok (concat (map rlp is))"
proof (induction ad v and ad vs and ad fs arbitrary: i and "is" and "is"
    rule: encodeValue_encodeList_encodeStruct.induct)
qed (auto simp: rlp_fits encodeUint_rlp rlp_str_Nil
      rlp_str_of_bool simp del: of_bool_eq intro!: wrapList_fits split: option.splits if_splits)

lemma encode_fails:
  shows "item_of ad v = None \<Longrightarrow> \<nexists>b. encodeValue ad v = Ok b"
    and "items_of ad vs = None \<Longrightarrow> \<nexists>b. encodeList ad vs = Ok b"
    and "fields_of ad fs = None \<Longrightarrow> \<nexists>b. encodeStruct ad fs = Ok b"
proof (induction ad v and ad vs and ad fs rule: encodeValue_encodeList_encodeStruct.induct)
qed (auto simp: bind_outcome_Ok_iff map_ok_Ok_iff split: option.splits if_splits)

section \<open>The encoder against its specification\<close>

text \<open>
  C20. The reflection encoder computes the Yellow Paper's RLP: a value that stands for an
  item \<open>i\<close> is encoded as \<open>rlp i\<close>, and a value that stands for no item is never encoded.
\<close>

theorem encodeValue_implements_rlp:
  assumes "\<forall>i. item_of ad v = Some i \<longrightarrow> length (rlp i) < 2 ^ 64"
  shows "case item_of ad v of
           Some i \<Rightarrow> encodeValue ad v = Ok (rlp i)
         | None \<Rightarrow> (\<forall>b. encodeValue ad v \<noteq> Ok b)"
  using assms encode_refines(1) [of ad v] encode_fails(1) [of ad v] by (cases "item_of ad v") auto

theorem encodeValue_implements_rlp_witness:
  "encodeValue False (VStruct [(True, VUint 1024), (False, VOther), (True, VSlice [VString []])])
     = Ok [0xc5, 0x82, 0x04, 0x00, 0xc1, 0x80]"
proof -
  let ?v = "VStruct [(True, VUint 1024), (False, VOther), (True, VSlice [VString []])]"
  have i: "item_of False ?v = Some (RList [RStr [4, 0], RList [RStr []]])"
    by (simp add: nat_be.simps)
  have r: "rlp (RList [RStr [4, 0], RList [RStr []]]) = [0xc5, 0x82, 0x04, 0x00, 0xc1, 0x80]"
    by (simp add: rlp_str_def rlp_list_def)
  from i r show ?thesis
    using encodeValue_implements_rlp [of False ?v] by simp
qed

text \<open>
  The reflection-free fast paths of the encoder pool produce the bytes of the
  reflection encoder: fixed-width values, appends to a buffer, and list headers.
\<close>

theorem fast_paths_agree:
  "EncodeUint64 u = encodeUint u
   \<and> AppendUint64 dst u = dst @ encodeUint u
   \<and> AppendBytes dst x = dst @ encodeString x
   \<and> AppendListHeader dst (length x) @ x = dst @ wrapList x
   \<and> EncodeBool b = rlp_str (nat_be (of_bool b))
   \<and> (length x = 32 \<longrightarrow> EncodeBytes32 x = encodeString x)
   \<and> (length x = 20 \<longrightarrow> EncodeBytes20 x = encodeString x)"
proof -
  have len: "1 < length (putUintBigEndian u) \<or> \<not> hd (putUintBigEndian u) \<le> 0x7f"
      "length (putUintBigEndian u) \<le> 55" if "\<not> u < 128"
  proof -
    have "u \<noteq> 0" using that by auto
    have "128 \<le> unat u" using that by (simp add: word_less_nat_alt)
    have eq: "putUintBigEndian u = nat_be (unat u)" using \<open>u \<noteq> 0\<close> by (simp add: putUintBigEndian_eq)
    show "length (putUintBigEndian u) \<le> 55"
      using length_nat_be_u64 [OF unat_u64_less [of u]] by (simp add: eq)
    show "1 < length (putUintBigEndian u) \<or> \<not> hd (putUintBigEndian u) \<le> 0x7f"
    proof (cases "unat u < 256")
      case True
      then show ?thesis
        using \<open>128 \<le> unat u\<close>
        by (simp add: eq nat_be_byte word_le_nat_alt unsigned_ucast_eq take_bit_eq_mod)
    next
      case False
      then have "\<not> length (nat_be (unat u)) \<le> 1" by (simp add: length_nat_be_le)
      then show ?thesis by (simp add: eq)
    qed
  qed
  have "EncodeUint64 u = encodeUint u"
    using len by (auto simp: EncodeUint64_def encodeUint_def encodeString_def putUintBE_eq Let_def)
  moreover have "AppendUint64 dst u = dst @ EncodeUint64 u"
    by (simp add: AppendUint64_def EncodeUint64_def Let_def)
  moreover have "AppendBytes dst x = dst @ encodeString x"
    by (cases x) (simp_all add: AppendBytes_def encodeString_def putUintBE_eq Let_def)
  moreover have "AppendListHeader dst (length x) @ x = dst @ wrapList x"
    by (simp add: AppendListHeader_def wrapList_def putUintBE_eq Let_def)
  ultimately show ?thesis
    by (simp add: EncodeBool_def rlp_str_of_bool EncodeBytes32_def EncodeBytes20_def
        encodeString_def Let_def del: of_bool_eq)
qed

theorem fast_paths_agree_witness:
  "EncodeBytes20 (replicate 20 7) = encodeString (replicate 20 7)
   \<and> EncodeUint64 1024 = encodeUint 1024"
  using fast_paths_agree [of 1024 "[]" "replicate 20 7" True] by simp

text \<open>
  The size estimates used to pre-allocate buffers are exact for every list payload and
  for every string of a length other than 1.  For a single byte above \<open>0x7f\<close> the estimate
  is one too small: the code takes the best case where its comment announces the worst.
\<close>

theorem size_estimates:
  "EstimateListSize (length x) = length (wrapList x)
   \<and> (length x \<noteq> 1 \<longrightarrow> EstimateStringSize (length x) = length (encodeString x))
   \<and> (0x7f < b \<longrightarrow> length (encodeString [b]) = Suc (EstimateStringSize (length [b])))"
  by (auto simp: EstimateListSize_def EstimateStringSize_def wrapList_def encodeString_def Let_def
      putUintBigEndian_fixed)

theorem size_estimates_witness:
  "length (encodeString [0x80]) = Suc (EstimateStringSize 1)
   \<and> EstimateStringSize 60 = length (encodeString (replicate 60 1))"
  using size_estimates [of "replicate 60 1" "0x80"] by simp

end
