(* ===== verification/Rlp_Decode.thy ===== *)
theory Rlp_Decode
  imports Rlp_Encode
begin

text \<open>
  The RLP stream decoder, \<^verbatim>\<open>src/pkg/rlp/decode.go\<close>: the positions and list scopes of
  \<open>Stream\<close>, its readers, and the reflection decoder \<open>decodeInto\<close>.  All position
  arithmetic is on Go's \<open>int\<close> and wraps; slice expressions that can go out of range are
  the value \<open>Panic\<close>.  A loop that may not stop carries fuel; running out of it is \<open>None\<close>.
\<close>

section \<open>Streams\<close>

datatype kind = Byte | String | List

text \<open>
  The scope stack of the source grows at its end; here the innermost scope is the head.
\<close>

record stream =
  s_data :: bytes
  s_pos :: int
  s_stack :: "int list"

definition newByteStream :: "bytes \<Rightarrow> stream" where
  "newByteStream data = \<lparr>s_data = data, s_pos = 0, s_stack = []\<rparr>"

definition limit :: "stream \<Rightarrow> int" where
  "limit s = (case s_stack s of [] \<Rightarrow> int (length (s_data s)) | end' # _ \<Rightarrow> end')"

text \<open>The read \<open>s.data[i]\<close>.\<close>

definition data_at :: "stream \<Rightarrow> int \<Rightarrow> byte option" where
  "data_at s i =
     (if 0 \<le> i \<and> i < int (length (s_data s)) then Some (s_data s ! nat i) else None)"

definition readBigEndian :: "bytes \<Rightarrow> u64" where
  "readBigEndian b = foldl (\<lambda>val x. push_bit 8 val OR ucast x) 0 b"

type_synonym 'a reader = "stream \<Rightarrow> (rlp_error, 'a) outcome \<times> stream"

definition Kind :: "(kind \<times> u64) reader" where
  "Kind s =
     (let lim = limit s; pos = s_pos s in
      if pos \<ge> lim then (Err EOF, s)
      else case data_at s pos of None \<Rightarrow> (Panic, s) | Some prefix \<Rightarrow>
        if prefix \<le> 0x7f then (Ok (Byte, 1), s)
        else if prefix \<le> 0xb7 then (Ok (String, ucast (prefix - 0x80)), s)
        else if prefix \<le> 0xbf then
          (let lenOfLen = int (unat (prefix - 0xb7)) in
           if wrap64 (pos + 1 + lenOfLen) > lim then (Err ErrUnexpectedEOF, s)
           else case go_slice (s_data s) (wrap64 (pos + 1)) (wrap64 (pos + 1 + lenOfLen)) of
               None \<Rightarrow> (Panic, s)
             | Some sizeBytes \<Rightarrow> (Ok (String, readBigEndian sizeBytes), s))
        else if prefix \<le> 0xf7 then (Ok (List, ucast (prefix - 0xc0)), s)
        else
          (let lenOfLen = int (unat (prefix - 0xf7)) in
           if wrap64 (pos + 1 + lenOfLen) > lim then (Err ErrUnexpectedEOF, s)
           else case go_slice (s_data s) (wrap64 (pos + 1)) (wrap64 (pos + 1 + lenOfLen)) of
               None \<Rightarrow> (Panic, s)
             | Some sizeBytes \<Rightarrow> (Ok (List, readBigEndian sizeBytes), s)))"

text \<open>
  The common ending of the branches of \<open>readItem\<close>: slice the payload, move the position.
\<close>

definition take_payload :: "kind \<Rightarrow> int \<Rightarrow> int \<Rightarrow> int \<Rightarrow> (kind \<times> bytes \<times> int) reader" where
  "take_payload k start end' tot s =
     (case go_slice (s_data s) start end' of
        None \<Rightarrow> (Panic, s)
      | Some payload \<Rightarrow> (Ok (k, payload, tot), s\<lparr>s_pos := end'\<rparr>))"

text \<open>
  The long forms of strings and lists share their code; they differ in the kind and in the
  byte the length of the length is counted from.  \<open>long_size\<close> is the part up to the check
  \<open>size <= 55\<close>, which \<open>List\<close> has as well.
\<close>

definition long_size :: "byte \<Rightarrow> byte \<Rightarrow> stream \<Rightarrow> (rlp_error, int \<times> int) outcome" where
  "long_size base prefix s =
     (let lenOfLen = int (unat (prefix - base)); pos = s_pos s in
      if wrap64 (pos + 1 + lenOfLen) > limit s then Err ErrUnexpectedEOF
      else case go_slice (s_data s) (wrap64 (pos + 1)) (wrap64 (pos + 1 + lenOfLen)) of
          None \<Rightarrow> Panic
        | Some sizeBytes \<Rightarrow>
            if sizeBytes \<noteq> [] \<and> hd sizeBytes = 0 then Err ErrCanonInt
            else let size = int_of_u64 (readBigEndian sizeBytes) in
              if size \<le> 55 then Err ErrNonCanonicalSize else Ok (lenOfLen, size))"

definition readLong :: "kind \<Rightarrow> byte \<Rightarrow> byte \<Rightarrow> (kind \<times> bytes \<times> int) reader" where
  "readLong k base prefix s =
     (case long_size base prefix s of
        Err e \<Rightarrow> (Err e, s)
      | Panic \<Rightarrow> (Panic, s)
      | Ok (lenOfLen, sz) \<Rightarrow>
          (let start = wrap64 (s_pos s + 1 + lenOfLen); end' = wrap64 (start + sz) in
           if end' > limit s then (Err ErrUnexpectedEOF, s)
           else take_payload k start end' (wrap64 (1 + lenOfLen + sz)) s))"

definition readItem :: "(kind \<times> bytes \<times> int) reader" where
  "readItem s =
     (let lim = limit s; pos = s_pos s in
      if pos \<ge> lim then (Err EOF, s)
      else case data_at s pos of None \<Rightarrow> (Panic, s) | Some prefix \<Rightarrow>
        if prefix \<le> 0x7f then take_payload Byte pos (wrap64 (pos + 1)) 1 s
        else if prefix \<le> 0xb7 then
          (let size = int (unat (prefix - 0x80)); start = wrap64 (pos + 1);
               end' = wrap64 (start + size) in
           if end' > lim then (Err ErrUnexpectedEOF, s)
           else if size = 1 \<and> data_at s start = None then (Panic, s)
           else if size = 1 \<and> the (data_at s start) \<le> 0x7f then (Err ErrCanonSize, s)
           else take_payload String start end' (1 + size) s)
        else if prefix \<le> 0xbf then readLong String 0xb7 prefix s
        else if prefix \<le> 0xf7 then
          (let size = int (unat (prefix - 0xc0)); start = wrap64 (pos + 1);
               end' = wrap64 (start + size) in
           if end' > lim then (Err ErrUnexpectedEOF, s)
           else take_payload List start end' (1 + size) s)
        else readLong List 0xf7 prefix s)"

definition Bytes :: "bytes reader" where
  "Bytes s =
     (case readItem s of
        (Ok (k, payload, _), s') \<Rightarrow>
          (if k = Byte \<or> k = String then (Ok payload, s') else (Err ErrExpectedString, s'))
      | (Err e, s') \<Rightarrow> (Err e, s')
      | (Panic, s') \<Rightarrow> (Panic, s'))"

definition List_open :: "u64 reader" where
  "List_open s =
     (if s_pos s \<ge> limit s then (Err EOF, s)
      else case data_at s (s_pos s) of None \<Rightarrow> (Panic, s) | Some prefix \<Rightarrow>
        case (if 0xc0 \<le> prefix \<and> prefix \<le> 0xf7 then
                Ok (wrap64 (s_pos s + 1), int (unat (prefix - 0xc0)))
              else if prefix > 0xf7 then
                map_ok (\<lambda>(lenOfLen, sz). (wrap64 (s_pos s + 1 + lenOfLen), sz))
                  (long_size 0xf7 prefix s)
              else Err ErrExpectedList) of
          Err e \<Rightarrow> (Err e, s)
        | Panic \<Rightarrow> (Panic, s)
        | Ok (payloadStart, sz) \<Rightarrow>
            (let payloadEnd = wrap64 (payloadStart + sz) in
             if payloadEnd > limit s then (Err ErrUnexpectedEOF, s)
             else (Ok (word_of_int (payloadEnd - payloadStart)),
                   s\<lparr>s_stack := payloadEnd # s_stack s, s_pos := payloadStart\<rparr>)))"

definition AtListEnd :: "stream \<Rightarrow> bool" where
  "AtListEnd s =
     (case s_stack s of [] \<Rightarrow> s_pos s \<ge> int (length (s_data s)) | end' # _ \<Rightarrow> s_pos s \<ge> end')"

definition ListEnd :: "unit reader" where
  "ListEnd s =
     (case s_stack s of
        [] \<Rightarrow> (Err ErrExpectedList, s)
      | end' # rest \<Rightarrow>
          if s_pos s \<noteq> end' then (Err ErrEOL, s) else (Ok (), s\<lparr>s_stack := rest\<rparr>))"

definition Uint64 :: "u64 reader" where
  "Uint64 s =
     (case Bytes s of
        (Ok b, s') \<Rightarrow>
          if length b = 0 then (Ok 0, s')
          else if length b > 8 then (Err ErrUint64Range, s')
          else if length b > 1 \<and> hd b = 0 then (Err ErrCanonInt, s')
          else (Ok (readBigEndian b), s')
      | (Err e, s') \<Rightarrow> (Err e, s')
      | (Panic, s') \<Rightarrow> (Panic, s'))"

definition BigInt :: "int reader" where
  "BigInt s =
     (case Bytes s of
        (Ok b, s') \<Rightarrow>
          if length b > 1 \<and> hd b = 0 then (Err ErrCanonInt, s')
          else (Ok (big_set_bytes b), s')
      | (Err e, s') \<Rightarrow> (Err e, s')
      | (Panic, s') \<Rightarrow> (Panic, s'))"

text \<open>\<open>RawItem\<close> performs none of the canonicity checks of \<open>readItem\<close>.\<close>

definition raw_take :: "int \<Rightarrow> bytes reader" where
  "raw_take end' s =
     (if end' > limit s then (Err ErrUnexpectedEOF, s)
      else case go_slice (s_data s) (s_pos s) end' of
          None \<Rightarrow> (Panic, s\<lparr>s_pos := end'\<rparr>)
        | Some raw \<Rightarrow> (Ok raw, s\<lparr>s_pos := end'\<rparr>))"

definition raw_long :: "byte \<Rightarrow> byte \<Rightarrow> bytes reader" where
  "raw_long base prefix s =
     (let lenOfLen = int (unat (prefix - base)); pos = s_pos s in
      if wrap64 (pos + 1 + lenOfLen) > limit s then (Err ErrUnexpectedEOF, s)
      else case go_slice (s_data s) (wrap64 (pos + 1)) (wrap64 (pos + 1 + lenOfLen)) of
          None \<Rightarrow> (Panic, s)
        | Some sizeBytes \<Rightarrow>
            raw_take (wrap64 (pos + 1 + lenOfLen + int_of_u64 (readBigEndian sizeBytes))) s)"

definition RawItem :: "bytes reader" where
  "RawItem s =
     (let pos = s_pos s in
      if pos \<ge> limit s then (Err EOF, s)
      else case data_at s pos of None \<Rightarrow> (Panic, s) | Some prefix \<Rightarrow>
        if prefix \<le> 0x7f then
          (case go_slice (s_data s) pos (wrap64 (pos + 1)) of
             None \<Rightarrow> (Panic, s\<lparr>s_pos := wrap64 (pos + 1)\<rparr>)
           | Some raw \<Rightarrow> (Ok raw, s\<lparr>s_pos := wrap64 (pos + 1)\<rparr>))
        else if prefix \<le> 0xb7 then raw_take (wrap64 (pos + 1 + int (unat (prefix - 0x80)))) s
        else if prefix \<le> 0xbf then raw_long 0xb7 prefix s
        else if prefix \<le> 0xf7 then raw_take (wrap64 (pos + 1 + int (unat (prefix - 0xc0)))) s
        else raw_long 0xf7 prefix s)"

definition peekItem :: "(kind \<times> bytes \<times> int) reader" where
  "peekItem s = (let (r, s') = readItem s in (r, s'\<lparr>s_pos := s_pos s\<rparr>))"

section \<open>The reflection decoder\<close>

text \<open>
  The static type of a decoding target, as far as \<open>decodeInto\<close> distinguishes types.
  \<open>TUint w\<close> and \<open>TInt w\<close> are the integer types of \<open>w\<close> bits; a struct type lists its
  fields with their export flag; \<open>TOther\<close> covers interfaces, maps, floats and the rest.
\<close>

datatype gotype =
    TBool
  | TUint nat
  | TInt nat
  | TBig
  | TString
  | TBytes
  | TByteArray nat
  | TSlice gotype
  | TArray nat gotype
  | TStruct "(bool \<times> gotype) list"
  | TPtr gotype
  | TOther

text \<open>The zero value of a type.\<close>

fun zero_val :: "gotype \<Rightarrow> goval"
  and zero_fields :: "(bool \<times> gotype) list \<Rightarrow> (bool \<times> goval) list" where
  "zero_val TBool = VBool False"
| "zero_val (TUint w) = VUint 0"
| "zero_val (TInt w) = VInt 0"
| "zero_val TBig = VBig 0"
| "zero_val TString = VString []"
| "zero_val TBytes = VBytes []"
| "zero_val (TByteArray n) = VByteArray (replicate n 0)"
| "zero_val (TSlice t) = VSlice []"
| "zero_val (TArray n t) = VArray (replicate n (zero_val t))"
| "zero_val (TStruct ts) = VStruct (zero_fields ts)"
| "zero_val (TPtr t) = VPtr None"
| "zero_val TOther = VOther"
| "zero_fields [] = []"
| "zero_fields ((exported, t) # ts) = (exported, zero_val t) # zero_fields ts"

text \<open>\<open>v.SetUint(u)\<close> and \<open>v.SetInt(int64(u))\<close> keep the low \<open>w\<close> bits, without an error.\<close>

definition set_uint :: "nat \<Rightarrow> u64 \<Rightarrow> goval" where
  "set_uint w u = VUint (take_bit w u)"

definition set_int :: "nat \<Rightarrow> u64 \<Rightarrow> goval" where
  "set_int w u = VInt (signed_take_bit (w - 1) u)"

text \<open>A pointer to one of these types takes the empty string as its nil marker.\<close>

fun is_list_type :: "gotype \<Rightarrow> bool" where
  "is_list_type (TArray n t) = True"
| "is_list_type (TStruct ts) = True"
| "is_list_type _ = False"

type_synonym 'a decoded = "(rlp_error, 'a \<times> stream) outcome option"

definition of_reader :: "'a reader \<Rightarrow> ('a \<Rightarrow> 'b) \<Rightarrow> stream \<Rightarrow> 'b decoded" where
  "of_reader r f s =
     (case r s of
        (Ok a, s') \<Rightarrow> Some (Ok (f a, s'))
      | (Err e, s') \<Rightarrow> Some (Err e)
      | (Panic, s') \<Rightarrow> Some Panic)"

definition bind_decoded :: "'a decoded \<Rightarrow> ('a \<Rightarrow> stream \<Rightarrow> 'b decoded) \<Rightarrow> 'b decoded" where
  "bind_decoded m f =
     (case m of
        Some (Ok (a, s)) \<Rightarrow> f a s
      | Some (Err e) \<Rightarrow> Some (Err e)
      | Some Panic \<Rightarrow> Some Panic
      | None \<Rightarrow> None)"

text \<open>The Boolean target accepts the empty string, \<open>0x00\<close> and \<open>0x01\<close>.\<close>

definition decode_bool :: "bool reader" where
  "decode_bool s =
     (case Bytes s of
        (Ok b, s') \<Rightarrow>
          if b = [] then (Ok False, s')
          else if b = [0x01] then (Ok True, s')
          else if b = [0x00] then (Ok False, s')
          else (Err ErrCanonInt, s')
      | (Err e, s') \<Rightarrow> (Err e, s')
      | (Panic, s') \<Rightarrow> (Panic, s'))"

text \<open>
  The loop of \<open>decodeList\<close>.  \<open>vs\<close> is the current content of the target and \<open>i\<close> the loop
  counter, a Go \<open>int\<close>.  A slice grows when \<open>i\<close> reaches its length; an array does not, and
  once \<open>i\<close> has passed its length an iteration reads nothing.
\<close>

fun list_loop :: "nat \<Rightarrow> (goval \<Rightarrow> stream \<Rightarrow> goval decoded) \<Rightarrow> bool \<Rightarrow> goval \<Rightarrow>
    goval list \<Rightarrow> int \<Rightarrow> stream \<Rightarrow> goval list decoded" where
  "list_loop 0 dec isSlice z vs i s = None"
| "list_loop (Suc fuel) dec isSlice z vs i s =
     (case s_stack s of
        [] \<Rightarrow> Some Panic
      | end' # _ \<Rightarrow>
          if s_pos s < end' then
            (let vs' = (if isSlice \<and> i \<ge> int (length vs) then vs @ [z] else vs) in
             if i < int (length vs') then
               (if i < 0 then Some Panic
                else bind_decoded (dec (vs' ! nat i) s) (\<lambda>v s'.
                  list_loop fuel dec isSlice z (vs'[nat i := v]) (wrap64 (i + 1)) s'))
             else list_loop fuel dec isSlice z vs' (wrap64 (i + 1)) s)
          else of_reader ListEnd (\<lambda>_. vs) s)"

text \<open>
  \<open>decodeInto fuel t old s\<close> decodes the next item into a target of type \<open>t\<close> that holds
  \<open>old\<close> and returns the new content; \<open>fuel\<close> bounds the iterations of each list loop.
\<close>

fun as_list :: "goval \<Rightarrow> goval list" where
  "as_list (VSlice vs) = vs"
| "as_list (VArray vs) = vs"
| "as_list _ = []"

fun as_bytes :: "goval \<Rightarrow> bytes" where
  "as_bytes (VByteArray b) = b"
| "as_bytes (VBytes b) = b"
| "as_bytes _ = []"

fun as_fields :: "goval \<Rightarrow> (bool \<times> goval) list" where
  "as_fields (VStruct fs) = fs"
| "as_fields _ = []"

fun decodeInto :: "nat \<Rightarrow> gotype \<Rightarrow> goval \<Rightarrow> stream \<Rightarrow> goval decoded"
  and decodeFields :: "nat \<Rightarrow> (bool \<times> gotype) list \<Rightarrow> (bool \<times> goval) list \<Rightarrow> stream \<Rightarrow>
    (bool \<times> goval) list decoded" where
  "decodeInto fuel TBig old s = of_reader BigInt VBig s"
| "decodeInto fuel (TPtr t) old s =
     (if is_list_type t \<and> fst (Kind s) = Ok (String, 0)
      then Some (Ok (old, s\<lparr>s_pos := wrap64 (s_pos s + 1)\<rparr>))
      else if t = TBig then of_reader BigInt (\<lambda>i. VPtr (Some (VBig i))) s
      else bind_decoded
        (decodeInto fuel t (case old of VPtr (Some v) \<Rightarrow> v | _ \<Rightarrow> zero_val t) s)
        (\<lambda>v s'. Some (Ok (VPtr (Some v), s'))))"
| "decodeInto fuel TBool old s = of_reader decode_bool VBool s"
| "decodeInto fuel (TUint w) old s = of_reader Uint64 (set_uint w) s"
| "decodeInto fuel (TInt w) old s = of_reader Uint64 (set_int w) s"
| "decodeInto fuel TString old s = of_reader Bytes VString s"
| "decodeInto fuel TBytes old s = of_reader Bytes VBytes s"
| "decodeInto fuel (TByteArray n) old s =
     of_reader Bytes (\<lambda>b. VByteArray (take n b @ drop (length b) (as_bytes old))) s"
| "decodeInto fuel (TSlice t) old s =
     bind_decoded (of_reader List_open id s) (\<lambda>_ s1.
       bind_decoded
         (list_loop fuel (\<lambda>v s'. decodeInto fuel t v s') True (zero_val t) (as_list old) 0 s1)
         (\<lambda>vs s2. Some (Ok (VSlice vs, s2))))"
| "decodeInto fuel (TArray n t) old s =
     bind_decoded (of_reader List_open id s) (\<lambda>_ s1.
       bind_decoded
         (list_loop fuel (\<lambda>v s'. decodeInto fuel t v s') False (zero_val t) (as_list old) 0 s1)
         (\<lambda>vs s2. Some (Ok (VArray vs, s2))))"
| "decodeInto fuel (TStruct ts) old s =
     bind_decoded (of_reader List_open id s) (\<lambda>_ s1.
       bind_decoded (decodeFields fuel ts (as_fields old) s1) (\<lambda>fs s2.
         of_reader ListEnd (\<lambda>_. VStruct fs) s2))"
| "decodeInto fuel TOther old s = Some (Err ErrExpectedString)"
| "decodeFields fuel [] olds s = Some (Ok ([], s))"
| "decodeFields fuel ((exported, t) # ts) olds s =
     (let old = (case olds of [] \<Rightarrow> zero_val t | (_, v) # _ \<Rightarrow> v) in
      if \<not> exported then
        bind_decoded (decodeFields fuel ts (tl olds) s) (\<lambda>fs s'.
          Some (Ok ((exported, old) # fs, s')))
      else
        bind_decoded (decodeInto fuel t old s) (\<lambda>v s1.
          bind_decoded (decodeFields fuel ts (tl olds) s1) (\<lambda>fs s2.
            Some (Ok ((exported, v) # fs, s2)))))"

definition DecodeBytes :: "nat \<Rightarrow> bytes \<Rightarrow> gotype \<Rightarrow> goval \<Rightarrow> goval decoded" where
  "DecodeBytes fuel b t old = decodeInto fuel t old (newByteStream b)"

end
