(* ===== verification/Rlp_Roundtrip.thy ===== *)
theory Rlp_Roundtrip
  imports Rlp_Decode
begin

text \<open>
  Correctness of the RLP stream decoder against the encoding of \<open>Rlp_Encode\<close>: what each reader
  does on an encoded item, the typed round trip through \<open>decodeInto\<close>, the canonicity of what
  \<open>readItem\<close> accepts, unique decodability, and the two inputs on which the decoder
  neither returns a value nor an error.
\<close>

section \<open>Well-formed streams\<close>

lemma readBigEndian_snoc: "readBigEndian (b @ [x]) = push_bit 8 (readBigEndian b) OR ucast x"
  by (simp add: readBigEndian_def)

lemma shift_or_byte:
  fixes v :: u64 and x :: byte
  assumes "unat v < 2 ^ 56"
  shows "unat (push_bit 8 v OR ucast x) = unat v * 256 + unat x"
proof -
  have "push_bit 8 v OR ucast x = push_bit 8 v + ucast x"
    by (rule disjunctive_add_eq_or [symmetric]) (auto simp: bit_simps bit_eq_iff dest: bit_imp_le_length)
  moreover have "unat (push_bit 8 v) = unat v * 256"
    using assms by (simp add: push_bit_eq_mult unat_word_ariths)
  moreover have "unat (ucast x :: u64) = unat x"
    using unat_byte_less [of x] by (simp add: unsigned_ucast_eq take_bit_eq_mod)
  ultimately show ?thesis
    using assms unat_byte_less [of x] by (simp add: unat_word_ariths)
qed

lemma readBigEndian_be_nat: "length b \<le> 8 \<Longrightarrow> unat (readBigEndian b) = be_nat b"
proof (induction b rule: rev_induct)
  case Nil then show ?case by (simp add: readBigEndian_def)
next
  case (snoc x b)
  then have "be_nat b < 256 ^ length b" "length b \<le> 7" by (simp_all add: be_nat_less)
  then have "be_nat b < 256 ^ 7" by (meson order_less_le_trans power_increasing one_le_numeral)
  with snoc show ?case by (simp add: readBigEndian_snoc shift_or_byte be_nat_snoc)
qed

definition max_len :: int where "max_len = 2 ^ 62"

definition wf_stream :: "stream \<Rightarrow> bool" where
  "wf_stream s \<longleftrightarrow> 0 \<le> s_pos s \<and> int (length (s_data s)) \<le> max_len
     \<and> sorted (s_pos s # s_stack s @ [int (length (s_data s))])"

definition remaining :: "stream \<Rightarrow> bytes" where
  "remaining s = drop (nat (s_pos s)) (s_data s)"

lemma wf_limit: "wf_stream s \<Longrightarrow> s_pos s \<le> limit s \<and> limit s \<le> int (length (s_data s))"
  by (auto simp: wf_stream_def limit_def split: list.split)

lemma wf_pos: "wf_stream s \<Longrightarrow> 0 \<le> s_pos s"
  by (simp add: wf_stream_def)

lemma wf_len: "wf_stream s \<Longrightarrow> int (length (s_data s)) \<le> 2 ^ 62"
  by (simp add: wf_stream_def max_len_def)

lemma wf_advance: "wf_stream s \<Longrightarrow> s_pos s \<le> p \<Longrightarrow> p \<le> limit s \<Longrightarrow> wf_stream (s\<lparr>s_pos := p\<rparr>)"
  by (auto simp: wf_stream_def limit_def split: list.splits)

lemma remaining_length: "wf_stream s \<Longrightarrow>
   int (length (remaining s)) = int (length (s_data s)) - s_pos s"
  using wf_limit [of s] wf_pos [of s] by (auto simp: remaining_def of_nat_diff nat_le_iff)

lemma data_at_remaining:
  "wf_stream s \<Longrightarrow> i < length (remaining s) \<Longrightarrow> data_at s (s_pos s + int i) = Some (remaining s ! i)"
  using remaining_length [of s] wf_pos [of s]
  by (auto simp: data_at_def remaining_def nat_add_distrib)

lemma go_slice_remaining:
  assumes "wf_stream s" "i \<le> j" "j \<le> length (remaining s)"
  shows "go_slice (s_data s) (s_pos s + int i) (s_pos s + int j) = Some (take (j - i) (drop i (remaining s)))"
proof -
  have "nat (s_pos s + int i) = i + nat (s_pos s)" using wf_pos [OF assms(1)] by simp
  moreover have "nat (int j - int i) = j - i" using assms(2) by linarith
  ultimately show ?thesis
    using assms remaining_length [of s] wf_pos [of s]
    by (auto simp: go_slice_def remaining_def)
qed

lemma remaining_advance:
  "wf_stream s \<Longrightarrow> remaining (s\<lparr>s_pos := s_pos s + int n\<rparr>) = drop n (remaining s)"
  using wf_pos [of s] by (simp add: remaining_def nat_add_distrib add.commute)

text \<open>Position arithmetic does not wrap inside a well-formed stream.\<close>

lemma wrap_pos: "wf_stream s \<Longrightarrow> 0 \<le> i \<Longrightarrow> i \<le> 2 ^ 62 - 1 \<Longrightarrow> wrap64 (s_pos s + i) = s_pos s + i"
  using wf_limit [of s] wf_pos [of s] wf_len [of s] by (intro wrap64_id) auto

lemma length_nat_be_max: "n \<le> 2 ^ 62 \<Longrightarrow> length (nat_be n) \<le> 8"
  by (rule length_nat_be_u64) simp

lemma byte_offset: "l < 256 \<Longrightarrow> unat ((base + of_nat l :: byte) - base) = l"
  by (simp add: unat_of_nat_byte)

lemma int_of_readBigEndian:
  "n \<le> 2 ^ 62 \<Longrightarrow> int_of_u64 (readBigEndian (nat_be n)) = int n"
  by (subst int_of_u64_small) (simp_all add: readBigEndian_be_nat length_nat_be_max)

lemma long_size_ok:
  assumes wf: "wf_stream s" and rem: "remaining s = (base + of_nat (length (nat_be n))) # nat_be n @ r"
    and n: "56 \<le> n" "n \<le> 2 ^ 62" and lim: "s_pos s + 1 + int (length (nat_be n)) \<le> limit s"
  shows "long_size base (base + of_nat (length (nat_be n))) s = Ok (int (length (nat_be n)), int n)"
proof -
  let ?l = "length (nat_be n)"
  have l: "?l \<le> 8" using n by (intro length_nat_be_max) auto
  have off: "unat ((base + of_nat ?l) - base) = ?l" using l by (intro byte_offset) auto
  have w1: "wrap64 (s_pos s + 1) = s_pos s + int 1" using wrap_pos [OF wf, of 1] by simp
  have w2: "wrap64 (s_pos s + 1 + int ?l) = s_pos s + int (1 + ?l)"
    using wrap_pos [OF wf, of "1 + int ?l"] l by (simp add: add.assoc)
  have sl: "go_slice (s_data s) (s_pos s + int 1) (s_pos s + int (1 + ?l)) = Some (nat_be n)"
    using go_slice_remaining [OF wf, of 1 "1 + ?l"] rem by simp
  have "hd (nat_be n) \<noteq> 0" using n by (intro hd_nat_be) auto
  with lim n show ?thesis
    unfolding long_size_def Let_def off w1 w2 sl by (simp add: int_of_readBigEndian)
qed

lemma take_payload_ok:
  assumes "wf_stream s" "i \<le> j" "j \<le> length (remaining s)"
  shows "take_payload k (s_pos s + int i) (s_pos s + int j) t s =
     (Ok (k, take (j - i) (drop i (remaining s)), t), s\<lparr>s_pos := s_pos s + int j\<rparr>)"
  by (simp add: take_payload_def go_slice_remaining [OF assms])

lemma readLong_ok:
  assumes wf: "wf_stream s"
    and rem: "remaining s = (base + of_nat (length (nat_be (length x)))) # nat_be (length x) @ x @ r"
    and n: "56 \<le> length x" "length x \<le> 2 ^ 62"
    and lim: "s_pos s + int (1 + length (nat_be (length x)) + length x) \<le> limit s"
  shows "readLong k base (base + of_nat (length (nat_be (length x)))) s =
     (Ok (k, x, int (1 + length (nat_be (length x)) + length x)),
      s\<lparr>s_pos := s_pos s + int (1 + length (nat_be (length x)) + length x)\<rparr>)"
proof -
  let ?l = "length (nat_be (length x))" and ?n = "length x"
  have l: "?l \<le> 8" using n by (intro length_nat_be_max) auto
  have ls: "long_size base (base + of_nat ?l) s = Ok (int ?l, int ?n)"
    using wf rem n lim by (intro long_size_ok) auto
  have fits: "int (1 + ?l + ?n) \<le> 2 ^ 62"
    using lim wf_limit [OF wf] wf_pos [OF wf] wf_len [OF wf] by linarith
  have w: "wrap64 (s_pos s + 1 + int ?l) = s_pos s + int (1 + ?l)"
    using wrap_pos [OF wf, of "1 + int ?l"] l by (simp add: add.assoc)
  have w2: "wrap64 (s_pos s + int (1 + ?l) + int ?n) = s_pos s + int (1 + ?l + ?n)"
    using lim wf_limit [OF wf] wf_pos [OF wf] wf_len [OF wf]
    by (subst wrap64_id) (auto simp: algebra_simps)
  have w3: "wrap64 (1 + int ?l + int ?n) = int (1 + ?l + ?n)"
    using fits by (subst wrap64_id) auto
  show ?thesis
    unfolding readLong_def ls Let_def outcome.case prod.case w w2 w3
    using lim rem by (simp add: take_payload_ok [OF wf, of "1 + ?l" "1 + ?l + ?n", simplified])
qed


lemma fits_length: "wf_stream s \<Longrightarrow> s_pos s + int n \<le> limit s \<Longrightarrow> n \<le> 2 ^ 62"
  using wf_limit [of s] wf_pos [of s] wf_len [of s] by simp

lemma head_at:
  assumes "wf_stream s" "remaining s = h # r" "s_pos s + 1 \<le> limit s"
  shows "data_at s (s_pos s) = Some h" "\<not> limit s \<le> s_pos s"
  using data_at_remaining [of s 0] assms by auto

lemma short_wraps:
  assumes "wf_stream s" "n \<le> 55"
  shows "wrap64 (s_pos s + 1) = s_pos s + int 1"
    and "wrap64 (s_pos s + int 1 + int n) = s_pos s + int (1 + n)"
  using wrap_pos [OF assms(1), of 1] wrap_pos [OF assms(1), of "1 + int n"] assms(2)
  by (simp_all add: add.assoc)

lemma readItem_str:
  assumes wf: "wf_stream s" and rem: "remaining s = rlp_str x @ r"
    and lim: "s_pos s + int (length (rlp_str x)) \<le> limit s"
  shows "\<exists>k. (k = Byte \<or> k = String) \<and> readItem s =
     (Ok (k, x, int (length (rlp_str x))), s\<lparr>s_pos := s_pos s + int (length (rlp_str x))\<rparr>)"
proof -
  let ?n = "length x"
  consider (single) "?n = 1 \<and> unat (hd x) < 128"
    | (short) "\<not> (?n = 1 \<and> unat (hd x) < 128)" "?n \<le> 55"
    | (long) "56 \<le> ?n"
    by linarith
  then show ?thesis
  proof cases
    case single
    then obtain b where b: "x = [b]" "unat b < 128" by (cases x) auto
    then have e: "rlp_str x = [b]" by (simp add: rlp_str_single)
    note at = head_at [OF wf, of b r] 
    show ?thesis
      using b e rem lim at short_wraps(1) [OF wf, of 0] take_payload_ok [OF wf, of 0 1 Byte 1]
      by (simp add: readItem_def Let_def word_le_nat_alt)
  next
    case short
    then have e: "rlp_str x = (0x80 + of_nat ?n) # x" by (auto simp: rlp_str_def)
    have u: "unat (0x80 + of_nat ?n :: byte) = 128 + ?n"
      using short(2) unat_of_nat_byte [of "128 + ?n"] by simp
    have rem': "remaining s = (0x80 + of_nat ?n) # x @ r" using rem e by simp
    have at: "data_at s (s_pos s) = Some (0x80 + of_nat ?n)" "\<not> limit s \<le> s_pos s"
      using head_at [OF wf rem'] lim e by auto
    have off: "unat ((0x80 + of_nat ?n) - 0x80 :: byte) = ?n" using short(2) by (intro byte_offset) auto
    have canon: "?n = 1 \<Longrightarrow> data_at s (s_pos s + int 1) = Some (hd x) \<and> \<not> hd x \<le> 0x7f"
      using data_at_remaining [OF wf, of 1] rem' short(1)
      by (cases x) (auto simp: word_le_nat_alt)
    have take: "take_payload String (s_pos s + int 1) (s_pos s + int (1 + ?n)) (1 + int ?n) s =
        (Ok (String, x, 1 + int ?n), s\<lparr>s_pos := s_pos s + int (1 + ?n)\<rparr>)"
      using take_payload_ok [OF wf, of 1 "1 + ?n" String "1 + int ?n"] rem' by simp
    have "\<not> s_pos s + int (1 + ?n) > limit s" using lim e by simp
    then have "readItem s = (Ok (String, x, 1 + int ?n), s\<lparr>s_pos := s_pos s + int (1 + ?n)\<rparr>)"
      unfolding readItem_def Let_def at option.case off short_wraps [OF wf short(2)] take
      using at(2) canon u short(2) by (auto simp: word_le_nat_alt)
    then show ?thesis by (simp add: e)
  next
    case long
    then have e: "rlp_str x = (0xb7 + of_nat (length (nat_be ?n))) # nat_be ?n @ x"
      by (simp add: rlp_str_def)
    have n62: "?n \<le> 2 ^ 62" using fits_length [OF wf lim] e by simp
    then have l: "length (nat_be ?n) \<le> 8" "nat_be ?n \<noteq> []"
      using length_nat_be_max long by auto
    then have u: "unat (0xb7 + of_nat (length (nat_be ?n)) :: byte) = 183 + length (nat_be ?n)"
      using unat_of_nat_byte [of "183 + length (nat_be ?n)"] by simp
    have rem': "remaining s = (0xb7 + of_nat (length (nat_be ?n))) # nat_be ?n @ x @ r"
      using rem e by simp
    have at: "data_at s (s_pos s) = Some (0xb7 + of_nat (length (nat_be ?n)))" "\<not> limit s \<le> s_pos s"
      using head_at [OF wf rem'] lim e by auto
    have "readItem s = readLong String 0xb7 (0xb7 + of_nat (length (nat_be ?n))) s"
      using l at u by (auto simp: readItem_def word_le_nat_alt)
    then show ?thesis
      using readLong_ok [OF wf rem' long n62, of String] lim e by simp
  qed
qed

text \<open>The stream inside the list \<open>p\<close> that starts at the position of \<open>s\<close>.\<close>

definition enter :: "bytes \<Rightarrow> stream \<Rightarrow> stream" where
  "enter p s = s\<lparr>s_stack := (s_pos s + int (length (rlp_list p))) # s_stack s,
                 s_pos := s_pos s + int (length (rlp_list p) - length p)\<rparr>"

lemma List_open_ok:
  assumes wf: "wf_stream s" and rem: "remaining s = rlp_list p @ r"
    and lim: "s_pos s + int (length (rlp_list p)) \<le> limit s"
  shows "List_open s = (Ok (of_nat (length p)), enter p s)"
proof (cases "length p \<le> 55")
  case True
  then have e: "rlp_list p = (0xc0 + of_nat (length p)) # p" by (simp add: rlp_list_def)
  have u: "unat (0xc0 + of_nat (length p) :: byte) = 192 + length p"
    using True unat_of_nat_byte [of "192 + length p"] by simp
  have off: "unat ((0xc0 + of_nat (length p)) - 0xc0 :: byte) = length p"
    using True by (intro byte_offset) auto
  have at: "data_at s (s_pos s) = Some (0xc0 + of_nat (length p))" "\<not> limit s \<le> s_pos s"
    using head_at [OF wf, of "0xc0 + of_nat (length p)" "p @ r"] rem e lim by auto
  show ?thesis
    unfolding List_open_def at option.case off Let_def short_wraps(1) [OF wf True]
    using True u lim at(2) short_wraps(2) [OF wf True]
    by (simp add: word_le_nat_alt e enter_def)
next
  case False
  let ?n = "length p" and ?l = "length (nat_be (length p))"
  from False have e: "rlp_list p = (0xf7 + of_nat ?l) # nat_be ?n @ p"
    by (simp add: rlp_list_def)
  have n62: "?n \<le> 2 ^ 62" using fits_length [OF wf lim] e by simp
  have l: "?l \<le> 8" using n62 by (rule length_nat_be_max)
  have "nat_be ?n \<noteq> []" using False by auto
  then have l0: "0 < ?l" by blast
  have u: "unat (0xf7 + of_nat ?l :: byte) = 247 + ?l"
    using unat_of_nat_byte [of "247 + ?l"] l by simp
  have rem': "remaining s = (0xf7 + of_nat ?l) # nat_be ?n @ p @ r" using rem e by simp
  have at: "data_at s (s_pos s) = Some (0xf7 + of_nat ?l)" "\<not> limit s \<le> s_pos s"
    using head_at [OF wf rem'] lim e by auto
  have ls: "long_size 0xf7 (0xf7 + of_nat ?l) s = Ok (int ?l, int ?n)"
    using wf rem' False n62 lim e by (intro long_size_ok) auto
  have w: "wrap64 (s_pos s + 1 + int ?l) = s_pos s + int (1 + ?l)"
    using wrap_pos [OF wf, of "1 + int ?l"] l by (simp add: add.assoc)
  have w2: "wrap64 (s_pos s + int (1 + ?l) + int ?n) = s_pos s + int (1 + ?l + ?n)"
    using lim e wf_limit [OF wf] wf_pos [OF wf] wf_len [OF wf]
    by (subst wrap64_id) (auto simp: algebra_simps)
  have c: "\<not> (0xc0 \<le> (0xf7 + of_nat ?l :: byte) \<and> (0xf7 + of_nat ?l :: byte) \<le> 0xf7)"
      "(0xf7 + of_nat ?l :: byte) > 0xf7"
    using u l0 by (auto simp: word_le_nat_alt word_less_nat_alt)
  show ?thesis
    unfolding List_open_def at option.case ls Let_def if_not_P [OF c(1)] if_P [OF c(2)]
      map_ok.simps prod.case outcome.case w w2
    using lim at(2) by (simp add: e enter_def)
qed

lemma length_rlp_list_diff: "length p \<le> length (rlp_list p)"
  using length_rlp_list_ge [of p] by simp

lemma enter_facts:
  assumes wf: "wf_stream s" and rem: "remaining s = rlp_list p @ r"
    and lim: "s_pos s + int (length (rlp_list p)) \<le> limit s"
  shows "wf_stream (enter p s)" and "remaining (enter p s) = p @ r"
    and "limit (enter p s) = s_pos (enter p s) + int (length p)"
proof -
  have le: "length p \<le> length (rlp_list p)" by (rule length_rlp_list_diff)
  show "limit (enter p s) = s_pos (enter p s) + int (length p)"
    using le by (simp add: limit_def enter_def)
  show "wf_stream (enter p s)"
    using wf lim le wf_limit [OF wf]
    by (auto simp: wf_stream_def enter_def limit_def split: list.splits)
  have "drop (length (rlp_list p) - length p) (rlp_list p) = p"
    by (auto simp: rlp_list_def)
  then have "drop (length (rlp_list p) - length p) (remaining s) = p @ r"
    using rem by simp
  then show "remaining (enter p s) = p @ r"
    using wf_pos [OF wf] by (simp add: remaining_def enter_def nat_add_distrib add.commute)
qed

section \<open>Round trip\<close>

fun rt_ok :: "gotype \<Rightarrow> goval \<Rightarrow> bool"
  and rt_all :: "gotype \<Rightarrow> goval list \<Rightarrow> bool"
  and rt_fields :: "(bool \<times> gotype) list \<Rightarrow> (bool \<times> goval) list \<Rightarrow> bool" where
  "rt_ok t (VBool b) = (t = TBool)"
| "rt_ok t (VUint u) = (case t of TUint w \<Rightarrow> take_bit w u = u | _ \<Rightarrow> False)"
| "rt_ok t (VInt u) = (case t of TInt w \<Rightarrow> signed_take_bit (w - 1) u = u | _ \<Rightarrow> False)"
| "rt_ok t (VBig i) = (t = TBig \<and> 0 \<le> i)"
| "rt_ok t (VString b) = (t = TString)"
| "rt_ok t (VBytes b) = (t = TBytes)"
| "rt_ok t (VByteArray b) = (t = TByteArray (length b))"
| "rt_ok t (VSlice vs) = (case t of TSlice t' \<Rightarrow> rt_all t' vs | _ \<Rightarrow> False)"
| "rt_ok t (VArray vs) = (case t of TArray n t' \<Rightarrow> length vs = n \<and> rt_all t' vs | _ \<Rightarrow> False)"
| "rt_ok t (VStruct fs) = (case t of TStruct ts \<Rightarrow> rt_fields ts fs | _ \<Rightarrow> False)"
| "rt_ok t (VPtr None) = (case t of TPtr t' \<Rightarrow> is_list_type t' | _ \<Rightarrow> False)"
| "rt_ok t (VPtr (Some v)) = (case t of TPtr t' \<Rightarrow> rt_ok t' v | _ \<Rightarrow> False)"
| "rt_ok t (VIface ov) = False"
| "rt_ok t VInvalid = False"
| "rt_ok t VOther = False"
| "rt_all t [] = True"
| "rt_all t (v # vs) = (rt_ok t v \<and> rt_all t vs)"
| "rt_fields ts [] = (ts = [])"
| "rt_fields ts ((x, v) # fs) =
     (case ts of [] \<Rightarrow> False
      | (x', t) # ts' \<Rightarrow> x' = x \<and> (if x then rt_ok t v else v = zero_val t) \<and> rt_fields ts' fs)"

lemma length_encodeString_ge: "length x \<le> length (encodeString x)"
  by (simp add: encodeString_def Let_def)

lemma length_wrapList_ge: "length x < length (wrapList x)"
  by (simp add: wrapList_def Let_def)

lemma encodeString_fits: "length (encodeString x) < 2 ^ 64 \<Longrightarrow> encodeString x = rlp_str x"
  using length_encodeString_ge [of x] by (intro encodeString_rlp) linarith

lemma wrapList_case:
  "length (wrapList a) < 2 ^ 64 \<Longrightarrow>
     (length a < 2 ^ 64 \<Longrightarrow> \<exists>is. X = Some is \<and> a = concat (map rlp is)) \<Longrightarrow>
     \<exists>i. (\<exists>is. X = Some is \<and> RList is = i) \<and> wrapList a = rlp i"
  using length_wrapList_ge [of a] wrapList_rlp [of a] by force

lemma encodeBigInt_eq:
  "encodeBigInt i = (if i = 0 then [0x80] else encodeString (nat_be (nat \<bar>i\<bar>)))"
  by (simp add: encodeBigInt_def big_bytes_def)

lemma encode_inverse:
  shows "\<lbrakk>encodeValue ad v = Ok b; length b < 2 ^ 64\<rbrakk> \<Longrightarrow> \<exists>i. item_of ad v = Some i \<and> b = rlp i"
    and "\<lbrakk>encodeList ad vs = Ok b; length b < 2 ^ 64\<rbrakk> \<Longrightarrow>
           \<exists>is. items_of ad vs = Some is \<and> b = concat (map rlp is)"
    and "\<lbrakk>encodeStruct ad fs = Ok b; length b < 2 ^ 64\<rbrakk> \<Longrightarrow>
           \<exists>is. fields_of ad fs = Some is \<and> b = concat (map rlp is)"
proof (induction ad v and ad vs and ad fs arbitrary: b and b and b
    rule: encodeValue_encodeList_encodeStruct.induct)
qed (auto simp: bind_outcome_Ok_iff map_ok_Ok_iff encodeUint_rlp rlp_str_Nil rlp_str_of_bool
      encodeBigInt_eq simp del: of_bool_eq split: if_splits
      intro!: encodeString_fits wrapList_case)

lemma rlp_nonempty: "0 < length (rlp i)"
  by (cases i) (auto simp: rlp_str_def rlp_list_def)

lemma length_concat_rlp: "length is \<le> length (concat (map rlp is))"
proof (induction "is")
  case (Cons i "is")
  then show ?case using rlp_nonempty [of i] by (simp del: length_greater_0_conv)
qed simp

text \<open>The stream after \<open>n\<close> more bytes have been read.\<close>

abbreviation advance :: "nat \<Rightarrow> stream \<Rightarrow> stream" where
  "advance n s \<equiv> s\<lparr>s_pos := s_pos s + int n\<rparr>"

definition decodes :: "(goval \<Rightarrow> stream \<Rightarrow> goval decoded) \<Rightarrow> goval \<Rightarrow> rlp_item \<Rightarrow> goval \<Rightarrow> nat \<Rightarrow> bool" where
  "decodes dec old i v m \<longleftrightarrow> (\<forall>s r. wf_stream s \<longrightarrow> remaining s = rlp i @ r \<longrightarrow>
     s_pos s + int (length (rlp i)) \<le> limit s \<longrightarrow> length (rlp i) < m \<longrightarrow>
     dec old s = Some (Ok (v, advance (length (rlp i)) s)))"

lemma advance_facts:
  assumes "wf_stream s" "remaining s = b @ r" "s_pos s + int (length b) \<le> limit s"
  shows "wf_stream (advance (length b) s)" "remaining (advance (length b) s) = r"
    "limit (advance (length b) s) = limit s"
  using assms wf_advance [of s "s_pos s + int (length b)"] remaining_advance [of s "length b"]
  by (auto simp: limit_def split: list.split)

text \<open>
  The loop of \<open>decodeList\<close> on an encoded list: \<open>ds\<close> are the elements already decoded,
  \<open>olds\<close> the remaining old content of the target (none for a slice, zero values for an array).
\<close>

lemma list_loop_ok:
  assumes dec: "list_all2 (\<lambda>i v. decodes dec z i v fuel0) is vs"
    and wf: "wf_stream s" and rem: "remaining s = concat (map rlp is) @ r"
    and lim: "limit s = s_pos s + int (length (concat (map rlp is)))" and stk: "s_stack s \<noteq> []"
    and fuel: "length (concat (map rlp is)) < fuel" "length (concat (map rlp is)) < fuel0"
    and len: "int (length ds) + int (length (concat (map rlp is))) \<le> 2 ^ 62"
    and olds: "olds = (if isSlice then [] else replicate (length vs) z)"
  shows "list_loop fuel dec isSlice z (ds @ olds) (int (length ds)) s =
     Some (Ok (ds @ vs, s\<lparr>s_pos := limit s, s_stack := tl (s_stack s)\<rparr>))"
  using assms
proof (induction "is" vs arbitrary: ds s fuel olds rule: list_all2_induct)
  case Nil
  obtain e st where "s_stack s = e # st" using Nil.prems(4) by (cases "s_stack s") auto
  moreover from this have "limit s = e" by (simp add: limit_def)
  moreover obtain f where "fuel = Suc f" using Nil.prems(5) by (cases fuel) auto
  ultimately show ?case using Nil.prems by (simp add: of_reader_def ListEnd_def split: if_splits)
next
  case (Cons i "is" v vs)
  let ?c = "concat (map rlp is)"
  obtain e st where st: "s_stack s = e # st" using Cons.prems(4) by (cases "s_stack s") auto
  have e: "limit s = e" using st by (simp add: limit_def)
  obtain f where f: "fuel = Suc f" using Cons.prems(5) by (cases fuel) auto
  have ne: "0 < length (rlp i)" by (rule rlp_nonempty)
  have rem: "remaining s = rlp i @ (?c @ r)" using Cons.prems(2) by simp
  have lim: "s_pos s + int (length (rlp i)) \<le> limit s" using Cons.prems(3) by simp
  have dec: "dec z s = Some (Ok (v, advance (length (rlp i)) s))"
    using Cons.hyps(1) Cons.prems(1,6) rem lim by (simp add: decodes_def)
  let ?s = "advance (length (rlp i)) s"
  note adv = advance_facts [OF Cons.prems(1) rem lim]
  have w: "wrap64 (int (length ds) + 1) = int (length (ds @ [v]))"
    using Cons.prems(7) ne by (subst wrap64_id) (auto simp del: length_greater_0_conv)
  let ?olds = "if isSlice then [] else replicate (length vs) z"
  have IH: "list_loop f dec isSlice z ((ds @ [v]) @ ?olds) (int (length (ds @ [v]))) ?s =
      Some (Ok ((ds @ [v]) @ vs, ?s\<lparr>s_pos := limit ?s, s_stack := tl (s_stack ?s)\<rparr>))"
  proof (rule Cons.IH)
    show "limit ?s = s_pos ?s + int (length ?c)" using adv(3) Cons.prems(3) by simp
    show "length ?c < f" using Cons.prems(5) f ne by (simp del: length_greater_0_conv)
    show "int (length (ds @ [v])) + int (length ?c) \<le> 2 ^ 62" using Cons.prems(7) ne by (simp del: length_greater_0_conv)
  qed (use adv Cons.prems in \<open>simp_all\<close>)
  have step: "(if isSlice \<and> int (length ds) \<ge> int (length (ds @ olds)) then (ds @ olds) @ [z] else ds @ olds)
      = ds @ z # ?olds"
    using Cons.prems(8) by simp
  show ?case
    unfolding f list_loop.simps st list.case Let_def step
    using lim ne e dec IH adv(3) w by (simp add: bind_decoded_def st del: length_greater_0_conv)
qed

lemma Bytes_ok:
  assumes "wf_stream s" "remaining s = rlp_str x @ r" "s_pos s + int (length (rlp_str x)) \<le> limit s"
  shows "Bytes s = (Ok x, advance (length (rlp_str x)) s)"
  using readItem_str [OF assms] by (auto simp: Bytes_def)

lemma readBigEndian_u64: "readBigEndian (nat_be (unat u)) = u"
  by (rule word_unat_eq_iff [THEN iffD2])
     (simp add: readBigEndian_be_nat [OF length_nat_be_u64 [OF unat_u64_less]])

lemma Uint64_ok:
  assumes "wf_stream s" "remaining s = rlp_str (nat_be (unat u)) @ r"
    "s_pos s + int (length (rlp_str (nat_be (unat u)))) \<le> limit s"
  shows "Uint64 s = (Ok u, advance (length (rlp_str (nat_be (unat u)))) s)"
proof -
  have "length (nat_be (unat u)) \<le> 8" by (rule length_nat_be_u64) (rule unat_u64_less)
  moreover have "nat_be (unat u) = [] \<Longrightarrow> u = 0" using unat_gt_0 [of u] by auto
  moreover have "nat_be (unat u) \<noteq> [] \<Longrightarrow> hd (nat_be (unat u)) \<noteq> 0" by (rule hd_nat_be) auto
  ultimately show ?thesis
    using Bytes_ok [OF assms] by (auto simp: Uint64_def readBigEndian_u64)
qed

lemma BigInt_ok:
  assumes "wf_stream s" "remaining s = rlp_str (nat_be (nat i)) @ r" "0 \<le> i"
    "s_pos s + int (length (rlp_str (nat_be (nat i)))) \<le> limit s"
  shows "BigInt s = (Ok i, advance (length (rlp_str (nat_be (nat i)))) s)"
proof -
  have "nat_be (nat i) \<noteq> [] \<Longrightarrow> hd (nat_be (nat i)) \<noteq> 0" by (rule hd_nat_be) auto
  then show ?thesis
    using Bytes_ok [OF assms(1,2,4)] assms(3)
    by (cases "i = 0") (auto simp: BigInt_def big_set_bytes_def)
qed

lemma decode_bool_ok:
  assumes "wf_stream s" "remaining s = rlp_str (nat_be (of_bool b)) @ r"
    "s_pos s + int (length (rlp_str (nat_be (of_bool b)))) \<le> limit s"
  shows "decode_bool s = (Ok b, advance (length (rlp_str (nat_be (of_bool b)))) s)"
  using Bytes_ok [OF assms] by (cases b) (auto simp: decode_bool_def nat_be_byte)

text \<open>\<open>Kind\<close> distinguishes the nil marker from an encoded list.\<close>

lemma Kind_nil:
  assumes "wf_stream s" "remaining s = rlp_str [] @ r" "s_pos s + 1 \<le> limit s"
  shows "fst (Kind s) = Ok (String, 0)"
  using head_at [OF assms(1) _ assms(3)] assms(2)
  by (simp add: Kind_def Let_def rlp_str_Nil word_le_nat_alt)

lemma rlp_list_head: "length p \<le> 2 ^ 62 \<Longrightarrow> \<exists>h t. rlp_list p = h # t \<and> 0xc0 \<le> h"
proof (cases "length p \<le> 55")
  case True
  then show ?thesis using unat_of_nat_byte [of "192 + length p"]
    by (simp add: rlp_list_def word_le_nat_alt)
next
  case False
  assume "length p \<le> 2 ^ 62"
  then have "length (nat_be (length p)) \<le> 8" by (rule length_nat_be_max)
  with False show ?thesis using unat_of_nat_byte [of "247 + length (nat_be (length p))"]
    by (simp add: rlp_list_def word_le_nat_alt)
qed

lemma Kind_list:
  assumes "wf_stream s" "remaining s = rlp_list p @ r" "s_pos s + int (length (rlp_list p)) \<le> limit s"
  shows "fst (Kind s) \<noteq> Ok (String, n)"
proof -
  have "length p \<le> 2 ^ 62"
    using fits_length [OF assms(1,3)] length_rlp_list_ge [of p] by linarith
  then obtain h t where h: "rlp_list p = h # t" "0xc0 \<le> h" using rlp_list_head by blast
  then have "\<not> h \<le> 0x7f" "\<not> h \<le> 0xb7" "\<not> h \<le> 0xbf" by (auto simp: word_le_nat_alt)
  with h show ?thesis
    using head_at [OF assms(1), of h "t @ r"] assms(2,3)
    by (auto simp: Kind_def Let_def split: option.splits)
qed


section \<open>The reflection decoder inverts the encoder\<close>

lemma decodes_str: "(\<And>s r. \<lbrakk>wf_stream s; remaining s = rlp_str x @ r;
    s_pos s + int (length (rlp_str x)) \<le> limit s\<rbrakk> \<Longrightarrow>
    dec old s = Some (Ok (v, advance (length (rlp_str x)) s))) \<Longrightarrow> decodes dec old (RStr x) v m"
  by (simp add: decodes_def)

lemma leave_enter:
  "(enter p s)\<lparr>s_pos := limit (enter p s), s_stack := tl (s_stack (enter p s))\<rparr>
     = advance (length (rlp_list p)) s"
  by (simp add: enter_def limit_def)

lemma decodes_list:
  assumes "\<And>s r. \<lbrakk>wf_stream s; remaining s = concat (map rlp is) @ r; s_stack s \<noteq> [];
      limit s = s_pos s + int (length (concat (map rlp is))); length (concat (map rlp is)) < m;
      length (concat (map rlp is)) \<le> 2 ^ 62\<rbrakk> \<Longrightarrow>
      body s = Some (Ok (v, s\<lparr>s_pos := limit s, s_stack := tl (s_stack s)\<rparr>))"
    and "\<And>s. dec old s = bind_decoded (of_reader List_open id s) (\<lambda>_. body)"
  shows "decodes dec old (RList is) v m"
  unfolding decodes_def
proof (intro allI impI)
  fix s r
  let ?p = "concat (map rlp is)"
  assume wf: "wf_stream s" and rem: "remaining s = rlp (RList is) @ r"
    and lim: "s_pos s + int (length (rlp (RList is))) \<le> limit s" and m: "length (rlp (RList is)) < m"
  have rem': "remaining s = rlp_list ?p @ r" and lim': "s_pos s + int (length (rlp_list ?p)) \<le> limit s"
    using rem lim by simp_all
  have "length ?p < m" "length ?p \<le> 2 ^ 62"
    using m fits_length [OF wf lim'] length_rlp_list_ge [of ?p] by simp_all
  then have "body (enter ?p s) = Some (Ok (v, advance (length (rlp_list ?p)) s))"
    using assms(1) [OF enter_facts(1,2) [OF wf rem' lim'] _ enter_facts(3) [OF wf rem' lim']]
    by (simp only: leave_enter) (simp add: enter_def)
  then show "dec old s = Some (Ok (v, advance (length (rlp (RList is))) s))"
    using List_open_ok [OF wf rem' lim'] by (simp add: assms(2) of_reader_def bind_decoded_def)
qed

lemma decodes_slice:
  assumes "list_all2 (\<lambda>i v. decodes (decodeInto fuel t) (zero_val t) i v fuel) is vs"
  shows "decodes (decodeInto fuel (TSlice t)) (zero_val (TSlice t)) (RList is) (VSlice vs) fuel"
  by (rule decodes_list [where body = "\<lambda>s1. bind_decoded
        (list_loop fuel (decodeInto fuel t) True (zero_val t) [] 0 s1) (\<lambda>vs s2. Some (Ok (VSlice vs, s2)))"])
     (use list_loop_ok [OF assms, where isSlice = True and ds = "[]"]
       in \<open>simp_all add: bind_decoded_def\<close>)

lemma decodes_array:
  assumes "list_all2 (\<lambda>i v. decodes (decodeInto fuel t) (zero_val t) i v fuel) is vs"
  shows "decodes (decodeInto fuel (TArray (length vs) t)) (zero_val (TArray (length vs) t)) (RList is) (VArray vs) fuel"
  by (rule decodes_list [where body = "\<lambda>s1. bind_decoded
        (list_loop fuel (decodeInto fuel t) False (zero_val t) (replicate (length vs) (zero_val t)) 0 s1)
        (\<lambda>vs s2. Some (Ok (VArray vs, s2)))"])
     (use list_loop_ok [OF assms, where isSlice = False and ds = "[]"]
       in \<open>simp_all add: bind_decoded_def\<close>)

definition decodes_fields :: "nat \<Rightarrow> (bool \<times> gotype) list \<Rightarrow> rlp_item list \<Rightarrow> (bool \<times> goval) list \<Rightarrow> bool" where
  "decodes_fields fuel ts is fs \<longleftrightarrow> (\<forall>s r. wf_stream s \<longrightarrow> remaining s = concat (map rlp is) @ r \<longrightarrow>
     s_pos s + int (length (concat (map rlp is))) \<le> limit s \<longrightarrow> length (concat (map rlp is)) < fuel \<longrightarrow>
     decodeFields fuel ts (zero_fields ts) s = Some (Ok (fs, advance (length (concat (map rlp is))) s)))"

lemma decodes_struct:
  assumes "decodes_fields fuel ts is fs"
  shows "decodes (decodeInto fuel (TStruct ts)) (zero_val (TStruct ts)) (RList is) (VStruct fs) fuel"
proof (rule decodes_list [where body = "\<lambda>s1. bind_decoded (decodeFields fuel ts (zero_fields ts) s1)
          (\<lambda>fs s2. of_reader ListEnd (\<lambda>_. VStruct fs) s2)"])
  fix s r
  assume s: "wf_stream s" "remaining s = concat (map rlp is) @ r" "s_stack s \<noteq> []"
    "limit s = s_pos s + int (length (concat (map rlp is)))" "length (concat (map rlp is)) < fuel"
  then have "decodeFields fuel ts (zero_fields ts) s =
      Some (Ok (fs, advance (length (concat (map rlp is))) s))"
    using assms by (simp add: decodes_fields_def)
  then show "bind_decoded (decodeFields fuel ts (zero_fields ts) s) (\<lambda>fs. of_reader ListEnd (\<lambda>_. VStruct fs)) =
      Some (Ok (VStruct fs, s\<lparr>s_pos := limit s, s_stack := tl (s_stack s)\<rparr>))"
    using s(3,4) by (cases "s_stack s") (auto simp: bind_decoded_def of_reader_def ListEnd_def limit_def)
qed simp

lemma decodes_hidden:
  "decodes_fields fuel ts is fs \<Longrightarrow>
   decodes_fields fuel ((False, t) # ts) is ((False, zero_val t) # fs)"
  by (simp add: decodes_fields_def bind_decoded_def)

lemma decodes_field:
  assumes v: "decodes (decodeInto fuel t) (zero_val t) i v fuel" and fs: "decodes_fields fuel ts is fs"
  shows "decodes_fields fuel ((True, t) # ts) (i # is) ((True, v) # fs)"
  unfolding decodes_fields_def
proof (intro allI impI)
  fix s r
  let ?c = "concat (map rlp is)"
  assume wf: "wf_stream s" and rem: "remaining s = concat (map rlp (i # is)) @ r"
    and lim: "s_pos s + int (length (concat (map rlp (i # is)))) \<le> limit s"
    and m: "length (concat (map rlp (i # is))) < fuel"
  have rem': "remaining s = rlp i @ ?c @ r" and lim': "s_pos s + int (length (rlp i)) \<le> limit s"
    using rem lim by simp_all
  let ?s = "advance (length (rlp i)) s"
  have "decodeInto fuel t (zero_val t) s = Some (Ok (v, ?s))"
    using v wf rem' lim' m by (simp add: decodes_def)
  moreover have "decodeFields fuel ts (zero_fields ts) ?s = Some (Ok (fs, advance (length ?c) ?s))"
    using fs advance_facts [OF wf rem' lim'] lim m by (simp add: decodes_fields_def)
  ultimately show "decodeFields fuel ((True, t) # ts) (zero_fields ((True, t) # ts)) s =
      Some (Ok ((True, v) # fs, advance (length (concat (map rlp (i # is)))) s))"
    by (simp add: bind_decoded_def add.assoc)
qed

lemma rt_list_type: "\<lbrakk>rt_ok t v; is_list_type t; item_of ad v = Some i\<rbrakk> \<Longrightarrow> \<exists>is. i = RList is"
  by (cases "(t, v)" rule: rt_ok.cases) (auto split: gotype.splits)

lemma decodes_ptr:
  assumes v: "decodes (decodeInto fuel t) (zero_val t) i v fuel"
    and rt: "rt_ok t v" and i: "item_of True v = Some i"
  shows "decodes (decodeInto fuel (TPtr t)) (zero_val (TPtr t)) i (VPtr (Some v)) fuel"
  unfolding decodes_def
proof (intro allI impI)
  fix s r
  assume s: "wf_stream s" "remaining s = rlp i @ r" "s_pos s + int (length (rlp i)) \<le> limit s"
    "length (rlp i) < fuel"
  have "decodeInto fuel t (zero_val t) s = Some (Ok (v, advance (length (rlp i)) s))"
    using v s by (simp add: decodes_def)
  moreover have "is_list_type t \<Longrightarrow> fst (Kind s) \<noteq> Ok (String, 0)"
    using rt_list_type [OF rt _ i] Kind_list [OF s(1)] s(2,3) by fastforce
  ultimately show "decodeInto fuel (TPtr t) (zero_val (TPtr t)) s =
      Some (Ok (VPtr (Some v), advance (length (rlp i)) s))"
    by (auto simp: bind_decoded_def of_reader_def split: prod.splits outcome.splits)
qed

lemma decodes_nil:
  assumes "is_list_type t"
  shows "decodes (decodeInto fuel (TPtr t)) (zero_val (TPtr t)) (RStr []) (VPtr None) fuel"
proof (rule decodes_str)
  fix s r
  assume s: "wf_stream s" "remaining s = rlp_str [] @ r" "s_pos s + int (length (rlp_str [])) \<le> limit s"
  then have "wrap64 (s_pos s + 1) = s_pos s + 1"
    using wrap_pos [of s 1] by (simp add: rlp_str_Nil)
  then show "decodeInto fuel (TPtr t) (zero_val (TPtr t)) s = Some (Ok (VPtr None, advance (length (rlp_str [])) s))"
    using assms Kind_nil [of s r] s by (simp add: rlp_str_Nil)
qed

lemma encoded_decodes:
  shows "\<lbrakk>item_of ad v = Some i; rt_ok t v\<rbrakk> \<Longrightarrow> decodes (decodeInto fuel t) (zero_val t) i v fuel"
    and "\<lbrakk>items_of ad vs = Some is; rt_all t vs\<rbrakk> \<Longrightarrow>
      list_all2 (\<lambda>i v. decodes (decodeInto fuel t) (zero_val t) i v fuel) is vs"
    and "\<lbrakk>fields_of ad fs = Some is; rt_fields ts fs\<rbrakk> \<Longrightarrow> decodes_fields fuel ts is fs"
proof (induction ad v and ad vs and ad fs arbitrary: i t and "is" t and "is" ts
    rule: item_of_items_of_fields_of.induct)
  case (1 ad) then show ?case
    by (auto split: gotype.splits intro: decodes_nil simp del: decodeInto.simps zero_val.simps)
next
  case (2 ad v) then show ?case
    by (auto split: gotype.splits intro: decodes_ptr simp del: decodeInto.simps zero_val.simps)
next
  case (6 ad i) then show ?case
    by (auto split: if_splits intro!: decodes_str simp: of_reader_def BigInt_ok)
next
  case (7 ad b) then show ?case
    by (auto intro!: decodes_str simp: of_reader_def decode_bool_ok simp del: of_bool_eq)
next
  case (13 ad vs) then show ?case
    by (auto split: gotype.splits intro: decodes_slice simp del: decodeInto.simps zero_val.simps)
next
  case (14 ad vs) then show ?case
    by (auto split: gotype.splits intro: decodes_array simp del: decodeInto.simps zero_val.simps)
next
  case (15 ad fs) then show ?case
    by (auto split: gotype.splits intro: decodes_struct simp del: decodeInto.simps zero_val.simps)
next
  case (20 ad exported v fs) then show ?case
    by (auto split: list.splits option.splits if_splits intro!: decodes_field decodes_hidden)
qed (auto split: gotype.splits option.splits intro!: decodes_str simp: of_reader_def Uint64_ok Bytes_ok
      set_uint_def set_int_def decodes_fields_def)

lemma wf_newByteStream:
  "length b \<le> 2 ^ 62 \<Longrightarrow> wf_stream (newByteStream b) \<and> remaining (newByteStream b) = b
     \<and> limit (newByteStream b) = int (length b) \<and> s_pos (newByteStream b) = 0"
  by (simp add: newByteStream_def wf_stream_def remaining_def limit_def max_len_def)


section \<open>What the decoder accepts\<close>

text \<open>What the checks of the long form establish.\<close>

lemma long_size_inv:
  assumes wf: "wf_stream s" and rem: "remaining s = prefix # t"
    and l: "unat (prefix - base) = l" "0 < l" "l \<le> 8"
    and ls: "long_size base prefix s = Ok (ll, n)"
  shows "ll = int l \<and> 56 \<le> n \<and> n < 2 ^ 63 \<and> s_pos s + 1 + int l \<le> limit s \<and>
    l \<le> length t \<and> take l t = nat_be (nat n)"
proof -
  have w1: "wrap64 (s_pos s + 1) = s_pos s + int 1" using wrap_pos [OF wf, of 1] by simp
  have w2: "wrap64 (s_pos s + 1 + int l) = s_pos s + int (1 + l)"
    using wrap_pos [OF wf, of "1 + int l"] l by (simp add: add.assoc)
  have fit: "s_pos s + int (1 + l) \<le> limit s"
    using ls unfolding long_size_def Let_def l(1) w2 by (auto split: if_splits)
  then have lt: "l \<le> length t"
    using wf_limit [OF wf] remaining_length [OF wf] rem by simp
  have sl: "go_slice (s_data s) (s_pos s + int 1) (s_pos s + int (1 + l)) = Some (take l t)"
    using go_slice_remaining [OF wf, of 1 "1 + l"] rem lt by simp
  let ?b = "take l t"
  have b: "length ?b = l" "?b \<noteq> []" using lt l by auto
  have u: "unat (readBigEndian ?b) = be_nat ?b" using b l by (intro readBigEndian_be_nat) auto
  have hd: "hd ?b \<noteq> 0" and n: "n = int_of_u64 (readBigEndian ?b)" "56 \<le> n" "ll = int l"
    using ls b fit unfolding long_size_def Let_def l(1) w1 w2 sl by (auto split: if_splits)
  have n': "n = int (be_nat ?b) \<and> n < 2 ^ 63"
  proof (cases "unat (readBigEndian ?b) < 2 ^ 63")
    case True then show ?thesis using n(1) u by (simp add: int_of_u64_small)
  next
    case False
    then have "n < 0" using n(1) by (simp add: int_of_u64_negative)
    then show ?thesis using n(2) by simp
  qed
  have "nat_be (be_nat ?b) = ?b" using hd b by (intro nat_be_be_nat) auto
  moreover have "nat n = be_nat ?b" using n' by simp
  ultimately show ?thesis using n(2,3) n' fit lt by auto
qed

lemma take_payload_inv:
  assumes wf: "wf_stream s" and t: "take_payload k (s_pos s + int i) e tot s = (Ok (k', x, tot'), s')"
    and lim: "e \<le> limit s"
  shows "k' = k \<and> tot' = tot \<and> s' = s\<lparr>s_pos := e\<rparr> \<and> e = s_pos s + int (i + length x) \<and>
    i + length x \<le> length (remaining s) \<and> x = take (length x) (drop i (remaining s))"
proof -
  have g: "go_slice (s_data s) (s_pos s + int i) e = Some x" and
    o: "k' = k" "tot' = tot" "s' = s\<lparr>s_pos := e\<rparr>"
    using t by (auto simp: take_payload_def split: option.splits)
  have e: "e = s_pos s + int (i + length x)" using go_slice_length [OF g] by simp
  moreover from this lim have "i + length x \<le> length (remaining s)"
    using wf_limit [OF wf] remaining_length [OF wf] by simp
  ultimately show ?thesis
    using o g go_slice_remaining [OF wf, of i "i + length x"] by auto
qed

lemma append_take_eq: "take (length a) t = a \<Longrightarrow> x = take (length x) (drop (length a) t) \<Longrightarrow>
   t = a @ x @ drop (length a + length x) t"
  by (metis append_take_drop_id drop_drop add.commute)

lemma readLong_inv:
  assumes wf: "wf_stream s" and rem: "remaining s = prefix # t"
    and l: "unat (prefix - base) = l" "0 < l" "l \<le> 8"
    and rl: "readLong k base prefix s = (Ok (k', x, tot), s')"
  shows "k' = k \<and> 56 \<le> length x \<and> length (nat_be (length x)) = l \<and>
    (\<exists>r. t = nat_be (length x) @ x @ r) \<and> tot = int (1 + l + length x) \<and>
    s' = s\<lparr>s_pos := s_pos s + int (1 + l + length x)\<rparr> \<and> s_pos s + int (1 + l + length x) \<le> limit s"
proof -
  obtain ll n where ls: "long_size base prefix s = Ok (ll, n)"
    using rl by (auto simp: readLong_def split: outcome.splits)
  note inv = long_size_inv [OF wf rem l ls]
  let ?e = "wrap64 (s_pos s + int (1 + l) + n)"
  have w: "wrap64 (s_pos s + 1 + ll) = s_pos s + int (1 + l)"
    using wrap_pos [OF wf, of "1 + int l"] l inv by (simp add: add.assoc)
  have e: "?e \<le> limit s"
    and tp: "take_payload k (s_pos s + int (1 + l)) ?e (wrap64 (1 + ll + n)) s = (Ok (k', x, tot), s')"
    using rl unfolding readLong_def ls Let_def outcome.case prod.case w by (auto split: if_splits)
  note tpi = take_payload_inv [OF wf tp e]
  have "n = int (length x)"
  proof (cases "s_pos s + int (1 + l) + n < 2 ^ 63")
    case True
    then have "?e = s_pos s + int (1 + l) + n" using wf_pos [OF wf] inv by (intro wrap64_id) auto
    then show ?thesis using tpi by simp
  next
    case False
    moreover have "s_pos s + int (1 + l) + n < 2 ^ 64"
      using inv wf_limit [OF wf] wf_len [OF wf] l by auto
    ultimately have "?e < 0" using wrap64_high [of "s_pos s + int (1 + l) + n"] by linarith
    then show ?thesis using tpi wf_pos [OF wf] by simp
  qed
  moreover have len: "length (nat_be (nat n)) = l" using inv by (metis length_take min.absorb2)
  moreover have "t = nat_be (length x) @ x @ drop (l + length x) t"
    using append_take_eq [of "nat_be (length x)" t x] inv tpi rem len calculation(1) by simp
  moreover have "wrap64 (1 + ll + n) = 1 + ll + n"
    using inv tpi e wf_pos [OF wf] wf_limit [OF wf] wf_len [OF wf] calculation(1) by (intro wrap64_id) auto
  ultimately show ?thesis using tpi inv e by auto
qed

text \<open>The canonical encoding of what \<open>readItem\<close> returns.\<close>

definition item_bytes :: "kind \<Rightarrow> bytes \<Rightarrow> bytes" where
  "item_bytes k x = (if k = List then rlp_list x else rlp_str x)"

definition consumed :: "stream \<Rightarrow> bytes \<Rightarrow> stream \<Rightarrow> bool" where
  "consumed s b s' \<longleftrightarrow> (\<exists>r. remaining s = b @ r) \<and> s_pos s + int (length b) \<le> limit s \<and>
     s' = advance (length b) s"

lemma wf_head:
  assumes "wf_stream s" "s_pos s < limit s" "data_at s (s_pos s) = Some prefix"
  obtains t where "remaining s = prefix # t"
proof (cases "remaining s")
  case Nil
  then show ?thesis using remaining_length [OF assms(1)] wf_limit [OF assms(1)] assms(2) by simp
next
  case (Cons a t)
  then show ?thesis using data_at_remaining [OF assms(1), of 0] assms(3) that by simp
qed

lemma short_inv:
  assumes wf: "wf_stream s" and rem: "remaining s = prefix # t" and n: "n \<le> 55"
    and lim: "\<not> limit s < wrap64 (wrap64 (s_pos s + 1) + int n)"
    and tp: "take_payload k (wrap64 (s_pos s + 1)) (wrap64 (wrap64 (s_pos s + 1) + int n)) tot0 s
      = (Ok (k', x, tot), s')"
  shows "k' = k \<and> tot = tot0 \<and> length x = n \<and> consumed s (prefix # x) s'"
proof -
  note w = short_wraps [OF wf n]
  have le: "s_pos s + int (1 + n) \<le> limit s" using lim w by simp
  have "take_payload k (s_pos s + int 1) (s_pos s + int (1 + n)) tot0 s = (Ok (k', x, tot), s')"
    using tp w by simp
  from take_payload_inv [OF wf this le] le rem show ?thesis
    using append_take_drop_id [of n t] by (auto simp: consumed_def) metis
qed

lemma byte_range: "p \<le> (b :: byte) \<longleftrightarrow> unat p \<le> unat b" by (rule word_le_nat_alt)

lemma byte_eq_offset: "unat (prefix - base :: byte) = l \<Longrightarrow> prefix = base + of_nat l"
  by auto

lemma byte_minus: "base \<le> prefix \<Longrightarrow> unat (prefix - base :: byte) = unat prefix - unat base"
  by (simp add: unat_sub)

lemma readItem_inv:
  assumes wf: "wf_stream s" and ri: "readItem s = (Ok (k, x, tot), s')"
  shows "consumed s (item_bytes k x) s' \<and> tot = int (length (item_bytes k x)) \<and>
    (k = Byte \<longleftrightarrow> (\<exists>b. x = [b] \<and> unat b < 128) \<and> k \<noteq> List)"
proof -
  have lt: "s_pos s < limit s" using ri by (auto simp: readItem_def Let_def split: if_splits)
  obtain prefix where at: "data_at s (s_pos s) = Some prefix"
    using ri by (auto simp: readItem_def Let_def split: if_splits option.splits)
  obtain t where rem: "remaining s = prefix # t" using wf_head [OF wf lt at] .
  have nlt: "\<not> limit s \<le> s_pos s" using lt by simp
  note ri' = ri [unfolded readItem_def Let_def if_not_P [OF nlt] at option.case]
  consider (byte) "unat prefix \<le> 0x7f" | (str) "0x7f < unat prefix" "unat prefix \<le> 0xb7"
    | (lstr) "0xb7 < unat prefix" "unat prefix \<le> 0xbf" | (list) "0xbf < unat prefix" "unat prefix \<le> 0xf7"
    | (llist) "0xf7 < unat prefix" by linarith
  then show ?thesis
  proof cases
    case byte
    then have "take_payload Byte (wrap64 (s_pos s + int 0)) (wrap64 (s_pos s + 1)) 1 s = (Ok (k, x, tot), s')"
      using ri' wrap_pos [OF wf, of 0] by (simp add: byte_range)
    then have "take_payload Byte (s_pos s + int 0) (s_pos s + 1) 1 s = (Ok (k, x, tot), s')"
      using wrap_pos [OF wf, of 0] wrap_pos [OF wf, of 1] by simp
    from take_payload_inv [OF wf this] lt rem have "k = Byte \<and> x = [prefix] \<and> tot = 1 \<and> s' = advance 1 s"
      by auto
    with byte rem lt show ?thesis
      by (auto simp: consumed_def item_bytes_def rlp_str_single)
  next
    case str
    let ?n = "unat (prefix - 0x80)"
    have n: "?n \<le> 55" using str by (simp add: byte_minus byte_range)
    have *: "k = String \<and> tot = 1 + int ?n \<and> length x = ?n \<and> consumed s (prefix # x) s'"
      using ri' str by (intro short_inv [OF wf rem n]) (auto simp: byte_range split: if_splits)
    have "\<not> (length x = 1 \<and> unat (hd x) < 128)"
    proof
      assume a: "length x = 1 \<and> unat (hd x) < 128"
      then obtain b r where b: "x = [b]" "unat b < 128" "t = b # r"
        using * rem by (cases x) (auto simp: consumed_def)
      then have "data_at s (wrap64 (s_pos s + 1)) = Some b"
        using data_at_remaining [OF wf, of 1] rem short_wraps(1) [OF wf n] by simp
      moreover have "prefix = 0x81" using byte_eq_offset [of prefix "0x80" 1] * b by simp
      ultimately show False using ri' b by (simp add: byte_range split: if_splits)
    qed
    then have "rlp_str x = prefix # x"
      using * n byte_eq_offset [of prefix "0x80" ?n] by (auto simp: rlp_str_def)
    then show ?thesis using * by (auto simp: item_bytes_def rlp_str_single)
  next
    case lstr
    let ?l = "unat (prefix - 0xb7)"
    have l: "0 < ?l" "?l \<le> 8" using lstr by (simp_all add: byte_minus byte_range)
    have "readLong String 0xb7 prefix s = (Ok (k, x, tot), s')"
      using ri' lstr by (simp add: byte_range)
    from readLong_inv [OF wf rem refl l this] rem byte_eq_offset [of prefix "0xb7" ?l]
    show ?thesis by (auto simp: item_bytes_def consumed_def rlp_str_def)
  next
    case list
    let ?n = "unat (prefix - 0xc0)"
    have n: "?n \<le> 55" using list by (simp add: byte_minus byte_range)
    have "k = List \<and> tot = 1 + int ?n \<and> length x = ?n \<and> consumed s (prefix # x) s'"
      using ri' list by (intro short_inv [OF wf rem n]) (auto simp: byte_range split: if_splits)
    then show ?thesis
      using n byte_eq_offset [of prefix "0xc0" ?n] by (auto simp: item_bytes_def rlp_list_def)
  next
    case llist
    let ?l = "unat (prefix - 0xf7)"
    have l: "0 < ?l" "?l \<le> 8" using llist unat_byte_less [of prefix] by (simp_all add: byte_minus byte_range)
    have "readLong List 0xf7 prefix s = (Ok (k, x, tot), s')"
      using ri' llist by (simp add: byte_range)
    from readLong_inv [OF wf rem refl l this] rem byte_eq_offset [of prefix "0xf7" ?l]
    show ?thesis by (auto simp: item_bytes_def consumed_def rlp_list_def)
  qed
qed

lemma consumed_wf: "wf_stream s \<Longrightarrow> consumed s b s' \<Longrightarrow> wf_stream s' \<and> limit s' = limit s \<and>
    remaining s = b @ remaining s'"
  using advance_facts [of s b] by (auto simp: consumed_def)

lemma Bytes_iff:
  assumes "wf_stream s"
  shows "Bytes s = (Ok x, s') \<longleftrightarrow> consumed s (rlp_str x) s'"
proof
  assume b: "Bytes s = (Ok x, s')"
  then obtain k tot where "readItem s = (Ok (k, x, tot), s')" "k = Byte \<or> k = String"
    by (auto simp: Bytes_def split: prod.splits outcome.splits if_splits)
  then show "consumed s (rlp_str x) s'"
    using readItem_inv [OF assms] by (auto simp: item_bytes_def)
next
  assume "consumed s (rlp_str x) s'"
  then show "Bytes s = (Ok x, s')" using Bytes_ok [OF assms] by (auto simp: consumed_def)
qed

lemma Uint64_canonical:
  assumes wf: "wf_stream s" and u: "Uint64 s = (Ok u, s')"
  shows "consumed s (rlp_str (nat_be (unat u))) s' \<or> (u = 0 \<and> consumed s [0] s')"
proof -
  obtain b where b: "Bytes s = (Ok b, s')" and c: "length b \<le> 8" "length b > 1 \<longrightarrow> hd b \<noteq> 0"
    "u = readBigEndian b"
    using u by (auto simp: Uint64_def readBigEndian_def split: prod.splits outcome.splits if_splits)
  have e: "unat u = be_nat b" using c by (simp add: readBigEndian_be_nat)
  show ?thesis
  proof (cases "b = [0]")
    case True
    then show ?thesis using b c(3) Bytes_iff [OF wf] by (simp add: rlp_str_single readBigEndian_def)
  next
    case False
    then have "b = [] \<or> hd b \<noteq> 0" using c(2) by (cases b; cases "tl b") auto
    then show ?thesis using b e Bytes_iff [OF wf] by (simp add: nat_be_be_nat)
  qed
qed



section \<open>The contract of a stream reader\<close>

text \<open>
  A reader \<open>rd\<close> implements the encoding \<open>enc\<close> when it returns \<open>x\<close> after consuming exactly
  \<open>enc x\<close>, wherever the encoding stands in a well-formed stream.  What clients of a reader
  rely on follows from that alone: encodings are prefix free, and consecutive reads return
  consecutive values.
\<close>

locale stream_codec =
  fixes enc :: "'a \<Rightarrow> bytes" and rd :: "'a reader" and valid :: "'a \<Rightarrow> bool"
  assumes rd_enc: "\<lbrakk>wf_stream s; valid x; consumed s (enc x) s'\<rbrakk> \<Longrightarrow> rd s = (Ok x, s')"
begin

lemma rd_new:
  "\<lbrakk>valid x; length (enc x @ r) \<le> 2 ^ 62\<rbrakk> \<Longrightarrow>
     rd (newByteStream (enc x @ r)) = (Ok x, advance (length (enc x)) (newByteStream (enc x @ r)))"
  using wf_newByteStream [of "enc x @ r"] by (intro rd_enc) (auto simp: consumed_def)

lemma enc_prefix_free:
  assumes "enc x @ r = enc x' @ r'" "length (enc x @ r) \<le> 2 ^ 62" "valid x" "valid x'"
  shows "x = x' \<and> r = r'"
  using rd_new [OF assms(3,2)] rd_new [OF assms(4), of r'] assms by auto

lemma rd_twice:
  assumes "wf_stream s" "valid x" "valid y" "consumed s (enc x @ enc y) s'"
  shows "\<exists>s1. rd s = (Ok x, s1) \<and> rd s1 = (Ok y, s')"
proof (intro exI conjI)
  let ?s = "advance (length (enc x)) s"
  obtain r where r: "remaining s = enc x @ enc y @ r" and
    lim: "s_pos s + int (length (enc x @ enc y)) \<le> limit s" and s': "s' = advance (length (enc x @ enc y)) s"
    using assms(4) by (auto simp: consumed_def)
  have c: "consumed s (enc x) ?s" using r lim by (auto simp: consumed_def)
  then show "rd s = (Ok x, ?s)" using assms by (intro rd_enc)
  note wf = consumed_wf [OF assms(1) c]
  have "remaining ?s = enc y @ r" using wf r by simp
  then have "consumed ?s (enc y) s'"
    using wf lim s' by (simp add: consumed_def add.assoc)
  then show "rd ?s = (Ok y, s')" using wf assms by (intro rd_enc) auto
qed

end

interpretation byte_string: stream_codec rlp_str Bytes "\<lambda>x. True"
  by unfold_locales (simp add: Bytes_iff)

interpretation uint64_codec: stream_codec "\<lambda>u. rlp_str (nat_be (unat u))" Uint64 "\<lambda>u. True"
  by unfold_locales (auto simp: consumed_def Uint64_ok)

interpretation bigint_codec: stream_codec "\<lambda>i. rlp_str (nat_be (nat i))" BigInt "\<lambda>i. 0 \<le> i"
  by unfold_locales (auto simp: consumed_def BigInt_ok)

interpretation bool_codec: stream_codec "\<lambda>b. rlp_str (nat_be (of_bool b))" decode_bool "\<lambda>b. True"
  by unfold_locales (auto simp: consumed_def decode_bool_ok simp del: of_bool_eq)

section \<open>Unique decodability\<close>

lemma rlp_str_head: "length x \<le> 2 ^ 62 \<Longrightarrow> \<exists>h t. rlp_str x = h # t \<and> unat h < 0xc0"
  using length_nat_be_max [of "length x"] unat_of_nat_byte [of "128 + length x"]
    unat_of_nat_byte [of "183 + length (nat_be (length x))"]
  by (cases x) (auto simp: rlp_str_def)

lemma rlp_str_list: "rlp_str x @ r = rlp_list p @ r' \<Longrightarrow> length (rlp_str x @ r) \<le> 2 ^ 62 \<Longrightarrow> False"
proof -
  assume e: "rlp_str x @ r = rlp_list p @ r'" and l: "length (rlp_str x @ r) \<le> 2 ^ 62"
  have "length (rlp_str x @ r) = length (rlp_list p @ r')" by (simp only: e)
  then have "length x \<le> 2 ^ 62" "length p \<le> 2 ^ 62"
    using l length_rlp_str_ge [of x] length_rlp_list_ge [of p] by auto
  from rlp_str_head [OF this(1)] rlp_list_head [OF this(2)] e show False by (auto simp: byte_range)
qed

lemma rlp_list_prefix_free:
  assumes "rlp_list p @ r = rlp_list p' @ r'" "length (rlp_list p @ r) \<le> 2 ^ 62"
  shows "p = p' \<and> r = r'"
proof -
  let ?s = "newByteStream (rlp_list p @ r)"
  note w = wf_newByteStream [OF assms(2)]
  have le: "length (rlp_list p') \<le> length (rlp_list p @ r)" by (simp add: assms(1))
  have "List_open ?s = (Ok (of_nat (length p)), enter p ?s)"
    using w by (intro List_open_ok [of _ _ r]) auto
  moreover have "List_open ?s = (Ok (of_nat (length p')), enter p' ?s)"
    using w assms(1) le by (intro List_open_ok [of _ _ r']) auto
  ultimately have "enter p ?s = enter p' ?s" by simp
  moreover have "remaining (enter p ?s) = p @ r" "limit (enter p ?s) = s_pos (enter p ?s) + int (length p)"
    using w by (auto intro!: enter_facts(2,3))
  moreover have "remaining (enter p' ?s) = p' @ r'"
    "limit (enter p' ?s) = s_pos (enter p' ?s) + int (length p')"
    using w assms(1) le by (auto intro!: enter_facts(2,3))
  ultimately have "p @ r = p' @ r'" "length p = length p'" by (metis, metis add_left_cancel of_nat_eq_iff)
  then show ?thesis by simp
qed

lemma rlp_items_inj:
  assumes "\<And>i j r r'. \<lbrakk>i \<in> set is; rlp i @ r = rlp j @ r'; length (rlp i @ r) \<le> 2 ^ 62\<rbrakk> \<Longrightarrow> i = j \<and> r = r'"
    and "concat (map rlp is) = concat (map rlp js)" "length (concat (map rlp is)) \<le> 2 ^ 62"
  shows "is = js"
  using assms
proof (induction "is" arbitrary: js)
  case Nil
  then show ?case using rlp_nonempty by (cases js) auto
next
  case (Cons i "is")
  then obtain j js' where js: "js = j # js'" using rlp_nonempty [of i] by (cases js) auto
  have "i = j \<and> concat (map rlp is) = concat (map rlp js')"
    using Cons.prems(2,3) js by (intro Cons.prems(1)) auto
  then show ?case using Cons.IH [of js'] Cons.prems js by auto
qed

lemma rlp_unique:
  "rlp i @ r = rlp j @ r' \<Longrightarrow> length (rlp i @ r) \<le> 2 ^ 62 \<Longrightarrow> i = j \<and> r = r'"
proof (induction i arbitrary: j r r')
  case (RStr x)
  then show ?case using byte_string.enc_prefix_free [of x r _ r'] rlp_str_list [of x r _ r'] by (cases j) auto
next
  case (RList "is")
  show ?case
  proof (cases j)
    case (RStr y)
    then show ?thesis using RList.prems rlp_str_list [of y r' _ r] by (metis rlp.simps)
  next
    case (RList js)
    let ?p = "concat (map rlp is)"
    have "?p = concat (map rlp js) \<and> r = r'"
      using RList.prems \<open>j = RList js\<close> by (intro rlp_list_prefix_free) auto
    moreover have "length ?p \<le> 2 ^ 62" using RList.prems(2) length_rlp_list_ge [of ?p] by simp
    ultimately show ?thesis
      using rlp_items_inj [of "is" js] RList.IH \<open>j = RList js\<close> by auto
  qed
qed

lemma array_loop_stuck:
  "\<lbrakk>int (length vs) \<le> i; s_stack s = e # st; s_pos s < e; i + int fuel < 2 ^ 63\<rbrakk> \<Longrightarrow>
     list_loop fuel dec False z vs i s = None"
proof (induction fuel arbitrary: i)
  case (Suc fuel)
  then have "wrap64 (i + 1) = i + 1" by (intro wrap64_id) auto
  then show ?case using Suc by simp
qed simp

lemma array_loop_long:
  assumes "list_all2 (\<lambda>i v. decodes dec z i v fuel0) is vs" and "n < length vs"
    and "wf_stream s" and "remaining s = concat (map rlp is) @ r"
    and "limit s = s_pos s + int (length (concat (map rlp is)))" and "s_stack s \<noteq> []"
    and "length (concat (map rlp is)) < fuel0" and "int (length ds) + int fuel < 2 ^ 63"
  shows "list_loop fuel dec False z (ds @ replicate n z) (int (length ds)) s = None"
  using assms
proof (induction "is" vs arbitrary: ds s fuel n rule: list_all2_induct)
  case (Cons i "is" v vs)
  let ?c = "concat (map rlp is)" and ?s = "advance (length (rlp i)) s"
  obtain e st where st: "s_stack s = e # st" using Cons.prems(5) by (cases "s_stack s") auto
  have e: "limit s = e" using st by (simp add: limit_def)
  have ne: "0 < length (rlp i)" by (rule rlp_nonempty)
  then have pos: "s_pos s < e" using Cons.prems(4) e by (simp del: length_greater_0_conv)
  show ?case
  proof (cases "fuel = 0 \<or> n = 0")
    case True
    then show ?thesis using array_loop_stuck [of ds "int (length ds)" s e st fuel] st pos Cons.prems(7) by auto
  next
    case False
    then obtain f m where f: "fuel = Suc f" "n = Suc m" by (meson not0_implies_Suc)
    have rem: "remaining s = rlp i @ (?c @ r)" and lim: "s_pos s + int (length (rlp i)) \<le> limit s"
      using Cons.prems(3,4) by simp_all
    have dec: "dec z s = Some (Ok (v, ?s))"
      using Cons.hyps(1) Cons.prems(2,6) rem lim by (simp add: decodes_def)
    note adv = advance_facts [OF Cons.prems(2) rem lim]
    have w: "wrap64 (int (length ds) + 1) = int (length (ds @ [v]))"
      using Cons.prems(7) f by (subst wrap64_id) auto
    have "list_loop f dec False z ((ds @ [v]) @ replicate m z) (int (length (ds @ [v]))) ?s = None"
    proof (rule Cons.IH)
      show "limit ?s = s_pos ?s + int (length ?c)" using adv(3) Cons.prems(4) by simp
    qed (use adv Cons.prems f in \<open>simp_all\<close>)
    then show ?thesis using f st pos dec w by (simp add: bind_decoded_def)
  qed
qed simp

text \<open>A failing read leaves the stream as it was.\<close>

definition settled :: "stream \<Rightarrow> (rlp_error, 'a) outcome \<times> stream \<Rightarrow> bool" where
  "settled s r \<longleftrightarrow> snd r = s \<or> (\<exists>a. fst r = Ok a)"

lemma settled_simps [simp]: "settled s (Err e, s)" "settled s (Panic, s)" "settled s (Ok a, s')"
  by (auto simp: settled_def)

lemma take_payload_settled [simp]: "settled s (take_payload k i e n s)"
  by (auto simp: take_payload_def split: option.split)

lemma readLong_settled [simp]: "settled s (readLong k b p s)"
  by (auto simp: readLong_def Let_def split: outcome.split)

lemma readItem_settled [simp]: "settled s (readItem s)"
  by (simp add: readItem_def Let_def split: option.split)

lemma readItem_wf:
  assumes "wf_stream s" shows "wf_stream (snd (readItem s))"
proof (cases "\<exists>a. fst (readItem s) = Ok a")
  case True
  then obtain k x tot where "readItem s = (Ok (k, x, tot), snd (readItem s))"
    by (metis prod.collapse prod_cases3)
  then show ?thesis using readItem_inv [OF assms] consumed_wf [OF assms] by blast
next
  case False
  then show ?thesis using assms readItem_settled [of s] by (metis settled_def)
qed

lemma decode_encoded:
  assumes "encodeValue ad v = Ok b" and "rt_ok t v"
    and "length (b @ r) \<le> 2 ^ 62" and "length b < fuel"
  shows "DecodeBytes fuel (b @ r) t (zero_val t) =
    Some (Ok (v, (newByteStream (b @ r))\<lparr>s_pos := int (length b)\<rparr>))"
proof -
  obtain i where i: "item_of ad v = Some i" "b = rlp i"
    using assms(1,3) encode_inverse(1) [of ad v b] by auto
  with encoded_decodes(1) [OF this(1) assms(2), of fuel] wf_newByteStream [OF assms(3)] assms(4)
  show ?thesis by (simp add: decodes_def DecodeBytes_def)
qed

section \<open>Properties\<close>

text \<open>
  C24. Round trip: decoding the bytes the encoder produced for a value of a round-trippable
  type into a zero value of that type returns the value and consumes exactly those bytes,
  whatever follows them; the list loops need no more fuel than the encoding has bytes.
\<close>

theorem decode_encode_roundtrip:
  assumes "encodeValue ad v = Ok b" and "rt_ok t v"
    and "length (b @ r) \<le> 2 ^ 62" and "length b < fuel"
  shows "DecodeBytes fuel (b @ r) t (zero_val t) =
    Some (Ok (v, (newByteStream (b @ r))\<lparr>s_pos := int (length b)\<rparr>))"
  using assms by (rule decode_encoded)

theorem decode_encode_roundtrip_witness:
  "DecodeBytes 10 ([0xc5, 0x82, 0x04, 0x00, 0xc1, 0x01] @ [0x07])
     (TStruct [(True, TUint 64), (True, TSlice TBool)]) (VStruct [(True, VUint 0), (True, VSlice [])]) =
   Some (Ok (VStruct [(True, VUint 1024), (True, VSlice [VBool True])],
     (newByteStream ([0xc5, 0x82, 0x04, 0x00, 0xc1, 0x01] @ [0x07]))\<lparr>s_pos := 6\<rparr>))"
proof -
  have e: "encodeValue False (VStruct [(True, VUint 1024), (True, VSlice [VBool True])])
    = Ok [0xc5, 0x82, 0x04, 0x00, 0xc1, 0x01]" by code_simp
  have t: "rt_ok (TStruct [(True, TUint 64), (True, TSlice TBool)])
    (VStruct [(True, VUint 1024), (True, VSlice [VBool True])])" by code_simp
  show ?thesis using decode_encode_roundtrip [OF e t, of "[0x07]" 10] by simp
qed

text \<open>
  C30. Canonicity: on a well-formed stream \<open>Bytes\<close> succeeds exactly when the canonical encoding
  of the returned string stands at the current position inside the current scope, and it then
  moves the position behind it.  Non-minimal forms are never accepted.
\<close>

theorem Bytes_canonical:
  assumes "wf_stream s"
  shows "Bytes s = (Ok x, s') \<longleftrightarrow> (\<exists>r. remaining s = rlp_str x @ r) \<and>
    s_pos s + int (length (rlp_str x)) \<le> limit s \<and>
    s' = s\<lparr>s_pos := s_pos s + int (length (rlp_str x))\<rparr>"
  using Bytes_iff [OF assms] by (simp add: consumed_def)

theorem Bytes_canonical_witness:
  "fst (Bytes (newByteStream [0x81, 0x85])) = Ok [0x85] \<and>
   fst (Bytes (newByteStream [0x81, 0x05])) \<noteq> Ok [0x05]"
proof -
  have wf: "wf_stream (newByteStream [0x81, 0x85])" "wf_stream (newByteStream [0x81, 0x05])"
    by (simp_all add: wf_newByteStream)
  have "Bytes (newByteStream [0x81, 0x85]) = (Ok [0x85], (newByteStream [0x81, 0x85])\<lparr>s_pos := 2\<rparr>)"
    by (subst Bytes_canonical [OF wf(1)])
       (intro conjI exI [of _ "[]"]; code_simp)
  moreover have "Bytes (newByteStream [0x81, 0x05]) \<noteq> (Ok [0x05], s')" for s'
    by (subst Bytes_canonical [OF wf(2)]) (simp add: remaining_def newByteStream_def rlp_str_single)
  ultimately show ?thesis by (metis fst_conv prod.collapse)
qed

text \<open>
  Injectivity: two values with the same encoding denote the same RLP item, and a
  concatenation of encodings splits in only one way.
\<close>

theorem encodeValue_injective:
  assumes "encodeValue ad v = Ok b" and "encodeValue ad' v' = Ok b'"
    and "b @ r = b' @ r'" and "length (b @ r) \<le> 2 ^ 62"
  shows "item_of ad v = item_of ad' v' \<and> r = r'"
proof -
  have "length (b @ r) = length (b' @ r')" by (simp only: assms(3))
  then have "length b < 2 ^ 64" "length b' < 2 ^ 64" using assms(4) by auto
  then obtain i i' where "item_of ad v = Some i" "b = rlp i" "item_of ad' v' = Some i'" "b' = rlp i'"
    using assms(1,2) encode_inverse(1) by metis
  then show ?thesis using rlp_unique [of i r i' r'] assms(3,4) by simp
qed

theorem encodeValue_injective_witness:
  "item_of False (VUint 5) = item_of True (VBytes [5]) \<and> [7] = [7 :: byte]"
proof (rule encodeValue_injective)
  show "encodeValue False (VUint 5) = Ok [5]" by code_simp
  show "encodeValue True (VBytes [5]) = Ok [5]" by code_simp
qed simp_all

text \<open>
  Integers: a successful \<open>Uint64\<close> has consumed the minimal encoding of the value it
  returns, or the single byte \<open>0x00\<close>, which it accepts for zero besides \<open>0x80\<close>.
\<close>

theorem Uint64_minimal:
  assumes "wf_stream s" and "Uint64 s = (Ok u, s')"
  shows "(\<exists>r. remaining s = encodeUint u @ r) \<and> s' = s\<lparr>s_pos := s_pos s + int (length (encodeUint u))\<rparr>
    \<or> u = 0 \<and> (\<exists>r. remaining s = 0x00 # r) \<and> s' = s\<lparr>s_pos := s_pos s + 1\<rparr>"
  using Uint64_canonical [OF assms] by (auto simp: consumed_def encodeUint_rlp)

theorem Uint64_minimal_witness:
  "\<exists>r. remaining (newByteStream [0x82, 0x04, 0x00]) = encodeUint 1024 @ r"
proof -
  have "wf_stream (newByteStream [0x82, 0x04, 0x00])" by (simp add: wf_newByteStream)
  moreover have "Uint64 (newByteStream [0x82, 0x04, 0x00]) =
      (Ok 1024, (newByteStream [0x82, 0x04, 0x00])\<lparr>s_pos := 3\<rparr>)"
    by code_simp
  ultimately show ?thesis
    using Uint64_minimal [of "newByteStream [0x82, 0x04, 0x00]" 1024] by auto
qed

text \<open>
  C37. A list with more elements than the array it is decoded into is not rejected.  Take the
  encoding of any slice of round-trippable values, and decode it into an array of the same element
  type with fewer elements: the loop of \<open>decodeList\<close> stops consuming input at the end of the array,
  and no number of iterations below \<open>2\<^sup>62\<close> is enough for the decoder to return.
\<close>

theorem decodeList_array_hangs:
  assumes "encodeValue ad (VSlice vs) = Ok b" and "rt_all t vs" and "n < length vs"
    and "length (b @ r) \<le> 2 ^ 62" and "length b < fuel" "fuel < 2 ^ 62"
  shows "DecodeBytes fuel (b @ r) (TArray n t) (zero_val (TArray n t)) = None"
proof -
  have "length b < 2 ^ 64" using assms(4) by simp
  with assms(1) obtain "is" where i: "items_of True vs = Some is" "b = rlp_list (concat (map rlp is))"
    using encode_inverse(1) [of ad "VSlice vs" b] by auto
  let ?p = "concat (map rlp is)" and ?s = "newByteStream (b @ r)"
  note w = wf_newByteStream [OF assms(4)]
  have s: "wf_stream ?s" "remaining ?s = rlp_list ?p @ r" "s_pos ?s + int (length (rlp_list ?p)) \<le> limit ?s"
    using w i(2) by simp_all
  have "list_loop fuel (decodeInto fuel t) False (zero_val t) ([] @ replicate n (zero_val t)) (int (length ([] :: goval list)))
      (enter ?p ?s) = None"
  proof (rule array_loop_long)
    show "list_all2 (\<lambda>i v. decodes (decodeInto fuel t) (zero_val t) i v fuel) is vs"
      by (rule encoded_decodes(2) [OF i(1) assms(2)])
    show "length ?p < fuel" using length_rlp_list_ge [of ?p] i(2) assms(5) by simp
  qed (use assms enter_facts [OF s] in \<open>simp_all add: enter_def\<close>)
  then show ?thesis
    using List_open_ok [OF s] by (simp add: DecodeBytes_def of_reader_def bind_decoded_def)
qed

theorem decodeList_array_hangs_witness:
  "DecodeBytes 1000 [0xc2, 0x01, 0x02] (TArray 1 (TUint 64)) (VArray [VUint 0]) = None"
proof -
  have e: "encodeValue False (VSlice [VUint 1, VUint 2]) = Ok [0xc2, 0x01, 0x02]" by code_simp
  have "rt_all (TUint 64) [VUint 1, VUint 2]" by code_simp
  then show ?thesis using decodeList_array_hangs [OF e, of "TUint 64" 1 "[]" 1000] by simp
qed

text \<open>
  C38. \<open>readItem\<close> keeps a stream well formed, and a read that fails leaves it as it was; but
  a declared size near \<open>2\<^sup>63\<close> passes the bounds check, because the sum of the start and the
  size wraps to a negative number, and the slice of the payload panics.
\<close>

theorem readItem_safety:
  "(wf_stream s \<longrightarrow> wf_stream (snd (readItem s))) \<and>
   ((\<exists>a. fst (readItem s) = Ok a) \<or> snd (readItem s) = s) \<and>
   fst (readItem (newByteStream (0xbf # 0x7f # replicate 7 0xff))) = Panic"
proof -
  have "fst (readItem (newByteStream (0xbf # 0x7f # replicate 7 0xff))) = Panic" by code_simp
  then show ?thesis using readItem_wf [of s] readItem_settled [of s] by (auto simp: settled_def)
qed

theorem readItem_safety_witness:
  "wf_stream (snd (readItem (newByteStream [0xc1, 0x05])))"
  using readItem_safety [of "newByteStream [0xc1, 0x05]"] wf_newByteStream [of "[0xc1, 0x05]"] by simp

end
