(* ===== verification/Journal.thy ===== *)
theory Journal
  imports Prelude "HOL-Library.Finite_Map"
begin

text \<open>
  The undo journal of \<^verbatim>\<open>src/pkg/core/state/journal.go\<close>, for an arbitrary type of entries
  and of states.  The contract of an entry type is the locale \<open>undo_log\<close>; inside it the
  journal is shown to restore the state of every live snapshot, however snapshots and
  reverts are nested.
\<close>

section \<open>Operations\<close>

text \<open>
  The entry slice of the source grows at its end; here the newest entry is the head.
  \<open>nextID\<close> counts snapshots and does not reach the range where a Go \<open>int\<close> wraps.
\<close>

record 'e journal =
  entries :: "'e list"
  snapshots :: "(int, nat) fmap"
  nextID :: int

definition newJournal :: "'e journal" where
  "newJournal = \<lparr>entries = [], snapshots = fmempty, nextID = 0\<rparr>"

definition journal_append :: "'e \<Rightarrow> 'e journal \<Rightarrow> 'e journal" where
  "journal_append entry j = j\<lparr>entries := entry # entries j\<rparr>"

definition journal_length :: "'e journal \<Rightarrow> nat" where
  "journal_length j = length (entries j)"

definition journal_snapshot :: "'e journal \<Rightarrow> int \<times> 'e journal" where
  "journal_snapshot j =
     (let sid = nextID j in
      (sid, j\<lparr>nextID := sid + 1, snapshots := fmupd sid (length (entries j)) (snapshots j)\<rparr>))"

text \<open>Reverting entries from the newest on; \<open>None\<close> is a panic of an entry.\<close>

fun revert_entries :: "('e \<Rightarrow> 's \<Rightarrow> 's option) \<Rightarrow> 'e list \<Rightarrow> 's \<Rightarrow> 's option" where
  "revert_entries undo [] s = Some s"
| "revert_entries undo (e # es) s =
     (case undo e s of None \<Rightarrow> None | Some s' \<Rightarrow> revert_entries undo es s')"

text \<open>
  An unknown sid is ignored.  An index beyond the entries would be a slice expression out of
  range; \<open>index_in_range\<close> below shows that it does not occur.
\<close>

definition revertToSnapshot ::
  "('e \<Rightarrow> 's \<Rightarrow> 's option) \<Rightarrow> int \<Rightarrow> 'e journal \<Rightarrow> 's \<Rightarrow> ('e journal \<times> 's) option" where
  "revertToSnapshot undo sid j s =
     (case fmlookup (snapshots j) sid of
        None \<Rightarrow> Some (j, s)
      | Some idx \<Rightarrow>
          let n = length (entries j) in
          if idx > n then None
          else case revert_entries undo (take (n - idx) (entries j)) s of
              None \<Rightarrow> None
            | Some s' \<Rightarrow>
                Some (j\<lparr>entries := drop (n - idx) (entries j),
                        snapshots := fmfilter (\<lambda>i. \<not> i \<ge> sid) (snapshots j)\<rparr>, s'))"

lemma revert_entries_append:
  "revert_entries undo (es @ es') s =
     (case revert_entries undo es s of None \<Rightarrow> None | Some s' \<Rightarrow> revert_entries undo es' s')"
  by (induction es arbitrary: s) (auto split: option.split)

section \<open>The contract of an undo log\<close>

text \<open>The snapshot table that belongs to a list of snapshots with their entries.\<close>

definition marks :: "(int \<times> 's \<times> 'e list) list \<Rightarrow> (int \<times> nat) list" where
  "marks h = map (\<lambda>(sid, s0, es0). (sid, length es0)) h"

lemma marks_simps [simp]:
  "marks [] = []" "marks ((sid, s0, es0) # h) = (sid, length es0) # marks h"
  "marks (h1 @ h2) = marks h1 @ marks h2"
  by (simp_all add: marks_def)

lemma map_fst_marks [simp]: "map fst (marks h) = map fst h"
  by (induction h) auto

lemma fst_set_marks [simp]: "fst ` set (marks h) = fst ` set h"
  by (metis list.set_map map_fst_marks)

lemma set_marks: "(sid, n) \<in> set (marks h) \<longleftrightarrow> (\<exists>s0 es0. (sid, s0, es0) \<in> set h \<and> n = length es0)"
  by (force simp: marks_def)

text \<open>
  \<open>sim s t\<close> says that \<open>t\<close> is an acceptable restoration of \<open>s\<close>.  Restorations compose, and
  \<open>valid\<close> states are restorations of themselves.
\<close>

locale undo_log =
  fixes undo :: "'e \<Rightarrow> 's \<Rightarrow> 's option"
    and sim :: "'s \<Rightarrow> 's \<Rightarrow> bool"
    and valid :: "'s \<Rightarrow> bool"
  assumes sim_refl: "valid s \<Longrightarrow> sim s s"
    and sim_trans: "\<lbrakk>sim s t; sim t u\<rbrakk> \<Longrightarrow> sim s u"
    and sim_valid: "sim s t \<Longrightarrow> valid t"
begin

text \<open>The entries \<open>es\<close> take every restoration of \<open>s'\<close> to a restoration of \<open>s\<close>.\<close>

definition undoes :: "'e list \<Rightarrow> 's \<Rightarrow> 's \<Rightarrow> bool" where
  "undoes es s s' \<longleftrightarrow>
     (\<forall>t. sim s' t \<longrightarrow> (\<exists>t'. revert_entries undo es t = Some t' \<and> sim s t'))"

lemma undoes_Nil: "sim s s' \<Longrightarrow> undoes [] s s'"
  by (auto simp: undoes_def intro: sim_trans)

lemma undoes_single:
  "(\<And>t. sim s' t \<Longrightarrow> \<exists>t'. undo e t = Some t' \<and> sim s t') \<Longrightarrow> undoes [e] s s'"
  by (force simp: undoes_def split: option.split)

lemma undoes_append: "undoes es s0 s1 \<Longrightarrow> undoes es' s1 s2 \<Longrightarrow> undoes (es' @ es) s0 s2"
  by (fastforce simp: undoes_def revert_entries_append split: option.split)

lemma undoes_sim: "undoes es s0 s1 \<Longrightarrow> sim s1 t \<Longrightarrow> undoes es s0 t"
  by (meson undoes_def sim_trans)

text \<open>
  The live snapshots, newest first, each with a copy of the state and the entries it was
  taken at: consecutive copies are linked by entries that undo the difference.
\<close>

fun linked :: "(int \<times> 's \<times> 'e list) list \<Rightarrow> 'e list \<Rightarrow> 's \<Rightarrow> bool" where
  "linked [] es s = True"
| "linked ((sid, s0, es0) # h) es s =
     ((\<exists>d. es = d @ es0 \<and> undoes d s0 s) \<and> linked h es0 s0)"

text \<open>
  \<open>log_on I\<close> is the invariant for the ids in \<open>I\<close>, which has all ids still to come; \<open>log_inv\<close>
  is that for all ids.
\<close>

definition log_on :: "int set \<Rightarrow> 'e journal \<Rightarrow> 's \<Rightarrow> (int \<times> 's \<times> 'e list) list \<Rightarrow> bool" where
  "log_on I j s h \<longleftrightarrow> valid s \<and> linked h (entries j) s \<and>
     (\<forall>sid \<in> I. fmlookup (snapshots j) sid = map_of (marks h) sid) \<and> fst ` set h \<subseteq> I \<and> {nextID j..} \<subseteq> I \<and>
     sorted_wrt (>) (nextID j # map fst h)"

definition log_inv :: "'e journal \<Rightarrow> 's \<Rightarrow> (int \<times> 's \<times> 'e list) list \<Rightarrow> bool" where
  "log_inv j s h \<longleftrightarrow> valid s \<and> linked h (entries j) s \<and>
     fmlookup (snapshots j) = map_of (marks h) \<and>
     sorted_wrt (>) (nextID j # map fst h)"

lemma log_inv_on: "log_inv j s h \<longleftrightarrow> log_on UNIV j s h"
  by (auto simp: log_inv_def log_on_def)

lemma log_inv_new: "valid s \<Longrightarrow> log_inv newJournal s []"
  by (auto simp: log_inv_def newJournal_def)

text \<open>Forgetting the live snapshots, as a change that is not journaled does.\<close>

lemma log_on_restart: "log_on I j s h \<Longrightarrow> valid s' \<Longrightarrow> log_on {nextID j..} j s' []"
  by (fastforce simp: log_on_def map_of_eq_None_iff)

lemma linked_step: "linked h es s \<Longrightarrow> undoes d s s' \<Longrightarrow> linked h (d @ es) s'"
  by (cases h) (auto, metis undoes_append)

lemma log_on_step:
  "\<lbrakk>log_on I j s h; undoes d s s'; valid s'\<rbrakk> \<Longrightarrow> log_on I (j\<lparr>entries := d @ entries j\<rparr>) s' h"
  by (auto simp: log_on_def intro: linked_step)

lemmas log_inv_step = log_on_step [of UNIV, folded log_inv_on]

lemma linked_sim: "linked h es s \<Longrightarrow> sim s t \<Longrightarrow> linked h es t"
  by (cases h) (auto, metis undoes_sim)

lemma log_on_snapshot:
  assumes "log_on I j s h"
  shows "log_on I (snd (journal_snapshot j)) s ((nextID j, s, entries j) # h)"
proof -
  have "undoes [] s s" using assms by (intro undoes_Nil sim_refl) (simp add: log_on_def)
  then show ?thesis
    using assms by (auto simp: log_on_def journal_snapshot_def Let_def)
qed

lemmas log_inv_snapshot = log_on_snapshot [of UNIV, folded log_inv_on]

lemma linked_split:
  "linked (h1 @ (sid, s0, es0) # h2) es s \<Longrightarrow>
     (\<exists>d. es = d @ es0 \<and> undoes d s0 s) \<and> linked h2 es0 s0"
proof (induction h1 arbitrary: es s)
  case (Cons x h1)
  obtain id1 s1 es1 where x: "x = (id1, s1, es1)" by (cases x)
  then obtain d d' where "es = d @ es1" "undoes d s1 s" "es1 = d' @ es0" "undoes d' s0 s1"
      "linked h2 es0 s0"
    using Cons.prems Cons.IH [of es1 s1] by auto
  then show ?case using undoes_append [of d' s0 s1 d s] by auto
qed simp

text \<open>The ids at and above a live sid are those of the snapshots taken since.\<close>

lemma map_of_below:
  fixes sid :: int
  assumes "sorted_wrt (>) (map fst (h1 @ (sid, x) # h2))"
  shows "(\<lambda>k. if k < sid then map_of (h1 @ (sid, x) # h2) k else None) = map_of h2"
proof
  fix k :: int
  have h1: "\<forall>p\<in>set h1. sid < fst p" and h2: "\<forall>p\<in>set h2. fst p < sid"
    using assms by (auto simp: sorted_wrt_append)
  show "(if k < sid then map_of (h1 @ (sid, x) # h2) k else None) = map_of h2 k"
  proof (cases "k < sid")
    case True
    then have "map_of h1 k = None" using h1 by (auto simp: map_of_eq_None_iff)
    then show ?thesis using True by (simp add: map_add_def)
  next
    case False
    then have "map_of h2 k = None" using h2 by (auto simp: map_of_eq_None_iff)
    then show ?thesis using False by simp
  qed
qed

theorem log_on_revert:
  assumes inv: "log_on I j s h" and h: "h = h1 @ (sid, s0, es0) # h2"
  shows "\<exists>j' s'. revertToSnapshot undo sid j s = Some (j', s') \<and> sim s0 s' \<and>
    entries j' = es0 \<and> log_on I j' s' h2"
proof -
  have sorted: "sorted_wrt (>) (map fst (marks h1 @ (sid, length es0) # marks h2))"
    using inv h by (simp add: log_on_def sorted_wrt_append)
  note below = fun_cong [OF map_of_below [OF sorted]]
  have lk: "fmlookup (snapshots j) i = map_of (marks h1 @ (sid, length es0) # marks h2) i" if "i \<in> I" for i
    using inv h that by (simp add: log_on_def)
  have "map_of (marks h1) sid = None"
    using sorted by (force simp: sorted_wrt_append map_of_eq_None_iff)
  moreover have "sid \<in> I" using inv h by (auto simp: log_on_def)
  ultimately have at: "fmlookup (snapshots j) sid = Some (length es0)" by (simp add: lk map_add_def)
  obtain d where d: "entries j = d @ es0" "undoes d s0 s" and l2: "linked h2 es0 s0"
    using linked_split [of h1 sid s0 es0 h2 "entries j" s] inv h by (auto simp: log_on_def)
  have "sim s s" using inv by (intro sim_refl) (simp add: log_on_def)
  then obtain s' where s': "revert_entries undo d s = Some s'" "sim s0 s'"
    using d(2) by (auto simp: undoes_def)
  define j' where "j' = j\<lparr>entries := es0, snapshots := fmfilter (\<lambda>i. \<not> i \<ge> sid) (snapshots j)\<rparr>"
  have "revertToSnapshot undo sid j s = Some (j', s')"
    using at d(1) s'(1) by (simp add: revertToSnapshot_def j'_def)
  moreover have "fmlookup (snapshots j') i = map_of (marks h2) i" if "i \<in> I" for i
    unfolding below [symmetric] lk [OF that, symmetric] by (simp add: j'_def not_le)
  then have "log_on I j' s' h2"
    using inv h l2 s' sim_valid linked_sim
    by (auto simp: log_on_def j'_def sorted_wrt_append)
  ultimately show ?thesis using s'(2) by (auto simp: j'_def)
qed

lemmas log_inv_revert = log_on_revert [of UNIV, folded log_inv_on]

lemma log_inv_id:
  assumes "log_inv j s h" "fmlookup (snapshots j) sid = Some n"
  obtains h1 s0 es0 h2 where "h = h1 @ (sid, s0, es0) # h2" "n = length es0"
proof -
  have "(sid, n) \<in> set (marks h)"
    using assms by (auto simp: log_inv_def dest: map_of_SomeD)
  then obtain s0 es0 where "(sid, s0, es0) \<in> set h" and n: "n = length es0" by (auto simp: set_marks)
  then obtain h1 h2 where "h = h1 @ (sid, s0, es0) # h2" by (meson split_list)
  then show ?thesis using that n by blast
qed

lemma index_in_range:
  assumes "log_inv j s h" "fmlookup (snapshots j) sid = Some n" shows "n \<le> length (entries j)"
proof -
  obtain h1 s0 es0 h2 where "h = h1 @ (sid, s0, es0) # h2" "n = length es0"
    using assms log_inv_id by metis
  then show ?thesis using assms(1) linked_split [of h1 sid s0 es0 h2 "entries j" s]
    by (auto simp: log_inv_def)
qed

lemma log_inv_revert_any:
  assumes "log_inv j s h"
  shows "\<exists>j' s' h'. revertToSnapshot undo sid j s = Some (j', s') \<and> log_inv j' s' h'"
proof (cases "fmlookup (snapshots j) sid")
  case None
  then show ?thesis using assms by (auto simp: revertToSnapshot_def)
next
  case (Some n)
  then obtain h1 s0 es0 h2 where "h = h1 @ (sid, s0, es0) # h2" using assms log_inv_id by metis
  then show ?thesis using log_inv_revert [OF assms] by blast
qed

end

end
