(* ===== verification/Types_Common.thy ===== *)
theory Types_Common
  imports Prelude
begin

text \<open>
  The fixed-size byte arrays, accounts and logs of \<^verbatim>\<open>src/pkg/core/types/common.go\<close>.
  \<open>Address\<close> and \<open>Hash\<close> are arrays of 20 and 32 bytes; they are kept as words, and
  \<open>address_bytes\<close> and \<open>hash_bytes\<close> give the array.
\<close>

section \<open>Addresses and hashes\<close>

type_synonym address = "160 word"
type_synonym hash = u256

definition address_bytes :: "address \<Rightarrow> bytes" where
  "address_bytes a = be_fixed 20 (unat a)"

definition hash_bytes :: "hash \<Rightarrow> bytes" where
  "hash_bytes h = be_fixed 32 (unat h)"

text \<open>
  \<open>SetBytes\<close> keeps the last bytes of a slice that is too long and copies a shorter one to
  the end of the array, whose leading bytes stay as they are.
\<close>

definition hash_SetBytes :: "hash \<Rightarrow> bytes \<Rightarrow> hash" where
  "hash_SetBytes h b =
     (let b' = (if length b > 32 then drop (length b - 32) b else b) in
      of_nat (be_nat (take (32 - length b') (hash_bytes h) @ b')))"

definition BytesToHash :: "bytes \<Rightarrow> hash" where
  "BytesToHash b = hash_SetBytes 0 b"

definition IntToHash :: "int option \<Rightarrow> hash" where
  "IntToHash v = (case v of None \<Rightarrow> 0 | Some i \<Rightarrow> BytesToHash (big_bytes i))"

definition hash_IsZero :: "hash \<Rightarrow> bool" where
  "hash_IsZero h \<longleftrightarrow> h = 0"

definition address_SetBytes :: "address \<Rightarrow> bytes \<Rightarrow> address" where
  "address_SetBytes a b =
     (let b' = (if length b > 20 then drop (length b - 20) b else b) in
      of_nat (be_nat (take (20 - length b') (address_bytes a) @ b')))"

definition BytesToAddress :: "bytes \<Rightarrow> address" where
  "BytesToAddress b = address_SetBytes 0 b"

definition address_IsZero :: "address \<Rightarrow> bool" where
  "address_IsZero a \<longleftrightarrow> a = 0"

section \<open>Accounts and logs\<close>

definition EmptyRootHash :: hash where
  "EmptyRootHash = 0x56e81f171bcc55a6ff8345e692c0f86e5b48e01b996cadc001622fb5e363b421"

definition EmptyCodeHash :: hash where
  "EmptyCodeHash = 0xc5d2460186f7233c927e7db2dcc703c0e500b653ca82273b7bfad8045d85a470"

record account =
  Nonce :: u64
  Balance :: int
  Root :: hash
  CodeHash :: bytes

definition NewAccount :: account where
  "NewAccount = \<lparr>Nonce = 0, Balance = 0, Root = EmptyRootHash, CodeHash = hash_bytes EmptyCodeHash\<rparr>"

record log =
  Address :: address
  Topics :: "hash list"
  Data :: bytes
  BlockNumber :: u64
  TxHash :: hash
  TxIndex :: u64
  BlockHash :: hash
  BlockTimestamp :: u64
  Index :: u64
  Removed :: bool

section \<open>Conversions\<close>

lemma length_hash_bytes [simp]: "length (hash_bytes h) = 32"
  by (simp add: hash_bytes_def)

lemma length_address_bytes [simp]: "length (address_bytes a) = 20"
  by (simp add: address_bytes_def)

lemma unat_hash_less: "unat (h :: hash) < 256 ^ 32"
  using unsigned_less [of h] by simp

lemma unat_address_less: "unat (a :: address) < 256 ^ 20"
  using unsigned_less [of a] by simp

lemma be_nat_hash_bytes [simp]: "be_nat (hash_bytes h) = unat h"
  using unat_hash_less [of h] by (simp only: hash_bytes_def be_nat_be_fixed) (rule mod_less)

lemma be_nat_address_bytes [simp]: "be_nat (address_bytes a) = unat a"
  using unat_address_less [of a] by (simp only: address_bytes_def be_nat_be_fixed) (rule mod_less)

lemma be_nat_zeros: "be_nat (replicate n 0 @ b) = be_nat b"
  by (induction n) (simp_all add: be_nat_def)

lemma hash_bytes_0: "hash_bytes 0 = replicate 32 0"
  by (simp add: hash_bytes_def be_fixed_def map_replicate_const)

lemma address_bytes_0: "address_bytes 0 = replicate 20 0"
  by (simp add: address_bytes_def be_fixed_def map_replicate_const)

lemma BytesToHash_eq: "BytesToHash b = of_nat (be_nat (drop (length b - 32) b))"
  by (simp add: BytesToHash_def hash_SetBytes_def Let_def hash_bytes_0 be_nat_zeros)

lemma BytesToAddress_eq: "BytesToAddress b = of_nat (be_nat (drop (length b - 20) b))"
  by (simp add: BytesToAddress_def address_SetBytes_def Let_def address_bytes_0 be_nat_zeros)

lemma BytesToHash_hash_bytes [simp]: "BytesToHash (hash_bytes h) = h"
  by (simp add: BytesToHash_eq)

lemma BytesToAddress_address_bytes [simp]: "BytesToAddress (address_bytes a) = a"
  by (simp add: BytesToAddress_eq)

lemma hash_bytes_inject [simp]: "hash_bytes h = hash_bytes h' \<longleftrightarrow> h = h'"
  by (metis BytesToHash_hash_bytes)

lemma address_bytes_inject [simp]: "address_bytes a = address_bytes a' \<longleftrightarrow> a = a'"
  by (metis BytesToAddress_address_bytes)

lemma be_fixed_be_nat: "length b = k \<Longrightarrow> be_fixed k (be_nat b) = b"
proof (induction b arbitrary: k rule: rev_induct)
  case (snoc x b)
  have "(be_nat b * 256 + unat x) div 256 = be_nat b" using unat_byte_less [of x] by simp
  moreover have "(of_nat (be_nat b * 256 + unat x) :: byte) = x"
    by (rule word_unat_eq_iff [THEN iffD2], simp only: unat_of_nat_byte)
       (use unat_byte_less [of x] in simp)
  ultimately show ?case using snoc.IH [of "length b"] snoc.prems
    by (auto simp: be_nat_snoc be_fixed_Suc)
qed simp

lemma hash_bytes_of_list:
  assumes "length b = 32" shows "hash_bytes (BytesToHash b) = b"
proof -
  have "be_nat b < 2 ^ 256" using be_nat_less [of b] assms by simp
  then show ?thesis using assms
    by (simp add: BytesToHash_eq hash_bytes_def unat_of_nat be_fixed_be_nat)
qed

end
