(* ===== verification/Access_List.thy ===== *)
theory Access_List
  imports Types_Common "HOL-Library.Finite_Map"
begin

text \<open>
  The access list of EIP-2929, \<^verbatim>\<open>src/pkg/core/state/access_list.go\<close>: a map from addresses
  to an index into a slice of slot sets, or to -1.  Its contract, sets of warm addresses and
  warm slots, is the locale \<open>warm_set\<close>.
\<close>

section \<open>Operations\<close>

record access_list =
  addresses :: "(address, int) fmap"
  slots :: "hash fset list"

definition newAccessList :: access_list where
  "newAccessList = \<lparr>addresses = fmempty, slots = []\<rparr>"

definition AddAddress :: "address \<Rightarrow> access_list \<Rightarrow> bool \<times> access_list" where
  "AddAddress addr al =
     (case fmlookup (addresses al) addr of
        Some _ \<Rightarrow> (True, al)
      | None \<Rightarrow> (False, al\<lparr>addresses := fmupd addr (-1) (addresses al)\<rparr>))"

text \<open>Indexing \<open>al.slots[idx]\<close>; \<open>None\<close> is the panic of an index out of range.\<close>

definition slots_at :: "access_list \<Rightarrow> int \<Rightarrow> hash fset option" where
  "slots_at al idx =
     (if 0 \<le> idx \<and> idx < int (length (slots al)) then Some (slots al ! nat idx) else None)"

definition AddSlot :: "address \<Rightarrow> hash \<Rightarrow> access_list \<Rightarrow> ((bool \<times> bool) \<times> access_list) option" where
  "AddSlot addr slot al =
     (let fresh = al\<lparr>addresses := fmupd addr (int (length (slots al))) (addresses al),
                     slots := slots al @ [{|slot|}]\<rparr> in
      case fmlookup (addresses al) addr of
        None \<Rightarrow> Some ((False, False), fresh)
      | Some idx \<Rightarrow>
          if idx = -1 then Some ((True, False), fresh)
          else case slots_at al idx of
              None \<Rightarrow> None
            | Some sl \<Rightarrow>
                if slot |\<in>| sl then Some ((True, True), al)
                else Some ((True, False), al\<lparr>slots := (slots al)[nat idx := finsert slot sl]\<rparr>))"

definition ContainsAddress :: "address \<Rightarrow> access_list \<Rightarrow> bool" where
  "ContainsAddress addr al = (fmlookup (addresses al) addr \<noteq> None)"

definition ContainsSlot :: "address \<Rightarrow> hash \<Rightarrow> access_list \<Rightarrow> (bool \<times> bool) option" where
  "ContainsSlot addr slot al =
     (case fmlookup (addresses al) addr of
        None \<Rightarrow> Some (False, False)
      | Some idx \<Rightarrow>
          if idx = -1 then Some (True, False)
          else case slots_at al idx of None \<Rightarrow> None | Some sl \<Rightarrow> Some (True, slot |\<in>| sl))"

text \<open>A deep copy of a value is the value.\<close>

definition access_list_Copy :: "access_list \<Rightarrow> access_list" where
  "access_list_Copy al = \<lparr>addresses = addresses al, slots = map (\<lambda>sl. sl) (slots al)\<rparr>"

definition DeleteAddress :: "address \<Rightarrow> access_list \<Rightarrow> access_list" where
  "DeleteAddress addr al = al\<lparr>addresses := fmdrop addr (addresses al)\<rparr>"

definition DeleteSlot :: "address \<Rightarrow> hash \<Rightarrow> access_list \<Rightarrow> access_list option" where
  "DeleteSlot addr slot al =
     (case fmlookup (addresses al) addr of
        None \<Rightarrow> Some al
      | Some idx \<Rightarrow>
          if idx = -1 then Some al
          else case slots_at al idx of
              None \<Rightarrow> None
            | Some sl \<Rightarrow> Some (al\<lparr>slots := (slots al)[nat idx := sl |-| {|slot|}]\<rparr>))"

section \<open>The contract\<close>

locale warm_set =
  fixes wf :: "'l \<Rightarrow> bool" and adrs :: "'l \<Rightarrow> address set" and slts :: "'l \<Rightarrow> (address \<times> hash) set"
    and add_adr :: "address \<Rightarrow> 'l \<Rightarrow> bool \<times> 'l"
    and add_slt :: "address \<Rightarrow> hash \<Rightarrow> 'l \<Rightarrow> ((bool \<times> bool) \<times> 'l) option"
    and del_adr :: "address \<Rightarrow> 'l \<Rightarrow> 'l"
    and del_slt :: "address \<Rightarrow> hash \<Rightarrow> 'l \<Rightarrow> 'l option"
  assumes slot_address: "wf l \<Longrightarrow> (a, k) \<in> slts l \<Longrightarrow> a \<in> adrs l"
    and add_adr: "\<lbrakk>wf l; add_adr a l = (p, l')\<rbrakk> \<Longrightarrow>
      p = (a \<in> adrs l) \<and> wf l' \<and> adrs l' = insert a (adrs l) \<and> slts l' = slts l \<and> (p \<longrightarrow> l' = l)"
    and add_slt: "wf l \<Longrightarrow> \<exists>l'. add_slt a k l = Some ((a \<in> adrs l, (a, k) \<in> slts l), l') \<and>
      wf l' \<and> adrs l' = insert a (adrs l) \<and> slts l' = insert (a, k) (slts l)"
    and del_adr: "wf l \<Longrightarrow> wf (del_adr a l) \<and> adrs (del_adr a l) = adrs l - {a} \<and>
      slts (del_adr a l) = slts l - {a} \<times> UNIV"
    and del_slt: "wf l \<Longrightarrow> \<exists>l'. del_slt a k l = Some l' \<and> wf l' \<and> adrs l' = adrs l \<and>
      slts l' = slts l - {(a, k)}"
begin

text \<open>Two lists with the same contents; indices and empty slot sets may differ.\<close>

definition same :: "'l \<Rightarrow> 'l \<Rightarrow> bool" where
  "same l m \<longleftrightarrow> wf m \<and> adrs m = adrs l \<and> slts m = slts l"

lemma same_refl: "wf l \<Longrightarrow> same l l"
  by (simp add: same_def)

lemma same_trans: "same l m \<Longrightarrow> same m n \<Longrightarrow> same l n"
  by (simp add: same_def)

lemma undo_add_adr:
  assumes "wf l" "add_adr a l = (False, l')" "same l' m"
  shows "same l (del_adr a m)"
  using add_adr [OF assms(1,2)] del_adr [of m a] assms(1,3) slot_address [OF assms(1)]
  by (auto simp: same_def)

lemma undo_add_slt:
  assumes "wf l" "add_slt a k l = Some ((True, False), l')" "same l' m"
  shows "\<exists>m'. del_slt a k m = Some m' \<and> same l m'"
  using add_slt [OF assms(1), of a k] del_slt [of m a k] assms by (auto simp: same_def)

lemma undo_add_both:
  assumes "wf l" "add_slt a k l = Some ((False, False), l')" "same l' m"
  shows "\<exists>m'. del_slt a k m = Some m' \<and> same l (del_adr a m')"
proof -
  obtain m' where m': "del_slt a k m = Some m'" "wf m'" "adrs m' = adrs m" "slts m' = slts m - {(a, k)}"
    using del_slt [of m a k] assms(3) by (auto simp: same_def)
  have "a \<notin> adrs l" "adrs m = insert a (adrs l)" "slts m = insert (a, k) (slts l)"
    using add_slt [OF assms(1), of a k] assms(2,3) by (auto simp: same_def)
  then have "same l (del_adr a m')"
    using m' del_adr [OF m'(2), of a] slot_address [OF assms(1)] by (auto simp: same_def)
  then show ?thesis using m'(1) by blast
qed

end

section \<open>The access list implements the contract\<close>

definition al_wf :: "access_list \<Rightarrow> bool" where
  "al_wf al \<longleftrightarrow>
     (\<forall>a i. fmlookup (addresses al) a = Some i \<longrightarrow> i = -1 \<or> 0 \<le> i \<and> i < int (length (slots al))) \<and>
     (\<forall>a b i. fmlookup (addresses al) a = Some i \<longrightarrow> fmlookup (addresses al) b = Some i \<longrightarrow>
        i \<noteq> -1 \<longrightarrow> a = b)"

definition warm_addresses :: "access_list \<Rightarrow> address set" where
  "warm_addresses al = {a. fmlookup (addresses al) a \<noteq> None}"

definition warm_slots :: "access_list \<Rightarrow> (address \<times> hash) set" where
  "warm_slots al = {(a, k). \<exists>i. fmlookup (addresses al) a = Some i \<and> i \<noteq> -1 \<and> k |\<in>| slots al ! nat i}"

lemma al_wf_index:
  "\<lbrakk>al_wf al; fmlookup (addresses al) a = Some i; i \<noteq> -1\<rbrakk> \<Longrightarrow>
     0 \<le> i \<and> nat i < length (slots al) \<and> slots_at al i = Some (slots al ! nat i)"
  by (fastforce simp: al_wf_def slots_at_def)

lemma al_wf_distinct:
  "\<lbrakk>al_wf al; fmlookup (addresses al) a = Some i; fmlookup (addresses al) b = Some j;
    i \<noteq> -1; j \<noteq> -1; nat i = nat j\<rbrakk> \<Longrightarrow> a = b"
  using al_wf_index [of al a i] al_wf_index [of al b j] by (auto simp: al_wf_def)

lemma al_wf_less: "al_wf al \<Longrightarrow> fmlookup (addresses al) a = Some i \<Longrightarrow> i < int (length (slots al))"
  using al_wf_index [of al a i] by (cases "i = -1") auto

lemma al_wfI:
  assumes "\<And>a i. \<lbrakk>fmlookup (addresses al) a = Some i; i \<noteq> -1\<rbrakk> \<Longrightarrow> 0 \<le> i \<and> i < int (length (slots al))"
    and "\<And>a b i. \<lbrakk>fmlookup (addresses al) a = Some i; fmlookup (addresses al) b = Some i; i \<noteq> -1\<rbrakk> \<Longrightarrow> a = b"
  shows "al_wf al"
  using assms unfolding al_wf_def by metis

lemma al_wf_upd:
  assumes wf: "al_wf al" and len: "length (slots al) \<le> length ss"
    and i: "i = -1 \<or> i = int (length (slots al)) \<and> length (slots al) < length ss"
  shows "al_wf (al\<lparr>addresses := fmupd a i (addresses al), slots := ss\<rparr>)" (is "al_wf ?n")
proof (rule al_wfI)
  fix b j assume "fmlookup (addresses ?n) b = Some j" "j \<noteq> -1"
  then show "0 \<le> j \<and> j < int (length (slots ?n))"
    using i len al_wf_less [OF wf, of b j] al_wf_index [OF wf, of b j] by (auto split: if_splits)
next
  fix b c j
  assume "fmlookup (addresses ?n) b = Some j" "fmlookup (addresses ?n) c = Some j" "j \<noteq> -1"
  then show "b = c"
    using i al_wf_less [OF wf, of b j] al_wf_less [OF wf, of c j] al_wf_distinct [OF wf, of b j c j]
    by (auto split: if_splits)
qed

lemma al_wf_slots: "length ss = length (slots al) \<Longrightarrow> al_wf (al\<lparr>slots := ss\<rparr>) = al_wf al"
  by (simp add: al_wf_def)

lemma al_wf_drop: "al_wf al \<Longrightarrow> al_wf (al\<lparr>addresses := fmdrop a (addresses al)\<rparr>)"
  by (rule al_wfI) (auto simp: al_wf_def split: if_splits)

lemma warm_slots_iff: "(a, k) \<in> warm_slots al \<longleftrightarrow>
   (\<exists>i. fmlookup (addresses al) a = Some i \<and> i \<noteq> -1 \<and> k |\<in>| slots al ! nat i)"
  by (simp add: warm_slots_def)

lemma warm_slots_fresh:
  assumes wf: "al_wf al" and a: "fmlookup (addresses al) a = None \<or> fmlookup (addresses al) a = Some (-1)"
  shows "warm_slots (al\<lparr>addresses := fmupd a (int (length (slots al))) (addresses al),
    slots := slots al @ [{|k|}]\<rparr>) = insert (a, k) (warm_slots al)" (is "warm_slots ?n = _")
proof -
  have "(b, k') \<in> warm_slots ?n \<longleftrightarrow> (b, k') \<in> insert (a, k) (warm_slots al)" for b k'
  proof (cases "b = a")
    case True
    then show ?thesis using a by (auto simp: warm_slots_iff)
  next
    case False
    have "fmlookup (addresses al) b = Some i \<Longrightarrow> i \<noteq> -1 \<Longrightarrow> nat i < length (slots al)" for i
      using al_wf_index [OF wf] by blast
    then show ?thesis using False by (auto simp: warm_slots_iff nth_append)
  qed
  then show ?thesis by auto
qed

lemma warm_slots_update:
  assumes wf: "al_wf al" and i: "fmlookup (addresses al) a = Some i" "i \<noteq> -1"
  shows "warm_slots (al\<lparr>slots := (slots al)[nat i := x]\<rparr>) =
    warm_slots al - {a} \<times> UNIV \<union> {a} \<times> {k. k |\<in>| x}" (is "warm_slots ?n = ?r")
proof -
  have "(b, k) \<in> warm_slots ?n \<longleftrightarrow> (b, k) \<in> ?r" for b k
  proof (cases "b = a")
    case True
    then show ?thesis using i al_wf_index [OF wf i] by (simp add: warm_slots_iff)
  next
    case False
    then have "fmlookup (addresses al) b = Some j \<Longrightarrow> j \<noteq> -1 \<Longrightarrow> nat j \<noteq> nat i" for j
      using al_wf_distinct [OF wf, of b j a i] i by auto
    then show ?thesis using False by (auto simp: warm_slots_iff)
  qed
  then show ?thesis by auto
qed

lemma AddAddress_spec:
  assumes "al_wf l" "AddAddress a l = (p, l')"
  shows "p = (a \<in> warm_addresses l) \<and> al_wf l' \<and> warm_addresses l' = insert a (warm_addresses l) \<and>
    warm_slots l' = warm_slots l \<and> (p \<longrightarrow> l' = l)"
proof (cases "fmlookup (addresses l) a")
  case None
  then have l': "l' = l\<lparr>addresses := fmupd a (-1) (addresses l)\<rparr>" "p = False"
    using assms(2) by (auto simp: AddAddress_def)
  have "al_wf l'" using al_wf_upd [OF assms(1), of "slots l" "-1" a] by (simp add: l')
  moreover have "warm_slots l' = warm_slots l" using None by (auto simp: l' warm_slots_def split: if_splits)
  ultimately show ?thesis using None l' by (auto simp: warm_addresses_def)
next
  case (Some i)
  then show ?thesis using assms by (auto simp: AddAddress_def warm_addresses_def)
qed

lemma AddSlot_spec:
  assumes wf: "al_wf l"
  shows "\<exists>l'. AddSlot a k l = Some ((a \<in> warm_addresses l, (a, k) \<in> warm_slots l), l') \<and> al_wf l' \<and>
    warm_addresses l' = insert a (warm_addresses l) \<and> warm_slots l' = insert (a, k) (warm_slots l)"
proof (cases "fmlookup (addresses l) a = None \<or> fmlookup (addresses l) a = Some (-1)")
  case True
  then show ?thesis
    using al_wf_upd [OF wf, of "slots l @ [{|k|}]" "int (length (slots l))" a] warm_slots_fresh [OF wf True, of k]
    by (auto simp: AddSlot_def Let_def warm_addresses_def warm_slots_iff)
next
  case False
  then obtain i where i: "fmlookup (addresses l) a = Some i" "i \<noteq> -1" by auto
  note ix = al_wf_index [OF wf i]
  have mem: "(a, k) \<in> warm_slots l \<longleftrightarrow> k |\<in>| slots l ! nat i" for k using i by (simp add: warm_slots_iff)
  have up: "warm_slots (l\<lparr>slots := (slots l)[nat i := finsert k (slots l ! nat i)]\<rparr>) = insert (a, k) (warm_slots l)"
    unfolding warm_slots_update [OF wf i] by (auto simp: mem)
  have "warm_addresses (l\<lparr>slots := ss\<rparr>) = insert a (warm_addresses l)" for ss
    using i by (auto simp: warm_addresses_def)
  moreover have "insert a (warm_addresses l) = warm_addresses l" "a \<in> warm_addresses l"
    using i by (auto simp: warm_addresses_def)
  ultimately show ?thesis
    using wf i ix up by (auto simp: AddSlot_def Let_def mem al_wf_slots)
qed

lemma DeleteSlot_spec:
  assumes wf: "al_wf l"
  shows "\<exists>l'. DeleteSlot a k l = Some l' \<and> al_wf l' \<and> warm_addresses l' = warm_addresses l \<and>
    warm_slots l' = warm_slots l - {(a, k)}"
proof (cases "fmlookup (addresses l) a = None \<or> fmlookup (addresses l) a = Some (-1)")
  case True
  then show ?thesis using wf by (auto simp: DeleteSlot_def warm_slots_def)
next
  case False
  then obtain i where i: "fmlookup (addresses l) a = Some i" "i \<noteq> -1" by auto
  let ?l = "l\<lparr>slots := (slots l)[nat i := slots l ! nat i |-| {|k|}]\<rparr>"
  have mem: "(a, k) \<in> warm_slots l \<longleftrightarrow> k |\<in>| slots l ! nat i" for k using i by (simp add: warm_slots_iff)
  have "warm_slots ?l = warm_slots l - {(a, k)}"
    unfolding warm_slots_update [OF wf i] by (auto simp: mem)
  then show ?thesis
    using wf i al_wf_index [OF wf i] by (simp add: DeleteSlot_def al_wf_slots warm_addresses_def)
qed

interpretation al: warm_set al_wf warm_addresses warm_slots AddAddress AddSlot DeleteAddress DeleteSlot
proof
  show "al_wf l \<Longrightarrow> (a, k) \<in> warm_slots l \<Longrightarrow> a \<in> warm_addresses l" for l a k
    by (auto simp: warm_slots_def warm_addresses_def)
  show "al_wf l \<Longrightarrow> al_wf (DeleteAddress a l) \<and> warm_addresses (DeleteAddress a l) = warm_addresses l - {a} \<and>
      warm_slots (DeleteAddress a l) = warm_slots l - {a} \<times> UNIV" for l a
    by (auto simp: DeleteAddress_def al_wf_drop warm_addresses_def warm_slots_def split: if_splits)
qed (fact AddAddress_spec AddSlot_spec DeleteSlot_spec)+

lemma al_wf_new [simp]: "al_wf newAccessList"
  by (simp add: al_wf_def newAccessList_def)

lemma ContainsAddress_iff: "ContainsAddress a al \<longleftrightarrow> a \<in> warm_addresses al"
  by (simp add: ContainsAddress_def warm_addresses_def)

lemma ContainsSlot_eq:
  "al_wf al \<Longrightarrow> ContainsSlot a k al = Some (a \<in> warm_addresses al, (a, k) \<in> warm_slots al)"
  using al_wf_index [of al a]
  by (auto simp: ContainsSlot_def warm_addresses_def warm_slots_def split: option.split)

lemma access_list_Copy_eq: "access_list_Copy al = al"
  by (simp add: access_list_Copy_def)

end
