(* ===== verification/State_DB.thy ===== *)
theory State_DB
  imports Journal Access_List
begin

text \<open>
  The in-memory state database, \<^verbatim>\<open>src/pkg/core/state/memory_statedb.go\<close>, with the entries of
  its journal (\<^verbatim>\<open>journal.go\<close>).  Go maps are finite maps; a state object is reached only
  through its address, so pointers to state objects are values.  The Keccak hash is a
  parameter of the operations that use it.
\<close>

section \<open>State\<close>

record state_object =
  acct :: account
  code :: bytes
  dirtyStorage :: "(hash, hash) fmap"
  committedStorage :: "(hash, hash) fmap"
  selfDestructed :: bool
  dbStorageRoot :: hash

definition newStateObject :: state_object where
  "newStateObject = \<lparr>acct = NewAccount, code = [], dirtyStorage = fmempty,
     committedStorage = fmempty, selfDestructed = False, dbStorageRoot = 0\<rparr>"

datatype journal_entry =
    CreateAccountChange address "state_object option"
  | BalanceChange address int
  | NonceChange address u64
  | CodeChange address bytes bytes
  | StorageChange address hash hash bool
  | SelfDestructChange address bool int
  | AccessListAddAccountChange address
  | AccessListAddSlotChange address hash
  | TransientStorageChange address hash hash
  | LogChange hash nat
  | RefundChange u64

record statedb =
  stateObjects :: "(address, state_object) fmap"
  db_journal :: "journal_entry journal"
  logs :: "(hash, log list) fmap"
  refund :: u64
  accessList :: access_list
  transientStorage :: "(address, (hash, hash) fmap) fmap"
  db_txHash :: hash
  db_txIndex :: int

definition NewMemoryStateDB :: statedb where
  "NewMemoryStateDB = \<lparr>stateObjects = fmempty, db_journal = newJournal, logs = fmempty,
     refund = 0, accessList = newAccessList, transientStorage = fmempty,
     db_txHash = 0, db_txIndex = 0\<rparr>"

text \<open>A map read with Go's zero value for a missing key.\<close>

definition hash_at :: "(hash, hash) fmap \<Rightarrow> hash \<Rightarrow> hash" where
  "hash_at m k = (case fmlookup m k of Some v \<Rightarrow> v | None \<Rightarrow> 0)"

definition logs_at :: "(hash, log list) fmap \<Rightarrow> hash \<Rightarrow> log list" where
  "logs_at m h = (case fmlookup m h of Some ls \<Rightarrow> ls | None \<Rightarrow> [])"

definition getStateObject :: "address \<Rightarrow> statedb \<Rightarrow> state_object option" where
  "getStateObject addr s = fmlookup (stateObjects s) addr"

definition put_object :: "address \<Rightarrow> state_object \<Rightarrow> statedb \<Rightarrow> statedb" where
  "put_object addr obj s = s\<lparr>stateObjects := fmupd addr obj (stateObjects s)\<rparr>"

definition getOrNewStateObject :: "address \<Rightarrow> statedb \<Rightarrow> state_object \<times> statedb" where
  "getOrNewStateObject addr s =
     (case fmlookup (stateObjects s) addr of
        Some obj \<Rightarrow> (obj, s)
      | None \<Rightarrow> (newStateObject, put_object addr newStateObject s))"

text \<open>\<open>if obj := s.getStateObject(addr); obj != nil { ... }\<close>\<close>

definition mod_object :: "address \<Rightarrow> (state_object \<Rightarrow> state_object) \<Rightarrow> statedb \<Rightarrow> statedb" where
  "mod_object addr f s =
     (case getStateObject addr s of None \<Rightarrow> s | Some obj \<Rightarrow> put_object addr (f obj) s)"

definition set_balance :: "int \<Rightarrow> state_object \<Rightarrow> state_object" where
  "set_balance b obj = obj\<lparr>acct := (acct obj)\<lparr>Balance := b\<rparr>\<rparr>"

definition set_nonce :: "u64 \<Rightarrow> state_object \<Rightarrow> state_object" where
  "set_nonce n obj = obj\<lparr>acct := (acct obj)\<lparr>Nonce := n\<rparr>\<rparr>"

definition set_code :: "bytes \<Rightarrow> bytes \<Rightarrow> state_object \<Rightarrow> state_object" where
  "set_code c h obj = obj\<lparr>code := c, acct := (acct obj)\<lparr>CodeHash := h\<rparr>\<rparr>"

section \<open>Reverting journal entries\<close>

fun revert_entry :: "journal_entry \<Rightarrow> statedb \<Rightarrow> statedb option" where
  "revert_entry (CreateAccountChange addr prev) s =
     Some (case prev of
        None \<Rightarrow> s\<lparr>stateObjects := fmdrop addr (stateObjects s)\<rparr>
      | Some obj \<Rightarrow> put_object addr obj s)"
| "revert_entry (BalanceChange addr prev) s = Some (mod_object addr (set_balance prev) s)"
| "revert_entry (NonceChange addr prev) s = Some (mod_object addr (set_nonce prev) s)"
| "revert_entry (CodeChange addr prevCode prevHash) s =
     Some (mod_object addr (set_code prevCode prevHash) s)"
| "revert_entry (StorageChange addr key prev prevExists) s =
     Some (mod_object addr (\<lambda>obj.
       obj\<lparr>dirtyStorage := (if prevExists then fmupd key prev (dirtyStorage obj)
                            else fmdrop key (dirtyStorage obj))\<rparr>) s)"
| "revert_entry (SelfDestructChange addr prevDestructed prevBalance) s =
     Some (mod_object addr (\<lambda>obj. set_balance prevBalance (obj\<lparr>selfDestructed := prevDestructed\<rparr>)) s)"
| "revert_entry (AccessListAddAccountChange addr) s =
     Some (s\<lparr>accessList := DeleteAddress addr (accessList s)\<rparr>)"
| "revert_entry (AccessListAddSlotChange addr slot) s =
     (case DeleteSlot addr slot (accessList s) of
        None \<Rightarrow> None | Some al \<Rightarrow> Some (s\<lparr>accessList := al\<rparr>))"
| "revert_entry (TransientStorageChange addr key prev) s =
     (if prev = 0 then
        (let slots' = (case fmlookup (transientStorage s) addr of
                         None \<Rightarrow> fmempty | Some m \<Rightarrow> fmdrop key m) in
         Some (s\<lparr>transientStorage :=
           (if fmdom slots' = {||} then fmdrop addr (transientStorage s)
            else fmupd addr slots' (transientStorage s))\<rparr>))
      else case fmlookup (transientStorage s) addr of
          None \<Rightarrow> None
        | Some m \<Rightarrow> Some (s\<lparr>transientStorage := fmupd addr (fmupd key prev m) (transientStorage s)\<rparr>))"
| "revert_entry (LogChange h prevLen) s =
     (if prevLen > length (logs_at (logs s) h) then None
      else Some (s\<lparr>logs := (if prevLen = 0 then fmdrop h (logs s)
                            else fmupd h (take prevLen (logs_at (logs s) h)) (logs s))\<rparr>))"
| "revert_entry (RefundChange prev) s = Some (s\<lparr>refund := prev\<rparr>)"

definition log_change :: "journal_entry \<Rightarrow> statedb \<Rightarrow> statedb" where
  "log_change e s = s\<lparr>db_journal := journal_append e (db_journal s)\<rparr>"

section \<open>Accounts, storage and self-destruct\<close>

definition CreateAccount :: "address \<Rightarrow> statedb \<Rightarrow> statedb" where
  "CreateAccount addr s =
     (let prev = fmlookup (stateObjects s) addr in
      put_object addr newStateObject (log_change (CreateAccountChange addr prev) s))"

definition SubBalance :: "address \<Rightarrow> int \<Rightarrow> statedb \<Rightarrow> statedb" where
  "SubBalance addr amount s =
     (let (obj, s1) = getOrNewStateObject addr s; prev = Balance (acct obj) in
      put_object addr (set_balance (prev - amount) obj) (log_change (BalanceChange addr prev) s1))"

definition AddBalance :: "address \<Rightarrow> int \<Rightarrow> statedb \<Rightarrow> statedb" where
  "AddBalance addr amount s =
     (let (obj, s1) = getOrNewStateObject addr s; prev = Balance (acct obj) in
      put_object addr (set_balance (prev + amount) obj) (log_change (BalanceChange addr prev) s1))"

definition GetBalance :: "address \<Rightarrow> statedb \<Rightarrow> int" where
  "GetBalance addr s = (case getStateObject addr s of None \<Rightarrow> 0 | Some obj \<Rightarrow> Balance (acct obj))"

definition GetNonce :: "address \<Rightarrow> statedb \<Rightarrow> u64" where
  "GetNonce addr s = (case getStateObject addr s of None \<Rightarrow> 0 | Some obj \<Rightarrow> Nonce (acct obj))"

definition SetNonce :: "address \<Rightarrow> u64 \<Rightarrow> statedb \<Rightarrow> statedb" where
  "SetNonce addr nonce s =
     (let (obj, s1) = getOrNewStateObject addr s in
      put_object addr (set_nonce nonce obj) (log_change (NonceChange addr (Nonce (acct obj))) s1))"

definition GetCode :: "address \<Rightarrow> statedb \<Rightarrow> bytes" where
  "GetCode addr s = (case getStateObject addr s of None \<Rightarrow> [] | Some obj \<Rightarrow> code obj)"

definition SetCode :: "(bytes \<Rightarrow> bytes) \<Rightarrow> address \<Rightarrow> bytes \<Rightarrow> statedb \<Rightarrow> statedb" where
  "SetCode keccak addr c s =
     (let (obj, s1) = getOrNewStateObject addr s in
      put_object addr (set_code c (keccak c) obj)
        (log_change (CodeChange addr (code obj) (CodeHash (acct obj))) s1))"

definition GetCodeHash :: "address \<Rightarrow> statedb \<Rightarrow> hash" where
  "GetCodeHash addr s =
     (case getStateObject addr s of None \<Rightarrow> 0 | Some obj \<Rightarrow> BytesToHash (CodeHash (acct obj)))"

definition GetCodeSize :: "address \<Rightarrow> statedb \<Rightarrow> nat" where
  "GetCodeSize addr s = (case getStateObject addr s of None \<Rightarrow> 0 | Some obj \<Rightarrow> length (code obj))"

definition SelfDestruct :: "address \<Rightarrow> statedb \<Rightarrow> statedb" where
  "SelfDestruct addr s =
     (case getStateObject addr s of
        None \<Rightarrow> s
      | Some obj \<Rightarrow>
          put_object addr (set_balance 0 (obj\<lparr>selfDestructed := True\<rparr>))
            (log_change (SelfDestructChange addr (selfDestructed obj) (Balance (acct obj))) s))"

definition HasSelfDestructed :: "address \<Rightarrow> statedb \<Rightarrow> bool" where
  "HasSelfDestructed addr s =
     (case getStateObject addr s of None \<Rightarrow> False | Some obj \<Rightarrow> selfDestructed obj)"

definition GetState :: "address \<Rightarrow> hash \<Rightarrow> statedb \<Rightarrow> hash" where
  "GetState addr key s =
     (case getStateObject addr s of
        None \<Rightarrow> 0
      | Some obj \<Rightarrow>
          (case fmlookup (dirtyStorage obj) key of
             Some val \<Rightarrow> val
           | None \<Rightarrow> hash_at (committedStorage obj) key))"

definition SetState :: "address \<Rightarrow> hash \<Rightarrow> hash \<Rightarrow> statedb \<Rightarrow> statedb" where
  "SetState addr key val s =
     (let (obj, s1) = getOrNewStateObject addr s;
          (prev, prevExists) =
            (case fmlookup (dirtyStorage obj) key of
               Some prevDirty \<Rightarrow> (prevDirty, True)
             | None \<Rightarrow> (hash_at (committedStorage obj) key, False)) in
      put_object addr (obj\<lparr>dirtyStorage := fmupd key val (dirtyStorage obj)\<rparr>)
        (log_change (StorageChange addr key prev prevExists) s1))"

definition GetCommittedState :: "address \<Rightarrow> hash \<Rightarrow> statedb \<Rightarrow> hash" where
  "GetCommittedState addr key s =
     (case getStateObject addr s of None \<Rightarrow> 0 | Some obj \<Rightarrow> hash_at (committedStorage obj) key)"

definition Exist :: "address \<Rightarrow> statedb \<Rightarrow> bool" where
  "Exist addr s = (fmlookup (stateObjects s) addr \<noteq> None)"

definition Empty :: "address \<Rightarrow> statedb \<Rightarrow> bool" where
  "Empty addr s =
     (case getStateObject addr s of
        None \<Rightarrow> True
      | Some obj \<Rightarrow> Nonce (acct obj) = 0 \<and> Balance (acct obj) = 0 \<and>
          BytesToHash (CodeHash (acct obj)) = EmptyCodeHash)"

section \<open>Snapshots, logs and refunds\<close>

definition Snapshot :: "statedb \<Rightarrow> int \<times> statedb" where
  "Snapshot s = (let (sid, j) = journal_snapshot (db_journal s) in (sid, s\<lparr>db_journal := j\<rparr>))"

definition RevertToSnapshot :: "int \<Rightarrow> statedb \<Rightarrow> statedb option" where
  "RevertToSnapshot sid s =
     (case revertToSnapshot revert_entry sid (db_journal s) s of
        None \<Rightarrow> None
      | Some (j, s') \<Rightarrow> Some (s'\<lparr>db_journal := j\<rparr>))"

definition AddLog :: "log \<Rightarrow> statedb \<Rightarrow> statedb" where
  "AddLog log s =
     (let h = db_txHash s;
          log' = log\<lparr>TxHash := h, TxIndex := word_of_int (db_txIndex s)\<rparr>;
          ls = logs_at (logs s) h;
          s1 = log_change (LogChange h (length ls)) s in
      s1\<lparr>logs := fmupd h (ls @ [log']) (logs s)\<rparr>)"

definition GetLogs :: "hash \<Rightarrow> statedb \<Rightarrow> log list" where
  "GetLogs h s = logs_at (logs s) h"

definition SetTxContext :: "hash \<Rightarrow> int \<Rightarrow> statedb \<Rightarrow> statedb" where
  "SetTxContext h ix s = s\<lparr>db_txHash := h, db_txIndex := ix\<rparr>"

definition AddRefund :: "u64 \<Rightarrow> statedb \<Rightarrow> statedb" where
  "AddRefund gas s = (log_change (RefundChange (refund s)) s)\<lparr>refund := refund s + gas\<rparr>"

definition SubRefund :: "u64 \<Rightarrow> statedb \<Rightarrow> statedb" where
  "SubRefund gas s = (log_change (RefundChange (refund s)) s)\<lparr>refund := refund s - gas\<rparr>"

definition GetRefund :: "statedb \<Rightarrow> u64" where
  "GetRefund s = refund s"

section \<open>Access list and transient storage\<close>

definition AddAddressToAccessList :: "address \<Rightarrow> statedb \<Rightarrow> statedb" where
  "AddAddressToAccessList addr s =
     (let (present, al) = AddAddress addr (accessList s); s1 = s\<lparr>accessList := al\<rparr> in
      if present then s1 else log_change (AccessListAddAccountChange addr) s1)"

definition AddSlotToAccessList :: "address \<Rightarrow> hash \<Rightarrow> statedb \<Rightarrow> statedb option" where
  "AddSlotToAccessList addr slot s =
     (case AddSlot addr slot (accessList s) of
        None \<Rightarrow> None
      | Some ((addrPresent, slotPresent), al) \<Rightarrow>
          let s1 = s\<lparr>accessList := al\<rparr>;
              s2 = (if addrPresent then s1 else log_change (AccessListAddAccountChange addr) s1) in
          Some (if slotPresent then s2 else log_change (AccessListAddSlotChange addr slot) s2))"

definition AddressInAccessList :: "address \<Rightarrow> statedb \<Rightarrow> bool" where
  "AddressInAccessList addr s = ContainsAddress addr (accessList s)"

definition SlotInAccessList :: "address \<Rightarrow> hash \<Rightarrow> statedb \<Rightarrow> (bool \<times> bool) option" where
  "SlotInAccessList addr slot s = ContainsSlot addr slot (accessList s)"

definition ClearAccessList :: "statedb \<Rightarrow> statedb" where
  "ClearAccessList s = s\<lparr>accessList := newAccessList\<rparr>"

definition GetTransientState :: "address \<Rightarrow> hash \<Rightarrow> statedb \<Rightarrow> hash" where
  "GetTransientState addr key s =
     (case fmlookup (transientStorage s) addr of None \<Rightarrow> 0 | Some m \<Rightarrow> hash_at m key)"

definition SetTransientState :: "address \<Rightarrow> hash \<Rightarrow> hash \<Rightarrow> statedb \<Rightarrow> statedb" where
  "SetTransientState addr key val s =
     (let prev = GetTransientState addr key s;
          s1 = log_change (TransientStorageChange addr key prev) s;
          m = (case fmlookup (transientStorage s) addr of Some m \<Rightarrow> m | None \<Rightarrow> fmempty) in
      s1\<lparr>transientStorage := fmupd addr (fmupd key val m) (transientStorage s)\<rparr>)"

definition ClearTransientStorage :: "statedb \<Rightarrow> statedb" where
  "ClearTransientStorage s = s\<lparr>transientStorage := fmempty\<rparr>"

section \<open>Whole-state operations\<close>

text \<open>
  Loops over a Go map whose iterations touch different keys do not depend on the order of
  iteration; they run here in the order of the keys.
\<close>

definition fm_keys :: "('k :: linorder, 'v) fmap \<Rightarrow> 'k list" where
  "fm_keys m = sorted_list_of_fset (fmdom m)"

text \<open>The loop over \<open>dirtyStorage\<close> that deletes zero values and writes the others.\<close>

definition flush_key :: "(hash, hash) fmap \<Rightarrow> hash \<Rightarrow> (hash, hash) fmap \<Rightarrow> (hash, hash) fmap" where
  "flush_key dirty k merged =
     (if hash_at dirty k = 0 then fmdrop k merged else fmupd k (hash_at dirty k) merged)"

definition mergeStorage :: "state_object \<Rightarrow> (hash, hash) fmap" where
  "mergeStorage obj =
     fold (flush_key (dirtyStorage obj)) (fm_keys (dirtyStorage obj)) (committedStorage obj)"

definition trimLeadingZeros :: "bytes \<Rightarrow> bytes" where
  "trimLeadingZeros b = dropWhile (\<lambda>v. v = 0) b"

text \<open>The first loop of \<open>Commit\<close>.\<close>

definition flush_object :: "state_object \<Rightarrow> state_object" where
  "flush_object obj = obj\<lparr>committedStorage := mergeStorage obj, dirtyStorage := fmempty\<rparr>"

definition flush_storage :: "statedb \<Rightarrow> statedb" where
  "flush_storage s = s\<lparr>stateObjects := fmmap flush_object (stateObjects s)\<rparr>"

definition copy_object :: "state_object \<Rightarrow> state_object" where
  "copy_object obj = obj\<lparr>dbStorageRoot := 0\<rparr>"

definition Copy :: "statedb \<Rightarrow> statedb" where
  "Copy s = \<lparr>stateObjects = fmmap copy_object (stateObjects s), db_journal = newJournal,
     logs = logs s, refund = refund s, accessList = access_list_Copy (accessList s),
     transientStorage = transientStorage s, db_txHash = 0, db_txIndex = 0\<rparr>"

definition merge_object :: "state_object \<Rightarrow> state_object \<Rightarrow> state_object" where
  "merge_object src dst =
     dst\<lparr>acct := (acct dst)\<lparr>Balance := Balance (acct src), Nonce := Nonce (acct src),
                            CodeHash := CodeHash (acct src)\<rparr>,
         code := code src, selfDestructed := selfDestructed src,
         dirtyStorage := dirtyStorage dst ++\<^sub>f dirtyStorage src\<rparr>"

definition Merge :: "statedb \<Rightarrow> statedb \<Rightarrow> statedb" where
  "Merge src s =
     fold (\<lambda>addr s'. case fmlookup (stateObjects src) addr of
             None \<Rightarrow> s'
           | Some srcObj \<Rightarrow>
               let (dstObj, s1) = getOrNewStateObject addr s' in
               put_object addr (merge_object srcObj dstObj) s1)
       (fm_keys (stateObjects src)) s"

definition Prefetch :: "address list \<Rightarrow> statedb \<Rightarrow> statedb" where
  "Prefetch addrs s =
     fold (\<lambda>addr s'. if fmlookup (stateObjects s') addr = None
                     then put_object addr newStateObject s' else s') addrs s"

definition PrefetchStorage :: "address \<Rightarrow> hash list \<Rightarrow> statedb \<Rightarrow> statedb" where
  "PrefetchStorage addr keys s =
     (if fmlookup (stateObjects s) addr = None then put_object addr newStateObject s else s)"

definition FinalizePreState :: "statedb \<Rightarrow> statedb" where
  "FinalizePreState s =
     s\<lparr>stateObjects := fmmap (\<lambda>obj.
         obj\<lparr>committedStorage := committedStorage obj ++\<^sub>f dirtyStorage obj\<rparr>) (stateObjects s)\<rparr>"

text \<open>The calls of the interface, as data.\<close>

datatype db_op =
    OpCreateAccount address
  | OpSubBalance address int
  | OpAddBalance address int
  | OpSetNonce address u64
  | OpSetCode address bytes
  | OpSelfDestruct address
  | OpSetState address hash hash
  | OpAddLog log
  | OpAddRefund u64
  | OpSubRefund u64
  | OpAddAddress address
  | OpAddSlot address hash
  | OpSetTransient address hash hash
  | OpSetTxContext hash int
  | OpPrefetch "address list"
  | OpPrefetchStorage address "hash list"
  | OpSnapshot
  | OpRevert int

fun exec_op :: "(bytes \<Rightarrow> bytes) \<Rightarrow> db_op \<Rightarrow> statedb \<Rightarrow> statedb option" where
  "exec_op keccak (OpCreateAccount a) s = Some (CreateAccount a s)"
| "exec_op keccak (OpSubBalance a x) s = Some (SubBalance a x s)"
| "exec_op keccak (OpAddBalance a x) s = Some (AddBalance a x s)"
| "exec_op keccak (OpSetNonce a n) s = Some (SetNonce a n s)"
| "exec_op keccak (OpSetCode a c) s = Some (SetCode keccak a c s)"
| "exec_op keccak (OpSelfDestruct a) s = Some (SelfDestruct a s)"
| "exec_op keccak (OpSetState a k v) s = Some (SetState a k v s)"
| "exec_op keccak (OpAddLog l) s = Some (AddLog l s)"
| "exec_op keccak (OpAddRefund g) s = Some (AddRefund g s)"
| "exec_op keccak (OpSubRefund g) s = Some (SubRefund g s)"
| "exec_op keccak (OpAddAddress a) s = Some (AddAddressToAccessList a s)"
| "exec_op keccak (OpAddSlot a k) s = AddSlotToAccessList a k s"
| "exec_op keccak (OpSetTransient a k v) s = Some (SetTransientState a k v s)"
| "exec_op keccak (OpSetTxContext h i) s = Some (SetTxContext h i s)"
| "exec_op keccak (OpPrefetch as) s = Some (Prefetch as s)"
| "exec_op keccak (OpPrefetchStorage a ks) s = Some (PrefetchStorage a ks s)"
| "exec_op keccak OpSnapshot s = Some (snd (Snapshot s))"
| "exec_op keccak (OpRevert sid) s = RevertToSnapshot sid s"

fun exec_ops :: "(bytes \<Rightarrow> bytes) \<Rightarrow> db_op list \<Rightarrow> statedb \<Rightarrow> statedb option" where
  "exec_ops keccak [] s = Some s"
| "exec_ops keccak (op # ops) s =
     (case exec_op keccak op s of None \<Rightarrow> None | Some s' \<Rightarrow> exec_ops keccak ops s')"

end
