(* ===== verification/State_Revert.thy ===== *)
theory State_Revert
  imports State_DB
begin

text \<open>
  What a revert restores.  The journal entries of \<open>State_DB\<close> satisfy the contract
  \<open>undo_log\<close> for the relation \<open>restored\<close>, so that every live snapshot can be reverted to.
\<close>

section \<open>Restored states\<close>

text \<open>
  A restored state has the same logs, refund, transient storage and access list, and the
  same state objects, except that an account that did not exist may now exist as an empty
  one: \<open>getOrNewStateObject\<close> is not journaled.
\<close>

definition restored :: "statedb \<Rightarrow> statedb \<Rightarrow> bool" where
  "restored s t \<longleftrightarrow>
     (\<forall>a. fmlookup (stateObjects t) a = fmlookup (stateObjects s) a \<or>
          fmlookup (stateObjects s) a = None \<and> fmlookup (stateObjects t) a = Some newStateObject) \<and>
     (\<forall>h. GetLogs h t = GetLogs h s) \<and> refund t = refund s \<and>
     (\<forall>a k. GetTransientState a k t = GetTransientState a k s) \<and>
     al.same (accessList s) (accessList t)"

definition db_valid :: "statedb \<Rightarrow> bool" where
  "db_valid s = al_wf (accessList s)"

interpretation db: undo_log revert_entry restored db_valid
proof
  show "db_valid s \<Longrightarrow> restored s s" for s
    by (simp add: restored_def db_valid_def al.same_refl)
  show "restored s t \<Longrightarrow> restored t u \<Longrightarrow> restored s u" for s t u
    using al.same_trans unfolding restored_def by metis
  show "restored s t \<Longrightarrow> db_valid t" for s t
    by (simp add: restored_def db_valid_def al.same_def)
qed

lemmas getter_defs = GetLogs_def logs_at_def GetTransientState_def hash_at_def

lemma restored_journal [simp]:
  "restored (s\<lparr>db_journal := j\<rparr>) t = restored s t" "restored s (t\<lparr>db_journal := j\<rparr>) = restored s t"
  by (simp_all add: restored_def getter_defs)

lemma restored_log_change [simp]:
  "restored (log_change e s) t = restored s t" "restored s (log_change e t) = restored s t"
  by (simp_all add: log_change_def)

text \<open>Changing a state object through its address.\<close>

lemma restored_objects:
  assumes "restored s t" "stateObjects s' = X" "stateObjects t' = Y"
    "\<And>a. fmlookup Y a = fmlookup X a \<or> fmlookup X a = None \<and> fmlookup Y a = Some newStateObject"
    "s' = s\<lparr>stateObjects := X\<rparr>" "t' = t\<lparr>stateObjects := Y\<rparr>"
  shows "restored s' t'"
  using assms by (simp add: restored_def getter_defs)

definition obj_of :: "address \<Rightarrow> statedb \<Rightarrow> state_object" where
  "obj_of a s = (case fmlookup (stateObjects s) a of None \<Rightarrow> newStateObject | Some obj \<Rightarrow> obj)"

lemma fmupd_idem: "fmlookup m k = Some v \<Longrightarrow> fmupd k v m = m"
  by (rule fmap_ext) auto

lemma fmupd_fmupd: "fmupd k v (fmupd k v' m) = fmupd k v m"
  by (rule fmap_ext) simp

lemma fmdrop_fmupd_fresh: "fmlookup m k = None \<Longrightarrow> fmdrop k (fmupd k v m) = m"
  by (rule fmap_ext) simp

lemma fmlookup_add_case:
  "fmlookup (m ++\<^sub>f n) k = (case fmlookup n k of Some v \<Rightarrow> Some v | None \<Rightarrow> fmlookup m k)"
  by (auto simp: fmlookup_dom_iff split: option.split)

lemma obj_of_get: "obj_of a s = (case getStateObject a s of None \<Rightarrow> newStateObject | Some obj \<Rightarrow> obj)"
  by (simp add: obj_of_def getStateObject_def)

lemma getOrNew_eq:
  "getOrNewStateObject a s = (obj_of a s, put_object a (obj_of a s) s)"
  by (auto simp: getOrNewStateObject_def obj_of_def put_object_def fmupd_idem split: option.split)

lemma put_put [simp]: "put_object a x (put_object a y s) = put_object a x s"
  by (simp add: put_object_def fmupd_fmupd)

lemma put_log [simp]: "put_object a x (log_change e s) = log_change e (put_object a x s)"
  by (simp add: put_object_def log_change_def)

lemma restored_put_obj_of: "restored s t \<Longrightarrow> restored s (put_object a (obj_of a s) t)"
  by (auto simp: restored_def put_object_def getter_defs obj_of_def split: option.splits)

text \<open>Other objects do not matter for a change at one address.\<close>

lemma restored_put:
  assumes "restored (put_object a obj s) t"
  shows "fmlookup (stateObjects t) a = Some obj" and "restored s (put_object a (obj_of a s) t)"
proof -
  show "fmlookup (stateObjects t) a = Some obj"
    using assms by (auto simp: restored_def put_object_def dest: spec [of _ a])
  have "fmlookup (stateObjects (put_object a (obj_of a s) t)) b = fmlookup (stateObjects s) b \<or>
      fmlookup (stateObjects s) b = None \<and>
      fmlookup (stateObjects (put_object a (obj_of a s) t)) b = Some newStateObject" for b
    using assms by (cases "b = a") (auto simp: restored_def put_object_def obj_of_def split: option.splits dest: spec [of _ b])
  then show "restored s (put_object a (obj_of a s) t)"
    using assms by (auto simp: restored_def put_object_def getter_defs)
qed

lemma undoes_object:
  assumes "\<And>t. revert_entry e t = Some (mod_object a g t)" and "g obj' = obj_of a s"
  shows "db.undoes [e] s (log_change e (put_object a obj' s))"
proof (rule db.undoes_single)
  fix t assume "restored (log_change e (put_object a obj' s)) t"
  then have r: "restored (put_object a obj' s) t" by simp
  have "mod_object a g t = put_object a (obj_of a s) t"
    using restored_put(1) [OF r] assms(2) by (simp add: mod_object_def getStateObject_def)
  then show "\<exists>t'. revert_entry e t = Some t' \<and> restored s t'"
    using assms(1) restored_put(2) [OF r] by simp
qed

section \<open>Every operation is undone by its entries\<close>

text \<open>
  \<open>logged s s'\<close>: the step from \<open>s\<close> to \<open>s'\<close> added entries to the journal that undo it, and
  touched the journal in no other way.
\<close>

definition logged :: "statedb \<Rightarrow> statedb \<Rightarrow> bool" where
  "logged s s' \<longleftrightarrow> (db_valid s \<longrightarrow> db_valid s' \<and>
     (\<exists>d. db_journal s' = (db_journal s)\<lparr>entries := d @ entries (db_journal s)\<rparr> \<and> db.undoes d s s'))"

lemma journal_put [simp]: "db_journal (put_object a x s) = db_journal s"
  "accessList (put_object a x s) = accessList s"
  by (simp_all add: put_object_def)

lemma journal_log [simp]:
  "db_journal (log_change e s) = (db_journal s)\<lparr>entries := e # entries (db_journal s)\<rparr>"
  "accessList (log_change e s) = accessList s"
  by (simp_all add: log_change_def journal_append_def)

lemma logged_object:
  assumes "\<And>t. revert_entry e t = Some (mod_object a g t)" and "g obj' = obj_of a s"
  shows "logged s (log_change e (put_object a obj' s))"
  using undoes_object [OF assms] by (auto simp: logged_def db_valid_def intro!: exI [of _ "[e]"])

lemma logged_sim:
  assumes "db_valid s \<Longrightarrow> restored s s'" "db_journal s' = db_journal s"
  shows "logged s s'"
  unfolding logged_def
proof
  assume "db_valid s"
  then have "restored s s'" by (rule assms(1))
  then show "db_valid s' \<and> (\<exists>d. db_journal s' = (db_journal s)\<lparr>entries := d @ entries (db_journal s)\<rparr> \<and>
      db.undoes d s s')"
    using assms(2) db.undoes_Nil [of s s'] db.sim_valid [of s s'] by (intro conjI exI [of _ "[]"]) simp_all
qed

lemma logged_SubBalance: "logged s (SubBalance a x s)"
  by (simp add: SubBalance_def getOrNew_eq Let_def)
     (rule logged_object [OF revert_entry.simps(2)], simp add: set_balance_def)

lemma logged_AddBalance: "logged s (AddBalance a x s)"
  by (simp add: AddBalance_def getOrNew_eq Let_def)
     (rule logged_object [OF revert_entry.simps(2)], simp add: set_balance_def)

lemma logged_SetNonce: "logged s (SetNonce a n s)"
  by (simp add: SetNonce_def getOrNew_eq Let_def)
     (rule logged_object [OF revert_entry.simps(3)], simp add: set_nonce_def)

lemma logged_SetCode: "logged s (SetCode keccak a c s)"
  by (simp add: SetCode_def getOrNew_eq Let_def)
     (rule logged_object [OF revert_entry.simps(4)], simp add: set_code_def)

lemma logged_SetState: "logged s (SetState a k v s)"
proof (cases "fmlookup (dirtyStorage (obj_of a s)) k")
  case None
  then show ?thesis
    by (simp add: SetState_def getOrNew_eq Let_def)
       (rule logged_object [OF revert_entry.simps(5)], simp add: fmdrop_fmupd_fresh)
next
  case (Some d)
  then show ?thesis
    by (simp add: SetState_def getOrNew_eq Let_def)
       (rule logged_object [OF revert_entry.simps(5)], simp add: fmupd_fmupd fmupd_idem)
qed

lemma logged_SelfDestruct: "logged s (SelfDestruct a s)"
proof (cases "fmlookup (stateObjects s) a")
  case None
  then show ?thesis by (auto simp: SelfDestruct_def getStateObject_def db.sim_refl intro: logged_sim)
next
  case (Some obj)
  then show ?thesis
    by (simp add: SelfDestruct_def getStateObject_def)
       (rule logged_object [OF revert_entry.simps(6)], simp add: set_balance_def obj_of_def)
qed

lemma logged_entry:
  assumes "\<And>t. \<lbrakk>db_valid s; restored s' t\<rbrakk> \<Longrightarrow> \<exists>t'. revert_entry e t = Some t' \<and> restored s t'"
    and "db_journal s' = (db_journal s)\<lparr>entries := e # entries (db_journal s)\<rparr>"
    and "db_valid s \<Longrightarrow> db_valid s'"
  shows "logged s s'"
  unfolding logged_def
proof
  assume v: "db_valid s"
  have "db.undoes [e] s s'" using assms(1) [OF v] by (rule db.undoes_single)
  then show "db_valid s' \<and> (\<exists>d. db_journal s' = (db_journal s)\<lparr>entries := d @ entries (db_journal s)\<rparr> \<and>
      db.undoes d s s')"
    using assms(2,3) v by (intro conjI exI [of _ "[e]"]) simp_all
qed

lemma restored_create:
  assumes "restored (put_object a newStateObject s) t"
  shows "restored s (case fmlookup (stateObjects s) a of
    None \<Rightarrow> t\<lparr>stateObjects := fmdrop a (stateObjects t)\<rparr> | Some obj \<Rightarrow> put_object a obj t)"
proof (cases "fmlookup (stateObjects s) a")
  case (Some obj)
  then show ?thesis using restored_put(2) [OF assms] by (simp add: obj_of_def)
next
  case None
  have "fmlookup (fmdrop a (stateObjects t)) b = fmlookup (stateObjects s) b \<or>
      fmlookup (stateObjects s) b = None \<and> fmlookup (fmdrop a (stateObjects t)) b = Some newStateObject" for b
    using assms None by (cases "b = a") (auto simp: restored_def put_object_def dest: spec [of _ b])
  then show ?thesis using assms None by (simp add: restored_def put_object_def getter_defs)
qed

lemma logged_CreateAccount: "logged s (CreateAccount a s)"
  unfolding CreateAccount_def Let_def put_log
  by (rule logged_entry [where e = "CreateAccountChange a (fmlookup (stateObjects s) a)"])
     (auto simp: db_valid_def dest: restored_create)

lemma logged_refund:
  "logged s ((log_change (RefundChange (refund s)) s)\<lparr>refund := r\<rparr>)"
  by (rule logged_entry [where e = "RefundChange (refund s)"])
     (auto simp: db_valid_def restored_def getter_defs log_change_def journal_append_def)

lemma logs_at_upd [simp]: "logs_at (fmupd h ls m) h' = (if h' = h then ls else logs_at m h')"
  by (simp add: logs_at_def)

lemma logs_at_drop [simp]: "logs_at (fmdrop h m) h' = (if h' = h then [] else logs_at m h')"
  by (simp add: logs_at_def)

lemma logged_AddLog: "logged s (AddLog l s)"
proof (rule logged_entry [where e = "LogChange (db_txHash s) (length (logs_at (logs s) (db_txHash s)))"])
  fix t assume "db_valid s" and r: "restored (AddLog l s) t"
  let ?ls = "logs_at (logs s) (db_txHash s)"
  have at: "logs_at (logs t) h = (if h = db_txHash s
      then ?ls @ [l\<lparr>TxHash := db_txHash s, TxIndex := word_of_int (db_txIndex s)\<rparr>]
      else logs_at (logs s) h)" for h
    using r by (simp add: restored_def AddLog_def Let_def GetLogs_def)
  let ?t = "t\<lparr>logs := (if length ?ls = 0 then fmdrop (db_txHash s) (logs t)
    else fmupd (db_txHash s) (take (length ?ls) (logs_at (logs t) (db_txHash s))) (logs t))\<rparr>"
  have "revert_entry (LogChange (db_txHash s) (length ?ls)) t = Some ?t" by (simp add: at)
  moreover have "GetLogs h ?t = GetLogs h s" for h by (simp add: GetLogs_def at)
  then have "restored s ?t"
    using r by (simp add: restored_def AddLog_def Let_def log_change_def GetTransientState_def)
  ultimately show "\<exists>t'. revert_entry (LogChange (db_txHash s) (length ?ls)) t = Some t' \<and> restored s t'"
    by blast
qed (simp_all add: AddLog_def Let_def log_change_def journal_append_def db_valid_def)

lemma logged_AddAddress: "logged s (AddAddressToAccessList a s)"
proof (cases "AddAddress a (accessList s)")
  case (Pair present al)
  show ?thesis
  proof (cases present)
    case True
    then have "db_valid s \<Longrightarrow> al = accessList s"
      using al.add_adr [OF _ Pair] by (simp add: db_valid_def)
    then show ?thesis
      using True Pair by (intro logged_sim) (auto simp: AddAddressToAccessList_def db.sim_refl)
  next
    case False
    then have e: "AddAddressToAccessList a s =
        log_change (AccessListAddAccountChange a) (s\<lparr>accessList := al\<rparr>)"
      using Pair by (simp add: AddAddressToAccessList_def)
    show ?thesis unfolding e
    proof (rule logged_entry [where e = "AccessListAddAccountChange a"])
      fix t assume v: "db_valid s" and "restored (log_change (AccessListAddAccountChange a) (s\<lparr>accessList := al\<rparr>)) t"
      then have r: "restored (s\<lparr>accessList := al\<rparr>) t" by simp
      have "al.same (accessList s) (DeleteAddress a (accessList t))"
        using al.undo_add_adr [of "accessList s" a al "accessList t"] v r Pair False
        by (simp add: db_valid_def restored_def)
      then show "\<exists>t'. revert_entry (AccessListAddAccountChange a) t = Some t' \<and> restored s t'"
        using r by (simp add: restored_def getter_defs)
    qed (use al.add_adr [OF _ Pair] in \<open>auto simp: db_valid_def\<close>)
  qed
qed

lemma restored_al:
  "restored (s\<lparr>accessList := al\<rparr>) t \<Longrightarrow> al.same (accessList s) al' \<Longrightarrow> restored s (t\<lparr>accessList := al'\<rparr>)"
  by (simp add: restored_def getter_defs)

lemma restored_same: "restored (s\<lparr>accessList := al\<rparr>) t \<Longrightarrow> al.same al (accessList t)"
  by (simp add: restored_def)

lemma undoes_AddSlot:
  assumes v: "db_valid s" and a: "AddSlot a k (accessList s) = Some ((p, q), al)"
  shows "db.undoes ((if q then [] else [AccessListAddSlotChange a k]) @
      (if p then [] else [AccessListAddAccountChange a])) s (s\<lparr>accessList := al\<rparr>)"
proof -
  have wf: "al_wf (accessList s)" using v by (simp add: db_valid_def)
  have spec: "p = (a \<in> warm_addresses (accessList s))" "q = ((a, k) \<in> warm_slots (accessList s))" "al_wf al"
    "warm_addresses al = insert a (warm_addresses (accessList s))"
    "warm_slots al = insert (a, k) (warm_slots (accessList s))"
    using al.add_slt [OF wf, of a k] a by auto
  consider (both) "p" "q" | (addr) "p" "\<not> q" | (none) "\<not> p" "\<not> q"
    using spec(1,2) al.slot_address [OF wf] by auto
  then show ?thesis
  proof cases
    case both
    then have "al.same (accessList s) al" using spec by (auto simp: al.same_def)
    then have "restored s (s\<lparr>accessList := al\<rparr>)"
      using db.sim_refl [OF v] by (simp add: restored_def getter_defs)
    then show ?thesis using both db.undoes_Nil by simp
  next
    case addr
    then have "\<exists>t'. revert_entry (AccessListAddSlotChange a k) t = Some t' \<and> restored s t'"
      if "restored (s\<lparr>accessList := al\<rparr>) t" for t
      using al.undo_add_slt [OF wf _ restored_same [OF that], of a k] a restored_al [OF that]
      by fastforce
    then show ?thesis using addr db.undoes_single by simp
  next
    case none
    have "\<exists>t'. revert_entries revert_entry [AccessListAddSlotChange a k, AccessListAddAccountChange a] t = Some t' \<and>
        restored s t'" if r: "restored (s\<lparr>accessList := al\<rparr>) t" for t
    proof -
      obtain m where m: "DeleteSlot a k (accessList t) = Some m" "al.same (accessList s) (DeleteAddress a m)"
        using al.undo_add_both [OF wf _ restored_same [OF r], of a k] a none by auto
      then show ?thesis using restored_al [OF r m(2)] by simp
    qed
    then show ?thesis using none by (simp add: db.undoes_def)
  qed
qed

lemma logged_AddSlot:
  assumes "db_valid s"
  shows "\<exists>s'. AddSlotToAccessList a k s = Some s' \<and> logged s s'"
proof -
  obtain p q al where al: "AddSlot a k (accessList s) = Some ((p, q), al)" "al_wf al"
    using al.add_slt [of "accessList s" a k] assms by (auto simp: db_valid_def)
  let ?d = "(if q then [] else [AccessListAddSlotChange a k]) @ (if p then [] else [AccessListAddAccountChange a])"
  obtain s' where s': "AddSlotToAccessList a k s = Some s'" "accessList s' = al"
    "db_journal s' = (db_journal s)\<lparr>entries := ?d @ entries (db_journal s)\<rparr>"
    "s' = (s\<lparr>accessList := al\<rparr>)\<lparr>db_journal := db_journal s'\<rparr>"
    using al(1) by (simp add: AddSlotToAccessList_def Let_def log_change_def journal_append_def)
  have "db.undoes ?d s s'"
    using undoes_AddSlot [OF assms al(1)] s'(4) by (metis db.undoes_def restored_journal(1))
  then show ?thesis using s' al(2) by (auto simp: logged_def db_valid_def intro!: exI [of _ ?d])
qed

lemma hash_at_upd [simp]: "hash_at (fmupd k v m) k' = (if k' = k then v else hash_at m k')"
  by (simp add: hash_at_def)

lemma hash_at_drop [simp]: "hash_at (fmdrop k m) k' = (if k' = k then 0 else hash_at m k')"
  by (simp add: hash_at_def)

lemma hash_at_empty [simp]: "hash_at fmempty k = 0"
  by (simp add: hash_at_def)

lemma hash_at_notin: "k |\<notin>| fmdom m \<Longrightarrow> hash_at m k = 0"
  by (auto simp: hash_at_def dest: fmdom_notD)

text \<open>
  Reverting a write to transient storage needs the inner map of the address; it is there as
  long as the written value is not zero.
\<close>

lemma transient_revert:
  assumes "prev = 0 \<or> fmlookup (transientStorage t) a \<noteq> None"
  shows "\<exists>t'. revert_entry (TransientStorageChange a k prev) t = Some t' \<and>
    (\<forall>b j. GetTransientState b j t' = (if b = a \<and> j = k then prev else GetTransientState b j t)) \<and>
    t' = t\<lparr>transientStorage := transientStorage t'\<rparr>"
  using assms
  by (cases "fmlookup (transientStorage t) a")
     (auto simp: GetTransientState_def Let_def intro!: hash_at_notin)

lemma restored_transient:
  assumes "restored (SetTransientState a k v s) t"
    and "\<And>b j. GetTransientState b j (t\<lparr>transientStorage := m\<rparr>) = GetTransientState b j s"
  shows "restored s (t\<lparr>transientStorage := m\<rparr>)"
  using assms by (simp add: restored_def SetTransientState_def Let_def log_change_def GetLogs_def)

lemma logged_SetTransient:
  assumes v0: "v \<noteq> 0"
  shows "logged s (SetTransientState a k v s)"
proof (rule logged_entry [where e = "TransientStorageChange a k (GetTransientState a k s)"])
  fix t assume r: "restored (SetTransientState a k v s) t"
  have get: "GetTransientState b j t = (if b = a \<and> j = k then v else GetTransientState b j s)" for b j
    using r by (auto simp: restored_def SetTransientState_def GetTransientState_def Let_def split: option.split)
  from get [of a k] v0 have "fmlookup (transientStorage t) a \<noteq> None"
    by (auto simp: GetTransientState_def split: option.splits)
  then obtain t' where t': "revert_entry (TransientStorageChange a k (GetTransientState a k s)) t = Some t'"
    "\<And>b j. GetTransientState b j t' = GetTransientState b j s" "t' = t\<lparr>transientStorage := transientStorage t'\<rparr>"
    using transient_revert [of "GetTransientState a k s" t a k] get by auto
  have "restored s t'" using restored_transient [OF r, of "transientStorage t'"] t'(2,3) by simp
  then show "\<exists>t'. revert_entry (TransientStorageChange a k (GetTransientState a k s)) t = Some t' \<and> restored s t'"
    using t'(1) by blast
qed (simp_all add: SetTransientState_def Let_def log_change_def journal_append_def db_valid_def)

lemma logged_SetTxContext: "logged s (SetTxContext h i s)"
  by (rule logged_sim) (simp_all add: SetTxContext_def restored_def getter_defs db_valid_def al.same_refl)

lemma restored_touch:
  assumes "fmlookup (stateObjects t) a = None" "restored s t"
  shows "restored s (put_object a newStateObject t)"
proof -
  have "fmlookup (stateObjects s) a = None"
    using assms by (auto simp: restored_def dest: spec [of _ a])
  then show ?thesis using assms by (auto simp: restored_def put_object_def getter_defs)
qed

lemma Prefetch_restored:
  "restored s t \<Longrightarrow> restored s (Prefetch as t) \<and> db_journal (Prefetch as t) = db_journal t"
  unfolding Prefetch_def
  by (induction as arbitrary: t) (simp_all add: restored_touch)

lemma logged_Prefetch: "logged s (Prefetch as s)"
proof (rule logged_sim)
  show "db_valid s \<Longrightarrow> restored s (Prefetch as s)" using Prefetch_restored [of s s as] db.sim_refl by simp
  show "db_journal (Prefetch as s) = db_journal s"
    unfolding Prefetch_def by (rule fold_invariant [where Q = "\<lambda>_. True"]) simp_all
qed

lemma logged_PrefetchStorage: "logged s (PrefetchStorage a ks s)"
  by (rule logged_sim) (auto simp: PrefetchStorage_def restored_touch db.sim_refl)

section \<open>Sequences of operations\<close>

text \<open>A write of zero to transient storage is left out: reverting it may panic.\<close>

fun op_ok :: "db_op \<Rightarrow> bool" where
  "op_ok (OpSetTransient a k v) = (v \<noteq> 0)"
| "op_ok _ = True"

fun is_mutation :: "db_op \<Rightarrow> bool" where
  "is_mutation OpSnapshot = False"
| "is_mutation (OpRevert sid) = False"
| "is_mutation _ = True"

lemma exec_op_logged:
  assumes "op_ok op" "is_mutation op" "db_valid s"
  shows "\<exists>s'. exec_op keccak op s = Some s' \<and> logged s s'"
  using assms
  by (cases op) (simp_all add: logged_CreateAccount logged_SubBalance logged_AddBalance logged_SetNonce
      logged_SetCode logged_SelfDestruct logged_SetState logged_AddLog AddRefund_def SubRefund_def
      logged_refund logged_AddAddress logged_AddSlot logged_SetTransient logged_SetTxContext
      logged_Prefetch logged_PrefetchStorage)

definition db_inv :: "statedb \<Rightarrow> (int \<times> statedb \<times> journal_entry list) list \<Rightarrow> bool" where
  "db_inv s h = db.log_inv (db_journal s) s h"

lemma db_inv_new: "db_inv NewMemoryStateDB []"
  unfolding db_inv_def NewMemoryStateDB_def
  by (simp add: db.log_inv_new db_valid_def)

lemma db_inv_logged: "db_inv s h \<Longrightarrow> logged s s' \<Longrightarrow> db_inv s' h"
  unfolding db_inv_def logged_def
  by (metis db.log_inv_def db.log_inv_step)

lemma log_inv_journal: "db.log_inv j s h \<Longrightarrow> db.log_inv j (s\<lparr>db_journal := j'\<rparr>) h"
  using db.linked_sim [of h "entries j" s "s\<lparr>db_journal := j'\<rparr>"] db.sim_refl [of s]
  by (auto simp: db.log_inv_def db_valid_def)

lemma db_inv_snapshot:
  "db_inv s h \<Longrightarrow> db_inv (snd (Snapshot s)) ((fst (Snapshot s), s, entries (db_journal s)) # h)"
  using db.log_inv_snapshot [of "db_journal s" s h]
  by (auto simp: db_inv_def Snapshot_def journal_snapshot_def Let_def intro: log_inv_journal)

lemma db_inv_revert_to:
  assumes inv: "db_inv s h" and h: "h = h1 @ (sid, s0, es0) # h2"
  shows "\<exists>s'. RevertToSnapshot sid s = Some s' \<and> restored s0 s' \<and> db_inv s' h2"
proof -
  obtain j s' where r: "revertToSnapshot revert_entry sid (db_journal s) s = Some (j, s')"
    "restored s0 s'" "db.log_inv j s' h2"
    using db.log_inv_revert [OF _ h, of "db_journal s" s] inv by (auto simp: db_inv_def)
  then show ?thesis
    using log_inv_journal [OF r(3), of j] by (auto simp: RevertToSnapshot_def db_inv_def)
qed

lemma db_inv_revert_dead:
  assumes "db_inv s h" "sid \<notin> fst ` set h"
  shows "\<exists>s'. RevertToSnapshot sid s = Some s' \<and> db_inv s' h"
proof -
  have "map_of (marks h) sid = None" using assms(2) by (simp add: map_of_eq_None_iff)
  then have "fmlookup (snapshots (db_journal s)) sid = None"
    using assms(1) by (simp add: db_inv_def db.log_inv_def)
  then show ?thesis using assms(1) by (auto simp: RevertToSnapshot_def revertToSnapshot_def)
qed

text \<open>A live snapshot survives every operation but a revert to it or to an older one.\<close>

lemma db_inv_exec_op:
  assumes inv: "db_inv s h" and ok: "op_ok op"
  shows "\<exists>s' h'. exec_op keccak op s = Some s' \<and> db_inv s' h' \<and>
    (\<forall>x\<in>set h. (\<forall>r. op = OpRevert r \<longrightarrow> fst x < r) \<longrightarrow> x \<in> set h')"
proof (cases "is_mutation op")
  case True
  have "db_valid s" using inv by (simp add: db_inv_def db.log_inv_def)
  then show ?thesis using exec_op_logged [OF ok True, of s keccak] db_inv_logged [OF inv] by blast
next
  case False
  then consider "op = OpSnapshot" | (revert) r where "op = OpRevert r" by (cases op) auto
  then show ?thesis
  proof cases
    case 1
    then show ?thesis using db_inv_snapshot [OF inv] by auto
  next
    case revert
    show ?thesis
    proof (cases "r \<in> fst ` set h")
      case False
      then show ?thesis using revert db_inv_revert_dead [OF inv False] by auto
    next
      case True
      then obtain s0 es0 h1 h2 where h: "h = h1 @ (r, s0, es0) # h2"
        by (metis imageE prod.collapse split_list)
      then have "sorted_wrt (>) (map fst (h1 @ (r, s0, es0) # h2))"
        using inv by (simp add: db_inv_def db.log_inv_def)
      then have "\<forall>x\<in>set h. fst x < r \<longrightarrow> x \<in> set h2"
        using h by (fastforce simp: sorted_wrt_append)
      then show ?thesis using revert db_inv_revert_to [OF inv h] by auto
    qed
  qed
qed

lemma db_inv_exec_ops:
  assumes "db_inv s h" "\<forall>op\<in>set ops. op_ok op"
  shows "\<exists>s' h'. exec_ops keccak ops s = Some s' \<and> db_inv s' h' \<and>
    (\<forall>x\<in>set h. (\<forall>r. OpRevert r \<in> set ops \<longrightarrow> fst x < r) \<longrightarrow> x \<in> set h')"
  using assms
proof (induction ops arbitrary: s h)
  case (Cons op ops)
  obtain s1 h1 where 1: "exec_op keccak op s = Some s1" "db_inv s1 h1"
    "\<forall>x\<in>set h. (\<forall>r. op = OpRevert r \<longrightarrow> fst x < r) \<longrightarrow> x \<in> set h1"
    using db_inv_exec_op [OF Cons.prems(1), of op keccak] Cons.prems(2) by auto
  obtain s2 h2 where 2: "exec_ops keccak ops s1 = Some s2" "db_inv s2 h2"
    "\<forall>x\<in>set h1. (\<forall>r. OpRevert r \<in> set ops \<longrightarrow> fst x < r) \<longrightarrow> x \<in> set h2"
    using Cons.IH [OF 1(2)] Cons.prems(2) by auto
  then show ?case using 1 by auto
qed auto

section \<open>Storage\<close>

lemma fold_flush_key:
  "fmlookup (fold (flush_key d) ks m) k =
     (if k \<in> set ks then (if hash_at d k = 0 then None else Some (hash_at d k)) else fmlookup m k)"
  by (induction ks arbitrary: m) (auto simp: flush_key_def)

lemma set_fm_keys [simp]: "set (fm_keys m) = fmdom' m"
  by (simp add: fm_keys_def sorted_list_of_fset.rep_eq fmdom'_alt_def)

lemma fmlookup_mergeStorage:
  "fmlookup (mergeStorage obj) k =
     (case fmlookup (dirtyStorage obj) k of
        Some v \<Rightarrow> if v = 0 then None else Some v
      | None \<Rightarrow> fmlookup (committedStorage obj) k)"
  by (auto simp: mergeStorage_def fold_flush_key hash_at_def fmlookup_dom'_iff split: option.split)

lemma hash_at_mergeStorage:
  "hash_at (mergeStorage obj) k =
     (case fmlookup (dirtyStorage obj) k of Some v \<Rightarrow> v | None \<Rightarrow> hash_at (committedStorage obj) k)"
  by (auto simp: hash_at_def fmlookup_mergeStorage split: option.split)

text \<open>\<open>Merge\<close> visits every address of the source once.\<close>

definition merge_step :: "statedb \<Rightarrow> address \<Rightarrow> statedb \<Rightarrow> statedb" where
  "merge_step src a s = (case fmlookup (stateObjects src) a of None \<Rightarrow> s
     | Some so \<Rightarrow> put_object a (merge_object so (obj_of a s)) s)"

lemma Merge_eq: "Merge src s = fold (merge_step src) (fm_keys (stateObjects src)) s"
  by (auto simp: Merge_def merge_step_def getOrNew_eq intro!: arg_cong [where f = "\<lambda>f. fold f _ s"] ext
      split: option.split)

lemma fold_merge_step:
  "distinct as \<Longrightarrow> getStateObject a (fold (merge_step src) as s) =
     (if a \<in> set as then getStateObject a (merge_step src a s) else getStateObject a s)"
  by (induction as arbitrary: s)
     (auto simp: merge_step_def getStateObject_def put_object_def obj_of_def split: option.split)

lemma distinct_fm_keys: "distinct (fm_keys m)"
  by (simp add: fm_keys_def sorted_list_of_fset.rep_eq)

lemma getStateObject_Merge:
  "getStateObject a (Merge src s) =
     (case getStateObject a src of
        None \<Rightarrow> getStateObject a s
      | Some so \<Rightarrow> Some (merge_object so (obj_of a s)))"
  using fold_merge_step [OF distinct_fm_keys [of "stateObjects src"], of a src s]
  by (auto simp: Merge_eq merge_step_def getStateObject_def put_object_def fmlookup_dom'_iff split: option.split)

section \<open>Properties\<close>

text \<open>What a caller of the interface sees of a state.\<close>

definition same_observations :: "statedb \<Rightarrow> statedb \<Rightarrow> bool" where
  "same_observations s t \<longleftrightarrow>
     (\<forall>a. GetBalance a t = GetBalance a s \<and> GetNonce a t = GetNonce a s \<and> GetCode a t = GetCode a s \<and>
       GetCodeSize a t = GetCodeSize a s \<and> HasSelfDestructed a t = HasSelfDestructed a s \<and>
       Empty a t = Empty a s \<and> AddressInAccessList a t = AddressInAccessList a s) \<and>
     (\<forall>a k. GetState a k t = GetState a k s \<and> GetCommittedState a k t = GetCommittedState a k s \<and>
       GetTransientState a k t = GetTransientState a k s \<and> SlotInAccessList a k t = SlotInAccessList a k s) \<and>
     (\<forall>h. GetLogs h t = GetLogs h s) \<and> GetRefund t = GetRefund s"

lemma restored_object_view:
  assumes "restored s t"
  shows "GetBalance a t = GetBalance a s" "GetNonce a t = GetNonce a s" "GetCode a t = GetCode a s"
    "GetCodeSize a t = GetCodeSize a s" "HasSelfDestructed a t = HasSelfDestructed a s"
    "Empty a t = Empty a s" "GetState a k t = GetState a k s" "GetCommittedState a k t = GetCommittedState a k s"
proof -
  have "getStateObject a t = getStateObject a s \<or>
      getStateObject a s = None \<and> getStateObject a t = Some newStateObject"
    using assms by (simp add: restored_def getStateObject_def)
  then show "GetBalance a t = GetBalance a s" "GetNonce a t = GetNonce a s" "GetCode a t = GetCode a s"
    "GetCodeSize a t = GetCodeSize a s" "HasSelfDestructed a t = HasSelfDestructed a s"
    "Empty a t = Empty a s" "GetState a k t = GetState a k s" "GetCommittedState a k t = GetCommittedState a k s"
    by (auto simp: GetBalance_def GetNonce_def GetCode_def GetCodeSize_def HasSelfDestructed_def
        Empty_def GetState_def GetCommittedState_def newStateObject_def NewAccount_def hash_at_def)
qed

lemma restored_observations:
  assumes "restored s t" "db_valid s"
  shows "same_observations s t"
proof -
  have "AddressInAccessList a t = AddressInAccessList a s" "SlotInAccessList a k t = SlotInAccessList a k s" for a k
    using assms by (simp_all add: AddressInAccessList_def SlotInAccessList_def ContainsAddress_iff
        ContainsSlot_eq restored_def al.same_def db_valid_def)
  then show ?thesis
    using assms restored_object_view [OF assms(1)]
    by (simp add: same_observations_def restored_def GetRefund_def)
qed

text \<open>The map of an address in transient storage, the empty one when it has none.\<close>

definition transient_map :: "address \<Rightarrow> statedb \<Rightarrow> (hash, hash) fmap" where
  "transient_map a s = (case fmlookup (transientStorage s) a of Some m \<Rightarrow> m | None \<Rightarrow> fmempty)"

lemma fmdom_single: "k |\<in>| fmdom m \<Longrightarrow> fmdom (fmdrop k m) = {||} \<longleftrightarrow> fmdom m = {|k|}"
  by auto

text \<open>
  C39. A transaction can crash the client.  Let a slot of transient storage hold a value
  other than zero.  Take a snapshot, write zero to the slot and then any value, and revert: this
  panics exactly when the slot is the only one in the map of its address.  The revert of the
  second write removes the map of the address, and the revert of the first one assigns to it.
\<close>

theorem transient_zero_panics:
  assumes "GetTransientState a k s \<noteq> 0" and "Snapshot s = (sid, s1)"
  shows "RevertToSnapshot sid (SetTransientState a k w (SetTransientState a k 0 s1)) = None \<longleftrightarrow>
    fmdom (transient_map a s) = {|k|}"
proof -
  obtain m v where m: "fmlookup (transientStorage s) a = Some m" "fmlookup m k = Some v" "v \<noteq> 0"
    using assms(1) by (auto simp: GetTransientState_def hash_at_def split: option.splits)
  then have k: "k |\<in>| fmdom m" by (simp add: fmlookup_dom_iff)
  let ?s2 = "SetTransientState a k w (SetTransientState a k 0 s1)"
  have "RevertToSnapshot sid ?s2 = None \<longleftrightarrow>
      revert_entries revert_entry [TransientStorageChange a k 0, TransientStorageChange a k v] ?s2 = None"
    using assms(2) m
    by (auto simp: RevertToSnapshot_def revertToSnapshot_def Snapshot_def journal_snapshot_def Let_def
        SetTransientState_def GetTransientState_def hash_at_def log_change_def journal_append_def
        split: option.splits if_splits)
  also have "\<dots> \<longleftrightarrow> fmdom (fmdrop k m) = {||}"
    using assms(2) m
    by (auto simp: Snapshot_def journal_snapshot_def SetTransientState_def log_change_def Let_def fmdrop_fmupd_same)
  finally show ?thesis using fmdom_single [OF k] m(1) by (simp add: transient_map_def)
qed

theorem transient_zero_panics_witness:
  "\<exists>s1. Snapshot (SetTransientState 1 2 5 NewMemoryStateDB) = (0, s1) \<and>
    RevertToSnapshot 0 (SetTransientState 1 2 7 (SetTransientState 1 2 0 s1)) = None"
proof -
  let ?s = "SetTransientState 1 2 5 NewMemoryStateDB"
  have sn: "Snapshot ?s = (0, snd (Snapshot ?s))"
    by (simp add: Snapshot_def SetTransientState_def NewMemoryStateDB_def newJournal_def journal_snapshot_def
        log_change_def journal_append_def Let_def)
  have "GetTransientState 1 2 ?s \<noteq> 0" "fmdom (transient_map 1 ?s) = {|2|}"
    by (simp_all add: GetTransientState_def SetTransientState_def hash_at_def transient_map_def
        NewMemoryStateDB_def Let_def log_change_def)
  then show ?thesis using transient_zero_panics [of 1 2 ?s 0 _ 7, OF _ sn] sn by blast
qed

text \<open>
  What a revert does not restore: an account touched after the snapshot still exists
  after the revert, and its code hash has changed from zero to the hash of the empty code.
\<close>

theorem revert_keeps_touched_account:
  "\<exists>s. exec_ops keccak [OpSnapshot, OpAddBalance a 1, OpRevert 0] NewMemoryStateDB = Some s \<and>
     \<not> Exist a NewMemoryStateDB \<and> Exist a s \<and>
     GetCodeHash a NewMemoryStateDB = 0 \<and> GetCodeHash a s = EmptyCodeHash"
  by (simp add: NewMemoryStateDB_def newJournal_def AddBalance_def getOrNewStateObject_def Let_def
      log_change_def journal_append_def Snapshot_def journal_snapshot_def RevertToSnapshot_def
      revertToSnapshot_def put_object_def mod_object_def getStateObject_def Exist_def GetCodeHash_def
      newStateObject_def NewAccount_def set_balance_def)

text \<open>
  Committing and finalizing storage: moving dirty slots to committed storage changes no
  \<open>GetState\<close>, and afterwards \<open>GetCommittedState\<close> returns what \<open>GetState\<close> returned.
\<close>

theorem storage_flush:
  "GetState a k (flush_storage s) = GetState a k s \<and>
   GetCommittedState a k (flush_storage s) = GetState a k s \<and>
   GetState a k (FinalizePreState s) = GetState a k s \<and>
   GetCommittedState a k (FinalizePreState s) = GetState a k s"
  by (cases "fmlookup (stateObjects s) a")
     (auto simp: flush_storage_def flush_object_def FinalizePreState_def GetState_def GetCommittedState_def
       getStateObject_def fmlookup_mergeStorage hash_at_def fmlookup_add_case simp del: fmlookup_add
       split: option.split)

text \<open>
  Merging the result of a parallel execution: every account of the source has the
  source's balance, nonce, code and slots, slots the source has not written keep their value,
  and accounts the source does not have are untouched.
\<close>

theorem Merge_effect:
  "(getStateObject a src = None \<longrightarrow> getStateObject a (Merge src s) = getStateObject a s) \<and>
   (\<forall>so. getStateObject a src = Some so \<longrightarrow>
      GetBalance a (Merge src s) = GetBalance a src \<and> GetNonce a (Merge src s) = GetNonce a src \<and>
      GetCode a (Merge src s) = GetCode a src \<and> GetCodeHash a (Merge src s) = GetCodeHash a src \<and>
      HasSelfDestructed a (Merge src s) = HasSelfDestructed a src \<and>
      GetState a k (Merge src s) =
        (case fmlookup (dirtyStorage so) k of Some v \<Rightarrow> v | None \<Rightarrow> GetState a k s))"
  by (cases "getStateObject a src"; cases "getStateObject a s")
     (auto simp: GetBalance_def GetNonce_def GetCode_def GetCodeHash_def HasSelfDestructed_def GetState_def
       getStateObject_Merge merge_object_def obj_of_get newStateObject_def hash_at_def
       fmlookup_add_case simp del: fmlookup_add split: option.split)

theorem Merge_effect_witness:
  "GetBalance 3 (Merge (AddBalance 3 10 NewMemoryStateDB) NewMemoryStateDB) = 10"
  using Merge_effect [of 3 "AddBalance 3 10 NewMemoryStateDB" NewMemoryStateDB 0]
  by (simp add: AddBalance_def NewMemoryStateDB_def getOrNewStateObject_def Let_def getStateObject_def
      put_object_def log_change_def GetBalance_def set_balance_def newStateObject_def NewAccount_def)

end
