(* ===== verification/Mpt_Encoding.thy ===== *)
theory Mpt_Encoding
  imports Prelude
begin

text \<open>
  Nibble keys and the hex-prefix encoding, \<^verbatim>\<open>src/pkg/trie/mpt/encoding.go\<close>: conversions
  between byte keys, nibble sequences ended by the terminator 16, and compact keys.
\<close>

section \<open>Definitions\<close>

definition terminatorByte :: byte where
  "terminatorByte = 16"

definition hasTerm :: "bytes \<Rightarrow> bool" where
  "hasTerm s \<longleftrightarrow> length s > 0 \<and> last s = terminatorByte"

text \<open>
  Packing pairs of nibbles.  On an odd number of nibbles the source reads past the end; its
  callers pass an even number.
\<close>

fun decodeNibbles :: "bytes \<Rightarrow> bytes" where
  "decodeNibbles (a # b # ns) = (push_bit 4 a OR b) # decodeNibbles ns"
| "decodeNibbles _ = []"

definition hexToCompact :: "bytes \<Rightarrow> bytes" where
  "hexToCompact hex =
     (let terminator = (if hasTerm hex then 1 else 0);
          hex1 = (if hasTerm hex then butlast hex else hex);
          flag = push_bit 5 terminator in
      if length hex1 mod 2 = 1
      then (flag OR push_bit 4 1 OR hd hex1) # decodeNibbles (tl hex1)
      else flag # decodeNibbles hex1)"

definition keybytesToHex :: "bytes \<Rightarrow> bytes" where
  "keybytesToHex str = concat (map (\<lambda>b. [b div 16, b mod 16]) str) @ [terminatorByte]"

definition compactToHex :: "bytes \<Rightarrow> bytes" where
  "compactToHex compact =
     (if length compact = 0 then compact
      else let base = butlast (keybytesToHex compact);
               chop = unat (2 - (hd base AND 1)) in
        if hd base AND 2 \<noteq> 0 then drop chop base @ [terminatorByte] else drop chop base)"

text \<open>\<open>None\<close> is the panic on a key of odd length.\<close>

definition hexToKeybytes :: "bytes \<Rightarrow> bytes option" where
  "hexToKeybytes hex =
     (let hex1 = (if hasTerm hex then butlast hex else hex) in
      if length hex1 mod 2 \<noteq> 0 then None else Some (decodeNibbles hex1))"

fun prefixLen :: "bytes \<Rightarrow> bytes \<Rightarrow> nat" where
  "prefixLen (a # as) (b # bs) = (if a \<noteq> b then 0 else Suc (prefixLen as bs))"
| "prefixLen _ _ = 0"

section \<open>Nibbles\<close>

text \<open>A nibble path, and a key: a nibble path followed by the terminator.\<close>

definition nibbles :: "bytes \<Rightarrow> bool" where
  "nibbles ns \<longleftrightarrow> (\<forall>n\<in>set ns. unat n < 16)"

definition hexkey :: "bytes \<Rightarrow> bool" where
  "hexkey k \<longleftrightarrow> (\<exists>ns. nibbles ns \<and> k = ns @ [terminatorByte])"

lemma nibbles_simps [simp]:
  "nibbles []" "nibbles (n # ns) \<longleftrightarrow> unat n < 16 \<and> nibbles ns"
  "nibbles (xs @ ys) \<longleftrightarrow> nibbles xs \<and> nibbles ys"
  by (auto simp: nibbles_def)

lemma unat_terminator [simp]: "unat terminatorByte = 16"
  by (simp add: terminatorByte_def)

lemma nibble_not_term: "unat n < 16 \<Longrightarrow> n \<noteq> terminatorByte"
  by auto

lemma hasTerm_hexkey [simp]: "hasTerm (ns @ [terminatorByte])"
  by (simp add: hasTerm_def)

lemma nibbles_last: "nibbles ns \<Longrightarrow> ns \<noteq> [] \<Longrightarrow> last ns \<noteq> terminatorByte"
  by (auto simp: nibbles_def dest!: last_in_set)

lemma hasTerm_nibbles [simp]: "nibbles ns \<Longrightarrow> \<not> hasTerm ns"
  by (auto simp: hasTerm_def dest: nibbles_last)

lemma unat_or_nibbles: "unat a < 16 \<Longrightarrow> unat b < 16 \<Longrightarrow> unat (push_bit 4 a OR b :: byte) = unat a * 16 + unat b"
proof -
  assume a: "unat a < 16" "unat b < 16"
  have "a = of_nat (unat a)" "b = of_nat (unat b)" by simp_all
  moreover have "\<forall>x<16. \<forall>y<16. unat (push_bit 4 (of_nat x) OR of_nat y :: byte) = x * 16 + y"
    by code_simp
  ultimately show ?thesis using a by metis
qed

lemma byte_nibbles: "unat (b div 16 :: byte) = unat b div 16" "unat (b mod 16 :: byte) = unat b mod 16"
  by (simp_all add: unat_div unat_mod)

lemma nibbles_of_byte: "unat (b div 16 :: byte) < 16" "unat (b mod 16 :: byte) < 16"
  using unat_byte_less [of b] by (simp_all add: byte_nibbles less_mult_imp_div_less)

lemma pack_byte: "push_bit 4 (b div 16) OR (b mod 16) = (b :: byte)"
  by (rule word_unat_eq_iff [THEN iffD2])
     (simp only: unat_or_nibbles [OF nibbles_of_byte] byte_nibbles, simp)

text \<open>The two nibbles of each byte.\<close>

definition expand :: "bytes \<Rightarrow> bytes" where
  "expand str = concat (map (\<lambda>b. [b div 16, b mod 16]) str)"

lemma expand_simps [simp]: "expand [] = []" "expand (b # str) = b div 16 # b mod 16 # expand str"
  by (simp_all add: expand_def)

lemma keybytesToHex_expand: "keybytesToHex str = expand str @ [terminatorByte]"
  by (simp add: keybytesToHex_def expand_def)

lemma length_expand [simp]: "length (expand str) = 2 * length str"
  by (induction str) simp_all

lemma nibbles_expand [simp]: "nibbles (expand str)"
  by (induction str) (simp_all only: expand_simps nibbles_simps nibbles_of_byte)

lemma hexkey_keybytesToHex [simp]: "hexkey (keybytesToHex str)"
  unfolding hexkey_def keybytesToHex_expand using nibbles_expand by blast

lemma decodeNibbles_expand [simp]: "decodeNibbles (expand str) = str"
  by (induction str) (simp_all only: expand_simps decodeNibbles.simps pack_byte)

lemma unpack_nibbles:
  assumes "unat a < 16" "unat b < 16"
  shows "(push_bit 4 a OR b :: byte) div 16 = a" "(push_bit 4 a OR b :: byte) mod 16 = b"
  using unat_or_nibbles [OF assms] assms
  by (simp_all only: word_unat_eq_iff byte_nibbles) simp_all

lemma expand_decodeNibbles: "nibbles ns \<Longrightarrow> even (length ns) \<Longrightarrow> expand (decodeNibbles ns) = ns"
  by (induction ns rule: decodeNibbles.induct)
     (simp_all only: decodeNibbles.simps expand_simps unpack_nibbles nibbles_simps, auto)

lemma keybytesToHex_inject: "keybytesToHex a = keybytesToHex b \<longleftrightarrow> a = b"
  by (metis decodeNibbles_expand keybytesToHex_expand append_same_eq)

section \<open>Round trips\<close>

lemma hexToKeybytes_hexkey:
  "nibbles ns \<Longrightarrow> hexToKeybytes (ns @ [terminatorByte]) = (if odd (length ns) then None else Some (decodeNibbles ns))"
  by (simp add: hexToKeybytes_def Let_def odd_iff_mod_2_eq_one)

text \<open>The flag byte of a compact key with terminator flag \<open>t\<close> and first nibble \<open>n\<close>.\<close>

lemma compact_flags_odd:
  assumes "unat n < 16" "t = 0 \<or> t = 1"
  shows "(push_bit 5 t OR push_bit 4 1 OR n) div 16 AND 1 = (1 :: byte)"
    and "(push_bit 5 t OR push_bit 4 1 OR n) div 16 AND 2 = 0 \<longleftrightarrow> t = (0 :: byte)"
    and "(push_bit 5 t OR push_bit 4 1 OR n) mod 16 = (n :: byte)"
proof -
  have "\<forall>x<16. \<forall>t\<in>{0, 1 :: byte}. (push_bit 5 t OR push_bit 4 1 OR of_nat x) div 16 AND 1 = (1 :: byte) \<and>
      ((push_bit 5 t OR push_bit 4 1 OR of_nat x) div 16 AND 2 = (0 :: byte) \<longleftrightarrow> t = 0) \<and>
      (push_bit 5 t OR push_bit 4 1 OR of_nat x) mod 16 = (of_nat x :: byte)"
    by code_simp
  moreover have n: "n = of_nat (unat n)" by simp
  moreover have "t \<in> {0, 1}" using assms(2) by auto
  ultimately have "(push_bit 5 t OR push_bit 4 1 OR of_nat (unat n)) div 16 AND 1 = (1 :: byte) \<and>
      ((push_bit 5 t OR push_bit 4 1 OR of_nat (unat n)) div 16 AND 2 = (0 :: byte) \<longleftrightarrow> t = 0) \<and>
      (push_bit 5 t OR push_bit 4 1 OR of_nat (unat n)) mod 16 = (of_nat (unat n) :: byte)"
    using assms(1) by blast
  then show "(push_bit 5 t OR push_bit 4 1 OR n) div 16 AND 1 = (1 :: byte)"
    "(push_bit 5 t OR push_bit 4 1 OR n) div 16 AND 2 = 0 \<longleftrightarrow> t = (0 :: byte)"
    "(push_bit 5 t OR push_bit 4 1 OR n) mod 16 = (n :: byte)"
    unfolding n [symmetric] by blast+
qed

lemma compact_flags_even:
  assumes "t = 0 \<or> t = (1 :: byte)"
  shows "push_bit 5 t div 16 AND 1 = 0" "push_bit 5 t div 16 AND 2 = 0 \<longleftrightarrow> t = 0"
proof -
  have "\<forall>t\<in>{0, 1 :: byte}. push_bit 5 t div 16 AND 1 = 0 \<and> (push_bit 5 t div 16 AND 2 = 0 \<longleftrightarrow> t = 0)"
    by code_simp
  then show "push_bit 5 t div 16 AND 1 = 0" "push_bit 5 t div 16 AND 2 = 0 \<longleftrightarrow> t = 0"
    using assms by auto
qed

lemma hexToCompact_path:
  assumes "nibbles ns" and h: "h = ns @ (if leaf then [terminatorByte] else [])"
  shows "hexToCompact h = (let t = (if leaf then 1 else 0) in
     if odd (length ns) then (push_bit 5 t OR push_bit 4 1 OR hd ns) # decodeNibbles (tl ns)
     else push_bit 5 t # decodeNibbles ns)"
  using assms by (auto simp: hexToCompact_def Let_def odd_iff_mod_2_eq_one)

lemma compactToHex_cons:
  "compactToHex (f # c) =
     (let chop = unat (2 - (f div 16 AND 1)); path = drop chop (f div 16 # f mod 16 # expand c) in
      if f div 16 AND 2 \<noteq> 0 then path @ [terminatorByte] else path)"
  by (simp only: compactToHex_def keybytesToHex_expand butlast_snoc expand_simps list.sel Let_def) simp

lemma compact_roundtrip:
  assumes ns: "nibbles ns" and h: "h = ns @ (if leaf then [terminatorByte] else [])"
  shows "compactToHex (hexToCompact h) = h"
proof -
  define t :: byte where "t = (if leaf then 1 else 0)"
  have t: "t = 0 \<or> t = 1" by (simp add: t_def)
  show ?thesis
  proof (cases "odd (length ns)")
    case True
    then obtain n ns' where n: "ns = n # ns'" by (cases ns) auto
    then have n': "unat n < 16" "nibbles ns'" "even (length ns')" using ns True by auto
    define f :: byte where "f = push_bit 5 t OR push_bit 4 1 OR n"
    note f = compact_flags_odd [OF n'(1) t, folded f_def]
    have "hexToCompact h = f # decodeNibbles ns'"
      using hexToCompact_path [OF ns h] True n by (simp add: t_def f_def)
    then have "compactToHex (hexToCompact h) = (if t \<noteq> 0 then ns @ [terminatorByte] else ns)"
      using n n' f by (simp add: compactToHex_cons Let_def expand_decodeNibbles)
    then show ?thesis using h by (simp add: t_def)
  next
    case False
    then have "hexToCompact h = push_bit 5 t # decodeNibbles ns"
      using hexToCompact_path [OF ns h] by (simp add: t_def)
    then show ?thesis
      using False ns h by (simp add: compactToHex_cons Let_def compact_flags_even [OF t] expand_decodeNibbles t_def)
  qed
qed

end
