(* ===== verification/Mpt_Trie.thy ===== *)
theory Mpt_Trie
  imports Mpt_Encoding
begin

text \<open>
  The Merkle Patricia trie, \<^verbatim>\<open>src/pkg/trie/mpt/trie.go\<close> and \<^verbatim>\<open>node.go\<close>: nodes with their
  cached hash and dirty flag, lookup, insertion and deletion on nibble keys.
\<close>

section \<open>Nodes\<close>

record nodeFlag =
  flag_hash :: "bytes option"
  flag_dirty :: bool

text \<open>The nil interface value is \<open>NilNode\<close>; a full node has 17 children.\<close>

datatype node =
    NilNode
  | ValueNode bytes
  | HashNode bytes
  | ShortNode bytes node nodeFlag
  | FullNode "node list" nodeFlag

abbreviation dirty :: nodeFlag where
  "dirty \<equiv> \<lparr>flag_hash = None, flag_dirty = True\<rparr>"

fun node_cache :: "node \<Rightarrow> bytes option \<times> bool" where
  "node_cache (ShortNode k v f) = (flag_hash f, flag_dirty f)"
| "node_cache (FullNode cs f) = (flag_hash f, flag_dirty f)"
| "node_cache _ = (None, True)"

datatype trie_error = ErrNotFound | ErrHashNode | ErrUnknownNode

section \<open>Lookup\<close>

text \<open>
  The key and the position of the source are the rest of the key.  Indexing \<open>Children\<close>
  out of range is a panic.
\<close>

function node_get :: "node \<Rightarrow> bytes \<Rightarrow> (trie_error, bytes) outcome" where
  "node_get NilNode key = Err ErrNotFound"
| "node_get (ValueNode v) key = Ok v"
| "node_get (ShortNode k v f) key =
     (if length key < length k \<or> k \<noteq> take (length k) key then Err ErrNotFound
      else node_get v (drop (length k) key))"
| "node_get (FullNode cs f) [] = (if 16 < length cs then node_get (cs ! 16) [] else Panic)"
| "node_get (FullNode cs f) (c # key) = (if unat c < length cs then node_get (cs ! unat c) key else Panic)"
| "node_get (HashNode h) key = Err ErrNotFound"
  by pat_completeness auto

lemma size_child: "i < length cs \<Longrightarrow> size (cs ! i) < Suc (size_list size cs)"
  using size_list_estimation' [OF nth_mem, of i cs "size (cs ! i)" size] by (simp add: less_Suc_eq_le)

termination node_get
  by (relation "measure (\<lambda>(n, key). size n)") (auto simp: size_child)

record trie =
  root :: node

definition New :: trie where
  "New = \<lparr>root = NilNode\<rparr>"

definition Get :: "bytes \<Rightarrow> trie \<Rightarrow> (trie_error, bytes) outcome" where
  "Get key t = node_get (root t) (keybytesToHex key)"

section \<open>Insertion\<close>

text \<open>\<open>insert(nil, prefix, key, value)\<close>: the value at the end of the key, a leaf before.\<close>

definition insert_nil :: "bytes \<Rightarrow> node \<Rightarrow> node" where
  "insert_nil key val = (if length key = 0 then val else ShortNode key val dirty)"

function node_insert :: "node \<Rightarrow> bytes \<Rightarrow> node \<Rightarrow> (trie_error, node) outcome" where
  "node_insert n [] val = Ok (case n of ValueNode v \<Rightarrow> if ValueNode v = val then ValueNode v else val | _ \<Rightarrow> val)"
| "node_insert NilNode (c # key) val = Ok (insert_nil (c # key) val)"
| "node_insert (ShortNode k v f) (c # key) val =
     (let matchLen = prefixLen (c # key) k in
      if matchLen = length k then
        map_ok (\<lambda>nn. ShortNode k nn dirty) (node_insert v (drop matchLen (c # key)) val)
      else if matchLen \<ge> length (c # key) \<or> unat (k ! matchLen) \<ge> 17 \<or> unat ((c # key) ! matchLen) \<ge> 17
      then Panic
      else
        let branch = (replicate 17 NilNode)
              [unat (k ! matchLen) := insert_nil (drop (Suc matchLen) k) v,
               unat ((c # key) ! matchLen) := insert_nil (drop (Suc matchLen) (c # key)) val] in
        Ok (if matchLen > 0 then ShortNode (take matchLen (c # key)) (FullNode branch dirty) dirty
            else FullNode branch dirty))"
| "node_insert (FullNode cs f) (c # key) val =
     (if unat c < length cs
      then map_ok (\<lambda>child. FullNode (cs[unat c := child]) dirty) (node_insert (cs ! unat c) key val)
      else Panic)"
| "node_insert (HashNode h) (c # key) val = Err ErrHashNode"
| "node_insert (ValueNode v) (c # key) val = Err ErrUnknownNode"
  by pat_completeness auto

termination node_insert
  by (relation "measure (\<lambda>(n, key, val). size n)") (auto simp: size_child)

section \<open>Deletion\<close>

text \<open>
  The end of \<open>delete\<close> on a full node: keep a branch with two children or more, collapse a
  branch with one.
\<close>

definition collapse :: "node list \<Rightarrow> node" where
  "collapse cs =
     (case filter (\<lambda>i. cs ! i \<noteq> NilNode) [0..<length cs] of
        [] \<Rightarrow> NilNode
      | [i] \<Rightarrow>
          if i = 16 then ShortNode [terminatorByte] (cs ! 16) dirty
          else (case cs ! i of
                  ShortNode k v f \<Rightarrow> ShortNode (of_nat i # k) v dirty
                | child \<Rightarrow> ShortNode [of_nat i] child dirty)
      | _ \<Rightarrow> FullNode cs dirty)"

text \<open>The end of \<open>delete\<close> on a short node.\<close>

definition merge_short :: "bytes \<Rightarrow> node \<Rightarrow> node" where
  "merge_short k child =
     (case child of
        NilNode \<Rightarrow> NilNode
      | ShortNode k' v f \<Rightarrow> ShortNode (k @ k') v dirty
      | _ \<Rightarrow> ShortNode k child dirty)"

function node_delete :: "node \<Rightarrow> bytes \<Rightarrow> (trie_error, node) outcome" where
  "node_delete NilNode key = Ok NilNode"
| "node_delete (ShortNode k v f) key =
     (let matchLen = prefixLen key k in
      if matchLen < length k then Ok (ShortNode k v f)
      else if matchLen = length key then Ok NilNode
      else map_ok (merge_short k) (node_delete v (drop (length k) key)))"
| "node_delete (FullNode cs f) [] = Panic"
| "node_delete (FullNode cs f) (c # key) =
     (if unat c < length cs
      then map_ok (\<lambda>child. collapse (cs[unat c := child])) (node_delete (cs ! unat c) key)
      else Panic)"
| "node_delete (ValueNode v) key = Ok (if length key = 0 then NilNode else ValueNode v)"
| "node_delete (HashNode h) key = Err ErrHashNode"
  by pat_completeness auto

termination node_delete
  by (relation "measure (\<lambda>(n, key). size n)") (auto simp: size_child)

definition Delete :: "bytes \<Rightarrow> trie \<Rightarrow> (trie_error, trie) outcome" where
  "Delete key t = map_ok (\<lambda>n. t\<lparr>root := n\<rparr>) (node_delete (root t) (keybytesToHex key))"

definition Put :: "bytes \<Rightarrow> bytes \<Rightarrow> trie \<Rightarrow> (trie_error, trie) outcome" where
  "Put key val t =
     (if length val = 0 then Delete key t
      else map_ok (\<lambda>n. t\<lparr>root := n\<rparr>) (node_insert (root t) (keybytesToHex key) (ValueNode val)))"

section \<open>Size and copies\<close>

fun countValues :: "node \<Rightarrow> nat" where
  "countValues NilNode = 0"
| "countValues (ValueNode v) = 1"
| "countValues (ShortNode k v f) = countValues v"
| "countValues (FullNode cs f) = sum_list (map countValues cs)"
| "countValues (HashNode h) = 0"

definition Len :: "trie \<Rightarrow> nat" where
  "Len t = countValues (root t)"

definition Trie_Empty :: "trie \<Rightarrow> bool" where
  "Trie_Empty t \<longleftrightarrow> root t = NilNode"

text \<open>A clone has no cached hashes; its flags are Go's zero value.\<close>

abbreviation zero_flag :: nodeFlag where
  "zero_flag \<equiv> \<lparr>flag_hash = None, flag_dirty = False\<rparr>"

fun cloneNode :: "node \<Rightarrow> node" where
  "cloneNode (ShortNode k v f) = ShortNode k (cloneNode v) zero_flag"
| "cloneNode (FullNode cs f) = FullNode (map cloneNode cs) zero_flag"
| "cloneNode n = n"

definition Clone :: "trie \<Rightarrow> trie" where
  "Clone t = \<lparr>root = cloneNode (root t)\<rparr>"

end
