(* ===== verification/Mpt_Map.thy ===== *)
theory Mpt_Map
  imports Mpt_Trie "HOL-Library.Multiset"
begin

text \<open>
  The trie as a map: a canonical-form invariant that insertion and deletion keep, the
  functional correctness of \<open>Get\<close>, \<open>Put\<close> and \<open>Delete\<close>, and the uniqueness of the canonical
  trie of a map, from which the root hash does not depend on the order of the updates.
\<close>

section \<open>Keys and prefixes\<close>

lemma hexkey_Cons:
  "hexkey (c # ks) \<longleftrightarrow> c = terminatorByte \<and> ks = [] \<or> unat c < 16 \<and> hexkey ks"
  by (auto simp: hexkey_def Cons_eq_append_conv)

lemma hexkey_nonempty: "hexkey k \<Longrightarrow> k \<noteq> []"
  by (auto simp: hexkey_def)

lemma hexkey_Nil [simp]: "\<not> hexkey []"
  by (simp add: hexkey_def)

lemma hexkey_append: "nibbles ns \<Longrightarrow> hexkey (ns @ k) \<longleftrightarrow> hexkey k"
  by (induction ns) (auto simp: hexkey_Cons)

text \<open>A key is not a proper prefix of a key or of a nibble path.\<close>

lemma hexkey_prefix: "hexkey a \<Longrightarrow> hexkey (a @ b) \<Longrightarrow> b = []"
  by (induction a) (auto simp: hexkey_Cons dest: hexkey_nonempty)

lemma hexkey_prefix_nibbles: "hexkey a \<Longrightarrow> \<not> nibbles (a @ b)"
  by (auto simp: hexkey_def)

lemma prefixLen_split:
  obtains p a' b' where "a = p @ a'" "b = p @ b'" "prefixLen a b = length p"
    "a' = [] \<or> b' = [] \<or> hd a' \<noteq> hd b'"
proof (induction a b arbitrary: thesis rule: prefixLen.induct)
  case (1 x a y b)
  show ?case
  proof (cases "x = y")
    case True
    obtain p a' b' where "a = p @ a'" "b = p @ b'" "prefixLen a b = length p"
      "a' = [] \<or> b' = [] \<or> hd a' \<noteq> hd b'" using 1(1) True by auto
    then show thesis using 1(2) [of "x # p" a' b'] True by simp
  next
    case False
    then show thesis using 1(2) [of "[]" "x # a" "y # b"] by simp
  qed
next
  case "2_1"
  show ?case by (rule "2_1" [OF append_Nil [symmetric] append_Nil [symmetric]]) simp_all
next
  case "2_2"
  show ?case by (rule "2_2" [OF append_Nil [symmetric] append_Nil [symmetric]]) simp_all
qed

section \<open>Canonical form\<close>

fun is_value :: "node \<Rightarrow> bool" where
  "is_value (ValueNode v) = (v \<noteq> [])"
| "is_value _ = False"

fun is_full :: "node \<Rightarrow> bool" where
  "is_full (FullNode cs f) = True"
| "is_full _ = False"

text \<open>The indices of the children that are present.\<close>

definition present :: "node list \<Rightarrow> nat list" where
  "present cs = filter (\<lambda>i. cs ! i \<noteq> NilNode) [0..<length cs]"

text \<open>
  A short node is a leaf with a whole key and a value, or an extension with a branch below
  it; a branch has at least two children; there are no empty values.
\<close>

function wf_node :: "node \<Rightarrow> bool" where
  "wf_node (ShortNode k v f) =
     (nibbles k \<and> k \<noteq> [] \<and> is_full v \<and> wf_node v \<or> hexkey k \<and> is_value v)"
| "wf_node (FullNode cs f) =
     (length cs = 17 \<and> (\<forall>c\<in>set (take 16 cs). c = NilNode \<or> wf_node c) \<and>
      (cs ! 16 = NilNode \<or> is_value (cs ! 16)) \<and> 2 \<le> length (present cs))"
| "wf_node NilNode = False"
| "wf_node (ValueNode v) = False"
| "wf_node (HashNode h) = False"
  by pat_completeness auto

termination wf_node
  by (relation "measure size") (auto dest!: in_set_takeD simp: less_Suc_eq_le size_list_estimation')

text \<open>What may stand at child \<open>i\<close> of a branch, and where \<open>key\<close> is left of a key.\<close>

definition slot_ok :: "nat \<Rightarrow> node \<Rightarrow> bool" where
  "slot_ok i n \<longleftrightarrow> n = NilNode \<or> (if i = 16 then is_value n else wf_node n)"

lemma wf_full:
  "wf_node (FullNode cs f) \<longleftrightarrow>
     length cs = 17 \<and> (\<forall>i<17. slot_ok i (cs ! i)) \<and> 2 \<le> length (present cs)"
proof -
  have "(\<forall>c\<in>set (take 16 cs). c = NilNode \<or> wf_node c) \<longleftrightarrow> (\<forall>i<16. slot_ok i (cs ! i))" if "length cs = 17"
    using that by (simp add: all_set_conv_all_nth slot_ok_def)
  moreover have "(17 :: nat) = Suc 16" by simp
  then have "(\<forall>i<17. slot_ok i (cs ! i)) \<longleftrightarrow> slot_ok 16 (cs ! 16) \<and> (\<forall>i<16. slot_ok i (cs ! i))"
    by (simp only: All_less_Suc)
  moreover have "slot_ok 16 (cs ! 16) \<longleftrightarrow> cs ! 16 = NilNode \<or> is_value (cs ! 16)" by (simp add: slot_ok_def)
  ultimately show ?thesis unfolding wf_node.simps by blast
qed

declare wf_node.simps(2) [simp del]

definition node_ok :: "bytes \<Rightarrow> node \<Rightarrow> bool" where
  "node_ok key n \<longleftrightarrow> n = NilNode \<or> (if key = [] then is_value n else wf_node n)"

definition keyrest :: "bytes \<Rightarrow> bool" where
  "keyrest key \<longleftrightarrow> key = [] \<or> hexkey key"

lemma keyrest_Cons: "keyrest (c # key) \<longleftrightarrow> unat c < 17 \<and> keyrest key \<and> (unat c = 16 \<longleftrightarrow> key = [])"
proof -
  have "c = terminatorByte \<longleftrightarrow> unat c = 16" by (simp add: word_unat_eq_iff)
  then show ?thesis by (auto simp: keyrest_def hexkey_Cons dest: hexkey_nonempty)
qed

lemma slot_node_ok: "keyrest (c # key) \<Longrightarrow> slot_ok (unat c) n \<longleftrightarrow> node_ok key n"
  by (auto simp: slot_ok_def node_ok_def keyrest_Cons)

section \<open>Lookup lemmas\<close>

lemma take_prefix: "(\<exists>r. key = k @ r) \<longleftrightarrow> \<not> (length key < length k \<or> k \<noteq> take (length k) key)"
proof
  assume "\<not> (length key < length k \<or> k \<noteq> take (length k) key)"
  then have "key = k @ drop (length k) key" by (metis append_take_drop_id)
  then show "\<exists>r. key = k @ r" by blast
qed auto

lemma get_short:
  "node_get (ShortNode k v f) key =
     (if \<exists>r. key = k @ r then node_get v (drop (length k) key) else Err ErrNotFound)"
  unfolding take_prefix by simp

lemma get_insert_nil:
  "node_get (insert_nil k v) key =
     (if \<exists>r. key = k @ r then node_get v (drop (length k) key) else Err ErrNotFound)"
  by (simp add: insert_nil_def get_short del: node_get.simps(3))

declare node_get.simps(3) [simp del]

lemma two_present:
  "2 \<le> length (present cs) \<longleftrightarrow>
     (\<exists>i j. i \<noteq> j \<and> i < length cs \<and> j < length cs \<and> cs ! i \<noteq> NilNode \<and> cs ! j \<noteq> NilNode)"
proof -
  have "length (present cs) = card {i. i < length cs \<and> cs ! i \<noteq> NilNode}"
    unfolding present_def by (subst distinct_card [symmetric]) (auto intro: arg_cong [where f = card])
  then have "\<not> 2 \<le> length (present cs) \<longleftrightarrow> card {i. i < length cs \<and> cs ! i \<noteq> NilNode} \<le> Suc 0" by auto
  then show ?thesis by (subst (asm) card_le_Suc0_iff_eq) auto
qed

text \<open>The branch that splits a short node.\<close>

definition fork :: "byte \<Rightarrow> node \<Rightarrow> byte \<Rightarrow> node \<Rightarrow> node" where
  "fork y p x q = FullNode ((replicate 17 NilNode)[unat y := p, unat x := q]) dirty"

lemma get_fork:
  assumes "unat c < 17" "unat x < 17" "unat y < 17" "x \<noteq> y"
  shows "node_get (fork y p x q) (c # key) =
     (if c = x then node_get q key else if c = y then node_get p key else Err ErrNotFound)"
  using assms by (simp add: fork_def nth_list_update word_unat_eq_iff)

lemma wf_fork:
  assumes "unat x < 17" "unat y < 17" "x \<noteq> y" "slot_ok (unat y) p" "slot_ok (unat x) q"
    "p \<noteq> NilNode" "q \<noteq> NilNode"
  shows "wf_node (fork y p x q)"
proof -
  have xy: "unat x \<noteq> unat y" using assms(3) by (simp add: word_unat_eq_iff)
  let ?cs = "(replicate 17 NilNode)[unat y := p, unat x := q]"
  have "\<forall>i<17. slot_ok i (?cs ! i)"
    using assms xy by (auto simp: nth_list_update slot_ok_def)
  moreover have "2 \<le> length (present ?cs)"
    unfolding two_present using assms xy by (intro exI [of _ "unat x"] exI [of _ "unat y"]) (simp add: nth_list_update)
  ultimately show ?thesis by (simp add: fork_def wf_full)
qed

lemma insert_nil_ok:
  assumes "keyrest key" "key \<noteq> [] \<Longrightarrow> is_value v" "key = [] \<Longrightarrow> is_value v"
  shows "node_ok key (insert_nil key v) \<and> insert_nil key v \<noteq> NilNode"
  using assms by (auto simp: node_ok_def insert_nil_def keyrest_def)

text \<open>The result of inserting \<open>v\<close> at \<open>key\<close> into \<open>n\<close>.\<close>

definition inserted :: "node \<Rightarrow> bytes \<Rightarrow> bytes \<Rightarrow> node \<Rightarrow> bool" where
  "inserted n key v n' \<longleftrightarrow> node_ok key n' \<and> n' \<noteq> NilNode \<and>
     (\<forall>key'. keyrest key' \<longrightarrow> (key' = [] \<longleftrightarrow> key = []) \<longrightarrow>
        node_get n' key' = (if key' = key then Ok v else node_get n key'))"

lemma inserted_end: "v \<noteq> [] \<Longrightarrow> inserted n [] v (ValueNode v)"
  by (simp add: inserted_def node_ok_def)

lemma insertedI:
  assumes "wf_node n'"
    and "\<And>d k. keyrest (d # k) \<Longrightarrow> node_get n' (d # k) = (if d # k = c # key then Ok v else node_get n (d # k))"
  shows "inserted n (c # key) v n'"
  unfolding inserted_def
proof (intro conjI allI impI)
  show "n' \<noteq> NilNode" "node_ok (c # key) n'" using assms(1) by (auto simp: node_ok_def)
  fix key' assume "keyrest key'" "(key' = []) = (c # key = [])"
  then show "node_get n' key' = (if key' = c # key then Ok v else node_get n key')"
    using assms(2) by (cases key') auto
qed

lemma keyrest_prefix: "hexkey a \<Longrightarrow> keyrest (a @ b) \<Longrightarrow> b = []"
  by (auto simp: keyrest_def dest: hexkey_prefix)

lemma inserted_nil:
  assumes "v \<noteq> []" "hexkey (c # key)"
  shows "inserted NilNode (c # key) v (insert_nil (c # key) (ValueNode v))"
proof (rule insertedI)
  show "wf_node (insert_nil (c # key) (ValueNode v))" using assms by (simp add: insert_nil_def)
  fix d k assume "keyrest (d # k)"
  then have "d # k = (c # key) @ r \<Longrightarrow> r = []" for r using keyrest_prefix [OF assms(2), of r] by simp
  then show "node_get (insert_nil (c # key) (ValueNode v)) (d # k) =
      (if d # k = c # key then Ok v else node_get NilNode (d # k))"
    by (auto simp: get_insert_nil)
qed

lemma inserted_full:
  assumes wf: "wf_node (FullNode cs f)" and key: "keyrest (c # key)"
    and ins: "inserted (cs ! unat c) key v n'"
  shows "inserted (FullNode cs f) (c # key) v (FullNode (cs[unat c := n']) dirty)"
proof -
  have len: "length cs = 17" "unat c < 17" and ok: "\<forall>i<17. slot_ok i (cs ! i)"
    using wf key by (auto simp: wf_full keyrest_Cons)
  have n': "slot_ok (unat c) n'" "n' \<noteq> NilNode"
    using ins slot_node_ok [OF key] by (auto simp: inserted_def)
  obtain i j where ij: "i \<noteq> j" "i < 17" "j < 17" "cs ! i \<noteq> NilNode" "cs ! j \<noteq> NilNode"
    using wf len by (auto simp: wf_full two_present)
  have "2 \<le> length (present (cs[unat c := n']))"
    unfolding two_present using ij len n' by (intro exI [of _ i] exI [of _ j]) (simp add: nth_list_update)
  moreover have "\<forall>i<17. slot_ok i (cs[unat c := n'] ! i)"
    using ok n' len by (simp add: nth_list_update)
  ultimately have "wf_node (FullNode (cs[unat c := n']) dirty)" using len by (simp add: wf_full)
  moreover have "node_get (FullNode (cs[unat c := n']) dirty) (d # k) =
      (if d # k = c # key then Ok v else node_get (FullNode cs f) (d # k))" if "keyrest (d # k)" for d k
  proof (cases "d = c")
    case True
    then have "keyrest k" "(k = []) = (key = [])" using that key by (auto simp: keyrest_Cons)
    then show ?thesis using True len ins by (simp add: inserted_def)
  next
    case False
    then show ?thesis using that len by (simp add: keyrest_Cons word_unat_eq_iff)
  qed
  ultimately show ?thesis by (rule insertedI)
qed

text \<open>Descending through a short node whose key is matched.\<close>

lemma inserted_extension:
  assumes k: "nibbles k" "k \<noteq> []" and nn: "is_full nn" and r: "hexkey r"
    and ins: "inserted n r v nn"
  shows "inserted (ShortNode k n f) (k @ r) v (ShortNode k nn dirty)"
proof -
  obtain c key where key: "k @ r = c # key" using k(2) by (cases k) auto
  have wf: "wf_node (ShortNode k nn dirty)"
    using ins k nn hexkey_nonempty [OF r] by (auto simp: inserted_def node_ok_def)
  have "inserted (ShortNode k n f) (c # key) v (ShortNode k nn dirty)"
  proof (rule insertedI [OF wf])
    fix d q assume q: "keyrest (d # q)"
    show "node_get (ShortNode k nn dirty) (d # q) =
      (if d # q = c # key then Ok v else node_get (ShortNode k n f) (d # q))"
    proof (cases "\<exists>r'. d # q = k @ r'")
      case True
      then obtain r' where r': "d # q = k @ r'" by blast
      then have "hexkey r'" using q k hexkey_append [of k r'] by (auto simp: keyrest_def)
      then have "keyrest r'" "(r' = []) = (r = [])" using hexkey_nonempty r by (auto simp: keyrest_def)
      then show ?thesis using r' ins key [symmetric] by (auto simp: get_short inserted_def)
    next
      case False
      then show ?thesis using key [symmetric] by (auto simp: get_short)
    qed
  qed
  then show ?thesis using key by simp
qed

lemma inserted_leaf:
  assumes "hexkey k" "v \<noteq> []"
  shows "inserted (ShortNode k n f) k v (ShortNode k (ValueNode v) dirty)"
proof -
  obtain c key where key: "k = c # key" using hexkey_nonempty [OF assms(1)] by (cases k) auto
  have "inserted (ShortNode k n f) (c # key) v (ShortNode k (ValueNode v) dirty)"
  proof (rule insertedI)
    show "wf_node (ShortNode k (ValueNode v) dirty)" using assms by simp
    fix d q assume "keyrest (d # q)"
    then have "d # q = k @ r \<Longrightarrow> r = []" for r using keyrest_prefix [OF assms(1), of r] by simp
    then show "node_get (ShortNode k (ValueNode v) dirty) (d # q) =
        (if d # q = c # key then Ok v else node_get (ShortNode k n f) (d # q))"
      using key by (auto simp: get_short)
  qed
  then show ?thesis using key by simp
qed

text \<open>Splitting a short node below the common prefix \<open>p\<close>.\<close>

lemma short_prefix: "wf_node (ShortNode (p @ y # k) n f) \<Longrightarrow>
   nibbles p \<and> unat y < 17 \<and> slot_ok (unat y) (insert_nil k n) \<and> insert_nil k n \<noteq> NilNode"
proof (induction p)
  case Nil
  then show ?case
    by (auto simp: slot_ok_def insert_nil_def hexkey_Cons dest: hexkey_nonempty)
next
  case (Cons a p)
  then show ?case by (cases p) (auto simp: hexkey_Cons)
qed

lemma get_split:
  assumes q: "keyrest (d # q)" and xy: "unat x < 17" "unat y < 17" "x \<noteq> y" and p: "nibbles p"
    and keys: "keyrest (p @ x # ks)"
  shows "(if \<exists>r. d # q = p @ r then node_get (fork y (insert_nil k n) x (insert_nil ks (ValueNode v)))
            (drop (length p) (d # q)) else Err ErrNotFound) =
    (if d # q = p @ x # ks then Ok v else node_get (ShortNode (p @ y # k) n f) (d # q))"
proof (cases "\<exists>r. d # q = p @ r")
  case True
  then obtain r where r: "d # q = p @ r" by blast
  then have "hexkey r" using q p hexkey_append [of p r] by (auto simp: keyrest_def)
  then obtain c s where s: "r = c # s" "unat c < 17" "keyrest (c # s)"
    using hexkey_nonempty by (cases r) (auto simp: keyrest_def keyrest_Cons hexkey_Cons)
  have "hexkey (x # ks)" using keys p hexkey_append [of p "x # ks"] by (auto simp: keyrest_def)
  then have "c # s = x # ks @ t \<Longrightarrow> t = []" for t
    using keyrest_prefix [of "x # ks" t] s(3) by simp
  then show ?thesis
    using r s xy by (auto simp: get_fork get_insert_nil get_short)
next
  case False
  then show ?thesis by (auto simp: get_short)
qed

lemma inserted_split:
  assumes wf: "wf_node (ShortNode (p @ y # k) n f)" and keys: "keyrest (p @ x # ks)" and xy: "x \<noteq> y"
    and v: "v \<noteq> []"
  defines "branch \<equiv> fork y (insert_nil k n) x (insert_nil ks (ValueNode v))"
  shows "inserted (ShortNode (p @ y # k) n f) (p @ x # ks) v
    (if length p > 0 then ShortNode p branch dirty else branch)"
proof -
  have sp: "nibbles p" "unat y < 17" "slot_ok (unat y) (insert_nil k n)" "insert_nil k n \<noteq> NilNode"
    using short_prefix [OF wf] by auto
  have x: "keyrest (x # ks)" using keys sp(1) hexkey_append [of p "x # ks"] by (auto simp: keyrest_def)
  then have x17: "unat x < 17" by (simp add: keyrest_Cons)
  have "node_ok ks (insert_nil ks (ValueNode v))" "insert_nil ks (ValueNode v) \<noteq> NilNode"
    using x v by (auto simp: node_ok_def insert_nil_def keyrest_def hexkey_Cons)
  then have wfb: "wf_node branch"
    unfolding branch_def using sp xy x17 slot_node_ok [OF x] by (intro wf_fork) auto
  obtain c key where key: "p @ x # ks = c # key" by (cases p) auto
  have "inserted (ShortNode (p @ y # k) n f) (c # key) v (if length p > 0 then ShortNode p branch dirty else branch)"
  proof (rule insertedI)
    show "wf_node (if length p > 0 then ShortNode p branch dirty else branch)"
      using wfb sp(1) by (simp add: branch_def fork_def)
    fix d q assume q: "keyrest (d # q)"
    have g: "node_get (if length p > 0 then ShortNode p branch dirty else branch) (d # q) =
        (if \<exists>r. d # q = p @ r then node_get branch (drop (length p) (d # q)) else Err ErrNotFound)"
      by (cases "p = []") (simp_all add: get_short)
    show "node_get (if length p > 0 then ShortNode p branch dirty else branch) (d # q) =
        (if d # q = c # key then Ok v else node_get (ShortNode (p @ y # k) n f) (d # q))"
      unfolding g
      unfolding branch_def key [symmetric] by (rule get_split [OF q x17 sp(2) xy sp(1) keys])
  qed
  then show ?thesis using key by simp
qed

lemma insert_full_full: "is_full n \<Longrightarrow> node_insert n (c # key) val = Ok n' \<Longrightarrow> is_full n'"
  by (cases n) (auto simp: map_ok_Ok_iff split: if_splits)

lemma node_insert_spec:
  "\<lbrakk>keyrest key; node_ok key n; v \<noteq> []\<rbrakk> \<Longrightarrow>
     \<exists>n'. node_insert n key (ValueNode v) = Ok n' \<and> inserted n key v n'"
proof (induction n key "ValueNode v" rule: node_insert.induct)
  case (1 n)
  have "node_insert n [] (ValueNode v) = Ok (ValueNode v)" by (cases n) auto
  then show ?case using inserted_end [OF 1(3)] by blast
next
  case (2 c key)
  then show ?case using inserted_nil [of v c key] by (auto simp: keyrest_def)
next
  case (3 k n f c key)
  have wf: "wf_node (ShortNode k n f)" using 3(3) by (simp add: node_ok_def)
  have hk: "hexkey (c # key)" using 3(2) by (simp add: keyrest_def)
  obtain p a b where split: "c # key = p @ a" "k = p @ b" "prefixLen (c # key) k = length p"
    "a = [] \<or> b = [] \<or> hd a \<noteq> hd b" by (rule prefixLen_split)
  show ?case
  proof (cases "b = []")
    case True
    then have k: "p = k" "c # key = k @ a" "prefixLen (c # key) k = length k" using split by auto
    show ?thesis
    proof (cases "hexkey k")
      case True
      then have "a = []" using hexkey_prefix hk k(2) by metis
      then have "node_insert (ShortNode k n f) (c # key) (ValueNode v) = Ok (ShortNode k (ValueNode v) dirty)"
        using k by (cases n) auto
      then show ?thesis using inserted_leaf [OF True 3(4)] k \<open>a = []\<close> by auto
    next
      case False
      then have ext: "nibbles k" "k \<noteq> []" "is_full n" "wf_node n" using wf by auto
      then have a: "hexkey a" using hk k(2) hexkey_append by metis
      then obtain c' a' where a': "a = c' # a'" using hexkey_nonempty by (cases a) auto
      obtain nn where nn: "node_insert n a (ValueNode v) = Ok nn" "inserted n a v nn"
        using 3(1) [OF refl] k a a' ext 3(4) by (auto simp: keyrest_def node_ok_def)
      have "is_full nn" using insert_full_full ext(3) nn(1) a' by blast
      then have "inserted (ShortNode k n f) (c # key) v (ShortNode k nn dirty)"
        using inserted_extension [OF ext(1,2) _ a nn(2)] k(2) by simp
      moreover have "node_insert (ShortNode k n f) (c # key) (ValueNode v) = Ok (ShortNode k nn dirty)"
        unfolding node_insert.simps(3) Let_def k(3) using k(2) nn(1) by simp
      ultimately show ?thesis by blast
    qed
  next
    case False
    then obtain y k' where b: "b = y # k'" by (cases b) auto
    have "a \<noteq> []"
    proof
      assume "a = []"
      then have "k = (c # key) @ b" using split by simp
      then show False using wf hexkey_prefix [OF hk, of b] hexkey_prefix_nibbles [OF hk, of b] b by auto
    qed
    then obtain x ks where a: "a = x # ks" by (cases a) auto
    have xy: "x \<noteq> y" using split(4) a b by simp
    have wf': "wf_node (ShortNode (p @ y # k') n f)" using wf split(2) b by simp
    have keys: "keyrest (p @ x # ks)" using 3(2) split(1) a by simp
    have lt: "unat y < 17" "unat x < 17"
      using short_prefix [OF wf'] keys hexkey_append [of p "x # ks"]
      by (auto simp: keyrest_def hexkey_Cons)
    have parts: "(c # key) ! length p = x" "k ! length p = y" "take (length p) (c # key) = p"
      "drop (Suc (length p)) (c # key) = ks" "drop (Suc (length p)) k = k'" "length p < length (c # key)"
      "length p \<noteq> length k"
      unfolding split(1) split(2) a b by simp_all
    have "node_insert (ShortNode k n f) (c # key) (ValueNode v) =
      Ok (if length p > 0 then ShortNode p (fork y (insert_nil k' n) x (insert_nil ks (ValueNode v))) dirty
          else fork y (insert_nil k' n) x (insert_nil ks (ValueNode v)))"
      unfolding node_insert.simps(3) Let_def split(3) parts fork_def using lt parts(6,7) by simp
    then show ?thesis
      using inserted_split [OF wf' keys xy 3(4)] unfolding split(1) split(2) a b by blast
  qed
next
  case (4 cs f c key)
  have wf: "wf_node (FullNode cs f)" using 4(3) by (simp add: node_ok_def)
  have c: "unat c < length cs" "slot_ok (unat c) (cs ! unat c)" "keyrest key"
    using wf 4(2) by (auto simp: wf_full keyrest_Cons)
  then have "node_ok key (cs ! unat c)" using slot_node_ok [OF 4(2)] by simp
  then obtain n' where "node_insert (cs ! unat c) key (ValueNode v) = Ok n'" "inserted (cs ! unat c) key v n'"
    using 4(1) c 4(4) by blast
  then show ?case using inserted_full [OF wf 4(2)] c(1) by auto
qed (auto simp: node_ok_def)

section \<open>Deletion\<close>

text \<open>The result of deleting \<open>key\<close> from \<open>n\<close>.\<close>

definition same_get :: "node \<Rightarrow> node \<Rightarrow> bool" where
  "same_get n n' \<longleftrightarrow> (\<forall>key. hexkey key \<longrightarrow> node_get n' key = node_get n key)"

definition deleted :: "node \<Rightarrow> bytes \<Rightarrow> node \<Rightarrow> bool" where
  "deleted n key n' \<longleftrightarrow> node_ok key n' \<and>
     (\<forall>key'. keyrest key' \<longrightarrow> (key' = [] \<longleftrightarrow> key = []) \<longrightarrow>
        node_get n' key' = (if key' = key then Err ErrNotFound else node_get n key'))"

lemma deleted_same_get:
  "deleted n key m \<Longrightarrow> same_get m n' \<Longrightarrow> node_ok key n' \<Longrightarrow> key \<noteq> [] \<Longrightarrow> deleted n key n'"
  by (auto simp: deleted_def same_get_def keyrest_def)

lemma nibble_of_nat: "i < 17 \<Longrightarrow> unat (of_nat i :: byte) = i"
  by (simp add: unat_of_nat_byte)

lemma nibble_eq: "i < 17 \<Longrightarrow> (of_nat i :: byte) = c \<longleftrightarrow> i = unat c"
  by (auto simp: nibble_of_nat)

lemma nibble_16: "(of_nat 16 :: byte) = terminatorByte"
  by (simp add: terminatorByte_def)

lemma present_set: "set (present cs) = {i. i < length cs \<and> cs ! i \<noteq> NilNode}"
  by (auto simp: present_def)

text \<open>A branch with one child, as a short node.\<close>

lemma collapse_one:
  assumes i: "i < 17" and child: "slot_ok i n" "n \<noteq> NilNode"
  defines "s \<equiv> (if i = 16 then ShortNode [terminatorByte] n dirty
    else case n of ShortNode k v f \<Rightarrow> ShortNode (of_nat i # k) v dirty | _ \<Rightarrow> ShortNode [of_nat i] n dirty)"
  shows "wf_node s \<and> (\<forall>c key. hexkey (c # key) \<longrightarrow>
    node_get s (c # key) = (if unat c = i then node_get n key else Err ErrNotFound))"
proof (cases "i = 16")
  case True
  then have "is_value n" using child by (simp add: slot_ok_def)
  moreover have "(c = terminatorByte) = (unat c = 16)" for c by (simp add: word_unat_eq_iff)
  ultimately show ?thesis
    using True by (auto simp: s_def get_short hexkey_def)
next
  case False
  then have i16: "i < 16" "wf_node n" using i child by (auto simp: slot_ok_def)
  have u: "unat (of_nat i :: byte) = i" using i by (rule nibble_of_nat)
  show ?thesis
  proof (cases n)
    case (ShortNode k v f)
    then show ?thesis using False i16 u by (auto simp: s_def get_short hexkey_Cons)
  next
    case (FullNode cs f)
    then show ?thesis using False i16 u by (auto simp: s_def get_short)
  qed (use i16 in auto)
qed

lemma collapse_spec:
  assumes len: "length cs = 17" and ok: "\<forall>i<17. slot_ok i (cs ! i)"
  shows "(collapse cs = NilNode \<or> wf_node (collapse cs)) \<and> same_get (FullNode cs f) (collapse cs)"
proof -
  have get: "node_get (FullNode cs f) (c # key) = node_get (cs ! unat c) key" if "hexkey (c # key)" for c key
    using that len by (auto simp: hexkey_Cons)
  have lt: "unat c < 17" if "hexkey (c # key)" for c key using that by (auto simp: hexkey_Cons)
  have all: "hexkey key \<Longrightarrow> \<exists>c r. key = c # r" for key using hexkey_nonempty by (cases key) auto
  consider (none) "present cs = []" | (one) i where "present cs = [i]" | (more) i j js where "present cs = i # j # js"
    by (cases "present cs"; cases "tl (present cs)") auto
  then show ?thesis
  proof cases
    case none
    then have "cs ! unat c = NilNode" if "hexkey (c # key)" for c key
      using lt [OF that] len present_set [of cs] by auto
    then show ?thesis using none all get by (fastforce simp: collapse_def present_def [symmetric] same_get_def)
  next
    case one
    have i: "i < 17" "cs ! i \<noteq> NilNode" using present_set [of cs] one len by auto
    have other: "cs ! j = NilNode" if "j < 17" "j \<noteq> i" for j
      using present_set [of cs] one len that by (metis (mono_tags, lifting) mem_Collect_eq list.set(1,2) singletonD)
    note c1 = collapse_one [OF i(1) ok [rule_format, OF i(1)] i(2)]
    have e: "collapse cs = (if i = 16 then ShortNode [terminatorByte] (cs ! i) dirty
        else case cs ! i of ShortNode k v f \<Rightarrow> ShortNode (of_nat i # k) v dirty | _ \<Rightarrow> ShortNode [of_nat i] (cs ! i) dirty)"
      using one by (auto simp: collapse_def present_def [symmetric] split: node.split)
    note c1' = c1 [folded e]
    have "node_get (collapse cs) key = node_get (FullNode cs f) key" if hk: "hexkey key" for key
    proof -
      obtain c r where key: "key = c # r" using all hk by blast
      then have c: "hexkey (c # r)" using hk by simp
      have "node_get (collapse cs) (c # r) = (if unat c = i then node_get (cs ! i) r else Err ErrNotFound)"
        using c1' c by blast
      then show ?thesis unfolding key get [OF c] using lt [OF c] other [of "unat c"] by simp
    qed
    then show ?thesis using c1' by (simp add: same_get_def)
  next
    case more
    then have "collapse cs = FullNode cs dirty" by (simp add: collapse_def present_def [symmetric])
    moreover have "same_get (FullNode cs f) (FullNode cs dirty)"
      using all get by (fastforce simp: same_get_def)
    ultimately show ?thesis using more len ok by (simp add: wf_full)
  qed
qed

lemma merge_short_spec:
  assumes "nibbles k" "k \<noteq> []" "child = NilNode \<or> wf_node child"
  shows "(merge_short k child = NilNode \<or> wf_node (merge_short k child)) \<and>
    same_get (ShortNode k child f) (merge_short k child)"
proof (cases child)
  case NilNode
  then show ?thesis by (auto simp: merge_short_def same_get_def get_short)
next
  case (ShortNode k' v g)
  then have "wf_node (ShortNode (k @ k') v dirty)" using assms hexkey_append by auto
  moreover have "node_get (ShortNode (k @ k') v dirty) key = node_get (ShortNode k child f) key" for key
    unfolding ShortNode by (auto simp: get_short)
  ultimately show ?thesis by (simp add: merge_short_def ShortNode same_get_def)
next
  case (FullNode cs g)
  then show ?thesis using assms by (auto simp: merge_short_def same_get_def get_short)
qed (use assms in auto)

lemma deleted_full:
  assumes wf: "wf_node (FullNode cs f)" and key: "hexkey (c # key)" and del: "deleted (cs ! unat c) key m"
  shows "deleted (FullNode cs f) (c # key) (collapse (cs[unat c := m]))"
proof -
  have len: "length cs = 17" "unat c < 17" and ok: "\<forall>i<17. slot_ok i (cs ! i)"
    using wf key by (auto simp: wf_full hexkey_Cons)
  have kr: "keyrest (c # key)" using key by (simp add: keyrest_def)
  have "slot_ok (unat c) m" using del slot_node_ok [OF kr] by (simp add: deleted_def)
  then have ok': "\<forall>i<17. slot_ok i (cs[unat c := m] ! i)" using ok len by (simp add: nth_list_update)
  have spec: "collapse (cs[unat c := m]) = NilNode \<or> wf_node (collapse (cs[unat c := m]))"
    "same_get (FullNode (cs[unat c := m]) dirty) (collapse (cs[unat c := m]))"
    using collapse_spec [of "cs[unat c := m]" dirty] ok' len by auto
  have "node_get (FullNode (cs[unat c := m]) dirty) (d # k) =
      (if d # k = c # key then Err ErrNotFound else node_get (FullNode cs f) (d # k))" if "hexkey (d # k)" for d k
  proof (cases "d = c")
    case True
    then have "keyrest k" "(k = []) = (key = [])" using that key by (auto simp: keyrest_def hexkey_Cons)
    then show ?thesis using True len del by (simp add: deleted_def)
  next
    case False
    then have "unat d \<noteq> unat c" "unat d < 17" using that by (auto simp: word_unat_eq_iff hexkey_Cons)
    then show ?thesis using False len by simp
  qed
  then have "\<And>q. hexkey q \<Longrightarrow> node_get (collapse (cs[unat c := m])) q =
      (if q = c # key then Err ErrNotFound else node_get (FullNode cs f) q)"
    using spec(2) unfolding same_get_def by (metis hexkey_nonempty list.exhaust)
  then show ?thesis using spec(1) by (auto simp: deleted_def node_ok_def keyrest_def)
qed

lemma node_delete_spec:
  "\<lbrakk>keyrest key; node_ok key n\<rbrakk> \<Longrightarrow> \<exists>n'. node_delete n key = Ok n' \<and> deleted n key n'"
proof (induction n key rule: node_delete.induct)
  case (1 key)
  then show ?case by (auto simp: deleted_def node_ok_def)
next
  case (2 k n f key)
  have hk: "hexkey key" and wf: "wf_node (ShortNode k n f)"
    using 2(2,3) by (auto simp: node_ok_def keyrest_def split: if_splits)
  obtain p a b where split: "key = p @ a" "k = p @ b" "prefixLen key k = length p"
    "a = [] \<or> b = [] \<or> hd a \<noteq> hd b" by (rule prefixLen_split)
  show ?case
  proof (cases "b = []")
    case False
    have "node_get (ShortNode k n f) key = Err ErrNotFound"
    proof -
      have "\<not> (\<exists>r. key = k @ r)" using split False by auto
      then show ?thesis by (simp add: get_short)
    qed
    moreover have "node_delete (ShortNode k n f) key = Ok (ShortNode k n f)"
      using split False by (cases b) auto
    ultimately show ?thesis using 2(3) by (auto simp: deleted_def)
  next
    case True
    then have k: "key = k @ a" "prefixLen key k = length k" using split by auto
    show ?thesis
    proof (cases "hexkey k")
      case True
      then have "a = []" using hexkey_prefix hk k(1) by metis
      then have "node_delete (ShortNode k n f) key = Ok NilNode" using k by simp
      moreover have "keyrest (k @ r) \<Longrightarrow> r = []" for r using keyrest_prefix [OF True] .
      then have "deleted (ShortNode k n f) key NilNode"
        using k \<open>a = []\<close> by (auto simp: deleted_def node_ok_def get_short)
      ultimately show ?thesis by blast
    next
      case False
      then have ext: "nibbles k" "k \<noteq> []" "is_full n" "wf_node n" using wf by auto
      then have a: "hexkey a" using hk k(1) hexkey_append by metis
      then have a': "a \<noteq> []" by (rule hexkey_nonempty)
      obtain m where m: "node_delete n a = Ok m" "deleted n a m"
        using 2(1) [OF refl] k a a' ext by (auto simp: keyrest_def node_ok_def)
      have "m = NilNode \<or> wf_node m" using m(2) a' by (auto simp: deleted_def node_ok_def)
      note ms = merge_short_spec [OF ext(1,2) this, of f]
      have "node_get (ShortNode k m f) q = (if q = key then Err ErrNotFound else node_get (ShortNode k n f) q)"
        if q: "hexkey q" for q
      proof (cases "\<exists>r. q = k @ r")
        case True
        then obtain r where r: "q = k @ r" by blast
        then have "hexkey r" using q ext(1) hexkey_append by metis
        then show ?thesis using r k m(2) a' hexkey_nonempty [of r] by (auto simp: get_short deleted_def keyrest_def)
      next
        case False
        then show ?thesis by (simp add: get_short)
      qed
      then have "deleted (ShortNode k n f) key (merge_short k m)"
        using ms hk hexkey_nonempty [OF hk] by (auto simp: deleted_def same_get_def node_ok_def keyrest_def)
      moreover have "node_delete (ShortNode k n f) key = Ok (merge_short k m)"
        using k m(1) a' by simp
      ultimately show ?thesis by blast
    qed
  qed
next
  case (4 cs f c key)
  have wf: "wf_node (FullNode cs f)" and hk: "hexkey (c # key)"
    using 4(2,3) by (auto simp: node_ok_def keyrest_def)
  have c: "unat c < length cs" "slot_ok (unat c) (cs ! unat c)" "keyrest key"
    using wf 4(2) by (auto simp: wf_full keyrest_Cons)
  then have "node_ok key (cs ! unat c)" using slot_node_ok [OF 4(2)] by simp
  then obtain m where "node_delete (cs ! unat c) key = Ok m" "deleted (cs ! unat c) key m"
    using 4(1) c by blast
  then show ?case using deleted_full [OF wf hk] c(1) by auto
next
  case (5 v key)
  then show ?case by (auto simp: deleted_def node_ok_def keyrest_def split: if_splits)
qed (auto simp: node_ok_def split: if_splits)

section \<open>The canonical trie of a map is unique\<close>

definition has_key :: "node \<Rightarrow> bytes \<Rightarrow> bool" where
  "has_key n key \<longleftrightarrow> (\<exists>v. node_get n key = Ok v)"

lemma has_key_nil [simp]: "\<not> has_key NilNode key"
  by (simp add: has_key_def)

lemma has_key_short: "has_key (ShortNode k v f) key \<longleftrightarrow> (\<exists>r. key = k @ r \<and> has_key v r)"
  by (auto simp: has_key_def get_short)

lemma is_value_key: "is_value n \<Longrightarrow> has_key n []"
  by (cases n) (auto simp: has_key_def)

lemma wf_has_key: "wf_node n \<Longrightarrow> \<exists>key. hexkey key \<and> has_key n key"
proof (induction n)
  case (ShortNode k v f)
  then consider "nibbles k" "wf_node v" | "hexkey k" "is_value v" by auto
  then show ?case
  proof cases
    case 1
    then obtain key where "hexkey key" "has_key v key" using ShortNode.IH by blast
    then show ?thesis using 1(1) hexkey_append by (auto simp: has_key_short)
  next
    case 2
    then show ?thesis using is_value_key by (auto simp: has_key_short)
  qed
next
  case (FullNode cs f)
  then obtain i where i: "i < 17" "cs ! i \<noteq> NilNode" "slot_ok i (cs ! i)" "length cs = 17"
    by (auto simp: wf_full two_present)
  show ?case
  proof (cases "i = 16")
    case True
    then have "has_key (cs ! 16) []" using i is_value_key by (simp add: slot_ok_def)
    then have "has_key (FullNode cs f) [terminatorByte]" using i by (simp add: has_key_def)
    then show ?thesis using hexkey_Cons by blast
  next
    case False
    then obtain key where "hexkey key" "has_key (cs ! i) key"
      using i FullNode.IH [of "cs ! i"] by (auto simp: slot_ok_def)
    then have "hexkey (of_nat i # key)" "has_key (FullNode cs f) (of_nat i # key)"
      using i False by (auto simp: has_key_def hexkey_Cons nibble_of_nat)
    then show ?thesis by blast
  qed
qed auto

lemma slot_has_key:
  assumes "slot_ok (unat c) n" "n \<noteq> NilNode" "unat c < 17"
  shows "\<exists>key. hexkey (c # key) \<and> has_key n key"
proof (cases "unat c = 16")
  case True
  then have "c = terminatorByte" by (simp add: word_unat_eq_iff)
  then show ?thesis using True assms is_value_key by (auto simp: slot_ok_def hexkey_Cons)
next
  case False
  then show ?thesis using assms wf_has_key [of n] by (auto simp: slot_ok_def hexkey_Cons)
qed

text \<open>Below a branch two keys differ in their first nibble; below a short node none do.\<close>

lemma full_two_keys:
  assumes "wf_node (FullNode cs f)"
  obtains c k d l where "c \<noteq> d" "hexkey (c # k)" "has_key (FullNode cs f) (c # k)"
    "hexkey (d # l)" "has_key (FullNode cs f) (d # l)"
proof -
  obtain i j where ij: "i \<noteq> j" "i < 17" "j < 17" "cs ! i \<noteq> NilNode" "cs ! j \<noteq> NilNode"
    "slot_ok i (cs ! i)" "slot_ok j (cs ! j)" "length cs = 17"
    using assms by (auto simp: wf_full two_present)
  let ?c = "of_nat i :: byte" and ?d = "of_nat j :: byte"
  have u: "unat ?c = i" "unat ?d = j" using ij nibble_of_nat by blast+
  obtain k l where "hexkey (?c # k)" "has_key (cs ! i) k" "hexkey (?d # l)" "has_key (cs ! j) l"
    using slot_has_key [of ?c "cs ! i"] slot_has_key [of ?d "cs ! j"] ij u by auto
  moreover have "?c \<noteq> ?d" using u ij(1) by metis
  ultimately show thesis using that [of ?c ?d k l] u ij by (simp add: has_key_def)
qed

lemma same_get_has_key: "same_get n m \<Longrightarrow> hexkey key \<Longrightarrow> has_key m key = has_key n key"
  by (simp add: same_get_def has_key_def)

lemma short_full_differ:
  assumes "wf_node (ShortNode k v f)" "wf_node (FullNode cs g)"
    "\<And>key. hexkey key \<Longrightarrow> has_key (ShortNode k v f) key = has_key (FullNode cs g) key"
  shows False
proof -
  obtain c q d l where cd: "c \<noteq> d" "hexkey (c # q)" "has_key (FullNode cs g) (c # q)"
    "hexkey (d # l)" "has_key (FullNode cs g) (d # l)" using full_two_keys [OF assms(2)] by metis
  have "has_key (ShortNode k v f) (c # q)" "has_key (ShortNode k v f) (d # l)"
    using assms(3) [OF cd(2)] assms(3) [OF cd(4)] cd(3,5) by blast+
  moreover have "k \<noteq> []" using assms(1) by auto
  ultimately show False using cd(1) by (cases k) (auto simp: has_key_short)
qed

lemma short_key_prefix:
  assumes wf: "wf_node (ShortNode k v f)" "wf_node (ShortNode (k @ x # t) w g)"
    and same: "\<And>key. hexkey key \<Longrightarrow> has_key (ShortNode k v f) key = has_key (ShortNode (k @ x # t) w g) key"
  shows False
proof (cases "hexkey k")
  case True
  have "\<not> nibbles (k @ x # t)" "\<not> hexkey (k @ x # t)"
    using hexkey_prefix [OF True, of "x # t"] hexkey_prefix_nibbles [OF True, of "x # t"] by blast+
  then show False using wf(2) unfolding wf_node.simps by blast
next
  case False
  then have k: "nibbles k" "is_full v" "wf_node v" using wf(1) by auto
  then obtain cs h where v: "v = FullNode cs h" by (cases v) auto
  obtain c q d l where cd: "c \<noteq> d" "hexkey (c # q)" "has_key v (c # q)" "hexkey (d # l)" "has_key v (d # l)"
    using full_two_keys [OF k(3) [unfolded v]] unfolding v by metis
  have hk: "hexkey (k @ c # q)" "hexkey (k @ d # l)" by (simp_all only: hexkey_append [OF k(1)] cd)
  have "has_key (ShortNode k v f) (k @ c # q)" "has_key (ShortNode k v f) (k @ d # l)"
    unfolding has_key_short using cd(3,5) by blast+
  then have "has_key (ShortNode (k @ x # t) w g) (k @ c # q)" "has_key (ShortNode (k @ x # t) w g) (k @ d # l)"
    using same [OF hk(1)] same [OF hk(2)] by blast+
  then show False using cd(1) by (auto simp: has_key_short)
qed

lemma short_same_key:
  assumes wf: "wf_node (ShortNode k v f)" "wf_node (ShortNode k' w g)"
    and same: "\<And>key. hexkey key \<Longrightarrow> has_key (ShortNode k v f) key = has_key (ShortNode k' w g) key"
  shows "k = k'"
proof -
  obtain key where key: "hexkey key" "has_key (ShortNode k v f) key" using wf_has_key [OF wf(1)] by blast
  then have "has_key (ShortNode k' w g) key" using same by blast
  then obtain r r' where "key = k @ r" "key = k' @ r'" using key(2) by (auto simp: has_key_short)
  then obtain t where t: "k = k' @ t \<or> k' = k @ t" by (auto simp: append_eq_append_conv2)
  show ?thesis
  proof (cases t)
    case Nil
    then show ?thesis using t by auto
  next
    case (Cons x t')
    have "k \<noteq> k' @ x # t'" using short_key_prefix [OF wf(2), of x t' v f] wf(1) same by blast
    moreover have "k' \<noteq> k @ x # t'" using short_key_prefix [OF wf(1), of x t' w g] wf(2) same by blast
    ultimately show ?thesis using t Cons by simp
  qed
qed

lemma same_get_short:
  assumes "same_get (ShortNode k v f) (ShortNode k w g)" "nibbles k"
  shows "same_get v w"
  unfolding same_get_def
proof (intro allI impI)
  fix key assume "hexkey key"
  then have "hexkey (k @ key)" using assms(2) hexkey_append by simp
  then have "node_get (ShortNode k w g) (k @ key) = node_get (ShortNode k v f) (k @ key)"
    using assms(1) by (simp add: same_get_def)
  then show "node_get w key = node_get v key" by (simp add: get_short)
qed

lemma same_get_child:
  assumes "same_get (FullNode cs f) (FullNode ds g)" "length cs = 17" "length ds = 17" "hexkey (c # key)"
  shows "node_get (ds ! unat c) key = node_get (cs ! unat c) key"
proof -
  have "unat c < 17" using assms(4) by (auto simp: hexkey_Cons)
  then show ?thesis using assms(1) [unfolded same_get_def, rule_format, OF assms(4)] assms(2,3) by simp
qed

lemma is_value_unique:
  "is_value n \<Longrightarrow> is_value m \<Longrightarrow> node_get n [] = node_get m [] \<Longrightarrow> cloneNode n = cloneNode m"
  by (cases n; cases m) auto

lemma wf_unique:
  "\<lbrakk>wf_node n; wf_node m; same_get n m\<rbrakk> \<Longrightarrow> cloneNode n = cloneNode m"
proof (induction n arbitrary: m)
  case (ShortNode k v f)
  have same: "has_key (ShortNode k v f) key = has_key m key" if "hexkey key" for key
    using same_get_has_key [OF ShortNode.prems(3) that] by simp
  have "\<not> (\<exists>cs h. m = FullNode cs h)"
    using ShortNode.prems(2) short_full_differ [OF ShortNode.prems(1)] same by blast
  then obtain k' w g where m: "m = ShortNode k' w g" using ShortNode.prems(2) by (cases m) auto
  have k: "k = k'" using short_same_key ShortNode.prems(1,2) same unfolding m by blast
  show ?case
  proof (cases "hexkey k")
    case True
    then have "\<not> nibbles k" using hexkey_prefix_nibbles [of k "[]"] by simp
    then have v: "is_value v" "is_value w" using ShortNode.prems(1,2) m k by auto
    have "node_get m k = node_get (ShortNode k v f) k"
      using ShortNode.prems(3) True by (simp add: same_get_def)
    then have "node_get v [] = node_get w []" by (simp add: m k get_short)
    then have "cloneNode v = cloneNode w" using is_value_unique [OF v] by blast
    then show ?thesis using m k by simp
  next
    case False
    then have vw: "nibbles k" "wf_node v" "wf_node w" using ShortNode.prems(1,2) m k by auto
    have "same_get (ShortNode k v f) (ShortNode k w g)" using ShortNode.prems(3) m k by simp
    then have "cloneNode v = cloneNode w" using ShortNode.IH vw same_get_short by blast
    then show ?thesis using m k by simp
  qed
next
  case (FullNode cs f)
  have "\<not> (\<exists>k v h. m = ShortNode k v h)"
    using FullNode.prems(2) same_get_has_key [OF FullNode.prems(3)] short_full_differ [OF _ FullNode.prems(1)]
    by blast
  then obtain ds g where m: "m = FullNode ds g" using FullNode.prems(2) by (cases m) auto
  have len: "length cs = 17" "length ds = 17" using FullNode.prems(1,2) by (auto simp: m wf_full)
  note child = same_get_child [OF FullNode.prems(3) [unfolded m] len]
  have "cloneNode (cs ! i) = cloneNode (ds ! i)" if i: "i < 17" for i
  proof -
    let ?c = "of_nat i :: byte"
    have u: "unat ?c = i" using i by (rule nibble_of_nat)
    have ok: "slot_ok i (cs ! i)" "slot_ok i (ds ! i)" using FullNode.prems(1,2) i by (auto simp: m wf_full)
    have hk: "has_key (ds ! i) key = has_key (cs ! i) key" if "hexkey (?c # key)" for key
      using child [OF that] u by (simp add: has_key_def)
    have nil: "cs ! i = NilNode \<longleftrightarrow> ds ! i = NilNode"
      using slot_has_key [of ?c "cs ! i"] slot_has_key [of ?c "ds ! i"] ok hk u i has_key_nil by metis
    show ?thesis
    proof (cases "cs ! i = NilNode")
      case False
      then show ?thesis
      proof (cases "i = 16")
        case True
        have "node_get (ds ! 16) [] = node_get (cs ! 16) []"
          using child [of terminatorByte "[]"] by (simp add: hexkey_Cons)
        moreover have "is_value (cs ! 16)" "is_value (ds ! 16)"
          using True False nil ok by (auto simp: slot_ok_def)
        ultimately show ?thesis unfolding True using is_value_unique by metis
      next
        case False
        have "same_get (cs ! i) (ds ! i)"
          using child [of ?c] False i u by (auto simp: same_get_def hexkey_Cons)
        moreover have "wf_node (cs ! i)" "wf_node (ds ! i)"
          using False \<open>cs ! i \<noteq> NilNode\<close> nil ok by (auto simp: slot_ok_def)
        moreover have "cs ! i \<in> set cs" using i len by simp
        ultimately show ?thesis using FullNode.IH by blast
      qed
    qed (use nil in auto)
  qed
  then show ?case using len by (auto simp: m intro: nth_equalityI)
qed auto

section \<open>Tries as maps\<close>

text \<open>
  The invariant of a trie: its root is canonical, and every key in it is the nibble key of
  a byte key.
\<close>

definition trie_inv :: "trie \<Rightarrow> bool" where
  "trie_inv t \<longleftrightarrow> (root t = NilNode \<or> wf_node (root t)) \<and>
     (\<forall>key. hexkey key \<longrightarrow> has_key (root t) key \<longrightarrow> (\<exists>k. key = keybytesToHex k))"

lemma trie_inv_New: "trie_inv New"
  by (simp add: trie_inv_def New_def)

lemma node_get_cases: "n = NilNode \<or> wf_node n \<Longrightarrow> hexkey key \<Longrightarrow> \<exists>v. node_get n key = Ok v \<or> node_get n key = Err ErrNotFound"
proof (induction n key rule: node_get.induct)
  case (3 k v f key)
  show ?case
  proof (cases "\<exists>r. key = k @ r")
    case True
    then obtain r where r: "key = k @ r" by blast
    have wf: "wf_node (ShortNode k v f)" using 3(2) by simp
    show ?thesis
    proof (cases "hexkey k")
      case True
      then have "r = []" "is_value v"
        using hexkey_prefix 3(3) r wf hexkey_prefix_nibbles [of k "[]"] by auto
      then show ?thesis using r by (cases v) (auto simp: get_short)
    next
      case False
      then have "nibbles k" "wf_node v" using wf by auto
      then have "hexkey r" using 3(3) r hexkey_append by simp
      then show ?thesis using 3(1) r \<open>wf_node v\<close> by (auto simp: get_short)
    qed
  qed (simp add: get_short)
next
  case (5 cs f c key)
  have c: "unat c < length cs" "slot_ok (unat c) (cs ! unat c)"
    using 5(2,3) by (auto simp: wf_full hexkey_Cons)
  show ?case
  proof (cases "key = []")
    case True
    then have "unat c = 16" using 5(3) by (auto simp: hexkey_Cons)
    then show ?thesis using c True by (cases "cs ! 16") (auto simp: slot_ok_def)
  next
    case False
    then have "hexkey key" "unat c \<noteq> 16" using 5(3) by (auto simp: hexkey_Cons)
    then show ?thesis using 5(1) c by (auto simp: slot_ok_def)
  qed
qed auto

definition trie_map :: "trie \<Rightarrow> bytes \<Rightarrow> bytes option" where
  "trie_map t k = (case Get k t of Ok v \<Rightarrow> Some v | _ \<Rightarrow> None)"

lemma Get_trie_map: "trie_inv t \<Longrightarrow> Get k t = (case trie_map t k of Some v \<Rightarrow> Ok v | None \<Rightarrow> Err ErrNotFound)"
  using node_get_cases [of "root t" "keybytesToHex k"] hexkey_keybytesToHex [of k]
  by (auto simp: trie_map_def Get_def trie_inv_def)

lemma insert_trie:
  assumes inv: "trie_inv t" and v: "v \<noteq> []"
  shows "\<exists>t'. Put k v t = Ok t' \<and> trie_inv t' \<and> trie_map t' = (trie_map t)(k \<mapsto> v)"
proof -
  let ?k = "keybytesToHex k"
  have hk: "hexkey ?k" by simp
  then have ne: "?k \<noteq> []" by (rule hexkey_nonempty)
  then have "keyrest ?k" "node_ok ?k (root t)" using inv hk by (auto simp: keyrest_def node_ok_def trie_inv_def)
  then obtain n where n: "node_insert (root t) ?k (ValueNode v) = Ok n" "inserted (root t) ?k v n"
    using node_insert_spec v by blast
  have get: "node_get n q = (if q = ?k then Ok v else node_get (root t) q)" if "hexkey q" for q
    using n(2) that ne hexkey_nonempty [OF that] by (auto simp: inserted_def keyrest_def)
  have "wf_node n" using n(2) ne by (auto simp: inserted_def node_ok_def)
  then have "trie_inv (t\<lparr>root := n\<rparr>)" using inv get by (auto simp: trie_inv_def has_key_def)
  moreover have "trie_map (t\<lparr>root := n\<rparr>) = (trie_map t)(k \<mapsto> v)"
    by (auto simp: trie_map_def Get_def get keybytesToHex_inject)
  ultimately show ?thesis using n(1) v by (simp add: Put_def)
qed

lemma delete_trie:
  assumes inv: "trie_inv t"
  shows "\<exists>t'. Delete k t = Ok t' \<and> trie_inv t' \<and> trie_map t' = (trie_map t)(k := None)"
proof -
  let ?k = "keybytesToHex k"
  have hk: "hexkey ?k" by simp
  then have ne: "?k \<noteq> []" by (rule hexkey_nonempty)
  then have "keyrest ?k" "node_ok ?k (root t)" using inv hk by (auto simp: keyrest_def node_ok_def trie_inv_def)
  then obtain n where n: "node_delete (root t) ?k = Ok n" "deleted (root t) ?k n"
    using node_delete_spec by blast
  have get: "node_get n q = (if q = ?k then Err ErrNotFound else node_get (root t) q)" if "hexkey q" for q
    using n(2) that ne hexkey_nonempty [OF that] by (auto simp: deleted_def keyrest_def)
  have "n = NilNode \<or> wf_node n" using n(2) ne by (auto simp: deleted_def node_ok_def)
  then have "trie_inv (t\<lparr>root := n\<rparr>)" using inv get by (auto simp: trie_inv_def has_key_def)
  moreover have "trie_map (t\<lparr>root := n\<rparr>) = (trie_map t)(k := None)"
    by (auto simp: trie_map_def Get_def get keybytesToHex_inject)
  ultimately show ?thesis using n(1) by (simp add: Delete_def)
qed

lemma trie_unique:
  assumes inv: "trie_inv t" "trie_inv u" and same: "trie_map t = trie_map u"
  shows "Clone t = Clone u"
proof -
  have keys: "node_get (root u) q = node_get (root t) q" if q: "hexkey q" for q
  proof (cases "\<exists>k. q = keybytesToHex k")
    case True
    then obtain k where "q = keybytesToHex k" by blast
    then show ?thesis using Get_trie_map [OF inv(1), of k] Get_trie_map [OF inv(2), of k] same by (simp add: Get_def)
  next
    case False
    then have "\<not> has_key (root t) q" "\<not> has_key (root u) q" using inv q by (auto simp: trie_inv_def)
    moreover have "root t = NilNode \<or> wf_node (root t)" "root u = NilNode \<or> wf_node (root u)"
      using inv by (auto simp: trie_inv_def)
    ultimately show ?thesis using node_get_cases q unfolding has_key_def by metis
  qed
  then have sg: "same_get (root t) (root u)" by (simp add: same_get_def)
  have nil: "root t = NilNode \<longleftrightarrow> root u = NilNode"
    using inv wf_has_key same_get_has_key [OF sg] unfolding trie_inv_def by (metis has_key_nil)
  show ?thesis
    using inv sg nil wf_unique by (cases "root t = NilNode") (auto simp: trie_inv_def Clone_def)
qed

section \<open>The contract of a canonical map\<close>

text \<open>
  A key-value store whose representation is determined by its contents.  \<open>shape\<close> forgets
  what may differ between two stores with the same contents.
\<close>

locale canonical_map =
  fixes inv :: "'t \<Rightarrow> bool" and lookup :: "'t \<Rightarrow> 'k \<Rightarrow> 'v option"
    and put :: "'k \<Rightarrow> 'v \<Rightarrow> 't \<Rightarrow> ('e, 't) outcome" and vacant :: "'v \<Rightarrow> bool" and shape :: "'t \<Rightarrow> 's"
  assumes put_spec: "inv t \<Longrightarrow> \<exists>t'. put k v t = Ok t' \<and> inv t' \<and>
      lookup t' = (lookup t)(k := if vacant v then None else Some v)"
    and shape_unique: "\<lbrakk>inv t; inv u; lookup t = lookup u\<rbrakk> \<Longrightarrow> shape t = shape u"
begin

definition put_all :: "('k \<times> 'v) list \<Rightarrow> 't \<Rightarrow> 't" where
  "put_all kvs t = fold (\<lambda>(k, v) t. case put k v t of Ok t' \<Rightarrow> t' | _ \<Rightarrow> t) kvs t"

lemma put_all_spec:
  "\<lbrakk>inv t; distinct (map fst kvs)\<rbrakk> \<Longrightarrow> inv (put_all kvs t) \<and>
     lookup (put_all kvs t) = (\<lambda>k. case map_of kvs k of
        Some v \<Rightarrow> if vacant v then None else Some v | None \<Rightarrow> lookup t k)"
proof (induction kvs arbitrary: t)
  case (Cons kv kvs)
  obtain k v where kv: "kv = (k, v)" by (cases kv)
  obtain t' where t': "put k v t = Ok t'" "inv t'" "lookup t' = (lookup t)(k := if vacant v then None else Some v)"
    using put_spec [OF Cons.prems(1)] by blast
  have e: "put_all (kv # kvs) t = put_all kvs t'" using t'(1) by (simp add: put_all_def kv)
  have k: "map_of kvs k = None" using Cons.prems(2) kv by (simp add: map_of_eq_None_iff)
  have IH: "inv (put_all kvs t')" "lookup (put_all kvs t') q = (case map_of kvs q of
      Some v \<Rightarrow> if vacant v then None else Some v | None \<Rightarrow> lookup t' q)" for q
    using Cons.IH [OF t'(2)] Cons.prems(2) by simp_all
  have "lookup (put_all kvs t') q = (case map_of (kv # kvs) q of
      Some v \<Rightarrow> if vacant v then None else Some v | None \<Rightarrow> lookup t q)" for q
    by (cases "q = k") (simp_all add: IH(2) kv k t'(3) split: option.split)
  then show ?case unfolding e using IH(1) by blast
qed (simp add: put_all_def)

lemma put_all_order:
  assumes "inv t" "distinct (map fst kvs)" "mset kvs = mset kvs'"
  shows "shape (put_all kvs t) = shape (put_all kvs' t)"
proof -
  have "mset (map fst kvs) = mset (map fst kvs')" by (simp only: mset_map assms(3))
  then have d: "distinct (map fst kvs')" using assms(2) mset_eq_imp_distinct_iff by blast
  have m: "map_of kvs = map_of kvs'"
    using map_of_inject_set [OF assms(2) d] mset_eq_setD [OF assms(3)] by blast
  show ?thesis
  proof (rule shape_unique)
    show "lookup (put_all kvs t) = lookup (put_all kvs' t)"
      using put_all_spec [OF assms(1,2)] put_all_spec [OF assms(1) d] unfolding m by metis
  qed (use put_all_spec assms(1,2) d in blast)+
qed

end

interpretation mpt: canonical_map trie_inv trie_map Put "\<lambda>v. length v = 0" Clone
proof
  show "trie_inv t \<Longrightarrow> \<exists>t'. Put k v t = Ok t' \<and> trie_inv t' \<and>
      trie_map t' = (trie_map t)(k := if length v = 0 then None else Some v)" for t k v
    using insert_trie [of t v k] delete_trie [of t k] by (cases "length v = 0") (auto simp: Put_def)
  show "trie_inv t \<Longrightarrow> trie_inv u \<Longrightarrow> trie_map t = trie_map u \<Longrightarrow> Clone t = Clone u" for t u
    by (rule trie_unique)
qed

section \<open>Properties\<close>

text \<open>
  Hex-prefix encoding is lossless: the compact form of a nibble path, with or without
  the leaf terminator, decodes to the same path, and the nibbles of a byte key pack to the key.
\<close>

theorem hex_prefix_roundtrip:
  "(nibbles ns \<longrightarrow> compactToHex (hexToCompact ns) = ns \<and>
      compactToHex (hexToCompact (ns @ [terminatorByte])) = ns @ [terminatorByte]) \<and>
   hexToKeybytes (keybytesToHex k) = Some k"
  using compact_roundtrip [of ns ns False] compact_roundtrip [of ns "ns @ [terminatorByte]" True]
  by (simp add: keybytesToHex_expand hexToKeybytes_hexkey)

theorem hex_prefix_roundtrip_witness:
  "compactToHex (hexToCompact [1, 2, 3]) = [1, 2, 3] \<and> hexToCompact [1, 2, 3] = [0x11, 0x23]"
proof -
  have "hexToCompact [1, 2, 3] = [0x11, 0x23]" by code_simp
  then show ?thesis using hex_prefix_roundtrip [of "[1, 2, 3]" "[]"] by simp
qed

text \<open>
  C25. Put: on a canonical trie it succeeds, keeps the trie canonical and changes exactly the
  value of its key; an empty value removes the key.
\<close>

theorem Put_correct:
  assumes "trie_inv t"
  shows "\<exists>t'. Put k v t = Ok t' \<and> trie_inv t' \<and>
    (\<forall>k'. Get k' t' = (if k' = k then if v = [] then Err ErrNotFound else Ok v else Get k' t))"
  using mpt.put_spec [OF assms, of k v] assms by (auto simp: Get_trie_map)

theorem Put_correct_witness:
  "\<exists>t'. Put [0xab] [7] New = Ok t' \<and> trie_inv t' \<and>
    (\<forall>k'. Get k' t' = (if k' = [0xab] then if [7 :: byte] = [] then Err ErrNotFound else Ok [7] else Get k' New))"
  by (rule Put_correct) (rule trie_inv_New)

text \<open>
  C26. Delete: on a canonical trie it succeeds, keeps the trie canonical and removes exactly
  its key, whether or not the key was there.
\<close>

theorem Delete_correct:
  assumes "trie_inv t"
  shows "\<exists>t'. Delete k t = Ok t' \<and> trie_inv t' \<and>
    (\<forall>k'. Get k' t' = (if k' = k then Err ErrNotFound else Get k' t))"
  using delete_trie [OF assms, of k] assms by (auto simp: Get_trie_map)

theorem Delete_correct_witness:
  "\<exists>t'. Delete [1] New = Ok t' \<and> trie_inv t' \<and>
    (\<forall>k'. Get k' t' = (if k' = [1] then Err ErrNotFound else Get k' New))"
  by (rule Delete_correct) (rule trie_inv_New)

text \<open>
  C27. Uniqueness: two canonical tries with the same contents have the same structure; they
  are equal up to cached hashes, which \<open>Clone\<close> drops.
\<close>

theorem trie_canonical:
  assumes "trie_inv t" and "trie_inv u" and "\<forall>k. Get k t = Get k u"
  shows "Clone t = Clone u"
  using assms by (intro trie_unique) (auto simp: trie_map_def)

theorem trie_canonical_witness:
  "\<exists>t u. Put [1] [5] New = Ok t \<and> bind_outcome (Put [1] [6] New) (Put [1] [5]) = Ok u \<and> Clone t = Clone u"
proof -
  obtain t where t: "Put [1] [5] New = Ok t" "trie_inv t" "trie_map t = (trie_map New)([1] \<mapsto> [5])"
    using insert_trie [OF trie_inv_New, of "[5]" "[1]"] by auto
  obtain w where w: "Put [1] [6] New = Ok w" "trie_inv w" "trie_map w = (trie_map New)([1] \<mapsto> [6])"
    using insert_trie [OF trie_inv_New, of "[6]" "[1]"] by auto
  obtain u where u: "Put [1] [5] w = Ok u" "trie_inv u" "trie_map u = (trie_map w)([1] \<mapsto> [5])"
    using insert_trie [OF w(2), of "[5]" "[1]"] by auto
  have "Clone t = Clone u"
    using t u w by (intro trie_canonical) (auto simp: Get_trie_map)
  then show ?thesis using t(1) u(1) w(1) by auto
qed

end
