(* ===== verification/Mpt_Hash.thy ===== *)
theory Mpt_Hash
  imports Mpt_Map Rlp_Encode Types_Common
begin

text \<open>
  Node hashing, \<^verbatim>\<open>src/pkg/trie/mpt/hasher.go\<close>, and \<open>Trie.Hash\<close>.  Hashes are cached in the
  nodes; the cached routine is shown to agree with hashing from scratch, so that the root
  hash depends on the contents of the trie only.  Keccak is a parameter.
\<close>

section \<open>Encoding nodes\<close>

text \<open>The package has its own length encoder, which differs from the one of \<open>rlp\<close> above \<open>2\<^sup>32\<close>.\<close>

definition mpt_putUintBigEndian :: "u64 \<Rightarrow> bytes" where
  "mpt_putUintBigEndian u =
     (if u < 2 ^ 8 then [ucast u]
      else if u < 2 ^ 16 then [ucast (drop_bit 8 u), ucast u]
      else if u < 2 ^ 24 then [ucast (drop_bit 16 u), ucast (drop_bit 8 u), ucast u]
      else if u < 2 ^ 32 then
        [ucast (drop_bit 24 u), ucast (drop_bit 16 u), ucast (drop_bit 8 u), ucast u]
      else
        [ucast (drop_bit 56 u), ucast (drop_bit 48 u), ucast (drop_bit 40 u), ucast (drop_bit 32 u),
         ucast (drop_bit 24 u), ucast (drop_bit 16 u), ucast (drop_bit 8 u), ucast u])"

definition wrapListPayload :: "bytes \<Rightarrow> bytes" where
  "wrapListPayload payload =
     (let n = length payload in
      if n \<le> 55 then (0xc0 + of_nat n) # payload
      else let lenBytes = mpt_putUintBigEndian (of_nat n) in
        (0xf7 + of_nat (length lenBytes)) # lenBytes @ payload)"

text \<open>\<open>rlp.EncodeToBytes\<close> of a byte slice is \<open>encodeString\<close> and does not fail.\<close>

fun encodeNodeValue :: "node \<Rightarrow> bytes" where
  "encodeNodeValue NilNode = [0x80]"
| "encodeNodeValue (ValueNode v) = encodeString v"
| "encodeNodeValue (HashNode h) = encodeString h"
| "encodeNodeValue (ShortNode k v f) = wrapListPayload (encodeString k @ encodeNodeValue v)"
| "encodeNodeValue (FullNode cs f) = wrapListPayload (concat (map encodeNodeValue cs))"

definition encodeNode :: "node \<Rightarrow> bytes" where
  "encodeNode n = (case n of HashNode h \<Rightarrow> h | NilNode \<Rightarrow> [] | _ \<Rightarrow> encodeNodeValue n)"

section \<open>Hashing with a cache\<close>

definition store :: "(bytes \<Rightarrow> bytes) \<Rightarrow> node \<Rightarrow> bool \<Rightarrow> node" where
  "store keccak n force =
     (case n of
        HashNode h \<Rightarrow> n
      | ValueNode v \<Rightarrow> n
      | _ \<Rightarrow> let enc = encodeNode n in
          if length enc < 32 \<and> \<not> force then n else HashNode (keccak enc))"

text \<open>Recording the result in the flags of the node that stays in the trie.\<close>

fun set_cache :: "node \<Rightarrow> node \<Rightarrow> node" where
  "set_cache hashed (ShortNode k v f) =
     ShortNode k v \<lparr>flag_hash = (case hashed of HashNode h \<Rightarrow> Some h | _ \<Rightarrow> None), flag_dirty = False\<rparr>"
| "set_cache hashed (FullNode cs f) =
     FullNode cs \<lparr>flag_hash = (case hashed of HashNode h \<Rightarrow> Some h | _ \<Rightarrow> None), flag_dirty = False\<rparr>"
| "set_cache hashed n = n"

text \<open>
  \<open>hash\<close> returns the reference to a node and the node with updated caches; \<open>hashChildren\<close>
  is part of it.  The source calls it on present children only; a missing child stays missing.
\<close>

function hash :: "(bytes \<Rightarrow> bytes) \<Rightarrow> node \<Rightarrow> bool \<Rightarrow> node \<times> node" where
  "hash keccak (ShortNode k v f) force =
     (case (flag_hash f, flag_dirty f) of
        (Some h, False) \<Rightarrow> (HashNode h, ShortNode k v f)
      | _ \<Rightarrow>
          let (childH, childC) =
                (case v of ValueNode _ \<Rightarrow> (v, v) | _ \<Rightarrow> hash keccak v False);
              hashed = store keccak (ShortNode (hexToCompact k) childH f) force in
          (hashed, set_cache hashed (ShortNode k childC f)))"
| "hash keccak (FullNode cs f) force =
     (case (flag_hash f, flag_dirty f) of
        (Some h, False) \<Rightarrow> (HashNode h, FullNode cs f)
      | _ \<Rightarrow>
          let rs = map (\<lambda>c. hash keccak c False) (take 16 cs);
              hashed = store keccak (FullNode (map fst rs @ drop 16 cs) f) force in
          (hashed, set_cache hashed (FullNode (map snd rs @ drop 16 cs) f)))"
| "hash keccak (ValueNode v) force = (ValueNode v, ValueNode v)"
| "hash keccak (HashNode h) force = (HashNode h, HashNode h)"
| "hash keccak NilNode force = (NilNode, NilNode)"
  by pat_completeness auto

termination hash
  by (relation "measure (\<lambda>(keccak, n, force). size n)")
     (auto dest!: in_set_takeD simp: less_Suc_eq_le size_list_estimation')

definition emptyRoot :: "(bytes \<Rightarrow> bytes) \<Rightarrow> hash" where
  "emptyRoot keccak = BytesToHash (keccak (encodeString []))"

definition Trie_Hash :: "(bytes \<Rightarrow> bytes) \<Rightarrow> trie \<Rightarrow> hash \<times> trie" where
  "Trie_Hash keccak t =
     (if root t = NilNode then (emptyRoot keccak, t)
      else let (hashed, cached) = hash keccak (root t) True in
        (case hashed of
           HashNode h \<Rightarrow> BytesToHash h
         | _ \<Rightarrow> BytesToHash (keccak (encodeNode hashed)),
         t\<lparr>root := cached\<rparr>))"

section \<open>Hashing from scratch\<close>

lemma clone_clone [simp]: "cloneNode (cloneNode n) = cloneNode n"
  by (induction n) auto

lemma encode_clone [simp]: "encodeNodeValue (cloneNode n) = encodeNodeValue n"
  by (induction n) (simp_all cong: map_cong)

lemma clone_eq_simps [simp]:
  "cloneNode n = NilNode \<longleftrightarrow> n = NilNode" "cloneNode n = HashNode h \<longleftrightarrow> n = HashNode h"
  "cloneNode n = ValueNode v \<longleftrightarrow> n = ValueNode v"
  by (cases n; auto)+

lemma encodeNode_clone [simp]: "encodeNode (cloneNode n) = encodeNode n"
  unfolding encodeNode_def using encode_clone [of n] by (cases n) simp_all

lemma clone_store: "cloneNode (store keccak n force) = store keccak (cloneNode n) force"
  unfolding store_def Let_def using encodeNode_clone [of n] by (cases n) (simp_all split: if_split)

lemma clone_set_cache [simp]: "cloneNode (set_cache h n) = cloneNode n"
  by (cases n) auto

text \<open>The reference of a node, computed without caches.\<close>

definition fresh :: "(bytes \<Rightarrow> bytes) \<Rightarrow> node \<Rightarrow> bool \<Rightarrow> node" where
  "fresh keccak n force = cloneNode (fst (hash keccak (cloneNode n) force))"

lemma fresh_short:
  "fresh keccak (ShortNode k v f) force =
     store keccak (ShortNode (hexToCompact k) (fresh keccak v False) zero_flag) force"
  by (cases v) (simp_all add: fresh_def clone_store case_prod_beta Let_def)

lemma fresh_full:
  "fresh keccak (FullNode cs f) force =
     store keccak (FullNode (map (\<lambda>c. fresh keccak c False) (take 16 cs) @ map cloneNode (drop 16 cs)) zero_flag) force"
  by (simp add: fresh_def clone_store Let_def take_map drop_map comp_def)

lemma fresh_clone: "cloneNode n = cloneNode m \<Longrightarrow> fresh keccak n force = fresh keccak m force"
  by (simp add: fresh_def)

section \<open>Valid caches\<close>

text \<open>A cached hash that is not dirty is the reference computed from scratch.\<close>

definition flag_ok :: "(bytes \<Rightarrow> bytes) \<Rightarrow> bool \<Rightarrow> node \<Rightarrow> bool" where
  "flag_ok keccak force n \<longleftrightarrow>
     (\<forall>h. node_cache n = (Some h, False) \<longrightarrow> fresh keccak n force = HashNode h)"

fun cache_ok :: "(bytes \<Rightarrow> bytes) \<Rightarrow> bool \<Rightarrow> node \<Rightarrow> bool" where
  "cache_ok keccak force (ShortNode k v f) =
     (flag_ok keccak force (ShortNode k v f) \<and> cache_ok keccak False v)"
| "cache_ok keccak force (FullNode cs f) =
     (flag_ok keccak force (FullNode cs f) \<and> (\<forall>c\<in>set cs. cache_ok keccak False c))"
| "cache_ok keccak force n = True"

lemma flag_ok_dirty [simp]: "flag_ok keccak force (ShortNode k v dirty)" "flag_ok keccak force (FullNode cs dirty)"
  by (simp_all add: flag_ok_def)

lemma flag_ok_set_cache:
  assumes "fresh keccak n force = cloneNode hashed"
  shows "flag_ok keccak force (set_cache hashed n)"
proof -
  have "fresh keccak (set_cache hashed n) force = cloneNode hashed" using assms by (simp add: fresh_def)
  then show ?thesis by (cases n; cases hashed) (auto simp: flag_ok_def)
qed

text \<open>What \<open>hash\<close> returns on a node with valid caches.\<close>

definition hash_ok :: "(bytes \<Rightarrow> bytes) \<Rightarrow> node \<Rightarrow> bool \<Rightarrow> node \<times> node \<Rightarrow> bool" where
  "hash_ok keccak n force r \<longleftrightarrow> cloneNode (fst r) = fresh keccak n force \<and>
     cloneNode (snd r) = cloneNode n \<and> cache_ok keccak force (snd r)"

lemma hash_ok_cached:
  "\<lbrakk>cache_ok keccak force n; node_cache n = (Some h, False)\<rbrakk> \<Longrightarrow> hash_ok keccak n force (HashNode h, n)"
  by (cases n) (auto simp: hash_ok_def flag_ok_def)

lemma hash_ok_short:
  assumes "hash_ok keccak v False (h, c)"
  shows "hash_ok keccak (ShortNode k v f) force
    (let hashed = store keccak (ShortNode (hexToCompact k) h f) force in (hashed, set_cache hashed (ShortNode k c f)))"
proof -
  let ?hashed = "store keccak (ShortNode (hexToCompact k) h f) force"
  have "cloneNode ?hashed = fresh keccak (ShortNode k v f) force"
    using assms by (simp add: fresh_short clone_store hash_ok_def)
  moreover have "cloneNode (ShortNode k c f) = cloneNode (ShortNode k v f)" using assms by (simp add: hash_ok_def)
  moreover from this have "fresh keccak (ShortNode k c f) force = fresh keccak (ShortNode k v f) force"
    by (rule fresh_clone)
  ultimately show ?thesis
    using assms flag_ok_set_cache [of keccak "ShortNode k c f" force ?hashed] by (simp add: hash_ok_def Let_def)
qed

lemma hash_ok_full:
  assumes "\<And>c. c \<in> set (take 16 cs) \<Longrightarrow> hash_ok keccak c False (hash keccak c False)"
    and "\<forall>c\<in>set cs. cache_ok keccak False c"
  shows "hash_ok keccak (FullNode cs f) force
    (let rs = map (\<lambda>c. hash keccak c False) (take 16 cs);
         hashed = store keccak (FullNode (map fst rs @ drop 16 cs) f) force in
     (hashed, set_cache hashed (FullNode (map snd rs @ drop 16 cs) f)))"
proof -
  let ?hs = "map (\<lambda>c. fst (hash keccak c False)) (take 16 cs) @ drop 16 cs"
  let ?cs = "map (\<lambda>c. snd (hash keccak c False)) (take 16 cs) @ drop 16 cs"
  let ?hashed = "store keccak (FullNode ?hs f) force"
  have "map cloneNode ?hs = map (\<lambda>c. fresh keccak c False) (take 16 cs) @ map cloneNode (drop 16 cs)"
    using assms(1) by (auto simp: hash_ok_def)
  then have "cloneNode ?hashed = fresh keccak (FullNode cs f) force"
    by (simp add: fresh_full clone_store del: map_append)
  moreover have "map cloneNode ?cs = map cloneNode (take 16 cs @ drop 16 cs)"
    using assms(1) by (auto simp: hash_ok_def simp del: append_take_drop_id)
  then have "cloneNode (FullNode ?cs f) = cloneNode (FullNode cs f)" by simp
  moreover from this have "fresh keccak (FullNode ?cs f) force = fresh keccak (FullNode cs f) force"
    by (rule fresh_clone)
  moreover have "\<forall>c\<in>set ?cs. cache_ok keccak False c"
    using assms by (auto simp: hash_ok_def dest: in_set_dropD)
  ultimately show ?thesis
    using flag_ok_set_cache [of keccak "FullNode ?cs f" force ?hashed]
    by (simp add: hash_ok_def Let_def comp_def)
qed

text \<open>The two ways through \<open>hash\<close>.\<close>

lemma hash_hit:
  "node_cache n = (Some h, False) \<Longrightarrow> hash keccak n force = (HashNode h, n)"
  by (cases n) auto

lemma hash_miss_short:
  assumes "\<nexists>h. (flag_hash f, flag_dirty f) = (Some h, False)"
  shows "hash keccak (ShortNode k v f) force =
    (let r = hash keccak v False; hashed = store keccak (ShortNode (hexToCompact k) (fst r) f) force in
     (hashed, set_cache hashed (ShortNode k (snd r) f)))"
  using assms by (cases v; cases "flag_hash f"; cases "flag_dirty f") (simp_all add: case_prod_beta Let_def)

lemma hash_miss_full:
  assumes "\<nexists>h. (flag_hash f, flag_dirty f) = (Some h, False)"
  shows "hash keccak (FullNode cs f) force =
    (let rs = map (\<lambda>c. hash keccak c False) (take 16 cs);
         hashed = store keccak (FullNode (map fst rs @ drop 16 cs) f) force in
     (hashed, set_cache hashed (FullNode (map snd rs @ drop 16 cs) f)))"
  using assms by (cases "flag_hash f"; cases "flag_dirty f") (simp_all add: Let_def)

lemma hash_correct: "cache_ok keccak force n \<Longrightarrow> hash_ok keccak n force (hash keccak n force)"
proof (induction n arbitrary: force)
  case (ShortNode k v f)
  show ?case
  proof (cases "\<exists>h. (flag_hash f, flag_dirty f) = (Some h, False)")
    case True
    then obtain h where h: "node_cache (ShortNode k v f) = (Some h, False)" by auto
    show ?thesis unfolding hash_hit [OF h] by (rule hash_ok_cached [OF ShortNode.prems h])
  next
    case False
    have "cache_ok keccak False v" using ShortNode.prems by simp
    then have "hash_ok keccak v False (fst (hash keccak v False), snd (hash keccak v False))"
      using ShortNode.IH [of False] by simp
    from hash_ok_short [OF this, of k f force] show ?thesis
      unfolding hash_miss_short [OF False] by (simp only: Let_def)
  qed
next
  case (FullNode cs f)
  show ?case
  proof (cases "\<exists>h. (flag_hash f, flag_dirty f) = (Some h, False)")
    case True
    then obtain h where h: "node_cache (FullNode cs f) = (Some h, False)" by auto
    show ?thesis unfolding hash_hit [OF h] by (rule hash_ok_cached [OF FullNode.prems h])
  next
    case False
    have ok: "\<forall>c\<in>set cs. cache_ok keccak False c" using FullNode.prems by simp
    have "hash_ok keccak c False (hash keccak c False)" if "c \<in> set (take 16 cs)" for c
      using FullNode.IH [OF in_set_takeD [OF that], of False] ok in_set_takeD [OF that] by blast
    from hash_ok_full [OF this ok, of f force] show ?thesis
      unfolding hash_miss_full [OF False] .
  qed
qed (simp_all add: hash_ok_def fresh_def)

section \<open>Updates keep the caches valid\<close>

lemma node_get_clone [simp]: "node_get (cloneNode n) key = node_get n key"
  by (induction n key rule: node_get.induct) (auto simp: node_get.simps(3))

lemma clone_is [simp]: "is_full (cloneNode n) = is_full n" "is_value (cloneNode n) = is_value n"
  by (cases n; simp)+

lemma present_clone [simp]: "present (map cloneNode cs) = present cs"
  unfolding present_def by (auto intro: filter_cong)

lemma wf_node_clone [simp]: "wf_node (cloneNode n) = wf_node n"
proof (induction n)
  case (FullNode cs f)
  then have "slot_ok i (map cloneNode cs ! i) = slot_ok i (cs ! i)" if "i < length cs" for i
    using that by (simp add: slot_ok_def)
  then show ?case by (auto simp: wf_full)
qed auto

lemma trie_inv_cong:
  assumes "trie_inv t" "cloneNode (root u) = cloneNode (root t)"
  shows "trie_inv u \<and> trie_map u = trie_map t"
proof -
  have get: "node_get (root u) = node_get (root t)"
    using assms(2) node_get_clone [of "root t"] node_get_clone [of "root u"] by (metis ext)
  moreover have "wf_node (root u) = wf_node (root t)" "root u = NilNode \<longleftrightarrow> root t = NilNode"
    using assms(2) wf_node_clone clone_eq_simps(1) by metis+
  ultimately show ?thesis using assms(1) by (simp add: trie_inv_def has_key_def trie_map_def Get_def fun_eq_iff)
qed

lemma cache_ok_insert_nil: "cache_ok keccak False v \<Longrightarrow> cache_ok keccak False (insert_nil key v)"
  by (simp add: insert_nil_def)

lemma cache_ok_update:
  "\<lbrakk>\<forall>c\<in>set cs. cache_ok keccak False c; cache_ok keccak False n\<rbrakk> \<Longrightarrow> \<forall>c\<in>set (cs[i := n]). cache_ok keccak False c"
  using set_update_subset_insert [of cs i n] by blast

lemma cache_ok_insert:
  "\<lbrakk>node_insert n key (ValueNode v) = Ok n'; cache_ok keccak b n\<rbrakk> \<Longrightarrow> cache_ok keccak b' n'"
proof (induction n key "ValueNode v" arbitrary: b b' n' rule: node_insert.induct)
  case (1 n)
  then show ?case by (cases n) auto
next
  case (3 k w f c key)
  show ?case
  proof (cases "prefixLen (c # key) k = length k")
    case True
    then obtain nn where "node_insert w (drop (length k) (c # key)) (ValueNode v) = Ok nn" "n' = ShortNode k nn dirty"
      using 3(2) by (auto simp: Let_def map_ok_Ok_iff)
    then show ?thesis using 3(1) [OF refl True, of nn False False] 3(3) True by simp
  next
    case False
    have "\<forall>c\<in>set (replicate 17 NilNode). cache_ok keccak False c" by simp
    moreover have "cache_ok keccak False w" using 3(3) by simp
    ultimately have "\<forall>c\<in>set ((replicate 17 NilNode)[i := insert_nil k1 w, j := insert_nil k2 (ValueNode v)]).
        cache_ok keccak False c" for i j k1 k2
      by (intro cache_ok_update cache_ok_insert_nil) simp_all
    then show ?thesis using 3(2) False by (auto simp only: node_insert.simps Let_def cache_ok.simps flag_ok_dirty outcome.inject outcome.distinct if_False split: if_splits)
  qed
next
  case (4 cs f c key)
  then obtain child where child: "unat c < length cs" "node_insert (cs ! unat c) key (ValueNode v) = Ok child"
    "n' = FullNode (cs[unat c := child]) dirty" by (auto simp: map_ok_Ok_iff split: if_splits)
  have ok: "\<forall>c\<in>set cs. cache_ok keccak False c" using 4(3) by simp
  have "cache_ok keccak False child" using 4(1) [OF child(1,2), of False False] ok child(1) by simp
  from cache_ok_update [OF ok this] show ?case unfolding child(3) by simp
qed (auto simp: insert_nil_def)

lemma cache_ok_merge_short: "cache_ok keccak False n \<Longrightarrow> cache_ok keccak b (merge_short k n)"
  by (cases n) (auto simp: merge_short_def)

lemma cache_ok_collapse:
  assumes ok: "\<forall>c\<in>set cs. cache_ok keccak False c"
  shows "cache_ok keccak b (collapse cs)"
proof (cases "\<exists>i. present cs = [i]")
  case True
  then obtain i where i: "present cs = [i]" by blast
  then have "i < length cs" using present_set [of cs] by auto
  then have "cache_ok keccak False (cs ! i)" using ok by simp
  then show ?thesis using i by (cases "cs ! i"; cases "i = 16") (simp_all add: collapse_def flip: present_def)
next
  case False
  then show ?thesis
    using ok by (cases "present cs" rule: remdups_adj.cases) (simp_all add: collapse_def flip: present_def)
qed

lemma cache_ok_delete:
  "\<lbrakk>node_delete n key = Ok n'; cache_ok keccak b n\<rbrakk> \<Longrightarrow> cache_ok keccak b n'"
proof (induction n key arbitrary: b n' rule: node_delete.induct)
  case (2 k v f key)
  then show ?case by (auto simp: Let_def map_ok_Ok_iff cache_ok_merge_short split: if_splits)
next
  case (4 cs f c key)
  then obtain child where child: "unat c < length cs" "node_delete (cs ! unat c) key = Ok child"
    "n' = collapse (cs[unat c := child])" by (auto simp: map_ok_Ok_iff split: if_splits)
  have "cache_ok keccak False child" using 4(1) [OF child(1,2), of False] 4(3) child(1) by simp
  moreover have "\<forall>c\<in>set cs. cache_ok keccak False c" using 4(3) by simp
  ultimately show ?case unfolding child(3) by (intro cache_ok_collapse cache_ok_update)
qed (auto split: if_splits)

section \<open>Reachable tries\<close>

text \<open>The tries a client can have: any sequence of updates, hashes and clones from the empty trie.\<close>

inductive reachable :: "(bytes \<Rightarrow> bytes) \<Rightarrow> trie \<Rightarrow> bool" for keccak where
  reach_New: "reachable keccak New"
| reach_Put: "reachable keccak t \<Longrightarrow> Put k v t = Ok t' \<Longrightarrow> reachable keccak t'"
| reach_Delete: "reachable keccak t \<Longrightarrow> Delete k t = Ok t' \<Longrightarrow> reachable keccak t'"
| reach_Hash: "reachable keccak t \<Longrightarrow> reachable keccak (snd (Trie_Hash keccak t))"
| reach_Clone: "reachable keccak t \<Longrightarrow> reachable keccak (Clone t)"

definition trie_ok :: "(bytes \<Rightarrow> bytes) \<Rightarrow> trie \<Rightarrow> bool" where
  "trie_ok keccak t \<longleftrightarrow> trie_inv t \<and> cache_ok keccak True (root t)"

lemma cache_ok_clone: "cache_ok keccak b (cloneNode n)"
  by (induction n arbitrary: b) (auto simp: flag_ok_def)

lemma Trie_Hash_keeps:
  assumes "trie_ok keccak t"
  shows "cloneNode (root (snd (Trie_Hash keccak t))) = cloneNode (root t)"
    "cache_ok keccak True (root (snd (Trie_Hash keccak t)))"
  using assms hash_correct [of keccak True "root t"]
  by (auto simp: trie_ok_def Trie_Hash_def hash_ok_def Let_def case_prod_beta)

lemma trie_ok_Put: "trie_ok keccak t \<Longrightarrow> Put k v t = Ok t' \<Longrightarrow> trie_ok keccak t'"
  using mpt.put_spec [of t k v] cache_ok_insert [of "root t" "keybytesToHex k" v _ keccak True True]
    cache_ok_delete [of "root t" "keybytesToHex k" _ keccak True]
  by (auto simp: trie_ok_def Put_def Delete_def map_ok_Ok_iff split: if_splits)

lemma trie_ok_Delete: "trie_ok keccak t \<Longrightarrow> Delete k t = Ok t' \<Longrightarrow> trie_ok keccak t'"
  using trie_ok_Put [of keccak t k "[]" t'] by (simp add: Put_def)

lemma reachable_ok: "reachable keccak t \<Longrightarrow> trie_ok keccak t"
proof (induction rule: reachable.induct)
  case reach_New
  then show ?case by (simp add: trie_ok_def trie_inv_New) (simp add: New_def)
next
  case (reach_Hash t)
  then show ?case
    using Trie_Hash_keeps [of keccak t] trie_inv_cong [of t "snd (Trie_Hash keccak t)"] by (simp add: trie_ok_def)
next
  case (reach_Clone t)
  then show ?case using trie_inv_cong [of t "Clone t"] by (simp add: trie_ok_def Clone_def cache_ok_clone)
qed (blast intro: trie_ok_Put trie_ok_Delete)+

lemma fresh_forced: "wf_node n \<Longrightarrow> \<exists>h. fresh keccak n True = HashNode h"
  by (cases n) (auto simp: fresh_short fresh_full store_def Let_def)

lemma root_hash_fresh:
  assumes "trie_ok keccak t"
  shows "fst (Trie_Hash keccak t) = fst (Trie_Hash keccak (Clone t))"
proof (cases "root t = NilNode")
  case False
  then have "wf_node (root t)" using assms by (simp add: trie_ok_def trie_inv_def)
  then obtain h where h: "fresh keccak (root t) True = HashNode h" using fresh_forced by blast
  have "fst (hash keccak n True) = HashNode h" if "cache_ok keccak True n" "cloneNode n = cloneNode (root t)" for n
    using hash_correct [OF that(1)] fresh_clone [OF that(2)] h by (simp add: hash_ok_def)
  from this [of "root t"] this [of "cloneNode (root t)"] show ?thesis
    using assms False by (simp add: Trie_Hash_def Clone_def case_prod_beta Let_def trie_ok_def cache_ok_clone)
qed (simp add: Trie_Hash_def Clone_def)

section \<open>Properties of the root hash\<close>

text \<open>
  C9. The root hash is a function of the contents.  Two tries that were built by any
  updates, deletions, clones and intermediate hash computations and that answer every lookup
  the same have the same root hash, whatever the hash function; so no cached hash is stale.
\<close>

theorem Hash_of_contents:
  assumes "reachable keccak t" "reachable keccak u" "\<forall>k. Get k t = Get k u"
  shows "fst (Trie_Hash keccak t) = fst (Trie_Hash keccak u)"
proof -
  have ok: "trie_ok keccak t" "trie_ok keccak u" using assms(1,2) by (simp_all add: reachable_ok)
  then have "trie_inv t" "trie_inv u" by (simp_all add: trie_ok_def)
  moreover have "trie_map t = trie_map u" using assms(3) by (simp add: trie_map_def fun_eq_iff)
  ultimately have "Clone t = Clone u" by (rule trie_unique)
  then show ?thesis using root_hash_fresh [OF ok(1)] root_hash_fresh [OF ok(2)] by simp
qed

theorem Hash_of_contents_witness:
  "\<exists>t1 t2 u1 u2. Put [1] [2] New = Ok t1 \<and> Put [3] [4] (snd (Trie_Hash (take 32) t1)) = Ok t2 \<and>
     Put [3] [4] New = Ok u1 \<and> Put [1] [2] u1 = Ok u2 \<and>
     fst (Trie_Hash (take 32) t2) = fst (Trie_Hash (take 32) u2)"
proof -
  let ?t1h = "\<lambda>t1. snd (Trie_Hash (take 32) t1)"
  obtain t1 where t1: "Put [1] [2] New = Ok t1" "trie_map t1 = (trie_map New)([1] \<mapsto> [2])"
    using mpt.put_spec [OF trie_inv_New, of "[1]" "[2]"] by auto
  have r1: "reachable (take 32) (?t1h t1)" by (rule reach_Hash [OF reach_Put [OF reach_New t1(1)]])
  have ok1: "trie_ok (take 32) t1" by (rule reachable_ok [OF reach_Put [OF reach_New t1(1)]])
  then have m1: "trie_inv (?t1h t1) \<and> trie_map (?t1h t1) = trie_map t1"
    using trie_inv_cong [of t1 "?t1h t1"] Trie_Hash_keeps(1) [OF ok1] by (simp add: trie_ok_def)
  obtain t2 where t2: "Put [3] [4] (?t1h t1) = Ok t2" "trie_inv t2" "trie_map t2 = (trie_map t1)([3] \<mapsto> [4])"
    using mpt.put_spec [OF m1 [THEN conjunct1], of "[3]" "[4]"] m1 by auto
  obtain u1 where u1: "Put [3] [4] New = Ok u1" "trie_inv u1" "trie_map u1 = (trie_map New)([3] \<mapsto> [4])"
    using mpt.put_spec [OF trie_inv_New, of "[3]" "[4]"] by auto
  obtain u2 where u2: "Put [1] [2] u1 = Ok u2" "trie_inv u2" "trie_map u2 = (trie_map u1)([1] \<mapsto> [2])"
    using mpt.put_spec [OF u1(2), of "[1]" "[2]"] by auto
  have "trie_map t2 = trie_map u2" by (simp add: t1(2) t2(3) u1(3) u2(3) fun_upd_twist)
  then have "\<forall>k. Get k t2 = Get k u2" using Get_trie_map [OF t2(2)] Get_trie_map [OF u2(2)] by simp
  from Hash_of_contents [OF reach_Put [OF r1 t2(1)] reach_Put [OF reach_Put [OF reach_New u1(1)] u2(1)] this]
  show ?thesis using t1(1) t2(1) u1(1) u2(1) by blast
qed

text \<open>
  Hashing does not change the contents: after \<open>Hash\<close> every lookup answers as before, and
  hashing again, now from the caches, gives the same root.
\<close>

theorem Hash_pure:
  assumes "reachable keccak t"
  shows "Get k (snd (Trie_Hash keccak t)) = Get k t \<and>
    fst (Trie_Hash keccak (snd (Trie_Hash keccak t))) = fst (Trie_Hash keccak t)"
proof -
  have ok: "trie_ok keccak t" "trie_ok keccak (snd (Trie_Hash keccak t))"
    using assms by (auto intro: reachable_ok reach_Hash)
  have clone: "cloneNode (root (snd (Trie_Hash keccak t))) = cloneNode (root t)" by (rule Trie_Hash_keeps [OF ok(1)])
  then have "Clone (snd (Trie_Hash keccak t)) = Clone t" by (simp add: Clone_def)
  moreover have "node_get (root (snd (Trie_Hash keccak t))) q = node_get (root t) q" for q
    using arg_cong [OF clone, of "\<lambda>n. node_get n q"] by simp
  ultimately show ?thesis using root_hash_fresh [OF ok(1)] root_hash_fresh [OF ok(2)] by (metis Get_def)
qed

theorem Hash_pure_witness:
  "\<exists>t. Put [1] [2] New = Ok t \<and> Get [1] (snd (Trie_Hash (\<lambda>b. take 32 b) t)) = Ok [2]"
proof -
  have "map_ok (Get [1]) (Put [1] [2] New) = Ok (Ok [2])" by code_simp
  then obtain t where t: "Put [1] [2] New = Ok t" "Get [1] t = Ok [2]" unfolding map_ok_Ok_iff by metis
  have "reachable (\<lambda>b. take 32 b) t" by (rule reach_Put [OF reach_New t(1)])
  from Hash_pure [OF this, of "[1]"] show ?thesis using t by (intro exI [of _ t]) simp
qed

end
