(* ===== verification/Evm_Machine.thy ===== *)
theory Evm_Machine
  imports Types_Common
begin

text \<open>
  The machine of the EVM interpreter below the state: \<^verbatim>\<open>stack.go\<close>, \<^verbatim>\<open>memory.go\<close>,
  \<^verbatim>\<open>contract.go\<close> and the instructions of \<^verbatim>\<open>instructions.go\<close> that work on the
  stack alone (\<^verbatim>\<open>src/pkg/core/vm\<close>).  A \<open>big.Int\<close> is an \<open>int\<close>, the stack is a list
  with its top first, and \<open>None\<close> stands for a panic: popping an empty stack, slicing out of
  range, or the explicit panics of \<open>Memory.Set\<close> and \<open>Memory.Set32\<close>.
\<close>

section \<open>Big integers\<close>

definition Uint64 :: "int \<Rightarrow> u64" where
  "Uint64 x = word_of_int \<bar>x\<bar>"

definition IsUint64 :: "int \<Rightarrow> bool" where
  "IsUint64 x \<longleftrightarrow> 0 \<le> x \<and> x < 2 ^ 64"

fun nat_bits :: "nat \<Rightarrow> nat" where
  "nat_bits n = (if n = 0 then 0 else Suc (nat_bits (n div 2)))"

declare nat_bits.simps [simp del]

definition BitLen :: "int \<Rightarrow> nat" where
  "BitLen x = nat_bits (nat \<bar>x\<bar>)"

text \<open>Division of \<open>big.Int\<close> is Euclidean.\<close>

definition big_Div :: "int \<Rightarrow> int \<Rightarrow> int" where
  "big_Div x y = (if y > 0 then x div y else - (x div (- y)))"

definition big_Mod :: "int \<Rightarrow> int \<Rightarrow> int" where
  "big_Mod x y = x mod \<bar>y\<bar>"

text \<open>\<open>Exp(x, y, m)\<close> by repeated squaring.\<close>

fun pow_mod :: "int \<Rightarrow> int \<Rightarrow> nat \<Rightarrow> int" where
  "pow_mod m b n =
     (if n = 0 then 1 mod m
      else let h = pow_mod m (b * b mod m) (n div 2) in if odd n then b * h mod m else h)"

declare pow_mod.simps [simp del]

section \<open>The stack\<close>

definition stackLimit :: nat where
  "stackLimit = 1024"

text \<open>The callers of \<open>Push\<close> ignore its error: on a full stack nothing happens.\<close>

definition stack_Push :: "int \<Rightarrow> int list \<Rightarrow> int list" where
  "stack_Push v st = (if length st \<ge> stackLimit then st else v # st)"

definition stack_Back :: "nat \<Rightarrow> int list \<Rightarrow> int option" where
  "stack_Back n st = (if n < length st then Some (st ! n) else None)"

definition stack_Swap :: "nat \<Rightarrow> int list \<Rightarrow> int list option" where
  "stack_Swap n st = (if n < length st then Some (st[0 := st ! n, n := st ! 0]) else None)"

definition stack_Dup :: "nat \<Rightarrow> int list \<Rightarrow> int list option" where
  "stack_Dup n st = (if 0 < n \<and> n \<le> length st then Some (st ! (n - 1) # st) else None)"

section \<open>Memory\<close>

record evm_memory =
  store :: bytes
  lastGasCost :: u64

definition NewMemory :: evm_memory where
  "NewMemory = \<lparr>store = [], lastGasCost = 0\<rparr>"

definition u64_len :: "'a list \<Rightarrow> u64" where
  "u64_len xs = of_nat (length xs)"

text \<open>\<open>copy(dst[lo:hi], value)\<close> on the backing slice.\<close>

definition copy_into :: "bytes \<Rightarrow> u64 \<Rightarrow> u64 \<Rightarrow> bytes \<Rightarrow> bytes option" where
  "copy_into bs lo hi v =
     (if lo \<le> hi \<and> hi \<le> u64_len bs
      then let n = min (unat hi - unat lo) (length v) in
           Some (take (unat lo) bs @ take n v @ drop (unat lo + n) bs)
      else None)"

definition mem_Set :: "u64 \<Rightarrow> u64 \<Rightarrow> bytes \<Rightarrow> evm_memory \<Rightarrow> evm_memory option" where
  "mem_Set offset sz v m =
     (if sz = 0 then Some m
      else if offset + sz > u64_len (store m) then None
      else map_option (\<lambda>bs. m\<lparr>store := bs\<rparr>) (copy_into (store m) offset (offset + sz) v))"

definition mem_Set32 :: "u64 \<Rightarrow> int \<Rightarrow> evm_memory \<Rightarrow> evm_memory option" where
  "mem_Set32 offset val m =
     (if offset + 32 > u64_len (store m) then None
      else
        let b = big_bytes val in
        case copy_into (store m) offset (offset + 32) (replicate 32 0) of
          None \<Rightarrow> None
        | Some bs \<Rightarrow>
            map_option (\<lambda>bs. m\<lparr>store := bs\<rparr>) (copy_into bs (offset + 32 - u64_len b) (offset + 32) b))"

definition mem_Resize :: "u64 \<Rightarrow> evm_memory \<Rightarrow> evm_memory" where
  "mem_Resize sz m =
     (if u64_len (store m) < sz then m\<lparr>store := store m @ replicate (unat (sz - u64_len (store m))) 0\<rparr> else m)"

definition mem_Get :: "int \<Rightarrow> int \<Rightarrow> evm_memory \<Rightarrow> bytes option" where
  "mem_Get offset sz m =
     (if sz = 0 then Some []
      else if sz < 0 then None
      else go_slice (store m) offset (wrap64 (offset + sz)))"

definition mem_Len :: "evm_memory \<Rightarrow> int" where
  "mem_Len m = int (length (store m))"

definition MaxMemorySize :: u64 where
  "MaxMemorySize = 32 * 1024 * 1024"

definition MemoryCost :: "u64 \<Rightarrow> u64 \<Rightarrow> u64 \<times> bool" where
  "MemoryCost currentSize newSize =
     (if newSize \<le> currentSize then (0, True)
      else if newSize > MaxMemorySize then (0, False)
      else if newSize > NOT 0 - 31 then (0, False)
      else
        let newWords = (newSize + 31) div 32;
            newCost = newWords * 3 + (newWords * newWords) div 512 in
        if currentSize = 0 then (newCost, True)
        else
          let oldWords = (currentSize + 31) div 32;
              oldCost = oldWords * 3 + (oldWords * oldWords) div 512 in
          (newCost - oldCost, True))"

section \<open>Contracts and jump destinations\<close>

record contract =
  CallerAddress :: address
  C_Address :: address
  Code :: bytes
  C_CodeHash :: hash
  Input :: bytes
  Gas :: u64
  StateGasReservoir :: u64
  C_Value :: "int option"

definition NewContract :: "address \<Rightarrow> address \<Rightarrow> int option \<Rightarrow> u64 \<Rightarrow> contract" where
  "NewContract caller addr value gas =
     \<lparr>CallerAddress = caller, C_Address = addr, Code = [], C_CodeHash = 0, Input = [], Gas = gas,
      StateGasReservoir = 0, C_Value = value\<rparr>"

definition GetOp :: "contract \<Rightarrow> u64 \<Rightarrow> byte" where
  "GetOp c n = (if n < u64_len (Code c) then Code c ! unat n else 0)"

definition UseGas :: "u64 \<Rightarrow> contract \<Rightarrow> contract option" where
  "UseGas gas c = (if Gas c < gas then None else Some (c\<lparr>Gas := Gas c - gas\<rparr>))"

definition SetCallCode :: "address option \<Rightarrow> hash \<Rightarrow> bytes \<Rightarrow> contract \<Rightarrow> contract" where
  "SetCallCode addr h c ct =
     (let ct = ct\<lparr>Code := c, C_CodeHash := h\<rparr> in
      case addr of None \<Rightarrow> ct | Some a \<Rightarrow> ct\<lparr>C_Address := a\<rparr>)"

definition IsPush :: "byte \<Rightarrow> bool" where
  "IsPush b \<longleftrightarrow> 0x60 \<le> b \<and> b \<le> 0x7f"

text \<open>
  The scan that fills the \<open>jumpdests\<close> cache, from position \<open>i\<close> on.  The cache is a function of the
  code, so the model recomputes it.
\<close>

function analyzeJumpdests :: "bytes \<Rightarrow> nat \<Rightarrow> nat list" where
  "analyzeJumpdests c i =
     (if i < length c
      then (if c ! i = 0x5b then [i] else []) @
           analyzeJumpdests c (i + (if IsPush (c ! i) then unat (c ! i - 0x60 + 1) else 0) + 1)
      else [])"
  by pat_completeness auto
termination
  by (relation "measure (\<lambda>(c, i). length c - i)") auto

declare analyzeJumpdests.simps [simp del]

definition isCode :: "contract \<Rightarrow> u64 \<Rightarrow> bool" where
  "isCode c pos = (unat pos \<in> set (analyzeJumpdests (Code c) 0))"

definition validJumpdest :: "contract \<Rightarrow> int \<Rightarrow> bool" where
  "validJumpdest c dest =
     (let udest = Uint64 dest in
      if BitLen dest > 63 \<or> udest \<ge> u64_len (Code c) then False
      else if Code c ! unat udest \<noteq> 0x5b then False
      else isCode c udest)"

section \<open>Arithmetic and comparison\<close>

definition toU256 :: "int \<Rightarrow> int" where
  "toU256 v = v AND (2 ^ 256 - 1)"

definition toS256 :: "int \<Rightarrow> int" where
  "toS256 v = (if v < 2 ^ 255 then v else v - 2 ^ 256)"

definition fromS256 :: "int \<Rightarrow> int" where
  "fromS256 v = (if v \<ge> 0 then v else v + 2 ^ 256)"

fun opAdd :: "int list \<Rightarrow> int list option" where
  "opAdd (x # y # st) = Some (toU256 (x + y) # st)"
| "opAdd _ = None"

fun opSub :: "int list \<Rightarrow> int list option" where
  "opSub (x # y # st) = Some (toU256 (x - y) # st)"
| "opSub _ = None"

fun opMul :: "int list \<Rightarrow> int list option" where
  "opMul (x # y # st) = Some (toU256 (x * y) # st)"
| "opMul _ = None"

fun opDiv :: "int list \<Rightarrow> int list option" where
  "opDiv (x # y # st) = Some ((if y \<noteq> 0 then big_Div x y else 0) # st)"
| "opDiv _ = None"

fun opSdiv :: "int list \<Rightarrow> int list option" where
  "opSdiv (x # y # st) =
     (let sx = toS256 x; sy = toS256 y in
      if sy = 0 then Some (0 # st)
      else
        let q = big_Div \<bar>sx\<bar> \<bar>sy\<bar>;
            q = (if sgn sx \<noteq> sgn sy then - q else q) in
        Some (toU256 (fromS256 q) # st))"
| "opSdiv _ = None"

fun opMod :: "int list \<Rightarrow> int list option" where
  "opMod (x # y # st) = Some ((if y \<noteq> 0 then big_Mod x y else 0) # st)"
| "opMod _ = None"

fun opSmod :: "int list \<Rightarrow> int list option" where
  "opSmod (x # y # st) =
     (let sx = toS256 x; sy = toS256 y in
      if sy = 0 then Some (0 # st)
      else
        let r = big_Mod \<bar>sx\<bar> \<bar>sy\<bar>;
            r = (if sx < 0 then - r else r) in
        Some (toU256 (fromS256 r) # st))"
| "opSmod _ = None"

fun opAddmod :: "int list \<Rightarrow> int list option" where
  "opAddmod (x # y # z # st) = Some ((if z \<noteq> 0 then toU256 (big_Mod (x + y) z) else 0) # st)"
| "opAddmod _ = None"

fun opMulmod :: "int list \<Rightarrow> int list option" where
  "opMulmod (x # y # z # st) = Some ((if z \<noteq> 0 then toU256 (big_Mod (x * y) z) else 0) # st)"
| "opMulmod _ = None"

fun opExp :: "int list \<Rightarrow> int list option" where
  "opExp (base # exponent # st) = Some (pow_mod (2 ^ 256) base (nat exponent) # st)"
| "opExp _ = None"

fun opSignExtend :: "int list \<Rightarrow> int list option" where
  "opSignExtend (back # num # st) =
     (if back < 31 then
        let n = unat (Uint64 back * 8 + 7);
            mask = push_bit n 1 - 1 in
        Some (toU256 (if bit num n then num OR NOT mask else num AND mask) # st)
      else Some (num # st))"
| "opSignExtend _ = None"

definition of_flag :: "bool \<Rightarrow> int" where
  "of_flag b = (if b then 1 else 0)"

fun opLt :: "int list \<Rightarrow> int list option" where
  "opLt (x # y # st) = Some (of_flag (x < y) # st)"
| "opLt _ = None"

fun opGt :: "int list \<Rightarrow> int list option" where
  "opGt (x # y # st) = Some (of_flag (x > y) # st)"
| "opGt _ = None"

fun opSlt :: "int list \<Rightarrow> int list option" where
  "opSlt (x # y # st) = Some (of_flag (toS256 x < toS256 y) # st)"
| "opSlt _ = None"

fun opSgt :: "int list \<Rightarrow> int list option" where
  "opSgt (x # y # st) = Some (of_flag (toS256 x > toS256 y) # st)"
| "opSgt _ = None"

fun opEq :: "int list \<Rightarrow> int list option" where
  "opEq (x # y # st) = Some (of_flag (x = y) # st)"
| "opEq _ = None"

fun opIsZero :: "int list \<Rightarrow> int list option" where
  "opIsZero (x # st) = Some (of_flag (x = 0) # st)"
| "opIsZero _ = None"

section \<open>Bits\<close>

fun opAnd :: "int list \<Rightarrow> int list option" where
  "opAnd (x # y # st) = Some ((x AND y) # st)"
| "opAnd _ = None"

fun opOr :: "int list \<Rightarrow> int list option" where
  "opOr (x # y # st) = Some ((x OR y) # st)"
| "opOr _ = None"

fun opXor :: "int list \<Rightarrow> int list option" where
  "opXor (x # y # st) = Some ((x XOR y) # st)"
| "opXor _ = None"

fun opNot :: "int list \<Rightarrow> int list option" where
  "opNot (x # st) = Some (toU256 (NOT x) # st)"
| "opNot _ = None"

fun opByte :: "int list \<Rightarrow> int list option" where
  "opByte (th # val # st) =
     (if th < 32 then
        let b = big_bytes val in
        if length b > 32 then None
        else
          let padded = replicate (32 - length b) 0 @ b;
              i = unat (Uint64 th) in
          if i < 32 then Some (uint (padded ! i) # st) else None
      else Some (0 # st))"
| "opByte _ = None"

fun opSHL :: "int list \<Rightarrow> int list option" where
  "opSHL (shift # val # st) =
     Some ((if shift \<ge> 256 then 0 else toU256 (push_bit (unat (Uint64 shift)) val)) # st)"
| "opSHL _ = None"

fun opSHR :: "int list \<Rightarrow> int list option" where
  "opSHR (shift # val # st) = Some ((if shift \<ge> 256 then 0 else drop_bit (unat (Uint64 shift)) val) # st)"
| "opSHR _ = None"

fun opSAR :: "int list \<Rightarrow> int list option" where
  "opSAR (shift # val # st) =
     (let signed = toS256 val in
      Some ((if shift \<ge> 256 then (if signed \<ge> 0 then 0 else 2 ^ 256 - 1)
             else toU256 (fromS256 (drop_bit (unat (Uint64 shift)) signed))) # st))"
| "opSAR _ = None"

fun opCLZ :: "int list \<Rightarrow> int list option" where
  "opCLZ (x # st) = Some (uint (word_of_int (256 - int (BitLen x)) :: u64) # st)"
| "opCLZ _ = None"

fun opPop :: "int list \<Rightarrow> int list option" where
  "opPop (x # st) = Some st"
| "opPop _ = None"

section \<open>Immediate operands of EIP-8024\<close>

definition decodeSingle :: "byte \<Rightarrow> int" where
  "decodeSingle x = (if x \<le> 90 then uint x + 17 else uint x - 20)"

definition decodePair :: "byte \<Rightarrow> int \<times> int" where
  "decodePair x =
     (let k = (if x \<le> 79 then uint x else uint x - 48); q = k div 16; r = k mod 16 in
      if q < r then (q + 1, r + 1) else (r + 1, 29 - q))"

section \<open>Powers\<close>

lemma pow_mod_correct: "0 < m \<Longrightarrow> pow_mod m b n = b ^ n mod m"
proof (induction m b n rule: pow_mod.induct)
  case (1 m b n)
  show ?case
  proof (cases "n = 0")
    case False
    define h where "h = pow_mod m (b * b mod m) (n div 2)"
    have "h = (b * b mod m) ^ (n div 2) mod m" using 1 False by (simp add: h_def)
    also have "\<dots> = b ^ (2 * (n div 2)) mod m" by (simp add: power_mod power_mult power2_eq_square)
    finally have h: "h = b ^ (2 * (n div 2)) mod m" .
    have p: "pow_mod m b n = (if odd n then b * h mod m else h)"
      using False by (simp add: pow_mod.simps [of m b n] h_def Let_def)
    show ?thesis
    proof (cases "odd n")
      case True
      then have "b ^ n = b * b ^ (2 * (n div 2))" by (metis odd_two_times_div_two_succ power_Suc Suc_eq_plus1)
      then show ?thesis using p True h by (simp add: mod_mult_right_eq)
    next
      case False
      then show ?thesis using p h by simp
    qed
  qed (simp add: pow_mod.simps [of m b 0])
qed

end
