(* ===== verification/Secp256k1.thy ===== *)
theory Secp256k1
  imports Evm_Machine
begin

text \<open>
  The curve arithmetic of \<^verbatim>\<open>src/pkg/core/types/signer.go\<close>: affine points of
  \<open>y\<^sup>2 = x\<^sup>3 + 7\<close> over the prime field of secp256k1, with \<open>(0, 0)\<close> as the point at infinity, scalar multiplication,
  verification and recovery of public keys, and the same of \<^verbatim>\<open>src/pkg/crypto/secp256k1\<close>, which
  \<open>crypto.Ecrecover\<close> calls.  The results are shown to stay on the curve and in the field.
\<close>

section \<open>Numbers\<close>

definition secp256k1P :: int where
  "secp256k1P = 0xfffffffffffffffffffffffffffffffffffffffffffffffffffffffefffffc2f"

definition secp256k1NCopy :: int where
  "secp256k1NCopy = 0xfffffffffffffffffffffffffffffffebaaedce6af48a03bbfd25e8cd0364141"

definition secp256k1Gx :: int where
  "secp256k1Gx = 0x79be667ef9dcbbac55a06295ce870b07029bfcdb2dce28d959f2815b16f81798"

definition secp256k1Gy :: int where
  "secp256k1Gy = 0x483ada7726a3c4655da4fbfc0e1108a8fd17b448a68554199c47d08ffb10d4b8"

text \<open>\<open>big.Int.ModInverse\<close> for a positive modulus, by the extended Euclidean algorithm.\<close>

function egcd :: "int \<Rightarrow> int \<Rightarrow> int \<times> int \<times> int" where
  "egcd a b =
     (if b \<le> 0 then (a, 1, 0)
      else let (d, x, y) = egcd b (a mod b) in (d, y, x - a div b * y))"
  by pat_completeness auto

termination
  by (relation "measure (\<lambda>(a, b). nat b)") (auto simp: zless_nat_eq_int_zless)

declare egcd.simps [simp del]

definition ModInverse :: "int \<Rightarrow> int \<Rightarrow> int option" where
  "ModInverse g n = (let (d, x, y) = egcd (g mod n) n in if d = 1 then Some (x mod n) else None)"

section \<open>Points\<close>

type_synonym point = "int \<times> int"

definition signerComputeY :: "int \<Rightarrow> int option" where
  "signerComputeY x =
     (let p = secp256k1P; x3 = (x * x mod p * x mod p + 7) mod p;
          y = pow_mod p x3 (nat ((p + 1) div 4)) in
      if y * y mod p \<noteq> x3 then None else Some y)"

definition signerPointDouble :: "point \<Rightarrow> point" where
  "signerPointDouble = (\<lambda>(x1, y1).
     if y1 = 0 then (0, 0)
     else
       let p = secp256k1P; num = 3 * (x1 * x1 mod p) mod p; den = 2 * y1 mod p in
       case ModInverse den p of
         None \<Rightarrow> (0, 0)
       | Some denInv \<Rightarrow>
           let slope = num * denInv mod p; x3 = (slope * slope - 2 * x1) mod p in
           (x3, ((x1 - x3) * slope - y1) mod p))"

definition signerPointAdd :: "point \<Rightarrow> point \<Rightarrow> point" where
  "signerPointAdd = (\<lambda>(x1, y1) (x2, y2).
     if x1 = 0 \<and> y1 = 0 then (x2, y2)
     else if x2 = 0 \<and> y2 = 0 then (x1, y1)
     else if x1 = x2 \<and> y1 = y2 then signerPointDouble (x1, y1)
     else if x1 = x2 then (0, 0)
     else
       let p = secp256k1P; dy = (y2 - y1) mod p; dx = (x2 - x1) mod p in
       case ModInverse dx p of
         None \<Rightarrow> (0, 0)
       | Some dxInv \<Rightarrow>
           let slope = dy * dxInv mod p; x3 = (slope * slope - x1 - x2) mod p in
           (x3, ((x1 - x3) * slope - y1) mod p))"

definition signerScalarMult :: "point \<Rightarrow> int \<Rightarrow> point" where
  "signerScalarMult b k =
     (let scalar = k mod secp256k1NCopy in
      if scalar = 0 then (0, 0)
      else
        fold (\<lambda>i r. let r = signerPointDouble r in if bit scalar i then signerPointAdd r b else r)
          (rev [0..<BitLen scalar]) (0, 0))"

section \<open>Signatures\<close>

definition signerVerify :: "bytes \<Rightarrow> int \<Rightarrow> int \<Rightarrow> point \<Rightarrow> bool" where
  "signerVerify hash r s q =
     (let n = secp256k1NCopy in
      if r \<le> 0 \<or> r \<ge> n \<or> s \<le> 0 \<or> s \<ge> n then False
      else
        let e = big_set_bytes hash in
        case ModInverse s n of
          None \<Rightarrow> False
        | Some sInv \<Rightarrow>
            let u1 = e * sInv mod n; u2 = r * sInv mod n;
                (rx, _) = signerPointAdd (signerScalarMult (secp256k1Gx, secp256k1Gy) u1) (signerScalarMult q u2) in
            rx mod n = r)"

text \<open>The point \<open>Q\<close> of which \<open>recoverPubkey\<close> returns the encoding.\<close>

definition recover_point :: "bytes \<Rightarrow> int \<Rightarrow> int \<Rightarrow> byte \<Rightarrow> point option" where
  "recover_point hash r s v =
     (if r \<ge> secp256k1P then None
      else case signerComputeY r of
        None \<Rightarrow> None
      | Some y \<Rightarrow>
          let y = (if of_bool (odd y) \<noteq> v AND 1 then secp256k1P - y else y) in
          (case ModInverse r secp256k1NCopy of
             None \<Rightarrow> None
           | Some rInv \<Rightarrow>
               let sR = signerScalarMult (r, y) s;
                   (eGx, eGy) = signerScalarMult (secp256k1Gx, secp256k1Gy) (big_set_bytes hash);
                   diff = signerPointAdd sR (eGx, (secp256k1P - eGy) mod secp256k1P);
                   q = signerScalarMult diff rInv in
               if q = (0, 0) then None
               else if \<not> signerVerify hash r s q then None
               else Some q))"

definition recoverPubkey :: "bytes \<Rightarrow> int \<Rightarrow> int \<Rightarrow> byte \<Rightarrow> bytes option" where
  "recoverPubkey hash r s v =
     map_option (\<lambda>(qx, qy). 0x04 # be_fixed 32 (nat qx) @ be_fixed 32 (nat qy)) (recover_point hash r s v)"

section \<open>The package secp256k1\<close>

text \<open>
  \<^verbatim>\<open>src/pkg/crypto/secp256k1/secp256k1_curve.go\<close>.  Coordinates are numbers, never nil.
  \<open>ScalarMult\<close> takes the scalar as bytes; \<open>big_bytes\<close> is \<open>big.Int.Bytes\<close>.
\<close>

record secp256k1Curve =
  curve_p :: int
  curve_n :: int
  curve_b :: int
  curve_gx :: int
  curve_gy :: int

definition S256 :: secp256k1Curve where
  "S256 = \<lparr>curve_p = 0xfffffffffffffffffffffffffffffffffffffffffffffffffffffffefffffc2f,
     curve_n = 0xfffffffffffffffffffffffffffffffebaaedce6af48a03bbfd25e8cd0364141, curve_b = 7,
     curve_gx = 0x79be667ef9dcbbac55a06295ce870b07029bfcdb2dce28d959f2815b16f81798,
     curve_gy = 0x483ada7726a3c4655da4fbfc0e1108a8fd17b448a68554199c47d08ffb10d4b8\<rparr>"

definition IsOnCurve :: "secp256k1Curve \<Rightarrow> point \<Rightarrow> bool" where
  "IsOnCurve c = (\<lambda>(x, y).
     if x < 0 \<or> y < 0 then False
     else if x \<ge> curve_p c \<or> y \<ge> curve_p c then False
     else
       let y2 = y * y mod curve_p c; x3 = (x * x mod curve_p c * x mod curve_p c + curve_b c) mod curve_p c in
       y2 = x3)"

definition curve_Double :: "secp256k1Curve \<Rightarrow> point \<Rightarrow> point" where
  "curve_Double c = (\<lambda>(x1, y1).
     if y1 = 0 then (0, 0)
     else
       let x1sq = x1 * x1 mod curve_p c; num = 3 * x1sq mod curve_p c; den = 2 * y1 mod curve_p c in
       case ModInverse den (curve_p c) of
         None \<Rightarrow> (0, 0)
       | Some denInv \<Rightarrow>
           let slope = num * denInv mod curve_p c; x3 = (slope * slope - 2 * x1) mod curve_p c in
           (x3, ((x1 - x3) * slope - y1) mod curve_p c))"

definition curve_Add :: "secp256k1Curve \<Rightarrow> point \<Rightarrow> point \<Rightarrow> point" where
  "curve_Add c = (\<lambda>(x1, y1) (x2, y2).
     if x1 = 0 \<and> y1 = 0 then (x2, y2)
     else if x2 = 0 \<and> y2 = 0 then (x1, y1)
     else if x1 = x2 \<and> y1 = y2 then curve_Double c (x1, y1)
     else if x1 = x2 then (0, 0)
     else
       let dy = (y2 - y1) mod curve_p c; dx = (x2 - x1) mod curve_p c in
       case ModInverse dx (curve_p c) of
         None \<Rightarrow> (0, 0)
       | Some dxInv \<Rightarrow>
           let slope = dy * dxInv mod curve_p c; x3 = (slope * slope - x1 - x2) mod curve_p c in
           (x3, ((x1 - x3) * slope - y1) mod curve_p c))"

definition ScalarMult :: "secp256k1Curve \<Rightarrow> point \<Rightarrow> bytes \<Rightarrow> point" where
  "ScalarMult c b k =
     (let scalar = big_set_bytes k mod curve_n c in
      if scalar = 0 then (0, 0)
      else
        fold (\<lambda>i r. let r = curve_Double c r in if bit scalar i then curve_Add c r b else r)
          (rev [0..<BitLen scalar]) (0, 0))"

definition ScalarBaseMult :: "secp256k1Curve \<Rightarrow> bytes \<Rightarrow> point" where
  "ScalarBaseMult c k = ScalarMult c (curve_gx c, curve_gy c) k"

definition computeY :: "int \<Rightarrow> int \<Rightarrow> int option" where
  "computeY x p =
     (let x3 = (x * x mod p * x mod p + 7) mod p; y = pow_mod p x3 (nat ((p + 1) div 4)); y2 = y * y mod p in
      if y2 \<noteq> x3 then None else Some y)"

datatype secp_error = ErrInvalidSignature | ErrInvalidRecoveryID | ErrSignatureLength | ErrHashLength

definition recoverPublicKey :: "bytes \<Rightarrow> int \<Rightarrow> int \<Rightarrow> byte \<Rightarrow> (secp_error, point) outcome" where
  "recoverPublicKey hash r s v =
     (let c = S256; x = r in
      if x \<ge> curve_p c then Err ErrInvalidRecoveryID
      else case computeY x (curve_p c) of
        None \<Rightarrow> Err ErrInvalidSignature
      | Some y \<Rightarrow>
          let y = (if of_bool (odd y) \<noteq> v AND 1 then curve_p c - y else y) in
          if \<not> IsOnCurve c (x, y) then Err ErrInvalidSignature
          else case ModInverse r (curve_n c) of
            None \<Rightarrow> Err ErrInvalidSignature
          | Some rInv \<Rightarrow>
              let e = big_set_bytes hash;
                  sR = ScalarMult c (x, y) (big_bytes s);
                  (eGx, eGy) = ScalarBaseMult c (big_bytes e);
                  negEGy = curve_p c - eGy;
                  diff = curve_Add c sR (eGx, negEGy);
                  q = ScalarMult c diff (big_bytes rInv) in
              if q = (0, 0) then Err ErrInvalidSignature else Ok q)"

text \<open>\<^verbatim>\<open>src/pkg/crypto/secp256k1/secp256k1.go\<close>\<close>

definition FromECDSAPub :: "point \<Rightarrow> bytes" where
  "FromECDSAPub = (\<lambda>(x, y). 0x04 # be_fixed 32 (nat x) @ be_fixed 32 (nat y))"

definition SigToPub :: "bytes \<Rightarrow> bytes \<Rightarrow> (secp_error, point) outcome" where
  "SigToPub hash sig =
     (if length sig \<noteq> 65 then Err ErrSignatureLength
      else if length hash \<noteq> 32 then Err ErrHashLength
      else
        let r = big_set_bytes (take 32 sig); s = big_set_bytes (take 32 (drop 32 sig)); v = sig ! 64 in
        if v > 1 then Err ErrInvalidRecoveryID else recoverPublicKey hash r s v)"

definition Ecrecover :: "bytes \<Rightarrow> bytes \<Rightarrow> (secp_error, bytes) outcome" where
  "Ecrecover hash sig = map_ok FromECDSAPub (SigToPub hash sig)"


definition ValidateSignatureValues :: "byte \<Rightarrow> int option \<Rightarrow> int option \<Rightarrow> bool \<Rightarrow> bool" where
  "ValidateSignatureValues v r s homestead =
     (case (r, s) of
        (Some r, Some s) \<Rightarrow>
          \<not> v > 1 \<and> \<not> (r \<le> 0 \<or> s \<le> 0) \<and> \<not> (r \<ge> secp256k1NCopy \<or> s \<ge> secp256k1NCopy) \<and>
          \<not> (homestead \<and> s > secp256k1NCopy div 2)
      | _ \<Rightarrow> False)"

section \<open>Points stay on the curve\<close>

lemma egcd_bezout: "egcd a b = (d, x, y) \<Longrightarrow> a * x + b * y = d"
proof (induction a b arbitrary: d x y rule: egcd.induct)
  case (1 a b)
  show ?case
  proof (cases "b \<le> 0")
    case False
    obtain d' x' y' where r: "egcd b (a mod b) = (d', x', y')" by (metis prod_cases3)
    have e: "d = d'" "x = y'" "y = x' - a div b * y'"
      using 1(2) False r by (auto simp: egcd.simps [of a b])
    obtain q m where q: "a div b = q" "a mod b = m" "a = q * b + m" by (metis div_mult_mod_eq)
    have "b * x' + m * y' = d'" using 1(1) False r q(2) by simp
    moreover have "a * x + b * y = b * x' + m * y'" unfolding e q(1) by (subst q(3)) (simp add: algebra_simps)
    ultimately show ?thesis using e(1) by simp
  qed (use 1(2) in \<open>simp add: egcd.simps [of a b]\<close>)
qed

lemma ModInverse_dvd:
  assumes "ModInverse g n = Some i"
  shows "n dvd g * i - 1"
proof -
  obtain x y where e: "egcd (g mod n) n = (1, x, y)" and i: "i = x mod n"
    using assms by (auto simp: ModInverse_def split: if_splits prod.splits)
  have "(g mod n) * x + n * y = 1" using egcd_bezout [OF e] .
  moreover have "g mod n = g - n * (g div n)" "x mod n = x - n * (x div n)" by (simp_all add: minus_mult_div_eq_mod)
  ultimately have "g * i - 1 = n * (g div n * x - y - g * (x div n))" unfolding i by algebra
  then show ?thesis by simp
qed

lemma egcd_divides: "\<lbrakk>egcd a b = (d, x, y); 0 \<le> a; 0 \<le> b\<rbrakk> \<Longrightarrow> 0 \<le> d \<and> d dvd a \<and> d dvd b"
proof (induction a b arbitrary: d x y rule: egcd.induct)
  case (1 a b)
  show ?case
  proof (cases "b \<le> 0")
    case False
    obtain d' x' y' where r: "egcd b (a mod b) = (d', x', y')" by (metis prod_cases3)
    have "0 \<le> d' \<and> d' dvd b \<and> d' dvd a mod b" using 1(1) False r by simp
    moreover have "d = d'" using 1(2) False r by (auto simp: egcd.simps [of a b])
    ultimately show ?thesis by (metis dvd_mod_iff)
  qed (use 1(2-) in \<open>auto simp: egcd.simps [of a b] egcd.simps [of a 0]\<close>)
qed

text \<open>An inverse that exists is found.\<close>

lemma ModInverse_complete:
  assumes "n dvd g * i - 1" "0 \<le> i" "i < n"
  shows "ModInverse g n = Some i"
proof -
  obtain d x y where e: "egcd (g mod n) n = (d, x, y)" by (metis prod_cases3)
  have n: "0 < n" using assms(2,3) by linarith
  have d: "0 \<le> d" "d dvd g mod n" "d dvd n" using egcd_divides [OF e] n by simp_all
  then have "d dvd g" by (metis dvd_mod_iff)
  then have "d dvd 1" using d(3) assms(1) by (metis dvd_diff_right_iff dvd_mult2 dvd_trans)
  then have "d = 1" using d(1) by simp
  then obtain z where z: "ModInverse g n = Some z" and zn: "0 \<le> z" "z < n" using e n by (auto simp: ModInverse_def)
  have "n dvd g * z - 1" by (rule ModInverse_dvd [OF z])
  moreover have "i - z = i * (1 - g * z) + z * (g * i - 1)" by (simp add: algebra_simps)
  ultimately have "n dvd i - z" using assms(1) by (metis dvd_add dvd_diff_commute dvd_mult)
  then have "i = z" using assms(2,3) zn n by (metis mod_eq_dvd_iff mod_pos_pos_trivial)
  then show ?thesis using z by simp
qed

definition on_curve :: "int \<Rightarrow> point \<Rightarrow> bool" where
  "on_curve p = (\<lambda>(x, y). (x = 0 \<and> y = 0) \<or> p dvd y ^ 2 - x ^ 3 - 7)"

lemma infinity_curve [simp]: "on_curve p (0, 0)"
  by (simp add: on_curve_def)

text \<open>A line through two points of the curve, or tangent to it, meets it in the third point.\<close>

lemma third_point:
  fixes p m x1 y1 x2 :: int
  defines "x3 \<equiv> m * m - x1 - x2"
  defines "A \<equiv> 2 * m\<^sup>2 * x1 - 2 * m * y1 - (x1 * x2 + x1 * x3 + x2 * x3)"
  assumes "p dvd y1 ^ 2 - x1 ^ 3 - 7" "p dvd A"
    and "p dvd x3' - x3" "p dvd y3' - ((x1 - x3') * m - y1)"
  shows "on_curve p (x3', y3')"
proof -
  obtain k a b c where k: "y1 ^ 2 - x1 ^ 3 - 7 = p * k" "A = p * a" "x3' - x3 = p * b" "y3' - ((x1 - x3') * m - y1) = p * c"
    using assms(3-6) by (auto simp: dvd_def)
  define y3 where "y3 = (x1 - x3) * m - y1"
  have "y3 ^ 2 - x3 ^ 3 - 7 = (y1 ^ 2 - x1 ^ 3 - 7) - A * (x3 - x1)"
    unfolding y3_def A_def x3_def by algebra
  then have *: "y3 ^ 2 - x3 ^ 3 - 7 = p * (k - a * (x3 - x1))" using k by algebra
  have x: "x3' = x3 + p * b" and y: "y3' = y3 + p * (c - b * m)" using k unfolding y3_def by algebra+
  have "y3' ^ 2 - x3' ^ 3 - 7 = (y3 ^ 2 - x3 ^ 3 - 7) +
      p * ((c - b * m) * (2 * y3 + p * (c - b * m)) - b * (3 * x3\<^sup>2 + 3 * x3 * (p * b) + (p * b)\<^sup>2))"
    unfolding x y by algebra
  then have "p dvd y3' ^ 2 - x3' ^ 3 - 7" unfolding * by (simp add: distrib_left [symmetric])
  then show ?thesis by (simp add: on_curve_def)
qed


lemma mod_dvd: "(p :: int) dvd a mod p - a"
  by (metis dvd_diff_commute dvd_minus_mod)

lemma tangent:
  fixes p :: int
  assumes "p dvd y1 ^ 2 - x1 ^ 3 - 7" and "p dvd num - 3 * x1\<^sup>2" "p dvd den - 2 * y1" "p dvd den * i - 1"
    and m: "p dvd m - num * i"
    and "p dvd x3 - (m * m - 2 * x1)" "p dvd y3 - ((x1 - x3) * m - y1)"
  shows "on_curve p (x3, y3)"
proof (rule third_point [of p y1 x1 m x1])
  obtain a b c d where k: "num - 3 * x1\<^sup>2 = p * a" "den - 2 * y1 = p * b" "den * i - 1 = p * c" "m - num * i = p * d"
    using assms(2-5) unfolding dvd_def by blast
  have "2 * m\<^sup>2 * x1 - 2 * m * y1 - (x1 * x1 + x1 * (m * m - x1 - x1) + x1 * (m * m - x1 - x1)) = 3 * x1\<^sup>2 - 2 * y1 * m"
    by algebra
  also have "\<dots> = p * (b * m - a - den * d - num * c)" using k by algebra
  finally show "p dvd 2 * m\<^sup>2 * x1 - 2 * m * y1 - (x1 * x1 + x1 * (m * m - x1 - x1) + x1 * (m * m - x1 - x1))" by simp
qed (use assms in \<open>simp_all add: algebra_simps\<close>)

lemma chord:
  fixes p :: int
  assumes c1: "p dvd y1 ^ 2 - x1 ^ 3 - 7" and "p dvd y2 ^ 2 - x2 ^ 3 - 7"
    and "p dvd dy - (y2 - y1)" "p dvd dx - (x2 - x1)" "p dvd dx * i - 1" "p dvd m - dy * i"
    and "p dvd x3 - (m * m - x1 - x2)" "p dvd y3 - ((x1 - x3) * m - y1)"
  shows "on_curve p (x3, y3)"
proof (rule third_point [OF c1, of m x2])
  let ?A = "2 * m\<^sup>2 * x1 - 2 * m * y1 - (x1 * x2 + x1 * (m * m - x1 - x2) + x2 * (m * m - x1 - x2))"
  obtain a b c d k1 k2 where k: "dy - (y2 - y1) = p * a" "dx - (x2 - x1) = p * b" "dx * i - 1 = p * c" "m - dy * i = p * d"
    "y1 ^ 2 - x1 ^ 3 - 7 = p * k1" "y2 ^ 2 - x2 ^ 3 - 7 = p * k2"
    using assms(1-6) unfolding dvd_def by blast
  define t where "t = a + dy * c + d * dx - m * b"
  have "m * (x2 - x1) + y1 = y2 + p * t" using k unfolding t_def by algebra
  moreover have "?A * (x2 - x1) = (x2 ^ 3 + 7 - (m * (x2 - x1) + y1)\<^sup>2) - (x1 ^ 3 + 7 - y1\<^sup>2)" by algebra
  ultimately have "?A * (x2 - x1) = p * (k1 - k2 - t * (2 * y2 + p * t))" using k by algebra
  then have "?A = p * (i * (k1 - k2 - t * (2 * y2 + p * t)) + i * b * ?A - c * ?A)" using k by algebra
  then show "p dvd ?A" by (metis dvd_triv_left)
qed (use assms in simp_all)

lemma signerPointDouble_curve:
  assumes "on_curve secp256k1P q"
  shows "on_curve secp256k1P (signerPointDouble q)"
proof -
  obtain x y where q: "q = (x, y)" by fastforce
  show ?thesis
  proof (cases "y = 0 \<or> ModInverse (2 * y mod secp256k1P) secp256k1P = None")
    case True
    then show ?thesis by (auto simp: q signerPointDouble_def on_curve_def Let_def)
  next
    case False
    then obtain i where i: "ModInverse (2 * y mod secp256k1P) secp256k1P = Some i" by blast
    have "secp256k1P dvd 3 * (x * x mod secp256k1P) mod secp256k1P - 3 * x\<^sup>2"
      by (simp add: mod_eq_dvd_iff [symmetric] mod_mult_right_eq power2_eq_square)
    moreover have "secp256k1P dvd y ^ 2 - x ^ 3 - 7" using assms False by (auto simp: q on_curve_def)
    ultimately have "on_curve secp256k1P (signerPointDouble (x, y))"
      using False i unfolding signerPointDouble_def
      by (simp only: Let_def case_prod_conv if_False option.case de_Morgan_disj)
        (rule tangent [OF _ _ mod_dvd ModInverse_dvd [OF i] mod_dvd mod_dvd mod_dvd], assumption+)
    then show ?thesis by (simp add: q)
  qed
qed


lemma signerPointAdd_curve:
  assumes "on_curve secp256k1P q1" "on_curve secp256k1P q2"
  shows "on_curve secp256k1P (signerPointAdd q1 q2)"
proof -
  obtain x1 y1 x2 y2 where q: "q1 = (x1, y1)" "q2 = (x2, y2)" by fastforce
  consider "q1 = (0, 0) \<or> q2 = (0, 0)" | "q1 \<noteq> (0, 0)" "q2 \<noteq> (0, 0)" "x1 = x2"
    | "q1 \<noteq> (0, 0)" "q2 \<noteq> (0, 0)" "x1 \<noteq> x2" by blast
  then show ?thesis
  proof cases
    case 1
    then show ?thesis using assms by (auto simp: q signerPointAdd_def)
  next
    case 2
    then show ?thesis using signerPointDouble_curve [OF assms(1)] by (auto simp: q signerPointAdd_def)
  next
    case 3
    then have c: "secp256k1P dvd y1 ^ 2 - x1 ^ 3 - 7" "secp256k1P dvd y2 ^ 2 - x2 ^ 3 - 7"
      using assms by (auto simp: q on_curve_def)
    show ?thesis
    proof (cases "ModInverse ((x2 - x1) mod secp256k1P) secp256k1P")
      case None
      then show ?thesis using 3 by (auto simp: q signerPointAdd_def)
    next
      case (Some i)
      note chord [OF c mod_dvd mod_dvd ModInverse_dvd [OF Some] mod_dvd mod_dvd mod_dvd]
      then show ?thesis using 3 Some by (auto simp: q signerPointAdd_def Let_def)
    qed
  qed
qed

lemma scalar_loop_curve:
  assumes "on_curve secp256k1P b" "on_curve secp256k1P q"
  shows "on_curve secp256k1P
    (fold (\<lambda>i r. let r = signerPointDouble r in if bit scalar i then signerPointAdd r b else r) js q)"
  using assms(2)
  by (induction js arbitrary: q) (simp_all add: Let_def signerPointAdd_curve signerPointDouble_curve assms(1))

lemma signerScalarMult_curve:
  assumes "on_curve secp256k1P b"
  shows "on_curve secp256k1P (signerScalarMult b k)"
  unfolding signerScalarMult_def using scalar_loop_curve [OF assms infinity_curve]
  by (simp only: Let_def infinity_curve split: if_split)  blast

lemma generator_curve: "on_curve secp256k1P (secp256k1Gx, secp256k1Gy)"
proof -
  have "secp256k1Gy ^ 2 - secp256k1Gx ^ 3 - 7 = secp256k1P * (- 0x1b888e01a06e974017a28a5b4da436169761c9730b7aeedf75fc60f6a33cfc7792fe74711f025d590b10e57f1b3a7ce38ffc4c885c515894b45c19c9f413e5e9)"
    by (simp add: power2_eq_square power3_eq_cube secp256k1P_def secp256k1Gx_def secp256k1Gy_def)
  then show ?thesis by (simp add: on_curve_def)
qed

lemma negated_curve:
  assumes "on_curve p (x, y)"
  shows "on_curve p (x, (p - y) mod p)"
proof (cases "x = 0 \<and> y = 0")
  case False
  let ?z = "(p - y) mod p"
  obtain k c where k: "?z - (p - y) = p * k" "y\<^sup>2 - x ^ 3 - 7 = p * c"
    using mod_dvd [of p "p - y"] assms False unfolding on_curve_def dvd_def by auto
  then have "?z\<^sup>2 - x ^ 3 - 7 = p * (k * (2 * (p - y) + p * k) + p - 2 * y + c)" by algebra
  then show ?thesis by (simp add: on_curve_def)
qed simp


lemma signerComputeY_curve: "signerComputeY x = Some y \<Longrightarrow> secp256k1P dvd y ^ 2 - x ^ 3 - 7"
proof -
  assume "signerComputeY x = Some y"
  then have "y * y mod secp256k1P = (x * x mod secp256k1P * x mod secp256k1P + 7) mod secp256k1P"
    by (simp add: signerComputeY_def Let_def split: if_splits)
  also have "\<dots> = (x * x * x + 7) mod secp256k1P" by (metis mod_add_left_eq mod_mult_left_eq)
  finally show ?thesis by (simp add: mod_eq_dvd_iff power2_eq_square power3_eq_cube algebra_simps)
qed


lemma recover_point_curve:
  assumes "recover_point hash r s v = Some q"
  shows "on_curve secp256k1P q \<and> q \<noteq> (0, 0) \<and> signerVerify hash r s q"
proof -
  obtain y rInv where y: "signerComputeY r = Some y" and rInv: "ModInverse r secp256k1NCopy = Some rInv"
    using assms by (auto simp: recover_point_def split: if_splits option.splits)
  define y' where "y' = (if of_bool (odd y) \<noteq> v AND 1 then secp256k1P - y else y)"
  obtain eGx eGy where eG: "signerScalarMult (secp256k1Gx, secp256k1Gy) (big_set_bytes hash) = (eGx, eGy)" by fastforce
  define d where "d = signerPointAdd (signerScalarMult (r, y') s) (eGx, (secp256k1P - eGy) mod secp256k1P)"
  have q: "q = signerScalarMult d rInv" "q \<noteq> (0, 0)" "signerVerify hash r s q"
    using assms y rInv eG by (auto simp: recover_point_def Let_def y'_def d_def split: if_splits)
  have "(secp256k1P - y)\<^sup>2 - r ^ 3 - 7 = (y\<^sup>2 - r ^ 3 - 7) + secp256k1P * (secp256k1P - 2 * y)" by algebra
  then have "secp256k1P dvd (secp256k1P - y)\<^sup>2 - r ^ 3 - 7"
    using signerComputeY_curve [OF y] by (metis dvd_add dvd_triv_left)
  then have "on_curve secp256k1P (r, y')"
    using signerComputeY_curve [OF y] by (auto simp: on_curve_def y'_def)
  moreover have "on_curve secp256k1P (eGx, (secp256k1P - eGy) mod secp256k1P)"
    using signerScalarMult_curve [OF generator_curve, of "big_set_bytes hash"] unfolding eG by (rule negated_curve)
  ultimately have "on_curve secp256k1P d"
    unfolding d_def by (intro signerPointAdd_curve signerScalarMult_curve)
  then show ?thesis using q signerScalarMult_curve by simp
qed

section \<open>Points stay in the field\<close>

definition in_field :: "point \<Rightarrow> bool" where
  "in_field = (\<lambda>(x, y). 0 \<le> x \<and> x < secp256k1P \<and> 0 \<le> y \<and> y < secp256k1P)"

lemma P_pos [simp]: "0 < secp256k1P"
  by (simp add: secp256k1P_def)

lemma in_field_0 [simp]: "in_field (0, 0)"
  by (simp add: in_field_def)

lemma in_field_mod [simp]: "in_field (x mod secp256k1P, y mod secp256k1P)"
  by (simp add: in_field_def)

lemma signerPointDouble_field [simp]: "in_field (signerPointDouble q)"
  by (cases q) (simp add: signerPointDouble_def Let_def split: option.split)

lemma signerPointAdd_field: "in_field (signerPointAdd a b) \<or> signerPointAdd a b = a \<or> signerPointAdd a b = b"
  by (cases a; cases b) (simp add: signerPointAdd_def Let_def split: option.split)

lemma signerScalarMult_field: "in_field (signerScalarMult b k) \<or> signerScalarMult b k = b"
proof -
  let ?f = "\<lambda>i r. let r = signerPointDouble r in if bit (k mod secp256k1NCopy) i then signerPointAdd r b else r"
  have "in_field (fold ?f js q) \<or> fold ?f js q = b" if "in_field q \<or> q = b" for js q
    using that
  proof (induction js arbitrary: q)
    case (Cons j js)
    have "in_field (?f j q) \<or> ?f j q = b"
      using signerPointAdd_field [of "signerPointDouble q" b] signerPointDouble_field [of q] by (auto simp: Let_def)
    then show ?case using Cons.IH by simp
  qed simp
  then show ?thesis by (simp add: signerScalarMult_def Let_def)
qed

lemma generator_field [simp]: "in_field (secp256k1Gx, secp256k1Gy)"
  by (simp add: in_field_def secp256k1Gx_def secp256k1Gy_def secp256k1P_def)

lemma signerComputeY_range:
  assumes "signerComputeY x = Some y"
  shows "0 \<le> y" "y < secp256k1P"
proof -
  have "\<exists>z n. y = pow_mod secp256k1P z n"
    using assms unfolding signerComputeY_def Let_def by (metis option.distinct(1) option.inject)
  then show "0 \<le> y" "y < secp256k1P" by (auto simp: pow_mod_correct)
qed

text \<open>The square root of zero is negated to \<open>p\<close>, so only \<open>y \<le> p\<close> holds of the chosen root.\<close>

definition near_field :: "point \<Rightarrow> bool" where
  "near_field = (\<lambda>(x, y). 0 \<le> x \<and> x < secp256k1P \<and> 0 \<le> y \<and> y \<le> secp256k1P)"

lemma near_field: "in_field q \<Longrightarrow> near_field q"
  by (auto simp: in_field_def near_field_def)

lemma near_field_Add: "near_field a \<Longrightarrow> near_field b \<Longrightarrow> near_field (signerPointAdd a b)"
  using signerPointAdd_field [of a b] near_field by metis

lemma near_field_Mult: "near_field b \<Longrightarrow> near_field (signerScalarMult b k)"
  using signerScalarMult_field [of b k] near_field by metis

lemma recover_point_range:
  assumes "recover_point hash r s v = Some q"
  shows "near_field q"
proof -
  obtain y rInv where y: "signerComputeY r = Some y" and rInv: "ModInverse r secp256k1NCopy = Some rInv"
    and r: "r < secp256k1P"
    using assms by (auto simp: recover_point_def split: if_splits option.splits)
  define y' where "y' = (if of_bool (odd y) \<noteq> v AND 1 then secp256k1P - y else y)"
  obtain eGx eGy where eG: "signerScalarMult (secp256k1Gx, secp256k1Gy) (big_set_bytes hash) = (eGx, eGy)" by fastforce
  define d where "d = signerPointAdd (signerScalarMult (r, y') s) (eGx, (secp256k1P - eGy) mod secp256k1P)"
  have q: "q = signerScalarMult d rInv" and ver: "signerVerify hash r s q"
    using assms y rInv eG by (auto simp: recover_point_def Let_def y'_def d_def split: if_splits)
  have "0 < r" using ver by (cases q) (simp add: signerVerify_def Let_def split: if_splits)
  then have "near_field (r, y')" using r signerComputeY_range [OF y] by (simp add: near_field_def y'_def)
  moreover have "near_field (eGx, eGy)" using near_field_Mult [OF near_field [OF generator_field]] eG by metis
  then have "near_field (eGx, (secp256k1P - eGy) mod secp256k1P)"
    by (simp add: near_field_def order_less_imp_le)
  ultimately show ?thesis unfolding q d_def by (intro near_field_Mult near_field_Add)
qed

text \<open>The methods of the curve are those of \<^verbatim>\<open>signer.go\<close>.\<close>

lemma S256_sel [simp]: "curve_p S256 = secp256k1P" "curve_n S256 = secp256k1NCopy" "curve_b S256 = 7"
  "curve_gx S256 = secp256k1Gx" "curve_gy S256 = secp256k1Gy"
  by (simp_all add: S256_def secp256k1P_def secp256k1NCopy_def secp256k1Gx_def secp256k1Gy_def)

lemma curve_Double_eq: "curve_Double S256 = signerPointDouble"
  unfolding curve_Double_def signerPointDouble_def Let_def S256_sel by (rule refl)

lemma curve_Add_eq: "curve_Add S256 = signerPointAdd"
  unfolding curve_Add_def signerPointAdd_def curve_Double_eq Let_def S256_sel by (rule refl)

lemma ScalarMult_eq: "ScalarMult S256 b k = signerScalarMult b (big_set_bytes k)"
  unfolding ScalarMult_def signerScalarMult_def curve_Double_eq curve_Add_eq Let_def S256_sel by (rule refl)

lemma computeY_eq: "computeY x secp256k1P = signerComputeY x"
  by (simp add: computeY_def signerComputeY_def Let_def)

lemma length_Ecrecover: "Ecrecover hash sig = Ok pub \<Longrightarrow> length pub = 65"
  by (cases "SigToPub hash sig") (auto simp: Ecrecover_def FromECDSAPub_def split: prod.splits)

end
