(* ===== verification/Secp256k1_Keys.thy ===== *)
theory Secp256k1_Keys
  imports Secp256k1
begin

text \<open>
  Recovered keys.  The square root of 8 is computed along a certified chain of squarings modulo the
  prime, so that public key recovery can be evaluated on a signature whose point has the abscissa 1,
  and the soundness of recovery is stated with that case.
\<close>

section \<open>Powers of 8 along a chain of squarings\<close>

text \<open>
  Each step squares, multiplies by 8 if \<open>b\<close> holds, and reduces modulo \<open>p\<close>, which is \<open>2\<^sup>256\<close> less
  \<open>0x1000003d1\<close>; a step of the chain holds the quotient and the remainder.
\<close>

fun chain_ok :: "bool \<Rightarrow> int \<Rightarrow> (int \<times> int) list \<Rightarrow> int \<Rightarrow> bool" where
  "chain_ok b a [] z \<longleftrightarrow> a = z"
| "chain_ok b a ((k, c) # cs) z \<longleftrightarrow>
     (if b then 8 * a\<^sup>2 else a\<^sup>2) + k * 0x1000003d1 =
       k * 0x10000000000000000000000000000000000000000000000000000000000000000 + c \<and> chain_ok b c cs z"

definition pow8 :: "nat \<Rightarrow> int \<Rightarrow> bool" where
  "pow8 m a \<longleftrightarrow> 8 ^ m mod secp256k1P = a mod secp256k1P"

lemma pow8_step:
  assumes "pow8 m a" and "(if b then 8 * a\<^sup>2 else a\<^sup>2) + k * 0x1000003d1 =
      k * 0x10000000000000000000000000000000000000000000000000000000000000000 + c"
  shows "pow8 (2 * m + of_bool b) c"
proof -
  let ?f = "8 ^ of_bool b :: int"
  have "c = ?f * a\<^sup>2 - k * secp256k1P" using assms(2) by (cases b) (simp_all add: secp256k1P_def)
  then have "c mod secp256k1P = ?f * a\<^sup>2 mod secp256k1P"
    by (simp add: mod_diff_eq [symmetric, of "?f * a\<^sup>2"])
  also have "\<dots> = ?f * (a mod secp256k1P)\<^sup>2 mod secp256k1P" by (metis mod_mult_right_eq power_mod)
  also have "\<dots> = ?f * (8 ^ m)\<^sup>2 mod secp256k1P"
    using assms(1) unfolding pow8_def by (metis mod_mult_right_eq power_mod)
  also have "?f * (8 ^ m)\<^sup>2 = 8 ^ (2 * m + of_bool b)" by (simp add: power_add power_mult [symmetric] mult.commute)
  finally show ?thesis by (simp add: pow8_def)
qed

lemma pow8_chain:
  "\<lbrakk>pow8 m a; chain_ok b a cs z\<rbrakk> \<Longrightarrow> pow8 (2 ^ length cs * (m + of_bool b) - of_bool b) z"
proof (induction b a cs z arbitrary: m rule: chain_ok.induct)
  case (2 b a k c cs z)
  have c: "pow8 (2 * m + of_bool b) c" and cs: "chain_ok b c cs z"
    using pow8_step [OF 2(2), of b k c] 2(3) unfolding chain_ok.simps by blast+
  have "pow8 (2 ^ length cs * (2 * m + of_bool b + of_bool b) - of_bool b) z" by (rule 2(1) [OF c cs])
  moreover have "2 ^ length cs * (2 * m + of_bool b + of_bool b) = 2 ^ length ((k, c) # cs) * (m + of_bool b)" by simp
  ultimately show ?case by (simp only:)
qed simp

lemmas chain_eval = chain_ok.simps if_True if_False power_numeral Num.pow.simps Num.sqr.simps mult_num_simps
  add_num_simps numeral_times_numeral numeral_plus_numeral mult_zero_left add_0_right add_0_left simp_thms

section \<open>The chain to the square root of 8\<close>

lemma root_01: "chain_ok True 0x8
   [(0x0,
     0x200),
    (0x0,
     0x200000),
    (0x0,
     0x200000000000),
    (0x0,
     0x200000000000000000000000),
    (0x0,
     0x200000000000000000000000000000000000000000000000),
    (0x20000000000000000000000000000000,
     0x2000007a20000000000000000000000000000000),
    (0x200000f44001d214,
     0x20000000000000000000000000000000000000002000016e6005763c46f2be54),
    (0x2000000000000000000000000000000000000000400002dcc00aec78ade57d22,
     0x2000000000000000200002dcc01b4f2e6af6e9a8423b390df91862c44b58eb42),
    (0x2000000000000000400005b980369e5cf5edd90a04ee9b522accf1f2413f02f5,
     0x9b733d5196ead3d7d46584b5f74a8a73b5530170eb05d057f0064eda0e0c3125),
    (0x2f326010795ef7b738d159afa098f169155163e95355db13737a52361b82491f8,
     0xd54c243194f23bd1c8072d42c343e5b505d26996b5bba8655f1d41ad4aca8e40),
    (0x58dbe5700234c16e8bd0cb4222f6ef85e15201bd384f8ca5f95520b2c8fa0471f,
     0xc7d9596504fba75f0162ec0c2509560c496a151c0c063bfb8090d43d8307ed4f),
    (0x4e01d0c1dd1c8b15ae218c9cc40f73ae8543d9e6c4b91d4a2eb2688727b154350,
     0xdfd6b91f8e1d43565a6b93eb2386970c7f708b0194b51bc5f3c66553e90d758),
    (0x61dbe54f801b99c3859a179a3b38d8b27f13b5b3b34c08655c752336969d749,
     0xfa4979de0410a481bc8fef9a2987b0c0f6cdaf15c910cc9309b7630b0e160f99),
    (0x7a59cb8e2d493996ff5b92c5f07f46086002cc9359f3a538c3098962ee4995d20,
     0xc8a8edb92a8c4a7e5427a8051630cac9aca587d971a96df706bf4c21c746b2a8),
    (0x4ea431751921b59eb8882927459cfa6a809134690853d806f64bd976ee5e663f3,
     0xe0f80ebd7fb9678b5cb81f3f2460e0a8d3f418259a893739be5bb6e968b3e463),
    (0x62d9851417c299554f8abc2c964a98d469d527a71eaff7585c101159006f142b0,
     0xb612492ff92e92021eae1155015470d7554d7c238bf3ee6c874dced7705373f8)]
   0xb612492ff92e92021eae1155015470d7554d7c238bf3ee6c874dced7705373f8"
  by (simp only: chain_eval)

lemma root_02: "chain_ok True 0xb612492ff92e92021eae1155015470d7554d7c238bf3ee6c874dced7705373f8
   [(0x40bf00af4afcd3a0c66b21f361ae93c9a91dd21f63d191e86466e99a9365895ad,
     0x48db2d41665fb3f6c255f046f018773af2b8702b33ac06d7fcb95e60a2d93b3d),
    (0xa5e028d9fbd85d5c027b080cc869d1d6433ab1a30c2d0084994ea740e5de5a41,
     0x84f3fa4ddb83aa0a508594bebcbbc167a3465fa166a1ba4c3c81b163be8fd659),
    (0x22864152b77555dd3214cb8dc4704be854a03360107198cad56201d2e99db1565,
     0x1d24bed9f8cbd373b394b679084a9aa0e5e4fbe70b5b33f0f3ffe2d86453fdfd),
    (0x1a8ac41cefa3710fc38fbed917d8d9c4dddfbb07de5411bda2cf984972abf038,
     0x2a5ff1967b3a1adc2ea509e1ca262ae2fd0fccd85aa06c84392867e952902600),
    (0x381cf9d490d99341c59d94a4aaa395e1edabe807b78772dc82f45050a3a3bb75,
     0x312c77513b95141a233b463bfe2f96882195c6f66377c45a86d8eb4bb0fe6985),
    (0x4b906b32a2c160e22aef0517b7d1ee76649b6510e0b03eccfe93975aac57956f,
     0xcd8352839096a94fd3b4dab40090a781c694f5278a5a98beca72b54e35944567),
    (0x527dcac22167e8cc788a49e9a602b8a5399f0499c3302015961c5cec43c9fec84,
     0xd5fe4887516d5d26edf5a42345a8e0517d534c0ed8c2c5e81c0f62771d9b1f4c),
    (0x597090a29748fbae106fbf945278cc51a3048160c32ca435e2330db4811bacb89,
     0x84e4d76a6f24c09623e7fc3cf97886b3a48939329fb00c79233e0785b8beba59),
    (0x227e655b16bbe980eb51e12340f56583103c700ebfed21108f1605938a55fd79a,
     0x63b17a934d5266141f25993199192cf4dba4e02c8e4927bdec7e1c61c0d16a42),
    (0x13695fec5417b0ac92989d99bb427f8e17ec88bcca41fb9cba70aab6245c82ff6,
     0x95e6b0b294947a272909c4c578523b00eb635e1e250255b9069e47afaff4d1f6),
    (0x2be32cc8ede6ecee18676b6c5806963414d8394c96849e317aeb39a03d6dd28ed,
     0xcf5c2fb67626b8019d7c2e95f41f95575b50690f53129579e07d0dadeb25f39d),
    (0x53fb1b2db38e056aa57efb1a1215b2a3414b93fb763e1bb22d4c08366055bf025,
     0xdb6138db7ab4cb83703689127ab7d610fd99bcf1022d820552e0a123fd8aef7d),
    (0x5dffbe19d3728987b0636ebdb868d0d44a2606b7abf068d3bcb6bdb0c7cadc8b8,
     0xe94a030d8b3699282e801c035e47564e260b6623aef74789cbf1baf0f9b01e80),
    (0x6a4be77a35a3982b335b7518542789a048bbd38ab05cf9c639bf88515da58e3b0,
     0xa8b05f3cc705c4426db799b5f8cbcb80c9398cd08e5d6247d266f00dea4ef2b0),
    (0x3793fb416e1bb1d49c378d0235441953c45cc1b07dff6bf5848d2fe1ece490353,
     0x8acc4be89d1c1217f3007057d62331e2ffa63fddf620d44b299d65f88f2f77c3),
    (0x25a0726fed4f63d51f070370e406b16d766a3e8dca1ffeb09ef052795bb10d56c,
     0x8b7e8e796c8cebd768fc7d80da17f808b1839498c2e581c34b9cab2348457574)]
   0x8b7e8e796c8cebd768fc7d80da17f808b1839498c2e581c34b9cab2348457574"
  by (simp only: chain_eval)

lemma root_03: "chain_ok True 0x8b7e8e796c8cebd768fc7d80da17f808b1839498c2e581c34b9cab2348457574
   [(0x260156a43559686c1a7753bfaf85ad60b4d5ffaf754a5ae7b6fa3ffee4292ee4c,
     0xe5e600427207d552a481fae973f4e4ae291f6e9367b911d950e87fa64619548c),
    (0x673aa58dabb37d7c14d28ea62760a04602ac40947cfe3cee43339fd6064a8e1eb,
     0x6b9b288a19512bd8006a09a4153ab1e33e891669526c3f6ec26c313ca2a7965b),
    (0x169d88f6c767faad29d06ee2b106d858893dca8df62763258938df2fe9fce70d1,
     0x8ef248f296e7fb6625b477c1dda434dff725d5f6985027f6727993d65b22b069),
    (0x27e8d71d8f6c022061f4769ad330d5848cce6e4de712617cfb9ddb0131dbd9594,
     0xbeeea52879ea8f6abbbe0dbce57d2809e3a46d92d5fe2eac57242bd85c2c325c),
    (0x47338dcfcb640849e4af95d07ef5c8d618da08c5c8ac5ea475c7e94e46e8e6e22,
     0xcabda4195457a13c48775346a98c4bb7abd1b126724a701622222287b9d2d842),
    (0x5047e9b9d7d8a534886dd50507fe7f63d1a0a68c57e83819f33b9718e415b7a6e,
     0x7b8fc5aeae9300aaf30eb9a4130406ab0410942d520130699f618eca5d9c5ee),
    (0x1dd1bc5a26c74d5f8539ee502404cb50e3a6c841eafb2280d2b9ffce0fe0bb4,
     0xf7e6e2eb67253642ab3239410b1f97d53c000b446e399be6805ba97a3dabf414),
    (0x7807ad0f6495d01330ea6a3be015807ea6a77090307c78cd97df743ca5c0bb6c9,
     0x7de583dd3d8f2520b1de8692034b599df878ae12e0518e4f4288f51e6425a199),
    (0x1ef4f8459ded0c4719124fe022863e0f4cf1d865fac28bbde08b293780e206095,
     0xe4458525c1bf77237c6280bd6b32e01670f54c22cfbb46192e965ae00b6f042d),
    (0x65c5f406265bdf27fa3b0960cd9f4a309418bbc9dd3bcf8bfaa0f2be992bed0ef,
     0x48293fa08a186f4b4a07e8bfb06328ff159d8e0c6348a36aaa52d15bf2f6df67),
    (0xa2b9d37df75318977c9582984b02c00c3fdc05e39c33765cd288bf8c79320375,
     0x9d8cd26f58c033c530ef4db3a56d09ee8ea0fda2805726f91bfa77e64f240d0d),
    (0x307b03c9b4cfd7e0f40a141cd2257032c9442bd684cd0eac51b1d5087b87376f7,
     0x9bde0c4989934b12a299ce1b17e58297974ce50881494997a40db833b99ef),
    (0x2f7351bd2e5cf9322a18e6a756355de025d097e2b20325c6da82158acda,
     0x2ab98f1ff2c2909ae7d52144266cb92a3ea2836368402b78442e8e2899381502),
    (0x390b4bb53ecb4ecf16ac15e86542de5844459e0d454f158a8ff966b5cb3f2e63,
     0x8a6d75fce40c286482a7e53b7c276e931110779caf4ce95dcc171a5c60eaa7f3),
    (0x256d19012acc3815d13aa9f9708e64deb846747c2f57d829599f81ef880a0ef38,
     0xdab6ab676408d17a6aba3edc0e83bfd2fe4f3784601cb73085965f4899887a00),
    (0x5d6dcf2220124559e2eef97620f37006d19348e723d9de73d69ebfa8681e1053b,
     0x891db8fda8698e0cf84c36fe24c9fc76c358848f7eef05cf9aa0753f7ce4f62b)]
   0x891db8fda8698e0cf84c36fe24c9fc76c358848f7eef05cf9aa0753f7ce4f62b"
  by (simp only: chain_eval)

lemma root_04: "chain_ok True 0x891db8fda8698e0cf84c36fe24c9fc76c358848f7eef05cf9aa0753f7ce4f62b
   [(0x24b869b976b35fb10e28fa53d500540069f16f354a5a0ee7eb4e142478369e706,
     0xf48c4613e640879f12b8ace78d999655dd936d0b2c13226356306d4b11a007ae),
    (0x74cdd93953eede496c41d3b31b1726fe5753753c7ddc8bf15bcf134fb05860e78,
     0x67f60586f2c8f6e27553b6acbbeb2079cc8b8250ba6cdd1c403bc88dc2750a18),
    (0x151bf2709b6b6ec1cff55c0880dbf9164bf735e0c5828aae2ffc6767502fd82a3,
     0x8c0b7842fd3c9671e0db64ee29d89e6c484dd346fab77771a32951283c2ea213),
    (0x264e4606699d7358eb41373c5f1c453612359800decae34ae78dad98367014e2e,
     0xc88f17370866b5c087aeee4607ccf7295dee129fdfd10b727d2defe6877bc8d6),
    (0x4e8ff220775b6709791517b45cac67cf2e7ffeb5ba79b88763b420cfc6f64f544,
     0x6873388948a4cd69dd01786384eaee10181b3bcc1c960ea8295a764b99e49fa4),
    (0x154ee8e5b16cc22ebfc68562cb36b33fd05de10f507c24196a8737654a96de6b8,
     0x6102726f55332f20bfc758b5bf64e13be58109c5ab7540f621b2e888d9d68cb8),
    (0x12616d5f2dbabb6811479089436b08a33c43a26c455b84efd5c7c91c67ce55842,
     0x25fa1f35b24fe5e4a550360ffaa1899bf927d3e7457a28b5d6513dc0af13f5e2),
    (0x2d120b33f1cb479e2a8ead0deb572a05ccecd5a9e60da6f36fbea0f4f6909fe0,
     0xc646dbd6c6fb15317c99a50ee9966fef5894216c99e7c612bc0b7c8c3ba50200),
    (0x4cc8d7d69905315d8040a227d2268a502006e95b6694414d70430bd66d43139ce,
     0x2a6676467b019c32e5bc8784b6c8001ca36c6ed7f56393b854b1597a6ffd9b2e),
    (0x382e3e8cb95ccab13f5e9373d1d62265cc9b354f9a4edb1f4c7e9cbe24ed5018,
     0x56135c3f1da345be10124207e9d1ba6ae07e50746dd47d165dfdef2c5948db8),
    (0xe7881b89d42c2fa8076fe0d8cb2352871554cb5c39b2d166f9c403eee3616d,
     0x28b78b2d15404b286ecf9ae13b3745ef8a25acdcde3414fcfbc0b5fa8b6872fd),
    (0x33cef8b2e613b3631359f1e4213937244780de218d887ee2041632ba503ca827,
     0x1ec3f4726993132a8c101b698d7fedafa18a6a47b1732402e91bbe3631302d1f),
    (0x1d941a4903acd77dd5aa708eee14a97eedd6054e4866785d4a464714f5600687,
     0x25f2f1077bdb03adbdb2f6fbc5de9e0f597a9e8ff6177d3f65e988da0018373f),
    (0x2d0101c5f714846c611f2a9a7cf0864f0e70a3b91fbb3d914af8170e001141e2,
     0xd4a34ee74c879570d8e8b999246b4d5a6a0f3dac4e90d1ee71d98b037fbd7b8a),
    (0x584f716e54cee3e483cb75109bbcef9bbb18aace003de9be4d8b242f319373641,
     0x5b1506f9828dc91b0021f4207e1266a33283a343e910948c4bdb2878c6c54131),
    (0x1033fa57c3f86ec5082c7937c9281dc09ed2a4ac52f0438fe11e2d0457ca3d362,
     0x52d9d222916521a089bf5a402996ca9affef8565670d04ee7b01e2bc3d59140a)]
   0x52d9d222916521a089bf5a402996ca9affef8565670d04ee7b01e2bc3d59140a"
  by (simp only: chain_eval)

lemma root_05: "chain_ok True 0x52d9d222916521a089bf5a402996ca9affef8565670d04ee7b01e2bc3d59140a
   [(0xd6821fa081e01195b82127305b94b0f75c066d16bb6fc215e82bb125df648044,
     0xea446f893e856e9d9aeab803c333a6bb6fa93ce241c3d0fa9618dbab32ba06a4),
    (0x6b3097192be6b9734978aea03a1f695d88e8dd06c4ec2312a5f4a3ed7fd0f1d1b,
     0x2a9fb75cb40979e2cb3aeda806118cee3b70664d72729391ccde3a557a8edc8b),
    (0x38c65e7d9c8355da20b7b3fb24dd56f6bf655d894deb4cc54c6828de528968bf,
     0xc531b7f202b2245b67087661114aa456c9fd4bac49ac9c42007cb31720025cb7),
    (0x4bf2c761337b8c65302f9309ce72aa7c691a370986230e9ba186a56a0b44658ba,
     0x60a58b151b7466a28c15a748535f8042ebc91c5b638fe1d6fd0444b4a3f8f462),
    (0x123e49ae34ae4f4a110bf75eeb7d44ba4f469df5100bbdfa37e42b163d5e5d5e9,
     0x87fa5d24ca9542cf18e44019a0829cff305f2b3607073a3d72826ce5eb7d0a59),
    (0x241d018b6db46c3b7ac940195cf342deeafbecf3c93af9ae18c9acf69e8af6826,
     0x11663637436df7c26f4b78dae22be9b7be885660237da4b6ef1445bb1015108e),
    (0x975e014b3cd974d8a0f8ceddbeb1bc2cfac635c8c5cbab7dafa96a83c0e483f,
     0xfee1d74867c1bd69c7d6271be1048dac0fcbaed4598cba0f99923a57f5722e8f),
    (0x7ee27737e81ac49767d6f7203a1033f6eb6bbe1beb583c16f8ba4c37b97e02b3e,
     0x9aa19e68a39d9f925a579102544aec6f495d3cf87b175ee3b0cfbfd64d22a6a6),
    (0x2eb36c4f433e627d5a31b2a51641274c83875aef65dcba120e6af0af6d8ffaaec,
     0xe53825a91a66826b7ca2935bee14cba1764a63ce2d2b7a0b4d69f6c28c58ebcc),
    (0x669ebfd88460a1c16de2d11f4169176679396187a76455a96813134aaf8804f62,
     0x98b8ce9c2298952203f318e565b1e70d34b294ece62e4c3e7720dfb10d304982),
    (0x2d8dfd61882349ab421ddeb15b976ce14ca1f6eb54b33741eff950681993473ab,
     0x5367af74ce5a3df9b1410c1653799925df9c2d35dcda8743d112dafb80089fbb),
    (0xd9632e23306bc1c685adb2da0b3e15bb50faaba3aa29b36d059ea1af0841c5be,
     0x6c1a193a2fab5df2fe008d886ff3132973a6314758662d17e4eb78777dd23ee6),
    (0x16d303f91d43584e9b463b3a78374c90ed948f4f99de1d7bf55bb2ea36762f1b2,
     0x4b0aab3a32b7ac4cfc6b05a74d615a57adde2e42eb82c89d7b08aeae76fe1d72),
    (0xaffa062f66531257bafce6dd78bb0a3d27cc510da3f43ddb87977d4bea5197e2,
     0x2bca4a122bd634f8e8d6d530f5bf3f6c84538ae42e138562c2a8b9778e3cdba2),
    (0x3beca5d8a6ad33c9fa450a6074deebce3265859774f7ed75665e0eb82e544675,
     0xad3bc3b99226372ff260ba0892c3ba4d284b5bbaa4aad5e48a9a939129578a5),
    (0x3a9cea3e4e5a9faf82376f9c100f0603f5ce88599390e2d6467304cdca9a695,
     0x910818851d010f1a68c70c210a091f1780ad66e7563b48aee2e079a20add916d)]
   0x910818851d010f1a68c70c210a091f1780ad66e7563b48aee2e079a20add916d"
  by (simp only: chain_eval)

lemma root_06: "chain_ok True 0x910818851d010f1a68c70c210a091f1780ad66e7563b48aee2e079a20add916d
   [(0x291516042ac31eea1ac7f558bdaee3a787e7ffca0b452ae07645631630c42016f,
     0x638904b8e2cc7aec88870b8097fa614c784c138e722ec7ca320db5182e5cbbe7),
    (0x1359a17e86b19945dabc2c0b025c9986d6f2d73d8e81f3bb42ca7f9c655534ff0,
     0x304b79508c8ad3cee236c40a132a2c007b8c3fc18d293e0e29fe4150828e6678),
    (0x48e31df41b1d37c881995d98f2cc896a6ca4a36924496396b68267e1ea6869f9,
     0x6de2ce5e86222550179ffeb286f8259f774b8f2801b77b3000063166499b3149),
    (0x17957656c1bd156ae87802eb2c7effc22338e708c14e1836819becbd240c4abd9,
     0x41cb309c1b0907b2ad242de66d452e36eefecc84bc6879b02ae54c24fdac0db1),
    (0x87467fab3442fc7a50520a8cfc6ebb2aca6fc59c492e2160131dceffd7cadc55,
     0xaed7bd88cb42e5c0017fc8fd0b66732b4a552683474e8bd140f19e8d91ce836d),
    (0x3bb4fdbaee33cff4252080f6d1530dd5bf3ed8f6a5d4ad1494c859ddac8b7de47,
     0x2121007fe236466dfd3d1535fa6320a3f37fdf23f6fcbcde428e9a990cdd303f),
    (0x224c3310ca548045eb1651a50fd163f3331140170c8ac3abe103372dce34428e,
     0xd34d5559d898b06484bcd8a5e058544b57a172e301002e2793416fdfe45f7bf6),
    (0x5734490747c663fec2eb48c083d7031e2f7dcb81b2ac352ea535f340d5e35cc77,
     0xfb7e4c845ebf856f5e35039c546162342a7178701acc719500878b76f023d547),
    (0x7b88742d7d7bd871a614d0a9738a7debf479409604d6c83dfc076af5bbf87657c,
     0xf0708c9bcec45c646be53d9186698b08832ac296602ebc1a2ac2058b0c841bc4),
    (0x70e99c8fbc9ff103f8014779ab86daa9c49e363a1248d6230e7e69f32f7d02f9b,
     0xa9aa021196f11325201e81684d0f2c6b9b72c80a0faed52930b96e16ea9d1f0b),
    (0x3838f3d0fc558582cd83ba2170a7f98c1fcd7dbd29a84360011402595c6598d4d,
     0x6e5e58802ff78ade929e42d929e4f65b57057037aee1eb4110ec368095d196a5),
    (0x17ca9b69a2fa2b25b8ba32b3112eb7ac5994cee3dfff28b0870f004b124f60552,
     0xc48f84261dc6d102831ef7fd4e4b037967a7bf6ae137769fd1471cfb2f6880ba),
    (0x4b760967a23284459dce99072b060fa3212b97cf14a90f3966640b3c5894422d6,
     0xdb63048465c52cd9bde3909473ffbbab60e8889bcd405017e776cfffbdd2bd6),
    (0x5e014803824d3c72403f398e4fa53132ab25fa2a7d1e734dea5419ef90cb361,
     0xe1d426c712089ebdcdcf75f9e008eb20fcb837b7885519c2b086de0851654c51),
    (0x639b4dfd16a45cbc13f7f3e4983b9ab34089c5c6e96b85dc6247be8b236a1761c,
     0x35b9acfc53b4f4478f45d061531da5f12ff0c7e7857d13649e78a1c303854de4),
    (0x5a33425fa1ef8ef604ff373179555a2985808cbe8427c68486517478b4c04921,
     0x77db7df935737af1d2dd2e00c0d8f6c580bc696d20196611486c7e75c6aeaf71)]
   0x77db7df935737af1d2dd2e00c0d8f6c580bc696d20196611486c7e75c6aeaf71"
  by (simp only: chain_eval)

lemma root_07: "chain_ok True 0x77db7df935737af1d2dd2e00c0d8f6c580bc696d20196611486c7e75c6aeaf71
   [(0x1c0ee5a73b0810567bd35f44b5b125cd00933299aa37f61e395b4ca0665e10b0f,
     0x10e2814ce38f78407705689befbfa6a177a49357f444865acc2a4c77de98b347),
    (0x8e8c4914c126636fad784219c1cb660ca2dd952a306736f3aad33c8469ca05f,
     0xf4e98e57e09fdfd01f132a5260271805f62c4238d3ed2fa1ffaf6fe8aaa2f817),
    (0x75270635f7a6a082f911238138e60b69394a9ace9789c0b28e526b96b91187c41,
     0x9b1081d7dea9f01cdb2078783844cfbb46da2c29bdadabce8785c7318ab6c499),
    (0x2ef67f25f23c7137fe072440303ccf5bdc8157f2b1cbc1a911895c7a1fae44127,
     0x9f5538cb736a6083475e75eebfadc2da3d6c8f8b53531424c889a6e2551c15f),
    (0x31957c75be89365af965fcc7b4a2a77ad07f245c3d6ef1b9eb148d5f54e706f,
     0x78f3f261b6659f5a2487bec2ee9710a000a5438254df98e1222f162761ce21a7),
    (0x1c92cdd8d2fe363a71cf396b42c44e52ff7986b4726027a9f738f28a48cbbd404,
     0x8cee2e2b6ab51c42392dc429c2acbdd7a81ffafbbfdc8b954c4c72e6f257facc),
    (0x26cab00caee210af8a9312fcf1478fcfed5671fd2cacafbe6b298d39c1bddc152,
     0x927288ab14814f85cfd5d8ec30225943d00c03b3e3150571b513afc93c275e72),
    (0x29e36b90925bfcfe9f8ff29bcebac35b62666fd8cdc3c25d50c42fcecf74d07e4,
     0x889df78b89fba88122103a90e868eb6d5b1c681d0418c2b542f976fa999a7344),
    (0x24741c3ee990990451b341eb16f3d68331eb17b564d1934a221ed2a3bcfb691da,
     0xdced6fa667161733b54d06dd364092ed4fc5f5a5ade2e0af9cc31e4f0573f17a),
    (0x5f547a0ef5fd482b6bd0e5a338c7d2e785d508e40b3bb4665a42b5271221baf8f,
     0xa78272227a8a1b6b01f6c6c64d358727c51407fc5ae1f7897c7c3b3f06c071df),
    (0x36cdb9b08ce3aee89e803c643c725e65abdcdc6f95aa8ab655645cfc35ccc9d61,
     0xc6d6f240f3be8d90b2c8676742f1c5c393767568bc162dec988de411d219a139),
    (0x4d38999b3170916fc6bc47fa042fb26ad23a1494e7c820cb5a3864499fe35fe55,
     0x3744cd57d386e6b70bbe659ecb9d927c4fbe2eeed03017e33009d32b616597ed),
    (0x5f7515cbc210eda5d21d6b89b766bc1069f1789c031f257e7901647d5ac7254e,
     0xf804abad65c3f6a4f4548212bd720a88e7666e1563bb7ec04b66903c1b60e9f6),
    (0x7824865ae2dbfbb2e6ada751aaac06d0a627a553e5383aa9506744db739889e74,
     0xbb9a1d598d3caae69c58f89abe53dc1c587f2a59d21d52487825418824f27bd4),
    (0x44bd41d413b8fbfee3588652506ae71004a60c925f4db13e1a2078e89115927ec,
     0x54106cb102e0c00b81778fe5a3cd5dcfc321d29a2e4d936c1942af16faec982c),
    (0xdcd6430f714d77915a1196bb595d7987e9801c3f94aab1ae7f81a3327eeb8acc,
     0xd9ccd52843f2bf9202975109e9dd23e0328228f50aa94ddc077579f93d8ef10c)]
   0xd9ccd52843f2bf9202975109e9dd23e0328228f50aa94ddc077579f93d8ef10c"
  by (simp only: chain_eval)

lemma root_08: "chain_ok True 0xd9ccd52843f2bf9202975109e9dd23e0328228f50aa94ddc077579f93d8ef10c
   [(0x5ca672a1566ced870ce33a78df965f95be39a56bec432448dfb27bd7e410a89c2,
     0x6fb08bc97d78742206c4cd81df66955e683d96c36da8a9e1215238d85b7481e2),
    (0x185d497c9e17b39621b511d7ecdaa27c8d0ec465a5bca1bc1b0a93161e5134721,
     0x96347aa183682b6c77712400cd1b0c92bae15a280cb2b19c51d973a1543ed111),
    (0x2c10c53ba92ce62d4af371a0fa85c389f33b83e3be417a358249a3e83d5c84f5f,
     0x1f47eb7b3077da0c8f4c2ebd7eb23ed9a4fa8003258a68dd218d147a993d0297),
    (0x1e93f9e2656a7c6d22bd84e44f9b8e849ff0cd99890031e856b3bf56b0366335,
     0x6fb5c2b816b0a5fe1a7ea85cb073cc1af45430a43ead0f76923f9814f7645cd),
    (0x185f8ff4480c6640b7e8f07a6b74167137576a6bdc8d60319dfd968a4903c80,
     0xc4e694ccc0cb1b039d9aedf0043ea38ac3a32192e67393e27177b7739a9815c8),
    (0x4bb8f1c49ecf68805ffa7a315567312955da5b5705225c93715032ccf2a399587,
     0xaca3d7cfffb8c141f74548d64a25117f05c076d60c5cffca63ee4a1b20970a37),
    (0x3a36496e043778bf4f8e743b611dfc2b5b3572f5924fa23ddb14ed78825010c90,
     0x90e465b93412f8e7de6a875f5bee38a7322a09b14aa8229fc456154ba353b018),
    (0x2900df1ada72e171bed338990984a2ac95e5146dc1e1ae316d5d450252a0200cd,
     0xcca96497c9c790b529510f8f607b37b4590d9ef7b1c4f0ea6b4e3bf4172d205d),
    (0x51cf3433f0c2b3e0ad477c4ff296fb8f8510e051fd29e240804dc2407d16b4828,
     0x98ac499e4bf01f21d6f5397739c771331eb6eaa900521685fb3e626710b96ef0),
    (0x2d8685af7e076c6964b52dcc1abdad460079948802bd5097c3d787c585ad41543,
     0xff6299c00065addcaf52ab00d19d14abf59d090565cc37c54f9c6cf1dafe2cb3),
    (0x7f62ca234a10f7587249d478806aa0d4869bfe6fe51ad2cb7a1c6b90d8bb0d5d8,
     0x1252f46dde7643e94df7e0df21b28f2350a921551761e2d9b1419ea6d5f046a0),
    (0xa7e2a07986624479f45a11d4dfa35c66d84d6a2d12dfffe295c87e0d688a82d,
     0x587c7b60601472581fbc9659a0ae3c15490b71cd4b466ebb8741ad95bb68f3bd),
    (0xf4ae8ad017071839a3b170539edab46a4a12aea856acad099811123cde00628e,
     0x5440b25773f730d907c792140cf444793647b298cd721eaf6d5455d1bc7aec36),
    (0xddd42b18608f765500bf146a6362efc9993b81c260148a1ae00799b336c5011a,
     0x1b487c34e026286efba36f115db085aec58cae7eb1d1ff6391f9271871360f5a),
    (0x1742f5ca0a4b30779386155789cbb796468f480a807e71298ac9856244d92d1c,
     0x2091fec2051d54e4567f316b474308516fc1dbba46402cda9f97c7e437f284fc),
    (0x21269798b4b5ad29aa6db6ac7b93c98eccd15bfd7f9b66ff49d0e92edf99274d,
     0xd0dcfc11580d9b5dd870b88966671aac6529bc82365cc4bcd7d9315023a5bd5d)]
   0xd0dcfc11580d9b5dd870b88966671aac6529bc82365cc4bcd7d9315023a5bd5d"
  by (simp only: chain_eval)

lemma root_09: "chain_ok True 0xd0dcfc11580d9b5dd870b88966671aac6529bc82365cc4bcd7d9315023a5bd5d
   [(0x5533ec2f328bcd31917df6dd63bb689c9fce65e6c491099e67b1b5f72e5469fe5,
     0x722eb06d96e66f7c918dbd9ba708b9f45f600bff2f3fcb169e636f0aa22bd73d),
    (0x1976ced2bdaf2a40da6fcf0c0d89185907e78a78bfe2fbd9cebd2dc42411cfec6,
     0x11a39135f4e166474529e74088983b79e51d81a17be1895920c16d1a3b5475ee),
    (0x9b90e5b3ccf8b22db095adfbcfac53a40c00f8bd9b62b4f2b1506db98651d15,
     0x5826fcb7009fa58ac762418b29c5a97d836592883cd58c39c5299db00dff4745),
    (0xf2d69d6e81d5ea06037835e577deb5a8f3a0e06fbdeca7582cedecccc01da77b,
     0xb4b06246f4ec47e2ff14a1b5bec5bf3f71af1745dd3887bb5276c644bb96f133),
    (0x3fc441dd87dbb894e8b40f29471ca7aeaa5b6a74241efeaa48d63de67d032d54c,
     0xf480e70234ec23f1e6e1f579dd45ecaf0cb6d1642483e2dd187dc33dfa288854),
    (0x74c2fca203c606180cc2c262de86ed313771c09b05fd1b6077916151188254805,
     0x5e77a29e6d345044a8dbc9d20d1fe6995f5e2469205649d5114cb5a52d12b795),
    (0x116e09aa77646aeb1e4afb06d540abfffb52617ede0a45d5c33b849e8ceedf32a,
     0x5b3e678885631e5ab2c8d46bf129ea345f8f63370e3634cd5247747d6eefe912),
    (0x1042b668af6a1bdd78236038f6c8c0d22e1cebd5e2b4868858269141f8c3d1c4a,
     0xc5d3a39eb0b87dd145872296cd06c78bd70d04a5930dd3544bcaae5413a7208a),
    (0x4c6fb464ae135c9684f64b67efa07727c1fc6bd0ea12fe91fc2db831f091f5447,
     0xe38f80d89528b5abf42fa8495d267882b9d4014d1ca5a2f81a7831b87206f617),
    (0x6523e778a5ab1107553720ffa363039dd17880a4c60ed69339ad045b9ba36fd57,
     0x29d12b22f4577923b4778f231d2de07ddab5cd826781909cd3972a8e38fe898f),
    (0x36a555c544ddf3e379ffffe5810bfd20eee9c810d2b2ec39f001b24514a7e31f,
     0xb5b618505d54676e497db68935d50d16b29ef79bfbd39872503c01622cb857),
    (0x407d7ff41c469c7fa77402469ec98f8816d1c51e71687c1b05021ec450fac,
     0x7d9499441a267b269cdc2996caeacf24b51f768bb42e87f8b46ace26a8ba3bf4),
    (0x1ecd39f70a0525110012e4fe3ce0d767a78b28dbb8cba132b4432e4049257cd05,
     0x353af2936f4a1706d9bf7c691f9758df1862081d2eb0f17c00eb9752e5e87495),
    (0x588bb01ee5f17362c22579ea15963ddbeddf4b3dc4600640710b45889ca0739d,
     0x974a771edc44697b9c68bd76b7cb7515b3d577262d36eaeadc761acb69942ff5),
    (0x2cb47717be8ee03e62cca403240d65dbe7ea01175b88726fa79896f33d9de7750,
     0xc7e3c187f05d398b2e65e08748800697390f65749321811dd0a599962c245c18),
    (0x4e09f0c11089bab331de132b70d73450ef8ed42f179f6ddfa3556a5fac1380e0e,
     0x6cbe6a1d46eb890bafa7383f8f169bc5fd0cea57420ae467cad0879ba5f7b56e)]
   0x6cbe6a1d46eb890bafa7383f8f169bc5fd0cea57420ae467cad0879ba5f7b56e"
  by (simp only: chain_eval)

lemma root_10: "chain_ok True 0x6cbe6a1d46eb890bafa7383f8f169bc5fd0cea57420ae467cad0879ba5f7b56e
   [(0x17189b9531a421aabe071ab8573626187ec7df5fcbd97df5d64b66f8391c941e2,
     0x732a3c909b791c49b0f526dbbba0cd3eb496c3c93827b417b508d1c97da49a2),
    (0x19e77cb0ecbaf6dbc48c486092e08c847dbea8d5437277592138778bbef743a,
     0xc1787ab568509b7f25b19b8fcccaf9d913ef598166430e88f9f5db740588e57a),
    (0x491b70dc66165f007f5de6410dc813df1392000373d3f15deb7275f349bb0a593,
     0x1e6ea0c403d62b3336a81389c6c471a30e60fbaccfe8070bfb7da33447c3d723),
    (0x1cf0ebe3f278c875b699ff9297c47797c469eab66f42768e9ed642e7a462e6db,
     0xbc2ba12a2f89e5b526020ed064cb144e9e8338f2fa5dcabea2a9b7dc4e618013),
    (0x45280e12bfba4c3a27d7782925a81183d0422f91cff659f5903017c8939e358b3,
     0xbfd1fd0972001fec91f39de969c5a4b14c1b9daf7c0424a880b66f18006d8e6b),
    (0x47dd81e99dd1ffc24bf7e47b51161a45efa78a53d0d0508391e4d97d03d895e58,
     0xa65a765218d58d7a30deb03456f58ef500507974de2a03d1952727a78c0813a0),
    (0x360cb8b4f04f196d5d77968c01add1c1a46d521e21e1743eb5617b12dd6864795,
     0x883e478103c5f15868dd161ef22013dc0d4fb9677fa49d56e5dafb4692804fa5),
    (0x24411d8fe53c7ab5b7d41a48a8b17c7143fd3d542ab86124e12c282f01d236519,
     0x2bab97c413ec21804e09e4f5f1c69f42b07ab7149f51c3ccdf16d697c24ed731),
    (0x3b98bfffc4e6b32772291b83fc911a9843a97e466990a0eec6bef94175d20909,
     0x7c78d4c2d4020ce60f3f7a8ebd29c28861e020be1f88a37daa223dbc7c8f3661),
    (0x1e42a392726e00ea2f3fe2c754e1dab30513e9e8b9a8f108a9ce7d38a6e4e8032,
     0x8fb537d26c1e9cf99411dfe40acc0de0166897f40d503d90e415fd9f18efc4da),
    (0x2855fa5288419709c1d6fc4cdbdeb9d8b43e36ae365e58b4c354e9b46c4a5c24a,
     0x26405bc9b7684964c51609fe45daf3c43665e897e30a44424e9e5d8eafeec98a),
    (0x2db95b6f41bd8a2231e1ee0b6235487233fa37c2cce719f2dc5ce32b1b844de8,
     0xcef87a2cc0d12a9e1469e40d3baf1d20df161f77ce5e0ba62eb4c05c3dfd4588),
    (0x53aa6ae67baa72b99870da6769a47171767cee343e99239131650f864e4192098,
     0x95581a2604eb11105e79b606faef60c4cb500f940421283673e2554d117a2618),
    (0x2b8fd6611f44610eff499aff7113877f9fcc9292a71e87e6ad360e0741044948f,
     0xa0944e9abb63eb85d087c24ee520360d1b51a2982a3edcc067bf9dbd3a1407bf),
    (0x325cdc1632a41cd33c256c813419ce82a7354727d9e907a460f20759165250f21,
     0xfba260da297c941958e512f9d9c2c7d8d1e3444825d5b8c62a1c17d2130ec0f9),
    (0x7babe875430d928ea12f0b848b280945697a40c4ab2469bdc3e02ea0f632e89c0,
     0x52cbf38c4dc215d030229516a224951d8c40721e1572b9d6c2720e8e9a2f4748)]
   0x52cbf38c4dc215d030229516a224951d8c40721e1572b9d6c2720e8e9a2f4748"
  by (simp only: chain_eval)

lemma root_11: "chain_ok True 0x52cbf38c4dc215d030229516a224951d8c40721e1572b9d6c2720e8e9a2f4748
   [(0xd63a5410503a825c828f4dac67d18b5dbadd07fd8a50a2d53330a44560d8822d,
     0xe2ac118d5282a919d0d40aac7ecb474fc22777f61e9f0a77475a61e29c90efbd),
    (0x645a21528e64d28f1431557be92d7e3789d2e859c3cf6076a3d35912aa9d096f8,
     0x819a7926148105283476ebd47b6c41beb1a8f54c1304fc5ea50b6a517e23b4c0),
    (0x20ce85a72de7dbbc6408760e2c8b42a91ba8d158d72cd1c109e0542ccfe81cc75,
     0x498aa51259807cc5e374900c97bcd9424b8eba673d76e9f5680a200bae51ca85),
    (0xa902e9d6ca2372fdba2770caa864b753328deddbe1daf5b2e4a8d4b87e836618,
     0xa4770884650ac0eea8f6b0695d4851cc5d69a240ec4261695cd6c1177679ea60),
    (0x34d45d21466a20fd16b2425e50224d78150437fc2bbd4e4df5f2284b23b4ae3dd,
     0xad722c9e1af75c80ce5fa1fd5106ffc945bdd2bbafc8cbc5b3132b10736cbe6d),
    (0x3ac1c19cba84891f66cf58ed0760938908e5bddf43e81723bc01f8b3cbaed0e86,
     0xa8a281770369a8bb9a37aa981a3ef7f5818d5fa71261f183d199d8849fa440ae),
    (0x378ad88a284a13fa3815e9e0a1ad2a46925b2d6093f24b2a340d0d16d78703bbf,
     0x19d5ec4475f397e550a9a81d2c66bd2d1be342f6cc55b374c5eda7e03e8fb60f),
    (0x14dbd7431821366c694b62a3740cacbff8f29570cc86ca04d4302c552d441e8e,
     0xc85ad941b1ba1cd3ddba3cb70f84f7a255ffae804593b83cb9ce188112d342f6),
    (0x4e6709da10221a084817cd3bf6184e0f36d347e4cbfa40843d0fd5379286dd46e,
     0x6b9bfafd24ecbb99fd198cd447db55438075681b5aa9b3e0f5496341a365daee),
    (0x169de16cc0be00f722d96c85f2a1bff4a4a61bc2874bd68d262e16344fcfff0ca,
     0x30c8e7d14bee161fcd8378ff399a8b79097c1749543de4ece3ccbc8004f79d0a),
    (0x4a5fa4cc2b5a7399dfaa700b071628c685416bbf2bc6dd17a188fd602657234f,
     0x238f8701d1ee24d127a03ad9c6c13d8da5374f1aa8d02ba4f48952871f97e39f),
    (0x27847b14d5148c566abd6164aedea0b54cf1b25ef0b6a1071e373eadc919c04a,
     0x2eae00a68634a613d59329a3a958dbbf86c262147e6dc8dafab07d0d0af1c072),
    (0x4417f405d4ce3c99b2ce0b686c958f3d5e93fe9667cf8b7dc52fc9a8e2b9cbb9,
     0x860422388808c30417b8d0c78367ae32f4879a410379e2f22bbfa088c18c1329),
    (0x231429f222603e864070f7f7fd1108b093ab75f2cd229e4e876efa98c20794d05,
     0xab66ad1abd7742534a081f476f1ffbffab9dc9b0222ff4676b7045933127d49d),
    (0x39612a380fbcba412bae995d0a9e06ed00b2526ce07cf5018460cf26bc34b28b5,
     0x1ab096ff4d591adb62ea51cecc7e9b1033916c8e12886f71040cf51de5299d0d),
    (0x1642c3de9e8509c8c0d7679e6b69fb8c39e743f3599961db9dfd2d52ba5cb934,
     0xd86814aebcc5cb58ae2be6b2f700822360ddc6d3eb9327bcb0b63764bff664bc)]
   0xd86814aebcc5cb58ae2be6b2f700822360ddc6d3eb9327bcb0b63764bff664bc"
  by (simp only: chain_eval)

lemma root_12: "chain_ok True 0xd86814aebcc5cb58ae2be6b2f700822360ddc6d3eb9327bcb0b63764bff664bc
   [(0x5b77e69bd719764f76e87e1cf4e2b59f840136627ac1a06a54134c7a55b494a0e,
     0x2335310977d54372b66bf5894b38dcc93fc94536adf37d344dffcad1aa4eefee),
    (0x26bcb3af70a477c4a24d60da8a0d8969c2d2382653dba3b745c46323b4ab5f0c,
     0x7d30a4c1b364d5360e9efd4fb64099c93ad84b074741e7aefeec0729f137c6ec),
    (0x1e9c4511adee3f37f5bcd38eb9342226eef98109b51c33c95c520de45fae942c8,
     0x4029ae711eab7798ce1c61cec2e8c9f2b9c48b4036139975869f0e15f40729c8),
    (0x80a6f00f337c332f1d012fa0701d458bd9282805e5755fe1829a9d8ed74a5e21,
     0xaada8dc56a4c19e9f031c8cbe10471c2bb20ce7fa50fd9624dc0c18920de9df1),
    (0x39037f6ff9f495adb79ef218332a106c3d77ef07b276d339f288f0a758e18e77d,
     0x81245dc1667dddd016f1201f5de743e70b4d72398217309d59168a44c8775b15),
    (0x2092d5d3b502e1c29fcfd2a14f071969c49c14964bfa3163facd3bccff30685b8,
     0x9678e81ca07405b4e360f0f8513bbe37f530c780cbf5c782e8a8044b6b53d100),
    (0x2c38f48dfca924bd8e2a8e56d11e611e87f3fe4173e64ba039e626791ec26767d,
     0x8ca7e7e9cb12c0be3b904dd83bcf02d641d9b1f639f8428956d0cb9cc3d2330d),
    (0x26a409e40d9d9ba355343a1f2483c298a7cc2685885909fded9694bdfeed0d749,
     0x48802c2db08c75b19778599e05122fbff31750609c51a01e0a214a94371712e1),
    (0xa442c82f44fa5c0b5318314204e0b6ceea18b48456d4abe2d21d4800b10d7642,
     0xcd661fde38518253e4014968921f3bf08e46a9e0b0cee330ce73e3ae52f39fea),
    (0x52665be3a79f7f1bd6aaef241546a1d096677f8255d57fe9cec69f935a301eb25,
     0x680fd7e1b03de3c8294e79a62f69e0e21b864bdf8a8e1c91628cc3ef2b567755),
    (0x1526703130d8e6a946df2eb6a2915da7bc0f51c1fe33029cc0cefe46759baf230,
     0xb85607cf304cf0dc29bc3ecb897a0959d97b536e606c45aee5a560a508575af8),
    (0x425de4118a700520d5509242829cb28362ae1d0b81abc4077f13ce1f376694a84,
     0xbd3118ca19557da448110fe89999908aa8d32c27432384b4e61a561e8eefe3c4),
    (0x45e8c402749639455823d5f09d4aa6292af9d56957788141fed08e0fb24162582,
     0x8b9107f6a3ac74762467df773987d4c4319a877b5a16193e49f95f3acd6e95a2),
    (0x260b6867edb10d334fe8b1eeb4bd926ef2dcad3b19fdfdaa8715947954c6628eb,
     0x3e51746d316ad428bacd9853ab065262b55db150d386dba81b630046a751fcfb),
    (0x795c727e2fe13dcf584b8d424fcdb4b74fbb21ec46ba29ed21ebab7ac59e8847,
     0xd4c9f44375fd7f7c18a530b7c3001449d45cf94bd797cb2d8cab547f88af07bf),
    (0x586f8df09b35e6f4f6e3a3c9a8151aa434499e242b82bc2d92743c6708a113322,
     0xf628264ccde39a59d557149062ca8626b4d6442ad835aa78ad541e5269428ca)]
   0xf628264ccde39a59d557149062ca8626b4d6442ad835aa78ad541e5269428ca"
  by (simp only: chain_eval)

lemma root_13: "chain_ok True 0xf628264ccde39a59d557149062ca8626b4d6442ad835aa78ad541e5269428ca
   [(0x765897f3ccb653f7ac51537bb46c97ddcd8984df108552b6885aa8caaa13f43,
     0xea2f764785db7dce455695595f4747ba4a07d4489e0d7b6e0ea01c1371e069d3),
    (0x6b1d6683b2cf35fb931bbe08a8bf1af908a4c2d88a4c90a98530d2d57b729c7aa,
     0x9daa139490d5f6bdeb76b092001f34ec9751cb4c4d56b211361cf291e691f12),
    (0x308d06811e3b184419819995d22096627b03ad3f31a44bcd6fd41e16a42875c,
     0xb70a5e46faef4bbf8e619c3eae0defe07a0ff74d70f76c29b029e6584c31803c),
    (0x416fe99a7d82f679da7e82fa0304a6291b9a74e8055f875e4d64784508f39db16,
     0x12d94e000341eded6c96387fae73f4aa80048d75f0a908be48f50a38556d8f76),
    (0xb1a3b6aa1f669b766740abc3d4ff13bdf17ebd8f49eb90416dce27ecad34a03,
     0x2e174101d32e83a053c42ca37b3a2077eb900616360c502227df0e25c765c893),
    (0x4262ebcb35d4b751c29da41739eae1843ab9f63a878eb1ccebb76ec1539572dc,
     0x42e09e164b98743c57274ec4d4af2cbd89241d20bf89a4c5c0cec8ff567b7ce4),
    (0x8bc4b4c43cf36fde544f72036cd250322c94172c28b5fd9c0116a7f96c0b2515,
     0xebd5052f966bee71a3a23e067b5a52e97eeabbe5e4393ea45df4418dd6b5dda5),
    (0x6ca064637fbaae0c1b6d6873f30c445e3a8bbfea8d9cd3f88855eddd226a35235,
     0x2d26cc01ec21a2dfd773a6dbc89bf0b0ac3ded1ec5d3abcee1b3ed62af0f1f0d),
    (0x3fb54ccf0147ecc2cec566b7497671bac2cf57734d6be7a848d2f1690800fb08,
     0x807a0a0f11792db6376cafb8b348d70bceef68362a66d13d1cb87742f60f3ed0),
    (0x203d221e541d81bb27083636cec891b197204b54f6c4cf69fc32e3c296ecdeec1,
     0xa352ddcf05fd5ef001b31d130ef2eb249eb1e4522ea6dc4f705a0fe23e377691),
    (0x341950a43d37ca7c4cdc7ca887622a8ee5eb10c29361047df429a2a7d4bf9e3be,
     0xee93428fce8b374047baee29196730b731533dcc7b44314fb18007a01e6e1926),
    (0x6f2b123c734042f293ed9577799edcac98f4f68fdb8f04b9ddbfec911c545a620,
     0x58dd8478cd8eebc7fe2c03074b9e1d57e2438e0b6a967fa4818f08e617d28d40),
    (0xf6c85608538fbecaa1e4c8b51886f4602a9ea15c77bc4a0d6f0f7e4727b87708,
     0xbf7e3e4b1363553df130d427199698ccc9b6c048b6f9ea8e38e3f102ee7ac588),
    (0x479ecf9ab3fee13168eb107a321191fb8a22160791876699be9c9c55170d2eb80,
     0x547c1016553fcf86e13e4e75a6bd6008b6ee564c182a31e5254a399d85498580),
    (0xdf0d3571f4ba14e25e387738b0dd1d194fc0361c563f7c0944214cebf1cf733d,
     0x7479a649914f5de9e4beab4cf21fb4e085439f88d6070f465d17ca561da8cbcd),
    (0x1a7f3c40a49f63dceef87642b97f05b3a2af6d7c06c914f9055f816090ec28f5b,
     0x44576f70ee665a43527fbec55ba2e90c5a0f21721f546e3040ffa190defb2b93)]
   0x44576f70ee665a43527fbec55ba2e90c5a0f21721f546e3040ffa190defb2b93"
  by (simp only: chain_eval)

lemma root_14: "chain_ok True 0x44576f70ee665a43527fbec55ba2e90c5a0f21721f546e3040ffa190defb2b93
   [(0x91f488876f5c509abb6e2b05a73c974c11042e5dec8e40b74669d4a4efdc6303,
     0x6ac49a870fdc8631b561eb23a5ef59534111579602aeee076d54f785d57b91bb),
    (0x1643b37a6a9cd792d9abe080b79b3e8d3c13482bd38adbe45fae7ab287748947c,
     0x3fdd92cfadc290e89e2c7e1566b366c31e639789b0ff0ef1c845dd8f9139a204),
    (0x7f767048324a7f689ad9b9a8ed1289ea951f49dcb46c0a4d26937b3b8708510c,
     0x8f2d65db0fcdb2f1dbed6b6ad6156fd6314b3825c8fee3b10523970af945cf4c),
    (0x2809dfebd998f913bb6ba88894f449ae2c68fe67cd5a8559055b2a376651ae628,
     0x824af477487107baba57b7e4f34a8f8e9fa40be933c355d0dfe28ed9d2485328),
    (0x21281b1db1fe236f00c2dd4613b9af66b2d924d950e1307847c42065964d408c4,
     0xa3b97af8ad7042ad07615cdde34e1d334d571632359c787eee8ef951d94d2604),
    (0x345adc7dd1accc041a04d64d1306920d5c6f82227285d3f06bcaeedb09429cb52,
     0x11eb03b3b54b9948908d86d2d074e452808c9ed7597c8f2e0910ac0cd3ea7472),
    (0xa0871ed5084bc6ee101dd763412ec726055956d613ddbd317f34c2ffbdb6a17,
     0x36071662517a4dcccb93179f1e6a6fc09c24d33b5c629bbfc464981f3b5bf7e7),
    (0x5b37ed1dada8ca3140349bab3eff9badc4487bbee9031f75d933c045e3fb02f4,
     0xc9c3a22dddef290303a73e802b91a275be3043337dee6498199ac7b45342d8bc),
    (0x4f8265163f8fdeecd65b9c6d1f0a664956b029a18bb1c6c49e8bdebb0e7d0b869,
     0x5f68af933cdec6581c5ea773ff1ba2503c8e59aa3a61c586e66d0980b6fe1939),
    (0x11c76e8f339cb70f0b115e00058255e475e5e193b1ed8d273b8fd5597f0697128,
     0x6613e23e8032d9ee95915597936369189b0fe9d428df48e718f9329d5f2a4f30),
    (0x1459ecea95b0fb694d1bdbba7de12437fb1fd315de1a13b55c8f9362aa195ada3,
     0x8b6ea4881353061827211ffbe3a98e915c034f1bf563361a1d4fdb734e30f313),
    (0x25f8ab3ec9d5b287305d3969c9bdf619463d0c108208c2daf0703d6254409348c,
     0x88e6d8cd92f6935ac6b4f9823c4fceba3e997f04df77f5fa65738d31b68a2594),
    (0x249b0b425a92ce5b03165948b5751e1a6c7aab4ce36e1510da93020e342cac3f6,
     0x1fedad898f752366defc10c571cdee4107afcb5fa625286ceb95c5fb076ca56),
    (0x1fdb6590b8a99a2d20b75b442d20ecb27fea571386b903f15466b710c80289,
     0x33986dd6bfe2ad77450ab1323df131fc0af2e18521cee6870204c7b44f053f9)]
   0x33986dd6bfe2ad77450ab1323df131fc0af2e18521cee6870204c7b44f053f9"
  by (simp only: chain_eval)

lemma root_15: "chain_ok False 0x33986dd6bfe2ad77450ab1323df131fc0af2e18521cee6870204c7b44f053f9
   [(0xa6616862e98c1d7e9a9db0dae42f74046aaa7d350c93eb1196160a6d03e1b,
     0xf5fdb6e34d4c24b0e71dc76d3cfc7e24c75df81ffc4591cb6a49f77777286d3c)]
   0xf5fdb6e34d4c24b0e71dc76d3cfc7e24c75df81ffc4591cb6a49f77777286d3c"
  by (simp only: chain_eval)

lemma root_16: "chain_ok True 0xf5fdb6e34d4c24b0e71dc76d3cfc7e24c75df81ffc4591cb6a49f77777286d3c
   [(0x762fcdc108f1413ac849a7d1da2c18ecff55dbf154103ffcb8daf819b2a8856ca,
     0xa1593b758da5c4e0676e015cd3c7e9c5a1790f6efc5dc52d5c585b81d34696a),
    (0x32d8adf220db32152b62d99ac35bd0f33d2b627db081513046aa7a453aaed55,
     0x9555a55d92abd70b676800ca6f3e7c6db49a5612be8bb30d9796f606314c085),
    (0x2b8e679313d897dabe049119af2a886e341f1fdf4822b647bfb7aab288ce47a,
     0x4a53c463fc1bb898c240ed5cc015ff00390b48be6df3a5d7b8024e5bde321e62),
    (0xaca44795e9f60e4b5de62ad3351d0797e0649065ce4d20fe3f547c7b2930f26b,
     0x472529a14abe562673c3ee24890c452bc378e49945775247bee245e202e6167b),
    (0x9e2d13e436d1f2f2613b4bfd92650eab452fc390a4351fd5af7bc2ddf1dead02,
     0x5c5004ca5539a5ae573e1c79ac2475b64e5aae1a4b688ec05c4909caabd3d6a),
    (0x10a4ce3a35e6d2d8a218b512ebbd6a45d46ba70b98667ee39d8466466b4d501,
     0xcd5e1a0179a147c0e633aa5cfe129838910687994ce5771c08694f51221e67f1),
    (0x525fec1ebc42f60948fbb33f0248c56d8d82660f2b6e5ff766b23e87d1d6d2d88,
     0xf6f77221f5c0a35d972ab9010d23b2380f365d328c96b2d99e8c50d9a3294b10),
    (0x77203f435a5c5b89fb19c9345185b723f6fb76c7b73253e0fb6192715ed11f3ca,
     0x9b349456447eae2091e1afc5ca4f297fb98e8ba78828709946570973ca966dea),
    (0x2f0c5b3687f88b4b5f546024871a509b563681f33f1ec2838a5a175cc55d16709,
     0xcf5a92907d3ac46fa88506c47b3b98cd249319a2f3827b6394fb888eaf730879),
    (0x53f9cc8886031bb16c3c34d13b5b18200260915b0bc1ee8104ec374131ddd2ab3,
     0x3840e81744da9c7f583fae00ae660632ea265ff30cc5717e86dea3b850fe3eab),
    (0x62e3aff86162057d1dde44f9172f4de5078e63a3f27687b8c3c27d362f609b1e,
     0xd9476bb3cc2ef7bfaada5a2aac794e79e8917a88e9aa9b39447e52c3250a2f46),
    (0x5c351441dd99568365cd4226a0ddf3c67a991c3d9d2fa9073d87024c012ee5de5,
     0x36747e3ed0a24784febbb861909f5d315ce092d440ebb53aa771149cf14a9015),
    (0x5caad229399b7033183db15920d1079f555fa266d681b6dd330f245883f77cee,
     0x60aac98da49c7b0bb08aa0c4a248a46f32b36853f0eb70720b940776dd60d616),
    (0x1240448d4521db7c53af9a0c29ce732e2dd51667e83b945ba7fd347efa43bd522,
     0x4537635e42146abdba5e2d6f2ab65882250cb8b78b05cebde868930dc49eb5e2),
    (0x95b73c65458b810434c418ceaababe9db01a1caa6e1f313697978d21784182d5,
     0x9c7a850d8a0741901279b3a66db5b4746f261e5d2c067563debe8e69938f2b05),
    (0x2fd2c665cb23bc7a768f0ed52ff9f268d8a0c89a9a7b3bb9696f4d1fb14b834e2,
     0xed4a07d49972b8dae782512344a34c7df68f301bed178d8f0e3220b2b987434a)]
   0xed4a07d49972b8dae782512344a34c7df68f301bed178d8f0e3220b2b987434a"
  by (simp only: chain_eval)

lemma root_17: "chain_ok True 0xed4a07d49972b8dae782512344a34c7df68f301bed178d8f0e3220b2b987434a
   [(0x6df913f415a238c57ba6cc94cb75db9d75b1722b19a6dd8f6db1a6a92ed5279f5,
     0x446b07a3df57ea5ce067b3ee84b1da6544be8042eedc70e2df6a01b8a5a1fb25),
    (0x924846738eee38e1e3d3ea8c03559cb468ab030e75ff785a0793c72a5533c73a,
     0x1296c4dbcad0b73ebd29fcac84be4e52bf3cb4e8522f22a3051afb2591f7ef22),
    (0xacc63d18bc28cfe53f9b8acc9c9aa17f4ab99459e14fa3742b1cb9c7ba688bb,
     0x56d9269630d62c34860e07a442075ffa719535edbc5d5e7eda055fad9e73d5cb),
    (0xebb4f0fac9fcfb38a448d031aa10c213cf786758b890e873125249b1c6456de0,
     0xaf9c6c0e1c194482d1f6d041a01a893d5e5355044ac3f7677c3722c88663cba8),
    (0x3c3b9da7949c597961135f3ce8b3283290e707808cde2b02f5d997885b47748b4,
     0xaeb8eb036d1c9c3e84723753e853238c2b02d40bae3ece522147f3d1eadb68f4),
    (0x3b9ff285aa7f83f1ecf8bc231741688f73524169df16f93b51c28eacab4c4a441,
     0x571c64acb36e852448ad54b16242a45e023080166de33982ff60267346702091)]
   0x571c64acb36e852448ad54b16242a45e023080166de33982ff60267346702091"
  by (simp only: chain_eval)

lemma root_18: "chain_ok False 0x571c64acb36e852448ad54b16242a45e023080166de33982ff60267346702091
   [(0x1da44f938f53bf5bbba0b4eb98babf796b3f7bd10d40ea390a32ad1e8246e432,
     0xbe55fd443ad7ca9f38aeff95acc578198b085b5d506d7dd5e3766d2ff9174f3),
    (0x8d83c0d37137528ebc883fee057fa2a684996bad0754814c3d9733761108d6,
     0x1b0395625582c1a1660c5355a6d6b23bde9f6a905dd4a2285481b08961b5d75f),
    (0x2d9c18f958333385f613598e7c949e613d4cde77cd07d980058df6940ad137d,
     0x603a10176755b8db6152f9202a4d9a04d747a0b94d18b8dfbba6263b140e154e),
    (0x242b993cd91e0c8abe9f0f7badd5a536f9548bc6767816338c98f268a827580f,
     0xad67d8a6c8524d624073ab107d67fa7f6f7dbc3fb04f18023f67a7874474f503)]
   0xad67d8a6c8524d624073ab107d67fa7f6f7dbc3fb04f18023f67a7874474f503"
  by (simp only: chain_eval)

lemma root_19: "chain_ok True 0xad67d8a6c8524d624073ab107d67fa7f6f7dbc3fb04f18023f67a7874474f503
   [(0x3abac278bc2726c22d1f86eaf33db28e207fa671ef1f346697da28c9c74b5eda1,
     0x19a897c7e895f106a26a9264a234f5e92a38a2ec1d68b188ebf5e4ced405d3b9),
    (0x1492e564de5ff2df99852884096a25b37c306cbc1d5c196be5d9e2d1d8d31681,
     0xb60d663e37bbc23ceb67b54549192b98d92fab5de9b9d1238f0d1da0603cbfd9)]
   0xb60d663e37bbc23ceb67b54549192b98d92fab5de9b9d1238f0d1da0603cbfd9"
  by (simp only: chain_eval)

lemma root_20: "chain_ok False 0xb60d663e37bbc23ceb67b54549192b98d92fab5de9b9d1238f0d1da0603cbfd9
   [(0x81770e14026644c902c4368b1d2f170a31b7e9327a53be7da1341218cfe2a096,
     0x48073be17eea6c43b9c4028b61335ed43a314d95778835a9253a48d49d646267),
    (0x144411e32bba84d869178a10327ab1731a6182332bef9b4771c910bc990efaed,
     0x4218f20ae6c646b363db68605822fb14264ca8d2587fdd6fbc750d587e76a7ee)]
   0x4218f20ae6c646b363db68605822fb14264ca8d2587fdd6fbc750d587e76a7ee"
  by (simp only: chain_eval)

definition root8 :: int where
  "root8 = 0x4218f20ae6c646b363db68605822fb14264ca8d2587fdd6fbc750d587e76a7ee"

text \<open>The exponent is \<open>(p + 1) / 4\<close>, as \<open>computeY\<close> has it.\<close>

lemma pow8_root8: "pow8 0x3fffffffffffffffffffffffffffffffffffffffffffffffffffffffbfffff0c root8"
proof -
  have 0: "pow8 1 8" by (simp add: pow8_def)
  have 1: "pow8 0x1ffff 0xb612492ff92e92021eae1155015470d7554d7c238bf3ee6c874dced7705373f8"
    using pow8_chain [OF 0 root_01] by simp
  have 2: "pow8 0x1ffffffff 0x8b7e8e796c8cebd768fc7d80da17f808b1839498c2e581c34b9cab2348457574"
    using pow8_chain [OF 1 root_02] by simp
  have 3: "pow8 0x1ffffffffffff 0x891db8fda8698e0cf84c36fe24c9fc76c358848f7eef05cf9aa0753f7ce4f62b"
    using pow8_chain [OF 2 root_03] by simp
  have 4: "pow8 0x1ffffffffffffffff 0x52d9d222916521a089bf5a402996ca9affef8565670d04ee7b01e2bc3d59140a"
    using pow8_chain [OF 3 root_04] by simp
  have 5: "pow8 0x1ffffffffffffffffffff 0x910818851d010f1a68c70c210a091f1780ad66e7563b48aee2e079a20add916d"
    using pow8_chain [OF 4 root_05] by simp
  have 6: "pow8 0x1ffffffffffffffffffffffff 0x77db7df935737af1d2dd2e00c0d8f6c580bc696d20196611486c7e75c6aeaf71"
    using pow8_chain [OF 5 root_06] by simp
  have 7: "pow8 0x1ffffffffffffffffffffffffffff 0xd9ccd52843f2bf9202975109e9dd23e0328228f50aa94ddc077579f93d8ef10c"
    using pow8_chain [OF 6 root_07] by simp
  have 8: "pow8 0x1ffffffffffffffffffffffffffffffff 0xd0dcfc11580d9b5dd870b88966671aac6529bc82365cc4bcd7d9315023a5bd5d"
    using pow8_chain [OF 7 root_08] by simp
  have 9: "pow8 0x1ffffffffffffffffffffffffffffffffffff 0x6cbe6a1d46eb890bafa7383f8f169bc5fd0cea57420ae467cad0879ba5f7b56e"
    using pow8_chain [OF 8 root_09] by simp
  have 10: "pow8 0x1ffffffffffffffffffffffffffffffffffffffff 0x52cbf38c4dc215d030229516a224951d8c40721e1572b9d6c2720e8e9a2f4748"
    using pow8_chain [OF 9 root_10] by simp
  have 11: "pow8 0x1ffffffffffffffffffffffffffffffffffffffffffff 0xd86814aebcc5cb58ae2be6b2f700822360ddc6d3eb9327bcb0b63764bff664bc"
    using pow8_chain [OF 10 root_11] by simp
  have 12: "pow8 0x1ffffffffffffffffffffffffffffffffffffffffffffffff 0xf628264ccde39a59d557149062ca8626b4d6442ad835aa78ad541e5269428ca"
    using pow8_chain [OF 11 root_12] by simp
  have 13: "pow8 0x1ffffffffffffffffffffffffffffffffffffffffffffffffffff 0x44576f70ee665a43527fbec55ba2e90c5a0f21721f546e3040ffa190defb2b93"
    using pow8_chain [OF 12 root_13] by simp
  have 14: "pow8 0x7fffffffffffffffffffffffffffffffffffffffffffffffffffffff 0x33986dd6bfe2ad77450ab1323df131fc0af2e18521cee6870204c7b44f053f9"
    using pow8_chain [OF 13 root_14] by simp
  have 15: "pow8 0xfffffffffffffffffffffffffffffffffffffffffffffffffffffffe 0xf5fdb6e34d4c24b0e71dc76d3cfc7e24c75df81ffc4591cb6a49f77777286d3c"
    using pow8_chain [OF 14 root_15] by simp
  have 16: "pow8 0xfffffffffffffffffffffffffffffffffffffffffffffffffffffffeffff 0xed4a07d49972b8dae782512344a34c7df68f301bed178d8f0e3220b2b987434a"
    using pow8_chain [OF 15 root_16] by simp
  have 17: "pow8 0x3fffffffffffffffffffffffffffffffffffffffffffffffffffffffbfffff 0x571c64acb36e852448ad54b16242a45e023080166de33982ff60267346702091"
    using pow8_chain [OF 16 root_17] by simp
  have 18: "pow8 0x3fffffffffffffffffffffffffffffffffffffffffffffffffffffffbfffff0 0xad67d8a6c8524d624073ab107d67fa7f6f7dbc3fb04f18023f67a7874474f503"
    using pow8_chain [OF 17 root_18] by simp
  have 19: "pow8 0xfffffffffffffffffffffffffffffffffffffffffffffffffffffffefffffc3 0xb60d663e37bbc23ceb67b54549192b98d92fab5de9b9d1238f0d1da0603cbfd9"
    using pow8_chain [OF 18 root_19] by simp
  have 20: "pow8 0x3fffffffffffffffffffffffffffffffffffffffffffffffffffffffbfffff0c 0x4218f20ae6c646b363db68605822fb14264ca8d2587fdd6fbc750d587e76a7ee"
    using pow8_chain [OF 19 root_20] by simp
  show ?thesis using 20 by (simp only: root8_def)
qed

lemma root8_square: "root8 * root8 = 0x1110df3be5e21e6776516a5fa6702d71d937b2614804cce0315f9575458ff784 * secp256k1P + 8"
  unfolding root8_def secp256k1P_def by (simp only: chain_eval)

lemma signerComputeY_1: "signerComputeY 1 = Some root8"
proof -
  have e: "nat ((secp256k1P + 1) div 4) = 0x3fffffffffffffffffffffffffffffffffffffffffffffffffffffffbfffff0c" by (simp add: secp256k1P_def)
  have "pow_mod secp256k1P 8 0x3fffffffffffffffffffffffffffffffffffffffffffffffffffffffbfffff0c = root8 mod secp256k1P"
    unfolding pow_mod_correct [OF P_pos] using pow8_root8 unfolding pow8_def .
  also have "\<dots> = root8" by (simp add: root8_def secp256k1P_def)
  finally have y: "pow_mod secp256k1P 8 0x3fffffffffffffffffffffffffffffffffffffffffffffffffffffffbfffff0c = root8" .
  have "root8 * root8 mod secp256k1P = 8" unfolding root8_square by (simp add: secp256k1P_def)
  moreover have "(1 * 1 mod secp256k1P * 1 mod secp256k1P + 7) mod secp256k1P = 8" by (simp add: secp256k1P_def)
  ultimately show ?thesis unfolding signerComputeY_def Let_def e by (simp only: y) simp
qed

section \<open>Sums of points\<close>

text \<open>A sum of two points with its quotients: the inverse \<open>i\<close>, the slope \<open>m\<close> and the third point.\<close>

lemma chord_sum:
  assumes "x1 \<noteq> x2" "x1 \<noteq> 0" "x2 \<noteq> 0"
    and i: "(x2 - x1) * i = k1 * secp256k1P + 1" "0 \<le> i" "i < secp256k1P"
    and m: "(y2 - y1) * i = k2 * secp256k1P + m" "0 \<le> m" "m < secp256k1P"
    and x3: "m * m - x1 - x2 = k3 * secp256k1P + x3" "0 \<le> x3" "x3 < secp256k1P"
    and y3: "(x1 - x3) * m - y1 = k4 * secp256k1P + y3" "0 \<le> y3" "y3 < secp256k1P"
  shows "signerPointAdd (x1, y1) (x2, y2) = (x3, y3)"
proof -
  have "(x2 - x1) mod secp256k1P * i mod secp256k1P = 1 mod secp256k1P"
    unfolding mod_mult_left_eq i(1) by simp
  then have inv: "ModInverse ((x2 - x1) mod secp256k1P) secp256k1P = Some i"
    using i(2,3) by (intro ModInverse_complete) (simp_all add: mod_eq_dvd_iff)
  have "(y2 - y1) mod secp256k1P * i mod secp256k1P = m" using m(2,3) unfolding mod_mult_left_eq m(1) by simp
  moreover have "(m * m - x1 - x2) mod secp256k1P = x3" using x3(2,3) unfolding x3(1) by simp
  moreover have "((x1 - x3) * m - y1) mod secp256k1P = y3" using y3(2,3) unfolding y3(1) by simp
  ultimately show ?thesis using assms(1-3) inv by (simp add: signerPointAdd_def Let_def)
qed

lemma signerScalarMult_1 [simp]: "signerScalarMult b 1 = b"
proof -
  have "BitLen 1 = 1" by (simp add: BitLen_def nat_bits.simps)
  then show ?thesis
    by (cases b) (simp add: signerScalarMult_def secp256k1NCopy_def signerPointDouble_def signerPointAdd_def)
qed

lemma ModInverse_1 [simp]: "ModInverse 1 secp256k1NCopy = Some 1"
  by (rule ModInverse_complete) (simp_all add: secp256k1NCopy_def)

section \<open>A signature with \<open>r = s = 1\<close>\<close>

text \<open>The point with the abscissa 1, less the generator.\<close>

definition keyX :: int where
  "keyX = 0x871e0c836ec675e07395aef58d72b646f77e0e33ce1622dfaa0fb8e131f3fe12"

definition keyY :: int where
  "keyY = 0xa98c427dc105e902e049a4d6ae800608a662597c575c73bfe6af75fb5c331d3e"

lemma key_sum: "signerPointAdd (1, root8) (secp256k1Gx, secp256k1P - secp256k1Gy) = (keyX, keyY)"
  unfolding root8_def secp256k1Gx_def secp256k1Gy_def keyX_def keyY_def
  by (rule chord_sum [where i = "0x12bba5223535c058d6aec2105a9c5aee5a97fc1e914f30a6f4a9c5ee24526436"
        and m = "0xb8ee97f4d4b2c4976e09d248b13252b6ed9485c27dfa9164e023c9354268f2ca"
        and ?k1.0 = "0x8e89fd1c8f97874379dfd2523aaf90110446bab0b41c0a9866eb2a23df50477"
        and ?k2.0 = "0x89c5c502e931e90bedde76c787216ca7997c152c727c8a88f0ed314cd5a36a4"
        and ?k3.0 = "0x8597d8ced72f34104128af759e79f016c29c4e9169a9f5eaa7c5c66d790bee97"
        and ?k4.0 = "- 0x619b87220c1851dc07f04362a85f169fc2ec8afd1e440cca6f907dc9d88f854a"])
     (simp_all add: secp256k1P_def)

lemma key_verifies: "\<exists>y. signerPointAdd (secp256k1Gx, secp256k1Gy) (keyX, keyY) = (1, y)"
  unfolding secp256k1Gx_def secp256k1Gy_def keyX_def keyY_def
  by (rule exI, rule chord_sum [where i = "0xfaea249439235b9dd6e9533198738e80fc22b024d9da5ef9eed547180134d40d"
        and m = "0x4711680b2b4d3b6891f62db74ecdad49126b7a3d82056e9b1fdc36c9bd970965"
        and ?k1.0 = "0xd1ba3774bdfdd537dbe7b0866ba8d220d34a7ade8cae8581afbf55b5f91d59f"
        and ?k2.0 = "0x5f6281e75436981cf95263039e9b3cbeff49bcd45cef180308033bfc614121e7"
        and ?k3.0 = "0x13baa8e52dc9aae165150ae43c154aa8e773430c6db4d320e77e3401f43a0532"
        and ?k4.0 = "0x21cc158caf2482686f774b06c273751d871b95e6891888ec47f4107c41d8a1a3"
        and ?y3.0 = "0x4218f20ae6c646b363db68605822fb14264ca8d2587fdd6fbc750d587e76a7ee"])
     (simp_all add: secp256k1P_def)

lemma hash_1 [simp]: "big_set_bytes (be_fixed 32 (Suc 0)) = 1"
  by (simp add: big_set_bytes_def be_nat_be_fixed)

lemma order_1 [simp]: "\<not> secp256k1NCopy \<le> 1" "1 mod secp256k1NCopy = 1"
  by (simp_all add: secp256k1NCopy_def)

lemma negated_generator [simp]: "- secp256k1Gy mod secp256k1P = secp256k1P - secp256k1Gy"
  by (simp add: secp256k1P_def secp256k1Gy_def)

lemma prime_1 [simp]: "\<not> secp256k1P \<le> 1"
  by (simp add: secp256k1P_def)

lemma even_root8 [simp]: "even root8"
  by (simp add: root8_def)

lemma key_nonzero [simp]: "keyX \<noteq> 0"
  by (simp add: keyX_def)

lemma recover_point_1: "recover_point (be_fixed 32 1) 1 1 0 = Some (keyX, keyY)"
proof -
  have "signerVerify (be_fixed 32 1) 1 1 (keyX, keyY)"
    using key_verifies by (auto simp: signerVerify_def Let_def)
  then show ?thesis
    by (simp add: recover_point_def signerComputeY_1 key_sum Let_def)
qed

lemma recoverPublicKey_1: "recoverPublicKey (be_fixed 32 1) 1 1 0 = Ok (keyX, keyY)"
proof -
  have "0 \<le> root8" "root8 < secp256k1P" by (simp_all add: root8_def secp256k1P_def)
  moreover have "root8 * root8 mod secp256k1P = 8 mod secp256k1P" unfolding root8_square by simp
  moreover have "1 mod secp256k1P = 1" by (simp add: secp256k1P_def)
  ultimately have "IsOnCurve S256 (1, root8)" by (simp add: IsOnCurve_def)
  then show ?thesis
    by (simp add: recoverPublicKey_def computeY_eq signerComputeY_1 ScalarBaseMult_def ScalarMult_eq
        curve_Add_eq key_sum Let_def)
qed

text \<open>The two implementations of recovery agree on this signature.\<close>

lemma Ecrecover_1:
  "Ecrecover (be_fixed 32 1) (be_fixed 32 1 @ be_fixed 32 1 @ [0]) = Ok (FromECDSAPub (keyX, keyY))"
  using recoverPublicKey_1 by (simp add: Ecrecover_def SigToPub_def nth_append)

section \<open>Properties\<close>

text \<open>
  C12. Recovered keys are sound.  Whatever hash and signature values it is given, the recovery of
  \<^verbatim>\<open>signer.go\<close> returns nothing, or the encoding of a point whose coordinates lie in the field
  (\<open>0 \<le> x < p\<close> and \<open>0 \<le> y \<le> p\<close>, so that 32 bytes hold each of them and the bytes determine the point), that
  satisfies the equation of the curve and under which the signature verifies.  It does return a
  key: for the hash 1 and \<open>r = s = 1\<close> the key is the point with the abscissa 1 less the generator.
\<close>

theorem recovered_key_sound:
  "(recoverPubkey hash r s v = None \<or>
    (\<exists>qx qy. recoverPubkey hash r s v = Some (0x04 # be_fixed 32 (nat qx) @ be_fixed 32 (nat qy)) \<and>
       0 \<le> qx \<and> qx < secp256k1P \<and> 0 \<le> qy \<and> qy \<le> secp256k1P \<and>
       qy ^ 2 mod secp256k1P = (qx ^ 3 + 7) mod secp256k1P \<and> signerVerify hash r s (qx, qy))) \<and>
   recoverPubkey (be_fixed 32 1) 1 1 0 = Some (0x04 # be_fixed 32 (nat keyX) @ be_fixed 32 (nat keyY))"
proof (rule conjI)
  show "recoverPubkey (be_fixed 32 1) 1 1 0 = Some (0x04 # be_fixed 32 (nat keyX) @ be_fixed 32 (nat keyY))"
    by (simp only: recoverPubkey_def recover_point_1 option.map case_prod_conv)
  show "recoverPubkey hash r s v = None \<or>
    (\<exists>qx qy. recoverPubkey hash r s v = Some (0x04 # be_fixed 32 (nat qx) @ be_fixed 32 (nat qy)) \<and>
       0 \<le> qx \<and> qx < secp256k1P \<and> 0 \<le> qy \<and> qy \<le> secp256k1P \<and>
       qy ^ 2 mod secp256k1P = (qx ^ 3 + 7) mod secp256k1P \<and> signerVerify hash r s (qx, qy))"
  proof (cases "recover_point hash r s v")
    case (Some q)
    obtain qx qy where q: "q = (qx, qy)" by fastforce
    have "qy ^ 2 mod secp256k1P = (qx ^ 3 + 7) mod secp256k1P" "signerVerify hash r s (qx, qy)"
      using recover_point_curve [OF Some] by (auto simp: q on_curve_def mod_eq_dvd_iff diff_diff_eq)
    then show ?thesis using Some recover_point_range [OF Some] by (auto simp: recoverPubkey_def q near_field_def)
  qed (simp add: recoverPubkey_def)
qed

end
