(* ===== verification/Riscv_Encode.thy ===== *)
theory Riscv_Encode
  imports Prelude
begin

text \<open>
  Instruction formats of the RISC-V emulator, \<^verbatim>\<open>src/pkg/zkvm/riscv/riscv_encode.go\<close>.
  An \<open>int32\<close> of the source is the word with the same bits; \<open>sint\<close> reads it as a signed number.
\<close>

section \<open>Decoding\<close>

definition decodeU :: "u32 \<Rightarrow> u32 \<times> u32" where
  "decodeU instr = (drop_bit 7 instr AND 0x1F, instr AND 0xFFFFF000)"

definition decodeJ :: "u32 \<Rightarrow> u32 \<times> u32" where
  "decodeJ instr =
     (let rd = drop_bit 7 instr AND 0x1F;
          rawImm = push_bit 20 (drop_bit 31 instr) OR push_bit 12 (drop_bit 12 instr AND 0xFF) OR
                   push_bit 11 (drop_bit 20 instr AND 0x1) OR push_bit 1 (drop_bit 21 instr AND 0x3FF) in
      (rd, if rawImm AND push_bit 20 1 \<noteq> 0 then rawImm OR 0xFFF00000 else rawImm))"

definition decodeI :: "u32 \<Rightarrow> u32 \<times> u32 \<times> u32" where
  "decodeI instr =
     (let rd = drop_bit 7 instr AND 0x1F; rs1 = drop_bit 15 instr AND 0x1F; rawImm = drop_bit 20 instr in
      (rd, rs1, if rawImm AND push_bit 11 1 \<noteq> 0 then rawImm OR 0xFFFFF000 else rawImm))"

definition decodeS :: "u32 \<Rightarrow> u32 \<times> u32 \<times> u32" where
  "decodeS instr =
     (let rs1 = drop_bit 15 instr AND 0x1F; rs2 = drop_bit 20 instr AND 0x1F;
          rawImm = (drop_bit 7 instr AND 0x1F) OR push_bit 5 (drop_bit 25 instr AND 0x7F) in
      (rs1, rs2, if rawImm AND push_bit 11 1 \<noteq> 0 then rawImm OR 0xFFFFF000 else rawImm))"

definition decodeB :: "u32 \<Rightarrow> u32 \<times> u32 \<times> u32" where
  "decodeB instr =
     (let rs1 = drop_bit 15 instr AND 0x1F; rs2 = drop_bit 20 instr AND 0x1F;
          rawImm = push_bit 12 (drop_bit 31 instr AND 0x1) OR push_bit 11 (drop_bit 7 instr AND 0x1) OR
                   push_bit 5 (drop_bit 25 instr AND 0x3F) OR push_bit 1 (drop_bit 8 instr AND 0xF) in
      (rs1, rs2, if rawImm AND push_bit 12 1 \<noteq> 0 then rawImm OR 0xFFFFE000 else rawImm))"

section \<open>Encoding\<close>

definition EncodeRType :: "u32 \<Rightarrow> u32 \<Rightarrow> u32 \<Rightarrow> u32 \<Rightarrow> u32 \<Rightarrow> u32 \<Rightarrow> u32" where
  "EncodeRType opcode rd funct3 rs1 rs2 funct7 =
     push_bit 25 funct7 OR push_bit 20 rs2 OR push_bit 15 rs1 OR push_bit 12 funct3 OR push_bit 7 rd OR opcode"

definition EncodeIType :: "u32 \<Rightarrow> u32 \<Rightarrow> u32 \<Rightarrow> u32 \<Rightarrow> u32 \<Rightarrow> u32" where
  "EncodeIType opcode rd funct3 rs1 imm =
     push_bit 20 (imm AND 0xFFF) OR push_bit 15 rs1 OR push_bit 12 funct3 OR push_bit 7 rd OR opcode"

definition EncodeSType :: "u32 \<Rightarrow> u32 \<Rightarrow> u32 \<Rightarrow> u32 \<Rightarrow> u32 \<Rightarrow> u32" where
  "EncodeSType opcode funct3 rs1 rs2 imm =
     (let immU = imm AND 0xFFF in
      push_bit 25 (drop_bit 5 immU) OR push_bit 20 rs2 OR push_bit 15 rs1 OR push_bit 12 funct3 OR
      push_bit 7 (immU AND 0x1F) OR opcode)"

definition EncodeBType :: "u32 \<Rightarrow> u32 \<Rightarrow> u32 \<Rightarrow> u32 \<Rightarrow> u32 \<Rightarrow> u32" where
  "EncodeBType opcode funct3 rs1 rs2 imm =
     push_bit 31 (drop_bit 12 imm AND 0x1) OR push_bit 25 (drop_bit 5 imm AND 0x3F) OR
     push_bit 20 rs2 OR push_bit 15 rs1 OR push_bit 12 funct3 OR
     push_bit 8 (drop_bit 1 imm AND 0xF) OR push_bit 7 (drop_bit 11 imm AND 0x1) OR opcode"

definition EncodeUType :: "u32 \<Rightarrow> u32 \<Rightarrow> u32 \<Rightarrow> u32" where
  "EncodeUType opcode rd imm = (imm AND 0xFFFFF000) OR push_bit 7 rd OR opcode"

definition EncodeJType :: "u32 \<Rightarrow> u32 \<Rightarrow> u32 \<Rightarrow> u32" where
  "EncodeJType opcode rd imm =
     push_bit 31 (drop_bit 20 imm AND 0x1) OR push_bit 21 (drop_bit 1 imm AND 0x3FF) OR
     push_bit 20 (drop_bit 11 imm AND 0x1) OR push_bit 12 (drop_bit 12 imm AND 0xFF) OR
     push_bit 7 rd OR opcode"

section \<open>Bits of instruction fields\<close>

lemma bits_32: "set [0..<32] = {0,1,2,3,4,5,6,7,8,9,10,11,12,13,14,15,16,17,18,19,20,21,22,23,24,25,26,27,28,29,30,31}"
  by code_simp

lemma all_bits_32:
  assumes "\<And>n. n \<in> {0,1,2,3,4,5,6,7,8,9,10,11,12,13,14,15,16,17,18,19,20,21,22,23,24,25,26,27,28,29,30,31} \<Longrightarrow> bit a n = bit (b :: u32) n"
  shows "a = b"
proof (rule bit_word_eqI)
  fix n assume "n < LENGTH(32)"
  then have "n \<in> set [0..<32]" by simp
  then show "bit a n = bit b n" unfolding bits_32 by (rule assms)
qed

lemma field_bits: "unat (x :: u32) < 2 ^ k \<Longrightarrow> k \<le> n \<Longrightarrow> \<not> bit x n"
proof -
  assume x: "unat x < 2 ^ k" "k \<le> n"
  then have "take_bit k x = x" by (simp add: word_unat_eq_iff unsigned_take_bit_eq take_bit_nat_eq_self_iff)
  then show ?thesis using \<open>k \<le> n\<close> by (metis bit_take_bit_iff not_le)
qed

lemma signed_bits:
  assumes "signed_take_bit k x = (x :: u32)" "k < n" "n < 32"
  shows "bit x n = bit x k"
proof -
  have "bit x n = bit (signed_take_bit k x) n" unfolding assms(1) by (rule refl)
  also have "\<dots> = bit x (min k n)" using assms(3) by (simp add: bit_signed_take_bit_iff)
  finally show ?thesis using assms(2) by (simp add: min_def)
qed

text \<open>A test of one bit, as the source writes it.\<close>

lemma test_bit: "k < 32 \<Longrightarrow> x AND push_bit k 1 \<noteq> 0 \<longleftrightarrow> bit (x :: u32) k"
proof -
  assume "k < 32"
  have "x AND push_bit k 1 = 0 \<longleftrightarrow> \<not> bit x k"
  proof
    assume "x AND push_bit k 1 = 0"
    then have "\<not> bit (x AND push_bit k 1) k" by simp
    then show "\<not> bit x k" using \<open>k < 32\<close> by (simp add: bit_simps)
  next
    assume "\<not> bit x k"
    then show "x AND push_bit k 1 = 0" by (intro bit_word_eqI) (auto simp: bit_simps)
  qed
  then show ?thesis by blast
qed

lemma bit_times_2: "bit (x * 2 :: u32) n \<longleftrightarrow> 0 < n \<and> n < 32 \<and> bit x (n - 1)"
  using bit_double_iff [of x n] by (auto simp: mult.commute)

lemma test_bits:
  "x AND push_bit 11 1 \<noteq> 0 \<longleftrightarrow> bit (x :: u32) 11" "x AND push_bit 12 1 \<noteq> 0 \<longleftrightarrow> bit (x :: u32) 12"
  "x AND push_bit 20 1 \<noteq> 0 \<longleftrightarrow> bit (x :: u32) 20"
  by (rule test_bit; simp)+

section \<open>Properties\<close>

lemma decode_EncodeIType:
  assumes "unat opcode < 2 ^ 7" "unat rd < 2 ^ 5" "unat funct3 < 2 ^ 3" "unat rs1 < 2 ^ 5" "signed_take_bit 11 imm = imm"
  shows "decodeI (EncodeIType opcode rd funct3 rs1 imm) = (rd, rs1, imm)"
proof -
  note bits = field_bits [OF assms(1)] field_bits [OF assms(2)] field_bits [OF assms(3)] field_bits [OF assms(4)]
    signed_bits [OF assms(5)]
  let ?i = "EncodeIType opcode rd funct3 rs1 imm"
  have "drop_bit 7 ?i AND 0x1F = rd" "drop_bit 15 ?i AND 0x1F = rs1"
    by (rule all_bits_32, elim insertE emptyE; simp add: bits EncodeIType_def bit_simps)+
  moreover have "(if bit (drop_bit 20 ?i) 11 then drop_bit 20 ?i OR 0xFFFFF000 else drop_bit 20 ?i) = imm"
    by (rule all_bits_32, elim insertE emptyE; simp add: bits EncodeIType_def bit_simps)
  ultimately show ?thesis unfolding decodeI_def Let_def test_bits by (simp only: prod.inject simp_thms)
qed

lemma decode_EncodeSType:
  assumes "unat opcode < 2 ^ 7" "unat funct3 < 2 ^ 3" "unat rs1 < 2 ^ 5" "unat rs2 < 2 ^ 5" "signed_take_bit 11 imm = imm"
  shows "decodeS (EncodeSType opcode funct3 rs1 rs2 imm) = (rs1, rs2, imm)"
proof -
  note bits = field_bits [OF assms(1)] field_bits [OF assms(2)] field_bits [OF assms(3)] field_bits [OF assms(4)]
    signed_bits [OF assms(5)]
  let ?i = "EncodeSType opcode funct3 rs1 rs2 imm"
  let ?raw = "(drop_bit 7 ?i AND 0x1F) OR push_bit 5 (drop_bit 25 ?i AND 0x7F)"
  have "drop_bit 15 ?i AND 0x1F = rs1" "drop_bit 20 ?i AND 0x1F = rs2"
    by (rule all_bits_32, elim insertE emptyE; simp add: bits EncodeSType_def Let_def bit_simps)+
  moreover have "(if bit ?raw 11 then ?raw OR 0xFFFFF000 else ?raw) = imm"
    by (rule all_bits_32, elim insertE emptyE; simp add: bits EncodeSType_def Let_def bit_simps)
  ultimately show ?thesis unfolding decodeS_def Let_def test_bits by (simp only: prod.inject simp_thms)
qed

lemma decode_EncodeBType:
  assumes "unat opcode < 2 ^ 7" "unat funct3 < 2 ^ 3" "unat rs1 < 2 ^ 5" "unat rs2 < 2 ^ 5"
    "signed_take_bit 12 imm = imm" "\<not> bit imm 0"
  shows "decodeB (EncodeBType opcode funct3 rs1 rs2 imm) = (rs1, rs2, imm)"
proof -
  note bits = field_bits [OF assms(1)] field_bits [OF assms(2)] field_bits [OF assms(3)] field_bits [OF assms(4)]
    signed_bits [OF assms(5)] assms(6)
  let ?i = "EncodeBType opcode funct3 rs1 rs2 imm"
  let ?raw = "push_bit 12 (drop_bit 31 ?i AND 0x1) OR push_bit 11 (drop_bit 7 ?i AND 0x1) OR
                   push_bit 5 (drop_bit 25 ?i AND 0x3F) OR push_bit 1 (drop_bit 8 ?i AND 0xF)"
  have "drop_bit 15 ?i AND 0x1F = rs1" "drop_bit 20 ?i AND 0x1F = rs2"
    by (rule all_bits_32, elim insertE emptyE; simp add: bits EncodeBType_def bit_simps bit_times_2 flip: numeral_2_eq_2)+
  moreover have "(if bit ?raw 12 then ?raw OR 0xFFFFE000 else ?raw) = imm"
    by (rule all_bits_32, elim insertE emptyE; simp add: bits EncodeBType_def bit_simps bit_times_2 flip: numeral_2_eq_2)
  ultimately show ?thesis unfolding decodeB_def Let_def test_bits by (simp only: prod.inject simp_thms)
qed

lemma decode_EncodeJType:
  assumes "unat opcode < 2 ^ 7" "unat rd < 2 ^ 5" "signed_take_bit 20 imm = imm" "\<not> bit imm 0"
  shows "decodeJ (EncodeJType opcode rd imm) = (rd, imm)"
proof -
  note bits = field_bits [OF assms(1)] field_bits [OF assms(2)] signed_bits [OF assms(3)] assms(4)
  let ?i = "EncodeJType opcode rd imm"
  let ?raw = "push_bit 20 (drop_bit 31 ?i) OR push_bit 12 (drop_bit 12 ?i AND 0xFF) OR
                   push_bit 11 (drop_bit 20 ?i AND 0x1) OR push_bit 1 (drop_bit 21 ?i AND 0x3FF)"
  have "drop_bit 7 ?i AND 0x1F = rd"
    by (rule all_bits_32, elim insertE emptyE; simp add: bits EncodeJType_def bit_simps bit_times_2 flip: numeral_2_eq_2)
  moreover have "(if bit ?raw 20 then ?raw OR 0xFFF00000 else ?raw) = imm"
    by (rule all_bits_32, elim insertE emptyE; simp add: bits EncodeJType_def bit_simps bit_times_2 flip: numeral_2_eq_2)
  ultimately show ?thesis unfolding decodeJ_def Let_def test_bits by (simp only: prod.inject simp_thms)
qed

lemma decode_EncodeUType:
  assumes "unat opcode < 2 ^ 7" "unat rd < 2 ^ 5" "take_bit 12 imm = 0"
  shows "decodeU (EncodeUType opcode rd imm) = (rd, imm)"
proof -
  have low: "\<not> bit imm n" if "n < 12" for n
    using assms(3) that by (metis bit_0_eq bit_take_bit_iff bot_apply bot_bool_def)
  note bits = field_bits [OF assms(1)] field_bits [OF assms(2)] low
  have "drop_bit 7 (EncodeUType opcode rd imm) AND 0x1F = rd" "EncodeUType opcode rd imm AND 0xFFFFF000 = imm"
    by (rule all_bits_32, elim insertE emptyE; simp add: bits EncodeUType_def bit_simps)+
  then show ?thesis by (simp add: decodeU_def)
qed

text \<open>The fields that \<open>Step\<close> and \<open>executeRType\<close> read off an instruction themselves.\<close>

abbreviation opcode_of :: "u32 \<Rightarrow> u32" where
  "opcode_of instr \<equiv> instr AND 0x7F"

abbreviation funct3_of :: "u32 \<Rightarrow> u32" where
  "funct3_of instr \<equiv> drop_bit 12 instr AND 0x7"

lemma opcode_of_encoded:
  assumes "unat opcode < 2 ^ 7"
  shows "opcode_of (EncodeRType opcode rd funct3 rs1 rs2 funct7) = opcode"
    "opcode_of (EncodeIType opcode rd funct3 rs1 imm) = opcode"
    "opcode_of (EncodeSType opcode funct3 rs1 rs2 imm) = opcode"
    "opcode_of (EncodeBType opcode funct3 rs1 rs2 imm) = opcode"
    "opcode_of (EncodeUType opcode rd imm) = opcode"
    "opcode_of (EncodeJType opcode rd imm) = opcode"
  by (rule all_bits_32, elim insertE emptyE;
      simp add: field_bits [OF assms] EncodeRType_def EncodeIType_def EncodeSType_def EncodeBType_def
        EncodeUType_def EncodeJType_def Let_def bit_simps)+

lemma funct3_of_encoded:
  assumes "unat opcode < 2 ^ 7" "unat rd < 2 ^ 5" "unat funct3 < 2 ^ 3"
  shows "funct3_of (EncodeRType opcode rd funct3 rs1 rs2 funct7) = funct3"
    "funct3_of (EncodeIType opcode rd funct3 rs1 imm) = funct3"
    "funct3_of (EncodeSType opcode funct3 rs1 rs2 imm) = funct3"
    "funct3_of (EncodeBType opcode funct3 rs1 rs2 imm) = funct3"
  by (rule all_bits_32, elim insertE emptyE;
      simp add: field_bits [OF assms(1)] field_bits [OF assms(2)] field_bits [OF assms(3)]
        EncodeRType_def EncodeIType_def EncodeSType_def EncodeBType_def Let_def bit_simps)+

lemma fields_EncodeRType:
  assumes "unat opcode < 2 ^ 7" "unat rd < 2 ^ 5" "unat funct3 < 2 ^ 3" "unat rs1 < 2 ^ 5" "unat rs2 < 2 ^ 5"
    "unat funct7 < 2 ^ 7"
  shows "drop_bit 7 (EncodeRType opcode rd funct3 rs1 rs2 funct7) AND 0x1F = rd"
    "drop_bit 15 (EncodeRType opcode rd funct3 rs1 rs2 funct7) AND 0x1F = rs1"
    "drop_bit 20 (EncodeRType opcode rd funct3 rs1 rs2 funct7) AND 0x1F = rs2"
    "drop_bit 25 (EncodeRType opcode rd funct3 rs1 rs2 funct7) AND 0x7F = funct7"
  by (rule all_bits_32, elim insertE emptyE;
      simp add: field_bits [OF assms(1)] field_bits [OF assms(2)] field_bits [OF assms(3)]
        field_bits [OF assms(4)] field_bits [OF assms(5)] field_bits [OF assms(6)] EncodeRType_def bit_simps)+

text \<open>
  C34. Instruction encoding is lossless, in all six formats: when every field fits its width,
  and the immediate is sign-extended from 12, 12, 13 or 21 bits (even where the format
  drops the lowest bit) or has 12 low zero bits, the encoded instruction gives back every field:
  opcode, function codes, registers and immediate.
\<close>

theorem decode_encode:
  assumes "unat opcode < 2 ^ 7" "unat funct3 < 2 ^ 3" "unat rd < 2 ^ 5" "unat rs1 < 2 ^ 5" "unat rs2 < 2 ^ 5"
  shows "(\<forall>funct7 i. unat funct7 < 2 ^ 7 \<and> i = EncodeRType opcode rd funct3 rs1 rs2 funct7 \<longrightarrow>
      opcode_of i = opcode \<and> funct3_of i = funct3 \<and> drop_bit 7 i AND 0x1F = rd \<and> drop_bit 15 i AND 0x1F = rs1 \<and>
      drop_bit 20 i AND 0x1F = rs2 \<and> drop_bit 25 i AND 0x7F = funct7) \<and>
    (\<forall>imm i. signed_take_bit 11 imm = imm \<and> i = EncodeIType opcode rd funct3 rs1 imm \<longrightarrow>
      opcode_of i = opcode \<and> funct3_of i = funct3 \<and> decodeI i = (rd, rs1, imm)) \<and>
    (\<forall>imm i. signed_take_bit 11 imm = imm \<and> i = EncodeSType opcode funct3 rs1 rs2 imm \<longrightarrow>
      opcode_of i = opcode \<and> funct3_of i = funct3 \<and> decodeS i = (rs1, rs2, imm)) \<and>
    (\<forall>imm i. signed_take_bit 12 imm = imm \<and> \<not> bit imm 0 \<and> i = EncodeBType opcode funct3 rs1 rs2 imm \<longrightarrow>
      opcode_of i = opcode \<and> funct3_of i = funct3 \<and> decodeB i = (rs1, rs2, imm)) \<and>
    (\<forall>imm i. signed_take_bit 20 imm = imm \<and> \<not> bit imm 0 \<and> i = EncodeJType opcode rd imm \<longrightarrow>
      opcode_of i = opcode \<and> decodeJ i = (rd, imm)) \<and>
    (\<forall>imm i. take_bit 12 imm = 0 \<and> i = EncodeUType opcode rd imm \<longrightarrow>
      opcode_of i = opcode \<and> decodeU i = (rd, imm))"
proof (intro conjI allI impI; elim conjE)
  note op = opcode_of_encoded [OF assms(1)] and f3 = funct3_of_encoded [OF assms(1,3,2)]
  show "opcode_of i = opcode" "funct3_of i = funct3" if "i = EncodeRType opcode rd funct3 rs1 rs2 funct7" for i funct7
    using op(1) f3(1) that by simp_all
  show "drop_bit 7 i AND 0x1F = rd" "drop_bit 15 i AND 0x1F = rs1" "drop_bit 20 i AND 0x1F = rs2"
      "drop_bit 25 i AND 0x7F = funct7"
    if "unat funct7 < 2 ^ 7" "i = EncodeRType opcode rd funct3 rs1 rs2 funct7" for i funct7
    using fields_EncodeRType [OF assms(1,3,2,4,5) that(1)] that(2) by simp_all
qed (simp_all only: simp_thms opcode_of_encoded [OF assms(1)] funct3_of_encoded [OF assms(1,3,2)]
  decode_EncodeIType [OF assms(1,3,2,4)] decode_EncodeSType [OF assms(1,2,4,5)]
  decode_EncodeBType [OF assms(1,2,4,5)] decode_EncodeJType [OF assms(1,3)] decode_EncodeUType [OF assms(1,3)])

theorem decode_encode_witness:
  "decodeI (EncodeIType 0x13 5 0 6 (- 7)) = (5, 6, - 7) \<and> decodeB (EncodeBType 0x63 1 2 3 (- 8)) = (2, 3, - 8) \<and>
   drop_bit 25 (EncodeRType 0x33 1 5 2 3 0x20) AND 0x7F = 0x20"
proof (intro conjI)
  have imm: "signed_take_bit 11 (- 7 :: u32) = - 7" "signed_take_bit 12 (- 8 :: u32) = - 8" "\<not> bit (- 8 :: u32) 0"
    by code_simp+
  show "decodeI (EncodeIType 0x13 5 0 6 (- 7)) = (5, 6, - 7)"
    using decode_encode [of "0x13" 0 5 6 0, THEN conjunct2, THEN conjunct1, rule_format, of "- 7"] imm(1) by simp
  show "decodeB (EncodeBType 0x63 1 2 3 (- 8)) = (2, 3, - 8)"
    using decode_encode [of "0x63" 1 0 2 3, THEN conjunct2, THEN conjunct2, THEN conjunct2, THEN conjunct1,
        rule_format, of "- 8"] imm(2,3) by simp
  show "drop_bit 25 (EncodeRType 0x33 1 5 2 3 0x20) AND 0x7F = 0x20"
    using decode_encode [of "0x33" 5 1 2 3, THEN conjunct1, rule_format, of "0x20"] by simp
qed

end
