(* ===== verification/Riscv_Memory.thy ===== *)
theory Riscv_Memory
  imports Prelude "HOL-Library.Finite_Map"
begin

text \<open>
  The sparse paged memory of the RISC-V emulator,
  \<^verbatim>\<open>src/pkg/zkvm/riscv/riscv_memory.go\<close>.  Pages are allocated on the first access, also
  on a read, up to a limit.  Every operation returns an outcome and the memory, because a
  failing access may have allocated a page before.
\<close>

section \<open>Results with state\<close>

fun st_bind :: "('e, 'a) outcome \<times> 's \<Rightarrow> ('a \<Rightarrow> 's \<Rightarrow> ('e, 'b) outcome \<times> 's) \<Rightarrow> ('e, 'b) outcome \<times> 's" where
  "st_bind (Ok a, s) f = f a s"
| "st_bind (Err e, s) f = (Err e, s)"
| "st_bind (Panic, s) f = (Panic, s)"

lemma st_bind_Ok_iff: "st_bind r f = (Ok b, s') \<longleftrightarrow> (\<exists>a s. r = (Ok a, s) \<and> f a s = (Ok b, s'))"
  by (cases r; cases "fst r") auto

section \<open>Little-endian words\<close>

definition LittleEndian_PutUint32 :: "u32 \<Rightarrow> bytes" where
  "LittleEndian_PutUint32 v =
     [ucast v, ucast (drop_bit 8 v), ucast (drop_bit 16 v), ucast (drop_bit 24 v)]"

definition LittleEndian_Uint32 :: "bytes \<Rightarrow> u32" where
  "LittleEndian_Uint32 bs =
     ucast (bs ! 0) OR push_bit 8 (ucast (bs ! 1)) OR push_bit 16 (ucast (bs ! 2)) OR push_bit 24 (ucast (bs ! 3))"

section \<open>The memory\<close>

datatype rv_mem_error = ErrRVMemPageLimit | ErrRVMemSegOverlap | ErrRVMemSegEmpty

text \<open>
  \<open>mmioRead\<close> is the registered read handler.  \<open>mmioWrites\<close> is \<open>None\<close> without a write handler
  and otherwise lists the calls made to it.
\<close>

record rv_memory =
  pages :: "(u32, bytes) fmap"
  mmioRead :: "(u32 \<Rightarrow> u32) option"
  mmioWrites :: "(u32 \<times> u32) list option"
  pageCount :: int
  maxPages :: int

definition NewRVMemory :: rv_memory where
  "NewRVMemory = \<lparr>pages = fmempty, mmioRead = None, mmioWrites = None, pageCount = 0, maxPages = 16384\<rparr>"

definition SetMaxPages :: "int \<Rightarrow> rv_memory \<Rightarrow> rv_memory" where
  "SetMaxPages n m = m\<lparr>maxPages := n\<rparr>"

definition SetMMIO :: "(u32 \<Rightarrow> u32) \<Rightarrow> rv_memory \<Rightarrow> rv_memory" where
  "SetMMIO r m = m\<lparr>mmioRead := Some r, mmioWrites := Some []\<rparr>"

definition RVMMIOBase :: u32 where
  "RVMMIOBase = 0xF0000000"

definition isMMIO :: "u32 \<Rightarrow> bool" where
  "isMMIO addr \<longleftrightarrow> RVMMIOBase \<le> addr"

definition pageIdx :: "u32 \<Rightarrow> u32" where
  "pageIdx addr = drop_bit 12 addr"

definition pageOffset :: "u32 \<Rightarrow> u32" where
  "pageOffset addr = addr AND 0xFFF"

definition getPage :: "u32 \<Rightarrow> rv_memory \<Rightarrow> (rv_mem_error, bytes) outcome \<times> rv_memory" where
  "getPage addr m =
     (case fmlookup (pages m) (pageIdx addr) of
        Some page \<Rightarrow> (Ok page, m)
      | None \<Rightarrow>
          if pageCount m \<ge> maxPages m then (Err ErrRVMemPageLimit, m)
          else (Ok (replicate 4096 0),
                m\<lparr>pages := fmupd (pageIdx addr) (replicate 4096 0) (pages m), pageCount := pageCount m + 1\<rparr>))"

text \<open>A write through the slice that \<open>getPage\<close> returned changes the page in the map.\<close>

definition set_page :: "u32 \<Rightarrow> bytes \<Rightarrow> rv_memory \<Rightarrow> rv_memory" where
  "set_page addr page m = m\<lparr>pages := fmupd (pageIdx addr) page (pages m)\<rparr>"

definition ReadByteAt :: "u32 \<Rightarrow> rv_memory \<Rightarrow> (rv_mem_error, byte) outcome \<times> rv_memory" where
  "ReadByteAt addr m =
     (case mmioRead m of
        Some r \<Rightarrow> if isMMIO addr then (Ok (ucast (r addr)), m)
                  else st_bind (getPage addr m) (\<lambda>page m. (Ok (page ! unat (pageOffset addr)), m))
      | None \<Rightarrow> st_bind (getPage addr m) (\<lambda>page m. (Ok (page ! unat (pageOffset addr)), m)))"

text \<open>A write to the input/output region goes to the handler and is dropped without one.\<close>

definition mmio_write :: "u32 \<Rightarrow> u32 \<Rightarrow> rv_memory \<Rightarrow> rv_memory" where
  "mmio_write addr val m = m\<lparr>mmioWrites := map_option (\<lambda>ws. ws @ [(addr, val)]) (mmioWrites m)\<rparr>"

definition WriteByteAt :: "u32 \<Rightarrow> byte \<Rightarrow> rv_memory \<Rightarrow> (rv_mem_error, unit) outcome \<times> rv_memory" where
  "WriteByteAt addr val m =
     (if isMMIO addr then (Ok (), mmio_write addr (ucast val) m)
      else st_bind (getPage addr m) (\<lambda>page m. (Ok (), set_page addr (page[unat (pageOffset addr) := val]) m)))"

definition ReadHalfword :: "u32 \<Rightarrow> rv_memory \<Rightarrow> (rv_mem_error, u16) outcome \<times> rv_memory" where
  "ReadHalfword addr m =
     (case (isMMIO addr, mmioRead m) of
        (True, Some r) \<Rightarrow> (Ok (ucast (r addr)), m)
      | _ \<Rightarrow> st_bind (ReadByteAt addr m) (\<lambda>b0 m.
             st_bind (ReadByteAt (addr + 1) m) (\<lambda>b1 m. (Ok (ucast b0 OR push_bit 8 (ucast b1)), m))))"

definition WriteHalfword :: "u32 \<Rightarrow> u16 \<Rightarrow> rv_memory \<Rightarrow> (rv_mem_error, unit) outcome \<times> rv_memory" where
  "WriteHalfword addr val m =
     (if isMMIO addr then (Ok (), mmio_write addr (ucast val) m)
      else st_bind (WriteByteAt addr (ucast val) m) (\<lambda>_ m. WriteByteAt (addr + 1) (ucast (drop_bit 8 val)) m))"

text \<open>The byte-by-byte loops of an access across a page boundary and of \<open>LoadSegment\<close>.\<close>

fun read_bytes :: "u32 \<Rightarrow> nat \<Rightarrow> rv_memory \<Rightarrow> (rv_mem_error, bytes) outcome \<times> rv_memory" where
  "read_bytes addr 0 m = (Ok [], m)"
| "read_bytes addr (Suc n) m =
     st_bind (ReadByteAt addr m) (\<lambda>b m. st_bind (read_bytes (addr + 1) n m) (\<lambda>bs m. (Ok (b # bs), m)))"

fun write_bytes :: "u32 \<Rightarrow> bytes \<Rightarrow> rv_memory \<Rightarrow> (rv_mem_error, unit) outcome \<times> rv_memory" where
  "write_bytes addr [] m = (Ok (), m)"
| "write_bytes addr (b # bs) m = st_bind (WriteByteAt addr b m) (\<lambda>_ m. write_bytes (addr + 1) bs m)"

definition ReadWord :: "u32 \<Rightarrow> rv_memory \<Rightarrow> (rv_mem_error, u32) outcome \<times> rv_memory" where
  "ReadWord addr m =
     (case (isMMIO addr, mmioRead m) of
        (True, Some r) \<Rightarrow> (Ok (r addr), m)
      | _ \<Rightarrow>
          let off = pageOffset addr in
          if off \<le> 4092
          then st_bind (getPage addr m) (\<lambda>page m. (Ok (LittleEndian_Uint32 (drop (unat off) page)), m))
          else st_bind (read_bytes addr 4 m) (\<lambda>buf m. (Ok (LittleEndian_Uint32 buf), m)))"

definition WriteWord :: "u32 \<Rightarrow> u32 \<Rightarrow> rv_memory \<Rightarrow> (rv_mem_error, unit) outcome \<times> rv_memory" where
  "WriteWord addr val m =
     (if isMMIO addr then (Ok (), mmio_write addr val m)
      else
        let off = pageOffset addr; buf = LittleEndian_PutUint32 val in
        if off \<le> 4092
        then st_bind (getPage addr m) (\<lambda>page m.
          (Ok (), set_page addr (take (unat off) page @ buf @ drop (unat off + 4) page) m))
        else write_bytes addr buf m)"

definition LoadSegment :: "u32 \<Rightarrow> bytes \<Rightarrow> rv_memory \<Rightarrow> (rv_mem_error, unit) outcome \<times> rv_memory" where
  "LoadSegment base data m =
     (if length data = 0 then (Err ErrRVMemSegEmpty, m)
      else if unat base + length data > 0x100000000 then (Err ErrRVMemSegOverlap, m)
      else write_bytes base data m)"

definition PageCount :: "rv_memory \<Rightarrow> int" where
  "PageCount m = pageCount m"

definition Reset :: "rv_memory \<Rightarrow> rv_memory" where
  "Reset m = m\<lparr>pages := fmempty, pageCount := 0\<rparr>"

section \<open>Addresses and pages\<close>

lemma unat_pageIdx: "unat (pageIdx a) = unat a div 4096"
  by (simp add: pageIdx_def drop_bit_eq_div unat_div)

lemma pageOffset_take_bit: "pageOffset a = take_bit 12 a"
proof -
  have "(0xFFF :: u32) = mask 12" by (simp add: mask_eq_exp_minus_1)
  then show ?thesis by (simp add: pageOffset_def take_bit_eq_mask)
qed

lemma unat_pageOffset: "unat (pageOffset a) = unat a mod 4096"
  by (simp add: pageOffset_take_bit take_bit_eq_mod unat_mod)

lemma page_split: "pageIdx a = pageIdx b \<Longrightarrow> pageOffset a = pageOffset b \<Longrightarrow> a = b"
proof -
  assume "pageIdx a = pageIdx b" "pageOffset a = pageOffset b"
  then have "unat a div 4096 = unat b div 4096" "unat a mod 4096 = unat b mod 4096"
    using unat_pageIdx unat_pageOffset by metis+
  then show ?thesis by (metis div_mult_mod_eq word_unat_eq_iff)
qed

lemma unat_add_small: "unat a + k < 2 ^ 32 \<Longrightarrow> unat (a + of_nat k :: u32) = unat a + k"
  by (simp add: unat_word_ariths unat_of_nat)

lemma page_add:
  assumes "unat (pageOffset a) + k < 4096"
  shows "pageIdx (a + of_nat k) = pageIdx a" "unat (pageOffset (a + of_nat k)) = unat (pageOffset a) + k"
proof -
  define q r where "q = unat a div 4096" and "r = unat a mod 4096"
  have a: "unat a = 4096 * q + r" by (simp add: q_def r_def)
  have r: "r + k < 4096" using assms by (simp add: unat_pageOffset r_def)
  have "unat a < 4096 * 1048576" using unsigned_less [of a] by simp
  then have "q < 1048576" using a by linarith
  then have u: "unat (a + of_nat k) = 4096 * q + (r + k)"
    using unat_add_small [of a k] a r by simp
  have "unat (pageIdx (a + of_nat k)) = unat (pageIdx a)"
    unfolding unat_pageIdx u using r by (simp add: q_def)
  then show "pageIdx (a + of_nat k) = pageIdx a" by (simp add: word_unat_eq_iff)
  show "unat (pageOffset (a + of_nat k)) = unat (pageOffset a) + k"
    unfolding unat_pageOffset u using r by (simp add: r_def)
qed

lemma le_roundtrip: "LittleEndian_Uint32 (LittleEndian_PutUint32 v @ bs) = v"
proof (rule bit_word_eqI)
  fix n assume "n < LENGTH(32)"
  then have "n < 8 \<or> 8 \<le> n \<and> n < 16 \<or> 16 \<le> n \<and> n < 24 \<or> 24 \<le> n \<and> n < 32" by auto
  then show "bit (LittleEndian_Uint32 (LittleEndian_PutUint32 v @ bs)) n = bit v n"
    by (elim disjE) (auto simp add: LittleEndian_Uint32_def LittleEndian_PutUint32_def bit_simps)
qed

section \<open>The memory as a map from addresses to bytes\<close>

definition byte_at :: "rv_memory \<Rightarrow> u32 \<Rightarrow> byte" where
  "byte_at m a = (case fmlookup (pages m) (pageIdx a) of Some page \<Rightarrow> page ! unat (pageOffset a) | None \<Rightarrow> 0)"

definition mem_wf :: "rv_memory \<Rightarrow> bool" where
  "mem_wf m \<longleftrightarrow> (\<forall>i page. fmlookup (pages m) i = Some page \<longrightarrow> length page = 4096) \<and>
     pageCount m = int (fcard (fmdom (pages m))) \<and> pageCount m \<le> maxPages m"

definition allocated :: "rv_memory \<Rightarrow> u32 \<Rightarrow> bool" where
  "allocated m a \<longleftrightarrow> fmlookup (pages m) (pageIdx a) \<noteq> None"

text \<open>Writing a byte string, addresses wrapping around.\<close>

definition upd_bytes :: "(u32 \<Rightarrow> byte) \<Rightarrow> u32 \<Rightarrow> bytes \<Rightarrow> u32 \<Rightarrow> byte" where
  "upd_bytes f addr bs = (\<lambda>a. if unat (a - addr) < length bs then bs ! unat (a - addr) else f a)"

text \<open>\<open>m'\<close> is \<open>m\<close> with contents \<open>f\<close>, and perhaps more pages.\<close>

definition mem_like :: "rv_memory \<Rightarrow> rv_memory \<Rightarrow> (u32 \<Rightarrow> byte) \<Rightarrow> bool" where
  "mem_like m m' f \<longleftrightarrow> mem_wf m' \<and> byte_at m' = f \<and> (\<forall>a. allocated m a \<longrightarrow> allocated m' a) \<and>
     mmioRead m' = mmioRead m \<and> maxPages m' = maxPages m"

lemma mem_wf_New: "mem_wf NewRVMemory"
  by (simp add: mem_wf_def NewRVMemory_def)

lemma unat_pageOffset_less: "unat (pageOffset a) < 4096"
  by (simp add: unat_pageOffset)

lemma mem_like_refl: "mem_wf m \<Longrightarrow> mem_like m m (byte_at m)"
  by (simp add: mem_like_def)

lemma mem_like_trans: "mem_like m m' f \<Longrightarrow> mem_like m' m'' g \<Longrightarrow> mem_like m m'' g"
  by (simp add: mem_like_def)

lemma getPage_ok:
  assumes "mem_wf m" "getPage a m = (Ok page, m')"
  shows "mem_like m m' (byte_at m)" "fmlookup (pages m') (pageIdx a) = Some page" "length page = 4096"
proof -
  have *: "mem_like m m' (byte_at m) \<and> fmlookup (pages m') (pageIdx a) = Some page \<and> length page = 4096"
  proof (cases "fmlookup (pages m) (pageIdx a)")
    case None
    then have m': "pageCount m < maxPages m" "page = replicate 4096 0"
      "m' = m\<lparr>pages := fmupd (pageIdx a) (replicate 4096 0) (pages m), pageCount := pageCount m + 1\<rparr>"
      using assms(2) by (auto simp: getPage_def split: if_splits)
    have "pageIdx a |\<notin>| fmdom (pages m)" using None by (simp add: fmdom_notI)
    then have "mem_wf m'" using assms(1) m' by (auto simp: mem_wf_def fcard_finsert_disjoint)
    moreover have "byte_at m' x = byte_at m x" for x
      using None unat_pageOffset_less [of x] by (cases "pageIdx x = pageIdx a") (simp_all add: byte_at_def m'(3))
    ultimately show ?thesis using m' by (auto simp: mem_like_def allocated_def)
  next
    case (Some p)
    then show ?thesis using assms by (auto simp: getPage_def mem_like_refl mem_wf_def)
  qed
  then show "mem_like m m' (byte_at m)" "fmlookup (pages m') (pageIdx a) = Some page" "length page = 4096"
    by simp_all
qed

lemma getPage_allocated: "allocated m a \<Longrightarrow> getPage a m = (Ok (the (fmlookup (pages m) (pageIdx a))), m)"
  by (auto simp: getPage_def allocated_def)

lemma allocated_cong: "pageIdx a = pageIdx b \<Longrightarrow> allocated m a = allocated m b"
  by (simp add: allocated_def)

text \<open>Replacing an allocated page.\<close>

lemma set_page_like:
  assumes "mem_wf m" "fmlookup (pages m) (pageIdx a) = Some page" "length page' = 4096"
  shows "mem_like m (set_page a page' m)
    (\<lambda>x. if pageIdx x = pageIdx a then page' ! unat (pageOffset x) else byte_at m x)"
proof -
  have "fmdom (pages (set_page a page' m)) = fmdom (pages m)"
    using assms(2) by (auto simp: set_page_def fmdomI)
  then have "mem_wf (set_page a page' m)" using assms by (auto simp: mem_wf_def set_page_def split: if_splits)
  then show ?thesis by (auto simp: mem_like_def byte_at_def allocated_def set_page_def fun_eq_iff)
qed

lemma upd_bytes_Nil [simp]: "upd_bytes f addr [] = f"
  by (simp add: upd_bytes_def)

lemma upd_bytes_one: "upd_bytes f addr [b] = f(addr := b)"
  by (auto simp: upd_bytes_def fun_eq_iff unat_eq_zero)

lemma upd_bytes_Cons:
  assumes "length bs < 2 ^ 32"
  shows "upd_bytes (f(addr := b)) (addr + 1) bs = upd_bytes f addr (b # bs)"
proof
  fix a
  show "upd_bytes (f(addr := b)) (addr + 1) bs a = upd_bytes f addr (b # bs) a"
  proof (cases "a = addr")
    case True
    then have "a - (addr + 1) = - 1" by simp
    then have "unat (a - (addr + 1)) = 2 ^ 32 - 1" by (simp only: unsigned_minus_1_eq_mask) (simp add: mask_eq_exp_minus_1)
    then show ?thesis using True assms by (simp add: upd_bytes_def)
  next
    case False
    then have "unat (a - addr) \<noteq> 0" by (simp add: unat_eq_zero)
    moreover have "a - (addr + 1) = (a - addr) - 1" by simp
    then have "unat (a - (addr + 1)) = unat (a - addr) - 1" using False by (simp only: unat_minus_one right_minus_eq not_False_eq_True)
    ultimately show ?thesis using False by (cases "unat (a - addr)") (simp_all add: upd_bytes_def)
  qed
qed

text \<open>The bytes of one page that a short string at \<open>addr\<close> covers.\<close>

lemma in_page:
  assumes "unat (pageOffset addr) + n \<le> 4096" "unat (a - addr) < n"
  shows "pageIdx a = pageIdx addr" "unat (pageOffset a) = unat (pageOffset addr) + unat (a - addr)"
proof -
  have "unat (pageOffset addr) + unat (a - addr) < 4096" using assms by linarith
  note p = page_add [OF this]
  have "addr + of_nat (unat (a - addr)) = a" by simp
  then show "pageIdx a = pageIdx addr" "unat (pageOffset a) = unat (pageOffset addr) + unat (a - addr)"
    using p by simp_all
qed

lemma in_page_conv:
  assumes "unat (pageOffset addr) + n \<le> 4096" "pageIdx a = pageIdx addr"
    "unat (pageOffset addr) \<le> unat (pageOffset a)" "unat (pageOffset a) < unat (pageOffset addr) + n"
  shows "unat (a - addr) < n"
proof -
  define k where "k = unat (pageOffset a) - unat (pageOffset addr)"
  have k: "k < n" "unat (pageOffset addr) + k < 4096" "unat (pageOffset addr) + k = unat (pageOffset a)"
    using assms unfolding k_def by linarith+
  have "pageOffset a = pageOffset (addr + of_nat k)"
    unfolding word_unat_eq_iff page_add(2) [OF k(2)] by (rule k(3) [symmetric])
  moreover have "pageIdx a = pageIdx (addr + of_nat k)" unfolding page_add(1) [OF k(2)] by (rule assms(2))
  ultimately have "a = addr + of_nat k" by (rule page_split [rotated])
  then have "a - addr = of_nat k" by simp
  then have "unat (a - addr) = k mod 2 ^ 32" by (simp only: unat_of_nat) simp
  also have "\<dots> \<le> k" by (rule mod_less_eq_dividend)
  finally show ?thesis using k(1) by linarith
qed

section \<open>Reads and writes\<close>

text \<open>The \<open>n\<close> bytes from \<open>addr\<close> on, wrapping around.\<close>

definition bytes_at :: "rv_memory \<Rightarrow> u32 \<Rightarrow> nat \<Rightarrow> bytes" where
  "bytes_at m addr n = map (\<lambda>i. byte_at m (addr + of_nat i)) [0..<n]"

definition mmio_free :: "u32 \<Rightarrow> nat \<Rightarrow> bool" where
  "mmio_free addr n \<longleftrightarrow> unat addr + n \<le> 0xF0000000"

lemma mmio_free_not_MMIO: "mmio_free addr (Suc n) \<Longrightarrow> \<not> isMMIO addr"
  by (simp add: mmio_free_def isMMIO_def RVMMIOBase_def word_le_nat_alt)

lemma mmio_free_step: "mmio_free addr (Suc n) \<Longrightarrow> mmio_free (addr + 1) n"
  using unat_add_small [of addr 1] by (simp add: mmio_free_def)

lemma WriteByteAt_ok:
  assumes "mem_wf m" "\<not> isMMIO a" "WriteByteAt a b m = (Ok u, m')"
  shows "mem_like m m' ((byte_at m)(a := b))" "allocated m' a"
proof -
  obtain page m1 where p: "getPage a m = (Ok page, m1)" "m' = set_page a (page[unat (pageOffset a) := b]) m1"
    using assms by (auto simp: WriteByteAt_def st_bind_Ok_iff)
  note g = getPage_ok [OF assms(1) p(1)]
  have b: "byte_at m1 = byte_at m" "mem_wf m1" using g(1) by (simp_all add: mem_like_def)
  have "page[unat (pageOffset a) := b] ! unat (pageOffset x) = ((byte_at m)(a := b)) x" if "pageIdx x = pageIdx a" for x
  proof (cases "x = a")
    case False
    then have "unat (pageOffset a) \<noteq> unat (pageOffset x)" using page_split that by (metis word_unat_eq_iff)
    then show ?thesis using False that g(2) unfolding b(1) [symmetric] by (simp add: byte_at_def)
  qed (use g(3) unat_pageOffset_less [of a] in simp)
  then have "(\<lambda>x. if pageIdx x = pageIdx a then page[unat (pageOffset a) := b] ! unat (pageOffset x) else byte_at m1 x) =
      (byte_at m)(a := b)"
    using b(1) by (auto simp: fun_eq_iff)
  with set_page_like [OF b(2) g(2), of "page[unat (pageOffset a) := b]"] g(3)
  have "mem_like m1 m' ((byte_at m)(a := b))" unfolding p(2) by simp
  then show "mem_like m m' ((byte_at m)(a := b))" by (rule mem_like_trans [OF g(1)])
  show "allocated m' a" by (simp add: allocated_def p(2) set_page_def)
qed

lemma write_bytes_ok:
  "\<lbrakk>mem_wf m; mmio_free addr (length bs); write_bytes addr bs m = (Ok u, m')\<rbrakk> \<Longrightarrow>
     mem_like m m' (upd_bytes (byte_at m) addr bs) \<and> (\<forall>i<length bs. allocated m' (addr + of_nat i))"
proof (induction bs arbitrary: addr m)
  case (Cons b bs)
  from Cons.prems(3) obtain m1 where m1: "WriteByteAt addr b m = (Ok (), m1)" "write_bytes (addr + 1) bs m1 = (Ok u, m')"
    by (auto simp: st_bind_Ok_iff)
  have free: "\<not> isMMIO addr" "mmio_free (addr + 1) (length bs)"
    using Cons.prems(2) by (simp_all add: mmio_free_not_MMIO mmio_free_step)
  note w = WriteByteAt_ok [OF Cons.prems(1) free(1) m1(1)]
  then have wf: "mem_wf m1" and b: "byte_at m1 = (byte_at m)(addr := b)" by (simp_all add: mem_like_def)
  note IH = Cons.IH [OF wf free(2) m1(2)]
  have "length bs < 2 ^ 32" using Cons.prems(2) by (simp add: mmio_free_def)
  from IH have l: "mem_like m1 m' (upd_bytes (byte_at m) addr (b # bs))"
    unfolding b upd_bytes_Cons [OF \<open>length bs < 2 ^ 32\<close>] by (rule conjunct1)
  have "allocated m' (addr + of_nat i)" if "i < length (b # bs)" for i
  proof (cases i)
    case 0
    then show ?thesis using w(2) l by (simp add: mem_like_def)
  next
    case (Suc j)
    then show ?thesis using IH that by (auto simp: algebra_simps)
  qed
  then show ?case using mem_like_trans [OF w(1) l] by blast
qed (simp add: mem_like_refl)

lemma page_bytes:
  assumes "mem_wf m" "fmlookup (pages m) (pageIdx addr) = Some page" "unat (pageOffset addr) + i < 4096"
  shows "page ! (unat (pageOffset addr) + i) = byte_at m (addr + of_nat i)"
  using assms page_add [OF assms(3)] by (simp add: byte_at_def)

lemma bytes_at_4:
  "bytes_at m addr 4 = [byte_at m addr, byte_at m (addr + 1), byte_at m (addr + 2), byte_at m (addr + 3)]"
  by (simp add: bytes_at_def upt_rec)

lemma LittleEndian_drop:
  "k + 4 \<le> length page \<Longrightarrow> LittleEndian_Uint32 (drop k page) =
     LittleEndian_Uint32 [page ! k, page ! (k + 1), page ! (k + 2), page ! (k + 3)]"
  by (simp add: LittleEndian_Uint32_def)

lemma ReadByteAt_allocated:
  "\<lbrakk>allocated m a; mmioRead m = None \<or> \<not> isMMIO a\<rbrakk> \<Longrightarrow> ReadByteAt a m = (Ok (byte_at m a), m)"
  by (auto simp: ReadByteAt_def getPage_allocated byte_at_def allocated_def split: option.split)

lemma read_bytes_allocated:
  "\<lbrakk>\<forall>i<n. allocated m (addr + of_nat i); mmioRead m = None \<or> mmio_free addr n\<rbrakk> \<Longrightarrow>
     read_bytes addr n m = (Ok (bytes_at m addr n), m)"
proof (induction n arbitrary: addr)
  case (Suc n)
  have "allocated m addr" using Suc.prems(1) [rule_format, of 0] by simp
  moreover have "mmioRead m = None \<or> \<not> isMMIO addr" using Suc.prems(2) mmio_free_not_MMIO by blast
  ultimately have 1: "ReadByteAt addr m = (Ok (byte_at m addr), m)" by (rule ReadByteAt_allocated)
  have "allocated m (addr + 1 + of_nat i)" if "i < n" for i
    using Suc.prems(1) [rule_format, of "Suc i"] that by (simp add: algebra_simps)
  then have "\<forall>i<n. allocated m (addr + 1 + of_nat i)" by blast
  moreover have "mmioRead m = None \<or> mmio_free (addr + 1) n" using Suc.prems(2) mmio_free_step by blast
  ultimately have "read_bytes (addr + 1) n m = (Ok (bytes_at m (addr + 1) n), m)" by (rule Suc.IH)
  moreover have "bytes_at m addr (Suc n) = byte_at m addr # bytes_at m (addr + 1) n"
    by (simp add: bytes_at_def upt_conv_Cons map_Suc_upt [symmetric] comp_def algebra_simps del: upt_Suc)
  ultimately show ?case using 1 by simp
qed (simp add: bytes_at_def)

text \<open>A word is read as the four bytes at its address, in whichever way the source reads it.\<close>

lemma ReadWord_allocated:
  assumes "mem_wf m" "\<forall>i<4. allocated m (addr + of_nat i)" "mmioRead m = None \<or> mmio_free addr 4"
  shows "ReadWord addr m = (Ok (LittleEndian_Uint32 (bytes_at m addr 4)), m)"
proof -
  have no: "\<not> (isMMIO addr \<and> mmioRead m \<noteq> None)"
    using assms(3) mmio_free_not_MMIO [of addr 3] by auto
  have a: "allocated m addr" using assms(2) [rule_format, of 0] by simp
  then obtain page where page: "fmlookup (pages m) (pageIdx addr) = Some page" by (auto simp: allocated_def)
  have len: "length page = 4096" using assms(1) page by (simp add: mem_wf_def)
  show ?thesis
  proof (cases "pageOffset addr \<le> 4092")
    case True
    then have off: "unat (pageOffset addr) \<le> 4092" by (simp add: word_le_nat_alt)
    have pb: "page ! (unat (pageOffset addr) + i) = byte_at m (addr + of_nat i)" if "i < 4" for i
      using page_bytes [OF assms(1) page, of i] off that by simp
    have "LittleEndian_Uint32 (drop (unat (pageOffset addr)) page) = LittleEndian_Uint32 (bytes_at m addr 4)"
      using LittleEndian_drop [of "unat (pageOffset addr)" page] off len pb [of 0] pb [of 1] pb [of 2] pb [of 3]
      by (simp add: bytes_at_4)
    then show ?thesis
      using no True page getPage_allocated [OF a] by (auto simp: ReadWord_def split: bool.split option.split)
  next
    case False
    then show ?thesis
      using no read_bytes_allocated [OF assms(2,3)] by (auto simp: ReadWord_def split: bool.split option.split)
  qed
qed

lemma length_PutUint32 [simp]: "length (LittleEndian_PutUint32 v) = 4"
  by (simp add: LittleEndian_PutUint32_def)

lemma splice_nth:
  assumes "k + length buf \<le> length page" "j < length page"
  shows "(take k page @ buf @ drop (k + length buf) page) ! j =
    (if k \<le> j \<and> j < k + length buf then buf ! (j - k) else page ! j)"
  using assms by (auto simp: nth_append)

lemma splice_page:
  assumes "mem_wf m" "fmlookup (pages m) (pageIdx addr) = Some page" "unat (pageOffset addr) + length buf \<le> 4096"
  shows "mem_like m (set_page addr (take (unat (pageOffset addr)) page @ buf @ drop (unat (pageOffset addr) + length buf) page) m)
    (upd_bytes (byte_at m) addr buf)"
proof -
  let ?k = "unat (pageOffset addr)"
  let ?page = "take ?k page @ buf @ drop (?k + length buf) page"
  have len: "length page = 4096" using assms(1,2) by (simp add: mem_wf_def)
  have "(if pageIdx x = pageIdx addr then ?page ! unat (pageOffset x) else byte_at m x) = upd_bytes (byte_at m) addr buf x" for x
  proof (cases "unat (x - addr) < length buf")
    case True
    note p = in_page [OF assms(3) True]
    then show ?thesis using True len splice_nth [of ?k buf page "unat (pageOffset x)"] assms(3)
      by (simp add: upd_bytes_def)
  next
    case False
    have "?page ! unat (pageOffset x) = byte_at m x" if "pageIdx x = pageIdx addr"
    proof -
      have "\<not> (?k \<le> unat (pageOffset x) \<and> unat (pageOffset x) < ?k + length buf)"
        using in_page_conv [OF assms(3) that] False by blast
      moreover have "byte_at m x = page ! unat (pageOffset x)" using that assms(2) by (simp add: byte_at_def)
      ultimately show ?thesis
        using splice_nth [of ?k buf page "unat (pageOffset x)"] len assms(3) unat_pageOffset_less [of x] by auto
    qed
    then show ?thesis using False by (simp add: upd_bytes_def)
  qed
  then show ?thesis using set_page_like [OF assms(1,2), of ?page] len assms(3) by simp
qed

lemma WriteWord_ok:
  assumes "mem_wf m" "mmio_free addr 4" "WriteWord addr v m = (Ok u, m')"
  shows "mem_like m m' (upd_bytes (byte_at m) addr (LittleEndian_PutUint32 v)) \<and> (\<forall>i<4. allocated m' (addr + of_nat i))"
proof -
  have no: "\<not> isMMIO addr" using assms(2) mmio_free_not_MMIO [of addr 3] by simp
  show ?thesis
  proof (cases "pageOffset addr \<le> 4092")
    case True
    then have off: "unat (pageOffset addr) + length (LittleEndian_PutUint32 v) \<le> 4096" by (simp add: word_le_nat_alt)
    obtain page m1 where p: "getPage addr m = (Ok page, m1)"
      "m' = set_page addr (take (unat (pageOffset addr)) page @ LittleEndian_PutUint32 v @
        drop (unat (pageOffset addr) + 4) page) m1"
      using assms(3) no True by (auto simp: WriteWord_def Let_def st_bind_Ok_iff)
    note g = getPage_ok [OF assms(1) p(1)]
    then have b: "mem_wf m1" "byte_at m1 = byte_at m" by (simp_all add: mem_like_def)
    have "mem_like m1 m' (upd_bytes (byte_at m) addr (LittleEndian_PutUint32 v))"
      using splice_page [OF b(1) g(2) off] unfolding p(2) b(2) by simp
    moreover have "allocated m' (addr + of_nat i)" if "i < 4" for i
      using page_add(1) [of addr i] off that by (simp add: allocated_def p(2) set_page_def)
    ultimately show ?thesis using mem_like_trans [OF g(1)] by blast
  next
    case False
    then have "write_bytes addr (LittleEndian_PutUint32 v) m = (Ok u, m')"
      using assms(3) no by (simp add: WriteWord_def Let_def)
    then show ?thesis using write_bytes_ok [OF assms(1)] assms(2) by (metis length_PutUint32)
  qed
qed

lemma upd_bytes_same:
  "length bs \<le> 2 ^ 32 \<Longrightarrow> i < length bs \<Longrightarrow> upd_bytes f addr bs (addr + of_nat i) = bs ! i"
  by (simp add: upd_bytes_def unat_of_nat)

section \<open>No operation panics or breaks the page table\<close>

definition mem_safe :: "(rv_memory \<Rightarrow> (rv_mem_error, 'a) outcome \<times> rv_memory) \<Rightarrow> bool" where
  "mem_safe f \<longleftrightarrow> (\<forall>m. mem_wf m \<longrightarrow> fst (f m) \<noteq> Panic \<and> mem_wf (snd (f m)))"

named_theorems mem_safe_intros \<open>memory operations that never panic and keep the page table well formed\<close>

lemma mem_safe_ret [mem_safe_intros]: "mem_safe (\<lambda>m. (Ok a, m))"
  by (simp add: mem_safe_def)

lemma mem_safe_err [mem_safe_intros]: "mem_safe (\<lambda>m. (Err e, m))"
  by (simp add: mem_safe_def)

lemma mem_safe_if [mem_safe_intros]: "mem_safe f \<Longrightarrow> mem_safe g \<Longrightarrow> mem_safe (\<lambda>m. if b then f m else g m)"
  by (cases b) simp_all

lemma mem_safe_mmio [mem_safe_intros]: "mem_safe (\<lambda>m. (Ok a, mmio_write addr v m))"
  by (auto simp: mem_safe_def mem_wf_def mmio_write_def)

lemma mem_safe_bind [mem_safe_intros]:
  "mem_safe f \<Longrightarrow> (\<And>a. mem_safe (g a)) \<Longrightarrow> mem_safe (\<lambda>m. st_bind (f m) g)"
  unfolding mem_safe_def
proof (intro allI impI)
  fix m assume f: "\<forall>m. mem_wf m \<longrightarrow> fst (f m) \<noteq> Panic \<and> mem_wf (snd (f m))"
    and g: "\<And>a. \<forall>m. mem_wf m \<longrightarrow> fst (g a m) \<noteq> Panic \<and> mem_wf (snd (g a m))" and m: "mem_wf m"
  obtain r m1 where r: "f m = (r, m1)" by (cases "f m")
  then have "r \<noteq> Panic \<and> mem_wf m1" using f [rule_format, OF m] by simp
  then show "fst (st_bind (f m) g) \<noteq> Panic \<and> mem_wf (snd (st_bind (f m) g))"
    using r g [rule_format] by (cases r) simp_all
qed

lemma mem_safe_getPage [mem_safe_intros]: "mem_safe (getPage a)"
  unfolding mem_safe_def
proof (intro allI impI)
  fix m assume m: "mem_wf m"
  show "fst (getPage a m) \<noteq> Panic \<and> mem_wf (snd (getPage a m))"
  proof (cases "fst (getPage a m)")
    case (Ok page)
    then show ?thesis using getPage_ok(1) [OF m, of a page "snd (getPage a m)"] by (simp add: prod_eq_iff mem_like_def)
  qed (use m in \<open>auto simp: getPage_def split: option.splits if_splits\<close>)
qed

text \<open>An update of the page that \<open>getPage\<close> returned.\<close>

lemma mem_safe_update:
  assumes "\<And>page. length page = 4096 \<Longrightarrow> length (f page) = 4096"
  shows "mem_safe (\<lambda>m. st_bind (getPage a m) (\<lambda>page m. (Ok u, set_page a (f page) m)))"
  unfolding mem_safe_def
proof (intro allI impI)
  fix m assume m: "mem_wf m"
  obtain r m1 where r: "getPage a m = (r, m1)" by (cases "getPage a m")
  have "r \<noteq> Panic \<and> mem_wf m1" using mem_safe_getPage [of a, unfolded mem_safe_def, rule_format, OF m] r by simp
  then show "fst (st_bind (getPage a m) (\<lambda>page m. (Ok u, set_page a (f page) m))) \<noteq> Panic \<and>
      mem_wf (snd (st_bind (getPage a m) (\<lambda>page m. (Ok u, set_page a (f page) m))))"
  proof (cases r)
    case (Ok page)
    then have "mem_like m1 (set_page a (f page) m1)
        (\<lambda>x. if pageIdx x = pageIdx a then f page ! unat (pageOffset x) else byte_at m1 x)"
      using getPage_ok [OF m, of a page m1] r assms by (intro set_page_like) (simp_all add: mem_like_def)
    then show ?thesis using r Ok by (simp add: mem_like_def)
  qed (simp_all add: r)
qed

lemma mem_safe_ReadByteAt [mem_safe_intros]: "mem_safe (ReadByteAt a)"
proof -
  have "mem_safe (\<lambda>m. st_bind (getPage a m) (\<lambda>page m. (Ok (page ! unat (pageOffset a)), m)))"
    by (intro mem_safe_intros)
  then show ?thesis by (auto simp: mem_safe_def ReadByteAt_def split: option.split)
qed

lemma mem_safe_WriteByteAt [mem_safe_intros]: "mem_safe (WriteByteAt a b)"
  unfolding WriteByteAt_def by (intro mem_safe_intros mem_safe_update) simp

lemma mem_safe_ReadHalfword [mem_safe_intros]: "mem_safe (ReadHalfword a)"
proof -
  have "mem_safe (\<lambda>m. st_bind (ReadByteAt a m) (\<lambda>b0 m.
             st_bind (ReadByteAt (a + 1) m) (\<lambda>b1 m. (Ok (ucast b0 OR push_bit 8 (ucast b1) :: u16), m))))"
    by (intro mem_safe_intros)
  then show ?thesis by (auto simp: mem_safe_def ReadHalfword_def split: option.split bool.split)
qed

lemma mem_safe_WriteHalfword [mem_safe_intros]: "mem_safe (WriteHalfword a v)"
  unfolding WriteHalfword_def by (intro mem_safe_intros)

lemma mem_safe_read_bytes [mem_safe_intros]: "mem_safe (read_bytes a n)"
proof (induction n arbitrary: a)
  case (Suc n)
  have "read_bytes a (Suc n) =
    (\<lambda>m. st_bind (ReadByteAt a m) (\<lambda>b m. st_bind (read_bytes (a + 1) n m) (\<lambda>bs m. (Ok (b # bs), m))))"
    by (simp add: fun_eq_iff)
  then show ?case using Suc by (simp only:) (intro mem_safe_intros)
qed (simp add: mem_safe_def)

lemma mem_safe_write_bytes [mem_safe_intros]: "mem_safe (write_bytes a bs)"
proof (induction bs arbitrary: a)
  case (Cons b bs)
  have "write_bytes a (b # bs) = (\<lambda>m. st_bind (WriteByteAt a b m) (\<lambda>_ m. write_bytes (a + 1) bs m))"
    by (simp add: fun_eq_iff)
  then show ?case using Cons by (simp only:) (intro mem_safe_intros)
qed (simp add: mem_safe_def)

lemma mem_safe_ReadWord [mem_safe_intros]: "mem_safe (ReadWord a)"
proof -
  have "mem_safe (\<lambda>m. st_bind (getPage a m) (\<lambda>page m. (Ok (LittleEndian_Uint32 (drop k page)), m)))"
    "mem_safe (\<lambda>m. st_bind (read_bytes a 4 m) (\<lambda>buf m. (Ok (LittleEndian_Uint32 buf), m)))" for k
    by (intro mem_safe_intros)+
  then show ?thesis by (auto simp: mem_safe_def ReadWord_def Let_def split: option.split bool.split)
qed

lemma mem_safe_WriteWord [mem_safe_intros]: "mem_safe (WriteWord a v)"
proof (cases "pageOffset a \<le> 4092")
  case True
  then have "unat (pageOffset a) + 4 \<le> 4096" by (simp add: word_le_nat_alt)
  then have "mem_safe (\<lambda>m. st_bind (getPage a m) (\<lambda>page m. (Ok (), set_page a
      (take (unat (pageOffset a)) page @ LittleEndian_PutUint32 v @ drop (unat (pageOffset a) + 4) page) m)))"
    by (intro mem_safe_update) simp
  then show ?thesis using True unfolding WriteWord_def Let_def by (simp only: if_True) (rule mem_safe_if [OF mem_safe_mmio])
next
  case False
  then show ?thesis unfolding WriteWord_def Let_def by (simp only: if_False) (intro mem_safe_intros)
qed

lemma mem_safe_LoadSegment [mem_safe_intros]: "mem_safe (LoadSegment base data)"
  unfolding LoadSegment_def by (intro mem_safe_intros)

section \<open>Properties\<close>

text \<open>
  Memory is a store of bytes: below the input/output region a word that was written is
  read back, across a page boundary too, no other byte changes, and the memory stays well
  formed with as many pages as it counts.
\<close>

theorem memory_word_roundtrip:
  assumes "mem_wf m" "unat addr + 4 \<le> 0xF0000000" "WriteWord addr v m = (Ok (), m')"
  shows "ReadWord addr m' = (Ok v, m') \<and> (\<forall>a. 4 \<le> unat (a - addr) \<longrightarrow> byte_at m' a = byte_at m a) \<and> mem_wf m'"
proof -
  have free: "mmio_free addr 4" using assms(2) by (simp add: mmio_free_def)
  note w = WriteWord_ok [OF assms(1) free assms(3)]
  then have b: "byte_at m' = upd_bytes (byte_at m) addr (LittleEndian_PutUint32 v)" "mem_wf m'"
    by (simp_all add: mem_like_def)
  have "bytes_at m' addr 4 = map (\<lambda>i. LittleEndian_PutUint32 v ! i) [0..<4]"
    unfolding bytes_at_def b(1) by (rule map_cong) (simp_all add: upd_bytes_same)
  also have "\<dots> = LittleEndian_PutUint32 v @ []" using map_nth [of "LittleEndian_PutUint32 v"] by simp
  finally have "LittleEndian_Uint32 (bytes_at m' addr 4) = v" by (simp only: le_roundtrip)
  moreover have "byte_at m' a = byte_at m a" if "4 \<le> unat (a - addr)" for a
    using that by (simp add: b(1) upd_bytes_def)
  ultimately show ?thesis using ReadWord_allocated [OF b(2), of addr] w free b(2) by simp
qed

theorem memory_word_roundtrip_witness:
  "\<exists>m'. WriteWord 4094 0xdeadbeef NewRVMemory = (Ok (), m') \<and> ReadWord 4094 m' = (Ok 0xdeadbeef, m')"
proof -
  have p: "pageIdx 4094 = 0" "pageIdx 4095 = 0" "pageIdx 4096 = 1" "pageIdx 4097 = 1" "pageOffset 4094 = 4094"
    by (simp_all add: pageIdx_def pageOffset_def)
  obtain m' where w: "WriteWord 4094 0xdeadbeef NewRVMemory = (Ok (), m')"
    by (simp add: WriteWord_def isMMIO_def RVMMIOBase_def Let_def p LittleEndian_PutUint32_def WriteByteAt_def
        getPage_def set_page_def NewRVMemory_def)
  show ?thesis using memory_word_roundtrip [OF mem_wf_New _ w] w by auto
qed

end
