(* ===== verification/Riscv_Witness.thy ===== *)
theory Riscv_Witness
  imports Riscv_Memory
begin

text \<open>
  The execution trace of the RISC-V emulator, \<^verbatim>\<open>src/pkg/zkvm/riscv/riscv_witness.go\<close>: recording
  steps, the trace format with its writer and reader, and the Merkle commitment to a trace.
  SHA-256 is a parameter of the commitment.  The reader works on the input not yet consumed
  in place of an offset into it.
\<close>

section \<open>Traces\<close>

record mem_op =
  Addr :: u32
  Value :: u32
  IsWrite :: bool

record rv_witness_step =
  StepPC :: u32
  Instruction :: u32
  RegsBefore :: "u32 list"
  RegsAfter :: "u32 list"
  MemoryOps :: "mem_op list"

type_synonym rv_witness_collector = "rv_witness_step list"

definition NewRVWitnessCollector :: rv_witness_collector where
  "NewRVWitnessCollector = []"

definition RecordStep ::
    "u32 \<Rightarrow> u32 \<Rightarrow> u32 list \<Rightarrow> u32 list \<Rightarrow> mem_op list \<Rightarrow> rv_witness_collector \<Rightarrow> rv_witness_collector" where
  "RecordStep pc instr regsBefore regsAfter memOps w =
     w @ [\<lparr>StepPC = pc, Instruction = instr, RegsBefore = regsBefore, RegsAfter = regsAfter, MemoryOps = memOps\<rparr>]"

definition StepCount :: "rv_witness_collector \<Rightarrow> int" where
  "StepCount w = int (length w)"

definition Reset_witness :: "rv_witness_collector \<Rightarrow> rv_witness_collector" where
  "Reset_witness w = []"

section \<open>The trace format\<close>

definition LittleEndian_PutUint16 :: "u16 \<Rightarrow> bytes" where
  "LittleEndian_PutUint16 v = [ucast v, ucast (drop_bit 8 v)]"

definition LittleEndian_Uint16 :: "bytes \<Rightarrow> u16" where
  "LittleEndian_Uint16 bs = ucast (bs ! 0) OR push_bit 8 (ucast (bs ! 1))"

definition serialize_op :: "mem_op \<Rightarrow> bytes" where
  "serialize_op mop =
     LittleEndian_PutUint32 (Addr mop) @ LittleEndian_PutUint32 (Value mop) @ [if IsWrite mop then 1 else 0]"

definition serialize_step :: "rv_witness_step \<Rightarrow> bytes" where
  "serialize_step step =
     LittleEndian_PutUint32 (StepPC step) @
     LittleEndian_PutUint32 (Instruction step) @
     concat (map LittleEndian_PutUint32 (RegsBefore step)) @
     concat (map LittleEndian_PutUint32 (RegsAfter step)) @
     LittleEndian_PutUint16 (of_nat (length (MemoryOps step))) @
     concat (map serialize_op (MemoryOps step))"

definition Serialize :: "rv_witness_collector \<Rightarrow> bytes" where
  "Serialize w = LittleEndian_PutUint32 (of_nat (length w)) @ concat (map serialize_step w)"

fun read_regs :: "nat \<Rightarrow> bytes \<Rightarrow> u32 list \<times> bytes" where
  "read_regs 0 data = ([], data)"
| "read_regs (Suc n) data =
     (let (rs, rest) = read_regs n (drop 4 data) in (LittleEndian_Uint32 data # rs, rest))"

text \<open>A truncated list of memory operations keeps its declared length and is zero from there on.\<close>

fun read_ops :: "nat \<Rightarrow> bytes \<Rightarrow> mem_op list \<times> bytes" where
  "read_ops 0 data = ([], data)"
| "read_ops (Suc n) data =
     (if length data < 9 then (replicate (Suc n) \<lparr>Addr = 0, Value = 0, IsWrite = False\<rparr>, data)
      else let (ops, rest) = read_ops n (drop 9 data) in
           (\<lparr>Addr = LittleEndian_Uint32 data, Value = LittleEndian_Uint32 (drop 4 data), IsWrite = data ! 8 \<noteq> 0\<rparr> # ops,
            rest))"

definition read_step :: "bytes \<Rightarrow> rv_witness_step \<times> bytes" where
  "read_step data =
     (let pc = LittleEndian_Uint32 data;
          instr = LittleEndian_Uint32 (drop 4 data);
          (before, data1) = read_regs 32 (drop 8 data);
          (after, data2) = read_regs 32 data1;
          numOps = LittleEndian_Uint16 data2;
          (ops, rest) = read_ops (unat numOps) (drop 2 data2) in
      (\<lparr>StepPC = pc, Instruction = instr, RegsBefore = before, RegsAfter = after, MemoryOps = ops\<rparr>, rest))"

fun read_steps :: "nat \<Rightarrow> bytes \<Rightarrow> rv_witness_collector" where
  "read_steps 0 data = []"
| "read_steps (Suc n) data =
     (if length data < 8 + 32 * 4 * 2 + 2 then []
      else let (step, rest) = read_step data in step # read_steps n rest)"

text \<open>The errors of \<^verbatim>\<open>riscv_cpu.go\<close>, with those of the memory that it passes on and those of ECALL handlers.\<close>

datatype rv_error =
    ErrRVInvalidInstruction
  | ErrRVGasExhausted
  | ErrRVHalted
  | ErrRVMemoryFault
  | ErrRVEmptyProgram
  | RVMemError rv_mem_error
  | EcallError string

definition DeserializeWitness :: "bytes \<Rightarrow> (rv_error, rv_witness_collector) outcome" where
  "DeserializeWitness data =
     (if length data < 4 then Err ErrRVEmptyProgram
      else Ok (read_steps (unat (LittleEndian_Uint32 data)) (drop 4 data)))"

section \<open>The trace commitment\<close>

definition hashWitnessStep :: "(bytes \<Rightarrow> bytes) \<Rightarrow> rv_witness_step \<Rightarrow> bytes" where
  "hashWitnessStep sha256 step =
     sha256 (LittleEndian_PutUint32 (StepPC step) @
             LittleEndian_PutUint32 (Instruction step) @
             concat (map LittleEndian_PutUint32 (RegsBefore step)) @
             concat (map LittleEndian_PutUint32 (RegsAfter step)) @
             concat (map serialize_op (MemoryOps step)))"

fun merkle_level :: "(bytes \<Rightarrow> bytes) \<Rightarrow> bytes list \<Rightarrow> bytes list" where
  "merkle_level sha256 (a # b # rest) = sha256 (a @ b) # merkle_level sha256 rest"
| "merkle_level sha256 _ = []"

definition pad_even :: "bytes list \<Rightarrow> bytes list" where
  "pad_even xs = (if length xs > 1 \<and> length xs mod 2 \<noteq> 0 then xs @ [last xs] else xs)"

lemma length_merkle_level: "length (merkle_level h xs) = length xs div 2"
  by (induction h xs rule: merkle_level.induct) auto

function merkle_loop :: "(bytes \<Rightarrow> bytes) \<Rightarrow> bytes list \<Rightarrow> bytes" where
  "merkle_loop sha256 current =
     (if length current > 1 then merkle_loop sha256 (pad_even (merkle_level sha256 current)) else hd current)"
  by pat_completeness auto
termination
  by (relation "measure (\<lambda>(_, c). length c + (if length c mod 2 \<noteq> 0 \<and> 1 < length c then 2 else 0))")
     (auto simp: pad_even_def length_merkle_level, presburger+)

declare merkle_loop.simps [simp del]

definition merkleRoot :: "(bytes \<Rightarrow> bytes) \<Rightarrow> bytes list \<Rightarrow> bytes" where
  "merkleRoot sha256 leaves =
     (if leaves = [] then sha256 []
      else if length leaves = 1 then hd leaves
      else merkle_loop sha256 (pad_even leaves))"

definition ComputeTraceCommitment :: "(bytes \<Rightarrow> bytes) \<Rightarrow> rv_witness_collector \<Rightarrow> bytes" where
  "ComputeTraceCommitment sha256 w =
     (if w = [] then sha256 [] else merkleRoot sha256 (map (hashWitnessStep sha256) w))"

section \<open>Reading back what was written\<close>

definition step_ok :: "rv_witness_step \<Rightarrow> bool" where
  "step_ok step \<longleftrightarrow> length (RegsBefore step) = 32 \<and> length (RegsAfter step) = 32 \<and> length (MemoryOps step) < 2 ^ 16"

lemma drop_PutUint32 [simp]:
  "drop 4 (LittleEndian_PutUint32 v @ bs) = bs" "drop 8 (LittleEndian_PutUint32 v @ bs) = drop 4 bs"
  "drop 9 (LittleEndian_PutUint32 v @ bs) = drop 5 bs" "(LittleEndian_PutUint32 v @ bs) ! 8 = bs ! 4"
  by (simp_all add: LittleEndian_PutUint32_def)

lemma drop_PutUint32_5 [simp]:
  "drop 5 (LittleEndian_PutUint32 v @ b # bs) = bs" "(LittleEndian_PutUint32 v @ b # bs) ! 4 = b"
  by (simp_all add: LittleEndian_PutUint32_def)

lemma le16_roundtrip: "LittleEndian_Uint16 (LittleEndian_PutUint16 v @ bs) = v"
proof (rule bit_word_eqI)
  fix n assume "n < LENGTH(16)"
  then have "n < 8 \<or> 8 \<le> n \<and> n < 16" by auto
  then show "bit (LittleEndian_Uint16 (LittleEndian_PutUint16 v @ bs)) n = bit v n"
    by (elim disjE) (auto simp add: LittleEndian_Uint16_def LittleEndian_PutUint16_def bit_simps)
qed

lemma read_regs_write: "read_regs (length rs) (concat (map LittleEndian_PutUint32 rs) @ bs) = (rs, bs)"
  by (induction rs) (simp_all add: le_roundtrip)

lemma length_serialize_op [simp]: "length (serialize_op mop) = 9"
  by (simp add: serialize_op_def)

lemma read_ops_write: "read_ops (length ops) (concat (map serialize_op ops) @ bs) = (ops, bs)"
proof (induction ops)
  case (Cons mop ops)
  then show ?case by (cases mop) (simp add: serialize_op_def le_roundtrip)
qed simp

lemma length_regs: "length (concat (map LittleEndian_PutUint32 rs)) = 4 * length rs"
  by (induction rs) simp_all

lemma length_serialize_step:
  "step_ok step \<Longrightarrow> length (serialize_step step) = 266 + length (concat (map serialize_op (MemoryOps step)))"
  by (simp add: serialize_step_def step_ok_def length_regs LittleEndian_PutUint16_def)

lemma read_step_write:
  assumes "step_ok step"
  shows "read_step (serialize_step step @ bs) = (step, bs)"
proof -
  have regs: "read_regs 32 (concat (map LittleEndian_PutUint32 (RegsBefore step)) @ bs') = (RegsBefore step, bs')"
    "read_regs 32 (concat (map LittleEndian_PutUint32 (RegsAfter step)) @ bs') = (RegsAfter step, bs')" for bs'
    using assms read_regs_write [of "RegsBefore step"] read_regs_write [of "RegsAfter step"]
    by (simp_all add: step_ok_def)
  have n: "unat (of_nat (length (MemoryOps step)) :: u16) = length (MemoryOps step)"
    using assms by (simp add: step_ok_def unat_of_nat)
  show ?thesis
    by (simp add: read_step_def serialize_step_def le_roundtrip regs le16_roundtrip n read_ops_write)
       (simp add: LittleEndian_PutUint16_def read_ops_write)
qed

lemma read_steps_write:
  "list_all step_ok w \<Longrightarrow> read_steps (length w) (concat (map serialize_step w) @ bs) = w"
proof (induction w)
  case (Cons step w)
  then show ?case by (simp add: length_serialize_step read_step_write)
qed simp

lemma Deserialize_Serialize:
  assumes "length w < 2 ^ 32" "list_all step_ok w"
  shows "DeserializeWitness (Serialize w @ trailing) = Ok w"
proof -
  have "unat (of_nat (length w) :: u32) = length w" using assms(1) by (simp add: unat_of_nat)
  then show ?thesis
    using assms(2) by (simp add: DeserializeWitness_def Serialize_def le_roundtrip read_steps_write)
qed

text \<open>
  Round trip of the execution trace.  For a trace of fewer than \<open>2^32\<close> steps, each with full
  register files and fewer than \<open>2^16\<close> memory operations, reading the serialized trace returns
  the trace itself, whatever follows it in the buffer.
\<close>

theorem witness_roundtrip:
  assumes "length w < 2 ^ 32" "list_all step_ok w"
  shows "DeserializeWitness (Serialize w @ trailing) = Ok w"
  using assms by (rule Deserialize_Serialize)

theorem witness_roundtrip_witness:
  "\<exists>step. step_ok step \<and> MemoryOps step \<noteq> [] \<and> DeserializeWitness (Serialize [step] @ [7]) = Ok [step]"
proof -
  define step where "step = \<lparr>StepPC = 4, Instruction = 0x13, RegsBefore = replicate 32 0,
    RegsAfter = replicate 32 1, MemoryOps = [\<lparr>Addr = 8, Value = 9, IsWrite = True\<rparr>]\<rparr>"
  have "step_ok step" by (simp add: step_def step_ok_def)
  moreover have "MemoryOps step \<noteq> []" by (simp add: step_def)
  moreover have "DeserializeWitness (Serialize [step] @ [7]) = Ok [step]"
    using calculation by (intro witness_roundtrip) simp_all
  ultimately show ?thesis by blast
qed

section \<open>The commitment is not binding for traces of odd length\<close>

lemma pad_even_odd: "odd (length xs) \<Longrightarrow> 1 < length xs \<Longrightarrow> pad_even xs = xs @ [last xs]"
  by (simp add: pad_even_def odd_iff_mod_2_eq_one)

lemma pad_even_even: "even (length xs) \<Longrightarrow> pad_even xs = xs"
  by (simp add: pad_even_def even_iff_mod_2_eq_zero)

lemma merkleRoot_padded:
  assumes "odd (length leaves)" "1 < length leaves"
  shows "merkleRoot h (leaves @ [last leaves]) = merkleRoot h leaves"
  using assms by (auto simp: merkleRoot_def pad_even_odd pad_even_even)

text \<open>
  C40.  Two traces with one commitment.  A trace of odd length greater than one has the same
  commitment as the longer trace that repeats its last step, for every hash function: the
  Merkle tree pads an odd level with a copy of its last node and does not commit to the length.
\<close>

theorem trace_commitment_collision:
  assumes "odd (length w)" "1 < length w"
  shows "ComputeTraceCommitment sha256 (w @ [last w]) = ComputeTraceCommitment sha256 w"
proof -
  have "w \<noteq> []" using assms by auto
  then have "hashWitnessStep sha256 (last w) = last (map (hashWitnessStep sha256) w)" by (simp add: last_map)
  then show ?thesis
    using merkleRoot_padded [of "map (hashWitnessStep sha256) w" sha256] assms \<open>w \<noteq> []\<close>
    by (simp add: ComputeTraceCommitment_def)
qed

theorem trace_commitment_collision_witness:
  "\<exists>w w'. w \<noteq> w' \<and> ComputeTraceCommitment (\<lambda>bs. take 32 bs) w = ComputeTraceCommitment (\<lambda>bs. take 32 bs) w'"
proof -
  define s where "s = \<lparr>StepPC = 0, Instruction = 0x13, RegsBefore = replicate 32 0,
    RegsAfter = replicate 32 0, MemoryOps = []\<rparr>"
  have "ComputeTraceCommitment (\<lambda>bs. take 32 bs) ([s, s, s] @ [last [s, s, s]]) =
        ComputeTraceCommitment (\<lambda>bs. take 32 bs) [s, s, s]"
    by (rule trace_commitment_collision) simp_all
  moreover have "[s, s, s] @ [last [s, s, s]] \<noteq> [s, s, s]" by simp
  ultimately show ?thesis by blast
qed

end
