(* ===== verification/Riscv_Cpu.thy ===== *)
theory Riscv_Cpu
  imports Riscv_Encode Riscv_Witness "HOL-Library.Signed_Division"
begin

text \<open>
  The RV32IM processor of the canonical guest, \<^verbatim>\<open>src/pkg/zkvm/riscv/riscv_cpu.go\<close>.  An
  \<open>int32\<close> is the word with the same bits, so addition, subtraction and multiplication
  are those of words; signed comparison, division and shift read the word with \<open>sint\<close>.
  A table of custom ECALL handlers holds names of type \<open>'h\<close>; the operations take the
  function \<open>call\<close> that runs a handler by its name.
\<close>

section \<open>State\<close>

definition RVEcallHalt :: u32 where "RVEcallHalt = 0"
definition RVEcallOutput :: u32 where "RVEcallOutput = 1"
definition RVEcallInput :: u32 where "RVEcallInput = 2"
definition RVEcallKeccak256 :: u32 where "RVEcallKeccak256 = 3"
definition RVEcallSHA256 :: u32 where "RVEcallSHA256 = 4"
definition RVEcallECRecover :: u32 where "RVEcallECRecover = 5"

record 'h rv_cpu =
  Regs :: "u32 list"
  PC :: u32
  Memory :: rv_memory
  Halted :: bool
  ExitCode :: u32
  GasLimit :: u64
  GasUsed :: u64
  Steps :: u64
  InputBuf :: bytes
  OutputBuf :: bytes
  inputPos :: int
  Witness :: "rv_witness_collector option"
  EcallHandlers :: "(u32, 'h) fmap"

type_synonym ('a, 'h) cpu_result = "(rv_error, 'a) outcome \<times> 'h rv_cpu"

definition NewRVCPU :: "u64 \<Rightarrow> 'h rv_cpu" where
  "NewRVCPU gasLimit =
     \<lparr>Regs = replicate 32 0, PC = 0, Memory = NewRVMemory, Halted = False, ExitCode = 0, GasLimit = gasLimit,
      GasUsed = 0, Steps = 0, InputBuf = [], OutputBuf = [], inputPos = 0, Witness = None, EcallHandlers = fmempty\<rparr>"

definition InputPos :: "'h rv_cpu \<Rightarrow> int" where
  "InputPos cpu = inputPos cpu"

definition SetInputPos :: "int \<Rightarrow> 'h rv_cpu \<Rightarrow> 'h rv_cpu" where
  "SetInputPos pos cpu = cpu\<lparr>inputPos := pos\<rparr>"

definition AdvanceInputPos :: "int \<Rightarrow> 'h rv_cpu \<Rightarrow> 'h rv_cpu" where
  "AdvanceInputPos n cpu = cpu\<lparr>inputPos := wrap64 (inputPos cpu + n)\<rparr>"

definition RegisterEcallHandler :: "u32 \<Rightarrow> 'h \<Rightarrow> 'h rv_cpu \<Rightarrow> 'h rv_cpu" where
  "RegisterEcallHandler code h cpu = cpu\<lparr>EcallHandlers := fmupd code h (EcallHandlers cpu)\<rparr>"

text \<open>A call of a memory operation: an error of the memory becomes the error \<open>err\<close>.\<close>

definition on_memory :: "(rv_mem_error \<Rightarrow> rv_error) \<Rightarrow> (rv_memory \<Rightarrow> (rv_mem_error, 'a) outcome \<times> rv_memory) \<Rightarrow>
    'h rv_cpu \<Rightarrow> ('a, 'h) cpu_result" where
  "on_memory err f cpu =
     (let (r, m) = f (Memory cpu) in
      (case r of Ok a \<Rightarrow> Ok a | Err e \<Rightarrow> Err (err e) | Panic \<Rightarrow> Panic, cpu\<lparr>Memory := m\<rparr>))"

definition LoadProgram :: "bytes \<Rightarrow> u32 \<Rightarrow> u32 \<Rightarrow> 'h rv_cpu \<Rightarrow> (unit, 'h) cpu_result" where
  "LoadProgram code base entryPoint cpu =
     (if length code = 0 then (Err ErrRVEmptyProgram, cpu)
      else st_bind (on_memory RVMemError (LoadSegment base code) cpu) (\<lambda>_ cpu. (Ok (), cpu\<lparr>PC := entryPoint\<rparr>)))"

section \<open>Execution\<close>

definition reg :: "'h rv_cpu \<Rightarrow> u32 \<Rightarrow> u32" where
  "reg cpu i = Regs cpu ! unat i"

definition set_reg :: "u32 \<Rightarrow> u32 \<Rightarrow> 'h rv_cpu \<Rightarrow> 'h rv_cpu" where
  "set_reg i v cpu = cpu\<lparr>Regs := (Regs cpu)[unat i := v]\<rparr>"

definition set_pc :: "u32 \<Rightarrow> 'h rv_cpu \<Rightarrow> 'h rv_cpu" where
  "set_pc v cpu = cpu\<lparr>PC := v\<rparr>"

definition next_pc :: "'h rv_cpu \<Rightarrow> 'h rv_cpu" where
  "next_pc cpu = cpu\<lparr>PC := PC cpu + 4\<rparr>"

definition executeMExt :: "u32 \<Rightarrow> u32 \<Rightarrow> u32 \<Rightarrow> u32 \<Rightarrow> 'h rv_cpu \<Rightarrow> (mem_op list, 'h) cpu_result" where
  "executeMExt rd a b funct3 cpu =
     (let ret = (\<lambda>v. (Ok [], next_pc (set_reg rd v cpu))) in
      if funct3 = 0 then ret (a * b)
      else if funct3 = 1 then ret (ucast (signed_drop_bit 32 (scast a * scast b :: u64)))
      else if funct3 = 2 then ret (ucast (signed_drop_bit 32 (scast a * ucast b :: u64)))
      else if funct3 = 3 then ret (ucast (drop_bit 32 (ucast a * ucast b :: u64)))
      else if funct3 = 4 then
        ret (if b = 0 then 0xFFFFFFFF
             else if sint a = - 0x80000000 \<and> sint b = - 1 then a
             else word_of_int (sint a sdiv sint b))
      else if funct3 = 5 then ret (if b = 0 then 0xFFFFFFFF else a div b)
      else if funct3 = 6 then
        ret (if b = 0 then a
             else if sint a = - 0x80000000 \<and> sint b = - 1 then 0
             else word_of_int (sint a smod sint b))
      else if funct3 = 7 then ret (if b = 0 then a else a mod b)
      else (Err ErrRVInvalidInstruction, cpu))"

definition executeRegister :: "u32 \<Rightarrow> 'h rv_cpu \<Rightarrow> (mem_op list, 'h) cpu_result" where
  "executeRegister instr cpu =
     (let rd = drop_bit 7 instr AND 0x1F;
          rs1 = drop_bit 15 instr AND 0x1F;
          rs2 = drop_bit 20 instr AND 0x1F;
          funct3 = drop_bit 12 instr AND 0x7;
          funct7 = drop_bit 25 instr AND 0x7F;
          a = reg cpu rs1;
          b = reg cpu rs2;
          ret = (\<lambda>v. (Ok [], next_pc (set_reg rd v cpu))) in
      if funct7 = 0x01 then executeMExt rd a b funct3 cpu
      else if funct3 = 0 then ret (if funct7 = 0x20 then a - b else a + b)
      else if funct3 = 1 then ret (push_bit (unat (b AND 0x1F)) a)
      else if funct3 = 2 then ret (if sint a < sint b then 1 else 0)
      else if funct3 = 3 then ret (if a < b then 1 else 0)
      else if funct3 = 4 then ret (a XOR b)
      else if funct3 = 5 then
        ret (if funct7 = 0x20 then signed_drop_bit (unat (b AND 0x1F)) a else drop_bit (unat (b AND 0x1F)) a)
      else if funct3 = 6 then ret (a OR b)
      else if funct3 = 7 then ret (a AND b)
      else (Err ErrRVInvalidInstruction, cpu))"

definition executeImmediate :: "u32 \<Rightarrow> 'h rv_cpu \<Rightarrow> (mem_op list, 'h) cpu_result" where
  "executeImmediate instr cpu =
     (let (rd, rs1, imm) = decodeI instr;
          funct3 = drop_bit 12 instr AND 0x7;
          src = reg cpu rs1;
          shamt = unat (imm AND 0x1F);
          ret = (\<lambda>v. (Ok [], next_pc (set_reg rd v cpu))) in
      if funct3 = 0 then ret (src + imm)
      else if funct3 = 2 then ret (if sint src < sint imm then 1 else 0)
      else if funct3 = 3 then ret (if src < imm then 1 else 0)
      else if funct3 = 4 then ret (src XOR imm)
      else if funct3 = 6 then ret (src OR imm)
      else if funct3 = 7 then ret (src AND imm)
      else if funct3 = 1 then ret (push_bit shamt src)
      else if funct3 = 5 then
        ret (if drop_bit 30 instr AND 1 = 1 then signed_drop_bit shamt src else drop_bit shamt src)
      else (Err ErrRVInvalidInstruction, cpu))"

definition halt_error :: "'h rv_cpu \<Rightarrow> 'h rv_cpu" where
  "halt_error cpu = cpu\<lparr>ExitCode := 0xFF, Halted := True\<rparr>"

definition handleEcall :: "('h \<Rightarrow> 'h rv_cpu \<Rightarrow> (unit, 'h) cpu_result) \<Rightarrow> 'h rv_cpu \<Rightarrow> (unit, 'h) cpu_result" where
  "handleEcall call cpu =
     (let syscall = reg cpu 17 in
      if syscall = RVEcallHalt then (Ok (), cpu\<lparr>ExitCode := reg cpu 10, Halted := True\<rparr>)
      else if syscall = RVEcallOutput then (Ok (), cpu\<lparr>OutputBuf := OutputBuf cpu @ [ucast (reg cpu 10)]\<rparr>)
      else if syscall = RVEcallInput then
        if inputPos cpu < int (length (InputBuf cpu)) then
          if inputPos cpu < 0 then (Panic, cpu)
          else (Ok (), (set_reg 10 (ucast (InputBuf cpu ! nat (inputPos cpu))) cpu)\<lparr>inputPos := inputPos cpu + 1\<rparr>)
        else (Ok (), set_reg 10 0xFFFFFFFF cpu)
      else
        case fmlookup (EcallHandlers cpu) syscall of
          Some h \<Rightarrow>
            (let (r, cpu) = call h cpu in
             case r of Ok _ \<Rightarrow> (Ok (), cpu) | Err _ \<Rightarrow> (Ok (), halt_error cpu) | Panic \<Rightarrow> (Panic, cpu))
        | None \<Rightarrow> (Ok (), halt_error cpu))"

definition execute_branch :: "u32 \<Rightarrow> 'h rv_cpu \<Rightarrow> (mem_op list, 'h) cpu_result" where
  "execute_branch instr cpu =
     (let (rs1, rs2, imm) = decodeB instr;
          funct3 = drop_bit 12 instr AND 0x7;
          a = reg cpu rs1;
          b = reg cpu rs2;
          jump = (\<lambda>taken. (Ok [], if taken then set_pc (PC cpu + imm) cpu else next_pc cpu)) in
      if funct3 = 0 then jump (a = b)
      else if funct3 = 1 then jump (a \<noteq> b)
      else if funct3 = 4 then jump (sint a < sint b)
      else if funct3 = 5 then jump (sint a \<ge> sint b)
      else if funct3 = 6 then jump (a < b)
      else if funct3 = 7 then jump (a \<ge> b)
      else (Err ErrRVInvalidInstruction, cpu))"

definition execute_load :: "u32 \<Rightarrow> 'h rv_cpu \<Rightarrow> (mem_op list, 'h) cpu_result" where
  "execute_load instr cpu =
     (let (rd, rs1, imm) = decodeI instr;
          funct3 = drop_bit 12 instr AND 0x7;
          addr = reg cpu rs1 + imm;
          fault = (\<lambda>_. ErrRVMemoryFault);
          ret = (\<lambda>val cpu. (Ok [\<lparr>Addr = addr, Value = val, IsWrite = False\<rparr>], next_pc (set_reg rd val cpu))) in
      if funct3 = 0 then st_bind (on_memory fault (ReadByteAt addr) cpu) (\<lambda>b. ret (scast b))
      else if funct3 = 1 then st_bind (on_memory fault (ReadHalfword addr) cpu) (\<lambda>h. ret (scast h))
      else if funct3 = 2 then st_bind (on_memory fault (ReadWord addr) cpu) ret
      else if funct3 = 4 then st_bind (on_memory fault (ReadByteAt addr) cpu) (\<lambda>b. ret (ucast b))
      else if funct3 = 5 then st_bind (on_memory fault (ReadHalfword addr) cpu) (\<lambda>h. ret (ucast h))
      else (Err ErrRVInvalidInstruction, cpu))"

definition execute_store :: "u32 \<Rightarrow> 'h rv_cpu \<Rightarrow> (mem_op list, 'h) cpu_result" where
  "execute_store instr cpu =
     (let (rs1, rs2, imm) = decodeS instr;
          funct3 = drop_bit 12 instr AND 0x7;
          addr = reg cpu rs1 + imm;
          val = reg cpu rs2;
          fault = (\<lambda>_. ErrRVMemoryFault);
          ret = (\<lambda>_ cpu. (Ok [\<lparr>Addr = addr, Value = val, IsWrite = True\<rparr>], next_pc cpu)) in
      if funct3 = 0 then st_bind (on_memory fault (WriteByteAt addr (ucast val)) cpu) ret
      else if funct3 = 1 then st_bind (on_memory fault (WriteHalfword addr (ucast val)) cpu) ret
      else if funct3 = 2 then st_bind (on_memory fault (WriteWord addr val) cpu) ret
      else (Err ErrRVInvalidInstruction, cpu))"

definition execute_system ::
    "('h \<Rightarrow> 'h rv_cpu \<Rightarrow> (unit, 'h) cpu_result) \<Rightarrow> u32 \<Rightarrow> 'h rv_cpu \<Rightarrow> (mem_op list, 'h) cpu_result" where
  "execute_system call instr cpu =
     (let funct3 = drop_bit 12 instr AND 0x7; immBits = drop_bit 20 instr in
      if funct3 \<noteq> 0 then (Err ErrRVInvalidInstruction, cpu)
      else st_bind (if immBits = 0 then handleEcall call cpu else (Ok (), cpu)) (\<lambda>_ cpu.
        (Ok [], next_pc (if immBits = 1 then cpu\<lparr>Halted := True\<rparr> else cpu))))"

definition execute ::
    "('h \<Rightarrow> 'h rv_cpu \<Rightarrow> (unit, 'h) cpu_result) \<Rightarrow> u32 \<Rightarrow> 'h rv_cpu \<Rightarrow> (mem_op list, 'h) cpu_result" where
  "execute call instr cpu =
     (let opcode = instr AND 0x7F in
      if opcode = 0x37 then
        let (rd, imm) = decodeU instr in (Ok [], next_pc (set_reg rd imm cpu))
      else if opcode = 0x17 then
        let (rd, imm) = decodeU instr in (Ok [], next_pc (set_reg rd (PC cpu + imm) cpu))
      else if opcode = 0x6F then
        let (rd, imm) = decodeJ instr in (Ok [], set_pc (PC cpu + imm) (set_reg rd (PC cpu + 4) cpu))
      else if opcode = 0x67 then
        let (rd, rs1, imm) = decodeI instr; target = (reg cpu rs1 + imm) AND NOT 1 in
        (Ok [], set_pc target (set_reg rd (PC cpu + 4) cpu))
      else if opcode = 0x63 then execute_branch instr cpu
      else if opcode = 0x03 then execute_load instr cpu
      else if opcode = 0x23 then execute_store instr cpu
      else if opcode = 0x13 then executeImmediate instr cpu
      else if opcode = 0x33 then executeRegister instr cpu
      else if opcode = 0x73 then execute_system call instr cpu
      else (Err ErrRVInvalidInstruction, cpu))"

definition Step :: "('h \<Rightarrow> 'h rv_cpu \<Rightarrow> (unit, 'h) cpu_result) \<Rightarrow> 'h rv_cpu \<Rightarrow> (unit, 'h) cpu_result" where
  "Step call cpu =
     (if Halted cpu then (Err ErrRVHalted, cpu)
      else if GasLimit cpu > 0 \<and> GasUsed cpu \<ge> GasLimit cpu then (Err ErrRVGasExhausted, cpu)
      else
        let regsBefore = Regs cpu; pcBefore = PC cpu in
        st_bind (on_memory (\<lambda>_. ErrRVMemoryFault) (ReadWord (PC cpu)) cpu) (\<lambda>instr cpu.
        st_bind (execute call instr cpu) (\<lambda>memOps cpu.
          let cpu = set_reg 0 0 cpu;
              cpu = cpu\<lparr>GasUsed := GasUsed cpu + 1, Steps := Steps cpu + 1\<rparr> in
          (Ok (), cpu\<lparr>Witness := map_option (RecordStep pcBefore instr regsBefore (Regs cpu) memOps) (Witness cpu)\<rparr>))))"

text \<open>The loop of \<open>Run\<close> with a bound on its iterations; \<open>None\<close> when the bound is reached.\<close>

fun Run :: "('h \<Rightarrow> 'h rv_cpu \<Rightarrow> (unit, 'h) cpu_result) \<Rightarrow> nat \<Rightarrow> 'h rv_cpu \<Rightarrow> (unit, 'h) cpu_result option" where
  "Run call 0 cpu = None"
| "Run call (Suc n) cpu =
     (if Halted cpu then Some (Ok (), cpu)
      else case Step call cpu of
             (Ok _, cpu) \<Rightarrow> Run call n cpu
           | r \<Rightarrow> Some r)"

definition ValidateCPUConfig :: "u64 \<Rightarrow> int \<Rightarrow> bool" where
  "ValidateCPUConfig gasLimit maxMemoryPages \<longleftrightarrow>
     \<not> (gasLimit = 0 \<or> gasLimit > push_bit 32 1 \<or> maxMemoryPages < 0 \<or> maxMemoryPages > 65536)"

section \<open>Well-formed processors\<close>

definition cpu_ok :: "'h rv_cpu \<Rightarrow> bool" where
  "cpu_ok cpu \<longleftrightarrow> length (Regs cpu) = 32 \<and> mem_wf (Memory cpu) \<and>
     0 \<le> inputPos cpu \<and> inputPos cpu \<le> int (length (InputBuf cpu)) \<and> length (InputBuf cpu) < 2 ^ 63 \<and> (ExitCode cpu \<noteq> 0 \<longrightarrow> Halted cpu)"

text \<open>What an instruction leaves alone: the meters, the trace, the handlers and the input.\<close>

definition same_frame :: "'h rv_cpu \<Rightarrow> 'h rv_cpu \<Rightarrow> bool" where
  "same_frame cpu cpu' \<longleftrightarrow> GasLimit cpu' = GasLimit cpu \<and> GasUsed cpu' = GasUsed cpu \<and> Steps cpu' = Steps cpu \<and>
     InputBuf cpu' = InputBuf cpu \<and> Witness cpu' = Witness cpu \<and> EcallHandlers cpu' = EcallHandlers cpu"

definition kept :: "'h rv_cpu \<Rightarrow> 'h rv_cpu \<Rightarrow> bool" where
  "kept cpu cpu' \<longleftrightarrow> cpu_ok cpu' \<and> same_frame cpu cpu'"

definition safe :: "'h rv_cpu \<Rightarrow> ('a, 'h) cpu_result \<Rightarrow> bool" where
  "safe cpu res \<longleftrightarrow> fst res \<noteq> Panic \<and> kept cpu (snd res)"

named_theorems cpu_safe_intros \<open>instructions that never panic and keep the processor well formed\<close>

lemma kept_refl: "cpu_ok cpu \<Longrightarrow> kept cpu cpu"
  by (simp add: kept_def same_frame_def)

lemma kept_trans: "kept c1 c2 \<Longrightarrow> kept c2 c3 \<Longrightarrow> kept c1 c3"
  by (simp add: kept_def same_frame_def)

lemmas kept_defs = kept_def cpu_ok_def same_frame_def

lemma kept_set_reg [cpu_safe_intros]: "kept c0 cpu \<Longrightarrow> kept c0 (set_reg i v cpu)"
  by (auto simp: kept_defs set_reg_def)

lemma kept_set_pc [cpu_safe_intros]: "kept c0 cpu \<Longrightarrow> kept c0 (set_pc p cpu)"
  by (auto simp: kept_defs set_pc_def)

lemma kept_next_pc [cpu_safe_intros]: "kept c0 cpu \<Longrightarrow> kept c0 (next_pc cpu)"
  by (auto simp: kept_defs next_pc_def)

lemma kept_halt_error [cpu_safe_intros]: "kept c0 cpu \<Longrightarrow> kept c0 (halt_error cpu)"
  by (auto simp: kept_defs halt_error_def)

lemma kept_halt: "kept c0 cpu \<Longrightarrow> kept c0 (cpu\<lparr>Halted := True\<rparr>)"
  by (auto simp: kept_defs)

lemma kept_exit [cpu_safe_intros]: "kept c0 cpu \<Longrightarrow> kept c0 (cpu\<lparr>ExitCode := e, Halted := True\<rparr>)"
  by (auto simp: kept_defs)

lemma kept_output [cpu_safe_intros]: "kept c0 cpu \<Longrightarrow> kept c0 (cpu\<lparr>OutputBuf := out\<rparr>)"
  by (auto simp: kept_defs)

lemma kept_input:
  "kept c0 cpu \<Longrightarrow> 0 \<le> pos \<Longrightarrow> pos \<le> int (length (InputBuf cpu)) \<Longrightarrow> kept c0 (cpu\<lparr>inputPos := pos\<rparr>)"
  by (auto simp: kept_defs)

lemma kept_if [cpu_safe_intros]: "kept c0 c1 \<Longrightarrow> kept c0 c2 \<Longrightarrow> kept c0 (if b then c1 else c2)"
  by simp

lemma safe_Ok [cpu_safe_intros]: "kept c0 cpu \<Longrightarrow> safe c0 (Ok a, cpu)"
  by (simp add: safe_def)

lemma safe_Err [cpu_safe_intros]: "kept c0 cpu \<Longrightarrow> safe c0 (Err e, cpu)"
  by (simp add: safe_def)

lemma safe_if [cpu_safe_intros]: "(b \<Longrightarrow> safe c0 r1) \<Longrightarrow> (\<not> b \<Longrightarrow> safe c0 r2) \<Longrightarrow> safe c0 (if b then r1 else r2)"
  by simp

lemma safe_bind [cpu_safe_intros]:
  assumes "safe c0 res" "\<And>a cpu. kept c0 cpu \<Longrightarrow> safe c0 (g a cpu)"
  shows "safe c0 (st_bind res g)"
proof -
  obtain r cpu where r: "res = (r, cpu)" by (cases res)
  then have "r \<noteq> Panic" "kept c0 cpu" using assms(1) by (simp_all add: safe_def)
  then show ?thesis using assms(2) r by (cases r) (simp_all add: safe_def)
qed

lemma safe_on_memory [cpu_safe_intros]:
  assumes "kept c0 cpu" "mem_safe f"
  shows "safe c0 (on_memory err f cpu)"
proof -
  obtain r m where r: "f (Memory cpu) = (r, m)" by (cases "f (Memory cpu)")
  have "mem_wf (Memory cpu)" using assms(1) by (simp add: kept_def cpu_ok_def)
  then have "r \<noteq> Panic \<and> mem_wf m"
    using assms(2) [unfolded mem_safe_def, rule_format, of "Memory cpu"] r by simp
  then show ?thesis using assms(1) r by (cases r) (auto simp: on_memory_def safe_def kept_defs)
qed

section \<open>Instructions\<close>

lemma safe_executeMExt [cpu_safe_intros]: "kept c0 cpu \<Longrightarrow> safe c0 (executeMExt rd a b f3 cpu)"
  unfolding executeMExt_def Let_def by (intro cpu_safe_intros)

lemma safe_executeRegister [cpu_safe_intros]: "kept c0 cpu \<Longrightarrow> safe c0 (executeRegister instr cpu)"
  unfolding executeRegister_def Let_def by (intro cpu_safe_intros)

lemma safe_executeImmediate [cpu_safe_intros]: "kept c0 cpu \<Longrightarrow> safe c0 (executeImmediate instr cpu)"
  unfolding executeImmediate_def Let_def split_def by (intro cpu_safe_intros)

lemma safe_execute_branch [cpu_safe_intros]: "kept c0 cpu \<Longrightarrow> safe c0 (execute_branch instr cpu)"
  unfolding execute_branch_def Let_def split_def by (intro cpu_safe_intros)

lemma safe_execute_load [cpu_safe_intros]: "kept c0 cpu \<Longrightarrow> safe c0 (execute_load instr cpu)"
  unfolding execute_load_def Let_def split_def by (intro cpu_safe_intros mem_safe_intros)

lemma safe_execute_store [cpu_safe_intros]: "kept c0 cpu \<Longrightarrow> safe c0 (execute_store instr cpu)"
  unfolding execute_store_def Let_def split_def by (intro cpu_safe_intros mem_safe_intros)

text \<open>An instruction records at most one memory operation, and a failing one leaves the registers
  and the halt flag alone.\<close>

definition small :: "'h rv_cpu \<Rightarrow> (mem_op list, 'h) cpu_result \<Rightarrow> bool" where
  "small cpu res \<longleftrightarrow> (case fst res of Ok ops \<Rightarrow> length ops \<le> 1 | _ \<Rightarrow> Regs (snd res) = Regs cpu \<and> Halted (snd res) = Halted cpu)"

named_theorems small_intros \<open>instructions that record at most one memory operation\<close>

lemma small_Ok [small_intros]: "length ops \<le> 1 \<Longrightarrow> small cpu (Ok ops, cpu')"
  by (simp add: small_def)

lemma small_Err [small_intros]: "small cpu (Err e, cpu)"
  by (simp add: small_def)

lemma small_if [small_intros]: "small cpu r1 \<Longrightarrow> small cpu r2 \<Longrightarrow> small cpu (if b then r1 else r2)"
  by simp

lemma small_on_memory [small_intros]:
  "(\<And>a cpu'. small cpu (g a cpu')) \<Longrightarrow> small cpu (st_bind (on_memory err f cpu) g)"
  by (cases "f (Memory cpu)"; cases "fst (f (Memory cpu))") (auto simp: on_memory_def small_def)

lemma small_execute:
  assumes "\<And>r. fst (handleEcall call cpu) = r \<Longrightarrow> r = Ok ()"
  shows "small cpu (execute call instr cpu)"
proof -
  have "small cpu (executeMExt rd a b f3 cpu)" for rd a b f3
    unfolding executeMExt_def Let_def by (intro small_intros) simp_all
  then have 1: "small cpu (executeRegister instr cpu)"
    unfolding executeRegister_def Let_def by (intro small_intros) simp_all
  have 2: "small cpu (executeImmediate instr cpu)" "small cpu (execute_branch instr cpu)"
    unfolding executeImmediate_def execute_branch_def Let_def split_def by (intro small_intros; simp)+
  have 3: "small cpu (execute_load instr cpu)" "small cpu (execute_store instr cpu)"
    unfolding execute_load_def execute_store_def Let_def split_def by (intro small_intros; simp)+
  obtain cpu' where "handleEcall call cpu = (Ok (), cpu')" using assms by (cases "handleEcall call cpu") simp
  then have "small cpu (execute_system call instr cpu)"
    unfolding execute_system_def Let_def by (auto simp: small_def)
  with 1 2 3 show ?thesis unfolding execute_def Let_def split_def by (intro small_intros) simp_all
qed

text \<open>The trace: full register files, one memory operation at most, each step starting where the last ended.\<close>

definition linked :: "rv_witness_collector \<Rightarrow> bool" where
  "linked w \<longleftrightarrow> list_all step_ok w \<and> successively (\<lambda>s t. RegsAfter s = RegsBefore t) w"

definition trace_ok :: "'h rv_cpu \<Rightarrow> bool" where
  "trace_ok cpu \<longleftrightarrow> (case Witness cpu of None \<Rightarrow> True
     | Some w \<Rightarrow> linked w \<and> (w \<noteq> [] \<longrightarrow> RegsAfter (last w) = Regs cpu) \<and> of_nat (length w) = Steps cpu)"

lemma trace_ok_cong:
  "Witness cpu = Witness cpu' \<Longrightarrow> Regs cpu = Regs cpu' \<Longrightarrow> Steps cpu = Steps cpu' \<Longrightarrow> trace_ok cpu = trace_ok cpu'"
  by (simp add: trace_ok_def cong: option.case_cong)

lemma trace_ok_record:
  assumes "trace_ok cpu" "length (Regs cpu) = 32" "length (Regs cpu') = 32" "length ops \<le> 1"
    "Witness cpu' = map_option (RecordStep pc instr (Regs cpu) (Regs cpu') ops) (Witness cpu)"
    "Steps cpu' = Steps cpu + 1"
  shows "trace_ok cpu'"
proof (cases "Witness cpu")
  case (Some w)
  then have w: "linked w" "w \<noteq> [] \<longrightarrow> RegsAfter (last w) = Regs cpu" "of_nat (length w) = Steps cpu"
    using assms(1) by (simp_all add: trace_ok_def)
  then have "linked (RecordStep pc instr (Regs cpu) (Regs cpu') ops w)"
    using assms by (auto simp: linked_def RecordStep_def step_ok_def successively_append_iff)
  then show ?thesis using Some assms w(3) by (simp add: trace_ok_def RecordStep_def)
qed (use assms in \<open>simp add: trace_ok_def\<close>)

definition cpu_inv :: "'h rv_cpu \<Rightarrow> bool" where
  "cpu_inv cpu \<longleftrightarrow> cpu_ok cpu \<and> Regs cpu ! 0 = 0 \<and> trace_ok cpu"

lemma unat_add_1: "a < (b :: u64) \<Longrightarrow> unat (a + 1) = unat a + 1"
  using unat_u64_less [of b] by (simp add: word_less_nat_alt unat_word_ariths)

section \<open>The contract of the handlers\<close>

locale ecall_handlers =
  fixes call :: "'h \<Rightarrow> 'h rv_cpu \<Rightarrow> (unit, 'h) cpu_result"
  assumes call_safe: "kept c0 cpu \<Longrightarrow> safe c0 (call h cpu)"
begin

lemma safe_handleEcall:
  assumes "kept c0 cpu"
  shows "safe c0 (handleEcall call cpu)"
proof -
  have "safe c0 (let (r, cpu) = call h cpu in
      case r of Ok _ \<Rightarrow> (Ok (), cpu) | Err _ \<Rightarrow> (Ok (), halt_error cpu) | Panic \<Rightarrow> (Panic, cpu))" for h
  proof -
    obtain r cpu' where r: "call h cpu = (r, cpu')" by (cases "call h cpu")
    then show ?thesis using call_safe [OF assms, of h] kept_halt_error [of c0 cpu']
      by (cases r) (simp_all add: safe_def)
  qed
  then have custom: "safe c0 (case fmlookup (EcallHandlers cpu) s of
      Some h \<Rightarrow> (let (r, cpu) = call h cpu in
        case r of Ok _ \<Rightarrow> (Ok (), cpu) | Err _ \<Rightarrow> (Ok (), halt_error cpu) | Panic \<Rightarrow> (Panic, cpu))
    | None \<Rightarrow> (Ok (), halt_error cpu))" for s
    using assms by (cases "fmlookup (EcallHandlers cpu) s") (simp_all add: cpu_safe_intros)
  have "0 \<le> inputPos cpu" using assms by (simp add: kept_defs)
  then show ?thesis unfolding handleEcall_def Let_def
    using assms by (intro cpu_safe_intros kept_input custom [unfolded Let_def]) (simp_all add: set_reg_def)
qed

lemma safe_execute: "kept c0 cpu \<Longrightarrow> safe c0 (execute call instr cpu)"
  unfolding execute_def execute_system_def Let_def split_def
  by (intro cpu_safe_intros safe_handleEcall kept_halt)

text \<open>One step, and what it does to the meters and to the trace.\<close>

lemma handleEcall_Ok:
  assumes "cpu_ok cpu"
  shows "fst (handleEcall call cpu) = Ok ()"
proof -
  have "fst (handleEcall call cpu) \<noteq> Panic"
    using safe_handleEcall [OF kept_refl [OF assms]] by (simp add: safe_def)
  then show ?thesis
    by (auto simp: handleEcall_def Let_def split: if_splits option.splits outcome.splits prod.splits)
qed

lemma Step_cases:
  assumes "cpu_ok cpu" "Step call cpu = (r, cpu')"
  shows "r \<noteq> Panic \<and> cpu_ok cpu' \<and>
    (case r of
       Ok _ \<Rightarrow> (\<exists>instr ops. \<not> Halted cpu \<and> (GasLimit cpu > 0 \<longrightarrow> GasUsed cpu < GasLimit cpu) \<and>
         GasLimit cpu' = GasLimit cpu \<and> GasUsed cpu' = GasUsed cpu + 1 \<and> Steps cpu' = Steps cpu + 1 \<and> Regs cpu' ! 0 = 0 \<and> length ops \<le> 1 \<and>
         Witness cpu' = map_option (RecordStep (PC cpu) instr (Regs cpu) (Regs cpu') ops) (Witness cpu))
     | _ \<Rightarrow> same_frame cpu cpu' \<and> Regs cpu' = Regs cpu \<and> Halted cpu' = Halted cpu)"
proof (cases "Halted cpu \<or> GasLimit cpu > 0 \<and> GasUsed cpu \<ge> GasLimit cpu")
  case True
  then show ?thesis using assms by (auto simp: Step_def same_frame_def split: if_splits)
next
  case run: False
  obtain f cpu1 where f: "on_memory (\<lambda>_. ErrRVMemoryFault) (ReadWord (PC cpu)) cpu = (f, cpu1)" by fastforce
  have regs: "Regs cpu1 = Regs cpu" "Halted cpu1 = Halted cpu" using f by (auto simp: on_memory_def split: prod.splits)
  have 1: "f \<noteq> Panic" "kept cpu cpu1"
    using safe_on_memory [OF kept_refl [OF assms(1)] mem_safe_ReadWord, of "\<lambda>_. ErrRVMemoryFault" "PC cpu"] f
    by (simp_all add: safe_def)
  show ?thesis
  proof (cases f)
    case (Ok instr)
    obtain e cpu2 where e: "execute call instr cpu1 = (e, cpu2)" by fastforce
    have 2: "e \<noteq> Panic" "kept cpu cpu2" using safe_execute [OF 1(2), of instr] e by (simp_all add: safe_def)
    have 3: "small cpu1 (e, cpu2)"
      unfolding e [symmetric] using 1(2) handleEcall_Ok [of cpu1] by (intro small_execute) (simp add: kept_def)
    show ?thesis
    proof (cases e)
      case ops: (Ok ops)
      have "length (Regs cpu2) = 32" using 2(2) by (simp add: kept_defs)
      then have "(Regs cpu2)[0 := 0] ! 0 = 0" by simp
      moreover have "r = Ok ()" "cpu' = (set_reg 0 0 cpu2)\<lparr>GasUsed := GasUsed cpu2 + 1, Steps := Steps cpu2 + 1,
          Witness := map_option (RecordStep (PC cpu) instr (Regs cpu) (Regs (set_reg 0 0 cpu2)) ops) (Witness cpu2)\<rparr>"
        using assms(2) run f Ok e ops by (auto simp: Step_def Let_def set_reg_def)
      ultimately show ?thesis using run 2(2) 3 ops by (auto simp: kept_defs set_reg_def small_def)
    next
      case (Err err)
      then show ?thesis using assms(2) run f Ok e 2 3 regs by (auto simp: Step_def Let_def kept_def small_def)
    qed (use 2 in simp)
  next
    case (Err err)
    then show ?thesis using assms(2) run f 1 regs by (auto simp: Step_def Let_def kept_def)
  qed (use 1 in simp)
qed

text \<open>What holds of a processor between steps.\<close>

lemma Step_inv:
  assumes "cpu_inv cpu" "Step call cpu = (r, cpu')"
  shows "cpu_inv cpu'"
proof -
  have ok: "cpu_ok cpu" and tr: "trace_ok cpu" using assms(1) by (simp_all add: cpu_inv_def)
  note step = Step_cases [OF ok assms(2)]
  then have ok': "cpu_ok cpu'" by blast
  have len: "length (Regs cpu) = 32" "length (Regs cpu') = 32" using ok ok' by (simp_all add: cpu_ok_def)
  show ?thesis
  proof (cases r)
    case (Ok u)
    then obtain instr ops where "length ops \<le> 1" "Regs cpu' ! 0 = 0" "Steps cpu' = Steps cpu + 1"
      "Witness cpu' = map_option (RecordStep (PC cpu) instr (Regs cpu) (Regs cpu') ops) (Witness cpu)"
      using step by auto
    then show ?thesis using ok' trace_ok_record [OF tr len] by (simp add: cpu_inv_def)
  next
    case (Err e)
    then have "same_frame cpu cpu'" "Regs cpu' = Regs cpu" using step by simp_all
    then show ?thesis using ok' assms(1) trace_ok_cong [of cpu' cpu] by (simp add: cpu_inv_def same_frame_def)
  qed (use step in simp)
qed

lemma Run_inv: "cpu_inv cpu \<Longrightarrow> Run call n cpu = Some (r, cpu') \<Longrightarrow> 
    cpu_inv cpu' \<and> r \<noteq> Panic \<and> (r = Ok () \<longleftrightarrow> Halted cpu')"
proof (induction n arbitrary: cpu)
  case (Suc n)
  show ?case
  proof (cases "Halted cpu")
    case False
    obtain r1 cpu1 where s: "Step call cpu = (r1, cpu1)" by fastforce
    have 1: "cpu_inv cpu1" "r1 \<noteq> Panic" "\<And>e. r1 = Err e \<Longrightarrow> Halted cpu1 = Halted cpu"
      using Step_inv [OF Suc.prems(1) s] Step_cases [OF _ s] Suc.prems(1) by (auto simp: cpu_inv_def)
    then show ?thesis using Suc False s by (cases r1) auto
  qed (use Suc.prems in auto)
qed simp

text \<open>The gas limit bounds the number of steps.\<close>

lemma Run_gas:
  assumes "cpu_inv cpu" "0 < GasLimit cpu" "GasUsed cpu \<le> GasLimit cpu" "unat (GasLimit cpu - GasUsed cpu) < n"
  shows "\<exists>r cpu'. Run call n cpu = Some (r, cpu') \<and> GasLimit cpu' = GasLimit cpu \<and> GasUsed cpu' \<le> GasLimit cpu \<and>
    GasUsed cpu \<le> GasUsed cpu' \<and> GasUsed cpu' - GasUsed cpu = Steps cpu' - Steps cpu"
  using assms
proof (induction n arbitrary: cpu)
  case (Suc n)
  show ?case
  proof (cases "Halted cpu")
    case False
    obtain r1 cpu1 where s: "Step call cpu = (r1, cpu1)" by fastforce
    have ok: "cpu_ok cpu" using Suc.prems(1) by (simp add: cpu_inv_def)
    note step = Step_cases [OF ok s]
    show ?thesis
    proof (cases r1)
      case (Ok u)
      then have g: "GasUsed cpu < GasLimit cpu" "GasLimit cpu1 = GasLimit cpu" "GasUsed cpu1 = GasUsed cpu + 1"
        "Steps cpu1 = Steps cpu + 1"
        using step Suc.prems(2) by auto
      have lt: "unat (GasUsed cpu + 1) = unat (GasUsed cpu) + 1"
        using g(1) by (rule unat_add_1)
      have "GasUsed cpu1 \<le> GasLimit cpu1" using g lt by (simp add: word_le_nat_alt word_less_nat_alt)
      moreover have "unat (GasLimit cpu1 - GasUsed cpu1) < n"
        using Suc.prems(3,4) g lt calculation by (simp add: unat_sub word_le_nat_alt word_less_nat_alt)
      ultimately obtain r cpu' where IH: "Run call n cpu1 = Some (r, cpu')" "GasLimit cpu' = GasLimit cpu1"
        "GasUsed cpu' \<le> GasLimit cpu1" "GasUsed cpu1 \<le> GasUsed cpu'" "GasUsed cpu' - GasUsed cpu1 = Steps cpu' - Steps cpu1"
        using Suc.IH [OF Step_inv [OF Suc.prems(1) s]] Suc.prems(2) g(2) by auto
      have "GasUsed cpu \<le> GasUsed cpu'" using IH(4) g(3) lt by (simp add: word_le_nat_alt)
      moreover have "GasUsed cpu' - GasUsed cpu = Steps cpu' - Steps cpu" using IH(5) g by (simp add: algebra_simps)
      ultimately show ?thesis using IH g(2) False s Ok by auto
    next
      case (Err e)
      then have "same_frame cpu cpu1" using step by simp
      then show ?thesis using Suc.prems False s Err by (auto simp: same_frame_def)
    qed (use step in simp)
  qed (use Suc.prems in auto)
qed simp

text \<open>The steps that a run adds to the trace.\<close>

lemma Run_trace:
  "\<lbrakk>cpu_inv cpu; Run call n cpu = Some (r, cpu'); Witness cpu = Some w0\<rbrakk> \<Longrightarrow>
     \<exists>w. Witness cpu' = Some (w0 @ w) \<and> length w \<le> n \<and> (w \<noteq> [] \<longrightarrow> RegsBefore (hd w) = Regs cpu)"
proof (induction n arbitrary: cpu w0)
  case (Suc n)
  show ?case
  proof (cases "Halted cpu")
    case False
    obtain r1 cpu1 where s: "Step call cpu = (r1, cpu1)" by fastforce
    have ok: "cpu_ok cpu" using Suc.prems(1) by (simp add: cpu_inv_def)
    note step = Step_cases [OF ok s]
    show ?thesis
    proof (cases r1)
      case (Ok u)
      then obtain instr ops where
        "Witness cpu1 = Some (RecordStep (PC cpu) instr (Regs cpu) (Regs cpu1) ops w0)"
        using step Suc.prems(3) by auto
      then obtain st where st: "Witness cpu1 = Some (w0 @ [st])" "RegsBefore st = Regs cpu"
        by (auto simp: RecordStep_def)
      then obtain w where "Witness cpu' = Some ((w0 @ [st]) @ w)" "length w \<le> n"
        using Suc.IH [OF Step_inv [OF Suc.prems(1) s] _ st(1)] Suc.prems(2) False s Ok by auto
      then show ?thesis using st(2) by (intro exI [of _ "st # w"]) simp
    next
      case (Err e)
      then show ?thesis using step Suc.prems False s by (auto simp: same_frame_def)
    qed (use step in simp)
  qed (use Suc.prems in auto)
qed simp

lemma Run_mono: "Run call n cpu = Some res \<Longrightarrow> n \<le> m \<Longrightarrow> Run call m cpu = Some res"
proof (induction n arbitrary: cpu m)
  case (Suc n)
  then obtain k where "m = Suc k" "n \<le> k" by (cases m) auto
  then show ?case using Suc by (auto split: if_splits prod.splits outcome.splits)
qed simp

end

section \<open>The M extension against the integers\<close>

definition rv32m :: "u32 \<Rightarrow> u32 \<Rightarrow> u32 \<Rightarrow> int" where
  "rv32m funct3 a b =
     (if funct3 = 0 then sint a * sint b
      else if funct3 = 1 then (sint a * sint b) div 2 ^ 32
      else if funct3 = 2 then (sint a * uint b) div 2 ^ 32
      else if funct3 = 3 then (uint a * uint b) div 2 ^ 32
      else if funct3 = 4 then (if b = 0 then - 1 else sint a sdiv sint b)
      else if funct3 = 5 then (if b = 0 then 2 ^ 32 - 1 else uint a div uint b)
      else if funct3 = 6 then (if b = 0 then sint a else sint a smod sint b)
      else (if b = 0 then uint a else uint a mod uint b))"

lemma ucast_word_of_int: "ucast (word_of_int p :: u64) = (word_of_int p :: u32)"
  by (simp add: unsigned_of_int word_of_int_eq_iff)

lemma high_signed:
  assumes "- (2 ^ 63) \<le> p" "p < 2 ^ 63"
  shows "ucast (signed_drop_bit 32 (word_of_int p :: u64)) = (word_of_int (p div 2 ^ 32) :: u32)"
proof -
  have "sint (word_of_int p :: u64) = p" using assms by (simp add: int_word_sint)
  then have "sint (signed_drop_bit 32 (word_of_int p :: u64)) = p div 2 ^ 32"
    by (simp add: sint_signed_drop_bit_eq drop_bit_eq_div)
  then have "signed_drop_bit 32 (word_of_int p :: u64) = word_of_int (p div 2 ^ 32)"
    by (metis scast_eq scast_id)
  then show ?thesis by (simp only: ucast_word_of_int)
qed

lemma high_unsigned:
  assumes "0 \<le> p" "p < 2 ^ 64"
  shows "ucast (drop_bit 32 (word_of_int p :: u64)) = (word_of_int (p div 2 ^ 32) :: u32)"
proof -
  have "0 \<le> p div 2 ^ 32" "p div 2 ^ 32 \<le> p"
    using assms(1) zdiv_mono2 [of p 1 "2 ^ 32"] by (simp_all add: pos_imp_zdiv_nonneg_iff)
  then have "(p div 2 ^ 32) mod 2 ^ 64 = p div 2 ^ 32" using assms(2) by (intro mod_pos_pos_trivial) linarith+
  then have "uint (drop_bit 32 (word_of_int p :: u64)) = uint (word_of_int (p div 2 ^ 32) :: u64)"
    using assms by (simp only: drop_bit_eq_div uint_div) (simp add: unsigned_of_int take_bit_eq_mod)
  then have "drop_bit 32 (word_of_int p :: u64) = word_of_int (p div 2 ^ 32)" by (simp only: word_uint_eq_iff)
  then show ?thesis by (simp only: ucast_word_of_int)
qed

lemma sint_bounds: "- (2 ^ 31) \<le> sint (a :: u32)" "sint a < 2 ^ 31"
  using sint_greater_eq [of a] sint_less [of a] by simp_all

lemma uint_bounds: "0 \<le> uint (a :: u32)" "uint a < 2 ^ 32"
  using unsigned_less [of a, where 'a=int] by simp_all


lemma mul_bounds:
  "- (2 ^ 63) \<le> sint (a :: u32) * sint (b :: u32)" "sint a * sint b < 2 ^ 63"
  "- (2 ^ 63) \<le> sint a * uint b" "sint a * uint b < 2 ^ 63"
  "0 \<le> uint a * uint b" "uint a * uint b < 2 ^ 64"
proof -
  have "\<bar>sint a * sint b\<bar> \<le> 2 ^ 31 * 2 ^ 31"
    unfolding abs_mult using sint_bounds [of a] sint_bounds [of b] by (intro mult_mono) auto
  then show "- (2 ^ 63) \<le> sint a * sint b" "sint a * sint b < 2 ^ 63" by auto
  have "\<bar>sint a * uint b\<bar> \<le> 2 ^ 31 * (2 ^ 32 - 1)"
    unfolding abs_mult using sint_bounds [of a] uint_bounds [of b] by (intro mult_mono) auto
  then show "- (2 ^ 63) \<le> sint a * uint b" "sint a * uint b < 2 ^ 63" by auto
  have "uint a * uint b \<le> (2 ^ 32 - 1) * (2 ^ 32 - 1)"
    using uint_bounds [of a] uint_bounds [of b] by (intro mult_mono) auto
  then show "uint a * uint b < 2 ^ 64" by simp
  show "0 \<le> uint a * uint b" using uint_bounds by simp
qed

lemma mul_words:
  "(scast (a :: u32) * scast (b :: u32) :: u64) = word_of_int (sint a * sint b)"
  "(scast a * ucast b :: u64) = word_of_int (sint a * uint b)"
  "(ucast a * ucast b :: u64) = word_of_int (uint a * uint b)"
  by (simp_all only: of_int_mult scast_eq ucast_eq)

lemma high_words:
  "ucast (signed_drop_bit 32 (scast (a :: u32) * scast (b :: u32) :: u64)) = (word_of_int ((sint a * sint b) div 2 ^ 32) :: u32)"
  "ucast (signed_drop_bit 32 (scast a * ucast b :: u64)) = (word_of_int ((sint a * uint b) div 2 ^ 32) :: u32)"
  "ucast (drop_bit 32 (ucast a * ucast b :: u64)) = (word_of_int ((uint a * uint b) div 2 ^ 32) :: u32)"
  unfolding mul_words by (intro high_signed high_unsigned mul_bounds)+

lemma word_of_sint: "word_of_int (sint a) = (a :: u32)"
  by (metis scast_eq scast_id)

lemma div_word: "word_of_int (uint a div uint b) = (a div b :: u32)" "word_of_int (uint a mod uint b) = (a mod b :: u32)"
  by (simp_all add: word_div_def word_mod_def)

lemma all_ones: "(0xFFFFFFFF :: u32) = - 1"
  by simp

lemma sdiv_overflow: "- 0x80000000 sdiv (- 1 :: int) = 0x80000000" "- 0x80000000 smod (- 1 :: int) = 0"
  by (simp_all add: signed_divide_int_def signed_modulo_int_def)

text \<open>
  C33.  The M extension.  For every function code below 8 the instruction writes to its target
  register the low 32 bits of the integer that the RISC-V specification gives: the product or its
  high half (signed, mixed or unsigned), the quotient rounded towards zero and its remainder, with
  \<open>- 1\<close> and the dividend on division by zero; it advances the program counter and does nothing else.
\<close>

theorem executeMExt_correct:
  assumes "funct3 < 8"
  shows "executeMExt rd a b funct3 cpu = (Ok [], next_pc (set_reg rd (word_of_int (rv32m funct3 a b)) cpu))"
proof -
  have "funct3 = 0 \<or> funct3 = 1 \<or> funct3 = 2 \<or> funct3 = 3 \<or> funct3 = 4 \<or> funct3 = 5 \<or> funct3 = 6 \<or> funct3 = 7"
    using assms by (simp add: word_less_nat_alt word_unat_eq_iff) linarith
  moreover have "word_of_int (sint a sdiv sint b) = a" if "sint a = - 0x80000000" "sint b = - 1"
  proof -
    have "word_of_int (sint a sdiv sint b) = (word_of_int (- 0x80000000) :: u32)" unfolding that sdiv_overflow by simp
    then show ?thesis unfolding that(1) [symmetric] word_of_sint .
  qed
  moreover have "word_of_int (sint a smod sint b) = (0 :: u32)" if "sint a = - 0x80000000" "sint b = - 1"
    unfolding that sdiv_overflow by simp
  ultimately show ?thesis
    by (elim disjE) (simp_all only: executeMExt_def rv32m_def high_words, auto simp: Let_def div_word word_of_sint all_ones)
qed


theorem executeMExt_correct_witness:
  "(4 :: u32) < 8 \<and> executeMExt 1 7 (- 2) 4 (NewRVCPU 10 :: unit rv_cpu) = (Ok [], next_pc (set_reg 1 (- 3) (NewRVCPU 10)))"
proof -
  have "rv32m 4 7 (- 2) = - 3" by code_simp
  then show ?thesis using executeMExt_correct [of 4 1 7 "- 2" "NewRVCPU 10 :: unit rv_cpu"] by simp
qed

end
