(* ===== verification/Riscv_Guest.thy ===== *)
theory Riscv_Guest
  imports Secp256k1_Keys Riscv_Cpu
begin

text \<open>
  Precompile guest programs, \<^verbatim>\<open>src/pkg/zkvm/guests_rv_precompile.go\<close>: the crypto ECALL handlers,
  the three guest programs and the two runners.  The hash functions Keccak-256 and SHA-256
  are the fields of a record that the definitions take as a parameter; public-key recovery is
  \<open>Ecrecover\<close> of \<open>Secp256k1\<close>.
\<close>

record crypto_fns =
  keccak :: "bytes \<Rightarrow> bytes"
  sha256 :: "bytes \<Rightarrow> bytes"

datatype ecall_handler = Keccak256EcallHandler | SHA256EcallHandler | ECRecoverEcallHandler

section \<open>Handlers\<close>

text \<open>\<open>remaining\<close> is the slice \<open>cpu.InputBuf[cpu.InputPos():]\<close>.\<close>

definition remaining :: "'h rv_cpu \<Rightarrow> bytes option" where
  "remaining cpu = go_slice (InputBuf cpu) (InputPos cpu) (int (length (InputBuf cpu)))"

definition append_output :: "bytes \<Rightarrow> 'h rv_cpu \<Rightarrow> 'h rv_cpu" where
  "append_output out cpu = cpu\<lparr>OutputBuf := OutputBuf cpu @ out\<rparr>"

definition run_keccak :: "crypto_fns \<Rightarrow> 'h rv_cpu \<Rightarrow> (unit, 'h) cpu_result" where
  "run_keccak cr cpu =
     (case remaining cpu of None \<Rightarrow> (Panic, cpu)
      | Some data \<Rightarrow> (Ok (), SetInputPos (int (length (InputBuf cpu))) (append_output (keccak cr data) cpu)))"

definition run_sha256 :: "crypto_fns \<Rightarrow> 'h rv_cpu \<Rightarrow> (unit, 'h) cpu_result" where
  "run_sha256 cr cpu =
     (case remaining cpu of None \<Rightarrow> (Panic, cpu)
      | Some data \<Rightarrow> (Ok (), SetInputPos (int (length (InputBuf cpu))) (append_output (sha256 cr data) cpu)))"

text \<open>The \<open>copy\<close> into the last 20 bytes of \<open>out\<close> fills what the digest leaves with zeros.\<close>

definition recover_word :: "crypto_fns \<Rightarrow> bytes \<Rightarrow> (rv_error, bytes) outcome" where
  "recover_word cr data =
     (let hash = take 32 data;
          v = take 32 (drop 32 data);
          r = take 32 (drop 64 data);
          s = take 32 (drop 96 data);
          vByte = v ! 31 in
      if vByte < 27 then Err (EcallError ''riscv ecrecover: v must be 27 or 28'')
      else
        case Ecrecover hash (r @ s @ [vByte - 27]) of
          Ok pub \<Rightarrow>
            if length pub < 65 then Ok (replicate 32 0)
            else
              let addr = take 20 (drop 12 (keccak cr (drop 1 pub))) in
              Ok (replicate 12 0 @ addr @ replicate (20 - length addr) 0)
        | _ \<Rightarrow> Ok (replicate 32 0))"

definition run_ecrecover :: "crypto_fns \<Rightarrow> 'h rv_cpu \<Rightarrow> (unit, 'h) cpu_result" where
  "run_ecrecover cr cpu =
     (case remaining cpu of None \<Rightarrow> (Panic, cpu)
      | Some data \<Rightarrow>
          if length data < 128 then (Err (EcallError ''riscv ecrecover: need 128 bytes''), cpu)
          else
            case recover_word cr data of
              Ok out \<Rightarrow> (Ok (), AdvanceInputPos 128 (append_output out cpu))
            | Err e \<Rightarrow> (Err e, cpu)
            | Panic \<Rightarrow> (Panic, cpu))"

fun call_handler :: "crypto_fns \<Rightarrow> ecall_handler \<Rightarrow> ecall_handler rv_cpu \<Rightarrow> (unit, ecall_handler) cpu_result" where
  "call_handler cr Keccak256EcallHandler cpu = run_keccak cr cpu"
| "call_handler cr SHA256EcallHandler cpu = run_sha256 cr cpu"
| "call_handler cr ECRecoverEcallHandler cpu = run_ecrecover cr cpu"

definition DefaultPrecompileEcallHandlers :: "(u32 \<times> ecall_handler) list" where
  "DefaultPrecompileEcallHandlers =
     [(RVEcallKeccak256, Keccak256EcallHandler), (RVEcallSHA256, SHA256EcallHandler),
      (RVEcallECRecover, ECRecoverEcallHandler)]"

section \<open>Guest programs\<close>

definition RVKeccak256Program :: bytes where
  "RVKeccak256Program =
     [0x93, 0x08, 0x30, 0x00,
      0x73, 0x00, 0x00, 0x00,
      0x93, 0x08, 0x00, 0x00,
      0x13, 0x05, 0x00, 0x00,
      0x73, 0x00, 0x00, 0x00]"

definition RVSHA256Program :: bytes where
  "RVSHA256Program =
     [0x93, 0x08, 0x40, 0x00,
      0x73, 0x00, 0x00, 0x00,
      0x93, 0x08, 0x00, 0x00,
      0x13, 0x05, 0x00, 0x00,
      0x73, 0x00, 0x00, 0x00]"

definition RVECRecoverProgram :: bytes where
  "RVECRecoverProgram =
     [0x93, 0x08, 0x50, 0x00,
      0x73, 0x00, 0x00, 0x00,
      0x93, 0x08, 0x00, 0x00,
      0x13, 0x05, 0x00, 0x00,
      0x73, 0x00, 0x00, 0x00]"

datatype guest_error = LoadError rv_error | ExecutionError u32 rv_error | UnknownEcallCode u32

text \<open>The part the two runners share: a processor with the default handlers, the input and the program.\<close>

definition new_guest :: "bytes \<Rightarrow> u64 \<Rightarrow> ecall_handler rv_cpu" where
  "new_guest input gasLimit =
     (fold (\<lambda>(code, h). RegisterEcallHandler code h) DefaultPrecompileEcallHandlers (NewRVCPU gasLimit))\<lparr>InputBuf := input\<rparr>"

definition run_guest :: "crypto_fns \<Rightarrow> nat \<Rightarrow> bytes \<Rightarrow> bytes \<Rightarrow> u64 \<Rightarrow> (guest_error, bytes) outcome option" where
  "run_guest cr fuel program input gasLimit =
     (case LoadProgram program 0 0 (new_guest input gasLimit) of
        (Err e, _) \<Rightarrow> Some (Err (LoadError e))
      | (Panic, _) \<Rightarrow> Some Panic
      | (Ok _, cpu) \<Rightarrow>
          (case Run (call_handler cr) fuel cpu of
             None \<Rightarrow> None
           | Some (Panic, _) \<Rightarrow> Some Panic
           | Some (Err e, cpu) \<Rightarrow>
               if ExitCode cpu \<noteq> 0 then Some (Err (ExecutionError (ExitCode cpu) e)) else Some (Ok (OutputBuf cpu))
           | Some (Ok _, cpu) \<Rightarrow> Some (Ok (OutputBuf cpu))))"

definition RunPrecompileGuestProgram ::
    "crypto_fns \<Rightarrow> nat \<Rightarrow> bytes \<Rightarrow> bytes \<Rightarrow> u64 \<Rightarrow> (guest_error, bytes) outcome option" where
  "RunPrecompileGuestProgram cr fuel program input gasLimit =
     (if length program = 0 then Some (Ok []) else run_guest cr fuel program input gasLimit)"

definition RunPrecompileGuest ::
    "crypto_fns \<Rightarrow> nat \<Rightarrow> u32 \<Rightarrow> bytes \<Rightarrow> u64 \<Rightarrow> (guest_error, bytes) outcome option" where
  "RunPrecompileGuest cr fuel ecallCode input gasLimit =
     (if ecallCode = RVEcallKeccak256 then run_guest cr fuel RVKeccak256Program input gasLimit
      else if ecallCode = RVEcallSHA256 then run_guest cr fuel RVSHA256Program input gasLimit
      else if ecallCode = RVEcallECRecover then run_guest cr fuel RVECRecoverProgram input gasLimit
      else Some (Err (UnknownEcallCode ecallCode)))"

section \<open>The handlers keep the contract of the processor\<close>

lemma remaining_ok: "kept c0 cpu \<Longrightarrow> remaining cpu = Some (drop (nat (inputPos cpu)) (InputBuf cpu))"
  by (auto simp: remaining_def go_slice_def InputPos_def kept_defs)

lemma safe_hash_handler:
  "kept c0 cpu \<Longrightarrow> safe c0 (Ok (), SetInputPos (int (length (InputBuf cpu))) (append_output out cpu))"
  by (auto simp: safe_def SetInputPos_def append_output_def kept_defs)

lemma safe_run_ecrecover:
  assumes "kept c0 cpu"
  shows "safe c0 (run_ecrecover cr cpu)"
proof -
  let ?data = "drop (nat (inputPos cpu)) (InputBuf cpu)"
  have i: "0 \<le> inputPos cpu" "length (InputBuf cpu) < 2 ^ 63" "inputPos cpu \<le> int (length (InputBuf cpu))"
    using assms by (auto simp: kept_defs)
  have "recover_word cr ?data \<noteq> Panic" by (auto simp: recover_word_def Let_def split: outcome.splits)
  moreover have "safe c0 (Ok (), AdvanceInputPos 128 (append_output out cpu))" if "\<not> length ?data < 128" for out
  proof -
    have "int (length ?data) = int (length (InputBuf cpu)) - inputPos cpu"
      using i(1,3) by (simp add: of_nat_diff nat_le_iff)
    then have le: "inputPos cpu + 128 \<le> int (length (InputBuf cpu))" using that by linarith
    moreover have "int (length (InputBuf cpu)) < 2 ^ 63" using i(2) by simp
    ultimately have "wrap64 (inputPos cpu + 128) = inputPos cpu + 128" using i(1) by (intro wrap64_id) linarith+
    then show ?thesis using assms i(1) le by (auto simp: safe_def AdvanceInputPos_def append_output_def kept_defs)
  qed
  ultimately show ?thesis
    using assms by (auto simp: run_ecrecover_def remaining_ok [OF assms] safe_Err split: outcome.split)
qed

interpretation guest: ecall_handlers "call_handler cr" for cr
proof
  fix c0 cpu :: "ecall_handler rv_cpu" and h assume k: "kept c0 cpu"
  show "safe c0 (call_handler cr h cpu)"
    using safe_hash_handler [OF k] safe_run_ecrecover [OF k]
    by (cases h) (simp_all add: run_keccak_def run_sha256_def remaining_ok [OF k])
qed

lemma new_guest_inv: "length input < 2 ^ 63 \<Longrightarrow> cpu_inv (new_guest input gasLimit)"
  by (simp add: new_guest_def DefaultPrecompileEcallHandlers_def RegisterEcallHandler_def NewRVCPU_def cpu_inv_def
      cpu_ok_def trace_ok_def mem_wf_New)

section \<open>Running a short program\<close>

lemma pageIdx_low: "unat a < 4096 \<Longrightarrow> pageIdx a = 0"
  by (simp add: word_unat_eq_iff unat_pageIdx)

lemma write_first_page:
  "\<lbrakk>unat a + length bs \<le> 4096; pageCount m < maxPages m \<or> allocated m 0\<rbrakk> \<Longrightarrow> \<exists>m'. write_bytes a bs m = (Ok (), m')"
proof (induction bs arbitrary: a m)
  case (Cons b bs)
  have a: "pageIdx a = 0" "\<not> isMMIO a"
    using Cons.prems(1) by (simp_all add: pageIdx_low isMMIO_def RVMMIOBase_def word_le_nat_alt)
  have 0: "pageIdx 0 = 0" by (simp add: pageIdx_def)
  obtain m1 where m1: "WriteByteAt a b m = (Ok (), m1)" "allocated m1 0"
    using Cons.prems(2) a 0 by (cases "fmlookup (pages m) 0")
      (auto simp: WriteByteAt_def getPage_def set_page_def allocated_def)
  have "unat (a + 1) + length bs \<le> 4096" using Cons.prems(1) unat_add_small [of a 1] by simp
  then show ?case using Cons.IH [of "a + 1" m1] m1 by simp
qed simp

text \<open>A processor that holds a short program at address 0.\<close>

definition program_at :: "bytes \<Rightarrow> rv_memory \<Rightarrow> bool" where
  "program_at prog m \<longleftrightarrow> mem_wf m \<and> mmioRead m = None \<and> byte_at m = upd_bytes (byte_at NewRVMemory) 0 prog \<and>
     (\<forall>i<length prog. allocated m (of_nat i))"

lemma load_program:
  assumes "prog \<noteq> []" "length prog \<le> 4096" "Memory cpu = NewRVMemory"
  shows "\<exists>m. LoadProgram prog 0 0 cpu = (Ok (), cpu\<lparr>Memory := m, PC := 0\<rparr>) \<and> program_at prog m"
proof -
  obtain m where m: "write_bytes 0 prog NewRVMemory = (Ok (), m)"
    using write_first_page [of 0 prog NewRVMemory] assms(2) by (auto simp: NewRVMemory_def)
  have "mmio_free 0 (length prog)" using assms(2) by (simp add: mmio_free_def)
  note w = write_bytes_ok [OF mem_wf_New this m]
  then have "program_at prog m" by (simp add: program_at_def mem_like_def NewRVMemory_def)
  moreover have "LoadProgram prog 0 0 cpu = (Ok (), cpu\<lparr>Memory := m, PC := 0\<rparr>)"
    using assms m by (simp add: LoadProgram_def LoadSegment_def on_memory_def)
  ultimately show ?thesis by blast
qed

lemma fetch:
  assumes "program_at prog m" "unat pc + 4 \<le> length prog" "length prog \<le> 4096"
  shows "ReadWord pc m = (Ok (LittleEndian_Uint32 (take 4 (drop (unat pc) prog))), m)"
proof -
  have w: "of_nat (unat pc + i) = pc + of_nat i" for i by simp
  have "allocated m (pc + of_nat i)" if "i < 4" for i
    using assms that w [of i] unfolding program_at_def by (metis add_less_cancel_left order_less_le_trans)
  then have "ReadWord pc m = (Ok (LittleEndian_Uint32 (bytes_at m pc 4)), m)"
    using assms(1) by (intro ReadWord_allocated) (simp_all add: program_at_def)
  moreover have "byte_at m (pc + of_nat i) = prog ! (unat pc + i)" if "i < 4" for i
    using upd_bytes_same [of prog "unat pc + i" "byte_at NewRVMemory" 0] assms that w [of i] by (simp add: program_at_def)
  then have "bytes_at m pc 4 = map (\<lambda>i. prog ! (unat pc + i)) [0..<4]" unfolding bytes_at_def by simp
  moreover have "\<dots> = take 4 (drop (unat pc) prog)" using assms(2) by (intro nth_equalityI) simp_all
  ultimately show ?thesis by simp
qed

lemma fetch_cpu:
  assumes "program_at prog (Memory cpu)" "unat (PC cpu) + 4 \<le> length prog" "length prog \<le> 4096"
  shows "on_memory err (ReadWord (PC cpu)) cpu = (Ok (LittleEndian_Uint32 (take 4 (drop (unat (PC cpu)) prog))), cpu)"
  using fetch [OF assms] by (simp add: on_memory_def)

lemma instrs: "LittleEndian_Uint32 [0x93, 0x08, 0x30, 0x00] = 0x00300893"
  "LittleEndian_Uint32 [0x93, 0x08, 0x40, 0x00] = 0x00400893"
  "LittleEndian_Uint32 [0x93, 0x08, 0x50, 0x00] = 0x00500893"
  "LittleEndian_Uint32 [0x93, 0x08, 0x00, 0x00] = 0x00000893"
  "LittleEndian_Uint32 [0x13, 0x05, 0x00, 0x00] = 0x00000513"
  "LittleEndian_Uint32 [0x73, 0x00, 0x00, 0x00] = 0x00000073"
  by (simp_all add: LittleEndian_Uint32_def)

lemma exec_instrs: 
  "execute call 0x00300893 cpu = (Ok [], next_pc (set_reg 17 (reg cpu 0 + 3) cpu))"
  "execute call 0x00400893 cpu = (Ok [], next_pc (set_reg 17 (reg cpu 0 + 4) cpu))"
  "execute call 0x00500893 cpu = (Ok [], next_pc (set_reg 17 (reg cpu 0 + 5) cpu))"
  "execute call 0x00000893 cpu = (Ok [], next_pc (set_reg 17 (reg cpu 0) cpu))"
  "execute call 0x00000513 cpu = (Ok [], next_pc (set_reg 10 (reg cpu 0) cpu))"
  "execute call 0x00000073 cpu = st_bind (handleEcall call cpu) (\<lambda>_ cpu. (Ok [], next_pc cpu))"
  by (simp_all add: execute_def executeImmediate_def decodeI_def execute_system_def)


text \<open>One step of a program whose word at the program counter is known.\<close>

lemma Step_at:
  assumes "program_at prog (Memory cpu)" "unat (PC cpu) + 4 \<le> length prog" "length prog \<le> 4096"
    "\<not> Halted cpu" "GasLimit cpu = 0 \<or> GasUsed cpu < GasLimit cpu"
    "LittleEndian_Uint32 (take 4 (drop (unat (PC cpu)) prog)) = instr"
    "execute call instr cpu = (Ok ops, cpu')" "Witness cpu' = None"
  shows "Step call cpu = (Ok (), (set_reg 0 0 cpu')\<lparr>GasUsed := GasUsed cpu' + 1, Steps := Steps cpu' + 1\<rparr>)"
  using assms(4-) fetch_cpu [OF assms(1-3)] by (auto simp: Step_def Let_def set_reg_def word_gt_0)

lemma replicate_update: "(replicate n x)[i := x] = replicate n x"
  by (cases "i < n") (simp_all add: list_update_same_conv list_update_beyond)

text \<open>The word the handler appends, from the parts of its input.\<close>

definition recovery_input :: "bytes \<Rightarrow> bytes \<Rightarrow> byte \<Rightarrow> bytes \<Rightarrow> bytes \<Rightarrow> bytes \<Rightarrow> bytes" where
  "recovery_input hash pad v r s rest = hash @ pad @ [v] @ r @ s @ rest"

lemma recover_word_parts:
  assumes "length hash = 32" "length pad = 31" "length r = 32" "length s = 32"
  shows "128 \<le> length (recovery_input hash pad v r s rest)"
    and "recover_word cr (recovery_input hash pad v r s rest) =
      (if v < 27 then Err (EcallError ''riscv ecrecover: v must be 27 or 28'')
       else case Ecrecover hash (r @ s @ [v - 27]) of
           Ok pub \<Rightarrow>
             let addr = take 20 (drop 12 (keccak cr (drop 1 pub))) in
             Ok (replicate 12 0 @ addr @ replicate (20 - length addr) 0)
         | _ \<Rightarrow> Ok (replicate 32 0))"
  using assms length_Ecrecover [of hash "r @ s @ [v - 27]"]
  by (auto simp: recovery_input_def recover_word_def Let_def nth_append split: outcome.split)

lemma Ecrecover_high_v: "1 < v \<Longrightarrow> length r = 32 \<Longrightarrow> length s = 32 \<Longrightarrow> Ecrecover hash (r @ s @ [v]) \<noteq> Ok pub"
  by (auto simp: Ecrecover_def SigToPub_def nth_append Let_def)

definition guest_prog :: "byte \<Rightarrow> bytes" where
  "guest_prog b =
     [0x93, 0x08, b, 0x00, 0x73, 0x00, 0x00, 0x00, 0x93, 0x08, 0x00, 0x00, 0x13, 0x05, 0x00, 0x00, 0x73, 0x00, 0x00, 0x00]"

lemma guest_prog_run:
  assumes "program_at (guest_prog b) (Memory cpu)" "cpu = \<lparr>Regs = replicate 32 0, PC = 0, Memory = m, Halted = False, ExitCode = 0, GasLimit = g,
      GasUsed = 0, Steps = 0, InputBuf = input, OutputBuf = [], inputPos = 0, Witness = None, EcallHandlers = hs\<rparr>"
    "g = 0 \<or> 5 \<le> g" 
    "LittleEndian_Uint32 [0x93, 0x08, b, 0x00] = i0" "\<And>cpu. execute call i0 cpu = (Ok [], next_pc (set_reg 17 (reg cpu 0 + k) cpu))"
    "k \<noteq> 0" "k \<noteq> 1" "k \<noteq> 2" "fmlookup hs k = Some h"
    "\<And>cpu. InputBuf cpu = input \<Longrightarrow> inputPos cpu = 0 \<Longrightarrow> OutputBuf cpu = [] \<Longrightarrow> call h cpu = (Ok (), cpu\<lparr>OutputBuf := out, inputPos := p\<rparr>)"
  shows "\<exists>cpu'. Run call 6 cpu = Some (Ok (), cpu') \<and> OutputBuf cpu' = out \<and> ExitCode cpu' = 0"
proof -
  have six: "(6::nat) = Suc (Suc (Suc (Suc (Suc (Suc 0)))))" by simp
  have g: "g = 0 \<or> 0 < g" "g = 0 \<or> 1 < g" "g = 0 \<or> 2 < g" "g = 0 \<or> 3 < g" "g = 0 \<or> 4 < g"
    using assms(3) by (auto simp: word_less_nat_alt word_le_nat_alt)
  define c1 where "c1 = cpu\<lparr>Regs := (replicate 32 0)[17 := k], PC := 4, GasUsed := 1, Steps := 1\<rparr>"
  define c2 where "c2 = c1\<lparr>OutputBuf := out, inputPos := p, PC := 8, GasUsed := 2, Steps := 2\<rparr>"
  define c3 where "c3 = c2\<lparr>Regs := replicate 32 0, PC := 12, GasUsed := 3, Steps := 3\<rparr>"
  define c4 where "c4 = c3\<lparr>PC := 16, GasUsed := 4, Steps := 4\<rparr>"
  define c5 where "c5 = c4\<lparr>ExitCode := 0, Halted := True, PC := 20, GasUsed := 5, Steps := 5\<rparr>"
  note defs = next_pc_def set_reg_def reg_def c1_def c2_def c3_def c4_def c5_def assms(2)
  note code = guest_prog_def instrs exec_instrs handleEcall_def Let_def RVEcallHalt_def RVEcallOutput_def RVEcallInput_def
  have regs: "(replicate 32 0)[17 := k, 0 := 0] = (replicate 32 0)[17 := k]" "(replicate 32 0)[i := 0] = replicate 32 (0 :: u32)" for i
    by (simp_all add: list_update_same_conv replicate_update)
  have 1: "Step call cpu = (Ok (), c1)"
    using Step_at [of "guest_prog b" cpu i0 call "[]" "next_pc (set_reg 17 (reg cpu 0 + k) cpu)"] assms(1,4,5) g
    by (simp add: defs guest_prog_def regs)
  have p: "program_at (guest_prog b) (Memory c1)" "program_at (guest_prog b) (Memory c2)"
    "program_at (guest_prog b) (Memory c3)" "program_at (guest_prog b) (Memory c4)" using assms(1) by (simp_all add: defs)
  have 2: "Step call c1 = (Ok (), c2)"
    using Step_at [of "guest_prog b" c1 "0x73" call "[]" "next_pc (c1\<lparr>OutputBuf := out, inputPos := p\<rparr>)"] p g assms(6-)
    by (simp add: defs code regs)
  have 3: "Step call c2 = (Ok (), c3)"
    using Step_at [of "guest_prog b" c2 "0x893" call "[]" "next_pc (set_reg 17 (reg c2 0) c2)"] p g
    by (simp add: defs code regs)
  have 4: "Step call c3 = (Ok (), c4)"
    using Step_at [of "guest_prog b" c3 "0x513" call "[]" "next_pc (set_reg 10 (reg c3 0) c3)"] p g
    by (simp add: defs code regs)
  have 5: "Step call c4 = (Ok (), c5)"
    using Step_at [of "guest_prog b" c4 "0x73" call "[]" "next_pc (c4\<lparr>ExitCode := reg c4 10, Halted := True\<rparr>)"] p g
    by (simp add: defs code regs)
  have h: "\<not> Halted cpu" "\<not> Halted c1" "\<not> Halted c2" "\<not> Halted c3" "\<not> Halted c4" "Halted c5"
    by (simp_all add: defs)
  show ?thesis unfolding six by (simp add: 1 2 3 4 5 h) (simp add: defs)
qed


lemma run_guest_prog:
  assumes "g = 0 \<or> 5 \<le> g" "b = 0x30 \<and> k = 3 \<or> b = 0x40 \<and> k = 4 \<or> b = 0x50 \<and> k = 5" "6 \<le> n"
    "(k, h) \<in> set DefaultPrecompileEcallHandlers"
    "\<And>cpu. \<lbrakk>InputBuf cpu = input; inputPos cpu = 0; OutputBuf cpu = []\<rbrakk> \<Longrightarrow>
       call_handler cr h cpu = (Ok (), cpu\<lparr>OutputBuf := out, inputPos := p\<rparr>)"
  shows "run_guest cr n (guest_prog b) input g = Some (Ok out)"
proof -
  obtain m where m: "LoadProgram (guest_prog b) 0 0 (new_guest input g) = (Ok (), (new_guest input g)\<lparr>Memory := m, PC := 0\<rparr>)"
    "program_at (guest_prog b) m"
    using load_program [of "guest_prog b" "new_guest input g"]
    by (auto simp: guest_prog_def new_guest_def DefaultPrecompileEcallHandlers_def RegisterEcallHandler_def NewRVCPU_def)
  have codes: "fmlookup (EcallHandlers (new_guest input g)) k = Some h" "k \<noteq> 0" "k \<noteq> 1" "k \<noteq> 2"
    using assms(4) by (auto simp: new_guest_def DefaultPrecompileEcallHandlers_def RegisterEcallHandler_def
        NewRVCPU_def RVEcallKeccak256_def RVEcallSHA256_def RVEcallECRecover_def)
  obtain i0 where "LittleEndian_Uint32 [0x93, 0x08, b, 0x00] = i0"
    "\<And>cpu. execute (call_handler cr) i0 cpu = (Ok [], next_pc (set_reg 17 (reg cpu 0 + k) cpu))"
    using assms(2) by (auto simp: instrs exec_instrs)
  then obtain cpu' where "Run (call_handler cr) 6 ((new_guest input g)\<lparr>Memory := m, PC := 0\<rparr>) = Some (Ok (), cpu')" "OutputBuf cpu' = out"
    using guest_prog_run [of b "(new_guest input g)\<lparr>Memory := m, PC := 0\<rparr>" m g input "EcallHandlers (new_guest input g)" i0
        "call_handler cr" k h p out] m(2) assms(1,5) codes
    by (auto simp: new_guest_def DefaultPrecompileEcallHandlers_def RegisterEcallHandler_def NewRVCPU_def)
  then show ?thesis using m(1) guest.Run_mono [OF _ assms(3)] by (simp add: run_guest_def)
qed

lemma programs: "RVKeccak256Program = guest_prog 0x30" "RVSHA256Program = guest_prog 0x40" "RVECRecoverProgram = guest_prog 0x50"
  by (simp_all add: guest_prog_def RVKeccak256Program_def RVSHA256Program_def RVECRecoverProgram_def)

text \<open>A handler that fails halts the guest, without output and without an error.\<close>

lemma guest_prog_fails:
  assumes "program_at (guest_prog b) (Memory cpu)" "cpu = \<lparr>Regs = replicate 32 0, PC = 0, Memory = m, Halted = False, ExitCode = 0, GasLimit = g,
      GasUsed = 0, Steps = 0, InputBuf = input, OutputBuf = [], inputPos = 0, Witness = None, EcallHandlers = hs\<rparr>"
    "g = 0 \<or> 5 \<le> g"
    "LittleEndian_Uint32 [0x93, 0x08, b, 0x00] = i0" "\<And>cpu. execute call i0 cpu = (Ok [], next_pc (set_reg 17 (reg cpu 0 + k) cpu))"
    "k \<noteq> 0" "k \<noteq> 1" "k \<noteq> 2" "fmlookup hs k = Some h"
    "\<And>cpu. InputBuf cpu = input \<Longrightarrow> inputPos cpu = 0 \<Longrightarrow> \<exists>e. call h cpu = (Err e, cpu)"
  shows "\<exists>cpu'. Run call 6 cpu = Some (Ok (), cpu') \<and> OutputBuf cpu' = []"
proof -
  have six: "(6::nat) = Suc (Suc (Suc (Suc (Suc (Suc 0)))))" by simp
  have g: "g = 0 \<or> 0 < g" "g = 0 \<or> 1 < g" using assms(3) by (auto simp: word_less_nat_alt word_le_nat_alt)
  define c1 where "c1 = cpu\<lparr>Regs := (replicate 32 0)[17 := k], PC := 4, GasUsed := 1, Steps := 1\<rparr>"
  note defs = next_pc_def set_reg_def reg_def c1_def assms(2)
  note code = guest_prog_def instrs exec_instrs handleEcall_def Let_def RVEcallHalt_def RVEcallOutput_def RVEcallInput_def
  have regs: "(replicate 32 0)[17 := k, 0 := 0] = (replicate 32 0)[17 := k]"
    by (simp add: list_update_same_conv)
  have 1: "Step call cpu = (Ok (), c1)"
    using Step_at [of "guest_prog b" cpu i0 call "[]" "next_pc (set_reg 17 (reg cpu 0 + k) cpu)"] assms(1,4,5) g
    by (simp add: defs guest_prog_def regs)
  have p: "program_at (guest_prog b) (Memory c1)" using assms(1) by (simp add: defs)
  obtain e where "call h c1 = (Err e, c1)" using assms(10) [of c1] by (auto simp: defs)
  then have 2: "Step call c1 = (Ok (), (set_reg 0 0 (next_pc (halt_error c1)))\<lparr>GasUsed := 2, Steps := 2\<rparr>)"
    using Step_at [of "guest_prog b" c1 "0x73" call "[]" "next_pc (halt_error c1)"] p g assms(6-9)
    by (simp add: defs code halt_error_def)
  show ?thesis unfolding six by (simp add: 1 2) (simp add: defs halt_error_def)
qed

lemma guest_loaded:
  "\<exists>m. LoadProgram (guest_prog b) 0 0 (new_guest input g) = (Ok (), (new_guest input g)\<lparr>Memory := m, PC := 0\<rparr>) \<and>
     program_at (guest_prog b) m"
  using load_program [of "guest_prog b" "new_guest input g"]
  by (auto simp: guest_prog_def new_guest_def DefaultPrecompileEcallHandlers_def RegisterEcallHandler_def NewRVCPU_def)

lemma run_recover_fails:
  assumes "g = 0 \<or> 5 \<le> g" "6 \<le> n"
    and "length input < 128 \<or> (\<exists>e. recover_word cr input = Err e)"
  shows "run_guest cr n (guest_prog 0x50) input g = Some (Ok [])"
proof -
  obtain m where m: "LoadProgram (guest_prog 0x50) 0 0 (new_guest input g) = (Ok (), (new_guest input g)\<lparr>Memory := m, PC := 0\<rparr>)"
    "program_at (guest_prog 0x50) m" using guest_loaded by blast
  let ?c = "(new_guest input g)\<lparr>Memory := m, PC := 0\<rparr>"
  have "\<exists>cpu'. Run (call_handler cr) 6 ?c = Some (Ok (), cpu') \<and> OutputBuf cpu' = []"
  proof (rule guest_prog_fails [where b = "0x50" and k = 5 and h = ECRecoverEcallHandler and ?i0.0 = "0x00500893" and g = g
        and input = input and hs = "EcallHandlers (new_guest input g)"])
    show "\<exists>e. call_handler cr ECRecoverEcallHandler cpu = (Err e, cpu)"
      if "InputBuf cpu = input" "inputPos cpu = 0" for cpu
      using that assms(3) by (auto simp: run_ecrecover_def remaining_def InputPos_def go_slice_def)
  qed (use m(2) assms(1) in \<open>simp_all add: instrs exec_instrs new_guest_def DefaultPrecompileEcallHandlers_def
      RegisterEcallHandler_def NewRVCPU_def RVEcallKeccak256_def RVEcallSHA256_def RVEcallECRecover_def\<close>)
  then show ?thesis using m(1) guest.Run_mono [OF _ assms(2)] by (auto simp: run_guest_def)
qed

lemma run_recover_word:
  assumes "g = 0 \<or> 5 \<le> g" "6 \<le> n" and "128 \<le> length input" "recover_word cr input = Ok out"
  shows "run_guest cr n (guest_prog 0x50) input g = Some (Ok out)"
  using assms(3,4)
  by (intro run_guest_prog [where h = ECRecoverEcallHandler and k = 5 and p = 128, OF assms(1) _ assms(2)])
     (auto simp: DefaultPrecompileEcallHandlers_def RVEcallECRecover_def run_ecrecover_def remaining_def InputPos_def
       go_slice_def AdvanceInputPos_def append_output_def wrap64_id)

lemma run_hash_guests:
  assumes "g = 0 \<or> 5 \<le> g" "6 \<le> n"
  shows "run_guest cr n (guest_prog 0x30) input g = Some (Ok (keccak cr input))"
    and "run_guest cr n (guest_prog 0x40) input g = Some (Ok (sha256 cr input))"
proof -
  note handlers = DefaultPrecompileEcallHandlers_def RVEcallKeccak256_def RVEcallSHA256_def RVEcallECRecover_def
  show "run_guest cr n (guest_prog 0x30) input g = Some (Ok (keccak cr input))"
    by (rule run_guest_prog [where h = Keccak256EcallHandler and k = 3 and p = "int (length input)", OF assms(1) _ assms(2)])
       (auto simp: handlers run_keccak_def remaining_def InputPos_def go_slice_def SetInputPos_def append_output_def)
  show "run_guest cr n (guest_prog 0x40) input g = Some (Ok (sha256 cr input))"
    by (rule run_guest_prog [where h = SHA256EcallHandler and k = 4 and p = "int (length input)", OF assms(1) _ assms(2)])
       (auto simp: handlers run_sha256_def remaining_def InputPos_def go_slice_def SetInputPos_def append_output_def)
qed

text \<open>
  C32.  The precompile guests compute the precompiles, with a gas limit of at least five or of
  0.  The guest for code 3 returns the Keccak-256 digest of its input, the one for code 4 the SHA-256 digest.
  The one for code 5 takes an input that consists of a hash, 31 bytes, a byte \<open>v\<close>, \<open>r\<close> and \<open>s\<close>.  For \<open>v\<close> of 27 or 28
  it returns the address of the key that \<open>Ecrecover\<close> recovers from the hash and \<open>r\<close>, \<open>s\<close>, \<open>v - 27\<close>, padded
  to 32 bytes, and 32 zero bytes when there is no key; for greater \<open>v\<close> it returns 32 zero bytes as well; for lesser \<open>v\<close>, and for less
  than 128 bytes of input, it returns no bytes.
\<close>

theorem RunPrecompileGuest_correct:
  assumes "gasLimit = 0 \<or> 5 \<le> gasLimit" "6 \<le> fuel"
  shows "RunPrecompileGuest cr fuel 3 input gasLimit = Some (Ok (keccak cr input)) \<and>
    RunPrecompileGuest cr fuel 4 input gasLimit = Some (Ok (sha256 cr input)) \<and>
    (\<forall>hash pad v r s rest out. length hash = 32 \<and> length pad = 31 \<and> length r = 32 \<and> length s = 32 \<and>
       input = hash @ pad @ [v] @ r @ s @ rest \<and> RunPrecompileGuest cr fuel 5 input gasLimit = out \<longrightarrow>
       (v < 27 \<longrightarrow> out = Some (Ok [])) \<and>
       (28 < v \<longrightarrow> out = Some (Ok (replicate 32 0))) \<and>
       (v = 27 \<or> v = 28 \<longrightarrow>
          (\<forall>pub. Ecrecover hash (r @ s @ [v - 27]) = Ok pub \<and> length (keccak cr (drop 1 pub)) = 32 \<longrightarrow>
             out = Some (Ok (replicate 12 0 @ drop 12 (keccak cr (drop 1 pub))))) \<and>
          ((\<nexists>pub. Ecrecover hash (r @ s @ [v - 27]) = Ok pub) \<longrightarrow> out = Some (Ok (replicate 32 0))))) \<and>
    (length input < 128 \<longrightarrow> RunPrecompileGuest cr fuel 5 input gasLimit = Some (Ok []))"
proof (intro conjI allI impI; (elim conjE)?)
  have run: "RunPrecompileGuest cr fuel 3 input gasLimit = run_guest cr fuel (guest_prog 0x30) input gasLimit"
    "RunPrecompileGuest cr fuel 4 input gasLimit = run_guest cr fuel (guest_prog 0x40) input gasLimit"
    "RunPrecompileGuest cr fuel 5 input gasLimit = run_guest cr fuel (guest_prog 0x50) input gasLimit"
    by (simp_all add: RunPrecompileGuest_def programs RVEcallKeccak256_def RVEcallSHA256_def RVEcallECRecover_def)
  show "RunPrecompileGuest cr fuel 3 input gasLimit = Some (Ok (keccak cr input))"
    "RunPrecompileGuest cr fuel 4 input gasLimit = Some (Ok (sha256 cr input))"
    unfolding run by (rule run_hash_guests [OF assms])+
  show "RunPrecompileGuest cr fuel 5 input gasLimit = Some (Ok [])" if "length input < 128"
    unfolding run using that by (intro run_recover_fails [OF assms]) simp
  fix hash pad r s rest :: bytes and v :: byte and out
  assume len: "length hash = 32" "length pad = 31" "length r = 32" "length s = 32"
    and input: "input = hash @ pad @ [v] @ r @ s @ rest" and out: "RunPrecompileGuest cr fuel 5 input gasLimit = out"
  have i: "input = recovery_input hash pad v r s rest" using input by (simp add: recovery_input_def)
  note parts = recover_word_parts(1) [OF len, where v = v and rest = rest, folded i]
    recover_word_parts(2) [OF len, where v = v and rest = rest and cr = cr, folded i]
  note word = run_recover_word [OF assms parts(1), where cr = cr, folded run(3), unfolded out]
  show "out = Some (Ok [])" if "v < 27"
    using run_recover_fails [OF assms, of input cr] parts(2) that unfolding out [symmetric] run by simp
  show zeros: "out = Some (Ok (replicate 32 0))" if "28 < v"
  proof (rule word)
    have "1 < v - 27" "\<not> v < 27" using that by uint_arith+
    then show "recover_word cr input = Ok (replicate 32 0)"
      using parts(2) Ecrecover_high_v [of "v - 27" r s hash] len by (auto split: outcome.split)
  qed
  assume v: "v = 27 \<or> v = 28"
  then have "\<not> v < 27" by auto
  then show "out = Some (Ok (replicate 32 0))" if "\<nexists>pub. Ecrecover hash (r @ s @ [v - 27]) = Ok pub"
    using that parts(2) by (intro word) (auto split: outcome.split)
  show "out = Some (Ok (replicate 12 0 @ drop 12 (keccak cr (drop 1 pub))))"
    if "Ecrecover hash (r @ s @ [v - 27]) = Ok pub" "length (keccak cr (drop 1 pub)) = 32" for pub
    using that parts(2) \<open>\<not> v < 27\<close> by (intro word) simp
qed

theorem RunPrecompileGuest_correct_witness:
  "\<exists>cr. RunPrecompileGuest cr 6 3 [1, 2] 5 = Some (Ok (replicate 30 7 @ [1, 2])) \<and>
    RunPrecompileGuest cr 6 5 (be_fixed 32 1 @ replicate 31 0 @ [27] @ be_fixed 32 1 @ be_fixed 32 1 @ []) 5 =
      Some (Ok (replicate 12 0 @ replicate 18 7 @ take 2 (drop 1 (FromECDSAPub (keyX, keyY)))))"
proof -
  define cr where "cr = \<lparr>keccak = (\<lambda>b. replicate 30 7 @ take 2 b), sha256 = rev\<rparr>"
  let ?input = "be_fixed 32 1 @ replicate 31 0 @ [27] @ be_fixed 32 1 @ be_fixed 32 1 @ []"
  note c = RunPrecompileGuest_correct [of 5 6 cr, THEN conjunct2, THEN conjunct2, THEN conjunct1, rule_format,
      of "be_fixed 32 1" "replicate 31 0" "be_fixed 32 1" "be_fixed 32 1" ?input 27 "[]"]
  have "length (keccak cr (drop 1 (FromECDSAPub (keyX, keyY)))) = 32"
    by (simp add: cr_def FromECDSAPub_def)
  then have "RunPrecompileGuest cr 6 5 ?input 5 =
      Some (Ok (replicate 12 0 @ drop 12 (keccak cr (drop 1 (FromECDSAPub (keyX, keyY))))))"
    using c Ecrecover_1 by simp
  moreover have "RunPrecompileGuest cr 6 3 [1, 2] 5 = Some (Ok (keccak cr [1, 2]))"
    using RunPrecompileGuest_correct [of 5 6 cr "[1, 2]"] by simp
  ultimately show ?thesis by (intro exI [of _ cr]) (simp add: cr_def)
qed


section \<open>Metering\<close>

lemma LoadProgram_inv:
  assumes "cpu_inv cpu" "LoadProgram prog base entry cpu = (r, cpu')"
  shows "cpu_inv cpu'" "r \<noteq> Panic" "same_frame cpu cpu'" "Halted cpu' = Halted cpu"
proof -
  have ok: "cpu_ok cpu" using assms(1) by (simp add: cpu_inv_def)
  obtain r1 cpu1 where l: "on_memory RVMemError (LoadSegment base prog) cpu = (r1, cpu1)" by fastforce
  have k: "r1 \<noteq> Panic" "kept cpu cpu1" using safe_on_memory [OF kept_refl [OF ok] mem_safe_LoadSegment] l
    by (metis fst_conv safe_def snd_conv)+
  have m: "Regs cpu1 = Regs cpu" "Halted cpu1 = Halted cpu" using l by (auto simp: on_memory_def split: prod.splits)
  have c: "cpu' = cpu \<or> cpu' = cpu1 \<or> cpu' = cpu1\<lparr>PC := entry\<rparr>" "r \<noteq> Panic"
    using assms(2) l k(1) by (cases r1; auto simp: LoadProgram_def split: if_splits)+
  show "r \<noteq> Panic" by (rule c(2))
  have "cpu_inv cpu1" using k(2) m(1) assms(1) trace_ok_cong [of cpu1 cpu] by (simp add: cpu_inv_def kept_def same_frame_def)
  then have "cpu_inv (cpu1\<lparr>PC := entry\<rparr>)" 
    using trace_ok_cong [of "cpu1\<lparr>PC := entry\<rparr>" cpu1] by (simp add: cpu_inv_def cpu_ok_def)
  then show "cpu_inv cpu'" "same_frame cpu cpu'" "Halted cpu' = Halted cpu"
    using c(1) k(2) m(2) assms(1) \<open>cpu_inv cpu1\<close> by (auto simp: kept_def same_frame_def)
qed

text \<open>
  C29.  Metered execution ends.  A well-formed processor with a gas limit runs for at most as many
  steps as it has gas left and never panics: it halts, or it stops with an error.  It stays well
  formed (32 registers with register 0 zero, memory with as many pages as it counts, a linked
  trace), it never uses more gas than its limit, and it pays one unit per step.
\<close>

theorem Run_metered:
  assumes "cpu_inv cpu" "0 < GasLimit cpu" "GasUsed cpu \<le> GasLimit cpu"
  shows "\<exists>r cpu'. Run (call_handler cr) (Suc (unat (GasLimit cpu - GasUsed cpu))) cpu = Some (r, cpu') \<and>
    r \<noteq> Panic \<and> (r = Ok () \<longleftrightarrow> Halted cpu') \<and> cpu_inv cpu' \<and>
    GasUsed cpu' \<le> GasLimit cpu \<and> GasUsed cpu' - GasUsed cpu = Steps cpu' - Steps cpu"
proof -
  obtain r cpu' where r: "Run (call_handler cr) (Suc (unat (GasLimit cpu - GasUsed cpu))) cpu = Some (r, cpu')"
    "GasUsed cpu' \<le> GasLimit cpu" "GasUsed cpu' - GasUsed cpu = Steps cpu' - Steps cpu"
    using guest.Run_gas [OF assms] by blast
  then show ?thesis using guest.Run_inv [OF assms(1) r(1)] by blast
qed

theorem Run_metered_witness:
  "\<exists>cr r cpu'. Run (call_handler cr) (Suc 7) (new_guest [1, 2, 3] 7) = Some (r, cpu') \<and> r \<noteq> Panic \<and> GasUsed cpu' \<le> 7"
proof -
  define cr where "cr = \<lparr>keccak = rev, sha256 = rev\<rparr>"
  have "GasLimit (new_guest [1, 2, 3] 7) = 7" "GasUsed (new_guest [1, 2, 3] 7) = 0"
    by (simp_all add: new_guest_def DefaultPrecompileEcallHandlers_def RegisterEcallHandler_def NewRVCPU_def)
  then show ?thesis
    using Run_metered [OF new_guest_inv, of "[1, 2, 3]" 7 cr] by (intro exI [of _ cr]) auto
qed

text \<open>
  C31.  The trace of a run.  A run that starts with an empty collector leaves a trace with one step per
  executed instruction.  The first step starts from the registers at the start, each later step from
  the registers at the end of the one before, and the last one ends with the registers at
  the end.  A trace of fewer than \<open>2^32\<close> steps is read back from its serialized form.
\<close>

theorem trace_sound:
  assumes "cpu_inv cpu" "Witness cpu = Some []" "Run (call_handler cr) n cpu = Some (r, cpu')"
  shows "\<exists>w. Witness cpu' = Some w \<and> length w \<le> n \<and> linked w \<and> of_nat (length w) = Steps cpu' \<and>
    (w \<noteq> [] \<longrightarrow> RegsBefore (hd w) = Regs cpu \<and> RegsAfter (last w) = Regs cpu') \<and>
    (n < 2 ^ 32 \<longrightarrow> DeserializeWitness (Serialize w) = Ok w)"
proof -
  obtain w where w: "Witness cpu' = Some w" "length w \<le> n" "w \<noteq> [] \<longrightarrow> RegsBefore (hd w) = Regs cpu"
    using guest.Run_trace [OF assms(1,3,2)] by auto
  have "trace_ok cpu'" using guest.Run_inv [OF assms(1,3)] by (simp add: cpu_inv_def)
  then have t: "linked w" "of_nat (length w) = Steps cpu'" "w \<noteq> [] \<longrightarrow> RegsAfter (last w) = Regs cpu'"
    using w(1) by (simp_all add: trace_ok_def)
  moreover have "DeserializeWitness (Serialize w) = Ok w" if "n < 2 ^ 32"
    using Deserialize_Serialize [of w "[]"] w(2) t(1) that by (simp add: linked_def)
  ultimately show ?thesis using w by auto
qed

theorem trace_sound_witness:
  "\<exists>cr r cpu' w. Run (call_handler cr) 8 ((new_guest [1] 7)\<lparr>Witness := Some []\<rparr>) = Some (r, cpu') \<and>
     Witness cpu' = Some w \<and> DeserializeWitness (Serialize w) = Ok w"
proof -
  define cr where "cr = \<lparr>keccak = rev, sha256 = rev\<rparr>"
  let ?cpu = "(new_guest [1] 7)\<lparr>Witness := Some []\<rparr>"
  have cpu: "cpu_inv ?cpu" "0 < GasLimit ?cpu" "GasUsed ?cpu \<le> GasLimit ?cpu" "unat (GasLimit ?cpu - GasUsed ?cpu) < 8"
    by (simp_all add: new_guest_def DefaultPrecompileEcallHandlers_def RegisterEcallHandler_def NewRVCPU_def cpu_inv_def
      cpu_ok_def trace_ok_def linked_def mem_wf_New)
  then obtain r cpu' where r: "Run (call_handler cr) 8 ?cpu = Some (r, cpu')" using guest.Run_gas by blast
  then show ?thesis using trace_sound [OF cpu(1) _ r] by (intro exI [of _ cr]) auto
qed

text \<open>What a runner returns, by the result of \<open>Run\<close>.\<close>

lemma run_guest_result:
  assumes "length input < 2 ^ 63" and l: "LoadProgram program 0 0 (new_guest input gas) = (Ok (), cpu)"
  shows "run_guest cr fuel program input gas =
    map_option (\<lambda>(r, cpu'). Ok (OutputBuf cpu')) (Run (call_handler cr) fuel cpu)"
proof -
  note inv = LoadProgram_inv [OF new_guest_inv [OF assms(1)] l]
  have "ExitCode cpu' = 0" if "Run (call_handler cr) fuel cpu = Some (Err e, cpu')" for e cpu'
    using guest.Run_inv [OF inv(1) that] by (auto simp: cpu_inv_def cpu_ok_def)
  moreover have "Run (call_handler cr) fuel cpu \<noteq> Some (Panic, cpu')" for cpu'
    using guest.Run_inv [OF inv(1)] by blast
  ultimately show ?thesis using l by (auto simp: run_guest_def split: outcome.splits option.splits)
qed

lemma run_guest_no_error:
  assumes "length input < 2 ^ 63" "run_guest cr fuel program input gas = Some r"
  shows "(\<exists>out. r = Ok out) \<or> (\<exists>e. r = Err (LoadError e))"
proof -
  obtain l cpu where l: "LoadProgram program 0 0 (new_guest input gas) = (l, cpu)" by fastforce
  have "l \<noteq> Panic" using LoadProgram_inv(2) [OF new_guest_inv [OF assms(1)] l] .
  then show ?thesis
    using run_guest_result [OF assms(1)] assms(2) l by (cases l) (auto simp: run_guest_def)
qed

text \<open>The Keccak guest with one unit of gas.\<close>

lemma keccak_guest_starved:
  "\<exists>cpu cpu'. LoadProgram RVKeccak256Program 0 0 (new_guest input 1) = (Ok (), cpu) \<and>
     Run (call_handler cr) 2 cpu = Some (Err ErrRVGasExhausted, cpu') \<and> OutputBuf cpu' = []"
proof -
  obtain m where m: "LoadProgram (guest_prog 0x30) 0 0 (new_guest input 1) = (Ok (), (new_guest input 1)\<lparr>Memory := m, PC := 0\<rparr>)"
    "program_at (guest_prog 0x30) m" using guest_loaded by blast
  let ?c = "(new_guest input 1)\<lparr>Memory := m, PC := 0\<rparr>"
  have "Step (call_handler cr) ?c = (Ok (), (set_reg 0 0 (next_pc (set_reg 17 (reg ?c 0 + 3) ?c)))\<lparr>GasUsed := 1, Steps := 1\<rparr>)"
    using Step_at [OF _ _ _ _ _ _ exec_instrs(1), of "guest_prog 0x30" ?c "call_handler cr"] m(2)
    by (simp add: guest_prog_def instrs next_pc_def set_reg_def new_guest_def DefaultPrecompileEcallHandlers_def RegisterEcallHandler_def NewRVCPU_def)
  then have "Run (call_handler cr) (Suc (Suc 0)) ?c =
      Some (Err ErrRVGasExhausted, (set_reg 0 0 (next_pc (set_reg 17 (reg ?c 0 + 3) ?c)))\<lparr>GasUsed := 1, Steps := 1\<rparr>)"
    by (simp add: Step_def next_pc_def set_reg_def new_guest_def DefaultPrecompileEcallHandlers_def RegisterEcallHandler_def NewRVCPU_def)
  then show ?thesis
    using m(1) by (simp add: programs numeral_2_eq_2 next_pc_def set_reg_def new_guest_def DefaultPrecompileEcallHandlers_def
        RegisterEcallHandler_def NewRVCPU_def)
qed

text \<open>
  C35.  Failures of a guest are not reported.  Both runners report an execution error only when the
  exit code is not zero, but the exit code changes only together with the halt flag, and a halted
  processor ends \<open>Run\<close> without an error.  So no run of either runner returns an execution error: whenever
  \<open>Run\<close> ends with an error, out of gas included, \<open>RunPrecompileGuestProgram\<close> returns the output written so far as a success.
\<close>

theorem guest_failures_unreported:
  assumes "length input < 2 ^ 63"
  shows "(RunPrecompileGuestProgram cr fuel program input gas = Some r \<longrightarrow>
      (\<exists>out. r = Ok out) \<or> (\<exists>e. r = Err (LoadError e))) \<and>
    (RunPrecompileGuest cr fuel ecallCode input gas = Some r \<longrightarrow>
      (\<exists>out. r = Ok out) \<or> (\<exists>e. r = Err (LoadError e)) \<or> r = Err (UnknownEcallCode ecallCode)) \<and>
    (\<forall>cpu cpu' e. program \<noteq> [] \<and> LoadProgram program 0 0 (new_guest input gas) = (Ok (), cpu) \<and>
      Run (call_handler cr) fuel cpu = Some (Err e, cpu') \<longrightarrow>
      RunPrecompileGuestProgram cr fuel program input gas = Some (Ok (OutputBuf cpu')))"
proof (intro conjI allI impI)
  note no_error = run_guest_no_error [OF assms]
  show "(\<exists>out. r = Ok out) \<or> (\<exists>e. r = Err (LoadError e))"
    if "RunPrecompileGuestProgram cr fuel program input gas = Some r"
    using that by (auto simp: RunPrecompileGuestProgram_def split: if_splits dest!: no_error)
  show "(\<exists>out. r = Ok out) \<or> (\<exists>e. r = Err (LoadError e)) \<or> r = Err (UnknownEcallCode ecallCode)"
    if "RunPrecompileGuest cr fuel ecallCode input gas = Some r"
    using that by (auto simp: RunPrecompileGuest_def split: if_splits dest!: no_error)
qed (auto simp: RunPrecompileGuestProgram_def run_guest_result [OF assms])

theorem guest_failures_unreported_witness:
  "\<exists>cr. RunPrecompileGuestProgram cr 2 RVKeccak256Program [1, 2] 1 = Some (Ok []) \<and> keccak cr [1, 2] \<noteq> []"
proof -
  define cr where "cr = \<lparr>keccak = rev, sha256 = rev\<rparr>"
  obtain cpu cpu' where "LoadProgram RVKeccak256Program 0 0 (new_guest [1, 2] 1) = (Ok (), cpu)"
    "Run (call_handler cr) 2 cpu = Some (Err ErrRVGasExhausted, cpu')" "OutputBuf cpu' = []"
    using keccak_guest_starved [of "[1, 2]" cr] by blast
  moreover have "RVKeccak256Program \<noteq> []" by (simp add: RVKeccak256Program_def)
  ultimately have "RunPrecompileGuestProgram cr 2 RVKeccak256Program [1, 2] 1 = Some (Ok [])"
    using guest_failures_unreported [of "[1, 2]" cr 2 RVKeccak256Program 1] by simp
  then show ?thesis by (intro exI [of _ cr]) (simp add: cr_def)
qed

text \<open>
  C36.  A limit of 0 is no limit.  The runner passes a gas limit of 0 on to the processor, which then meters
  nothing: the one-instruction program that jumps to itself never ends.
\<close>

theorem unmetered_guest_diverges:
  "RunPrecompileGuestProgram cr fuel [0x6F, 0, 0, 0] input 0 = None"
proof -
  let ?prog = "[0x6F, 0, 0, 0] :: bytes"
  define looping :: "ecall_handler rv_cpu \<Rightarrow> bool" where "looping cpu \<longleftrightarrow> program_at ?prog (Memory cpu) \<and> PC cpu = 0 \<and> \<not> Halted cpu \<and>
    GasLimit cpu = 0 \<and> Witness cpu = None" for cpu
  have jal: "LittleEndian_Uint32 ?prog = 0x6F" "execute call 0x6F cpu = (Ok [], set_pc (PC cpu) (set_reg 0 (PC cpu + 4) cpu))"
    for call :: "ecall_handler \<Rightarrow> ecall_handler rv_cpu \<Rightarrow> (unit, ecall_handler) cpu_result" and cpu
    by (simp_all add: LittleEndian_Uint32_def execute_def decodeJ_def Let_def)
  have step: "\<exists>cpu'. Step (call_handler cr) cpu = (Ok (), cpu') \<and> looping cpu'" if "looping cpu" for cpu
    using that Step_at [OF _ _ _ _ _ _ jal(2), of ?prog cpu] by (simp add: looping_def jal set_pc_def set_reg_def)
  have "Run (call_handler cr) n cpu = None" if "looping cpu" for n cpu
    using that by (induction n arbitrary: cpu) (use step in \<open>fastforce simp: looping_def\<close>)+
  moreover obtain m where "LoadProgram ?prog 0 0 (new_guest input 0) = (Ok (), (new_guest input 0)\<lparr>Memory := m, PC := 0\<rparr>)" "program_at ?prog m"
    using load_program [of ?prog "new_guest input 0"]
    by (auto simp: new_guest_def DefaultPrecompileEcallHandlers_def RegisterEcallHandler_def NewRVCPU_def)
  ultimately show ?thesis
    by (simp add: RunPrecompileGuestProgram_def run_guest_def looping_def new_guest_def DefaultPrecompileEcallHandlers_def
        RegisterEcallHandler_def NewRVCPU_def)
qed

end
