(* ===== verification/Evm_Arith.thy ===== *)
theory Evm_Arith
  imports Evm_Machine "HOL-Library.Signed_Division"
begin

text \<open>
  The arithmetic, comparison and bit instructions of the interpreter work on unbounded
  integers.  Here they are compared with the operations on 256-bit words that define the EVM: a
  word \<open>w\<close> is held on the stack as \<open>uint w\<close>.
\<close>

section \<open>Masks and signs\<close>

lemma toU256_word: "toU256 v = uint (word_of_int v :: u256)"
proof -
  have "(2 ^ 256 - 1 :: int) = mask 256" by (simp add: mask_eq_exp_minus_1)
  moreover have "uint (word_of_int v :: u256) = take_bit 256 v" by (simp add: unsigned_of_int)
  ultimately show ?thesis by (simp only: toU256_def take_bit_eq_mask)
qed

lemma uint_less_256: "uint (w :: u256) < 2 ^ 256"
  using unsigned_less [of w, where 'a = int] by simp

lemma sint_256: "sint (w :: u256) = (if uint w < 2 ^ 255 then uint w else uint w - 2 ^ 256)"
proof -
  have "sint (word_of_int (uint w) :: u256) = (uint w + 2 ^ 255) mod 2 ^ 256 - 2 ^ 255"
    by (subst int_word_sint) simp
  then have s: "sint w = (uint w + 2 ^ 255) mod 2 ^ 256 - 2 ^ 255" by simp
  show ?thesis
  proof (cases "uint w < 2 ^ 255")
    case True
    then have "(uint w + 2 ^ 255) mod 2 ^ 256 = uint w + 2 ^ 255"
      using uint_ge_0 [of w] by (intro mod_pos_pos_trivial) simp_all
    then show ?thesis using s True by simp
  next
    case False
    have "(uint w + 2 ^ 255) mod 2 ^ 256 = (uint w + 2 ^ 255 - 2 ^ 256) mod 2 ^ 256"
      using mod_diff_right_eq [of "uint w + 2 ^ 255" "2 ^ 256" "2 ^ 256 :: int"] by simp
    also have "\<dots> = uint w + 2 ^ 255 - 2 ^ 256"
      using False uint_less_256 [of w] by (intro mod_pos_pos_trivial) simp_all
    finally show ?thesis using s False by simp
  qed
qed

lemma toS256_word: "toS256 (uint w) = sint (w :: u256)"
  by (simp add: toS256_def sint_256)

lemma word_of_int_shift: "word_of_int (v + 2 ^ 256) = (word_of_int v :: u256)"
  by (simp add: word_of_int_eq_iff take_bit_eq_mod)

lemma fromS256_word: "toU256 (fromS256 v) = uint (word_of_int v :: u256)"
  unfolding toU256_word fromS256_def by (cases "v \<ge> 0") (simp_all only: if_True if_False word_of_int_shift)

lemma fits_256: "0 \<le> v \<Longrightarrow> v < 2 ^ 256 \<Longrightarrow> uint (word_of_int v :: u256) = v"
  by (simp add: unsigned_of_int take_bit_eq_mod)

lemma Uint64_small: "unat (Uint64 (uint (s :: u256))) = unat s" if "uint s < 2 ^ 64"
proof -
  have "uint (word_of_int (uint s) :: u64) = uint s"
    using that uint_ge_0 [of s] by (simp add: unsigned_ucast_eq take_bit_eq_mod)
  then have "uint (Uint64 (uint s)) = uint s" by (simp add: Uint64_def)
  then show ?thesis by (simp only: uint_nat of_nat_eq_iff)
qed

section \<open>Powers\<close>

lemma opExp_word: "opExp (uint b # uint e # st) = Some (uint (b ^ unat e :: u256) # st)"
proof -
  have "uint (b ^ unat e) = uint (word_of_int (uint b ^ unat e) :: u256)" by simp
  also have "\<dots> = uint b ^ unat e mod 2 ^ 256" by (simp only: unsigned_of_int take_bit_eq_mod) simp
  finally show ?thesis by (simp add: pow_mod_correct)
qed

section \<open>Division\<close>

lemma abs_div_sdiv:
  assumes "y \<noteq> 0"
  shows "(if sgn x \<noteq> sgn y then - (\<bar>x\<bar> div \<bar>y\<bar>) else \<bar>x\<bar> div \<bar>y\<bar>) = x sdiv (y :: int)"
  using assms by (cases "x = 0") (auto simp: signed_divide_int_def sgn_if)

lemma abs_mod_smod: "(if x < 0 then - (\<bar>x\<bar> mod \<bar>y\<bar>) else \<bar>x\<bar> mod \<bar>y\<bar>) = x smod (y :: int)"
  by (auto simp: signed_modulo_int_def sgn_if)

lemma div_range: "0 \<le> x \<Longrightarrow> 0 < y \<Longrightarrow> x < m \<Longrightarrow> 0 \<le> x div y \<and> x div y < (m :: int)"
  using zdiv_mono2 [of x 1 y] by (auto simp: pos_imp_zdiv_nonneg_iff)

lemma opDiv_word: "opDiv (uint x # uint y # st) = Some (uint (if y = 0 then 0 else x div y :: u256) # st)"
  using uint_ge_0 [of y] by (cases "y = 0") (auto simp: big_Div_def uint_div less_le uint_0_iff)

lemma opMod_word: "opMod (uint x # uint y # st) = Some (uint (if y = 0 then 0 else x mod y :: u256) # st)"
  using uint_ge_0 [of y] by (cases "y = 0") (auto simp: big_Mod_def uint_mod uint_0_iff)

section \<open>Signed operations\<close>

lemma sint_eq_0: "sint (w :: u256) = 0 \<longleftrightarrow> w = 0"
  using uint_less_256 [of w] by (auto simp: sint_256 uint_0_iff)

lemma opSdiv_word:
  "opSdiv (uint (x :: u256) # uint (y :: u256) # st) =
     Some (uint (if y = 0 then 0 else word_of_int (sint x sdiv sint y) :: u256) # st)"
proof (cases "y = 0")
  case False
  then have "sint y \<noteq> 0" by (simp add: sint_eq_0)
  then have d: "big_Div \<bar>sint x\<bar> \<bar>sint y\<bar> = \<bar>sint x\<bar> div \<bar>sint y\<bar>" by (simp add: big_Div_def)
  show ?thesis
    unfolding opSdiv.simps toS256_word Let_def d fromS256_word
    using abs_div_sdiv [OF \<open>sint y \<noteq> 0\<close>, of "sint x"] \<open>sint y \<noteq> 0\<close> False by (simp only: if_False)
qed (simp add: toS256_def)

lemma opSmod_word:
  "opSmod (uint (x :: u256) # uint (y :: u256) # st) =
     Some (uint (if y = 0 then 0 else word_of_int (sint x smod sint y) :: u256) # st)"
proof (cases "y = 0")
  case False
  then have "sint y \<noteq> 0" by (simp add: sint_eq_0)
  show ?thesis
    unfolding opSmod.simps toS256_word Let_def fromS256_word big_Mod_def abs_abs
    using abs_mod_smod [of "sint x" "sint y"] \<open>sint y \<noteq> 0\<close> False by (simp only: if_False)
qed (simp add: toS256_def)

lemma opAddmod_word:
  "opAddmod (uint (x :: u256) # uint (y :: u256) # uint (z :: u256) # st) =
     Some (uint (if z = 0 then 0 else word_of_int ((uint x + uint y) mod uint z) :: u256) # st)"
  by (simp add: big_Mod_def toU256_word uint_0_iff)

lemma opMulmod_word:
  "opMulmod (uint (x :: u256) # uint (y :: u256) # uint (z :: u256) # st) =
     Some (uint (if z = 0 then 0 else word_of_int ((uint x * uint y) mod uint z) :: u256) # st)"
  by (simp add: big_Mod_def toU256_word uint_0_iff)

section \<open>Shifts\<close>

lemma bit_uint: "bit (uint (w :: u256)) n = bit w n"
  by (simp add: bit_simps)

lemma uint_ge_256: "uint (s :: u256) \<ge> 256 \<longleftrightarrow> unat s \<ge> 256"
  using uint_nat [of s] by linarith

lemma SHL_bits: "uint s < 256 \<Longrightarrow> word_of_int (push_bit (unat s) (uint v)) = push_bit (unat (s :: u256)) (v :: u256)"
  by (rule bit_word_eqI) (simp add: bit_simps)

lemma opSHL_word: "opSHL (uint (s :: u256) # uint v # st) = Some (uint (push_bit (unat s) v :: u256) # st)"
proof (cases "uint s \<ge> 256")
  case True
  then have "push_bit (unat s) v = 0" by (intro bit_word_eqI) (simp add: bit_simps uint_ge_256)
  then show ?thesis using True by simp
next
  case False
  then show ?thesis using SHL_bits [of s v] Uint64_small [of s] by (simp add: toU256_word)
qed

lemma opSHR_word: "opSHR (uint (s :: u256) # uint v # st) = Some (uint (drop_bit (unat s) v :: u256) # st)"
proof (cases "uint s \<ge> 256")
  case True
  then have "drop_bit (unat s) v = 0" by (intro bit_word_eqI) (simp add: bit_simps uint_ge_256)
  then show ?thesis using True by simp
next
  case False
  have "drop_bit (unat s) (uint v) = uint (drop_bit (unat s) v)" by (rule bit_eqI) (simp add: bit_simps)
  then show ?thesis using False Uint64_small [of s] by simp
qed

lemma opSAR_word: "opSAR (uint (s :: u256) # uint v # st) = Some (uint (signed_drop_bit (unat s) v :: u256) # st)"
proof (cases "uint s \<ge> 256")
  case True
  then have "unat s \<ge> 256" by (simp add: uint_ge_256)
  then have "signed_drop_bit (unat s) v = (if sint v \<ge> 0 then 0 else - 1)"
    using bit_last_iff [of v] by (subst signed_drop_bit_beyond) auto
  moreover have "uint (- 1 :: u256) = 2 ^ 256 - 1"
    by (simp only: unsigned_minus_1_eq_mask) (simp add: mask_eq_exp_minus_1)
  ultimately show ?thesis using True by (simp add: toS256_word Let_def)
next
  case False
  have "word_of_int (drop_bit (unat s) (sint v)) = (word_of_int (sint (signed_drop_bit (unat s) v)) :: u256)"
    by (simp only: sint_signed_drop_bit_eq)
  also have "\<dots> = signed_drop_bit (unat s) v" by (metis scast_eq scast_id)
  finally show ?thesis using False Uint64_small [of s] by (simp add: toS256_word fromS256_word)
qed

section \<open>Bits and bytes\<close>

lemma opNot_word: "opNot (uint w # st) = Some (uint (NOT w :: u256) # st)"
proof -
  have "word_of_int (NOT (uint w)) = NOT w" by (rule bit_word_eqI) (simp add: bit_simps)
  then show ?thesis by (simp add: toU256_word)
qed

lemma signext_bits:
  assumes "n < 256"
  shows "word_of_int (if bit (uint w) n then uint w OR NOT (push_bit n 1 - 1) else uint w AND (push_bit n 1 - 1)) =
    (signed_take_bit n w :: u256)"
proof -
  have "(push_bit n 1 - 1 :: int) = mask n" by (simp add: mask_eq_exp_minus_1 push_bit_eq_mult)
  then show ?thesis using assms by (intro bit_word_eqI) (auto simp add: bit_simps min_def)
qed

lemma opSignExtend_word:
  "opSignExtend (uint (b :: u256) # uint w # st) =
     Some (uint (if uint b < 31 then signed_take_bit (8 * unat b + 7) w else w :: u256) # st)"
proof (cases "uint b < 31")
  case True
  then have b: "unat b < 31" using uint_nat [of b] by linarith
  then have n: "unat (Uint64 (uint b) * 8 + 7) = 8 * unat b + 7"
    using Uint64_small [of b] True by (simp add: unat_word_ariths)
  show ?thesis
    unfolding opSignExtend.simps toU256_word Let_def n
    using True signext_bits [of "8 * unat b + 7" w] b by (simp only: if_True)
qed simp

lemma pad_nat_be: "n < 256 ^ k \<Longrightarrow> replicate (k - length (nat_be n)) 0 @ nat_be n = be_fixed k n"
proof -
  assume "n < 256 ^ k"
  then have "length (replicate (k - length (nat_be n)) 0 @ nat_be n) = k" using length_nat_be_le [of n k] by simp
  from be_fixed_be_nat [OF this] show ?thesis by (simp add: be_nat_zeros)
qed

lemma nth_be_fixed: "i < k \<Longrightarrow> be_fixed k n ! i = of_nat (n div 256 ^ (k - 1 - i))"
  by (simp add: be_fixed_def rev_nth)

lemma big_bytes_word: "big_bytes (uint (w :: u256)) = nat_be (unat w)"
  by (simp add: big_bytes_def)

lemma unat_less_256_32: "unat (w :: u256) < 256 ^ 32"
  using unsigned_less [of w, where 'a = nat] by simp

lemma opByte_word:
  "opByte (uint (i :: u256) # uint w # st) =
     Some (uint (if uint i < 32 then drop_bit (8 * (31 - unat i)) w AND 0xFF else 0 :: u256) # st)"
proof (cases "uint i < 32")
  case True
  then have i: "unat i < 32" using uint_nat [of i] by linarith
  let ?k = "31 - unat i"
  have "(of_nat (unat w div 256 ^ ?k) :: byte) = ucast (drop_bit (8 * ?k) w)"
  proof -
    have "unat (drop_bit (8 * ?k) w) = unat w div 256 ^ ?k"
      by (simp only: unat_drop_bit_eq) (simp add: drop_bit_eq_div power_mult)
    then show ?thesis by (metis of_nat_unat ucast_eq of_int_of_nat_eq)
  qed
  moreover have "uint (ucast (drop_bit (8 * ?k) w) :: byte) = uint (drop_bit (8 * ?k) w AND 0xFF)"
  proof -
    have "(0xFF :: u256) = mask 8" by (simp add: mask_eq_exp_minus_1)
    then have "v AND 0xFF = take_bit 8 v" for v :: u256 by (simp only: take_bit_eq_mask)
    then show ?thesis by (simp only: unsigned_ucast_eq unsigned_take_bit_eq) simp
  qed
  ultimately show ?thesis
    using True i Uint64_small [of i] length_nat_be_le [of "unat w" 32] unat_less_256_32 [of w]
      pad_nat_be [of "unat w" 32] nth_be_fixed [of "unat i" 32 "unat w"]
    by (simp add: big_bytes_word Let_def)
qed simp

lemma nat_bits_le: "nat_bits n \<le> k \<longleftrightarrow> n < 2 ^ k"
proof (induction k arbitrary: n)
  case 0
  show ?case by (simp add: nat_bits.simps [of n])
next
  case (Suc k)
  then show ?case
    by (cases "n = 0") (simp_all add: nat_bits.simps [of n] nat_bits.simps [of 0] less_mult_imp_div_less div_less_iff_less_mult mult.commute)
qed

text \<open>The number of zero bits above the highest set bit.\<close>

definition clz_word :: "u256 \<Rightarrow> nat" where
  "clz_word w = length (takeWhile (\<lambda>i. \<not> bit w i) (rev [0..<256]))"

lemma clz_nat_bits: "unat (w :: u256) < 2 ^ k \<Longrightarrow> k \<le> 256 \<Longrightarrow>
  length (takeWhile (\<lambda>i. \<not> bit w i) (rev [0..<k])) = k - nat_bits (unat w)"
proof (induction k)
  case 0
  then show ?case by simp
next
  case (Suc k)
  show ?case
  proof (cases "unat w < 2 ^ k")
    case True
    then have "\<not> bit (unat w) k" by (simp add: bit_iff_odd)
    then have "\<not> bit w k" using Suc.prems by (simp add: bit_unsigned_iff)
    moreover have "nat_bits (unat w) \<le> k" using True by (simp only: nat_bits_le)
    ultimately show ?thesis using Suc True by simp
  next
    case False
    then have "unat w div 2 ^ k = 1" using Suc.prems by (intro div_nat_eqI) simp_all
    then have "bit (unat w) k" by (simp add: bit_iff_odd)
    moreover have "\<not> nat_bits (unat w) \<le> k" unfolding nat_bits_le by (rule False)
    moreover have "nat_bits (unat w) \<le> Suc k" unfolding nat_bits_le by (rule Suc.prems)
    ultimately show ?thesis by (simp add: bit_unsigned_iff)
  qed
qed

lemma opCLZ_word: "opCLZ (uint w # st) = Some (int (clz_word w) # st)"
proof -
  have l: "unat w < 2 ^ 256" using unsigned_less [of w, where 'a = nat] by simp
  then have b: "nat_bits (unat w) \<le> 256" by (simp only: nat_bits_le)
  have "clz_word w = 256 - nat_bits (unat w)" unfolding clz_word_def by (rule clz_nat_bits [OF l]) simp
  moreover have "uint (word_of_int (256 - int (nat_bits (unat w))) :: u64) = 256 - int (nat_bits (unat w))"
    using b by (simp only: unsigned_of_int take_bit_eq_mod) simp
  ultimately show ?thesis using b by (simp add: BitLen_def of_nat_diff)
qed

section \<open>Sums, comparisons and connectives\<close>

lemma opAdd_word: "opAdd (uint x # uint y # st) = Some (uint (x + y :: u256) # st)"
  by (simp add: toU256_word)

lemma opSub_word: "opSub (uint x # uint y # st) = Some (uint (x - y :: u256) # st)"
  by (simp add: toU256_word)

lemma opMul_word: "opMul (uint x # uint y # st) = Some (uint (x * y :: u256) # st)"
  by (simp add: toU256_word)

lemma of_flag_uint: "of_flag b = uint (of_bool b :: u256)"
  by (simp add: of_flag_def)

lemma opLt_word: "opLt (uint x # uint y # st) = Some (uint (of_bool (x < y) :: u256) # st)"
  for x :: u256
  by (simp add: of_flag_uint word_less_def)

lemma opGt_word: "opGt (uint x # uint y # st) = Some (uint (of_bool (x > y) :: u256) # st)"
  for x :: u256
  by (simp add: of_flag_uint word_less_def)

lemma opSlt_word: "opSlt (uint x # uint y # st) = Some (uint (of_bool (x <s y) :: u256) # st)"
  for x :: u256
  by (simp add: of_flag_uint word_sless_alt toS256_word)

lemma opSgt_word: "opSgt (uint x # uint y # st) = Some (uint (of_bool (y <s x) :: u256) # st)"
  for x :: u256
  by (simp add: of_flag_uint word_sless_alt toS256_word)

lemma opEq_word: "opEq (uint x # uint y # st) = Some (uint (of_bool (x = y) :: u256) # st)"
  for x :: u256
  by (simp add: of_flag_uint word_uint_eq_iff)

lemma opIsZero_word: "opIsZero (uint x # st) = Some (uint (of_bool (x = 0) :: u256) # st)"
  for x :: u256
  by (simp add: of_flag_uint uint_0_iff)

lemma opAnd_word: "opAnd (uint x # uint y # st) = Some (uint (x AND y :: u256) # st)"
  by (simp add: unsigned_and_eq)

lemma opOr_word: "opOr (uint x # uint y # st) = Some (uint (x OR y :: u256) # st)"
  by (simp add: unsigned_or_eq)

lemma opXor_word: "opXor (uint x # uint y # st) = Some (uint (x XOR y :: u256) # st)"
  by (simp add: unsigned_xor_eq)

lemmas word_instructions =
  opAdd_word opSub_word opMul_word opDiv_word opSdiv_word opMod_word opSmod_word opAddmod_word
  opMulmod_word opExp_word opSignExtend_word opLt_word opGt_word opSlt_word opSgt_word opEq_word
  opIsZero_word opAnd_word opOr_word opXor_word opNot_word opByte_word opSHL_word opSHR_word
  opSAR_word opCLZ_word

text \<open>
  C28.  Every arithmetic, comparison, shift and bit instruction of the interpreter computes the
  256-bit operation the EVM prescribes.  On a stack whose operands are the unsigned values of
  words, the instruction does not panic, pops its operands, and pushes the unsigned value of the
  word operation: sums, differences and products wrap, division and remainder by zero give zero,
  the signed ones truncate towards zero, ADDMOD and MULMOD do not wrap before the reduction, EXP
  is the power modulo \<open>2\<^sup>2\<^sup>5\<^sup>6\<close>, shifts by 256 or more give zero (or the sign), SIGNEXTEND
  copies the sign bit of the chosen byte upwards, BYTE counts from the most significant byte, and
  CLZ counts the leading zeros.
\<close>

theorem instructions_compute_words:
  fixes x y z :: u256
  shows
    "opAdd (uint x # uint y # st) = Some (uint (x + y) # st) \<and>
     opSub (uint x # uint y # st) = Some (uint (x - y) # st) \<and>
     opMul (uint x # uint y # st) = Some (uint (x * y) # st) \<and>
     opDiv (uint x # uint y # st) = Some (uint (if y = 0 then 0 else x div y) # st) \<and>
     opSdiv (uint x # uint y # st) =
       Some (uint (if y = 0 then 0 else word_of_int (sint x sdiv sint y) :: u256) # st) \<and>
     opMod (uint x # uint y # st) = Some (uint (if y = 0 then 0 else x mod y) # st) \<and>
     opSmod (uint x # uint y # st) =
       Some (uint (if y = 0 then 0 else word_of_int (sint x smod sint y) :: u256) # st) \<and>
     opAddmod (uint x # uint y # uint z # st) =
       Some (uint (if z = 0 then 0 else word_of_int ((uint x + uint y) mod uint z) :: u256) # st) \<and>
     opMulmod (uint x # uint y # uint z # st) =
       Some (uint (if z = 0 then 0 else word_of_int ((uint x * uint y) mod uint z) :: u256) # st) \<and>
     opExp (uint x # uint y # st) = Some (uint (x ^ unat y) # st) \<and>
     opSignExtend (uint x # uint y # st) =
       Some (uint (if uint x < 31 then signed_take_bit (8 * unat x + 7) y else y) # st) \<and>
     opLt (uint x # uint y # st) = Some (uint (of_bool (x < y) :: u256) # st) \<and>
     opGt (uint x # uint y # st) = Some (uint (of_bool (x > y) :: u256) # st) \<and>
     opSlt (uint x # uint y # st) = Some (uint (of_bool (x <s y) :: u256) # st) \<and>
     opSgt (uint x # uint y # st) = Some (uint (of_bool (y <s x) :: u256) # st) \<and>
     opEq (uint x # uint y # st) = Some (uint (of_bool (x = y) :: u256) # st) \<and>
     opIsZero (uint x # st) = Some (uint (of_bool (x = 0) :: u256) # st) \<and>
     opAnd (uint x # uint y # st) = Some (uint (x AND y) # st) \<and>
     opOr (uint x # uint y # st) = Some (uint (x OR y) # st) \<and>
     opXor (uint x # uint y # st) = Some (uint (x XOR y) # st) \<and>
     opNot (uint x # st) = Some (uint (NOT x) # st) \<and>
     opByte (uint x # uint y # st) =
       Some (uint (if uint x < 32 then drop_bit (8 * (31 - unat x)) y AND 0xFF else 0) # st) \<and>
     opSHL (uint x # uint y # st) = Some (uint (push_bit (unat x) y) # st) \<and>
     opSHR (uint x # uint y # st) = Some (uint (drop_bit (unat x) y) # st) \<and>
     opSAR (uint x # uint y # st) = Some (uint (signed_drop_bit (unat x) y) # st) \<and>
     opCLZ (uint x # st) = Some (int (clz_word x) # st)"
  by (intro conjI) (rule word_instructions)+

end
