(* ===== verification/Evm_Gas.thy ===== *)
theory Evm_Gas
  imports Evm_Machine "HOL-Library.Monad_Syntax"
begin

text \<open>
  Gas arithmetic of \<^verbatim>\<open>src/pkg/core/vm\<close>: the constants, the saturating helpers and the cost functions of
  \<^verbatim>\<open>gas_table.go\<close>, the memory sizes of \<^verbatim>\<open>jump_table.go\<close>, the state-creation reservoir of
  \<^verbatim>\<open>gas_reservoir.go\<close> and the per-dimension counters of \<^verbatim>\<open>sstore_dim_gas.go\<close>.  The constants are
  abbreviations.
\<close>

section \<open>Constants\<close>

text \<open>\<^verbatim>\<open>gas.go\<close>\<close>

abbreviation (input) GasBase :: u64 where
  "GasBase \<equiv> 2"

abbreviation (input) GasVerylow :: u64 where
  "GasVerylow \<equiv> 3"

abbreviation (input) GasLow :: u64 where
  "GasLow \<equiv> 5"

abbreviation (input) GasMid :: u64 where
  "GasMid \<equiv> 8"

abbreviation (input) GasHigh :: u64 where
  "GasHigh \<equiv> 10"

abbreviation (input) GasExt :: u64 where
  "GasExt \<equiv> 20"

abbreviation (input) GasFastStep :: u64 where
  "GasFastStep \<equiv> GasLow"

abbreviation (input) GasSlowStep :: u64 where
  "GasSlowStep \<equiv> GasHigh"

abbreviation (input) GasSstoreSet :: u64 where
  "GasSstoreSet \<equiv> 20000"

abbreviation (input) GasSstoreReset :: u64 where
  "GasSstoreReset \<equiv> 2900"

abbreviation (input) GasCreate :: u64 where
  "GasCreate \<equiv> 32000"

abbreviation (input) GasSelfdestruct :: u64 where
  "GasSelfdestruct \<equiv> 5000"

abbreviation (input) GasLog :: u64 where
  "GasLog \<equiv> 375"

abbreviation (input) GasLogTopic :: u64 where
  "GasLogTopic \<equiv> 375"

abbreviation (input) GasLogData :: u64 where
  "GasLogData \<equiv> 8"

abbreviation (input) GasKeccak256 :: u64 where
  "GasKeccak256 \<equiv> 30"

abbreviation (input) GasKeccak256Word :: u64 where
  "GasKeccak256Word \<equiv> 6"

abbreviation (input) GasMemory :: u64 where
  "GasMemory \<equiv> 3"

abbreviation (input) GasCopy :: u64 where
  "GasCopy \<equiv> 3"

abbreviation (input) GasReturn :: u64 where
  "GasReturn \<equiv> 0"

abbreviation (input) GasStop :: u64 where
  "GasStop \<equiv> 0"

abbreviation (input) GasRevert :: u64 where
  "GasRevert \<equiv> 0"

abbreviation (input) GasJumpDest :: u64 where
  "GasJumpDest \<equiv> 1"

abbreviation (input) GasJump :: u64 where
  "GasJump \<equiv> 8"

abbreviation (input) GasJumpi :: u64 where
  "GasJumpi \<equiv> 10"

abbreviation (input) GasPush0 :: u64 where
  "GasPush0 \<equiv> 2"

abbreviation (input) GasPush :: u64 where
  "GasPush \<equiv> 3"

abbreviation (input) GasDup :: u64 where
  "GasDup \<equiv> 3"

abbreviation (input) GasSwap :: u64 where
  "GasSwap \<equiv> 3"

abbreviation (input) GasPop :: u64 where
  "GasPop \<equiv> 2"

abbreviation (input) GasMload :: u64 where
  "GasMload \<equiv> 3"

abbreviation (input) GasMstore :: u64 where
  "GasMstore \<equiv> 3"

abbreviation (input) GasMstore8 :: u64 where
  "GasMstore8 \<equiv> 3"

abbreviation (input) GasPc :: u64 where
  "GasPc \<equiv> 2"

abbreviation (input) GasMsize :: u64 where
  "GasMsize \<equiv> 2"

abbreviation (input) GasGas :: u64 where
  "GasGas \<equiv> 2"

abbreviation (input) GasTload :: u64 where
  "GasTload \<equiv> 100"

abbreviation (input) GasTstore :: u64 where
  "GasTstore \<equiv> 100"

abbreviation (input) GasBlobHash :: u64 where
  "GasBlobHash \<equiv> 3"

abbreviation (input) GasBlobBaseFee :: u64 where
  "GasBlobBaseFee \<equiv> 2"

abbreviation (input) GasMcopyBase :: u64 where
  "GasMcopyBase \<equiv> 3"

abbreviation (input) GasDivGlamsterdan :: u64 where
  "GasDivGlamsterdan \<equiv> 15"

abbreviation (input) GasSdivGlamsterdan :: u64 where
  "GasSdivGlamsterdan \<equiv> 20"

abbreviation (input) GasModGlamsterdan :: u64 where
  "GasModGlamsterdan \<equiv> 12"

abbreviation (input) GasMulmodGlamsterdan :: u64 where
  "GasMulmodGlamsterdan \<equiv> 11"

abbreviation (input) GasKeccak256Glamsterdan :: u64 where
  "GasKeccak256Glamsterdan \<equiv> 45"

abbreviation (input) WitnessBranchCost :: u64 where
  "WitnessBranchCost \<equiv> 1900"

abbreviation (input) WitnessChunkCost :: u64 where
  "WitnessChunkCost \<equiv> 200"

abbreviation (input) SubtreeEditCost :: u64 where
  "SubtreeEditCost \<equiv> 3000"

abbreviation (input) ChunkEditCost :: u64 where
  "ChunkEditCost \<equiv> 500"

abbreviation (input) ChunkFillCost :: u64 where
  "ChunkFillCost \<equiv> 6200"

abbreviation (input) CodeChunkSize :: u64 where
  "CodeChunkSize \<equiv> 31"

abbreviation (input) GasPQVerifyMLDSA44 :: u64 where
  "GasPQVerifyMLDSA44 \<equiv> 3500"

abbreviation (input) GasPQVerifyMLDSA65 :: u64 where
  "GasPQVerifyMLDSA65 \<equiv> 4500"

abbreviation (input) GasPQVerifyMLDSA87 :: u64 where
  "GasPQVerifyMLDSA87 \<equiv> 5500"

abbreviation (input) GasPQVerifyFalcon512 :: u64 where
  "GasPQVerifyFalcon512 \<equiv> 3000"

abbreviation (input) GasPQVerifySLHDSA :: u64 where
  "GasPQVerifySLHDSA \<equiv> 8000"

abbreviation (input) GasPQVerifyBase :: u64 where
  "GasPQVerifyBase \<equiv> 1000"

text \<open>\<^verbatim>\<open>gas_table.go\<close>\<close>

abbreviation (input) ColdAccountAccessCost :: u64 where
  "ColdAccountAccessCost \<equiv> 2600"

abbreviation (input) ColdSloadCost :: u64 where
  "ColdSloadCost \<equiv> 2100"

abbreviation (input) WarmStorageReadCost :: u64 where
  "WarmStorageReadCost \<equiv> 100"

abbreviation (input) CallStipend :: u64 where
  "CallStipend \<equiv> 2300"

abbreviation (input) MemoryGasCostPerWord :: u64 where
  "MemoryGasCostPerWord \<equiv> 3"

abbreviation (input) SstoreClearsScheduleRefund :: u64 where
  "SstoreClearsScheduleRefund \<equiv> 4800"

abbreviation (input) CreateBySelfdestructGas :: u64 where
  "CreateBySelfdestructGas \<equiv> 25000"

abbreviation (input) CreateDataGas :: u64 where
  "CreateDataGas \<equiv> 200"

abbreviation (input) MaxCodeSize :: int where
  "MaxCodeSize \<equiv> 24576"

abbreviation (input) MaxInitCodeSize :: int where
  "MaxInitCodeSize \<equiv> 49152"

abbreviation (input) InitCodeWordGas :: u64 where
  "InitCodeWordGas \<equiv> 2"

abbreviation (input) CallGasFraction :: u64 where
  "CallGasFraction \<equiv> 64"

abbreviation (input) CallValueTransferGas :: u64 where
  "CallValueTransferGas \<equiv> 9000"

abbreviation (input) CallNewAccountGas :: u64 where
  "CallNewAccountGas \<equiv> 25000"

abbreviation (input) CallValueTransferGlamst :: u64 where
  "CallValueTransferGlamst \<equiv> 2000"

abbreviation (input) CallNewAccountGlamst :: u64 where
  "CallNewAccountGlamst \<equiv> 26000"

abbreviation (input) CostPerStateByte :: u64 where
  "CostPerStateByte \<equiv> 662"

abbreviation (input) GasSstoreSetGlamsterdam :: u64 where
  "GasSstoreSetGlamsterdam \<equiv> 32 * CostPerStateByte + 2900"

abbreviation (input) ColdAccountAccessGlamst :: u64 where
  "ColdAccountAccessGlamst \<equiv> 3500"

abbreviation (input) ColdSloadGlamst :: u64 where
  "ColdSloadGlamst \<equiv> 2800"

abbreviation (input) WarmStorageReadGlamst :: u64 where
  "WarmStorageReadGlamst \<equiv> 150"

text \<open>\<^verbatim>\<open>jump_table.go\<close>\<close>

abbreviation (input) GasBalanceFrontier :: u64 where
  "GasBalanceFrontier \<equiv> 20"

abbreviation (input) GasExtcodeSizeFrontier :: u64 where
  "GasExtcodeSizeFrontier \<equiv> 20"

abbreviation (input) GasSloadFrontier :: u64 where
  "GasSloadFrontier \<equiv> 50"

abbreviation (input) GasCallFrontier :: u64 where
  "GasCallFrontier \<equiv> 40"

abbreviation (input) GasExtcodeCopyFrontier :: u64 where
  "GasExtcodeCopyFrontier \<equiv> 20"

abbreviation (input) GasBalanceEIP150 :: u64 where
  "GasBalanceEIP150 \<equiv> 400"

abbreviation (input) GasExtcodeSizeEIP150 :: u64 where
  "GasExtcodeSizeEIP150 \<equiv> 700"

abbreviation (input) GasSloadEIP150 :: u64 where
  "GasSloadEIP150 \<equiv> 200"

abbreviation (input) GasCallEIP150 :: u64 where
  "GasCallEIP150 \<equiv> 700"

abbreviation (input) GasExtcodeCopyEIP150 :: u64 where
  "GasExtcodeCopyEIP150 \<equiv> 700"

abbreviation (input) GasBalanceEIP1884 :: u64 where
  "GasBalanceEIP1884 \<equiv> 700"

abbreviation (input) GasSloadEIP1884 :: u64 where
  "GasSloadEIP1884 \<equiv> 800"

abbreviation (input) GasExtcodeHashConst :: u64 where
  "GasExtcodeHashConst \<equiv> 400"

abbreviation (input) GasExtcodeHashIstanbul :: u64 where
  "GasExtcodeHashIstanbul \<equiv> 700"

text \<open>\<^verbatim>\<open>sstore_dim_gas.go\<close>\<close>

abbreviation (input) StateCreationGasPremium :: u64 where
  "StateCreationGasPremium \<equiv> GasSstoreSetGlamsterdam"

abbreviation (input) DimStorageBlockGasCap :: u64 where
  "DimStorageBlockGasCap \<equiv> 4000000"

text \<open>\<^verbatim>\<open>eip7954.go\<close>\<close>

abbreviation (input) MaxCodeSizeGlamsterdam :: int where
  "MaxCodeSizeGlamsterdam \<equiv> 32768"

abbreviation (input) MaxInitCodeSizeGlamsterdam :: int where
  "MaxInitCodeSizeGlamsterdam \<equiv> 65536"

text \<open>\<^verbatim>\<open>eip4762_gas.go\<close>\<close>

abbreviation (input) BasicDataLeafKey :: byte where
  "BasicDataLeafKey \<equiv> 0"

abbreviation (input) CodeHashLeafKey :: byte where
  "CodeHashLeafKey \<equiv> 1"

abbreviation (input) HeaderStorageOffset :: u64 where
  "HeaderStorageOffset \<equiv> 64"

abbreviation (input) CodeOffset :: u64 where
  "CodeOffset \<equiv> 128"

abbreviation (input) MainStorageOffset :: u64 where
  "MainStorageOffset \<equiv> 256 * 64"

abbreviation (input) VerkleNodeWidth :: u64 where
  "VerkleNodeWidth \<equiv> 256"

section \<open>Overflow\<close>

definition MaxUint64 :: u64 where
  "MaxUint64 = 0xFFFFFFFFFFFFFFFF"

text \<open>A result with the flag that says whether it overflowed.\<close>

definition safeMulU :: "u64 \<Rightarrow> u64 \<Rightarrow> u64 \<times> bool" where
  "safeMulU a b =
     (if a = 0 \<or> b = 0 then (0, False)
      else if a > MaxUint64 div b then (0, True)
      else (a * b, False))"

definition safeAddU :: "u64 \<Rightarrow> u64 \<Rightarrow> u64 \<times> bool" where
  "safeAddU a b = (let sum = a + b in if sum < a then (0, True) else (sum, False))"

definition bigUint64Safe :: "int \<Rightarrow> u64 \<times> bool" where
  "bigUint64Safe v = (if \<not> IsUint64 v then (0, False) else (Uint64 v, True))"

definition safeAdd :: "u64 \<Rightarrow> u64 \<Rightarrow> u64" where
  "safeAdd a b = (if a > MaxUint64 - b then MaxUint64 else a + b)"

definition safeMul :: "u64 \<Rightarrow> u64 \<Rightarrow> u64" where
  "safeMul a b =
     (if a = 0 \<or> b = 0 then 0 else if a > MaxUint64 div b then MaxUint64 else a * b)"

section \<open>Costs\<close>

definition callGas :: "bool \<Rightarrow> u64 \<Rightarrow> u64 \<Rightarrow> int \<Rightarrow> u64" where
  "callGas isEip150 availableGas base callCost =
     (if isEip150 then
        let availableGas = availableGas - base; gas = availableGas - availableGas div 64 in
        if \<not> IsUint64 callCost \<or> gas < Uint64 callCost then gas else Uint64 callCost
      else if \<not> IsUint64 callCost then availableGas
      else Uint64 callCost)"

definition toWordSize :: "u64 \<Rightarrow> u64" where
  "toWordSize sz =
     (if sz = 0 then 0
      else if sz > MaxUint64 - 31 then MaxUint64 div 32 + 1
      else (sz + 31) div 32)"

definition MemoryGasCost :: "u64 \<Rightarrow> u64" where
  "MemoryGasCost memSize =
     (if memSize = 0 then 0
      else
        let words = toWordSize memSize in
        if words > 181000 then MaxUint64
        else words * MemoryGasCostPerWord + words * words div 512)"

definition memoryGasCostWithLastCost :: "evm_memory \<Rightarrow> u64 \<Rightarrow> (u64 \<times> evm_memory) option" where
  "memoryGasCostWithLastCost m newMemSize =
     (if newMemSize = 0 then Some (0, m)
      else if newMemSize > MaxMemorySize then None
      else
        let words = toWordSize newMemSize; newCost = words * GasMemory + words * words div 512 in
        if newCost < lastGasCost m then Some (0, m)
        else Some (newCost - lastGasCost m, m\<lparr>lastGasCost := newCost\<rparr>))"

definition MemoryExpansionGas :: "u64 \<Rightarrow> u64 \<Rightarrow> u64" where
  "MemoryExpansionGas oldSize newSize =
     (if newSize \<le> oldSize then 0 else MemoryGasCost newSize - MemoryGasCost oldSize)"

definition CallGas :: "u64 \<Rightarrow> u64 \<Rightarrow> u64" where
  "CallGas availableGas requestedGas =
     (let maxGas = availableGas - availableGas div CallGasFraction in
      if requestedGas > maxGas then maxGas else requestedGas)"

definition callGasEIP150 :: "u64 \<Rightarrow> u64 \<Rightarrow> u64 \<Rightarrow> u64" where
  "callGasEIP150 contractGas baseGas requestedGas =
     (if contractGas < baseGas then 0
      else
        let available = contractGas - baseGas; maxGas = available - available div CallGasFraction in
        if requestedGas > maxGas then maxGas else requestedGas)"

text \<open>A storage word is zero when all its bytes are.\<close>

definition isZero :: "hash \<Rightarrow> bool" where
  "isZero v \<longleftrightarrow> (\<forall>b\<in>set (hash_bytes v). b = 0)"

definition SstoreGas :: "hash \<Rightarrow> hash \<Rightarrow> hash \<Rightarrow> bool \<Rightarrow> u64 \<times> int" where
  "SstoreGas original current newVal cold =
     (let gas = (if cold then ColdSloadCost else 0) in
      if current = newVal then (gas + WarmStorageReadCost, 0)
      else if original = current then
        (if isZero original then (gas + GasSstoreSet, 0)
         else (gas + GasSstoreReset, if isZero newVal then uint SstoreClearsScheduleRefund else 0))
      else
        let refund =
              (if \<not> isZero original then
                 (if isZero current \<and> \<not> isZero newVal then - uint SstoreClearsScheduleRefund
                  else if \<not> isZero current \<and> isZero newVal then uint SstoreClearsScheduleRefund
                  else 0)
               else 0);
            refund =
              (if original = newVal then
                 (if isZero original then refund + (uint GasSstoreSet - uint WarmStorageReadCost)
                  else refund + (uint GasSstoreReset - uint WarmStorageReadCost))
               else refund) in
        (gas + WarmStorageReadCost, refund))"

definition LogGas :: "u64 \<Rightarrow> u64 \<Rightarrow> u64" where
  "LogGas numTopics dataSize =
     safeAdd (safeAdd GasLog (safeMul numTopics GasLogTopic)) (safeMul dataSize GasLogData)"

definition Sha3Gas :: "u64 \<Rightarrow> u64" where
  "Sha3Gas dataSize = safeAdd GasKeccak256 (safeMul (toWordSize dataSize) GasKeccak256Word)"

definition ExpGas :: "int \<Rightarrow> u64" where
  "ExpGas exponent =
     (if exponent = 0 then GasSlowStep
      else safeAdd GasSlowStep (safeMul 50 (of_nat ((BitLen exponent + 7) div 8))))"

definition CopyGas :: "u64 \<Rightarrow> u64" where
  "CopyGas sz = safeMul GasCopy (toWordSize sz)"

definition GasPQVerify :: "byte \<Rightarrow> u64" where
  "GasPQVerify algorithmID =
     (if algorithmID = 1 then GasPQVerifyMLDSA44
      else if algorithmID = 2 then GasPQVerifyMLDSA65
      else if algorithmID = 3 then GasPQVerifyMLDSA87
      else if algorithmID = 4 then GasPQVerifyFalcon512
      else if algorithmID = 5 then GasPQVerifySLHDSA
      else GasPQVerifyBase)"

text \<open>The cost of expanding memory; the error result of the source is always nil.\<close>

definition gasMemExpansion :: "evm_memory \<Rightarrow> u64 \<Rightarrow> u64" where
  "gasMemExpansion m memorySize =
     (if memorySize = 0 then 0
      else
        let words = (memorySize + 31) div 32;
            newCost = words * GasMemory + words * words div 512 in
        if u64_len (store m) = 0 then newCost
        else
          let oldWords = (u64_len (store m) + 31) div 32;
              oldCost = oldWords * GasMemory + oldWords * oldWords div 512 in
          if newCost > oldCost then newCost - oldCost else 0)"

section \<open>State-creation reservoir and gas dimensions\<close>

definition DrawReservoir :: "u64 \<Rightarrow> u64 \<Rightarrow> bool \<times> u64" where
  "DrawReservoir reservoir amount =
     (if amount = 0 then (True, reservoir)
      else if reservoir \<ge> amount then (True, reservoir - amount)
      else (False, reservoir))"

text \<open>Both take the parent's and the child's reservoir and return them updated.\<close>

definition ForwardReservoir :: "u64 \<Rightarrow> u64 \<Rightarrow> u64 \<times> u64" where
  "ForwardReservoir parent child = (0, parent)"

definition ReturnReservoir :: "u64 \<Rightarrow> u64 \<Rightarrow> u64 \<times> u64" where
  "ReturnReservoir parent child = (parent + child, 0)"

definition ReservoirGasCost :: "hash \<Rightarrow> hash \<Rightarrow> hash \<Rightarrow> bool \<Rightarrow> u64 \<Rightarrow> (u64 \<times> bool) \<times> u64" where
  "ReservoirGasCost original current newVal cold reservoir =
     (let coldGas = (if cold then ColdSloadGlamst else 0) in
      if isZero original \<and> \<not> isZero newVal \<and> original = current then
        (case DrawReservoir reservoir GasSstoreSetGlamsterdam of
           (True, r) \<Rightarrow> ((WarmStorageReadGlamst + coldGas, True), r)
         | (False, r) \<Rightarrow> ((GasSstoreSetGlamsterdam + coldGas, False), r))
      else if current = newVal then ((WarmStorageReadGlamst + coldGas, False), reservoir)
      else if original = current \<and> \<not> isZero original then ((GasSstoreReset + coldGas, False), reservoir)
      else ((WarmStorageReadGlamst + coldGas, False), reservoir))"

record dim_gas =
  DimCompute :: u64
  DimStorage :: u64
  DimBandwidth :: u64
  DimBlob :: u64
  DimWitness :: u64

definition AccountSSTOREGas :: "bool \<Rightarrow> u64 \<Rightarrow> dim_gas option \<Rightarrow> dim_gas option" where
  "AccountSSTOREGas isStateCreation coldPenalty usage =
     (case usage of
        None \<Rightarrow> None
      | Some u \<Rightarrow>
          if isStateCreation
          then Some (u\<lparr>DimCompute := DimCompute u + (WarmStorageReadGlamst + coldPenalty),
                       DimStorage := DimStorage u + StateCreationGasPremium\<rparr>)
          else Some (u\<lparr>DimCompute := DimCompute u + (WarmStorageReadGlamst + coldPenalty)\<rparr>))"

definition CheckDimStorageCap :: "u64 \<Rightarrow> u64 \<Rightarrow> bool" where
  "CheckDimStorageCap blockStorageGasUsed txStorageGas \<longleftrightarrow>
     blockStorageGasUsed + txStorageGas \<le> DimStorageBlockGasCap"

section \<open>Required memory sizes\<close>

definition bigUint64WithOverflow :: "int \<Rightarrow> u64 \<times> bool" where
  "bigUint64WithOverflow v =
     (if v < 0 then (0, True) else if \<not> IsUint64 v then (0, True) else (Uint64 v, False))"

definition safeAddU_val :: "u64 \<Rightarrow> u64 \<Rightarrow> u64 \<times> bool" where
  "safeAddU_val a b = (let sum = a + b in if sum < a then (0, True) else (sum, False))"

text \<open>
  The end of the range given by two stack entries: both must fit 64 bits and so must their
  sum.  The outer option is the panic of \<open>Back\<close> on a short stack.
\<close>

definition range_end :: "int \<Rightarrow> int \<Rightarrow> u64 \<times> bool" where
  "range_end offset len =
     (case bigUint64WithOverflow offset of
        (_, True) \<Rightarrow> (0, True)
      | (off, False) \<Rightarrow>
          (case bigUint64WithOverflow len of
             (_, True) \<Rightarrow> (0, True)
           | (l, False) \<Rightarrow> safeAddU_val off l))"

definition range_at :: "nat \<Rightarrow> nat \<Rightarrow> int list \<Rightarrow> (u64 \<times> bool) option" where
  "range_at i j st =
     do { offset \<leftarrow> stack_Back i st; len \<leftarrow> stack_Back j st; Some (range_end offset len) }"

definition fixed_at :: "u64 \<Rightarrow> int list \<Rightarrow> (u64 \<times> bool) option" where
  "fixed_at n st =
     do { offset \<leftarrow> stack_Back 0 st;
          Some (case bigUint64WithOverflow offset of
                  (_, True) \<Rightarrow> (0, True)
                | (off, False) \<Rightarrow> safeAddU_val off n) }"

text \<open>The larger of two ends.\<close>

definition max_end :: "u64 \<times> bool \<Rightarrow> u64 \<times> bool \<Rightarrow> u64 \<times> bool" where
  "max_end a b =
     (case (a, b) of
        ((x, False), (y, False)) \<Rightarrow> (if x > y then x else y, False)
      | _ \<Rightarrow> (0, True))"

definition memoryMload :: "int list \<Rightarrow> (u64 \<times> bool) option" where
  "memoryMload st = fixed_at 32 st"

definition memoryMstore :: "int list \<Rightarrow> (u64 \<times> bool) option" where
  "memoryMstore st = fixed_at 32 st"

definition memoryMstore8 :: "int list \<Rightarrow> (u64 \<times> bool) option" where
  "memoryMstore8 st = fixed_at 1 st"

definition memoryReturn :: "int list \<Rightarrow> (u64 \<times> bool) option" where
  "memoryReturn st = range_at 0 1 st"

definition memoryKeccak256 :: "int list \<Rightarrow> (u64 \<times> bool) option" where
  "memoryKeccak256 st = range_at 0 1 st"

definition memoryCalldataCopy :: "int list \<Rightarrow> (u64 \<times> bool) option" where
  "memoryCalldataCopy st = range_at 0 2 st"

definition memoryCodeCopy :: "int list \<Rightarrow> (u64 \<times> bool) option" where
  "memoryCodeCopy st = range_at 0 2 st"

definition memoryLog :: "int list \<Rightarrow> (u64 \<times> bool) option" where
  "memoryLog st = range_at 0 1 st"

definition memoryReturndataCopy :: "int list \<Rightarrow> (u64 \<times> bool) option" where
  "memoryReturndataCopy st = range_at 0 2 st"

definition memoryCall :: "int list \<Rightarrow> (u64 \<times> bool) option" where
  "memoryCall st = do { args \<leftarrow> range_at 3 4 st; ret \<leftarrow> range_at 5 6 st; Some (max_end args ret) }"

definition memoryCallCode :: "int list \<Rightarrow> (u64 \<times> bool) option" where
  "memoryCallCode st = memoryCall st"

definition memoryDelegateCall :: "int list \<Rightarrow> (u64 \<times> bool) option" where
  "memoryDelegateCall st =
     do { args \<leftarrow> range_at 2 3 st; ret \<leftarrow> range_at 4 5 st; Some (max_end args ret) }"

definition memoryStaticCall :: "int list \<Rightarrow> (u64 \<times> bool) option" where
  "memoryStaticCall st = memoryDelegateCall st"

definition memoryExtcodecopy :: "int list \<Rightarrow> (u64 \<times> bool) option" where
  "memoryExtcodecopy st = range_at 1 3 st"

definition memoryCreate :: "int list \<Rightarrow> (u64 \<times> bool) option" where
  "memoryCreate st = range_at 1 2 st"

definition memoryCreate2 :: "int list \<Rightarrow> (u64 \<times> bool) option" where
  "memoryCreate2 st = range_at 1 2 st"

definition memoryMcopy :: "int list \<Rightarrow> (u64 \<times> bool) option" where
  "memoryMcopy st =
     do { dest \<leftarrow> stack_Back 0 st; src \<leftarrow> stack_Back 1 st; sz \<leftarrow> stack_Back 2 st;
          Some (case (bigUint64WithOverflow dest, bigUint64WithOverflow src, bigUint64WithOverflow sz) of
                  ((_, False), (_, False), (n, False)) \<Rightarrow>
                    if n = 0 then (0, False) else max_end (range_end dest sz) (range_end src sz)
                | _ \<Rightarrow> (0, True)) }"

definition memoryApprove :: "int list \<Rightarrow> (u64 \<times> bool) option" where
  "memoryApprove st = range_at 0 1 st"

definition memoryTxParamCopy :: "int list \<Rightarrow> (u64 \<times> bool) option" where
  "memoryTxParamCopy st =
     do { dest \<leftarrow> stack_Back 2 st; len \<leftarrow> stack_Back 4 st;
          Some (case (bigUint64WithOverflow dest, bigUint64WithOverflow len) of
                  ((_, False), (n, False)) \<Rightarrow> if n = 0 then (0, False) else range_end dest len
                | _ \<Rightarrow> (0, True)) }"

end
