(* ===== verification/Evm_State.thy ===== *)
theory Evm_State
  imports Evm_Gas State_DB Riscv_Guest
begin

text \<open>
  The state of the interpreter, \<^verbatim>\<open>src/pkg/core/vm/interpreter.go\<close>, and what hangs on it: errors,
  block and transaction contexts, fork rules, the frame-transaction context of
  \<^verbatim>\<open>eip8141_opcodes.go\<close>, the tracker interface of \<^verbatim>\<open>bal_tracker.go\<close>, the witness tracker of
  \<^verbatim>\<open>eip4762_gas.go\<close>, the log emitters of \<^verbatim>\<open>eip7708.go\<close> and the operations of the jump table.

  Everything a pointer of the \<open>EVM\<close> struct reaches (the state database, the trackers, the frame
  context, the guest registry) is held by value, because nothing else holds it during a
  run.  The fields for tracing are left out.
\<close>

section \<open>Results\<close>

text \<open>
  \<open>Crash\<close> is a panic, which ends the process; \<open>NoFuel\<close> says that the bound on the number of
  steps was too small.
\<close>

datatype 'a exec = Done 'a | Crash | NoFuel

fun exec_bind :: "'a exec \<Rightarrow> ('a \<Rightarrow> 'b exec) \<Rightarrow> 'b exec" where
  "exec_bind (Done x) k = k x"
| "exec_bind Crash k = Crash"
| "exec_bind NoFuel k = NoFuel"

definition of_option :: "'a option \<Rightarrow> 'a exec" where
  "of_option r = (case r of None \<Rightarrow> Crash | Some x \<Rightarrow> Done x)"

text \<open>The sentinel errors; \<open>ErrNew\<close> is an error made in place by \<open>errors.New\<close>.\<close>

datatype vm_error =
    ErrOutOfGas | ErrStackOverflow | ErrStackUnderflow | ErrInvalidJump | ErrWriteProtection
  | ErrExecutionReverted | ErrMaxCallDepthExceeded | ErrInvalidOpCode | ErrReturnDataOutOfBounds
  | ErrMaxInitCodeSizeExceeded
  | ErrInvalidApproveScope | ErrAlreadyApproved | ErrSenderNotApproved | ErrCallerNotFrameTarget
  | ErrCallerNotSender | ErrInsufficientBalance | ErrNoFrameContext | ErrInvalidTxParamIndex
  | ErrFrameIndexOutOfBounds | ErrTxParamIn2MustBeZero
  | ErrRvExecution guest_error
  | ErrNew string

section \<open>Contexts\<close>

record block_context =
  GetHash :: "(u64 \<Rightarrow> hash) option"
  BC_BlockNumber :: "int option"
  Time :: u64
  Coinbase :: address
  BC_GasLimit :: u64
  BaseFee :: "int option"
  PrevRandao :: hash
  BlobBaseFee :: "int option"
  SlotNumber :: u64

record tx_context =
  Origin :: address
  GasPrice :: "int option"
  BlobHashes :: "hash list"

record fork_rules =
  IsVerkle :: bool
  IsGlamsterdan :: bool
  IsPrague :: bool
  IsCancun :: bool
  IsShanghai :: bool
  IsMerge :: bool
  IsLondon :: bool
  IsBerlin :: bool
  IsIstanbul :: bool
  IsConstantinople :: bool
  IsByzantium :: bool
  IsHomestead :: bool
  IsEIP158 :: bool
  IsEIP7708 :: bool
  IsEIP7954 :: bool
  IsIPlus :: bool

definition MaxCodeSizeForFork :: "fork_rules \<Rightarrow> int" where
  "MaxCodeSizeForFork rules = (if IsEIP7954 rules then MaxCodeSizeGlamsterdam else MaxCodeSize)"

definition MaxInitCodeSizeForFork :: "fork_rules \<Rightarrow> int" where
  "MaxInitCodeSizeForFork rules = (if IsEIP7954 rules then MaxInitCodeSizeGlamsterdam else MaxInitCodeSize)"

text \<open>Frame transactions.\<close>

record tx_frame =
  Mode :: u64
  Target :: address
  TF_GasLimit :: u64
  TF_Data :: bytes
  Status :: u64

abbreviation (input) FrameModeVerify :: u64 where
  "FrameModeVerify \<equiv> 1"

record frame_context =
  SenderApproved :: bool
  PayerApproved :: bool
  LastApproveScope :: byte
  ApproveCalledThisFrame :: bool
  TxType :: u64
  FC_Nonce :: "int option"
  Sender :: address
  MaxPriorityFee :: "int option"
  MaxFee :: "int option"
  MaxBlobFee :: "int option"
  MaxCost :: "int option"
  BlobCount :: u64
  SigHash :: hash
  Frames :: "tx_frame list"
  CurrentFrameIndex :: u64

text \<open>The calls an access tracker has received, newest first.\<close>

datatype bal_event =
    RecordStorageRead address hash hash
  | RecordStorageChange address hash hash hash
  | RecordBalanceChange address int int
  | RecordAddressTouch address

section \<open>Witness gas\<close>

record witness_tracker =
  accessedSubtrees :: "(address \<times> u64) fset"
  accessedLeaves :: "(address \<times> u64 \<times> byte) fset"
  editedSubtrees :: "(address \<times> u64) fset"
  editedLeaves :: "(address \<times> u64 \<times> byte) fset"

definition NewWitnessGasTracker :: witness_tracker where
  "NewWitnessGasTracker =
     \<lparr>accessedSubtrees = {||}, accessedLeaves = {||}, editedSubtrees = {||}, editedLeaves = {||}\<rparr>"

definition TouchAccessEvent :: "address \<Rightarrow> u64 \<Rightarrow> byte \<Rightarrow> witness_tracker \<Rightarrow> u64 \<times> witness_tracker" where
  "TouchAccessEvent addr subKey leafKey t =
     (let sk = (addr, subKey);
          (gas, t) = (if sk |\<in>| accessedSubtrees t then (0, t)
                      else (safeAdd 0 WitnessBranchCost, t\<lparr>accessedSubtrees := finsert sk (accessedSubtrees t)\<rparr>));
          lk = (addr, subKey, leafKey) in
      if lk |\<in>| accessedLeaves t then (gas, t)
      else (safeAdd gas WitnessChunkCost, t\<lparr>accessedLeaves := finsert lk (accessedLeaves t)\<rparr>))"

definition TouchWriteEvent ::
    "address \<Rightarrow> u64 \<Rightarrow> byte \<Rightarrow> bool \<Rightarrow> witness_tracker \<Rightarrow> u64 \<times> witness_tracker" where
  "TouchWriteEvent addr subKey leafKey fill t =
     (let sk = (addr, subKey);
          (gas, t) = (if sk |\<in>| editedSubtrees t then (0, t)
                      else (safeAdd 0 SubtreeEditCost, t\<lparr>editedSubtrees := finsert sk (editedSubtrees t)\<rparr>));
          lk = (addr, subKey, leafKey) in
      if lk |\<in>| editedLeaves t then (gas, t)
      else
        let gas = safeAdd gas ChunkEditCost; gas = (if fill then safeAdd gas ChunkFillCost else gas) in
        (gas, t\<lparr>editedLeaves := finsert lk (editedLeaves t)\<rparr>))"

definition GetStorageSlotTreeKeys :: "u64 \<Rightarrow> u64 \<times> byte" where
  "GetStorageSlotTreeKeys storageKey =
     (let pos = (if storageKey < CodeOffset - HeaderStorageOffset then HeaderStorageOffset + storageKey
                 else MainStorageOffset + storageKey) in
      (pos div VerkleNodeWidth, ucast (pos mod VerkleNodeWidth)))"

definition GetCodeChunkTreeKeys :: "u64 \<Rightarrow> u64 \<times> byte" where
  "GetCodeChunkTreeKeys chunkID =
     (let pos = CodeOffset + chunkID in (pos div VerkleNodeWidth, ucast (pos mod VerkleNodeWidth)))"

section \<open>Call frames\<close>

record frame =
  pc :: u64
  the_contract :: contract
  mem :: evm_memory
  stack :: "int list"

type_synonym frame_fn = "frame \<Rightarrow> ((bytes \<times> vm_error option) \<times> frame) option"
type_synonym memory_size_fn = "int list \<Rightarrow> (u64 \<times> bool) option"
type_synonym pure_gas_fn = "int list \<Rightarrow> evm_memory \<Rightarrow> u64 \<Rightarrow> u64 option"

section \<open>Operations\<close>

text \<open>
  The function values of the jump table.  Those that use the stack or the frame alone are held
  as functions; those that use the EVM are named.
\<close>

datatype exec_fn =
    StackFn "int list \<Rightarrow> int list option"
  | FrameFn frame_fn
  | Fn_opOrigin | Fn_opGasPrice | Fn_opCoinbase | Fn_opTimestamp | Fn_opNumber | Fn_opPrevRandao
  | Fn_opGasLimit | Fn_opChainID | Fn_opBaseFee | Fn_opBlobHash | Fn_opBlobBaseFee | Fn_opBlockhash
  | Fn_opSlotNum | Fn_opKeccak256 | Fn_opReturndataSize | Fn_opReturndataCopy
  | Fn_opSload | Fn_opSstore | Fn_opSstoreGlamst | Fn_opSelfBalance | Fn_opBalance | Fn_makeLog nat
  | Fn_opExtcodesize | Fn_opExtcodecopy | Fn_opExtcodehash | Fn_opTload | Fn_opTstore
  | Fn_opSelfdestruct | Fn_opApprove | Fn_opTxParamLoad | Fn_opTxParamSize | Fn_opTxParamCopy
  | Fn_opCall | Fn_opCallCode | Fn_opDelegateCall | Fn_opStaticCall | Fn_opCreate | Fn_opCreate2
  | Fn_opRVCreate

datatype gas_fn =
    PureGas pure_gas_fn
  | Fn_gasSstoreEIP2929 | Fn_gasSelfdestructEIP2929 | Fn_gasCallFrontier | Fn_gasCallCodeFrontier
  | Fn_gasSelfdestructFrontier | Fn_gasSloadEIP2929 | Fn_gasBalanceEIP2929 | Fn_gasExtCodeSizeEIP2929
  | Fn_gasExtCodeCopyEIP2929 | Fn_gasExtCodeHashEIP2929 | Fn_gasCallEIP2929 | Fn_gasCallCodeEIP2929
  | Fn_gasDelegateCallEIP2929 | Fn_gasStaticCallEIP2929
  | Fn_gasSloadGlamst | Fn_gasBalanceGlamst | Fn_gasExtCodeSizeGlamst | Fn_gasExtCodeCopyGlamst
  | Fn_gasExtCodeHashGlamst | Fn_gasSstoreGlamst | Fn_gasCallGlamst | Fn_gasCallCodeGlamst
  | Fn_gasDelegateCallGlamst | Fn_gasStaticCallGlamst | Fn_gasSelfdestructGlamst
  | Fn_gasSloadEIP4762 | Fn_gasSstoreEIP4762 | Fn_gasBalanceEIP4762 | Fn_gasExtCodeSizeEIP4762
  | Fn_gasExtCodeHashEIP4762 | Fn_gasExtCodeCopyEIP4762 | Fn_gasCallEIP4762 | Fn_gasCallCodeEIP4762
  | Fn_gasDelegateCallEIP4762 | Fn_gasStaticCallEIP4762 | Fn_gasSelfdestructEIP4762

record operation =
  op_execute :: exec_fn
  constantGas :: u64
  dynamicGas :: "gas_fn option"
  minStack :: int
  maxStack :: int
  memorySize :: "memory_size_fn option"
  halts :: bool
  jumps :: bool
  writes :: bool

type_synonym jump_table = "byte \<Rightarrow> operation option"

section \<open>The EVM\<close>

text \<open>A precompiled contract is an interface of two methods.\<close>

record precompiled =
  RequiredGas :: "bytes \<Rightarrow> u64"
  RunPrecompiled :: "bytes \<Rightarrow> bytes \<times> vm_error option"

record evm =
  Context :: block_context
  TxContext :: tx_context
  MaxCallDepth :: int
  StateDB :: "statedb option"
  chainID :: u64
  depth :: int
  readOnly :: bool
  jumpTable :: jump_table
  precompiles :: "(address \<Rightarrow> precompiled option) option"
  returnData :: bytes
  callGasTemp :: u64
  callReservoirForward :: u64
  callReservoirReturn :: u64
  dimGasUsage :: "dim_gas option"
  witnessGas :: "witness_tracker option"
  balTracker :: "bal_event list option"
  txIndex :: u64
  forkRules :: fork_rules
  FrameCtx :: "frame_context option"
  guestRegistry :: "(hash, bytes) fmap option"

text \<open>
  What the interpreter takes from elsewhere: the hash and signature functions, and the maps
  of precompiled contracts of the forks, with the methods of their entries.
\<close>

record evm_env =
  Crypto :: crypto_fns
  PrecompiledContractsCancun :: "address \<Rightarrow> precompiled option"
  PrecompiledContractsGlamsterdan :: "address \<Rightarrow> precompiled option"
  PrecompiledContractsIPlus :: "address \<Rightarrow> precompiled option"

abbreviation Keccak256 :: "evm_env \<Rightarrow> bytes \<Rightarrow> bytes" where
  "Keccak256 E \<equiv> keccak (Crypto E)"

definition SetJumpTable :: "jump_table \<Rightarrow> evm \<Rightarrow> evm" where
  "SetJumpTable jt e = e\<lparr>jumpTable := jt\<rparr>"

definition SetPrecompiles :: "(address \<Rightarrow> precompiled option) \<Rightarrow> evm \<Rightarrow> evm" where
  "SetPrecompiles p e = e\<lparr>precompiles := Some p\<rparr>"

definition SetGuestRegistry :: "(hash, bytes) fmap option \<Rightarrow> evm \<Rightarrow> evm" where
  "SetGuestRegistry r e = e\<lparr>guestRegistry := r\<rparr>"

definition SetForkRules :: "fork_rules \<Rightarrow> evm \<Rightarrow> evm" where
  "SetForkRules rules e = e\<lparr>forkRules := rules\<rparr>"

definition SetDimGasUsage :: "dim_gas option \<Rightarrow> evm \<Rightarrow> evm" where
  "SetDimGasUsage u e = e\<lparr>dimGasUsage := u\<rparr>"

definition SetInitialReservoir :: "u64 \<Rightarrow> evm \<Rightarrow> evm" where
  "SetInitialReservoir reservoir e = e\<lparr>callReservoirForward := reservoir\<rparr>"

definition SetWitnessGasTracker :: "witness_tracker option \<Rightarrow> evm \<Rightarrow> evm" where
  "SetWitnessGasTracker t e = e\<lparr>witnessGas := t\<rparr>"

definition SetBALTracker :: "bal_event list option \<Rightarrow> u64 \<Rightarrow> evm \<Rightarrow> evm" where
  "SetBALTracker t txIdx e = e\<lparr>balTracker := t, txIndex := txIdx\<rparr>"

definition precompile :: "evm_env \<Rightarrow> evm \<Rightarrow> address \<Rightarrow> precompiled option" where
  "precompile E e addr =
     (case precompiles e of None \<Rightarrow> PrecompiledContractsCancun E addr | Some m \<Rightarrow> m addr)"

definition SelectPrecompiles :: "evm_env \<Rightarrow> fork_rules \<Rightarrow> address \<Rightarrow> precompiled option" where
  "SelectPrecompiles E rules =
     (if IsIPlus rules then PrecompiledContractsIPlus E
      else if IsGlamsterdan rules then PrecompiledContractsGlamsterdan E
      else PrecompiledContractsCancun E)"

definition runPrecompile :: "precompiled \<Rightarrow> bytes \<Rightarrow> u64 \<Rightarrow> bytes \<times> u64 \<times> vm_error option" where
  "runPrecompile p input gas =
     (let gasCost = RequiredGas p input in
      if gas < gasCost then ([], 0, Some ErrOutOfGas)
      else let (output, err) = RunPrecompiled p input in (output, gas - gasCost, err))"

text \<open>Updates of the state database and of the access tracker.\<close>

definition on_db :: "(statedb \<Rightarrow> statedb) \<Rightarrow> evm \<Rightarrow> evm" where
  "on_db f e = e\<lparr>StateDB := map_option f (StateDB e)\<rparr>"

definition set_db :: "statedb \<Rightarrow> evm \<Rightarrow> evm" where
  "set_db s e = e\<lparr>StateDB := Some s\<rparr>"

text \<open>\<open>if evm.balTracker != nil { ... }\<close>\<close>

definition track :: "bal_event \<Rightarrow> evm \<Rightarrow> evm" where
  "track ev e = e\<lparr>balTracker := map_option (\<lambda>evs. ev # evs) (balTracker e)\<rparr>"

section \<open>Transfer and burn logs\<close>

definition SystemAddress :: address where
  "SystemAddress = 0xfffffffffffffffffffffffffffffffffffffffe"

definition TransferEventTopic :: hash where
  "TransferEventTopic = 0xddf252ad1be2c89b69c2b068fc378daa952ba7f163c4a11628f55a4df523b3ef"

definition BurnEventTopic :: hash where
  "BurnEventTopic = 0xcc16f5dbb4873280815c1ee09dbd06736cffcc184412cf7a71a0fdb75d397ca5"

definition new_log :: "address \<Rightarrow> hash list \<Rightarrow> bytes \<Rightarrow> log" where
  "new_log addr topics data =
     \<lparr>Address = addr, Topics = topics, Data = data, BlockNumber = 0, TxHash = 0, TxIndex = 0,
      BlockHash = 0, BlockTimestamp = 0, Index = 0, Removed = False\<rparr>"

definition addressToTopic :: "address \<Rightarrow> hash" where
  "addressToTopic addr = BytesToHash (replicate 12 0 @ address_bytes addr)"

text \<open>An amount as 32 bytes; a longer one is a slice expression out of range.\<close>

definition pad32 :: "int \<Rightarrow> bytes option" where
  "pad32 v = (let b = big_bytes v in if length b > 32 then None else Some (replicate (32 - length b) 0 @ b))"

definition EmitTransferLog :: "address \<Rightarrow> address \<Rightarrow> int \<Rightarrow> statedb \<Rightarrow> statedb option" where
  "EmitTransferLog src dst amount s =
     (if amount \<le> 0 then Some s
      else
        do { data \<leftarrow> pad32 amount;
             Some (AddLog (new_log SystemAddress [TransferEventTopic, addressToTopic src, addressToTopic dst] data) s) })"

definition EmitBurnLog :: "address \<Rightarrow> int \<Rightarrow> statedb \<Rightarrow> statedb option" where
  "EmitBurnLog addr amount s =
     (if amount \<le> 0 then Some s
      else
        do { data \<leftarrow> pad32 amount;
             Some (AddLog (new_log SystemAddress [BurnEventTopic, addressToTopic addr] data) s) })"

section \<open>Conversions\<close>

definition bigToHash :: "int \<Rightarrow> hash" where
  "bigToHash b = BytesToHash (big_bytes b)"

definition bigToAddress :: "int \<Rightarrow> address" where
  "bigToAddress b = BytesToAddress (big_bytes b)"

end
