(* ===== verification/Evm_Dynamic.thy ===== *)
theory Evm_Dynamic
  imports Evm_State
begin

text \<open>
  The dynamic gas functions of \<^verbatim>\<open>gas_table.go\<close>, \<^verbatim>\<open>jump_table.go\<close>, \<^verbatim>\<open>eip4762_gas.go\<close> and
  \<^verbatim>\<open>opcode_rvcreate.go\<close>.  They return the cost and may warm addresses and slots, draw on the
  state-creation reservoir of the contract and set \<open>callGasTemp\<close>.  \<open>None\<close> is a panic: a stack
  that is too short or an access list that breaks its invariant.  Their error result is always nil.
\<close>

section \<open>Costs of the stack and the memory\<close>

text \<open>The cost of the words of the stack entry \<open>i\<close> plus that of the memory.\<close>

definition word_cost :: "(u64 \<Rightarrow> u64) \<Rightarrow> nat \<Rightarrow> pure_gas_fn" where
  "word_cost per_word i st m memSize =
     do { v \<leftarrow> stack_Back i st;
          Some (safeAdd (per_word (toWordSize (Uint64 v))) (gasMemExpansion m memSize)) }"

definition gasSha3 :: pure_gas_fn where
  "gasSha3 = word_cost (\<lambda>words. safeMul words GasKeccak256Word) 1"

definition gasExp :: pure_gas_fn where
  "gasExp st m memSize =
     do { exp \<leftarrow> stack_Back 1 st;
          Some (if exp = 0 then 0 else 50 * of_nat ((BitLen exp + 7) div 8)) }"

definition gasCopy :: pure_gas_fn where
  "gasCopy = word_cost (\<lambda>words. safeMul GasCopy words) 2"

definition gasExtCodeCopyCopy :: pure_gas_fn where
  "gasExtCodeCopyCopy = word_cost (\<lambda>words. safeMul GasCopy words) 3"

definition makeGasLog :: "u64 \<Rightarrow> pure_gas_fn" where
  "makeGasLog n st m memSize =
     do { dataSize \<leftarrow> stack_Back 1 st;
          Some (safeAdd (safeAdd (safeMul n GasLogTopic) (safeMul (Uint64 dataSize) GasLogData))
                  (gasMemExpansion m memSize)) }"

definition gasCreateDynamic :: pure_gas_fn where
  "gasCreateDynamic = word_cost (\<lambda>words. safeMul InitCodeWordGas words) 2"

definition gasCreate2Dynamic :: pure_gas_fn where
  "gasCreate2Dynamic = word_cost (\<lambda>words. safeMul (InitCodeWordGas + GasKeccak256Word) words) 2"

definition gasMcopy :: pure_gas_fn where
  "gasMcopy st m memSize =
     do { v \<leftarrow> stack_Back 2 st;
          Some (safeAdd (safeMul GasCopy ((Uint64 v + 31) div 32)) (gasMemExpansion m memSize)) }"

definition gasMemOnly :: pure_gas_fn where
  "gasMemOnly st m memSize = Some (gasMemExpansion m memSize)"

definition gasRVCreate :: pure_gas_fn where
  "gasRVCreate st m memSize = (if length st < 3 then Some 0 else Some (200 * Uint64 (st ! 2)))"

section \<open>Warm and cold access\<close>

definition account_check :: "u64 \<Rightarrow> address \<Rightarrow> evm \<Rightarrow> u64 \<times> evm" where
  "account_check cold addr e =
     (case StateDB e of
        None \<Rightarrow> (0, e)
      | Some s \<Rightarrow>
          if AddressInAccessList addr s then (0, e)
          else (cold, set_db (AddAddressToAccessList addr s) e))"

text \<open>The slot check returns \<open>cold\<close> and warms the slot when it is cold.\<close>

definition slot_check :: "u64 \<Rightarrow> address \<Rightarrow> hash \<Rightarrow> evm \<Rightarrow> (u64 \<times> evm) option" where
  "slot_check cold addr slot e =
     (case StateDB e of
        None \<Rightarrow> Some (0, e)
      | Some s \<Rightarrow>
          do { (_, slotWarm) \<leftarrow> SlotInAccessList addr slot s;
               if slotWarm then Some (0, e)
               else do { s \<leftarrow> AddSlotToAccessList addr slot s; Some (cold, set_db s e) } })"

definition gasEIP2929AccountCheck :: "evm \<Rightarrow> address \<Rightarrow> u64 \<times> evm" where
  "gasEIP2929AccountCheck e addr = account_check (ColdAccountAccessCost - WarmStorageReadCost) addr e"

definition gasEIP2929SlotCheck :: "evm \<Rightarrow> address \<Rightarrow> hash \<Rightarrow> (u64 \<times> evm) option" where
  "gasEIP2929SlotCheck e addr slot = slot_check (ColdSloadCost - WarmStorageReadCost) addr slot e"

definition gasEIP8038AccountCheck :: "evm \<Rightarrow> address \<Rightarrow> u64 \<times> evm" where
  "gasEIP8038AccountCheck e addr = account_check (ColdAccountAccessGlamst - WarmStorageReadGlamst) addr e"

definition gasEIP8038SlotCheck :: "evm \<Rightarrow> address \<Rightarrow> hash \<Rightarrow> (u64 \<times> evm) option" where
  "gasEIP8038SlotCheck e addr slot = slot_check (ColdSloadGlamst - WarmStorageReadGlamst) addr slot e"

section \<open>Witness access\<close>

definition access_event :: "address \<Rightarrow> u64 \<Rightarrow> byte \<Rightarrow> evm \<Rightarrow> u64 \<times> evm" where
  "access_event addr treeKey subKey e =
     (case witnessGas e of
        None \<Rightarrow> (0, e)
      | Some t \<Rightarrow> let (gas, t) = TouchAccessEvent addr treeKey subKey t in (gas, e\<lparr>witnessGas := Some t\<rparr>))"

definition write_event :: "address \<Rightarrow> u64 \<Rightarrow> byte \<Rightarrow> bool \<Rightarrow> evm \<Rightarrow> u64 \<times> evm" where
  "write_event addr treeKey subKey fill e =
     (case witnessGas e of
        None \<Rightarrow> (0, e)
      | Some t \<Rightarrow> let (gas, t) = TouchWriteEvent addr treeKey subKey fill t in (gas, e\<lparr>witnessGas := Some t\<rparr>))"

definition gasAccountAccessEIP4762 :: "evm \<Rightarrow> address \<Rightarrow> u64 \<times> evm" where
  "gasAccountAccessEIP4762 e addr = access_event addr 0 BasicDataLeafKey e"

definition gasAccountWriteEIP4762 :: "evm \<Rightarrow> address \<Rightarrow> bool \<Rightarrow> u64 \<times> evm" where
  "gasAccountWriteEIP4762 e addr fill =
     (let (gas, e) = access_event addr 0 BasicDataLeafKey e;
          (gas', e) = write_event addr 0 BasicDataLeafKey fill e in
      (safeAdd gas gas', e))"

definition gasCodeHashAccessEIP4762 :: "evm \<Rightarrow> address \<Rightarrow> u64 \<times> evm" where
  "gasCodeHashAccessEIP4762 e addr = access_event addr 0 CodeHashLeafKey e"

text \<open>The loop over the code chunks, from \<open>chunk\<close> on for \<open>n\<close> rounds.\<close>

fun chunks_access :: "nat \<Rightarrow> address \<Rightarrow> u64 \<Rightarrow> u64 \<Rightarrow> evm \<Rightarrow> u64 \<times> evm" where
  "chunks_access 0 addr chunk gas e = (gas, e)"
| "chunks_access (Suc n) addr chunk gas e =
     (let (treeKey, subKey) = GetCodeChunkTreeKeys chunk; (g, e) = access_event addr treeKey subKey e in
      chunks_access n addr (chunk + 1) (safeAdd gas g) e)"

definition gasCodeChunksAccess :: "evm \<Rightarrow> address \<Rightarrow> u64 \<Rightarrow> u64 \<Rightarrow> u64 \<Rightarrow> u64 \<times> evm" where
  "gasCodeChunksAccess e addr codeOffset readSize codeSize =
     (if witnessGas e = None \<or> readSize = 0 \<or> codeSize = 0 then (0, e)
      else
        let endByte = codeOffset + readSize; endByte = (if endByte > codeSize then codeSize else endByte) in
        if codeOffset \<ge> codeSize then (0, e)
        else
          let firstChunk = codeOffset div CodeChunkSize; lastChunk = (endByte - 1) div CodeChunkSize in
          chunks_access (Suc (unat lastChunk) - unat firstChunk) addr firstChunk 0 e)"

section \<open>Storage\<close>

text \<open>The cold penalty of \<open>SSTORE\<close>, then the cost of the write.\<close>

definition gasSstoreEIP2929 :: "evm \<Rightarrow> contract \<Rightarrow> int list \<Rightarrow> (u64 \<times> evm) option" where
  "gasSstoreEIP2929 e c st =
     do { loc \<leftarrow> stack_Back 0 st;
          (coldGas, e) \<leftarrow> slot_check ColdSloadCost (C_Address c) (bigToHash loc) e;
          (case StateDB e of
             None \<Rightarrow> Some (WarmStorageReadCost + coldGas, e)
           | Some s \<Rightarrow>
               do { val \<leftarrow> stack_Back 1 st;
                    let key = bigToHash loc;
                        current = GetState (C_Address c) key s;
                        original = GetCommittedState (C_Address c) key s;
                        (gas, _) = SstoreGas original current (bigToHash val) False in
                    Some (gas + coldGas, e) }) }"

definition gasSstoreGlamst :: "evm \<Rightarrow> contract \<Rightarrow> int list \<Rightarrow> (u64 \<times> contract \<times> evm) option" where
  "gasSstoreGlamst e c st =
     do { loc \<leftarrow> stack_Back 0 st;
          (coldGas, e) \<leftarrow> slot_check ColdSloadGlamst (C_Address c) (bigToHash loc) e;
          (case StateDB e of
             None \<Rightarrow> Some (WarmStorageReadGlamst + coldGas, c, e)
           | Some s \<Rightarrow>
               do { v \<leftarrow> stack_Back 1 st;
                    let key = bigToHash loc;
                        current = GetState (C_Address c) key s;
                        original = GetCommittedState (C_Address c) key s;
                        val = bigToHash v in
                    if current = val then Some (WarmStorageReadGlamst + coldGas, c, e)
                    else if original = current then
                      (if isZero original then
                         let e = e\<lparr>dimGasUsage := AccountSSTOREGas True coldGas (dimGasUsage e)\<rparr>;
                             ((execGas, _), r) = ReservoirGasCost original current val (coldGas > 0) (StateGasReservoir c) in
                         Some (execGas, c\<lparr>StateGasReservoir := r\<rparr>, e)
                       else
                         Some (GasSstoreReset + coldGas, c,
                           e\<lparr>dimGasUsage := AccountSSTOREGas False coldGas (dimGasUsage e)\<rparr>))
                    else
                      Some (WarmStorageReadGlamst + coldGas, c,
                        e\<lparr>dimGasUsage := AccountSSTOREGas False coldGas (dimGasUsage e)\<rparr>) }) }"

definition gasSstoreEIP4762 :: "evm \<Rightarrow> contract \<Rightarrow> int list \<Rightarrow> (u64 \<times> evm) option" where
  "gasSstoreEIP4762 e c st =
     (if witnessGas e = None then Some (WarmStorageReadCost, e)
      else
        do { loc \<leftarrow> stack_Back 0 st;
             let (treeKey, subKey) = GetStorageSlotTreeKeys (Uint64 loc);
                 (g, e) = access_event (C_Address c) treeKey subKey e;
                 gas = safeAdd WarmStorageReadCost g;
                 fill = (case StateDB e of None \<Rightarrow> False
                         | Some s \<Rightarrow> hash_IsZero (GetCommittedState (C_Address c) (bigToHash loc) s));
                 (g, e) = write_event (C_Address c) treeKey subKey fill e in
             Some (safeAdd gas g, e) })"

definition gasSloadEIP4762 :: "evm \<Rightarrow> contract \<Rightarrow> int list \<Rightarrow> (u64 \<times> evm) option" where
  "gasSloadEIP4762 e c st =
     (if witnessGas e = None then Some (0, e)
      else
        do { loc \<leftarrow> stack_Back 0 st;
             let (treeKey, subKey) = GetStorageSlotTreeKeys (Uint64 loc) in
             Some (access_event (C_Address c) treeKey subKey e) })"

text \<open>\<open>SLOAD\<close> with warm and cold slots.\<close>

definition gasSloadEIP2929 :: "evm \<Rightarrow> contract \<Rightarrow> int list \<Rightarrow> (u64 \<times> evm) option" where
  "gasSloadEIP2929 e c st =
     do { loc \<leftarrow> stack_Back 0 st; gasEIP2929SlotCheck e (C_Address c) (bigToHash loc) }"

definition gasSloadGlamst :: "evm \<Rightarrow> contract \<Rightarrow> int list \<Rightarrow> (u64 \<times> evm) option" where
  "gasSloadGlamst e c st =
     do { loc \<leftarrow> stack_Back 0 st; gasEIP8038SlotCheck e (C_Address c) (bigToHash loc) }"

section \<open>Accounts and code\<close>

text \<open>
  The functions of the three fork families (EIP-2929, Glamsterdam, EIP-4762) differ in the
  \<open>check\<close> of the account and in constants.
\<close>

definition account_gas :: "(evm \<Rightarrow> address \<Rightarrow> u64 \<times> evm) \<Rightarrow> evm \<Rightarrow> int list \<Rightarrow> (u64 \<times> evm) option" where
  "account_gas check e st = do { v \<leftarrow> stack_Back 0 st; Some (check e (bigToAddress v)) }"

definition gasBalanceEIP2929 :: "evm \<Rightarrow> int list \<Rightarrow> (u64 \<times> evm) option" where
  "gasBalanceEIP2929 = account_gas gasEIP2929AccountCheck"

definition gasExtCodeSizeEIP2929 :: "evm \<Rightarrow> int list \<Rightarrow> (u64 \<times> evm) option" where
  "gasExtCodeSizeEIP2929 = account_gas gasEIP2929AccountCheck"

definition gasExtCodeHashEIP2929 :: "evm \<Rightarrow> int list \<Rightarrow> (u64 \<times> evm) option" where
  "gasExtCodeHashEIP2929 = account_gas gasEIP2929AccountCheck"

definition gasBalanceGlamst :: "evm \<Rightarrow> int list \<Rightarrow> (u64 \<times> evm) option" where
  "gasBalanceGlamst = account_gas gasEIP8038AccountCheck"

definition gasExtCodeSizeGlamst :: "evm \<Rightarrow> int list \<Rightarrow> (u64 \<times> evm) option" where
  "gasExtCodeSizeGlamst e st =
     do { (gas, e) \<leftarrow> account_gas gasEIP8038AccountCheck e st; Some (safeAdd gas WarmStorageReadGlamst, e) }"

definition gasExtCodeHashGlamst :: "evm \<Rightarrow> int list \<Rightarrow> (u64 \<times> evm) option" where
  "gasExtCodeHashGlamst = account_gas gasEIP8038AccountCheck"

definition gasBalanceEIP4762 :: "evm \<Rightarrow> int list \<Rightarrow> (u64 \<times> evm) option" where
  "gasBalanceEIP4762 = account_gas gasAccountAccessEIP4762"

definition gasExtCodeSizeEIP4762 :: "evm \<Rightarrow> int list \<Rightarrow> (u64 \<times> evm) option" where
  "gasExtCodeSizeEIP4762 = account_gas gasAccountAccessEIP4762"

definition gasExtCodeHashEIP4762 :: "evm \<Rightarrow> int list \<Rightarrow> (u64 \<times> evm) option" where
  "gasExtCodeHashEIP4762 = account_gas gasCodeHashAccessEIP4762"

definition gasExtCodeCopyEIP2929 :: "evm \<Rightarrow> int list \<Rightarrow> evm_memory \<Rightarrow> u64 \<Rightarrow> (u64 \<times> evm) option" where
  "gasExtCodeCopyEIP2929 e st m memSize =
     do { (gas, e) \<leftarrow> account_gas gasEIP2929AccountCheck e st;
          v \<leftarrow> stack_Back 3 st;
          Some (safeAdd (safeAdd gas (safeMul GasCopy (toWordSize (Uint64 v)))) (gasMemExpansion m memSize), e) }"

definition gasExtCodeCopyGlamst :: "evm \<Rightarrow> int list \<Rightarrow> evm_memory \<Rightarrow> u64 \<Rightarrow> (u64 \<times> evm) option" where
  "gasExtCodeCopyGlamst e st m memSize =
     do { (gas, e) \<leftarrow> account_gas gasEIP8038AccountCheck e st;
          v \<leftarrow> stack_Back 3 st;
          let gas = safeAdd gas WarmStorageReadGlamst in
          Some (safeAdd (safeAdd gas (safeMul GasCopy (toWordSize (Uint64 v)))) (gasMemExpansion m memSize), e) }"

definition gasExtCodeCopyEIP4762 :: "evm \<Rightarrow> int list \<Rightarrow> evm_memory \<Rightarrow> u64 \<Rightarrow> (u64 \<times> evm) option" where
  "gasExtCodeCopyEIP4762 e st m memSize =
     do { a \<leftarrow> stack_Back 0 st;
          let (gas, e) = gasAccountAccessEIP4762 e (bigToAddress a) in
          do { v \<leftarrow> stack_Back 3 st;
               let sz = Uint64 v;
                   gas = safeAdd (safeAdd gas (safeMul GasCopy (toWordSize sz))) (gasMemExpansion m memSize) in
               if witnessGas e \<noteq> None \<and> sz > 0 then
                 do { off \<leftarrow> stack_Back 2 st;
                      let codeSize = (case StateDB e of None \<Rightarrow> 0
                                      | Some s \<Rightarrow> of_nat (GetCodeSize (bigToAddress a) s)) in
                      if codeSize > 0 then
                        let (g, e) = gasCodeChunksAccess e (bigToAddress a) (Uint64 off) sz codeSize in
                        Some (safeAdd gas g, e)
                      else Some (gas, e) }
               else Some (gas, e) } }"

section \<open>Calls\<close>

text \<open>The end that all call functions share: memory, then the gas passed on by the 63/64 rule.\<close>

definition call_gas_end ::
    "u64 \<Rightarrow> evm \<Rightarrow> contract \<Rightarrow> int list \<Rightarrow> evm_memory \<Rightarrow> u64 \<Rightarrow> (u64 \<times> evm) option" where
  "call_gas_end gas e c st m memSize =
     (let gas = safeAdd gas (gasMemExpansion m memSize) in
      do { requested \<leftarrow> stack_Back 0 st;
           let temp = callGasEIP150 (Gas c) gas (Uint64 requested) in
           Some (safeAdd gas temp, e\<lparr>callGasTemp := temp\<rparr>) })"

definition account_exists :: "evm \<Rightarrow> address \<Rightarrow> bool" where
  "account_exists e addr = (case StateDB e of None \<Rightarrow> True | Some s \<Rightarrow> Exist addr s)"

text \<open>
  \<open>transfer\<close> is the charge for a value, \<open>fresh\<close> the one for a value sent to an account that does not
  exist; \<open>CALLCODE\<close> has no such charge and passes zero, which saturating addition ignores.
\<close>

definition value_gas :: "u64 \<Rightarrow> u64 \<Rightarrow> address \<Rightarrow> int \<Rightarrow> u64 \<Rightarrow> evm \<Rightarrow> u64" where
  "value_gas transfer fresh addr v gas e =
     (if v \<noteq> 0 then
        let gas = safeAdd gas transfer in
        if \<not> account_exists e addr then safeAdd gas fresh else gas
      else gas)"

definition call_gas ::
    "(evm \<Rightarrow> address \<Rightarrow> u64 \<times> evm) \<Rightarrow> u64 \<Rightarrow> u64 \<Rightarrow> evm \<Rightarrow> contract \<Rightarrow> int list \<Rightarrow> evm_memory \<Rightarrow> u64 \<Rightarrow> (u64 \<times> evm) option" where
  "call_gas check transfer fresh e c st m memSize =
     do { a \<leftarrow> stack_Back 1 st;
          let (gas, e) = check e (bigToAddress a) in
          do { v \<leftarrow> stack_Back 2 st;
               call_gas_end (value_gas transfer fresh (bigToAddress a) v gas e) e c st m memSize } }"

definition plain_call_gas ::
    "(evm \<Rightarrow> address \<Rightarrow> u64 \<times> evm) \<Rightarrow> evm \<Rightarrow> contract \<Rightarrow> int list \<Rightarrow> evm_memory \<Rightarrow> u64 \<Rightarrow> (u64 \<times> evm) option" where
  "plain_call_gas check e c st m memSize =
     do { a \<leftarrow> stack_Back 1 st;
          let (gas, e) = check e (bigToAddress a) in
          call_gas_end gas e c st m memSize }"

definition gasCallFrontier :: "evm \<Rightarrow> contract \<Rightarrow> int list \<Rightarrow> evm_memory \<Rightarrow> u64 \<Rightarrow> (u64 \<times> evm) option" where
  "gasCallFrontier = call_gas (\<lambda>e addr. (0, e)) CallValueTransferGas CallNewAccountGas"

definition gasCallCodeFrontier :: "evm \<Rightarrow> contract \<Rightarrow> int list \<Rightarrow> evm_memory \<Rightarrow> u64 \<Rightarrow> (u64 \<times> evm) option" where
  "gasCallCodeFrontier = call_gas (\<lambda>e addr. (0, e)) CallValueTransferGas 0"

definition gasCallEIP2929 :: "evm \<Rightarrow> contract \<Rightarrow> int list \<Rightarrow> evm_memory \<Rightarrow> u64 \<Rightarrow> (u64 \<times> evm) option" where
  "gasCallEIP2929 = call_gas gasEIP2929AccountCheck CallValueTransferGas CallNewAccountGas"

definition gasCallCodeEIP2929 :: "evm \<Rightarrow> contract \<Rightarrow> int list \<Rightarrow> evm_memory \<Rightarrow> u64 \<Rightarrow> (u64 \<times> evm) option" where
  "gasCallCodeEIP2929 = call_gas gasEIP2929AccountCheck CallValueTransferGas 0"

definition gasDelegateCallEIP2929 :: "evm \<Rightarrow> contract \<Rightarrow> int list \<Rightarrow> evm_memory \<Rightarrow> u64 \<Rightarrow> (u64 \<times> evm) option" where
  "gasDelegateCallEIP2929 = plain_call_gas gasEIP2929AccountCheck"

definition gasStaticCallEIP2929 :: "evm \<Rightarrow> contract \<Rightarrow> int list \<Rightarrow> evm_memory \<Rightarrow> u64 \<Rightarrow> (u64 \<times> evm) option" where
  "gasStaticCallEIP2929 = plain_call_gas gasEIP2929AccountCheck"

definition gasCallGlamst :: "evm \<Rightarrow> contract \<Rightarrow> int list \<Rightarrow> evm_memory \<Rightarrow> u64 \<Rightarrow> (u64 \<times> evm) option" where
  "gasCallGlamst = call_gas gasEIP8038AccountCheck CallValueTransferGlamst CallNewAccountGlamst"

definition gasCallCodeGlamst :: "evm \<Rightarrow> contract \<Rightarrow> int list \<Rightarrow> evm_memory \<Rightarrow> u64 \<Rightarrow> (u64 \<times> evm) option" where
  "gasCallCodeGlamst = call_gas gasEIP8038AccountCheck CallValueTransferGlamst 0"

definition gasDelegateCallGlamst :: "evm \<Rightarrow> contract \<Rightarrow> int list \<Rightarrow> evm_memory \<Rightarrow> u64 \<Rightarrow> (u64 \<times> evm) option" where
  "gasDelegateCallGlamst = plain_call_gas gasEIP8038AccountCheck"

definition gasStaticCallGlamst :: "evm \<Rightarrow> contract \<Rightarrow> int list \<Rightarrow> evm_memory \<Rightarrow> u64 \<Rightarrow> (u64 \<times> evm) option" where
  "gasStaticCallGlamst = plain_call_gas gasEIP8038AccountCheck"

definition gasCallEIP4762 :: "evm \<Rightarrow> contract \<Rightarrow> int list \<Rightarrow> evm_memory \<Rightarrow> u64 \<Rightarrow> (u64 \<times> evm) option" where
  "gasCallEIP4762 e c st m memSize =
     do { a \<leftarrow> stack_Back 1 st;
          let addr = bigToAddress a; (gas, e) = gasAccountAccessEIP4762 e addr in
          do { v \<leftarrow> stack_Back 2 st;
               let (gas, e) =
                     (if v \<noteq> 0 then
                        let calleeFill = \<not> account_exists e addr;
                            (g, e) = gasAccountWriteEIP4762 e (CallerAddress c) False; gas = safeAdd gas g;
                            (g, e) = gasAccountWriteEIP4762 e addr calleeFill; gas = safeAdd gas g in
                        if calleeFill then
                          let (g, e) = access_event addr 0 CodeHashLeafKey e; gas = safeAdd gas g;
                              (g, e) = write_event addr 0 CodeHashLeafKey True e in
                          (safeAdd gas g, e)
                        else (gas, e)
                      else (gas, e)) in
               call_gas_end gas e c st m memSize } }"

definition gasCallCodeEIP4762 :: "evm \<Rightarrow> contract \<Rightarrow> int list \<Rightarrow> evm_memory \<Rightarrow> u64 \<Rightarrow> (u64 \<times> evm) option" where
  "gasCallCodeEIP4762 = plain_call_gas gasAccountAccessEIP4762"

definition gasDelegateCallEIP4762 :: "evm \<Rightarrow> contract \<Rightarrow> int list \<Rightarrow> evm_memory \<Rightarrow> u64 \<Rightarrow> (u64 \<times> evm) option" where
  "gasDelegateCallEIP4762 = plain_call_gas gasAccountAccessEIP4762"

definition gasStaticCallEIP4762 :: "evm \<Rightarrow> contract \<Rightarrow> int list \<Rightarrow> evm_memory \<Rightarrow> u64 \<Rightarrow> (u64 \<times> evm) option" where
  "gasStaticCallEIP4762 = plain_call_gas gasAccountAccessEIP4762"

section \<open>Self-destruct\<close>

definition selfdestruct_fresh :: "evm \<Rightarrow> contract \<Rightarrow> address \<Rightarrow> bool" where
  "selfdestruct_fresh e c addr =
     (case StateDB e of None \<Rightarrow> False | Some s \<Rightarrow> \<not> Exist addr s \<and> GetBalance (C_Address c) s \<noteq> 0)"

definition gasSelfdestructFrontier :: "evm \<Rightarrow> contract \<Rightarrow> int list \<Rightarrow> (u64 \<times> evm) option" where
  "gasSelfdestructFrontier e c st =
     do { a \<leftarrow> stack_Back 0 st;
          Some (if selfdestruct_fresh e c (bigToAddress a) then CreateBySelfdestructGas else 0, e) }"

definition selfdestruct_gas ::
    "(evm \<Rightarrow> address \<Rightarrow> u64 \<times> evm) \<Rightarrow> evm \<Rightarrow> contract \<Rightarrow> int list \<Rightarrow> (u64 \<times> evm) option" where
  "selfdestruct_gas check e c st =
     do { a \<leftarrow> stack_Back 0 st;
          let addr = bigToAddress a; (g, e) = check e addr; gas = safeAdd 0 g in
          Some (if selfdestruct_fresh e c addr then safeAdd gas CreateBySelfdestructGas else gas, e) }"

definition gasSelfdestructEIP2929 :: "evm \<Rightarrow> contract \<Rightarrow> int list \<Rightarrow> (u64 \<times> evm) option" where
  "gasSelfdestructEIP2929 = selfdestruct_gas gasEIP2929AccountCheck"

definition gasSelfdestructGlamst :: "evm \<Rightarrow> contract \<Rightarrow> int list \<Rightarrow> (u64 \<times> evm) option" where
  "gasSelfdestructGlamst = selfdestruct_gas gasEIP8038AccountCheck"

definition gasSelfdestructEIP4762 :: "evm \<Rightarrow> contract \<Rightarrow> int list \<Rightarrow> (u64 \<times> evm) option" where
  "gasSelfdestructEIP4762 e c st =
     do { a \<leftarrow> stack_Back 0 st;
          let addr = bigToAddress a; (gas, e) = gasAccountAccessEIP4762 e addr in
          (case StateDB e of
             None \<Rightarrow> Some (gas, e)
           | Some s \<Rightarrow>
               if GetBalance (C_Address c) s \<noteq> 0 then
                 let calleeFill = \<not> Exist addr s;
                     (g, e) = gasAccountWriteEIP4762 e (C_Address c) False; gas = safeAdd gas g;
                     (g, e) = gasAccountWriteEIP4762 e addr calleeFill in
                 Some (safeAdd gas g, e)
               else Some (gas, e)) }"

section \<open>Dispatch\<close>

definition keep :: "contract \<Rightarrow> (u64 \<times> evm) option \<Rightarrow> (u64 \<times> contract \<times> evm) option" where
  "keep c r = map_option (\<lambda>(gas, e). (gas, c, e)) r"

fun dynamic_gas ::
    "gas_fn \<Rightarrow> evm \<Rightarrow> contract \<Rightarrow> int list \<Rightarrow> evm_memory \<Rightarrow> u64 \<Rightarrow> (u64 \<times> contract \<times> evm) option" where
  "dynamic_gas (PureGas g) e c st m n = map_option (\<lambda>gas. (gas, c, e)) (g st m n)"
| "dynamic_gas Fn_gasSstoreEIP2929 e c st m n = keep c (gasSstoreEIP2929 e c st)"
| "dynamic_gas Fn_gasSelfdestructEIP2929 e c st m n = keep c (gasSelfdestructEIP2929 e c st)"
| "dynamic_gas Fn_gasCallFrontier e c st m n = keep c (gasCallFrontier e c st m n)"
| "dynamic_gas Fn_gasCallCodeFrontier e c st m n = keep c (gasCallCodeFrontier e c st m n)"
| "dynamic_gas Fn_gasSelfdestructFrontier e c st m n = keep c (gasSelfdestructFrontier e c st)"
| "dynamic_gas Fn_gasSloadEIP2929 e c st m n = keep c (gasSloadEIP2929 e c st)"
| "dynamic_gas Fn_gasBalanceEIP2929 e c st m n = keep c (gasBalanceEIP2929 e st)"
| "dynamic_gas Fn_gasExtCodeSizeEIP2929 e c st m n = keep c (gasExtCodeSizeEIP2929 e st)"
| "dynamic_gas Fn_gasExtCodeCopyEIP2929 e c st m n = keep c (gasExtCodeCopyEIP2929 e st m n)"
| "dynamic_gas Fn_gasExtCodeHashEIP2929 e c st m n = keep c (gasExtCodeHashEIP2929 e st)"
| "dynamic_gas Fn_gasCallEIP2929 e c st m n = keep c (gasCallEIP2929 e c st m n)"
| "dynamic_gas Fn_gasCallCodeEIP2929 e c st m n = keep c (gasCallCodeEIP2929 e c st m n)"
| "dynamic_gas Fn_gasDelegateCallEIP2929 e c st m n = keep c (gasDelegateCallEIP2929 e c st m n)"
| "dynamic_gas Fn_gasStaticCallEIP2929 e c st m n = keep c (gasStaticCallEIP2929 e c st m n)"
| "dynamic_gas Fn_gasSloadGlamst e c st m n = keep c (gasSloadGlamst e c st)"
| "dynamic_gas Fn_gasBalanceGlamst e c st m n = keep c (gasBalanceGlamst e st)"
| "dynamic_gas Fn_gasExtCodeSizeGlamst e c st m n = keep c (gasExtCodeSizeGlamst e st)"
| "dynamic_gas Fn_gasExtCodeCopyGlamst e c st m n = keep c (gasExtCodeCopyGlamst e st m n)"
| "dynamic_gas Fn_gasExtCodeHashGlamst e c st m n = keep c (gasExtCodeHashGlamst e st)"
| "dynamic_gas Fn_gasSstoreGlamst e c st m n = gasSstoreGlamst e c st"
| "dynamic_gas Fn_gasCallGlamst e c st m n = keep c (gasCallGlamst e c st m n)"
| "dynamic_gas Fn_gasCallCodeGlamst e c st m n = keep c (gasCallCodeGlamst e c st m n)"
| "dynamic_gas Fn_gasDelegateCallGlamst e c st m n = keep c (gasDelegateCallGlamst e c st m n)"
| "dynamic_gas Fn_gasStaticCallGlamst e c st m n = keep c (gasStaticCallGlamst e c st m n)"
| "dynamic_gas Fn_gasSelfdestructGlamst e c st m n = keep c (gasSelfdestructGlamst e c st)"
| "dynamic_gas Fn_gasSloadEIP4762 e c st m n = keep c (gasSloadEIP4762 e c st)"
| "dynamic_gas Fn_gasSstoreEIP4762 e c st m n = keep c (gasSstoreEIP4762 e c st)"
| "dynamic_gas Fn_gasBalanceEIP4762 e c st m n = keep c (gasBalanceEIP4762 e st)"
| "dynamic_gas Fn_gasExtCodeSizeEIP4762 e c st m n = keep c (gasExtCodeSizeEIP4762 e st)"
| "dynamic_gas Fn_gasExtCodeHashEIP4762 e c st m n = keep c (gasExtCodeHashEIP4762 e st)"
| "dynamic_gas Fn_gasExtCodeCopyEIP4762 e c st m n = keep c (gasExtCodeCopyEIP4762 e st m n)"
| "dynamic_gas Fn_gasCallEIP4762 e c st m n = keep c (gasCallEIP4762 e c st m n)"
| "dynamic_gas Fn_gasCallCodeEIP4762 e c st m n = keep c (gasCallCodeEIP4762 e c st m n)"
| "dynamic_gas Fn_gasDelegateCallEIP4762 e c st m n = keep c (gasDelegateCallEIP4762 e c st m n)"
| "dynamic_gas Fn_gasStaticCallEIP4762 e c st m n = keep c (gasStaticCallEIP4762 e c st m n)"
| "dynamic_gas Fn_gasSelfdestructEIP4762 e c st m n = keep c (gasSelfdestructEIP4762 e c st)"

end
