(* ===== verification/Evm_Ops.thy ===== *)
theory Evm_Ops
  imports Evm_Dynamic
begin

text \<open>
  The instructions of \<^verbatim>\<open>instructions.go\<close> and \<^verbatim>\<open>eip8141_opcodes.go\<close> that start no other call:
  first those that work on the call frame alone, then those that read or change the EVM.
  Each returns the return data, an error or none, and the new frame (and EVM); \<open>None\<close> is a panic.
\<close>

section \<open>Instructions on the frame\<close>

definition next_frame :: "frame \<Rightarrow> ((bytes \<times> vm_error option) \<times> frame) option" where
  "next_frame f = Some (([], None), f)"

definition fail_frame :: "vm_error \<Rightarrow> frame \<Rightarrow> ((bytes \<times> vm_error option) \<times> frame) option" where
  "fail_frame err f = Some (([], Some err), f)"

definition push :: "int \<Rightarrow> frame \<Rightarrow> frame" where
  "push v f = f\<lparr>stack := stack_Push v (stack f)\<rparr>"

text \<open>
  \<open>data := make([]byte, l)\<close> with \<open>copy(data, src[off:])\<close> when the offset is inside.
\<close>

definition padded_slice :: "bytes \<Rightarrow> u64 \<Rightarrow> nat \<Rightarrow> bytes" where
  "padded_slice src off l =
     (let d = (if off < u64_len src then take l (drop (unat off) src) else []) in
      d @ replicate (l - length d) 0)"

text \<open>\<open>memory.Get(int64(offset.Uint64()), int64(size.Uint64()))\<close>\<close>

definition mem_at :: "int \<Rightarrow> int \<Rightarrow> frame \<Rightarrow> bytes option" where
  "mem_at offset sz f = mem_Get (sint (Uint64 offset)) (sint (Uint64 sz)) (mem f)"

definition set_mem :: "u64 \<Rightarrow> u64 \<Rightarrow> bytes \<Rightarrow> frame \<Rightarrow> frame option" where
  "set_mem off l data f = map_option (\<lambda>m. f\<lparr>mem := m\<rparr>) (mem_Set off l data (mem f))"

definition opCalldataLoad :: frame_fn where
  "opCalldataLoad f =
     (case stack f of
        x # st \<Rightarrow> next_frame (f\<lparr>stack := big_set_bytes (padded_slice (Input (the_contract f)) (Uint64 x) 32) # st\<rparr>)
      | _ \<Rightarrow> None)"

definition opCalldataSize :: frame_fn where
  "opCalldataSize f = next_frame (push (uint (u64_len (Input (the_contract f)))) f)"

text \<open>The copy instructions: three operands, the bytes to copy from given.\<close>

definition copy_op :: "bytes \<Rightarrow> frame_fn" where
  "copy_op src f =
     (case stack f of
        memOffset # dataOffset # len # st \<Rightarrow>
          let f = f\<lparr>stack := st\<rparr>; l = Uint64 len in
          if l = 0 then next_frame f
          else
            Option.bind (set_mem (Uint64 memOffset) l (padded_slice src (Uint64 dataOffset) (unat l)) f) next_frame
      | _ \<Rightarrow> None)"

definition opCalldataCopy :: frame_fn where
  "opCalldataCopy f = copy_op (Input (the_contract f)) f"

definition opCodeSize :: frame_fn where
  "opCodeSize f = next_frame (push (uint (u64_len (Code (the_contract f)))) f)"

definition opCodeCopy :: frame_fn where
  "opCodeCopy f = copy_op (Code (the_contract f)) f"

definition opAddress :: frame_fn where
  "opAddress f = next_frame (push (uint (C_Address (the_contract f))) f)"

definition opCaller :: frame_fn where
  "opCaller f = next_frame (push (uint (CallerAddress (the_contract f))) f)"

definition opCallValue :: frame_fn where
  "opCallValue f =
     next_frame (push (case C_Value (the_contract f) of None \<Rightarrow> 0 | Some v \<Rightarrow> v) f)"

definition opMload :: frame_fn where
  "opMload f =
     (case stack f of
        offset # st \<Rightarrow>
          do { data \<leftarrow> mem_Get (sint (Uint64 offset)) 32 (mem f);
               next_frame (f\<lparr>stack := big_set_bytes data # st\<rparr>) }
      | _ \<Rightarrow> None)"

definition opMstore :: frame_fn where
  "opMstore f =
     (case stack f of
        offset # val # st \<Rightarrow>
          do { m \<leftarrow> mem_Set32 (Uint64 offset) val (mem f); next_frame (f\<lparr>stack := st, mem := m\<rparr>) }
      | _ \<Rightarrow> None)"

definition opMstore8 :: frame_fn where
  "opMstore8 f =
     (case stack f of
        offset # val # st \<Rightarrow>
          do { m \<leftarrow> mem_Set (Uint64 offset) 1 [ucast (Uint64 val)] (mem f);
               next_frame (f\<lparr>stack := st, mem := m\<rparr>) }
      | _ \<Rightarrow> None)"

definition opJump :: frame_fn where
  "opJump f =
     (case stack f of
        pos # st \<Rightarrow>
          let f = f\<lparr>stack := st\<rparr> in
          if \<not> validJumpdest (the_contract f) pos then fail_frame ErrInvalidJump f
          else next_frame (f\<lparr>pc := Uint64 pos\<rparr>)
      | _ \<Rightarrow> None)"

definition opJumpi :: frame_fn where
  "opJumpi f =
     (case stack f of
        pos # cond # st \<Rightarrow>
          let f = f\<lparr>stack := st\<rparr> in
          if cond \<noteq> 0 then
            (if \<not> validJumpdest (the_contract f) pos then fail_frame ErrInvalidJump f
             else next_frame (f\<lparr>pc := Uint64 pos\<rparr>))
          else next_frame (f\<lparr>pc := pc f + 1\<rparr>)
      | _ \<Rightarrow> None)"

definition opJumpdest :: frame_fn where
  "opJumpdest f = next_frame f"

definition opPc :: frame_fn where
  "opPc f = next_frame (push (uint (pc f)) f)"

definition opMsize :: frame_fn where
  "opMsize f = next_frame (push (uint (word_of_int (mem_Len (mem f)) :: u64)) f)"

definition opGas :: frame_fn where
  "opGas f = next_frame (push (uint (Gas (the_contract f))) f)"

definition opPush0 :: frame_fn where
  "opPush0 f = next_frame (push 0 f)"

text \<open>The byte after the current instruction, zero at the end of the code.\<close>

definition immediate :: "frame \<Rightarrow> byte" where
  "immediate f =
     (let c = Code (the_contract f) in if pc f + 1 < u64_len c then c ! unat (pc f + 1) else 0)"

definition opPush1 :: frame_fn where
  "opPush1 f = next_frame ((push (uint (immediate f)) f)\<lparr>pc := pc f + 1\<rparr>)"

definition makePush :: "u64 \<Rightarrow> frame_fn" where
  "makePush sz f =
     (let start = pc f + 1; end' = start + sz; c = Code (the_contract f); codeLen = u64_len c in
      if start \<ge> codeLen then next_frame ((push (big_set_bytes (replicate (unat sz) 0)) f)\<lparr>pc := pc f + sz\<rparr>)
      else if end' > codeLen then
        let d = take (unat sz) (drop (unat start) c) in
        next_frame ((push (big_set_bytes (d @ replicate (unat sz - length d) 0)) f)\<lparr>pc := pc f + sz\<rparr>)
      else if start \<le> end' then
        next_frame ((push (big_set_bytes (take (unat sz) (drop (unat start) c))) f)\<lparr>pc := pc f + sz\<rparr>)
      else None)"

definition makeDup :: "nat \<Rightarrow> frame_fn" where
  "makeDup n f = do { st \<leftarrow> stack_Dup n (stack f); next_frame (f\<lparr>stack := st\<rparr>) }"

definition makeSwap :: "nat \<Rightarrow> frame_fn" where
  "makeSwap n f = do { st \<leftarrow> stack_Swap n (stack f); next_frame (f\<lparr>stack := st\<rparr>) }"

definition opStop :: frame_fn where
  "opStop f = next_frame f"

definition opReturn :: frame_fn where
  "opReturn f =
     (case stack f of
        offset # sz # st \<Rightarrow> do { ret \<leftarrow> mem_at offset sz f; Some ((ret, None), f\<lparr>stack := st\<rparr>) }
      | _ \<Rightarrow> None)"

definition opRevert :: frame_fn where
  "opRevert f =
     (case stack f of
        offset # sz # st \<Rightarrow>
          do { ret \<leftarrow> mem_at offset sz f; Some ((ret, Some ErrExecutionReverted), f\<lparr>stack := st\<rparr>) }
      | _ \<Rightarrow> None)"

definition opInvalid :: frame_fn where
  "opInvalid f = fail_frame ErrInvalidOpCode f"

definition opMcopy :: frame_fn where
  "opMcopy f =
     (case stack f of
        dest # src # sz # st \<Rightarrow>
          let f = f\<lparr>stack := st\<rparr>; l = Uint64 sz in
          if l = 0 then next_frame f
          else
            do { data \<leftarrow> mem_at src sz f; f \<leftarrow> set_mem (Uint64 dest) l data f; next_frame f }
      | _ \<Rightarrow> None)"

definition opDupN :: frame_fn where
  "opDupN f =
     (let x = immediate f in
      if x > 90 \<and> x < 128 then fail_frame ErrInvalidOpCode f
      else
        let n = decodeSingle x in
        if int (length (stack f)) < n then fail_frame ErrStackUnderflow f
        else do { st \<leftarrow> stack_Dup (nat n) (stack f); next_frame (f\<lparr>stack := st, pc := pc f + 1\<rparr>) })"

definition opSwapN :: frame_fn where
  "opSwapN f =
     (let x = immediate f in
      if x > 90 \<and> x < 128 then fail_frame ErrInvalidOpCode f
      else
        let n = decodeSingle x in
        if int (length (stack f)) < n + 1 then fail_frame ErrStackUnderflow f
        else do { st \<leftarrow> stack_Swap (nat n) (stack f); next_frame (f\<lparr>stack := st, pc := pc f + 1\<rparr>) })"

definition opExchange :: frame_fn where
  "opExchange f =
     (let x = immediate f in
      if x > 79 \<and> x < 128 then fail_frame ErrInvalidOpCode f
      else
        let (n, m) = decodePair x; need = (if m > n then m else n) + 1; st = stack f in
        if int (length st) < need then fail_frame ErrStackUnderflow f
        else if 0 \<le> n \<and> 0 \<le> m then
          next_frame (f\<lparr>stack := st[nat n := st ! nat m, nat m := st ! nat n], pc := pc f + 1\<rparr>)
        else None)"

section \<open>Instructions on the EVM\<close>

type_synonym evm_fn = "evm \<Rightarrow> frame \<Rightarrow> ((bytes \<times> vm_error option) \<times> frame \<times> evm) option"

definition next_evm :: "frame \<Rightarrow> evm \<Rightarrow> ((bytes \<times> vm_error option) \<times> frame \<times> evm) option" where
  "next_evm f e = Some (([], None), f, e)"

definition fail_evm :: "vm_error \<Rightarrow> frame \<Rightarrow> evm \<Rightarrow> ((bytes \<times> vm_error option) \<times> frame \<times> evm) option" where
  "fail_evm err f e = Some (([], Some err), f, e)"

definition push_evm :: "int \<Rightarrow> evm_fn" where
  "push_evm v e f = next_evm (push v f) e"

definition or_zero :: "int option \<Rightarrow> int" where
  "or_zero v = (case v of None \<Rightarrow> 0 | Some v \<Rightarrow> v)"

definition opOrigin :: evm_fn where
  "opOrigin e =
     push_evm (case FrameCtx e of Some fc \<Rightarrow> uint (Sender fc) | None \<Rightarrow> uint (Origin (TxContext e))) e"

definition opGasPrice :: evm_fn where
  "opGasPrice e = push_evm (or_zero (GasPrice (TxContext e))) e"

definition opCoinbase :: evm_fn where
  "opCoinbase e = push_evm (uint (Coinbase (Context e))) e"

definition opTimestamp :: evm_fn where
  "opTimestamp e = push_evm (uint (Time (Context e))) e"

definition opNumber :: evm_fn where
  "opNumber e = push_evm (or_zero (BC_BlockNumber (Context e))) e"

definition opPrevRandao :: evm_fn where
  "opPrevRandao e = push_evm (uint (PrevRandao (Context e))) e"

definition opGasLimit :: evm_fn where
  "opGasLimit e = push_evm (uint (BC_GasLimit (Context e))) e"

definition opChainID :: evm_fn where
  "opChainID e = push_evm (uint (chainID e)) e"

definition opBaseFee :: evm_fn where
  "opBaseFee e = push_evm (or_zero (BaseFee (Context e))) e"

definition opBlobBaseFee :: evm_fn where
  "opBlobBaseFee e = push_evm (or_zero (BlobBaseFee (Context e))) e"

definition opSlotNum :: evm_fn where
  "opSlotNum e = push_evm (uint (SlotNumber (Context e))) e"

definition opReturndataSize :: evm_fn where
  "opReturndataSize e = push_evm (uint (u64_len (returnData e))) e"

text \<open>The top of the stack replaced by a value computed from it.\<close>

definition on_top :: "(int \<Rightarrow> int) \<Rightarrow> frame \<Rightarrow> frame option" where
  "on_top g f = (case stack f of x # st \<Rightarrow> Some (f\<lparr>stack := g x # st\<rparr>) | [] \<Rightarrow> None)"

definition opBlobHash :: evm_fn where
  "opBlobHash e f =
     do { f \<leftarrow> on_top (\<lambda>idx.
            let hs = BlobHashes (TxContext e); i = Uint64 idx in
            if IsUint64 idx \<and> i < u64_len hs then uint (hs ! unat i) else 0) f;
          next_evm f e }"

definition opBlockhash :: evm_fn where
  "opBlockhash e f =
     do { f \<leftarrow> on_top (\<lambda>num.
            let num64 = Uint64 num;
                upper = (case BC_BlockNumber (Context e) of None \<Rightarrow> 0 | Some b \<Rightarrow> Uint64 b);
                lower = (if upper > 256 then upper - 256 else 0) in
            case GetHash (Context e) of
              Some getHash \<Rightarrow> if num64 \<ge> lower \<and> num64 < upper then uint (getHash num64) else 0
            | None \<Rightarrow> 0) f;
          next_evm f e }"

definition opKeccak256 :: "evm_env \<Rightarrow> evm_fn" where
  "opKeccak256 E e f =
     (case stack f of
        offset # sz # st \<Rightarrow>
          do { data \<leftarrow> mem_at offset sz f;
               next_evm (f\<lparr>stack := big_set_bytes (Keccak256 E data) # st\<rparr>) e }
      | _ \<Rightarrow> None)"

definition opReturndataCopy :: evm_fn where
  "opReturndataCopy e f =
     (case stack f of
        memOffset # dataOffset # len # st \<Rightarrow>
          let f = f\<lparr>stack := st\<rparr>; l = Uint64 len in
          if l = 0 then next_evm f e
          else
            let dOff = Uint64 dataOffset; end' = dOff + l in
            if end' < dOff then fail_evm ErrReturnDataOutOfBounds f e
            else if end' > u64_len (returnData e) then fail_evm ErrReturnDataOutOfBounds f e
            else
              do { f \<leftarrow> set_mem (Uint64 memOffset) l (take (unat l) (drop (unat dOff) (returnData e))) f;
                   next_evm f e }
      | _ \<Rightarrow> None)"

section \<open>Storage, balances and code\<close>

definition opSload :: evm_fn where
  "opSload e f =
     (case stack f of
        loc # st \<Rightarrow>
          (case StateDB e of
             None \<Rightarrow> next_evm (f\<lparr>stack := 0 # st\<rparr>) e
           | Some s \<Rightarrow>
               let addr = C_Address (the_contract f); key = bigToHash loc; val = GetState addr key s in
               next_evm (f\<lparr>stack := uint val # st\<rparr>) (track (RecordStorageRead addr key val) e))
      | _ \<Rightarrow> None)"

definition record_write :: "address \<Rightarrow> hash \<Rightarrow> hash \<Rightarrow> hash \<Rightarrow> evm \<Rightarrow> evm" where
  "record_write addr key current newVal e =
     track (if current = newVal then RecordStorageRead addr key current
            else RecordStorageChange addr key current newVal) e"

definition apply_refund :: "int \<Rightarrow> statedb \<Rightarrow> statedb" where
  "apply_refund r s =
     (if r > 0 then AddRefund (word_of_int r) s
      else if r < 0 then SubRefund (word_of_int (- r)) s
      else s)"

definition opSstore :: evm_fn where
  "opSstore e f =
     (if readOnly e then fail_evm ErrWriteProtection f e
      else case stack f of
        loc # val # st \<Rightarrow>
          let f = f\<lparr>stack := st\<rparr> in
          (case StateDB e of
             None \<Rightarrow> next_evm f e
           | Some s \<Rightarrow>
               let addr = C_Address (the_contract f); key = bigToHash loc; newVal = bigToHash val;
                   current = GetState addr key s; original = GetCommittedState addr key s;
                   (_, r) = SstoreGas original current newVal False;
                   s = SetState addr key newVal (apply_refund r s) in
               next_evm f (record_write addr key current newVal (set_db s e)))
      | _ \<Rightarrow> None)"

definition opSstoreGlamst :: evm_fn where
  "opSstoreGlamst e f =
     (if readOnly e then fail_evm ErrWriteProtection f e
      else case stack f of
        loc # val # st \<Rightarrow>
          let f = f\<lparr>stack := st\<rparr> in
          (case StateDB e of
             None \<Rightarrow> next_evm f e
           | Some s \<Rightarrow>
               let addr = C_Address (the_contract f); key = bigToHash loc; newVal = bigToHash val in
               next_evm f (set_db (SetState addr key newVal s) (record_write addr key (GetState addr key s) newVal e)))
      | _ \<Rightarrow> None)"

definition opSelfBalance :: evm_fn where
  "opSelfBalance e f =
     (case StateDB e of
        None \<Rightarrow> next_evm (push 0 f) e
      | Some s \<Rightarrow>
          let addr = C_Address (the_contract f) in
          next_evm (push (GetBalance addr s) f) (track (RecordAddressTouch addr) e))"

text \<open>The instructions that replace an address by something read from its account.\<close>

definition account_op :: "(address \<Rightarrow> statedb \<Rightarrow> int) \<Rightarrow> evm_fn" where
  "account_op get e f =
     (case stack f of
        slot # st \<Rightarrow>
          (case StateDB e of
             None \<Rightarrow> next_evm (f\<lparr>stack := 0 # st\<rparr>) e
           | Some s \<Rightarrow>
               let addr = bigToAddress slot in
               next_evm (f\<lparr>stack := get addr s # st\<rparr>) (track (RecordAddressTouch addr) e))
      | _ \<Rightarrow> None)"

definition opBalance :: evm_fn where
  "opBalance = account_op GetBalance"

definition opExtcodesize :: evm_fn where
  "opExtcodesize = account_op (\<lambda>addr s. uint (u64_len (GetCode addr s)))"

definition opExtcodehash :: evm_fn where
  "opExtcodehash = account_op (\<lambda>addr s. if \<not> Exist addr s then 0 else uint (GetCodeHash addr s))"

definition opExtcodecopy :: evm_fn where
  "opExtcodecopy e f =
     (case stack f of
        addrVal # memOffset # codeOffset # len # st \<Rightarrow>
          let f = f\<lparr>stack := st\<rparr>; l = Uint64 len in
          if l = 0 then next_evm f e
          else
            let addr = bigToAddress addrVal;
                (c, e) = (case StateDB e of None \<Rightarrow> ([], e)
                          | Some s \<Rightarrow> (GetCode addr s, track (RecordAddressTouch addr) e)) in
            do { f \<leftarrow> set_mem (Uint64 memOffset) l (padded_slice c (Uint64 codeOffset) (unat l)) f;
                 next_evm f e }
      | _ \<Rightarrow> None)"

text \<open>The topics of a log, popped from the stack.\<close>

definition makeLog :: "nat \<Rightarrow> evm_fn" where
  "makeLog n e f =
     (if readOnly e then fail_evm ErrWriteProtection f e
      else case stack f of
        offset # sz # st \<Rightarrow>
          if length st < n then None
          else
            do { data \<leftarrow> mem_at offset sz f;
                 next_evm (f\<lparr>stack := drop n st\<rparr>)
                   (on_db (AddLog (new_log (C_Address (the_contract f)) (map bigToHash (take n st)) data)) e) }
      | _ \<Rightarrow> None)"

definition opTload :: evm_fn where
  "opTload e f =
     do { f \<leftarrow> on_top (\<lambda>loc. case StateDB e of None \<Rightarrow> 0
            | Some s \<Rightarrow> uint (GetTransientState (C_Address (the_contract f)) (bigToHash loc) s)) f;
          next_evm f e }"

definition opTstore :: evm_fn where
  "opTstore e f =
     (if readOnly e then fail_evm ErrWriteProtection f e
      else case stack f of
        loc # val # st \<Rightarrow>
          next_evm (f\<lparr>stack := st\<rparr>)
            (on_db (SetTransientState (C_Address (the_contract f)) (bigToHash loc) (bigToHash val)) e)
      | _ \<Rightarrow> None)"

definition opSelfdestruct :: evm_fn where
  "opSelfdestruct e f =
     (if readOnly e then fail_evm ErrWriteProtection f e
      else case stack f of
        b # st \<Rightarrow>
          let f = f\<lparr>stack := st\<rparr>; beneficiary = bigToAddress b; addr = C_Address (the_contract f) in
          (case StateDB e of
             None \<Rightarrow> next_evm f e
           | Some s \<Rightarrow>
               let balance = GetBalance addr s in
               if balance > 0 then
                 do { s1 \<leftarrow> (if IsEIP7708 (forkRules e) then
                              (if beneficiary \<noteq> addr then EmitTransferLog addr beneficiary balance s
                               else EmitBurnLog addr balance s)
                            else Some s);
                      let preBenBal = GetBalance beneficiary s1;
                          s2 = SubBalance addr balance (AddBalance beneficiary balance s1);
                          e = track (RecordBalanceChange addr balance (GetBalance addr s2)) (set_db s2 e);
                          e = (if beneficiary \<noteq> addr
                               then track (RecordBalanceChange beneficiary preBenBal (GetBalance beneficiary s2)) e
                               else e) in
                      next_evm f e }
               else next_evm f e)
      | _ \<Rightarrow> None)"

section \<open>Frame transactions\<close>

text \<open>The scope-dependent part of \<open>APPROVE\<close>, on the frame context.\<close>

definition balance_short :: "evm \<Rightarrow> address \<Rightarrow> frame_context \<Rightarrow> bool" where
  "balance_short e addr fc =
     (case (StateDB e, MaxCost fc) of (Some s, Some m) \<Rightarrow> GetBalance addr s < m | _ \<Rightarrow> False)"

definition approve_scope :: "evm \<Rightarrow> contract \<Rightarrow> u64 \<Rightarrow> frame_context \<Rightarrow> vm_error + frame_context" where
  "approve_scope e c scope fc =
     (if scope = 0 then
        (if SenderApproved fc then Inl ErrAlreadyApproved
         else if CallerAddress c \<noteq> Sender fc then Inl ErrCallerNotSender
         else Inr (fc\<lparr>SenderApproved := True\<rparr>))
      else if scope = 1 then
        (if PayerApproved fc then Inl ErrAlreadyApproved
         else if \<not> SenderApproved fc then Inl ErrSenderNotApproved
         else if balance_short e (C_Address c) fc then Inl ErrInsufficientBalance
         else Inr (fc\<lparr>PayerApproved := True\<rparr>))
      else
        (if SenderApproved fc \<or> PayerApproved fc then Inl ErrAlreadyApproved
         else if CallerAddress c \<noteq> Sender fc then Inl ErrCallerNotSender
         else if balance_short e (C_Address c) fc then Inl ErrInsufficientBalance
         else Inr (fc\<lparr>SenderApproved := True, PayerApproved := True\<rparr>)))"

definition opApprove :: evm_fn where
  "opApprove e f =
     (case stack f of
        offset # len # scope # st \<Rightarrow>
          let f = f\<lparr>stack := st\<rparr> in
          (case FrameCtx e of
             None \<Rightarrow> fail_evm ErrNoFrameContext f e
           | Some fc \<Rightarrow>
               let scopeVal = Uint64 scope in
               if scopeVal > 2 then fail_evm ErrInvalidApproveScope f e
               else
                 let fc = fc\<lparr>ApproveCalledThisFrame := True, LastApproveScope := ucast scopeVal\<rparr>;
                     e = e\<lparr>FrameCtx := Some fc\<rparr> in
                 if CurrentFrameIndex fc \<ge> u64_len (Frames fc) then fail_evm ErrFrameIndexOutOfBounds f e
                 else if C_Address (the_contract f) \<noteq> Target (Frames fc ! unat (CurrentFrameIndex fc))
                 then fail_evm ErrCallerNotFrameTarget f e
                 else case approve_scope e (the_contract f) scopeVal fc of
                     Inl err \<Rightarrow> fail_evm err f e
                   | Inr fc \<Rightarrow>
                       do { ret \<leftarrow> mem_at offset len f; Some ((ret, None), f, e\<lparr>FrameCtx := Some fc\<rparr>) })
      | _ \<Rightarrow> None)"

text \<open>
  \<open>txParamValue\<close>: the outer option is the panic of a \<open>big.Int\<close> longer than 32 bytes, the sum its error.
  A nil value and an empty one are not told apart by the callers.
\<close>

definition u64_word :: "u64 \<Rightarrow> bytes" where
  "u64_word v = be_fixed 32 (unat v)"

definition big_word :: "int option \<Rightarrow> bytes option" where
  "big_word v = (case v of None \<Rightarrow> Some (replicate 32 0) | Some v \<Rightarrow> pad32 v)"

definition tx_field :: "frame_context \<Rightarrow> u64 \<Rightarrow> bytes option option" where
  "tx_field fc in1 =
     (if in1 = 0x00 then Some (Some (u64_word (TxType fc)))
      else if in1 = 0x01 then Some (big_word (FC_Nonce fc))
      else if in1 = 0x02 then Some (Some (replicate 12 0 @ address_bytes (Sender fc)))
      else if in1 = 0x03 then Some (big_word (MaxPriorityFee fc))
      else if in1 = 0x04 then Some (big_word (MaxFee fc))
      else if in1 = 0x05 then Some (big_word (MaxBlobFee fc))
      else if in1 = 0x06 then Some (big_word (MaxCost fc))
      else if in1 = 0x07 then Some (Some (u64_word (BlobCount fc)))
      else if in1 = 0x08 then Some (Some (hash_bytes (SigHash fc)))
      else if in1 = 0x09 then Some (Some (u64_word (u64_len (Frames fc))))
      else if in1 = 0x10 then Some (Some (u64_word (CurrentFrameIndex fc)))
      else None)"

definition txParamValue :: "frame_context \<Rightarrow> u64 \<Rightarrow> u64 \<Rightarrow> (vm_error + bytes) option" where
  "txParamValue fc in1 in2 =
     (case tx_field fc in1 of
        Some v \<Rightarrow> if in2 \<noteq> 0 then Some (Inl ErrTxParamIn2MustBeZero) else map_option Inr v
      | None \<Rightarrow>
          if in1 < 0x11 \<or> in1 > 0x15 then Some (Inl ErrInvalidTxParamIndex)
          else if in2 \<ge> u64_len (Frames fc) then Some (Inl ErrFrameIndexOutOfBounds)
          else
            let fr = Frames fc ! unat in2 in
            Some
              (if in1 = 0x11 then Inr (replicate 12 0 @ address_bytes (Target fr))
               else if in1 = 0x12 then Inr (if Mode fr = FrameModeVerify then [] else TF_Data fr)
               else if in1 = 0x13 then Inr (u64_word (TF_GasLimit fr))
               else if in1 = 0x14 then Inr (u64_word (Mode fr))
               else if in2 \<ge> CurrentFrameIndex fc then Inl ErrFrameIndexOutOfBounds
               else Inr (u64_word (Status fr))))"

definition txParamSize :: "frame_context \<Rightarrow> u64 \<Rightarrow> u64 \<Rightarrow> vm_error + u64" where
  "txParamSize fc in1 in2 =
     (if in1 \<le> 0x09 \<or> in1 = 0x10 then (if in2 \<noteq> 0 then Inl ErrTxParamIn2MustBeZero else Inr 32)
      else if in1 < 0x11 \<or> in1 > 0x15 then Inl ErrInvalidTxParamIndex
      else if in2 \<ge> u64_len (Frames fc) then Inl ErrFrameIndexOutOfBounds
      else if in1 = 0x12 then
        (let fr = Frames fc ! unat in2 in
         Inr (if Mode fr = FrameModeVerify then 0 else u64_len (TF_Data fr)))
      else if in1 = 0x15 \<and> in2 \<ge> CurrentFrameIndex fc then Inl ErrFrameIndexOutOfBounds
      else Inr 32)"

definition opTxParamLoad :: evm_fn where
  "opTxParamLoad e f =
     (case stack f of
        in1 # in2 # st \<Rightarrow>
          let f = f\<lparr>stack := st\<rparr> in
          (case FrameCtx e of
             None \<Rightarrow> fail_evm ErrNoFrameContext f e
           | Some fc \<Rightarrow>
               do { r \<leftarrow> txParamValue fc (Uint64 in1) (Uint64 in2);
                    case r of Inl err \<Rightarrow> fail_evm err f e
                    | Inr val \<Rightarrow> next_evm (push (big_set_bytes (take 32 val)) f) e })
      | _ \<Rightarrow> None)"

definition opTxParamSize :: evm_fn where
  "opTxParamSize e f =
     (case stack f of
        in1 # in2 # st \<Rightarrow>
          let f = f\<lparr>stack := st\<rparr> in
          (case FrameCtx e of
             None \<Rightarrow> fail_evm ErrNoFrameContext f e
           | Some fc \<Rightarrow>
               (case txParamSize fc (Uint64 in1) (Uint64 in2) of
                  Inl err \<Rightarrow> fail_evm err f e
                | Inr n \<Rightarrow> next_evm (push (uint n) f) e))
      | _ \<Rightarrow> None)"

definition opTxParamCopy :: evm_fn where
  "opTxParamCopy e f =
     (case stack f of
        in1 # in2 # destOffset # dataOffset # len # st \<Rightarrow>
          let f = f\<lparr>stack := st\<rparr>; l = Uint64 len in
          (case FrameCtx e of
             None \<Rightarrow> fail_evm ErrNoFrameContext f e
           | Some fc \<Rightarrow>
               if l = 0 then next_evm f e
               else
                 do { r \<leftarrow> txParamValue fc (Uint64 in1) (Uint64 in2);
                      case r of Inl err \<Rightarrow> fail_evm err f e
                      | Inr val \<Rightarrow>
                          do { f \<leftarrow> set_mem (Uint64 destOffset) l (padded_slice val (Uint64 dataOffset) (unat l)) f;
                               next_evm f e } })
      | _ \<Rightarrow> None)"

end
