(* ===== verification/Evm_Tables.thy ===== *)
theory Evm_Tables
  imports Evm_Ops
begin

text \<open>
  The jump tables of \<^verbatim>\<open>jump_table.go\<close>, one per fork, and the choice between them
  (\<open>SelectJumpTable\<close> in \<^verbatim>\<open>interpreter.go\<close>).  Opcodes are written by their number.
\<close>

definition op_entry :: "exec_fn \<Rightarrow> u64 \<Rightarrow> int \<Rightarrow> int \<Rightarrow> operation" where
  "op_entry x gas mn mx =
     \<lparr>op_execute = x, constantGas = gas, dynamicGas = None, minStack = mn, maxStack = mx,
      memorySize = None, halts = False, jumps = False, writes = False\<rparr>"

definition with_gas :: "gas_fn \<Rightarrow> operation \<Rightarrow> operation" where
  "with_gas g op = op\<lparr>dynamicGas := Some g\<rparr>"

definition with_mem :: "memory_size_fn \<Rightarrow> operation \<Rightarrow> operation" where
  "with_mem m op = op\<lparr>memorySize := Some m\<rparr>"

definition halting :: "operation \<Rightarrow> operation" where
  "halting op = op\<lparr>halts := True\<rparr>"

definition jumping :: "operation \<Rightarrow> operation" where
  "jumping op = op\<lparr>jumps := True\<rparr>"

definition writing :: "operation \<Rightarrow> operation" where
  "writing op = op\<lparr>writes := True\<rparr>"

lemmas entry_defs = op_entry_def with_gas_def with_mem_def halting_def jumping_def writing_def

definition set_ops :: "(byte \<times> operation) list \<Rightarrow> jump_table \<Rightarrow> jump_table" where
  "set_ops ops tbl = fold (\<lambda>(b, op) t. t(b := Some op)) ops tbl"

section \<open>Tables\<close>

definition frontier_ops :: "(byte \<times> operation) list" where
  "frontier_ops =
     [(0x00, halting (op_entry (FrameFn opStop) GasStop 0 1024)),
      (0x01, op_entry (StackFn opAdd) GasVerylow 2 1024),
      (0x02, op_entry (StackFn opMul) GasVerylow 2 1024),
      (0x03, op_entry (StackFn opSub) GasVerylow 2 1024),
      (0x04, op_entry (StackFn opDiv) GasLow 2 1024),
      (0x05, op_entry (StackFn opSdiv) GasLow 2 1024),
      (0x06, op_entry (StackFn opMod) GasLow 2 1024),
      (0x07, op_entry (StackFn opSmod) GasLow 2 1024),
      (0x08, op_entry (StackFn opAddmod) GasMid 3 1024),
      (0x09, op_entry (StackFn opMulmod) GasMid 3 1024),
      (0x0a, with_gas (PureGas gasExp) (op_entry (StackFn opExp) GasHigh 2 1024)),
      (0x0b, op_entry (StackFn opSignExtend) GasLow 2 1024),
      (0x10, op_entry (StackFn opLt) GasVerylow 2 1024),
      (0x11, op_entry (StackFn opGt) GasVerylow 2 1024),
      (0x12, op_entry (StackFn opSlt) GasVerylow 2 1024),
      (0x13, op_entry (StackFn opSgt) GasVerylow 2 1024),
      (0x14, op_entry (StackFn opEq) GasVerylow 2 1024),
      (0x15, op_entry (StackFn opIsZero) GasVerylow 1 1024),
      (0x16, op_entry (StackFn opAnd) GasVerylow 2 1024),
      (0x17, op_entry (StackFn opOr) GasVerylow 2 1024),
      (0x18, op_entry (StackFn opXor) GasVerylow 2 1024),
      (0x19, op_entry (StackFn opNot) GasVerylow 1 1024),
      (0x1a, op_entry (StackFn opByte) GasVerylow 2 1024),
      (0x30, op_entry (FrameFn opAddress) GasBase 0 1023),
      (0x32, op_entry Fn_opOrigin GasBase 0 1023),
      (0x33, op_entry (FrameFn opCaller) GasBase 0 1023),
      (0x34, op_entry (FrameFn opCallValue) GasBase 0 1023),
      (0x35, op_entry (FrameFn opCalldataLoad) GasVerylow 1 1024),
      (0x36, op_entry (FrameFn opCalldataSize) GasBase 0 1023),
      (0x37, with_mem memoryCalldataCopy (with_gas (PureGas gasCopy) (op_entry (FrameFn opCalldataCopy) GasVerylow 3 1024))),
      (0x38, op_entry (FrameFn opCodeSize) GasBase 0 1023),
      (0x39, with_mem memoryCodeCopy (with_gas (PureGas gasCopy) (op_entry (FrameFn opCodeCopy) GasVerylow 3 1024))),
      (0x3a, op_entry Fn_opGasPrice GasBase 0 1023),
      (0x40, op_entry Fn_opBlockhash GasExt 1 1024),
      (0x41, op_entry Fn_opCoinbase GasBase 0 1023),
      (0x42, op_entry Fn_opTimestamp GasBase 0 1023),
      (0x43, op_entry Fn_opNumber GasBase 0 1023),
      (0x44, op_entry Fn_opPrevRandao GasBase 0 1023),
      (0x45, op_entry Fn_opGasLimit GasBase 0 1023),
      (0x50, op_entry (StackFn opPop) GasPop 1 1024),
      (0x51, with_mem memoryMload (with_gas (PureGas gasMemOnly) (op_entry (FrameFn opMload) GasMload 1 1024))),
      (0x52, with_mem memoryMstore (with_gas (PureGas gasMemOnly) (op_entry (FrameFn opMstore) GasMstore 2 1024))),
      (0x53, with_mem memoryMstore8 (with_gas (PureGas gasMemOnly) (op_entry (FrameFn opMstore8) GasMstore8 2 1024))),
      (0x56, jumping (op_entry (FrameFn opJump) GasJump 1 1024)),
      (0x57, jumping (op_entry (FrameFn opJumpi) GasJumpi 2 1024)),
      (0x58, op_entry (FrameFn opPc) GasPc 0 1023),
      (0x59, op_entry (FrameFn opMsize) GasMsize 0 1023),
      (0x5a, op_entry (FrameFn opGas) GasGas 0 1023),
      (0x5b, op_entry (FrameFn opJumpdest) GasJumpDest 0 1024),
      (0x60, op_entry (FrameFn opPush1) GasPush 0 1023),
      (0x20, with_mem memoryKeccak256 (with_gas (PureGas gasSha3) (op_entry Fn_opKeccak256 GasKeccak256 2 1024))),
      (0x31, op_entry Fn_opBalance GasBalanceFrontier 1 1024),
      (0x54, op_entry Fn_opSload GasSloadFrontier 1 1024),
      (0x55, writing (op_entry Fn_opSstore GasSstoreSet 2 1024)),
      (0x3b, op_entry Fn_opExtcodesize GasExtcodeSizeFrontier 1 1024),
      (0x3c, with_mem memoryExtcodecopy (with_gas (PureGas gasExtCodeCopyCopy) (op_entry Fn_opExtcodecopy GasExtcodeCopyFrontier 4 1024))),
      (0xf1, with_mem memoryCall (with_gas (Fn_gasCallFrontier) (op_entry Fn_opCall GasCallFrontier 7 1024))),
      (0xf2, with_mem memoryCallCode (with_gas (Fn_gasCallCodeFrontier) (op_entry Fn_opCallCode GasCallFrontier 7 1024))),
      (0xf0, writing (with_mem memoryCreate (with_gas (PureGas gasCreateDynamic) (op_entry Fn_opCreate GasCreate 3 1024)))),
      (0xf3, halting (with_mem memoryReturn (with_gas (PureGas gasMemOnly) (op_entry (FrameFn opReturn) GasReturn 2 1024)))),
      (0xfe, op_entry (FrameFn opInvalid) 0 0 1024),
      (0xff, writing (halting (with_gas (Fn_gasSelfdestructFrontier) (op_entry Fn_opSelfdestruct GasSelfdestruct 1 1024))))]"

definition push_ops :: "(byte \<times> operation) list" where
  "push_ops = map (\<lambda>i. (0x60 + of_nat (i - 1), op_entry (FrameFn (makePush (of_nat i))) GasPush 0 1023)) [2..<33]"

definition dup_ops :: "(byte \<times> operation) list" where
  "dup_ops = map (\<lambda>i. (0x80 + of_nat (i - 1), op_entry (FrameFn (makeDup i)) GasDup (int i) 1023)) [1..<17]"

definition swap_ops :: "(byte \<times> operation) list" where
  "swap_ops = map (\<lambda>i. (0x90 + of_nat (i - 1), op_entry (FrameFn (makeSwap i)) GasSwap (int i + 1) 1024)) [1..<17]"

definition log_ops :: "(byte \<times> operation) list" where
  "log_ops =
     map (\<lambda>n. (0xa0 + of_nat n,
       writing (with_mem memoryLog (with_gas (PureGas (makeGasLog (of_nat n))) (op_entry (Fn_makeLog n) GasLog (2 + int n) 1024))))) [0..<5]"

definition NewFrontierJumpTable :: jump_table where
  "NewFrontierJumpTable = set_ops (frontier_ops @ push_ops @ dup_ops @ swap_ops @ log_ops) (\<lambda>_. None)"

definition homestead_ops :: "(byte \<times> operation) list" where
  "homestead_ops =
     [(0xf4, with_mem memoryDelegateCall (with_gas (PureGas gasMemOnly) (op_entry Fn_opDelegateCall GasCallFrontier 6 1024)))]"

definition NewHomesteadJumpTable :: jump_table where
  "NewHomesteadJumpTable = set_ops homestead_ops NewFrontierJumpTable"

definition tangerineWhistle_ops :: "(byte \<times> operation) list" where
  "tangerineWhistle_ops =
     [(0x31, op_entry Fn_opBalance GasBalanceEIP150 1 1024),
      (0x54, op_entry Fn_opSload GasSloadEIP150 1 1024),
      (0x3b, op_entry Fn_opExtcodesize GasExtcodeSizeEIP150 1 1024),
      (0x3c, with_mem memoryExtcodecopy (with_gas (PureGas gasExtCodeCopyCopy) (op_entry Fn_opExtcodecopy GasExtcodeCopyEIP150 4 1024))),
      (0xf1, with_mem memoryCall (with_gas (Fn_gasCallFrontier) (op_entry Fn_opCall GasCallEIP150 7 1024))),
      (0xf2, with_mem memoryCallCode (with_gas (Fn_gasCallCodeFrontier) (op_entry Fn_opCallCode GasCallEIP150 7 1024))),
      (0xf4, with_mem memoryDelegateCall (with_gas (PureGas gasMemOnly) (op_entry Fn_opDelegateCall GasCallEIP150 6 1024)))]"

definition NewTangerineWhistleJumpTable :: jump_table where
  "NewTangerineWhistleJumpTable = set_ops tangerineWhistle_ops NewHomesteadJumpTable"

definition NewSpuriousDragonJumpTable :: jump_table where
  "NewSpuriousDragonJumpTable = NewTangerineWhistleJumpTable"

definition byzantium_ops :: "(byte \<times> operation) list" where
  "byzantium_ops =
     [(0xfd, halting (with_mem memoryReturn (with_gas (PureGas gasMemOnly) (op_entry (FrameFn opRevert) GasRevert 2 1024)))),
      (0x3d, op_entry Fn_opReturndataSize GasBase 0 1023),
      (0x3e, with_mem memoryReturndataCopy (with_gas (PureGas gasCopy) (op_entry Fn_opReturndataCopy GasVerylow 3 1024))),
      (0xfa, with_mem memoryStaticCall (with_gas (PureGas gasMemOnly) (op_entry Fn_opStaticCall GasCallEIP150 6 1024)))]"

definition NewByzantiumJumpTable :: jump_table where
  "NewByzantiumJumpTable = set_ops byzantium_ops NewSpuriousDragonJumpTable"

definition constantinople_ops :: "(byte \<times> operation) list" where
  "constantinople_ops =
     [(0x1b, op_entry (StackFn opSHL) GasVerylow 2 1024),
      (0x1c, op_entry (StackFn opSHR) GasVerylow 2 1024),
      (0x1d, op_entry (StackFn opSAR) GasVerylow 2 1024),
      (0x3f, op_entry Fn_opExtcodehash GasExtcodeHashConst 1 1024),
      (0xf5, writing (with_mem memoryCreate2 (with_gas (PureGas gasCreate2Dynamic) (op_entry Fn_opCreate2 GasCreate 4 1024))))]"

definition NewConstantinopleJumpTable :: jump_table where
  "NewConstantinopleJumpTable = set_ops constantinople_ops NewByzantiumJumpTable"

definition istanbul_ops :: "(byte \<times> operation) list" where
  "istanbul_ops =
     [(0x46, op_entry Fn_opChainID GasBase 0 1023),
      (0x47, op_entry Fn_opSelfBalance GasLow 0 1023),
      (0x31, op_entry Fn_opBalance GasBalanceEIP1884 1 1024),
      (0x54, op_entry Fn_opSload GasSloadEIP1884 1 1024),
      (0x3f, op_entry Fn_opExtcodehash GasExtcodeHashIstanbul 1 1024)]"

definition NewIstanbulJumpTable :: jump_table where
  "NewIstanbulJumpTable = set_ops istanbul_ops NewConstantinopleJumpTable"

definition berlin_ops :: "(byte \<times> operation) list" where
  "berlin_ops =
     [(0x54, with_gas (Fn_gasSloadEIP2929) (op_entry Fn_opSload WarmStorageReadCost 1 1024)),
      (0x31, with_gas (Fn_gasBalanceEIP2929) (op_entry Fn_opBalance WarmStorageReadCost 1 1024)),
      (0x3b, with_gas (Fn_gasExtCodeSizeEIP2929) (op_entry Fn_opExtcodesize WarmStorageReadCost 1 1024)),
      (0x3c, with_mem memoryExtcodecopy (with_gas (Fn_gasExtCodeCopyEIP2929) (op_entry Fn_opExtcodecopy WarmStorageReadCost 4 1024))),
      (0x3f, with_gas (Fn_gasExtCodeHashEIP2929) (op_entry Fn_opExtcodehash WarmStorageReadCost 1 1024)),
      (0xf1, with_mem memoryCall (with_gas (Fn_gasCallEIP2929) (op_entry Fn_opCall WarmStorageReadCost 7 1024))),
      (0xf2, with_mem memoryCallCode (with_gas (Fn_gasCallCodeEIP2929) (op_entry Fn_opCallCode WarmStorageReadCost 7 1024))),
      (0xfa, with_mem memoryStaticCall (with_gas (Fn_gasStaticCallEIP2929) (op_entry Fn_opStaticCall WarmStorageReadCost 6 1024))),
      (0xf4, with_mem memoryDelegateCall (with_gas (Fn_gasDelegateCallEIP2929) (op_entry Fn_opDelegateCall WarmStorageReadCost 6 1024))),
      (0x55, writing (with_gas (Fn_gasSstoreEIP2929) (op_entry Fn_opSstore 0 2 1024))),
      (0xff, writing (halting (with_gas (Fn_gasSelfdestructEIP2929) (op_entry Fn_opSelfdestruct GasSelfdestruct 1 1024))))]"

definition NewBerlinJumpTable :: jump_table where
  "NewBerlinJumpTable = set_ops berlin_ops NewIstanbulJumpTable"

definition london_ops :: "(byte \<times> operation) list" where
  "london_ops =
     [(0x48, op_entry Fn_opBaseFee GasBase 0 1023)]"

definition NewLondonJumpTable :: jump_table where
  "NewLondonJumpTable = set_ops london_ops NewBerlinJumpTable"

definition NewMergeJumpTable :: jump_table where
  "NewMergeJumpTable = NewLondonJumpTable"

definition shanghai_ops :: "(byte \<times> operation) list" where
  "shanghai_ops =
     [(0x5f, op_entry (FrameFn opPush0) GasPush0 0 1023)]"

definition NewShanghaiJumpTable :: jump_table where
  "NewShanghaiJumpTable = set_ops shanghai_ops NewMergeJumpTable"

definition cancun_ops :: "(byte \<times> operation) list" where
  "cancun_ops =
     [(0x5c, op_entry Fn_opTload GasTload 1 1024),
      (0x5d, writing (op_entry Fn_opTstore GasTstore 2 1024)),
      (0x5e, with_mem memoryMcopy (with_gas (PureGas gasMcopy) (op_entry (FrameFn opMcopy) GasMcopyBase 3 1024))),
      (0x49, op_entry Fn_opBlobHash GasBlobHash 1 1024),
      (0x4a, op_entry Fn_opBlobBaseFee GasBlobBaseFee 0 1023)]"

definition NewCancunJumpTable :: jump_table where
  "NewCancunJumpTable = set_ops cancun_ops NewShanghaiJumpTable"

definition NewPragueJumpTable :: jump_table where
  "NewPragueJumpTable = NewCancunJumpTable"

definition glamsterdan_ops :: "(byte \<times> operation) list" where
  "glamsterdan_ops =
     [(0x04, op_entry (StackFn opDiv) GasDivGlamsterdan 2 1024),
      (0x05, op_entry (StackFn opSdiv) GasSdivGlamsterdan 2 1024),
      (0x06, op_entry (StackFn opMod) GasModGlamsterdan 2 1024),
      (0x09, op_entry (StackFn opMulmod) GasMulmodGlamsterdan 3 1024),
      (0x20, with_mem memoryKeccak256 (with_gas (PureGas gasSha3) (op_entry Fn_opKeccak256 GasKeccak256Glamsterdan 2 1024))),
      (0x54, with_gas (Fn_gasSloadGlamst) (op_entry Fn_opSload WarmStorageReadGlamst 1 1024)),
      (0x31, with_gas (Fn_gasBalanceGlamst) (op_entry Fn_opBalance WarmStorageReadGlamst 1 1024)),
      (0x3b, with_gas (Fn_gasExtCodeSizeGlamst) (op_entry Fn_opExtcodesize WarmStorageReadGlamst 1 1024)),
      (0x3c, with_mem memoryExtcodecopy (with_gas (Fn_gasExtCodeCopyGlamst) (op_entry Fn_opExtcodecopy WarmStorageReadGlamst 4 1024))),
      (0x3f, with_gas (Fn_gasExtCodeHashGlamst) (op_entry Fn_opExtcodehash WarmStorageReadGlamst 1 1024)),
      (0x55, writing (with_gas (Fn_gasSstoreGlamst) (op_entry Fn_opSstoreGlamst 0 2 1024))),
      (0xf1, with_mem memoryCall (with_gas (Fn_gasCallGlamst) (op_entry Fn_opCall WarmStorageReadGlamst 7 1024))),
      (0xf2, with_mem memoryCallCode (with_gas (Fn_gasCallCodeGlamst) (op_entry Fn_opCallCode WarmStorageReadGlamst 7 1024))),
      (0xfa, with_mem memoryStaticCall (with_gas (Fn_gasStaticCallGlamst) (op_entry Fn_opStaticCall WarmStorageReadGlamst 6 1024))),
      (0xf4, with_mem memoryDelegateCall (with_gas (Fn_gasDelegateCallGlamst) (op_entry Fn_opDelegateCall WarmStorageReadGlamst 6 1024))),
      (0xff, writing (halting (with_gas (Fn_gasSelfdestructGlamst) (op_entry Fn_opSelfdestruct GasSelfdestruct 1 1024)))),
      (0x4b, op_entry Fn_opSlotNum GasBase 0 1023),
      (0x1e, op_entry (StackFn opCLZ) GasFastStep 1 1024),
      (0xe6, op_entry (FrameFn opDupN) GasVerylow 1 1023),
      (0xe7, op_entry (FrameFn opSwapN) GasVerylow 2 1024),
      (0xe8, op_entry (FrameFn opExchange) GasVerylow 2 1024),
      (0xaa, halting (with_mem memoryApprove (with_gas (PureGas gasMemOnly) (op_entry Fn_opApprove GasLow 3 1024)))),
      (0xb0, op_entry Fn_opTxParamLoad GasBase 2 1024),
      (0xb1, op_entry Fn_opTxParamSize GasBase 2 1024),
      (0xb2, with_mem memoryTxParamCopy (with_gas (PureGas gasMemOnly) (op_entry Fn_opTxParamCopy GasVerylow 5 1024)))]"

definition NewGlamsterdanJumpTable :: jump_table where
  "NewGlamsterdanJumpTable = set_ops glamsterdan_ops NewPragueJumpTable"

definition verkle_ops :: "(byte \<times> operation) list" where
  "verkle_ops =
     [(0x54, with_gas (Fn_gasSloadEIP4762) (op_entry Fn_opSload 0 1 1024)),
      (0x55, writing (with_gas (Fn_gasSstoreEIP4762) (op_entry Fn_opSstore 0 2 1024))),
      (0x31, with_gas (Fn_gasBalanceEIP4762) (op_entry Fn_opBalance 0 1 1024)),
      (0x3b, with_gas (Fn_gasExtCodeSizeEIP4762) (op_entry Fn_opExtcodesize 0 1 1024)),
      (0x3c, with_mem memoryExtcodecopy (with_gas (Fn_gasExtCodeCopyEIP4762) (op_entry Fn_opExtcodecopy 0 4 1024))),
      (0x3f, with_gas (Fn_gasExtCodeHashEIP4762) (op_entry Fn_opExtcodehash 0 1 1024)),
      (0xf1, with_mem memoryCall (with_gas (Fn_gasCallEIP4762) (op_entry Fn_opCall 0 7 1024))),
      (0xf2, with_mem memoryCallCode (with_gas (Fn_gasCallCodeEIP4762) (op_entry Fn_opCallCode 0 7 1024))),
      (0xf4, with_mem memoryDelegateCall (with_gas (Fn_gasDelegateCallEIP4762) (op_entry Fn_opDelegateCall 0 6 1024))),
      (0xfa, with_mem memoryStaticCall (with_gas (Fn_gasStaticCallEIP4762) (op_entry Fn_opStaticCall 0 6 1024))),
      (0xff, writing (halting (with_gas (Fn_gasSelfdestructEIP4762) (op_entry Fn_opSelfdestruct 0 1 1024))))]"

definition NewVerkleJumpTable :: jump_table where
  "NewVerkleJumpTable = set_ops verkle_ops NewGlamsterdanJumpTable"

definition NewIPlusJumpTable :: jump_table where
  "NewIPlusJumpTable =
     NewGlamsterdanJumpTable(0xf6 :=
       Some (writing (with_mem memoryCreate (with_gas (PureGas gasRVCreate) (op_entry Fn_opRVCreate GasCreate 3 1024)))))"

definition NewFrameVerifyJumpTable :: jump_table where
  "NewFrameVerifyJumpTable =
     (\<lambda>b. if b \<in> {0x55, 0xf0, 0xf5, 0xff, 0xa0, 0xa1, 0xa2, 0xa3, 0xa4} then None else NewGlamsterdanJumpTable b)"

definition SelectJumpTable :: "fork_rules \<Rightarrow> jump_table" where
  "SelectJumpTable rules =
     (if IsIPlus rules then NewIPlusJumpTable
      else if IsVerkle rules then NewVerkleJumpTable
      else if IsGlamsterdan rules then NewGlamsterdanJumpTable
      else if IsPrague rules then NewPragueJumpTable
      else if IsCancun rules then NewCancunJumpTable
      else if IsShanghai rules then NewShanghaiJumpTable
      else if IsMerge rules then NewMergeJumpTable
      else if IsLondon rules then NewLondonJumpTable
      else if IsBerlin rules then NewBerlinJumpTable
      else if IsIstanbul rules then NewIstanbulJumpTable
      else if IsConstantinople rules then NewConstantinopleJumpTable
      else if IsByzantium rules then NewByzantiumJumpTable
      else if IsHomestead rules then NewHomesteadJumpTable
      else NewFrontierJumpTable)"

section \<open>Lookups\<close>

lemma set_ops_find:
  "set_ops ops t b = (case find (\<lambda>(c, op). c = b) (rev ops) of Some (c, op) \<Rightarrow> Some op | None \<Rightarrow> t b)"
  unfolding set_ops_def by (induction ops arbitrary: t rule: rev_induct) auto

lemmas table_defs = NewCancunJumpTable_def NewShanghaiJumpTable_def NewMergeJumpTable_def NewLondonJumpTable_def
  NewBerlinJumpTable_def NewIstanbulJumpTable_def NewConstantinopleJumpTable_def NewByzantiumJumpTable_def
  NewSpuriousDragonJumpTable_def NewTangerineWhistleJumpTable_def NewHomesteadJumpTable_def NewFrontierJumpTable_def
  cancun_ops_def shanghai_ops_def london_ops_def berlin_ops_def istanbul_ops_def constantinople_ops_def
  byzantium_ops_def tangerineWhistle_ops_def homestead_ops_def frontier_ops_def push_ops_def dup_ops_def
  swap_ops_def log_ops_def

end
