(* ===== verification/Evm_Interp.thy ===== *)
theory Evm_Interp
  imports Evm_Tables
begin

text \<open>
  The interpreter: message calls, contract creation, the instructions that start them, and the
  loop (\<^verbatim>\<open>interpreter.go\<close>, the call instructions of \<^verbatim>\<open>instructions.go\<close>, and
  \<^verbatim>\<open>opcode_rvcreate.go\<close>).  A call instruction runs the callee with the function \<open>run\<close> it is
  given; the loop passes itself.  An instruction uses one unit of fuel, and the callees it starts
  begin with what is left.
\<close>

section \<open>Addresses of new contracts\<close>

text \<open>The loop of \<open>uintToMinBytes\<close>, from index \<open>i - 1\<close> down.\<close>

fun min_bytes_loop :: "nat \<Rightarrow> u64 \<Rightarrow> bytes \<Rightarrow> nat \<Rightarrow> bytes \<times> nat" where
  "min_bytes_loop 0 v buf n = (buf, n)"
| "min_bytes_loop (Suc i) v buf n =
     (let buf = buf[i := ucast v]; n = (if buf ! i \<noteq> 0 \<or> n > 0 then 8 - i else n) in
      min_bytes_loop i (drop_bit 8 v) buf n)"

definition uintToMinBytes :: "u64 \<Rightarrow> bytes" where
  "uintToMinBytes v =
     (if v = 0 then []
      else let (buf, n) = min_bytes_loop 8 v (replicate 8 0) 0 in drop (8 - n) buf)"

definition encodeRLPBytes :: "bytes \<Rightarrow> bytes" where
  "encodeRLPBytes b =
     (if length b = 1 \<and> b ! 0 < 0x80 then b
      else if length b < 56 then of_nat (0x80 + length b) # b
      else
        let lenBytes = uintToMinBytes (u64_len b) in
        of_nat (0xb7 + length lenBytes) # lenBytes @ b)"

definition encodeRLPUint :: "u64 \<Rightarrow> bytes" where
  "encodeRLPUint v =
     (if v = 0 then [0x80]
      else if v < 128 then [ucast v]
      else let b = uintToMinBytes v in of_nat (0x80 + length b) # b)"

definition wrapRLPList :: "bytes \<Rightarrow> bytes" where
  "wrapRLPList payload =
     (if length payload < 56 then of_nat (0xc0 + length payload) # payload
      else
        let lenBytes = uintToMinBytes (u64_len payload) in
        of_nat (0xf7 + length lenBytes) # lenBytes @ payload)"

definition createAddress :: "evm_env \<Rightarrow> address \<Rightarrow> u64 \<Rightarrow> address" where
  "createAddress E caller nonce =
     (let payload = encodeRLPBytes (address_bytes caller) @ encodeRLPUint nonce in
      BytesToAddress (drop 12 (Keccak256 E (wrapRLPList payload))))"

definition create2Address :: "evm_env \<Rightarrow> address \<Rightarrow> int \<Rightarrow> bytes \<Rightarrow> address option" where
  "create2Address E caller salt initCodeHash =
     do { saltBytes \<leftarrow> pad32 salt;
          Some (BytesToAddress (drop 12 (Keccak256 E (0xff # address_bytes caller @ saltBytes @ initCodeHash)))) }"

definition IsRVCode :: "bytes \<Rightarrow> bool" where
  "IsRVCode c \<longleftrightarrow> length c \<ge> 3 \<and> c ! 0 = 0xFE \<and> c ! 1 = 0x52 \<and> c ! 2 = 0x56"

definition rvCreateAddress :: "evm_env \<Rightarrow> address \<Rightarrow> bytes \<Rightarrow> address" where
  "rvCreateAddress E src initcode =
     (let salt = Keccak256 E ([0xFE, 0x52, 0x56] @ initcode); codeHash = Keccak256 E initcode in
      BytesToAddress (drop 12 (Keccak256 E (0xff # address_bytes src @ salt @ codeHash))))"

section \<open>Calls\<close>

type_synonym run_result = "((bytes \<times> vm_error option) \<times> contract \<times> evm) exec"
type_synonym run_fn = "contract \<Rightarrow> bytes \<Rightarrow> evm \<Rightarrow> run_result"
type_synonym call_result = "((bytes \<times> u64 \<times> vm_error option) \<times> evm) exec"

definition no_state :: vm_error where
  "no_state = ErrNew ''no state database''"

definition insufficient :: vm_error where
  "insufficient = ErrNew ''insufficient balance for transfer''"

definition revert_db :: "int \<Rightarrow> evm \<Rightarrow> evm exec" where
  "revert_db sid e =
     (case StateDB e of
        None \<Rightarrow> Crash
      | Some s \<Rightarrow> (case RevertToSnapshot sid s of None \<Rightarrow> Crash | Some s \<Rightarrow> Done (set_db s e)))"

text \<open>\<open>evm.depth++\<close>, \<open>Run\<close>, \<open>evm.depth--\<close>\<close>

definition run_deeper :: "run_fn \<Rightarrow> run_fn" where
  "run_deeper run c input e =
     exec_bind (run c input (e\<lparr>depth := depth e + 1\<rparr>)) (\<lambda>(r, c, e). Done (r, c, e\<lparr>depth := depth e - 1\<rparr>))"

text \<open>What follows a run: an error reverts the state, and one that is not a revert takes all gas.\<close>

fun settle_call :: "int \<Rightarrow> (bytes \<times> vm_error option) \<times> contract \<times> evm \<Rightarrow> call_result" where
  "settle_call sid ((ret, None), c, e) = Done ((ret, Gas c, None), e)"
| "settle_call sid ((ret, Some err), c, e) =
     exec_bind (revert_db sid e)
       (\<lambda>e. Done ((ret, if err = ErrExecutionReverted then Gas c else 0, Some err), e))"

definition call_contract :: "statedb \<Rightarrow> address \<Rightarrow> address \<Rightarrow> address \<Rightarrow> int option \<Rightarrow> u64 \<Rightarrow> contract" where
  "call_contract s caller self addr value gas =
     (NewContract caller self value gas)\<lparr>Code := GetCode addr s, C_CodeHash := GetCodeHash addr s\<rparr>"

text \<open>The transfer of \<open>Call\<close> and of \<open>create\<close>, with its tracking and log.\<close>

definition transfer_value :: "bool \<Rightarrow> address \<Rightarrow> address \<Rightarrow> int \<Rightarrow> statedb \<Rightarrow> evm \<Rightarrow> evm exec" where
  "transfer_value both caller addr value s e =
     (let callerPreBal = GetBalance caller s; addrPreBal = GetBalance addr s;
          s = AddBalance addr value (SubBalance caller value s);
          e = track (RecordBalanceChange caller callerPreBal (GetBalance caller s)) e;
          e = (if both then track (RecordBalanceChange addr addrPreBal (GetBalance addr s)) e else e) in
      if IsEIP7708 (forkRules e) \<and> both then
        exec_bind (of_option (EmitTransferLog caller addr value s)) (\<lambda>s. Done (set_db s e))
      else Done (set_db s e))"

text \<open>
  A contract that is RISC-V code runs on the emulator.  A run that would not end is \<open>NoFuel\<close>.
\<close>

definition runRVContract :: "evm_env \<Rightarrow> nat \<Rightarrow> bytes \<Rightarrow> bytes \<Rightarrow> u64 \<Rightarrow> (bytes \<times> u64 \<times> vm_error option) exec" where
  "runRVContract E fuel c input gas =
     (let program = drop 3 c in
      if length program = 0 then Done ([], gas, None)
      else case RunPrecompileGuestProgram (Crypto E) fuel program input gas of
          None \<Rightarrow> NoFuel
        | Some Panic \<Rightarrow> Crash
        | Some (Err err) \<Rightarrow> Done ([], 0, Some (ErrRvExecution err))
        | Some (Ok out) \<Rightarrow>
            let charged = of_nat (length program div 4) * 200 in
            if charged > gas then Done ([], 0, Some ErrOutOfGas) else Done (out, gas - charged, None))"

text \<open>A finished execution outside the interpreter loop: an error reverts.\<close>

definition settle_other :: "int \<Rightarrow> evm \<Rightarrow> bytes \<times> u64 \<times> vm_error option \<Rightarrow> call_result" where
  "settle_other sid e r =
     (case r of
        (ret, gasLeft, None) \<Rightarrow> Done (r, e)
      | (ret, gasLeft, Some err) \<Rightarrow> exec_bind (revert_db sid e) (\<lambda>e. Done (r, e)))"

text \<open>The part of \<open>Call\<close> after the transfer.\<close>

definition call_code ::
    "evm_env \<Rightarrow> nat \<Rightarrow> run_fn \<Rightarrow> int \<Rightarrow> address \<Rightarrow> address \<Rightarrow> bytes \<Rightarrow> u64 \<Rightarrow> int option \<Rightarrow> evm \<Rightarrow> call_result" where
  "call_code E fuel run sid caller addr input gas value e =
     (case (precompile E e addr, StateDB e) of
        (_, None) \<Rightarrow> Crash
      | (Some p, _) \<Rightarrow> settle_other sid e (runPrecompile p input gas)
      | (None, Some s) \<Rightarrow>
          let c = GetCode addr s in
          if length c = 0 then Done (([], gas, None), e)
          else if IsIPlus (forkRules e) \<and> IsRVCode c then
            exec_bind (runRVContract E fuel c input gas) (settle_other sid e)
          else
            let ct = (call_contract s caller addr addr value gas)\<lparr>StateGasReservoir := callReservoirForward e\<rparr> in
            exec_bind (run_deeper run ct input (e\<lparr>callReservoirForward := 0\<rparr>))
              (\<lambda>((ret, err), ct, e).
                 let reservoir = (if err = None \<or> err = Some ErrExecutionReverted then StateGasReservoir ct else 0) in
                 settle_call sid ((ret, err), ct, e\<lparr>callReservoirReturn := reservoir\<rparr>)))"

definition Call ::
    "evm_env \<Rightarrow> nat \<Rightarrow> run_fn \<Rightarrow> address \<Rightarrow> address \<Rightarrow> bytes \<Rightarrow> u64 \<Rightarrow> int option \<Rightarrow> evm \<Rightarrow> call_result" where
  "Call E fuel run caller addr input gas value e =
     (if depth e > MaxCallDepth e then Done (([], gas, Some ErrMaxCallDepthExceeded), e)
      else
        let v = or_zero value; transfersValue = v > 0 in
        case StateDB e of
          None \<Rightarrow> Done (([], gas, Some no_state), e)
        | Some s \<Rightarrow>
            if transfersValue \<and> GetBalance caller s < v then Done (([], gas, Some insufficient), e)
            else
              let (sid, s) = Snapshot s; e = set_db s e in
              if \<not> Exist addr s \<and> precompile E e addr = None \<and> IsEIP158 (forkRules e) \<and> \<not> transfersValue
              then Done (([], gas, None), e)
              else
                let s = (if Exist addr s then s else CreateAccount addr s) in
                if transfersValue \<and> readOnly e then Done (([], gas, Some ErrWriteProtection), set_db s e)
                else
                  exec_bind (if transfersValue then transfer_value (caller \<noteq> addr) caller addr v s e else Done (set_db s e))
                    (call_code E fuel run sid caller addr input gas value))"

text \<open>
  \<open>CallCode\<close> and \<open>DelegateCall\<close>: the code of \<open>addr\<close> in the context of \<open>caller\<close>.
\<close>

definition call_in_context :: "evm_env \<Rightarrow> run_fn \<Rightarrow> address \<Rightarrow> address \<Rightarrow> bytes \<Rightarrow> u64 \<Rightarrow> int option \<Rightarrow> evm \<Rightarrow> call_result" where
  "call_in_context E run caller addr input gas value e =
     (if depth e > MaxCallDepth e then Done (([], gas, Some ErrMaxCallDepthExceeded), e)
      else case precompile E e addr of
          Some p \<Rightarrow> Done (runPrecompile p input gas, e)
        | None \<Rightarrow>
            (case StateDB e of
               None \<Rightarrow> Done (([], gas, Some no_state), e)
             | Some s \<Rightarrow>
                 let (sid, s) = Snapshot s; e = set_db s e in
                 if length (GetCode addr s) = 0 then Done (([], gas, None), e)
                 else exec_bind (run_deeper run (call_contract s caller caller addr value gas) input e) (settle_call sid)))"

definition CallCode :: "evm_env \<Rightarrow> run_fn \<Rightarrow> address \<Rightarrow> address \<Rightarrow> bytes \<Rightarrow> u64 \<Rightarrow> int \<Rightarrow> evm \<Rightarrow> call_result" where
  "CallCode E run caller addr input gas value = call_in_context E run caller addr input gas (Some value)"

definition DelegateCall :: "evm_env \<Rightarrow> run_fn \<Rightarrow> address \<Rightarrow> address \<Rightarrow> bytes \<Rightarrow> u64 \<Rightarrow> evm \<Rightarrow> call_result" where
  "DelegateCall E run caller addr input gas = call_in_context E run caller addr input gas None"

definition StaticCall :: "evm_env \<Rightarrow> run_fn \<Rightarrow> address \<Rightarrow> address \<Rightarrow> bytes \<Rightarrow> u64 \<Rightarrow> evm \<Rightarrow> call_result" where
  "StaticCall E run caller addr input gas e =
     (if depth e > MaxCallDepth e then Done (([], gas, Some ErrMaxCallDepthExceeded), e)
      else case StateDB e of
          None \<Rightarrow> Done (([], gas, Some no_state), e)
        | Some s \<Rightarrow>
            let prevReadOnly = readOnly e; (sid, s) = Snapshot s; e = set_db s (e\<lparr>readOnly := True\<rparr>) in
            exec_bind
              (case precompile E e addr of
                 Some p \<Rightarrow> settle_other sid e (runPrecompile p input gas)
               | None \<Rightarrow>
                   if length (GetCode addr s) = 0 then Done (([], gas, None), e)
                   else exec_bind (run_deeper run (call_contract s caller addr addr (Some 0) gas) input e) (settle_call sid))
              (\<lambda>(r, e). Done (r, e\<lparr>readOnly := prevReadOnly\<rparr>)))"

section \<open>Creation\<close>

type_synonym create_result = "((bytes \<times> address \<times> u64 \<times> vm_error option) \<times> evm) exec"

text \<open>After the init code: its return value becomes the code.\<close>

definition deposit_code ::
    "evm_env \<Rightarrow> int \<Rightarrow> address \<Rightarrow> bytes \<Rightarrow> u64 \<Rightarrow> evm \<Rightarrow> create_result" where
  "deposit_code E sid contractAddr ret gas e =
     (if length ret > 0 then
        if int (length ret) > MaxCodeSizeForFork (forkRules e) then
          exec_bind (revert_db sid e) (\<lambda>e. Done (([], 0, 0, Some (ErrNew ''max code size exceeded'')), e))
        else
          let depositCost = u64_len ret * CreateDataGas in
          if gas < depositCost then exec_bind (revert_db sid e) (\<lambda>e. Done (([], 0, 0, Some ErrOutOfGas), e))
          else Done ((ret, contractAddr, gas - depositCost, None), on_db (SetCode (Keccak256 E) contractAddr ret) e)
      else Done ((ret, contractAddr, gas, None), e))"

text \<open>The run of the init code with 63/64 of the gas.\<close>

definition run_init ::
    "evm_env \<Rightarrow> run_fn \<Rightarrow> int \<Rightarrow> address \<Rightarrow> bytes \<Rightarrow> u64 \<Rightarrow> int \<Rightarrow> address \<Rightarrow> evm \<Rightarrow> create_result" where
  "run_init E run sid caller c gas value contractAddr e =
     (let callGas = gas - gas div CallGasFraction; gas = gas - callGas in
      exec_bind (run_deeper run ((NewContract caller contractAddr (Some value) callGas)\<lparr>Code := c\<rparr>) [] e)
        (\<lambda>((ret, err), ct, e).
           case err of
             None \<Rightarrow> deposit_code E sid contractAddr ret (gas + Gas ct) e
           | Some err \<Rightarrow>
               exec_bind (revert_db sid e)
                 (\<lambda>e. Done ((ret, 0, if err = ErrExecutionReverted then gas + Gas ct else gas, Some err), e))))"

definition create ::
    "evm_env \<Rightarrow> run_fn \<Rightarrow> address \<Rightarrow> bytes \<Rightarrow> u64 \<Rightarrow> int \<Rightarrow> address \<Rightarrow> statedb \<Rightarrow> evm \<Rightarrow> create_result" where
  "create E run caller c gas value contractAddr s e =
     (if int (length c) > MaxInitCodeSizeForFork (forkRules e)
      then Done (([], 0, gas, Some ErrMaxInitCodeSizeExceeded), set_db s e)
      else
        let contractHash = GetCodeHash contractAddr s in
        if GetNonce contractAddr s \<noteq> 0 \<or> contractHash \<noteq> 0 \<and> contractHash \<noteq> EmptyCodeHash
        then Done (([], 0, 0, Some (ErrNew ''contract address collision'')), set_db s e)
        else
          let s = AddAddressToAccessList contractAddr s; (sid, s) = Snapshot s;
              s = (if Exist contractAddr s then s else CreateAccount contractAddr s);
              s = SetNonce contractAddr 1 s in
          if value > 0 \<and> GetBalance caller s < value
          then Done (([], 0, gas, Some insufficient), set_db s e)
          else
            exec_bind (if value > 0 then transfer_value True caller contractAddr value s e else Done (set_db s e))
              (run_init E run sid caller c gas value contractAddr))"

definition Create :: "evm_env \<Rightarrow> run_fn \<Rightarrow> address \<Rightarrow> bytes \<Rightarrow> u64 \<Rightarrow> int \<Rightarrow> evm \<Rightarrow> create_result" where
  "Create E run caller c gas value e =
     (if depth e > MaxCallDepth e then Done (([], 0, gas, Some ErrMaxCallDepthExceeded), e)
      else if readOnly e then Done (([], 0, gas, Some ErrWriteProtection), e)
      else case StateDB e of
          None \<Rightarrow> Done (([], 0, gas, Some no_state), e)
        | Some s \<Rightarrow>
            let nonce = GetNonce caller s in
            create E run caller c gas value (createAddress E caller nonce) (SetNonce caller (nonce + 1) s) e)"

definition Create2 :: "evm_env \<Rightarrow> run_fn \<Rightarrow> address \<Rightarrow> bytes \<Rightarrow> u64 \<Rightarrow> int \<Rightarrow> int \<Rightarrow> evm \<Rightarrow> create_result" where
  "Create2 E run caller c gas endowment salt e =
     (if depth e > MaxCallDepth e then Done (([], 0, gas, Some ErrMaxCallDepthExceeded), e)
      else if readOnly e then Done (([], 0, gas, Some ErrWriteProtection), e)
      else case StateDB e of
          None \<Rightarrow> Done (([], 0, gas, Some no_state), e)
        | Some s \<Rightarrow>
            exec_bind (of_option (create2Address E caller salt (Keccak256 E c)))
              (\<lambda>contractAddr. create E run caller c gas endowment contractAddr s e))"

section \<open>Call and create instructions\<close>

type_synonym op_result = "((bytes \<times> vm_error option) \<times> frame \<times> evm) exec"

text \<open>
  The end that the four call instructions share: unused gas goes back to the caller, the
  result is pushed, and the return data is copied to memory.
\<close>

definition finish_call :: "int \<Rightarrow> int \<Rightarrow> frame \<Rightarrow> (bytes \<times> u64 \<times> vm_error option) \<times> evm \<Rightarrow> op_result" where
  "finish_call retOffset retSize f r =
     (case r of ((ret, returnGas, err), e) \<Rightarrow>
        let c = the_contract f;
            f = push (if err \<noteq> None then 0 else 1) (f\<lparr>the_contract := c\<lparr>Gas := Gas c + returnGas\<rparr>\<rparr>);
            e = e\<lparr>returnData := ret\<rparr> in
        if (err = None \<or> err = Some ErrExecutionReverted) \<and> Uint64 retSize > 0 \<and> length ret > 0 then
          let retLen = (if u64_len ret < Uint64 retSize then u64_len ret else Uint64 retSize) in
          exec_bind (of_option (set_mem (Uint64 retOffset) retLen (take (unat retLen) ret) f))
            (\<lambda>f. Done (([], None), f, e))
        else Done (([], None), f, e))"

definition opCall :: "evm_env \<Rightarrow> nat \<Rightarrow> run_fn \<Rightarrow> evm \<Rightarrow> frame \<Rightarrow> op_result" where
  "opCall E fuel run e f =
     (case stack f of
        gas # a # value # inOffset # inSize # retOffset # retSize # st \<Rightarrow>
          let addr = bigToAddress a; e = track (RecordAddressTouch addr) e; f = f\<lparr>stack := st\<rparr>; c = the_contract f in
          exec_bind (of_option (mem_at inOffset inSize f)) (\<lambda>args.
            let callGas = (if value > 0 then callGasTemp e + CallStipend else callGasTemp e);
                e = e\<lparr>callReservoirForward := StateGasReservoir c\<rparr>;
                f = f\<lparr>the_contract := c\<lparr>StateGasReservoir := 0\<rparr>\<rparr> in
            exec_bind (Call E fuel run (C_Address c) addr args callGas (Some value) e) (\<lambda>(r, e).
              let c = the_contract f;
                  f = f\<lparr>the_contract := c\<lparr>StateGasReservoir := StateGasReservoir c + callReservoirReturn e\<rparr>\<rparr> in
              finish_call retOffset retSize f (r, e\<lparr>callReservoirReturn := 0\<rparr>)))
      | _ \<Rightarrow> Crash)"

definition opCallCode :: "evm_env \<Rightarrow> run_fn \<Rightarrow> evm \<Rightarrow> frame \<Rightarrow> op_result" where
  "opCallCode E run e f =
     (case stack f of
        gas # a # value # inOffset # inSize # retOffset # retSize # st \<Rightarrow>
          let addr = bigToAddress a; e = track (RecordAddressTouch addr) e; f = f\<lparr>stack := st\<rparr> in
          exec_bind (of_option (mem_at inOffset inSize f)) (\<lambda>args.
            let callGas = (if value > 0 then callGasTemp e + CallStipend else callGasTemp e) in
            exec_bind (CallCode E run (C_Address (the_contract f)) addr args callGas value e)
              (finish_call retOffset retSize f))
      | _ \<Rightarrow> Crash)"

definition opDelegateCall :: "evm_env \<Rightarrow> run_fn \<Rightarrow> evm \<Rightarrow> frame \<Rightarrow> op_result" where
  "opDelegateCall E run e f =
     (case stack f of
        gas # a # inOffset # inSize # retOffset # retSize # st \<Rightarrow>
          let addr = bigToAddress a; e = track (RecordAddressTouch addr) e; f = f\<lparr>stack := st\<rparr> in
          exec_bind (of_option (mem_at inOffset inSize f)) (\<lambda>args.
            exec_bind (DelegateCall E run (CallerAddress (the_contract f)) addr args (callGasTemp e) e)
              (finish_call retOffset retSize f))
      | _ \<Rightarrow> Crash)"

definition opStaticCall :: "evm_env \<Rightarrow> run_fn \<Rightarrow> evm \<Rightarrow> frame \<Rightarrow> op_result" where
  "opStaticCall E run e f =
     (case stack f of
        gas # a # inOffset # inSize # retOffset # retSize # st \<Rightarrow>
          let addr = bigToAddress a; e = track (RecordAddressTouch addr) e; f = f\<lparr>stack := st\<rparr> in
          exec_bind (of_option (mem_at inOffset inSize f)) (\<lambda>args.
            exec_bind (StaticCall E run (C_Address (the_contract f)) addr args (callGasTemp e) e)
              (finish_call retOffset retSize f))
      | _ \<Rightarrow> Crash)"

text \<open>The end that the two create instructions share.\<close>

definition finish_create :: "frame \<Rightarrow> (bytes \<times> address \<times> u64 \<times> vm_error option) \<times> evm \<Rightarrow> op_result" where
  "finish_create f r =
     (case r of ((ret, addr, returnGas, err), e) \<Rightarrow>
        let c = the_contract f; f = f\<lparr>the_contract := c\<lparr>Gas := Gas c + returnGas\<rparr>\<rparr>; e = e\<lparr>returnData := ret\<rparr> in
        if err \<noteq> None then Done (([], None), push 0 f, e)
        else Done (([], None), push (uint addr) f, track (RecordAddressTouch addr) e))"

definition opCreate :: "evm_env \<Rightarrow> run_fn \<Rightarrow> evm \<Rightarrow> frame \<Rightarrow> op_result" where
  "opCreate E run e f =
     (if readOnly e then Done (([], Some ErrWriteProtection), f, e)
      else case stack f of
        value # offset # sz # st \<Rightarrow>
          let f = f\<lparr>stack := st\<rparr>; c = the_contract f in
          exec_bind (of_option (mem_at offset sz f)) (\<lambda>initCode.
            exec_bind (Create E run (C_Address c) initCode (Gas c) value e)
              (finish_create (f\<lparr>the_contract := c\<lparr>Gas := 0\<rparr>\<rparr>)))
      | _ \<Rightarrow> Crash)"

definition opCreate2 :: "evm_env \<Rightarrow> run_fn \<Rightarrow> evm \<Rightarrow> frame \<Rightarrow> op_result" where
  "opCreate2 E run e f =
     (if readOnly e then Done (([], Some ErrWriteProtection), f, e)
      else case stack f of
        value # offset # sz # salt # st \<Rightarrow>
          let f = f\<lparr>stack := st\<rparr>; c = the_contract f in
          exec_bind (of_option (mem_at offset sz f)) (\<lambda>initCode.
            exec_bind (Create2 E run (C_Address c) initCode (Gas c) value salt e)
              (finish_create (f\<lparr>the_contract := c\<lparr>Gas := 0\<rparr>\<rparr>)))
      | _ \<Rightarrow> Crash)"

text \<open>\<open>RegisterGuest\<close> of \<^verbatim>\<open>src/pkg/zkvm/canonical.go\<close>; the instruction ignores its errors.\<close>

definition RegisterGuest :: "evm_env \<Rightarrow> bytes \<Rightarrow> (hash, bytes) fmap \<Rightarrow> (hash, bytes) fmap" where
  "RegisterGuest E program m =
     (if length program = 0 then m
      else
        let h = BytesToHash (Keccak256 E program) in
        if fmlookup m h \<noteq> None then m else fmupd h program m)"

definition opRVCreate :: "evm_env \<Rightarrow> evm \<Rightarrow> frame \<Rightarrow> op_result" where
  "opRVCreate E e f =
     (if readOnly e then Done (([], Some ErrWriteProtection), f, e)
      else case stack f of
        value # offset # sz # st \<Rightarrow>
          let f = f\<lparr>stack := st\<rparr>; self = C_Address (the_contract f) in
          exec_bind (of_option (mem_at offset sz f)) (\<lambda>initCode.
            if \<not> IsRVCode initCode then Done (([], None), push 0 f, e)
            else
              let addr = rvCreateAddress E self initCode in
              if length initCode < 4 \<or> length initCode mod 4 \<noteq> 0 then Done (([], None), push 0 f, e)
              else case StateDB e of
                  None \<Rightarrow> Done (([], None), push 0 f, e)
                | Some s \<Rightarrow>
                    let s = (if Exist addr s then s else CreateAccount addr s);
                        s = SetCode (Keccak256 E) addr initCode s in
                    if value > 0 \<and> GetBalance self s < value then Done (([], None), push 0 f, set_db s e)
                    else
                      let s = (if value > 0 then AddBalance addr value (SubBalance self value s) else s);
                          e = set_db s (e\<lparr>guestRegistry := map_option (RegisterGuest E initCode) (guestRegistry e)\<rparr>) in
                      Done (([], None), push (uint addr) f, track (RecordAddressTouch addr) e))
      | _ \<Rightarrow> Crash)"

section \<open>The loop\<close>

definition exec_frame :: "frame_fn \<Rightarrow> evm \<Rightarrow> frame \<Rightarrow> op_result" where
  "exec_frame g e f = exec_bind (of_option (g f)) (\<lambda>(r, f). Done (r, f, e))"

definition exec_stack :: "(int list \<Rightarrow> int list option) \<Rightarrow> evm \<Rightarrow> frame \<Rightarrow> op_result" where
  "exec_stack g e f =
     exec_bind (of_option (g (stack f))) (\<lambda>st. Done (([], None), f\<lparr>stack := st\<rparr>, e))"

fun run_op :: "evm_env \<Rightarrow> nat \<Rightarrow> run_fn \<Rightarrow> exec_fn \<Rightarrow> evm \<Rightarrow> frame \<Rightarrow> op_result" where
  "run_op E fuel run (StackFn g) e f = exec_stack g e f"
| "run_op E fuel run (FrameFn g) e f = exec_frame g e f"
| "run_op E fuel run Fn_opOrigin e f = of_option (opOrigin e f)"
| "run_op E fuel run Fn_opGasPrice e f = of_option (opGasPrice e f)"
| "run_op E fuel run Fn_opCoinbase e f = of_option (opCoinbase e f)"
| "run_op E fuel run Fn_opTimestamp e f = of_option (opTimestamp e f)"
| "run_op E fuel run Fn_opNumber e f = of_option (opNumber e f)"
| "run_op E fuel run Fn_opPrevRandao e f = of_option (opPrevRandao e f)"
| "run_op E fuel run Fn_opGasLimit e f = of_option (opGasLimit e f)"
| "run_op E fuel run Fn_opChainID e f = of_option (opChainID e f)"
| "run_op E fuel run Fn_opBaseFee e f = of_option (opBaseFee e f)"
| "run_op E fuel run Fn_opBlobHash e f = of_option (opBlobHash e f)"
| "run_op E fuel run Fn_opBlobBaseFee e f = of_option (opBlobBaseFee e f)"
| "run_op E fuel run Fn_opBlockhash e f = of_option (opBlockhash e f)"
| "run_op E fuel run Fn_opSlotNum e f = of_option (opSlotNum e f)"
| "run_op E fuel run Fn_opKeccak256 e f = of_option (opKeccak256 E e f)"
| "run_op E fuel run Fn_opReturndataSize e f = of_option (opReturndataSize e f)"
| "run_op E fuel run Fn_opReturndataCopy e f = of_option (opReturndataCopy e f)"
| "run_op E fuel run Fn_opSload e f = of_option (opSload e f)"
| "run_op E fuel run Fn_opSstore e f = of_option (opSstore e f)"
| "run_op E fuel run Fn_opSstoreGlamst e f = of_option (opSstoreGlamst e f)"
| "run_op E fuel run Fn_opSelfBalance e f = of_option (opSelfBalance e f)"
| "run_op E fuel run Fn_opBalance e f = of_option (opBalance e f)"
| "run_op E fuel run (Fn_makeLog n) e f = of_option (makeLog n e f)"
| "run_op E fuel run Fn_opExtcodesize e f = of_option (opExtcodesize e f)"
| "run_op E fuel run Fn_opExtcodecopy e f = of_option (opExtcodecopy e f)"
| "run_op E fuel run Fn_opExtcodehash e f = of_option (opExtcodehash e f)"
| "run_op E fuel run Fn_opTload e f = of_option (opTload e f)"
| "run_op E fuel run Fn_opTstore e f = of_option (opTstore e f)"
| "run_op E fuel run Fn_opSelfdestruct e f = of_option (opSelfdestruct e f)"
| "run_op E fuel run Fn_opApprove e f = of_option (opApprove e f)"
| "run_op E fuel run Fn_opTxParamLoad e f = of_option (opTxParamLoad e f)"
| "run_op E fuel run Fn_opTxParamSize e f = of_option (opTxParamSize e f)"
| "run_op E fuel run Fn_opTxParamCopy e f = of_option (opTxParamCopy e f)"
| "run_op E fuel run Fn_opCall e f = opCall E fuel run e f"
| "run_op E fuel run Fn_opCallCode e f = opCallCode E run e f"
| "run_op E fuel run Fn_opDelegateCall e f = opDelegateCall E run e f"
| "run_op E fuel run Fn_opStaticCall e f = opStaticCall E run e f"
| "run_op E fuel run Fn_opCreate e f = opCreate E run e f"
| "run_op E fuel run Fn_opCreate2 e f = opCreate2 E run e f"
| "run_op E fuel run Fn_opRVCreate e f = opRVCreate E e f"

text \<open>The memory size an instruction needs, rounded up to words; the flag is an overflow.\<close>

definition required_memory :: "operation \<Rightarrow> int list \<Rightarrow> (u64 \<times> bool) option" where
  "required_memory op st =
     (case memorySize op of
        None \<Rightarrow> Some (0, False)
      | Some m \<Rightarrow>
          do { (memSize, overflow) \<leftarrow> m st;
               Some (if overflow then (0, True) else (if memSize > 0 then (memSize + 31) div 32 * 32 else 0, False)) })"

definition dynamic_cost :: "operation \<Rightarrow> u64 \<Rightarrow> evm \<Rightarrow> contract \<Rightarrow> frame \<Rightarrow> (u64 \<times> contract \<times> evm) option" where
  "dynamic_cost op memSize e c f =
     (case dynamicGas op of None \<Rightarrow> Some (0, c, e) | Some g \<Rightarrow> dynamic_gas g e c (stack f) (mem f) memSize)"

definition grow :: "u64 \<Rightarrow> evm_memory \<Rightarrow> evm_memory" where
  "grow memSize m = (if memSize > 0 \<and> u64_len (store m) < memSize then mem_Resize memSize m else m)"

text \<open>One round of the loop: it goes on with a frame or halts with a result.\<close>

datatype step_result = Next frame evm | Halt "bytes \<times> vm_error option" contract evm

definition after_op :: "operation \<Rightarrow> (bytes \<times> vm_error option) \<times> frame \<times> evm \<Rightarrow> step_result" where
  "after_op op r =
     (case r of ((ret, err), f, e) \<Rightarrow>
        case err of
          Some er \<Rightarrow> Halt (if er = ErrExecutionReverted then ret else [], err) (the_contract f) e
        | None \<Rightarrow>
            if halts op then Halt (ret, None) (the_contract f) e
            else if jumps op then Next f e
            else Next (f\<lparr>pc := pc f + 1\<rparr>) e)"

definition step :: "evm_env \<Rightarrow> nat \<Rightarrow> run_fn \<Rightarrow> frame \<Rightarrow> evm \<Rightarrow> step_result exec" where
  "step E fuel run f e =
     (let c = the_contract f; st = stack f in
      case jumpTable e (GetOp c (pc f)) of
        None \<Rightarrow> Done (Halt ([], Some ErrInvalidOpCode) c e)
      | Some op \<Rightarrow>
          if int (length st) < minStack op then Done (Halt ([], Some ErrStackUnderflow) c e)
          else if int (length st) > maxStack op then Done (Halt ([], Some ErrStackOverflow) c e)
          else case UseGas (constantGas op) c of
              None \<Rightarrow> Done (Halt ([], Some ErrOutOfGas) c e)
            | Some c \<Rightarrow>
                exec_bind (of_option (required_memory op st)) (\<lambda>(memSize, overflow).
                  if overflow then Done (Halt ([], Some ErrOutOfGas) c e)
                  else exec_bind (of_option (dynamic_cost op memSize e c f)) (\<lambda>(cost, c, e).
                    case UseGas cost c of
                      None \<Rightarrow> Done (Halt ([], Some ErrOutOfGas) c e)
                    | Some c \<Rightarrow>
                        exec_bind (run_op E fuel run (op_execute op) e (f\<lparr>the_contract := c, mem := grow memSize (mem f)\<rparr>))
                          (\<lambda>r. Done (after_op op r)))))"

definition new_frame :: "contract \<Rightarrow> bytes \<Rightarrow> frame" where
  "new_frame c input = \<lparr>pc = 0, the_contract = c\<lparr>Input := input\<rparr>, mem = NewMemory, stack = []\<rparr>"

fun run_loop :: "evm_env \<Rightarrow> nat \<Rightarrow> frame \<Rightarrow> evm \<Rightarrow> run_result" where
  "run_loop E 0 f e = NoFuel"
| "run_loop E (Suc fuel) f e =
     exec_bind (step E fuel (\<lambda>c input e. run_loop E fuel (new_frame c input) e) f e)
       (\<lambda>r. case r of
          Halt res c e \<Rightarrow> Done (res, c, e)
        | Next f e \<Rightarrow> run_loop E fuel f e)"

definition Run :: "evm_env \<Rightarrow> nat \<Rightarrow> run_fn" where
  "Run E fuel c input e = run_loop E fuel (new_frame c input) e"

section \<open>Construction\<close>

definition no_rules :: fork_rules where
  "no_rules =
     \<lparr>IsVerkle = False, IsGlamsterdan = False, IsPrague = False, IsCancun = False, IsShanghai = False,
      IsMerge = False, IsLondon = False, IsBerlin = False, IsIstanbul = False, IsConstantinople = False,
      IsByzantium = False, IsHomestead = False, IsEIP158 = False, IsEIP7708 = False, IsEIP7954 = False,
      IsIPlus = False\<rparr>"

definition NewEVM :: "block_context \<Rightarrow> tx_context \<Rightarrow> int \<Rightarrow> evm" where
  "NewEVM blockCtx txCtx maxCallDepth =
     \<lparr>Context = blockCtx, TxContext = txCtx, MaxCallDepth = (if maxCallDepth = 0 then 1024 else maxCallDepth),
      StateDB = None, chainID = 0, depth = 0, readOnly = False, jumpTable = NewCancunJumpTable,
      precompiles = None, returnData = [], callGasTemp = 0, callReservoirForward = 0,
      callReservoirReturn = 0, dimGasUsage = None, witnessGas = None, balTracker = None, txIndex = 0,
      forkRules = no_rules, FrameCtx = None, guestRegistry = None\<rparr>"

definition NewEVMWithState :: "block_context \<Rightarrow> tx_context \<Rightarrow> int \<Rightarrow> statedb option \<Rightarrow> evm" where
  "NewEVMWithState blockCtx txCtx maxCallDepth db = (NewEVM blockCtx txCtx maxCallDepth)\<lparr>StateDB := db\<rparr>"

definition PreWarmAccessList :: "address \<Rightarrow> address option \<Rightarrow> evm \<Rightarrow> evm" where
  "PreWarmAccessList sender to e =
     on_db (\<lambda>s.
       let s = AddAddressToAccessList sender s;
           s = (case to of None \<Rightarrow> s | Some a \<Rightarrow> AddAddressToAccessList a s) in
       fold (\<lambda>i. AddAddressToAccessList (BytesToAddress [of_nat i])) [1..<0x14] s) e"

end
