(* ===== verification/State_Partial.thy ===== *)
theory State_Partial
  imports State_Revert
begin

text \<open>
  Reverts that may panic.  Writes of zero to transient storage break the total contract of
  \<open>State_Revert\<close>, but a revert that does not panic still restores the state.  The same
  contract \<open>undo_log\<close> is interpreted on optional states, where \<open>None\<close> is a panic that absorbs
  everything, and then covers all operations of the database.
\<close>

section \<open>Optional states\<close>

fun undo_opt :: "journal_entry \<Rightarrow> statedb option \<Rightarrow> statedb option option" where
  "undo_opt e None = Some None"
| "undo_opt e (Some s) = Some (revert_entry e s)"

fun restored_opt :: "statedb option \<Rightarrow> statedb option \<Rightarrow> bool" where
  "restored_opt x None = True"
| "restored_opt None (Some t) = False"
| "restored_opt (Some s) (Some t) = restored s t"

definition valid_opt :: "statedb option \<Rightarrow> bool" where
  "valid_opt x = (case x of None \<Rightarrow> True | Some s \<Rightarrow> db_valid s)"

interpretation pdb: undo_log undo_opt restored_opt valid_opt
proof
  show "valid_opt x \<Longrightarrow> restored_opt x x" for x
    by (cases x) (simp_all add: valid_opt_def db.sim_refl)
  show "restored_opt x y \<Longrightarrow> restored_opt y z \<Longrightarrow> restored_opt x z" for x y z
    by (cases x; cases y; cases z) (auto intro: db.sim_trans)
  show "restored_opt x y \<Longrightarrow> valid_opt y" for x y
    by (cases x; cases y) (auto simp: valid_opt_def intro: db.sim_valid)
qed

lemma revert_entries_opt_None [simp]: "revert_entries undo_opt es None = Some None"
  by (induction es) auto

lemma revert_entries_opt [simp]: "revert_entries undo_opt es (Some t) = Some (revert_entries revert_entry es t)"
  by (induction es arbitrary: t) (auto split: option.split)

lemma undoes_opt:
  "pdb.undoes es (Some s) (Some s') \<longleftrightarrow>
     (\<forall>t t'. restored s' t \<longrightarrow> revert_entries revert_entry es t = Some t' \<longrightarrow> restored s t')"
proof
  assume "pdb.undoes es (Some s) (Some s')"
  then show "\<forall>t t'. restored s' t \<longrightarrow> revert_entries revert_entry es t = Some t' \<longrightarrow> restored s t'"
    unfolding pdb.undoes_def by (metis option.inject restored_opt.simps(3) revert_entries_opt)
next
  assume *: "\<forall>t t'. restored s' t \<longrightarrow> revert_entries revert_entry es t = Some t' \<longrightarrow> restored s t'"
  show "pdb.undoes es (Some s) (Some s')"
    unfolding pdb.undoes_def
  proof (intro allI impI)
    fix t assume "restored_opt (Some s') t"
    then show "\<exists>t'. revert_entries undo_opt es t = Some t' \<and> restored_opt (Some s) t'"
      using * by (cases t; cases "revert_entries revert_entry es (the t)") auto
  qed
qed

lemma undoes_partial: "db.undoes es s s' \<Longrightarrow> pdb.undoes es (Some s) (Some s')"
  unfolding undoes_opt db.undoes_def by fastforce

section \<open>The invariant of a database in use\<close>

text \<open>
  \<open>h\<close> lists the live snapshots, newest first, \<open>I\<close> the ids they are among.  A database in use may
  hold other ids in its table, those of snapshots that no one will revert to.
\<close>

definition pdb_on :: "int set \<Rightarrow> statedb \<Rightarrow> (int \<times> statedb option \<times> journal_entry list) list \<Rightarrow> bool" where
  "pdb_on I s h = pdb.log_on I (db_journal s) (Some s) h"

definition pdb_inv :: "statedb \<Rightarrow> (int \<times> statedb option \<times> journal_entry list) list \<Rightarrow> bool" where
  "pdb_inv s h \<longleftrightarrow> (\<exists>I. pdb_on I s h)"

lemma pdb_inv_valid: "pdb_inv s h \<Longrightarrow> db_valid s"
  by (auto simp: pdb_inv_def pdb_on_def pdb.log_on_def valid_opt_def)

lemma pdb_on_valid: "pdb_on I s h \<Longrightarrow> db_valid s"
  using pdb_inv_valid unfolding pdb_inv_def by blast

lemma pdb_on_new: "pdb_on UNIV NewMemoryStateDB []"
  unfolding pdb_on_def pdb.log_inv_on [symmetric] NewMemoryStateDB_def
  by (simp add: pdb.log_inv_new valid_opt_def db_valid_def)

text \<open>A journaled change.\<close>

definition plogged :: "statedb \<Rightarrow> statedb \<Rightarrow> bool" where
  "plogged s s' \<longleftrightarrow> db_valid s' \<and>
     (\<exists>d. db_journal s' = (db_journal s)\<lparr>entries := d @ entries (db_journal s)\<rparr> \<and>
        pdb.undoes d (Some s) (Some s'))"

lemma pdb_on_logged: "pdb_on I s h \<Longrightarrow> plogged s s' \<Longrightarrow> pdb_on I s' h"
  unfolding pdb_on_def plogged_def
  by (metis pdb.log_on_step valid_opt_def option.simps(5))

lemma pdb_inv_logged: "pdb_inv s h \<Longrightarrow> plogged s s' \<Longrightarrow> pdb_inv s' h"
  unfolding pdb_inv_def using pdb_on_logged by blast

lemma pdb_on_journal: "pdb.log_on I j (Some s) h \<Longrightarrow> pdb.log_on I j (Some (s\<lparr>db_journal := j'\<rparr>)) h"
  using pdb.linked_sim [of h "entries j" "Some s" "Some (s\<lparr>db_journal := j'\<rparr>)"] db.sim_refl [of s]
  by (auto simp: pdb.log_on_def valid_opt_def db_valid_def)

text \<open>A change past the journal: the snapshots taken so far are given up.\<close>

lemma pdb_inv_restart: "pdb_inv s h \<Longrightarrow> db_valid s' \<Longrightarrow> db_journal s' = db_journal s \<Longrightarrow> pdb_inv s' []"
  using pdb.log_on_restart [of _ "db_journal s" "Some s" h "Some s'"] unfolding pdb_inv_def pdb_on_def
  by (auto simp: valid_opt_def)

lemma pdb_on_snapshot:
  "pdb_on I s h \<Longrightarrow> pdb_on I (snd (Snapshot s)) ((fst (Snapshot s), Some s, entries (db_journal s)) # h)"
  using pdb.log_on_snapshot [of I "db_journal s" "Some s" h]
  by (auto simp: pdb_on_def Snapshot_def journal_snapshot_def Let_def intro: pdb_on_journal)

lemma pdb_inv_snapshot:
  "pdb_inv s h \<Longrightarrow> pdb_inv (snd (Snapshot s)) ((fst (Snapshot s), Some s, entries (db_journal s)) # h)"
  unfolding pdb_inv_def using pdb_on_snapshot by blast

text \<open>A revert to a live snapshot that does not panic.\<close>

lemma revert_opt:
  assumes "RevertToSnapshot sid s = Some s'"
    and "revertToSnapshot undo_opt sid (db_journal s) (Some s) = Some (j, x)"
  shows "\<exists>t. x = Some t \<and> s' = t\<lparr>db_journal := j\<rparr>"
  using assms by (auto simp: RevertToSnapshot_def revertToSnapshot_def Let_def split: option.splits if_splits)

lemma pdb_on_revert_to:
  assumes inv: "pdb_on I s (h1 @ (sid, Some s0, es0) # h2)" and r: "RevertToSnapshot sid s = Some s'"
  shows "restored s0 s' \<and> pdb_on I s' h2"
proof -
  obtain j x where x: "revertToSnapshot undo_opt sid (db_journal s) (Some s) = Some (j, x)"
    "restored_opt (Some s0) x" "pdb.log_on I j x h2"
    using pdb.log_on_revert [of I "db_journal s" "Some s"] inv unfolding pdb_on_def by blast
  obtain t where t: "x = Some t" "s' = t\<lparr>db_journal := j\<rparr>" using revert_opt [OF r x(1)] by blast
  then show ?thesis using x(2,3) pdb_on_journal [of I j t h2 j] by (simp add: pdb_on_def)
qed

lemma pdb_inv_revert_to:
  assumes inv: "pdb_inv s (h1 @ (sid, Some s0, es0) # h2)" and r: "RevertToSnapshot sid s = Some s'"
  shows "restored s0 s' \<and> pdb_inv s' h2"
  using assms pdb_on_revert_to unfolding pdb_inv_def by blast

section \<open>Relations that survive reverts\<close>

text \<open>
  \<open>P s s'\<close> compares an earlier with a later state.  When it holds between a state and every
  restoration of it, it survives reverts, and so it can be followed through any
  nesting of snapshots: \<open>db_kept P\<close> also says that the live snapshots stay live.
\<close>

definition db_kept :: "(statedb \<Rightarrow> statedb \<Rightarrow> bool) \<Rightarrow> statedb \<Rightarrow> statedb \<Rightarrow> bool" where
  "db_kept P s s' \<longleftrightarrow> (\<forall>h. pdb_inv s h \<longrightarrow> P s s' \<and> (\<exists>h'. pdb_inv s' (h' @ h)))"

locale state_view =
  fixes P :: "statedb \<Rightarrow> statedb \<Rightarrow> bool"
  assumes P_trans: "\<lbrakk>P s t; P t u\<rbrakk> \<Longrightarrow> P s u"
    and P_restored: "\<lbrakk>db_valid s; restored s t\<rbrakk> \<Longrightarrow> P s t"
begin

lemma P_refl: "db_valid s \<Longrightarrow> P s s"
  by (simp add: P_restored db.sim_refl)

lemma db_kept_refl: "db_kept P s s"
  unfolding db_kept_def by (metis append_Nil P_refl pdb_inv_valid)

lemma db_kept_trans:
  assumes "db_kept P s t" "db_kept P t u"
  shows "db_kept P s u"
  unfolding db_kept_def
proof (intro allI impI)
  fix h assume "pdb_inv s h"
  then obtain h1 where h1: "P s t" "pdb_inv t (h1 @ h)" using assms(1) unfolding db_kept_def by blast
  then obtain h2 where "P t u" "pdb_inv u (h2 @ h1 @ h)" using assms(2) unfolding db_kept_def by blast
  then show "P s u \<and> (\<exists>h'. pdb_inv u (h' @ h))" using h1(1) P_trans by (metis append_assoc)
qed

lemma kept_plogged: "(db_valid s \<Longrightarrow> plogged s s' \<and> P s s') \<Longrightarrow> db_kept P s s'"
  unfolding db_kept_def by (metis append_Nil pdb_inv_logged pdb_inv_valid)

lemma kept_logged:
  assumes "logged s s'" "db_valid s \<Longrightarrow> P s s'"
  shows "db_kept P s s'"
  using assms undoes_partial by (intro kept_plogged) (auto simp: logged_def plogged_def)

lemma kept_snapshot: "db_kept P s (snd (Snapshot s))"
  unfolding db_kept_def
proof (intro allI impI)
  fix h assume inv: "pdb_inv s h"
  have "restored s (snd (Snapshot s))"
    using db.sim_refl [OF pdb_inv_valid [OF inv]] by (simp add: Snapshot_def journal_snapshot_def Let_def)
  then show "P s (snd (Snapshot s)) \<and> (\<exists>h'. pdb_inv (snd (Snapshot s)) (h' @ h))"
    using P_restored [OF pdb_inv_valid [OF inv]] pdb_inv_snapshot [OF inv] by (metis append_Cons append_Nil)
qed

lemma kept_revert:
  assumes "Snapshot s = (sid, s1)" "db_kept P s1 s2" "RevertToSnapshot sid s2 = Some s3"
  shows "db_kept P s s3"
  unfolding db_kept_def
proof (intro allI impI)
  fix h assume inv: "pdb_inv s h"
  then have "pdb_inv s1 ((sid, Some s, entries (db_journal s)) # h)"
    using pdb_inv_snapshot [OF inv] assms(1) by simp
  then obtain h' where "pdb_inv s2 (h' @ (sid, Some s, entries (db_journal s)) # h)"
    using assms(2) unfolding db_kept_def by blast
  then show "P s s3 \<and> (\<exists>h'. pdb_inv s3 (h' @ h))"
    using pdb_inv_revert_to [OF _ assms(3)] P_restored [OF pdb_inv_valid [OF inv]] by (metis append_Nil)
qed

text \<open>A revert restores, whatever the relation.\<close>

lemma revert_restored:
  assumes "Snapshot s = (sid, s1)" "db_kept P s1 s2" "RevertToSnapshot sid s2 = Some s3" "pdb_inv s h"
  shows "restored s s3"
proof -
  have "pdb_inv s1 ((sid, Some s, entries (db_journal s)) # h)"
    using pdb_inv_snapshot [OF assms(4)] assms(1) by simp
  then show ?thesis using assms(2) pdb_inv_revert_to [OF _ assms(3)] unfolding db_kept_def by blast
qed

end

section \<open>Transient storage\<close>

lemma plogged_SetTransient:
  assumes "db_valid s"
  shows "plogged s (SetTransientState a k v s)"
proof -
  let ?e = "TransientStorageChange a k (GetTransientState a k s)"
  have "restored s t'" if r: "restored (SetTransientState a k v s) t" and t': "revert_entry ?e t = Some t'" for t t'
  proof -
    have get: "GetTransientState b j t = (if b = a \<and> j = k then v else GetTransientState b j s)" for b j
      using r by (auto simp: restored_def SetTransientState_def GetTransientState_def Let_def split: option.split)
    have "GetTransientState a k s = 0 \<or> fmlookup (transientStorage t) a \<noteq> None"
      using t' by (auto split: option.splits if_splits)
    then have "\<And>b j. GetTransientState b j t' = GetTransientState b j s" "t' = t\<lparr>transientStorage := transientStorage t'\<rparr>"
      using transient_revert [of "GetTransientState a k s" t a k] t' get by auto
    then show ?thesis using restored_transient [OF r, of "transientStorage t'"] by simp
  qed
  then have "pdb.undoes [?e] (Some s) (Some (SetTransientState a k v s))"
    unfolding undoes_opt by (auto split: option.splits)
  then show ?thesis
    using assms unfolding plogged_def
    by (intro conjI exI [of _ "[?e]"]) (simp_all add: SetTransientState_def Let_def log_change_def journal_append_def db_valid_def)
qed

section \<open>Sequences of operations that do not panic\<close>

lemma plogged_logged: "logged s s' \<Longrightarrow> db_valid s \<Longrightarrow> plogged s s'"
  using undoes_partial by (auto simp: logged_def plogged_def)

lemma exec_op_plogged:
  assumes "is_mutation op" "db_valid s" "exec_op keccak op s = Some s'"
  shows "plogged s s'"
proof (cases "op_ok op")
  case True
  then show ?thesis using exec_op_logged [OF True assms(1,2), of keccak] assms(2,3) plogged_logged by auto
next
  case False
  then obtain a k v where "op = OpSetTransient a k v" by (cases op) auto
  then show ?thesis using plogged_SetTransient [OF assms(2)] assms(3) by auto
qed

text \<open>No snapshot was taken of a panic.\<close>

definition live :: "(int \<times> statedb option \<times> journal_entry list) list \<Rightarrow> bool" where
  "live h \<longleftrightarrow> None \<notin> (fst \<circ> snd) ` set h"

lemma pdb_on_revert_dead:
  assumes "pdb_on UNIV s h" "sid \<notin> fst ` set h" "RevertToSnapshot sid s = Some s'"
  shows "s' = s"
proof -
  have "map_of (marks h) sid = None" using assms(2) by (simp add: map_of_eq_None_iff)
  then have "fmlookup (snapshots (db_journal s)) sid = None"
    using assms(1) by (simp add: pdb_on_def pdb.log_on_def)
  then show ?thesis using assms(3) by (simp add: RevertToSnapshot_def revertToSnapshot_def)
qed

lemma pdb_on_exec_op:
  assumes inv: "pdb_on UNIV s h" "live h" and ex: "exec_op keccak op s = Some s'"
  shows "\<exists>h'. pdb_on UNIV s' h' \<and> live h' \<and> (\<forall>x\<in>set h. (\<forall>r. op = OpRevert r \<longrightarrow> fst x < r) \<longrightarrow> x \<in> set h')"
proof (cases "is_mutation op")
  case True
  then show ?thesis using exec_op_plogged [OF True pdb_on_valid ex] pdb_on_logged inv by blast
next
  case False
  then consider "op = OpSnapshot" | (revert) r where "op = OpRevert r" by (cases op) auto
  then show ?thesis
  proof cases
    case 1
    then show ?thesis
      using pdb_on_snapshot [OF inv(1)] inv(2) ex
      by (intro exI [of _ "(fst (Snapshot s), Some s, entries (db_journal s)) # h"]) (auto simp: live_def)
  next
    case revert
    show ?thesis
    proof (cases "r \<in> fst ` set h")
      case True
      then obtain x es0 h1 h2 where h: "h = h1 @ (r, x, es0) # h2"
        by (metis imageE prod.collapse split_list)
      moreover from h inv(2) obtain s0 where "x = Some s0" by (force simp: live_def)
      ultimately have h2: "pdb_on UNIV s' h2" "live h2"
        using pdb_on_revert_to [of UNIV s h1 r s0 es0 h2 s'] inv ex revert by (auto simp: live_def)
      have "sorted_wrt (>) (map fst (h1 @ (r, x, es0) # h2))"
        using inv(1) h by (simp add: pdb_on_def pdb.log_on_def)
      then have "\<forall>x\<in>set h. fst x < r \<longrightarrow> x \<in> set h2" using h by (fastforce simp: sorted_wrt_append)
      then show ?thesis using h2 revert by auto
    next
      case False
      then show ?thesis using pdb_on_revert_dead [OF inv(1) False] inv ex revert by auto
    qed
  qed
qed

lemma pdb_on_exec_ops:
  assumes "exec_ops keccak ops s = Some s'" "pdb_on UNIV s h" "live h"
  shows "\<exists>h'. pdb_on UNIV s' h' \<and> live h' \<and>
    (\<forall>x\<in>set h. (\<forall>r. OpRevert r \<in> set ops \<longrightarrow> fst x < r) \<longrightarrow> x \<in> set h')"
  using assms
proof (induction ops arbitrary: s h)
  case (Cons op ops)
  then obtain s1 where s1: "exec_op keccak op s = Some s1" "exec_ops keccak ops s1 = Some s'"
    by (auto split: option.splits)
  obtain h1 where h1: "pdb_on UNIV s1 h1" "live h1"
    "\<forall>x\<in>set h. (\<forall>r. op = OpRevert r \<longrightarrow> fst x < r) \<longrightarrow> x \<in> set h1"
    using pdb_on_exec_op [OF Cons.prems(2,3) s1(1)] by blast
  obtain h2 where "pdb_on UNIV s' h2" "live h2"
    "\<forall>x\<in>set h1. (\<forall>r. OpRevert r \<in> set ops \<longrightarrow> fst x < r) \<longrightarrow> x \<in> set h2"
    using Cons.IH [OF s1(2) h1(1,2)] by blast
  then show ?case using h1(3) by auto
qed auto

text \<open>The databases that operations build.\<close>

lemma pdb_inv_built: "exec_ops keccak ops NewMemoryStateDB = Some s \<Longrightarrow> \<exists>h. pdb_inv s h"
  using pdb_on_exec_ops [OF _ pdb_on_new] by (fastforce simp: live_def pdb_inv_def)

section \<open>Properties\<close>

lemma revert_partial:
  assumes "exec_ops keccak ops NewMemoryStateDB = Some s" and "Snapshot s = (sid, s1)"
    and "\<forall>r. OpRevert r \<in> set ops' \<longrightarrow> sid < r"
    and "exec_ops keccak ops' s1 = Some s2" and "RevertToSnapshot sid s2 = Some s3"
  shows "same_observations s s3"
proof -
  obtain h where h: "pdb_on UNIV s h" "live h"
    using pdb_on_exec_ops [OF assms(1) pdb_on_new] by (auto simp: live_def)
  let ?x = "(sid, Some s, entries (db_journal s))"
  have "pdb_on UNIV s1 (?x # h)" "live (?x # h)"
    using pdb_on_snapshot [OF h(1)] h(2) assms(2) by (auto simp: live_def)
  then obtain h2 where "pdb_on UNIV s2 h2" "?x \<in> set h2"
    using pdb_on_exec_ops [OF assms(4)] assms(3) by (metis fst_conv list.set_intros(1))
  then have "restored s s3" using pdb_on_revert_to [OF _ assms(5)] by (metis split_list)
  then show ?thesis using restored_observations pdb_on_valid [OF h(1)] by blast
qed

lemma revert_total:
  assumes "\<forall>op\<in>set (ops @ ops'). op_ok op"
    and "exec_ops keccak ops NewMemoryStateDB = Some s"
    and "Snapshot s = (sid, s1)"
    and "\<forall>r. OpRevert r \<in> set ops' \<longrightarrow> sid < r"
  shows "\<exists>s2 s3. exec_ops keccak ops' s1 = Some s2 \<and> RevertToSnapshot sid s2 = Some s3"
proof -
  obtain h where inv: "db_inv s h"
    using db_inv_exec_ops [OF db_inv_new, of ops keccak] assms(1,2) by auto
  have inv1: "db_inv s1 ((sid, s, entries (db_journal s)) # h)"
    using db_inv_snapshot [OF inv] assms(3) by simp
  obtain s2 h2 where s2: "exec_ops keccak ops' s1 = Some s2" "db_inv s2 h2"
    "(sid, s, entries (db_journal s)) \<in> set h2"
    using db_inv_exec_ops [OF inv1, of ops' keccak] assms(1,4) by auto
  then obtain h3 h4 where "h2 = h3 @ (sid, s, entries (db_journal s)) # h4" by (meson split_list)
  then show ?thesis using s2(1) db_inv_revert_to [OF s2(2)] by blast
qed

text \<open>
  C4. Revert restores the state: from a new database, run any journaled operations, take
  a snapshot and run any further ones, among them snapshots and reverts to later snapshots.
  When this and a revert to the snapshot do not panic, no getter but \<open>Exist\<close> and \<open>GetCodeHash\<close>
  distinguishes the state from the one the snapshot was taken at.  When no operation writes
  zero to transient storage (\<open>op_ok\<close>), nothing panics.
\<close>

theorem revert_restores:
  assumes "exec_ops keccak ops NewMemoryStateDB = Some s" and "Snapshot s = (sid, s1)"
    and "\<forall>r. OpRevert r \<in> set ops' \<longrightarrow> sid < r"
  shows "(\<forall>s2 s3. exec_ops keccak ops' s1 = Some s2 \<and> RevertToSnapshot sid s2 = Some s3 \<longrightarrow>
      same_observations s s3) \<and>
    ((\<forall>op\<in>set (ops @ ops'). op_ok op) \<longrightarrow>
      (\<exists>s2 s3. exec_ops keccak ops' s1 = Some s2 \<and> RevertToSnapshot sid s2 = Some s3 \<and> same_observations s s3))"
  using revert_partial [OF assms] revert_total [OF _ assms] by blast

theorem revert_restores_witness:
  "\<exists>s2 s3. exec_ops (\<lambda>b. b) [OpSetState 7 1 5, OpSnapshot, OpAddSlot 7 2, OpSelfDestruct 7, OpRevert 1]
      (snd (Snapshot (CreateAccount 7 NewMemoryStateDB))) = Some s2 \<and>
    RevertToSnapshot 0 s2 = Some s3 \<and> same_observations (CreateAccount 7 NewMemoryStateDB) s3"
proof -
  have "Snapshot (CreateAccount 7 NewMemoryStateDB) = (0, snd (Snapshot (CreateAccount 7 NewMemoryStateDB)))"
    by (simp add: Snapshot_def CreateAccount_def NewMemoryStateDB_def newJournal_def journal_snapshot_def
        log_change_def journal_append_def put_object_def Let_def)
  then show ?thesis
    using revert_restores [of "\<lambda>b. b" "[OpCreateAccount 7]" _ 0 _
        "[OpSetState 7 1 5, OpSnapshot, OpAddSlot 7 2, OpSelfDestruct 7, OpRevert 1]"] by simp
qed

end
