(* ===== verification/State_Views.thy ===== *)
theory State_Views
  imports State_Partial
begin

text \<open>
  Two views of a state that a sequence of database operations may keep: the total
  supply, which transfers keep, and everything but the access list, which reads keep.  Both survive
  reverts, so both are a \<open>state_view\<close>.
\<close>

section \<open>The total supply\<close>

definition total_supply :: "statedb \<Rightarrow> int" where
  "total_supply s = (\<Sum>a\<in>fmdom' (stateObjects s). GetBalance a s)"

lemma GetBalance_absent: "a \<notin> fmdom' (stateObjects s) \<Longrightarrow> GetBalance a s = 0"
  by (simp add: GetBalance_def getStateObject_def fmdom'_notD)

lemma supply_superset:
  assumes "finite A" "fmdom' (stateObjects s) \<subseteq> A"
  shows "total_supply s = (\<Sum>a\<in>A. GetBalance a s)"
  unfolding total_supply_def
  by (rule sum.mono_neutral_left) (use assms in \<open>auto simp: GetBalance_absent\<close>)

lemma supply_cong:
  assumes "\<And>a. GetBalance a t = GetBalance a s"
  shows "total_supply t = total_supply s"
proof -
  let ?A = "fmdom' (stateObjects s) \<union> fmdom' (stateObjects t)"
  show ?thesis
    using assms supply_superset [of ?A s] supply_superset [of ?A t] by simp
qed

interpretation sup: state_view "\<lambda>s t. total_supply t = total_supply s"
  by unfold_locales (simp, blast intro: supply_cong restored_object_view(1))

text \<open>The getters of an account read its object, or a new object where there is none.\<close>

lemma obj_of_put [simp]: "obj_of b (put_object a x s) = (if b = a then x else obj_of b s)"
  by (simp add: obj_of_def put_object_def)

lemma obj_of_log [simp]: "obj_of b (log_change e s) = obj_of b s"
  by (simp add: obj_of_def log_change_def)

lemma getters_obj:
  "GetBalance a s = Balance (acct (obj_of a s))" "GetNonce a s = Nonce (acct (obj_of a s))"
  "GetCode a s = code (obj_of a s)" "HasSelfDestructed a s = selfDestructed (obj_of a s)"
  "GetCommittedState a k s = hash_at (committedStorage (obj_of a s)) k"
  "GetState a k s = (case fmlookup (dirtyStorage (obj_of a s)) k of
     Some v \<Rightarrow> v | None \<Rightarrow> hash_at (committedStorage (obj_of a s)) k)"
  by (simp_all add: GetBalance_def GetNonce_def GetCode_def HasSelfDestructed_def GetCommittedState_def
      GetState_def obj_of_get newStateObject_def NewAccount_def split: option.split)

lemma GetBalance_AddBalance:
  "GetBalance b (AddBalance a v s) = GetBalance b s + (if b = a then v else 0)"
  by (simp add: AddBalance_def getOrNew_eq Let_def getters_obj set_balance_def)

lemma GetBalance_SubBalance:
  "GetBalance b (SubBalance a v s) = GetBalance b s - (if b = a then v else 0)"
  by (simp add: SubBalance_def getOrNew_eq Let_def getters_obj set_balance_def)

lemma sum_moved:
  fixes f g :: "'a \<Rightarrow> int"
  assumes "finite A" "a \<in> A" "b \<in> A"
    and "\<And>x. g x = f x - (if x = a then v else 0) + (if x = b then v else 0)"
  shows "sum g A = sum f A"
  using assms by (simp add: sum.distrib sum_subtractf)

lemma total_supply_moved:
  assumes "\<And>x. GetBalance x t = GetBalance x s - (if x = a then v else 0) + (if x = b then v else 0)"
  shows "total_supply t = total_supply s"
proof -
  let ?A = "fmdom' (stateObjects s) \<union> fmdom' (stateObjects t) \<union> {a, b}"
  have "total_supply t = (\<Sum>x\<in>?A. GetBalance x t)" "total_supply s = (\<Sum>x\<in>?A. GetBalance x s)"
    by (rule supply_superset; auto)+
  then show ?thesis using sum_moved [of ?A a b, OF _ _ _ assms] by simp
qed

lemma supply_transfer: "total_supply (AddBalance b v (SubBalance a v s)) = total_supply s"
  by (rule total_supply_moved [of _ _ a v b]) (simp add: GetBalance_AddBalance GetBalance_SubBalance)

lemma supply_transfer': "total_supply (SubBalance a v (AddBalance b v s)) = total_supply s"
  by (rule total_supply_moved [of _ _ a v b]) (simp add: GetBalance_AddBalance GetBalance_SubBalance)

text \<open>The other operations keep every balance.\<close>

lemma obj_of_objects: "stateObjects t = stateObjects s \<Longrightarrow> obj_of b t = obj_of b s"
  by (simp add: obj_of_def)

lemma GetBalance_others [simp]:
  "GetBalance b (SetNonce a n s) = GetBalance b s"
  "GetBalance b (SetCode keccak a c s) = GetBalance b s"
  "GetBalance b (SetState a k v s) = GetBalance b s"
  by (simp_all add: SetNonce_def SetCode_def SetState_def getOrNew_eq Let_def getters_obj set_nonce_def
      set_code_def split: prod.split)

lemma GetBalance_objects [simp]:
  "GetBalance b (AddLog l s) = GetBalance b s"
  "GetBalance b (AddRefund g s) = GetBalance b s"
  "GetBalance b (SubRefund g s) = GetBalance b s"
  "GetBalance b (SetTransientState a k v s) = GetBalance b s"
  unfolding getters_obj
  by (simp_all add: obj_of_def AddLog_def AddRefund_def SubRefund_def SetTransientState_def Let_def log_change_def)

section \<open>What reads keep\<close>

text \<open>All getters but those of the access list, \<open>Exist\<close>, \<open>Empty\<close> and \<open>GetCodeHash\<close>.\<close>

definition same_state :: "statedb \<Rightarrow> statedb \<Rightarrow> bool" where
  "same_state s t \<longleftrightarrow>
     (\<forall>a. GetBalance a t = GetBalance a s \<and> GetNonce a t = GetNonce a s \<and> GetCode a t = GetCode a s \<and>
       HasSelfDestructed a t = HasSelfDestructed a s) \<and>
     (\<forall>a k. GetState a k t = GetState a k s \<and> GetCommittedState a k t = GetCommittedState a k s \<and>
       GetTransientState a k t = GetTransientState a k s) \<and>
     (\<forall>h. GetLogs h t = GetLogs h s) \<and> GetRefund t = GetRefund s"

interpretation same: state_view same_state
proof
  show "same_state s t \<Longrightarrow> same_state t u \<Longrightarrow> same_state s u" for s t u
    by (simp add: same_state_def)
  show "db_valid s \<Longrightarrow> restored s t \<Longrightarrow> same_state s t" for s t
    using restored_observations [of s t] by (simp add: same_state_def same_observations_def)
qed

lemma same_parts:
  assumes "\<And>a. obj_of a t = obj_of a s" "transientStorage t = transientStorage s" "logs t = logs s" "refund t = refund s"
  shows "same_state s t"
  using assms
  by (simp add: same_state_def getters_obj GetTransientState_def GetLogs_def GetRefund_def cong: option.case_cong)

lemma same_objects:
  assumes "stateObjects t = stateObjects s" "transientStorage t = transientStorage s" "logs t = logs s" "refund t = refund s"
  shows "same_state s t"
  using assms by (intro same_parts obj_of_objects)

lemma same_AddAddress: "same_state s (AddAddressToAccessList a s)"
  by (rule same_objects) (simp_all add: AddAddressToAccessList_def Let_def log_change_def split: prod.split)

lemma same_AddSlot: "AddSlotToAccessList a k s = Some t \<Longrightarrow> same_state s t"
  by (rule same_objects)
     (auto simp: AddSlotToAccessList_def Let_def log_change_def split: option.splits prod.splits)

lemma same_CreateAccount: "\<not> Exist a s \<Longrightarrow> same_state s (CreateAccount a s)"
  by (rule same_parts)
     (auto simp: CreateAccount_def Let_def obj_of_def Exist_def put_object_def log_change_def)

end
