(* ===== verification/Evm_Kept.thy ===== *)
theory Evm_Kept
  imports Evm_Interp State_Views
begin

text \<open>
  What a run of the interpreter keeps.  The locale \<open>evm_view\<close> is the contract between the interpreter
  and the state database: a view of the state that survives reverts and that the database
  operations used by the interpreter keep.  Inside it every instruction, call and run is
  shown to keep the view, the block and transaction contexts, the call depth and the read-only flag.
\<close>

section \<open>Results\<close>

definition exec_all :: "('a \<Rightarrow> bool) \<Rightarrow> 'a exec \<Rightarrow> bool" where
  "exec_all Q r = (case r of Done x \<Rightarrow> Q x | Crash \<Rightarrow> True | NoFuel \<Rightarrow> True)"

lemma exec_all_simps [simp]: "exec_all Q (Done x) = Q x" "exec_all Q Crash" "exec_all Q NoFuel"
  by (simp_all add: exec_all_def)

lemma exec_all_iff: "exec_all Q r \<longleftrightarrow> (\<forall>x. r = Done x \<longrightarrow> Q x)"
  by (cases r) auto

lemma exec_all_bind [simp]: "exec_all Q (exec_bind m k) = exec_all (\<lambda>x. exec_all Q (k x)) m"
  by (cases m) auto

lemma exec_all_mono: "exec_all Q r \<Longrightarrow> (\<And>x. Q x \<Longrightarrow> Q' x) \<Longrightarrow> exec_all Q' r"
  by (cases r) auto

lemma exec_all_then:
  assumes "exec_all Q m" "\<And>x. Q x \<Longrightarrow> exec_all R (k x)"
  shows "exec_all R (exec_bind m k)"
  using assms by (cases m) simp_all

lemma exec_all_of_option: "exec_all Q (of_option r) \<longleftrightarrow> (\<forall>x. r = Some x \<longrightarrow> Q x)"
  by (cases r) (auto simp: of_option_def)

section \<open>The relation\<close>

definition same_env :: "evm \<Rightarrow> evm \<Rightarrow> bool" where
  "same_env e e' \<longleftrightarrow> Context e' = Context e \<and> TxContext e' = TxContext e \<and>
     MaxCallDepth e' = MaxCallDepth e \<and> chainID e' = chainID e \<and> depth e' = depth e \<and>
     readOnly e' = readOnly e \<and> jumpTable e' = jumpTable e \<and> precompiles e' = precompiles e \<and>
     txIndex e' = txIndex e \<and> forkRules e' = forkRules e"

definition evm_kept :: "(statedb \<Rightarrow> statedb \<Rightarrow> bool) \<Rightarrow> evm \<Rightarrow> evm \<Rightarrow> bool" where
  "evm_kept P e e' \<longleftrightarrow> same_env e e' \<and> rel_option (db_kept P) (StateDB e) (StateDB e')"

lemma evm_kept_fields [simp]:
  "evm_kept P e (e'\<lparr>returnData := x1\<rparr>) = evm_kept P e e'"
  "evm_kept P e (e'\<lparr>callGasTemp := x2\<rparr>) = evm_kept P e e'"
  "evm_kept P e (e'\<lparr>callReservoirForward := x2\<rparr>) = evm_kept P e e'"
  "evm_kept P e (e'\<lparr>callReservoirReturn := x2\<rparr>) = evm_kept P e e'"
  "evm_kept P e (e'\<lparr>dimGasUsage := x3\<rparr>) = evm_kept P e e'"
  "evm_kept P e (e'\<lparr>witnessGas := x4\<rparr>) = evm_kept P e e'"
  "evm_kept P e (e'\<lparr>balTracker := x5\<rparr>) = evm_kept P e e'"
  "evm_kept P e (e'\<lparr>FrameCtx := x6\<rparr>) = evm_kept P e e'"
  "evm_kept P e (e'\<lparr>guestRegistry := x7\<rparr>) = evm_kept P e e'"
  "evm_kept P e (track ev e') = evm_kept P e e'"
  "evm_kept P e (record_write a k v w e') = evm_kept P e e'"
  by (simp_all add: evm_kept_def same_env_def track_def record_write_def)

lemma evm_kept_left [simp]:
  "evm_kept P (e\<lparr>callReservoirForward := x2\<rparr>) e' = evm_kept P e e'"
  "evm_kept P (e\<lparr>FrameCtx := x6\<rparr>) e' = evm_kept P e e'"
  "evm_kept P (e\<lparr>guestRegistry := x7\<rparr>) e' = evm_kept P e e'"
  "evm_kept P (track ev e) e' = evm_kept P e e'"
  by (simp_all add: evm_kept_def same_env_def track_def)

lemma track_fields [simp]:
  "StateDB (track ev e) = StateDB e" "readOnly (track ev e) = readOnly e" "forkRules (track ev e) = forkRules e"
  by (simp_all add: track_def)

lemma set_db_fields [simp]:
  "StateDB (set_db s e) = Some s" "readOnly (set_db s e) = readOnly e" "forkRules (set_db s e) = forkRules e"
  "depth (set_db s e) = depth e" "set_db s (set_db s' e) = set_db s e"
  by (simp_all add: set_db_def)

lemma evm_kept_env:
  assumes "evm_kept P e e'"
  shows "readOnly e' = readOnly e" "depth e' = depth e" "forkRules e' = forkRules e" "jumpTable e' = jumpTable e"
  using assms by (simp_all add: evm_kept_def same_env_def)

lemma set_db_track [simp]: "set_db s (track ev e) = track ev (set_db s e)"
  by (simp add: set_db_def track_def)

lemma set_db_record_write [simp]: "set_db s (record_write a k v w e) = record_write a k v w (set_db s e)"
  by (simp add: record_write_def)

lemma set_db_guestRegistry [simp]: "set_db s (e\<lparr>guestRegistry := g\<rparr>) = (set_db s e)\<lparr>guestRegistry := g\<rparr>"
  by (simp add: set_db_def)

lemma emitted_balance:
  "EmitTransferLog c d y s = Some t \<Longrightarrow> GetBalance a t = GetBalance a s"
  "EmitBurnLog c y s = Some t \<Longrightarrow> GetBalance a t = GetBalance a s"
  by (auto simp: EmitTransferLog_def EmitBurnLog_def bind_eq_Some_conv split: if_splits)

lemma snapshot_getters:
  "GetBalance a (snd (Snapshot s)) = GetBalance a s" "GetCode a (snd (Snapshot s)) = GetCode a s"
  "Exist a (snd (Snapshot s)) = Exist a s"
  by (simp_all add: getters_obj obj_of_def Exist_def Snapshot_def journal_snapshot_def Let_def)

lemma created_balance: "GetBalance b (if Exist a s then s else CreateAccount a s) = GetBalance b s"
  using same_CreateAccount [of a s] by (simp add: same_state_def)

text \<open>A transfer is two entries of the journal.\<close>

lemma logged_both: "logged s t \<Longrightarrow> logged t u \<Longrightarrow> logged s u"
proof -
  assume a: "logged s t" "logged t u"
  have "db_journal u = (db_journal s)\<lparr>entries := (e @ d) @ entries (db_journal s)\<rparr>"
    if "db_journal t = (db_journal s)\<lparr>entries := d @ entries (db_journal s)\<rparr>"
       "db_journal u = (db_journal t)\<lparr>entries := e @ entries (db_journal t)\<rparr>" for d e
    using that by simp
  then show "logged s u" using a unfolding logged_def by (meson db.undoes_append)
qed

section \<open>Views of the state kept by the interpreter\<close>

text \<open>
  With \<open>ro\<close> only executions with the read-only flag are considered, and the operations that
  the flag forbids need not keep the view.
\<close>

locale evm_view = state_view P
  for P :: "statedb \<Rightarrow> statedb \<Rightarrow> bool" +
  fixes ro :: bool
  assumes P_AddAddress: "P s (AddAddressToAccessList a s)"
    and P_AddSlot: "AddSlotToAccessList a k s = Some s' \<Longrightarrow> P s s'"
    and P_CreateAccount: "\<not> Exist a s \<Longrightarrow> P s (CreateAccount a s)"
    and P_SetState: "\<not> ro \<Longrightarrow> P s (SetState a k v s)"
    and P_AddLog: "\<not> ro \<Longrightarrow> P s (AddLog l s)"
    and P_AddRefund: "\<not> ro \<Longrightarrow> P s (AddRefund g s)"
    and P_SubRefund: "\<not> ro \<Longrightarrow> P s (SubRefund g s)"
    and P_SetTransient: "\<not> ro \<Longrightarrow> P s (SetTransientState a k v s)"
    and P_SetNonce: "\<not> ro \<Longrightarrow> P s (SetNonce a n s)"
    and P_SetCode: "\<not> ro \<Longrightarrow> P s (SetCode hf a c s)"
    and P_transfer: "\<lbrakk>\<not> ro; 0 < x; x \<le> GetBalance a s\<rbrakk> \<Longrightarrow> P s (AddBalance b x (SubBalance a x s))"
    and P_transfer': "\<lbrakk>\<not> ro; 0 < x; x \<le> GetBalance a s\<rbrakk> \<Longrightarrow> P s (SubBalance a x (AddBalance b x s))"
begin

lemma kept_AddAddress: "db_kept P s (AddAddressToAccessList a s)"
  by (rule kept_logged [OF logged_AddAddress P_AddAddress])

lemma kept_AddSlot:
  assumes "AddSlotToAccessList a k s = Some s'"
  shows "db_kept P s s'"
  using logged_AddSlot [of s a k] assms undoes_partial P_AddSlot [OF assms]
  by (intro kept_plogged) (auto simp: logged_def plogged_def)

lemma kept_CreateAccount: "\<not> Exist a s \<Longrightarrow> db_kept P s (CreateAccount a s)"
  by (rule kept_logged [OF logged_CreateAccount P_CreateAccount])

lemma kept_writes:
  assumes "\<not> ro"
  shows "db_kept P s (SetState a k v s)" "db_kept P s (AddLog l s)" "db_kept P s (AddRefund g s)"
    "db_kept P s (SubRefund g s)" "db_kept P s (SetTransientState a k v s)" "db_kept P s (SetNonce a n s)"
    "db_kept P s (SetCode hf a c s)"
proof -
  have "logged s (AddRefund g s)" "logged s (SubRefund g s)"
    using logged_refund by (simp_all add: AddRefund_def SubRefund_def)
  then show "db_kept P s (AddRefund g s)" "db_kept P s (SubRefund g s)"
    using assms by (auto intro: kept_logged P_AddRefund P_SubRefund)
  show "db_kept P s (SetTransientState a k v s)"
    using assms by (auto intro: kept_plogged plogged_SetTransient P_SetTransient)
qed (use assms in \<open>auto intro: kept_logged logged_SetState P_SetState logged_AddLog P_AddLog logged_SetNonce
      P_SetNonce logged_SetCode P_SetCode\<close>)

lemma kept_transfer:
  assumes "\<not> ro" "0 < x" "x \<le> GetBalance a s"
  shows "db_kept P s (AddBalance b x (SubBalance a x s))" "db_kept P s (SubBalance a x (AddBalance b x s))"
  using logged_both [OF logged_SubBalance logged_AddBalance] logged_both [OF logged_AddBalance logged_SubBalance]
    P_transfer P_transfer' assms
  by (auto intro: kept_logged)

end

section \<open>The relation along the steps of the interpreter\<close>

fun evm_of :: "step_result \<Rightarrow> evm" where
  "evm_of (Next f e) = e"
| "evm_of (Halt r c e) = e"

context evm_view
begin

lemma evm_refl: "evm_kept P e e"
  using db_kept_refl by (cases "StateDB e") (simp_all add: evm_kept_def same_env_def)

lemma evm_trans: "evm_kept P e1 e2 \<Longrightarrow> evm_kept P e2 e3 \<Longrightarrow> evm_kept P e1 e3"
  by (auto simp: evm_kept_def same_env_def option_rel_Some1 option_rel_Some2 elim!: option.rel_cases intro: db_kept_trans)

lemma evm_set_db: "StateDB e = Some s \<Longrightarrow> db_kept P s t \<Longrightarrow> evm_kept P e (set_db t e)"
  by (simp add: evm_kept_def same_env_def set_db_def)

lemma evm_on_db: "(\<And>s. db_kept P s (g s)) \<Longrightarrow> evm_kept P e (on_db g e)"
  by (cases "StateDB e") (simp_all add: evm_kept_def same_env_def on_db_def)

lemma evm_snapshot: "StateDB e = Some s \<Longrightarrow> evm_kept P e (set_db (snd (Snapshot s)) e)"
  by (rule evm_set_db [OF _ kept_snapshot])

text \<open>A revert of what followed a snapshot.\<close>

lemma evm_revert:
  assumes "StateDB e = Some s" "Snapshot s = (sid, s1)" "evm_kept P (set_db s1 e) e2"
  shows "exec_all (\<lambda>e3. evm_kept P e e3) (revert_db sid e2)"
proof -
  obtain s2 where s2: "StateDB e2 = Some s2" "db_kept P s1 s2" "same_env e e2"
    using assms(3) by (auto simp: evm_kept_def set_db_def same_env_def option_rel_Some1)
  show ?thesis
    using kept_revert [OF assms(2) s2(2)] s2(1,3) assms(1)
    by (auto simp: revert_db_def evm_kept_def same_env_def set_db_def split: option.split)
qed

text \<open>The dynamic gas functions.\<close>

definition charges :: "evm \<Rightarrow> (u64 \<times> evm) option \<Rightarrow> bool" where
  "charges e r \<longleftrightarrow> (\<forall>g e'. r = Some (g, e') \<longrightarrow> evm_kept P e e')"

lemma charges_simps [simp]: "charges e (Some p) = evm_kept P e (snd p)" "charges e None"
  by (cases p; simp add: charges_def)+

lemma charges_bind_back: "(\<And>x. charges e (f x)) \<Longrightarrow> charges e (Option.bind (stack_Back n st) f)"
  by (cases "stack_Back n st") simp_all

lemma charges_bind: "charges e m \<Longrightarrow> (\<And>g e'. evm_kept P e e' \<Longrightarrow> charges e (f (g, e'))) \<Longrightarrow> charges e (Option.bind m f)"
  by (cases m) (auto simp: charges_def)

lemma account_check_kept: "evm_kept P e e0 \<Longrightarrow> evm_kept P e (snd (account_check cold a e0))"
  by (auto simp: account_check_def split: option.split intro: evm_trans evm_set_db kept_AddAddress)

lemma slot_check_kept: "evm_kept P e e0 \<Longrightarrow> charges e (slot_check cold a k e0)"
  by (auto simp: charges_def slot_check_def split: option.splits if_splits
      elim!: bind_eq_Some_conv [THEN iffD1, elim_format] intro: evm_trans [OF _ evm_set_db [OF _ kept_AddSlot]])

lemma access_event_kept: "evm_kept P e e0 \<Longrightarrow> evm_kept P e (snd (access_event a t k e0))"
  by (auto simp: access_event_def split: option.split prod.split)

lemma write_event_kept: "evm_kept P e e0 \<Longrightarrow> evm_kept P e (snd (write_event a t k fill e0))"
  by (auto simp: write_event_def split: option.split prod.split)

lemma chunks_access_kept: "evm_kept P e e0 \<Longrightarrow> evm_kept P e (snd (chunks_access n a c g e0))"
  by (induction n arbitrary: c g e0) (simp_all add: split_beta access_event_kept)

lemma account_events_kept:
  assumes "evm_kept P e e0"
  shows "evm_kept P e (snd (gasAccountAccessEIP4762 e0 a))" "evm_kept P e (snd (gasCodeHashAccessEIP4762 e0 a))"
    "evm_kept P e (snd (gasAccountWriteEIP4762 e0 a fill))" "evm_kept P e (snd (gasCodeChunksAccess e0 a x y z))"
    "evm_kept P e (snd (gasEIP2929AccountCheck e0 a))" "evm_kept P e (snd (gasEIP8038AccountCheck e0 a))"
  using assms
  by (simp_all add: gasAccountAccessEIP4762_def gasCodeHashAccessEIP4762_def gasAccountWriteEIP4762_def
      gasCodeChunksAccess_def gasEIP2929AccountCheck_def gasEIP8038AccountCheck_def Let_def split_beta
      access_event_kept write_event_kept chunks_access_kept account_check_kept)

lemmas event_kept = account_events_kept access_event_kept write_event_kept evm_refl

lemma call_gas_end_kept: "evm_kept P e e0 \<Longrightarrow> charges e (call_gas_end gas e0 c st m n)"
  by (auto simp: call_gas_end_def Let_def intro: charges_bind_back)

lemma call_gas_kept:
  assumes "\<And>a. evm_kept P e (snd (check e a))"
  shows "charges e (call_gas check t fresh e c st m n)" "charges e (plain_call_gas check e c st m n)"
    "charges e (selfdestruct_gas check e c st)" "charges e (account_gas check e st)"
  using assms
  by (auto simp: call_gas_def plain_call_gas_def selfdestruct_gas_def account_gas_def Let_def split_beta
      intro!: charges_bind_back call_gas_end_kept)

lemma call_functions_kept:
  "charges e (gasCallFrontier e c st m n)" "charges e (gasCallCodeFrontier e c st m n)"
  "charges e (gasCallEIP2929 e c st m n)" "charges e (gasCallCodeEIP2929 e c st m n)"
  "charges e (gasDelegateCallEIP2929 e c st m n)" "charges e (gasStaticCallEIP2929 e c st m n)"
  "charges e (gasCallGlamst e c st m n)" "charges e (gasCallCodeGlamst e c st m n)"
  "charges e (gasDelegateCallGlamst e c st m n)" "charges e (gasStaticCallGlamst e c st m n)"
  "charges e (gasCallCodeEIP4762 e c st m n)"
  "charges e (gasDelegateCallEIP4762 e c st m n)" "charges e (gasStaticCallEIP4762 e c st m n)"
  "charges e (gasSelfdestructEIP2929 e c st)" "charges e (gasSelfdestructGlamst e c st)"
  by (simp_all add: call_gas_kept event_kept gasCallFrontier_def gasCallCodeFrontier_def gasCallEIP2929_def
      gasCallCodeEIP2929_def gasDelegateCallEIP2929_def gasStaticCallEIP2929_def gasCallGlamst_def
      gasCallCodeGlamst_def gasDelegateCallGlamst_def gasStaticCallGlamst_def gasCallCodeEIP4762_def
      gasDelegateCallEIP4762_def gasStaticCallEIP4762_def gasSelfdestructEIP2929_def gasSelfdestructGlamst_def)

lemma account_functions_kept:
  "charges e (gasBalanceEIP2929 e st)" "charges e (gasExtCodeSizeEIP2929 e st)" "charges e (gasExtCodeHashEIP2929 e st)"
  "charges e (gasBalanceGlamst e st)" "charges e (gasExtCodeHashGlamst e st)"
  "charges e (gasBalanceEIP4762 e st)" "charges e (gasExtCodeSizeEIP4762 e st)" "charges e (gasExtCodeHashEIP4762 e st)"
  by (simp_all add: call_gas_kept event_kept gasBalanceEIP2929_def gasExtCodeSizeEIP2929_def
      gasExtCodeHashEIP2929_def gasBalanceGlamst_def gasExtCodeHashGlamst_def gasBalanceEIP4762_def
      gasExtCodeSizeEIP4762_def gasExtCodeHashEIP4762_def)

lemma copy_functions_kept:
  "charges e (gasExtCodeSizeGlamst e st)" "charges e (gasExtCodeCopyEIP2929 e st m n)"
  "charges e (gasExtCodeCopyGlamst e st m n)" "charges e (gasExtCodeCopyEIP4762 e st m n)"
  by (auto simp: gasExtCodeSizeGlamst_def gasExtCodeCopyEIP2929_def gasExtCodeCopyGlamst_def
      gasExtCodeCopyEIP4762_def Let_def split_beta event_kept
      intro!: charges_bind_back charges_bind [OF call_gas_kept(4)])

lemma witness_functions_kept:
  "charges e (gasCallEIP4762 e c st m n)" "charges e (gasSelfdestructEIP4762 e c st)"
  "charges e (gasSstoreEIP4762 e c st)" "charges e (gasSloadEIP4762 e c st)" "charges e (gasSelfdestructFrontier e c st)"
  by (auto simp: gasCallEIP4762_def gasSelfdestructEIP4762_def gasSstoreEIP4762_def gasSloadEIP4762_def
      gasSelfdestructFrontier_def Let_def split_beta event_kept split: option.split
      intro!: charges_bind_back call_gas_end_kept event_kept)

lemma storage_functions_kept:
  "charges e (gasSloadEIP2929 e c st)" "charges e (gasSloadGlamst e c st)" "charges e (gasSstoreEIP2929 e c st)"
  by (auto simp: gasSloadEIP2929_def gasSloadGlamst_def gasEIP2929SlotCheck_def gasEIP8038SlotCheck_def
      gasSstoreEIP2929_def Let_def split_beta split: option.split
      intro!: charges_bind_back slot_check_kept evm_refl charges_bind [OF slot_check_kept])

definition op_kept :: "evm \<Rightarrow> ('r \<times> 'c \<times> evm) option \<Rightarrow> bool" where
  "op_kept e r \<longleftrightarrow> (\<forall>x f e'. r = Some (x, f, e') \<longrightarrow> evm_kept P e e')"

lemma op_kept_simps [simp]: "op_kept e (Some (x, f, e')) = evm_kept P e e'" "op_kept e None"
  by (auto simp: op_kept_def)

lemma op_kept_ends [simp]:
  "op_kept e (next_evm f e') = evm_kept P e e'" "op_kept e (fail_evm err f e') = evm_kept P e e'"
  "op_kept e (push_evm v e' f) = evm_kept P e e'"
  by (auto simp: next_evm_def fail_evm_def push_evm_def)

lemma op_kept_bind: "(\<And>x. m = Some x \<Longrightarrow> op_kept e (f x)) \<Longrightarrow> op_kept e (Option.bind m f)"
  by (cases m) simp_all

lemma op_kept_charge:
  "charges e m \<Longrightarrow> (\<And>g e'. evm_kept P e e' \<Longrightarrow> op_kept e (f (g, e'))) \<Longrightarrow> op_kept e (Option.bind m f)"
  by (cases m) (auto simp: charges_def)

lemma op_kept_back: "(\<And>x. op_kept e (f x)) \<Longrightarrow> op_kept e (Option.bind (stack_Back n st) f)"
  by (cases "stack_Back n st") simp_all

lemma gasSstoreGlamst_kept: "op_kept e (gasSstoreGlamst e c st)"
  unfolding gasSstoreGlamst_def
  by (intro op_kept_back op_kept_charge [OF slot_check_kept [OF evm_refl]])
     (auto simp: Let_def split_beta split: option.split intro!: op_kept_back)

lemma keep_kept: "charges e r \<Longrightarrow> op_kept e (keep c r)"
  by (auto simp: keep_def charges_def op_kept_def)

lemma dynamic_gas_kept: "op_kept e (dynamic_gas g e c st m n)"
  by (cases g)
     (simp_all add: gasSstoreGlamst_kept keep_kept call_functions_kept account_functions_kept copy_functions_kept
       witness_functions_kept storage_functions_kept, simp add: op_kept_def evm_refl)

text \<open>The instructions that start no call.\<close>

lemma environment_ops_kept:
  "op_kept e (opOrigin e f)" "op_kept e (opGasPrice e f)" "op_kept e (opCoinbase e f)" "op_kept e (opTimestamp e f)"
  "op_kept e (opNumber e f)" "op_kept e (opPrevRandao e f)" "op_kept e (opGasLimit e f)" "op_kept e (opChainID e f)"
  "op_kept e (opBaseFee e f)" "op_kept e (opBlobBaseFee e f)" "op_kept e (opSlotNum e f)" "op_kept e (opReturndataSize e f)"
  "op_kept e (opBlobHash e f)" "op_kept e (opBlockhash e f)" "op_kept e (opTload e f)"
  by (simp_all add: opOrigin_def opGasPrice_def opCoinbase_def opTimestamp_def opNumber_def opPrevRandao_def
      opGasLimit_def opChainID_def opBaseFee_def opBlobBaseFee_def opSlotNum_def opReturndataSize_def
      opBlobHash_def opBlockhash_def opTload_def op_kept_bind evm_refl)

lemma account_op_kept: "op_kept e (account_op get e f)"
  by (auto simp: account_op_def Let_def evm_refl split: list.split option.split)

lemma reading_ops_kept:
  "op_kept e (opKeccak256 E e f)" "op_kept e (opReturndataCopy e f)" "op_kept e (opSload e f)"
  "op_kept e (opSelfBalance e f)" "op_kept e (opBalance e f)" "op_kept e (opExtcodesize e f)"
  "op_kept e (opExtcodehash e f)" "op_kept e (opExtcodecopy e f)"
  by (auto simp: opKeccak256_def opReturndataCopy_def opSload_def opSelfBalance_def opBalance_def opExtcodesize_def
      opExtcodehash_def opExtcodecopy_def Let_def split_beta evm_refl account_op_kept
      split: list.split option.split intro!: op_kept_bind)

lemma frame_ops_kept:
  "op_kept e (opApprove e f)" "op_kept e (opTxParamLoad e f)" "op_kept e (opTxParamSize e f)" "op_kept e (opTxParamCopy e f)"
  by (auto simp: opApprove_def opTxParamLoad_def opTxParamSize_def opTxParamCopy_def Let_def evm_refl
      split: list.split option.split sum.split intro!: op_kept_bind)

lemma apply_refund_kept: "\<not> ro \<Longrightarrow> db_kept P s (apply_refund r s)"
  by (simp add: apply_refund_def kept_writes db_kept_refl)

lemma transfer_log_kept: "\<not> ro \<Longrightarrow> EmitTransferLog a b x s = Some t \<Longrightarrow> db_kept P s t"
  by (auto simp: EmitTransferLog_def bind_eq_Some_conv kept_writes db_kept_refl split: if_splits)

lemma burn_log_kept: "\<not> ro \<Longrightarrow> EmitBurnLog a x s = Some t \<Longrightarrow> db_kept P s t"
  by (auto simp: EmitBurnLog_def bind_eq_Some_conv kept_writes db_kept_refl split: if_splits)

lemma storage_ops_kept:
  assumes "ro \<Longrightarrow> readOnly e"
  shows "op_kept e (opSstore e f)" "op_kept e (opSstoreGlamst e f)" "op_kept e (makeLog n e f)" "op_kept e (opTstore e f)"
  using assms
  by (auto simp: opSstore_def opSstoreGlamst_def makeLog_def opTstore_def Let_def split_beta evm_refl
      split: list.split option.split intro!: op_kept_bind evm_on_db kept_writes
      intro: evm_set_db db_kept_trans [OF apply_refund_kept kept_writes(1)] kept_writes)

lemma moved_kept:
  assumes "\<not> ro" "0 < x" "x \<le> GetBalance a s"
  shows "EmitTransferLog c d y s = Some t \<Longrightarrow> db_kept P s (SubBalance a x (AddBalance b x t))"
    "EmitBurnLog c y s = Some t \<Longrightarrow> db_kept P s (SubBalance a x (AddBalance b x t))"
proof -
  have move: "db_kept P t (SubBalance a x (AddBalance b x t))" if "GetBalance a t = GetBalance a s"
    using assms that by (intro kept_transfer(2)) simp_all
  show "EmitTransferLog c d y s = Some t \<Longrightarrow> db_kept P s (SubBalance a x (AddBalance b x t))"
    "EmitBurnLog c y s = Some t \<Longrightarrow> db_kept P s (SubBalance a x (AddBalance b x t))"
    using db_kept_trans [OF transfer_log_kept [OF assms(1)] move] db_kept_trans [OF burn_log_kept [OF assms(1)] move]
      emitted_balance by blast+
qed

lemma opSelfdestruct_kept:
  assumes "ro \<Longrightarrow> readOnly e"
  shows "op_kept e (opSelfdestruct e f)"
proof (cases "readOnly e")
  case False
  then have "\<not> ro" using assms by blast
  note kept = evm_set_db [OF _ moved_kept(1) [OF this _ order_refl]] evm_set_db [OF _ moved_kept(2) [OF this _ order_refl]]
    evm_set_db [OF _ kept_transfer(2) [OF this _ order_refl]]
  show ?thesis
    by (auto simp: opSelfdestruct_def Let_def evm_refl split: list.split option.split intro!: op_kept_bind intro: kept)
qed (simp add: opSelfdestruct_def evm_refl)

text \<open>Calls.  \<open>run_kept run\<close> is what a call instruction needs of the loop it is given.\<close>

definition run_kept :: "run_fn \<Rightarrow> bool" where
  "run_kept run \<longleftrightarrow>
     (\<forall>c input e. (ro \<longrightarrow> readOnly e) \<longrightarrow> exec_all (\<lambda>(r, c', e'). evm_kept P e e') (run c input e))"

lemma run_deeper_kept:
  assumes "run_kept run" "ro \<Longrightarrow> readOnly e"
  shows "exec_all (\<lambda>(r, c', e'). evm_kept P e e') (run_deeper run c input e)"
proof -
  have *: "evm_kept P e (e'\<lparr>depth := depth e' - 1\<rparr>)" if "evm_kept P (e\<lparr>depth := depth e + 1\<rparr>) e'" for e'
    using that by (simp add: evm_kept_def same_env_def)
  have "exec_all (\<lambda>(r, c', e'). evm_kept P (e\<lparr>depth := depth e + 1\<rparr>) e') (run c input (e\<lparr>depth := depth e + 1\<rparr>))"
    using assms by (simp add: run_kept_def)
  then show ?thesis by (auto simp: run_deeper_def intro: * elim!: exec_all_mono)
qed

definition call_kept :: "evm \<Rightarrow> ('r \<times> evm) exec \<Rightarrow> bool" where
  "call_kept e r \<longleftrightarrow> exec_all (\<lambda>(x, e'). evm_kept P e e') r"

lemma call_kept_Done [simp]: "call_kept e (Done (x, e')) = evm_kept P e e'" "call_kept e Crash"
  by (simp_all add: call_kept_def)

lemma settle_other_kept:
  assumes "StateDB e = Some s" "Snapshot s = (sid, s1)" "evm_kept P (set_db s1 e) e2"
  shows "call_kept e (settle_other sid e2 r)"
  using evm_revert [OF assms] evm_trans [OF evm_snapshot [OF assms(1)]] assms(2,3)
  by (auto simp: settle_other_def call_kept_def split: prod.split option.split)

lemma settle_call_kept:
  assumes "StateDB e = Some s" "Snapshot s = (sid, s1)" "evm_kept P (set_db s1 e) e2"
  shows "call_kept e (settle_call sid (r, c, e2))"
proof -
  obtain ret err where r: "r = (ret, err)" by (cases r)
  show ?thesis
    using evm_revert [OF assms] evm_trans [OF evm_snapshot [OF assms(1)]] assms(2,3)
    by (cases err) (auto simp: call_kept_def r)
qed

lemma call_kept_bind:
  assumes "exec_all Q m" "\<And>x. Q x \<Longrightarrow> call_kept e (k x)"
  shows "call_kept e (exec_bind m k)"
  using assms by (cases m) (simp_all add: call_kept_def)

lemma transfer_value_kept:
  assumes "\<not> ro" "evm_kept P e0 (set_db s e)" "0 < v" "v \<le> GetBalance caller s"
  shows "exec_all (evm_kept P e0) (transfer_value both caller addr v s e)"
proof -
  note moved = kept_transfer(1) [OF assms(1,3,4)]
  have "evm_kept P e0 (set_db (AddBalance addr v (SubBalance caller v s)) e)"
    using evm_trans [OF assms(2) evm_set_db [OF _ moved]] by simp
  moreover have "evm_kept P e0 (set_db t e)"
    if "EmitTransferLog caller addr v (AddBalance addr v (SubBalance caller v s)) = Some t" for t
    using evm_trans [OF assms(2) evm_set_db [OF _ db_kept_trans [OF moved transfer_log_kept [OF _ that]]]] assms(1) by simp
  ultimately show ?thesis
    by (simp add: transfer_value_def Let_def exec_all_of_option)
qed

lemma call_code_kept:
  assumes e: "StateDB e = Some s" "Snapshot s = (sid, s1)" "evm_kept P (set_db s1 e) e2"
    and run: "run_kept run" "ro \<Longrightarrow> readOnly e"
  shows "call_kept e (call_code E fuel run sid caller addr input gas value e2)"
proof -
  have e2: "evm_kept P e e2" using evm_trans [OF evm_snapshot [OF e(1)]] e(2,3) by simp
  have deep: "exec_all (\<lambda>(r, c', e'). evm_kept P (set_db s1 e) e') (run_deeper run ct input (e2\<lparr>callReservoirForward := 0\<rparr>))" for ct
    using run_deeper_kept [OF run(1), of "e2\<lparr>callReservoirForward := 0\<rparr>" ct input] run(2) evm_kept_env(1) [OF e2]
    by (auto elim!: exec_all_mono intro: evm_trans [OF e(3)])
  have "call_kept e (exec_bind (run_deeper run ct input (e2\<lparr>callReservoirForward := 0\<rparr>))
      (\<lambda>((ret, err), ct, e). settle_call sid ((ret, err), ct, e\<lparr>callReservoirReturn := g err ct\<rparr>)))" for ct g
    by (rule call_kept_bind [OF deep]) (auto intro!: settle_call_kept [OF e(1,2)])
  then show ?thesis
    using settle_other_kept [OF e] e2
    by (auto simp: call_code_def Let_def split: option.split intro!: call_kept_bind [where Q = "\<lambda>_. True"])
       (simp add: exec_all_iff)
qed

lemma created_kept: "db_kept P s (if Exist a s then s else CreateAccount a s)"
  by (simp add: db_kept_refl kept_CreateAccount)

lemma Call_kept:
  assumes "run_kept run" "ro \<Longrightarrow> readOnly e"
  shows "call_kept e (Call E fuel run caller addr input gas value e)"
proof (cases "StateDB e")
  case None
  then show ?thesis by (simp add: Call_def Let_def evm_refl)
next
  case (Some s)
  obtain sid s1 where sn: "Snapshot s = (sid, s1)" by fastforce
  let ?s2 = "if Exist addr s1 then s1 else CreateAccount addr s1"
  have e1: "evm_kept P e (set_db s1 e)" using evm_snapshot [OF Some] sn by simp
  have e2: "evm_kept P (set_db s1 e) (set_db ?s2 e)"
    using evm_set_db [OF _ created_kept, of "set_db s1 e"] by simp
  have code: "call_kept e (call_code E fuel run sid caller addr input gas value e')"
    if "evm_kept P (set_db s1 e) e'" for e'
    by (rule call_code_kept [OF Some sn that assms])
  have "call_kept e (exec_bind (transfer_value both caller addr v ?s2 (set_db s1 e))
      (call_code E fuel run sid caller addr input gas value))"
    if "\<not> readOnly e" "0 < v" "v \<le> GetBalance caller s" for both v
    by (rule call_kept_bind [OF transfer_value_kept code])
       (use e2 that assms(2) snapshot_getters(1) [of caller s] sn in \<open>auto simp: created_balance\<close>)
  then show ?thesis
    using Some sn e1 evm_trans [OF e1 e2] code [OF e2]
    by (simp add: Call_def Let_def evm_refl)
qed

lemma call_in_context_kept:
  assumes "run_kept run" "ro \<Longrightarrow> readOnly e"
  shows "call_kept e (call_in_context E run caller addr input gas value e)"
proof (cases "StateDB e")
  case None
  then show ?thesis by (simp add: call_in_context_def evm_refl split: option.split)
next
  case (Some s)
  obtain sid s1 where sn: "Snapshot s = (sid, s1)" by fastforce
  have "call_kept e (exec_bind (run_deeper run c input (set_db s1 e)) (settle_call sid))" for c
    by (rule call_kept_bind [OF run_deeper_kept [OF assms(1)]])
       (use assms(2) in \<open>auto intro: settle_call_kept [OF Some sn]\<close>)
  then show ?thesis
    using Some sn evm_snapshot [OF Some]
    by (simp add: call_in_context_def Let_def evm_refl split: option.split)
qed

text \<open>A static call sets the flag itself.\<close>

lemma StaticCall_kept:
  assumes "run_kept run"
  shows "call_kept e (StaticCall E run caller addr input gas e)"
proof (cases "StateDB e")
  case None
  then show ?thesis by (simp add: StaticCall_def evm_refl)
next
  case (Some s)
  let ?e = "e\<lparr>readOnly := True\<rparr>"
  have Some': "StateDB ?e = Some s" using Some by simp
  obtain sid s1 where sn: "Snapshot s = (sid, s1)" by fastforce
  have run: "call_kept ?e (exec_bind (run_deeper run c input (set_db s1 ?e)) (settle_call sid))" for c
    by (rule call_kept_bind [OF run_deeper_kept [OF assms(1)]])
       (auto simp: set_db_def intro: settle_call_kept [OF Some' sn, unfolded set_db_def])
  have restore: "call_kept e (exec_bind r (\<lambda>(x, e'). Done (x, e'\<lparr>readOnly := readOnly e\<rparr>)))" if "call_kept ?e r" for r :: "('r \<times> evm) exec"
    using that by (cases r) (auto simp: call_kept_def evm_kept_def same_env_def)
  have "call_kept ?e
     (case precompile E (set_db s1 ?e) addr of
        Some p \<Rightarrow> settle_other sid (set_db s1 ?e) (runPrecompile p input gas)
      | None \<Rightarrow>
          if length (GetCode addr s1) = 0 then Done (([], gas, None), set_db s1 ?e)
          else exec_bind (run_deeper run (call_contract s1 caller addr addr (Some 0) gas) input (set_db s1 ?e)) (settle_call sid))"
    using settle_other_kept [OF Some' sn evm_refl] evm_snapshot [OF Some'] sn run
    by (simp split: option.split)
  from restore [OF this] show ?thesis
    using Some sn by (simp add: StaticCall_def evm_refl Let_def)
qed

text \<open>Creation.\<close>

lemma call_kept_trans: "evm_kept P e e1 \<Longrightarrow> call_kept e1 r \<Longrightarrow> call_kept e r"
  by (cases r) (auto simp: call_kept_def intro: evm_trans)

lemma reverted_kept:
  assumes "StateDB e = Some s" "Snapshot s = (sid, s1)" "evm_kept P (set_db s1 e) e2"
  shows "call_kept e (exec_bind (revert_db sid e2) (\<lambda>e. Done (g e, e)))"
  by (rule call_kept_bind [OF evm_revert [OF assms]]) simp

lemma deposit_code_kept:
  assumes "\<not> ro" and e: "StateDB e = Some s" "Snapshot s = (sid, s1)" "evm_kept P (set_db s1 e) e2"
  shows "call_kept e (deposit_code E sid addr ret gas e2)"
proof -
  have "evm_kept P e e2" using evm_trans [OF evm_snapshot [OF e(1)]] e(2,3) by simp
  moreover from this have "evm_kept P e (on_db (SetCode (Keccak256 E) addr ret) e2)"
    by (rule evm_trans [OF _ evm_on_db [OF kept_writes(7) [OF assms(1)]]])
  ultimately show ?thesis
    by (simp add: deposit_code_def Let_def reverted_kept [OF e])
qed

lemma run_init_kept:
  assumes "\<not> ro" "run_kept run" and e: "StateDB e = Some s" "Snapshot s = (sid, s1)" "evm_kept P (set_db s1 e) e2"
  shows "call_kept e (run_init E run sid caller c gas value addr e2)"
  unfolding run_init_def Let_def
  by (rule call_kept_bind [OF run_deeper_kept [OF assms(2)]])
     (use assms(1) in \<open>auto split: option.split
        intro!: deposit_code_kept [OF assms(1) e(1,2)] reverted_kept [OF e(1,2)] intro: evm_trans [OF e(3)]\<close>)

lemma create_kept:
  assumes "\<not> ro" "run_kept run"
  shows "call_kept (set_db s e) (create E run caller c gas value addr s e)"
proof -
  let ?s0 = "AddAddressToAccessList addr s"
  obtain sid s1 where sn: "Snapshot ?s0 = (sid, s1)" by fastforce
  let ?s2 = "SetNonce addr 1 (if Exist addr s1 then s1 else CreateAccount addr s1)"
  have e0: "evm_kept P (set_db s e) (set_db ?s0 e)"
    using evm_set_db [OF _ kept_AddAddress, of "set_db s e"] by simp
  have e2: "evm_kept P (set_db s1 e) (set_db ?s2 e)"
    using evm_set_db [OF _ db_kept_trans [OF created_kept kept_writes(6) [OF assms(1)]], of "set_db s1 e"] by simp
  have e1: "evm_kept P (set_db ?s0 e) (set_db s1 e)"
    using evm_snapshot [of "set_db ?s0 e"] sn by simp
  have init: "call_kept (set_db s e) (run_init E run sid caller c gas value addr e')"
    if "evm_kept P (set_db s1 e) e'" for e'
    by (rule call_kept_trans [OF e0 run_init_kept [OF assms _ sn]]) (simp_all add: that)
  have "call_kept (set_db s e)
      (exec_bind (transfer_value True caller addr value ?s2 e) (run_init E run sid caller c gas value addr))"
    if "0 < value" "value \<le> GetBalance caller ?s2"
    by (rule call_kept_bind [OF transfer_value_kept [OF assms(1) e2 that] init])
  then show ?thesis
    using evm_trans [OF e0 evm_trans [OF e1 e2]] init [OF e2] sn
    by (simp add: create_def Let_def evm_refl)
qed

lemma Create_kept:
  assumes "run_kept run" "ro \<Longrightarrow> readOnly e"
  shows "call_kept e (Create E run caller c gas value e)" "call_kept e (Create2 E run caller c gas value salt e)"
proof -
  have *: "call_kept e (create E run caller c gas value a (SetNonce b n s) e)" "call_kept e (create E run caller c gas value a s e)"
    if "StateDB e = Some s" "\<not> readOnly e" for s a b n
  proof -
    have "\<not> ro" using that assms(2) by blast
    note kept = evm_set_db [OF that(1) kept_writes(6) [OF this]] evm_set_db [OF that(1) db_kept_refl]
    show "call_kept e (create E run caller c gas value a (SetNonce b n s) e)" "call_kept e (create E run caller c gas value a s e)"
      by (rule call_kept_trans [OF kept(1) create_kept [OF \<open>\<not> ro\<close> assms(1)]]
          call_kept_trans [OF kept(2) create_kept [OF \<open>\<not> ro\<close> assms(1)]])+
  qed
  show "call_kept e (Create E run caller c gas value e)"
    using * by (auto simp: Create_def Let_def evm_refl split: option.split)
  show "call_kept e (Create2 E run caller c gas value salt e)"
    using * by (auto simp: Create2_def of_option_def evm_refl split: option.split)
qed

text \<open>Instructions and runs.\<close>

definition result_kept :: "evm \<Rightarrow> ('r \<times> 'c \<times> evm) exec \<Rightarrow> bool" where
  "result_kept e r \<longleftrightarrow> exec_all (\<lambda>(x, c, e'). evm_kept P e e') r"

lemma result_kept_Done [simp]: "result_kept e (Done (x, c, e')) = evm_kept P e e'" "result_kept e Crash"
  by (simp_all add: result_kept_def)

lemma result_kept_bind:
  assumes "call_kept e m" "\<And>x e'. evm_kept P e e' \<Longrightarrow> result_kept e (k (x, e'))"
  shows "result_kept e (exec_bind m k)"
  using assms by (cases m) (auto simp: result_kept_def call_kept_def)

lemma result_kept_option: "(\<And>x. result_kept e (k x)) \<Longrightarrow> result_kept e (exec_bind (of_option r) k)"
  by (cases r) (simp_all add: of_option_def result_kept_def)

lemma result_kept_op: "op_kept e r \<Longrightarrow> result_kept e (of_option r)"
  by (auto simp: result_kept_def op_kept_def exec_all_of_option)

lemma finish_kept:
  assumes "evm_kept P e e'"
  shows "result_kept e (finish_call offs n f (r, e'))" "result_kept e (finish_create f (q, e'))"
  using assms
  by (auto simp: finish_call_def finish_create_def Let_def split: prod.split intro!: result_kept_option)

lemma call_ops_kept:
  assumes "run_kept run" "ro \<Longrightarrow> readOnly e"
  shows "result_kept e (opCall E fuel run e f)" "result_kept e (opCallCode E run e f)"
    "result_kept e (opDelegateCall E run e f)" "result_kept e (opStaticCall E run e f)"
proof -
  have t: "evm_kept P e (track ev e)" for ev by (simp add: evm_refl)
  have "call_kept e (Call E fuel run c a input g v ((track ev e)\<lparr>callReservoirForward := x\<rparr>))" for c a input g v ev x
    by (rule call_kept_trans [OF _ Call_kept [OF assms(1)]]) (simp_all add: evm_refl assms(2))
  then show "result_kept e (opCall E fuel run e f)"
    by (auto simp: opCall_def Let_def split: list.split
        intro!: result_kept_option result_kept_bind finish_kept(1))
  have "call_kept e (call_in_context E run c a input g v (track ev e))" for c a input g v ev
    by (rule call_kept_trans [OF t call_in_context_kept [OF assms(1)]]) (simp add: assms(2))
  then show "result_kept e (opCallCode E run e f)" "result_kept e (opDelegateCall E run e f)"
    by (auto simp: opCallCode_def opDelegateCall_def CallCode_def DelegateCall_def Let_def split: list.split
        intro!: result_kept_option result_kept_bind finish_kept(1))
  have "call_kept e (StaticCall E run c a input g (track ev e))" for c a input g ev
    by (rule call_kept_trans [OF t StaticCall_kept [OF assms(1)]])
  then show "result_kept e (opStaticCall E run e f)"
    by (auto simp: opStaticCall_def Let_def split: list.split
        intro!: result_kept_option result_kept_bind finish_kept(1))
qed

lemma create_ops_kept:
  assumes "run_kept run" "ro \<Longrightarrow> readOnly e"
  shows "result_kept e (opCreate E run e f)" "result_kept e (opCreate2 E run e f)"
  using Create_kept [OF assms]
  by (auto simp: opCreate_def opCreate2_def Let_def evm_refl split: list.split
      intro!: result_kept_option result_kept_bind finish_kept(2))

lemma opRVCreate_kept:
  assumes "ro \<Longrightarrow> readOnly e"
  shows "result_kept e (opRVCreate E e f)"
proof (cases "readOnly e")
  case False
  then have "\<not> ro" using assms by blast
  then have new: "db_kept P s (SetCode h a c s)" "\<not> Exist a s \<Longrightarrow> db_kept P s (SetCode h a c (CreateAccount a s))" for s h a c
    by (blast intro: db_kept_trans kept_CreateAccount kept_writes)+
  have moved: "db_kept P s (AddBalance b x (SubBalance d x (SetCode h a c s)))"
    "\<not> Exist a s \<Longrightarrow> db_kept P s (AddBalance b x (SubBalance d x (SetCode h a c (CreateAccount a s))))"
    if "0 < x" "x \<le> GetBalance d s" for s h a c b x d
    using that created_balance [of d a s] new db_kept_trans [OF _ kept_transfer(1) [OF \<open>\<not> ro\<close>]] by simp_all
  have created: "GetBalance b (CreateAccount a s) = GetBalance b s" if "\<not> Exist a s" for a b s
    using created_balance [of b a s] that by simp
  show ?thesis
    by (auto simp: created not_less opRVCreate_def Let_def evm_refl split: list.split option.split
        intro!: result_kept_option
        intro: new [THEN evm_set_db [rotated]] moved [THEN evm_set_db [rotated]])
qed (simp add: opRVCreate_def evm_refl)

lemma run_op_kept:
  assumes "run_kept run" "ro \<Longrightarrow> readOnly e"
  shows "result_kept e (run_op E fuel run g e f)"
proof -
  have "result_kept e (exec_stack h e f)" "result_kept e (exec_frame k e f)" for h k
    by (auto simp: exec_stack_def exec_frame_def evm_refl split: prod.split intro!: result_kept_option)
  then show ?thesis
    using assms
    by (cases g) (simp_all add: result_kept_op environment_ops_kept reading_ops_kept frame_ops_kept
        storage_ops_kept opSelfdestruct_kept call_ops_kept create_ops_kept opRVCreate_kept)
qed

lemma step_kept:
  assumes "run_kept run" "ro \<Longrightarrow> readOnly e"
  shows "exec_all (\<lambda>r. evm_kept P e (evm_of r)) (step E fuel run f e)"
proof -
  have after: "evm_of (after_op op (r, f', e')) = e'" for op r f' e'
    by (cases r) (simp add: after_op_def split: option.split)
  have op: "exec_all (\<lambda>x. evm_kept P e (evm_of (after_op op x))) (run_op E fuel run g e1 f')"
    if "evm_kept P e e1" for op g e1 f'
    using run_op_kept [OF assms(1), of e1 E fuel g f'] that evm_kept_env(1) [OF that] assms(2)
    by (auto simp: result_kept_def after elim!: exec_all_mono intro: evm_trans)
  have dyn: "evm_kept P e e1" if "dynamic_cost op n e c f = Some (cost, c1, e1)" for op n c cost c1 e1
    using that dynamic_gas_kept evm_refl by (auto simp: dynamic_cost_def op_kept_def split: option.splits)
  show ?thesis
    by (auto simp: step_def Let_def evm_refl exec_all_of_option op dyn split: option.split)
qed

theorem run_loop_kept: "(ro \<Longrightarrow> readOnly e) \<Longrightarrow> result_kept e (run_loop E fuel f e)"
proof (induction fuel arbitrary: f e)
  case (Suc fuel)
  have "run_kept (\<lambda>c input e. run_loop E fuel (new_frame c input) e)"
    using Suc.IH by (simp add: run_kept_def result_kept_def)
  from step_kept [OF this Suc.prems, where E = E and fuel = fuel and f = f]
  have "exec_all (\<lambda>r. result_kept e (case r of Halt res c e \<Rightarrow> Done (res, c, e) | Next f e \<Rightarrow> run_loop E fuel f e))
      (step E fuel (\<lambda>c input e. run_loop E fuel (new_frame c input) e) f e)"
  proof (rule exec_all_mono)
    fix r assume r: "evm_kept P e (evm_of r)"
    show "result_kept e (case r of Halt res c e \<Rightarrow> Done (res, c, e) | Next f e \<Rightarrow> run_loop E fuel f e)"
    proof (cases r)
      case (Next f' e')
      then have "evm_kept P e e'" using r by simp
      then show ?thesis
        using Suc.IH [of e' f'] Suc.prems evm_kept_env(1) Next
        by (auto simp: result_kept_def elim!: exec_all_mono intro: evm_trans)
    qed (use r in simp)
  qed
  then show ?case by (simp add: result_kept_def)
qed (simp add: result_kept_def)

lemma Run_kept: "run_kept (Run E fuel)"
  using run_loop_kept by (simp add: run_kept_def Run_def result_kept_def)

end

end
