(* ===== verification/Evm_Sample.thy ===== *)
theory Evm_Sample
  imports Evm_Interp
begin

text \<open>
  A small environment, state and EVM on which the properties of the interpreter are
  evaluated: account 1 owns 10 wei, account 2 has code that fails at once (\<open>INVALID\<close>).
\<close>

definition sample_env :: evm_env where
  "sample_env =
     \<lparr>Crypto = \<lparr>keccak = (\<lambda>b. replicate 32 7), sha256 = rev\<rparr>,
      PrecompiledContractsCancun = (\<lambda>a. None), PrecompiledContractsGlamsterdan = (\<lambda>a. None),
      PrecompiledContractsIPlus = (\<lambda>a. None)\<rparr>"

definition sample_block :: block_context where
  "sample_block =
     \<lparr>GetHash = None, BC_BlockNumber = Some 1, Time = 0, Coinbase = 0, BC_GasLimit = 0, BaseFee = None,
      PrevRandao = 0, BlobBaseFee = None, SlotNumber = 0\<rparr>"

definition sample_tx :: tx_context where
  "sample_tx = \<lparr>Origin = 0, GasPrice = None, BlobHashes = []\<rparr>"

definition sample_ops :: "db_op list" where
  "sample_ops = [OpAddBalance 1 10, OpSetCode 2 [0xFE]]"

definition sample_db :: statedb where
  "sample_db = SetCode (Keccak256 sample_env) 2 [0xFE] (AddBalance 1 10 NewMemoryStateDB)"

definition sample_evm :: evm where
  "sample_evm = NewEVMWithState sample_block sample_tx 0 (Some sample_db)"

lemmas sample_defs = sample_env_def sample_block_def sample_tx_def sample_db_def sample_evm_def
  NewEVMWithState_def NewEVM_def no_rules_def

lemma sample_built: "exec_ops (Keccak256 sample_env) sample_ops NewMemoryStateDB = Some sample_db"
  by (simp add: sample_ops_def sample_db_def)

lemma sample_evm_fields: "StateDB sample_evm = Some sample_db" "jumpTable sample_evm = NewCancunJumpTable"
  "readOnly sample_evm = False" "depth sample_evm = 0" "MaxCallDepth sample_evm = 1024"
  "forkRules sample_evm = no_rules" "precompiles sample_evm = None"
  by (simp_all add: sample_defs)

lemma lookup_invalid: "NewCancunJumpTable 0xFE = Some (op_entry (FrameFn opInvalid) 0 0 1024)"
  by (simp add: set_ops_find upt_conv_Cons table_defs)

text \<open>Code that starts with \<open>INVALID\<close> fails at once.\<close>

lemma run_invalid:
  assumes "Code c = [0xFE]" "jumpTable e = NewCancunJumpTable"
  shows "Run E (Suc n) c input e = Done (([], Some ErrInvalidOpCode), c\<lparr>Input := input\<rparr>, e)"
  using assms lookup_invalid
  by (simp add: Run_def step_def Let_def new_frame_def GetOp_def op_entry_def UseGas_def required_memory_def
      dynamic_cost_def of_option_def exec_frame_def u64_len_def opInvalid_def fail_frame_def after_op_def grow_def)

end
