(* ===== verification/Evm_Atomic.thy ===== *)
theory Evm_Atomic
  imports Evm_Kept Evm_Sample
begin

text \<open>
  What message calls guarantee: the interpretations of \<open>evm_view\<close> on the total supply and on the
  state without the access list, and the restoration of the state by a call that fails.
\<close>

section \<open>The two views\<close>

definition solvent :: "statedb \<Rightarrow> bool" where
  "solvent s \<longleftrightarrow> (\<forall>a. 0 \<le> GetBalance a s)"

text \<open>No value is made or lost, and no account overdraws.\<close>

definition value_kept :: "statedb \<Rightarrow> statedb \<Rightarrow> bool" where
  "value_kept s t \<longleftrightarrow> total_supply t = total_supply s \<and> (solvent s \<longrightarrow> solvent t)"

lemma value_kept_cong: "(\<And>a. GetBalance a t = GetBalance a s) \<Longrightarrow> value_kept s t"
  using supply_cong [of t s] by (simp add: value_kept_def solvent_def)

lemma value_kept_same: "same_state s t \<Longrightarrow> value_kept s t"
  by (rule value_kept_cong) (simp add: same_state_def)

interpretation supply_view: evm_view value_kept False
proof
  show "value_kept s t \<Longrightarrow> value_kept t u \<Longrightarrow> value_kept s u" for s t u
    by (simp add: value_kept_def)
  show "db_valid s \<Longrightarrow> restored s t \<Longrightarrow> value_kept s t" for s t
    by (blast intro: value_kept_cong restored_object_view(1))
  show "\<lbrakk>\<not> False; 0 < x; x \<le> GetBalance a s\<rbrakk> \<Longrightarrow> value_kept s (AddBalance b x (SubBalance a x s))" for a b x s
    by (auto simp: value_kept_def supply_transfer solvent_def GetBalance_AddBalance GetBalance_SubBalance intro: add_nonneg_nonneg)
  show "\<lbrakk>\<not> False; 0 < x; x \<le> GetBalance a s\<rbrakk> \<Longrightarrow> value_kept s (SubBalance a x (AddBalance b x s))" for a b x s
    by (auto simp: value_kept_def supply_transfer' solvent_def GetBalance_AddBalance GetBalance_SubBalance intro: add_nonneg_nonneg)
  show "AddSlotToAccessList a k s = Some t \<Longrightarrow> value_kept s t" for a k s t
    by (rule value_kept_same [OF same_AddSlot])
qed (simp_all add: value_kept_same same_AddAddress same_CreateAccount value_kept_cong)

interpretation static_view: evm_view same_state True
  by unfold_locales (simp_all add: same_AddAddress same_AddSlot same_CreateAccount)

section \<open>Failed calls\<close>

definition failure_undone :: "statedb \<Rightarrow> (bytes \<times> u64 \<times> vm_error option) \<times> evm \<Rightarrow> bool" where
  "failure_undone s r =
     (case r of ((ret, gasLeft, err), e) \<Rightarrow> err \<noteq> None \<longrightarrow> (\<exists>t. StateDB e = Some t \<and> same_observations s t))"

lemma failure_undone_simps [simp]:
  "failure_undone s ((ret, gas, None), e)"
  "failure_undone s ((ret, gas, Some err), e) \<longleftrightarrow> (\<exists>t. StateDB e = Some t \<and> same_observations s t)"
  by (simp_all add: failure_undone_def)

lemma restored_created:
  assumes "db_valid s" "Snapshot s = (sid, s1)"
  shows "restored s (if Exist a s1 then s1 else CreateAccount a s1)"
proof -
  have s1: "restored s s1" using assms db.sim_refl by (auto simp: Snapshot_def journal_snapshot_def Let_def)
  moreover have "restored s1 (CreateAccount a s1)" if "\<not> Exist a s1"
    using that db.sim_refl [OF db.sim_valid [OF s1]]
    by (auto simp: restored_def CreateAccount_def Exist_def put_object_def log_change_def getter_defs)
  ultimately show ?thesis using db.sim_trans by auto
qed

context evm_view
begin

lemma revert_undone:
  assumes "StateDB e = Some s" "Snapshot s = (sid, s1)" "evm_kept P (set_db s1 e) e2" "pdb_inv s h"
  shows "exec_all (\<lambda>e3. \<exists>t. StateDB e3 = Some t \<and> same_observations s t) (revert_db sid e2)"
proof -
  obtain s2 where s2: "StateDB e2 = Some s2" "db_kept P s1 s2"
    using assms(3) by (auto simp: evm_kept_def set_db_def option_rel_Some1)
  show ?thesis
    using revert_restored [OF assms(2) s2(2) _ assms(4)] restored_observations pdb_inv_valid [OF assms(4)] s2(1)
    by (auto simp: revert_db_def split: option.split)
qed

lemma settled_undone:
  assumes "StateDB e = Some s" "Snapshot s = (sid, s1)" "evm_kept P (set_db s1 e) e2" "pdb_inv s h"
  shows "exec_all (failure_undone s) (settle_call sid (r, c, e2))"
    "exec_all (failure_undone s) (settle_other sid e2 q)"
proof -
  obtain ret err where r: "r = (ret, err)" by (cases r)
  show "exec_all (failure_undone s) (settle_call sid (r, c, e2))"
    using revert_undone [OF assms] by (cases err) (auto simp: r elim!: exec_all_mono)
  show "exec_all (failure_undone s) (settle_other sid e2 q)"
    using revert_undone [OF assms] by (auto simp: settle_other_def split: prod.split option.split elim!: exec_all_mono)
qed

lemma call_code_undone:
  assumes e: "StateDB e = Some s" "Snapshot s = (sid, s1)" "evm_kept P (set_db s1 e) e2" "pdb_inv s h"
    and run: "run_kept run" "ro \<Longrightarrow> readOnly e"
  shows "exec_all (failure_undone s) (call_code E fuel run sid caller addr input gas value e2)"
proof -
  have ro2: "ro \<Longrightarrow> readOnly (e2\<lparr>callReservoirForward := 0\<rparr>)"
    using run(2) evm_kept_env(1) [OF e(3)] by simp
  have "exec_all (failure_undone s) (exec_bind (run_deeper run ct input (e2\<lparr>callReservoirForward := 0\<rparr>))
      (\<lambda>((ret, err), ct, e). settle_call sid ((ret, err), ct, e\<lparr>callReservoirReturn := g err ct\<rparr>)))" for ct g
    by (rule exec_all_then [OF run_deeper_kept [OF run(1) ro2]])
       (auto intro!: settled_undone(1) [OF e(1,2) _ e(4)] intro: evm_trans [OF e(3)])
  then show ?thesis
    using settled_undone(2) [OF e]
    by (auto simp: call_code_def Let_def split: option.split intro!: exec_all_then [where Q = "\<lambda>_. True"])
       (simp add: exec_all_iff)
qed

lemma Call_undone:
  assumes "run_kept run" "ro \<Longrightarrow> readOnly e" and s: "StateDB e = Some s" and inv: "pdb_inv s h"
  shows "exec_all (failure_undone s) (Call E fuel run caller addr input gas value e)"
proof -
  obtain sid s1 where sn: "Snapshot s = (sid, s1)" by fastforce
  let ?s2 = "if Exist addr s1 then s1 else CreateAccount addr s1"
  have e2: "evm_kept P (set_db s1 e) (set_db ?s2 e)"
    using evm_set_db [OF _ created_kept, of "set_db s1 e"] by simp
  have code: "exec_all (failure_undone s) (call_code E fuel run sid caller addr input gas value e')"
    if "evm_kept P (set_db s1 e) e'" for e'
    by (rule call_code_undone [OF s sn that inv assms(1,2)])
  have "exec_all (failure_undone s) (exec_bind (transfer_value both caller addr v ?s2 (set_db s1 e))
      (call_code E fuel run sid caller addr input gas value))"
    if "\<not> readOnly e" "0 < v" "v \<le> GetBalance caller s" for both v
    by (rule exec_all_then [OF transfer_value_kept code])
       (use e2 that assms(2) snapshot_getters(1) [of caller s] sn in \<open>auto simp: created_balance\<close>)
  moreover have "same_observations s s" "same_observations s ?s2"
    using restored_observations [OF db.sim_refl] restored_observations [OF restored_created [OF _ sn]] pdb_inv_valid [OF inv]
    by blast+
  ultimately show ?thesis
    using s sn code [OF e2] by (simp add: Call_def Let_def)
qed

lemma call_in_context_undone:
  assumes "run_kept run" "ro \<Longrightarrow> readOnly e" and s: "StateDB e = Some s" and inv: "pdb_inv s h"
  shows "exec_all (failure_undone s) (call_in_context E run caller addr input gas value e)"
proof -
  obtain sid s1 where sn: "Snapshot s = (sid, s1)" by fastforce
  have "exec_all (failure_undone s) (exec_bind (run_deeper run c input (set_db s1 e)) (settle_call sid))" for c
    by (rule exec_all_then [OF run_deeper_kept [OF assms(1)]])
       (use assms(2) in \<open>auto intro: settled_undone(1) [OF s sn _ inv]\<close>)
  moreover have "same_observations s s"
    using restored_observations [OF db.sim_refl] pdb_inv_valid [OF inv] by blast
  ultimately show ?thesis
    using s sn by (simp add: call_in_context_def Let_def failure_undone_def split: option.split prod.split)
qed

end

context evm_view
begin

lemma StaticCall_undone:
  assumes "run_kept run" and s: "StateDB e = Some s" and inv: "pdb_inv s h"
  shows "exec_all (failure_undone s) (StaticCall E run caller addr input gas e)"
proof -
  let ?e = "e\<lparr>readOnly := True\<rparr>"
  obtain sid s1 where sn: "Snapshot s = (sid, s1)" by fastforce
  have s': "StateDB ?e = Some s" using s by simp
  have "exec_all (failure_undone s) (exec_bind (run_deeper run c input (set_db s1 ?e)) (settle_call sid))" for c
    by (rule exec_all_then [OF run_deeper_kept [OF assms(1)]])
       (auto simp: set_db_def intro: settled_undone(1) [OF s' sn _ inv, unfolded set_db_def])
  moreover have "failure_undone s (r, e'\<lparr>readOnly := b\<rparr>) = failure_undone s (r, e')" for r e' b
    by (simp add: failure_undone_def)
  moreover have "same_observations s s"
    using restored_observations [OF db.sim_refl] pdb_inv_valid [OF inv] by blast
  ultimately show ?thesis
    using s sn settled_undone(2) [OF s' sn evm_refl inv]
    by (auto simp: StaticCall_def Let_def split_beta split: option.split elim!: exec_all_mono intro!: exec_all_mono)
qed

end

section \<open>Calls on the sample state\<close>

lemma sample_getters:
  "GetBalance 1 sample_db = 10" "GetCode 2 sample_db = [0xFE]" "Exist 2 sample_db"
  by (simp_all add: sample_db_def sample_env_def NewMemoryStateDB_def AddBalance_def SetCode_def getOrNew_eq
      Let_def getters_obj set_balance_def set_code_def obj_of_def put_object_def log_change_def
      newStateObject_def NewAccount_def Exist_def)

lemma sample_revert:
  "\<exists>t. RevertToSnapshot (fst (Snapshot sample_db)) (AddBalance 2 3 (SubBalance 1 3 (snd (Snapshot sample_db)))) = Some t"
  "\<exists>t. RevertToSnapshot (fst (Snapshot sample_db)) (snd (Snapshot sample_db)) = Some t"
  using db_inv_exec_ops [OF db_inv_new, of "sample_ops @ [OpSnapshot, OpRevert (fst (Snapshot sample_db))]"
    "Keccak256 sample_env"] db_inv_exec_ops [OF db_inv_new, of "sample_ops @ [OpSnapshot, OpSubBalance 1 3, OpAddBalance 2 3,
    OpRevert (fst (Snapshot sample_db))]" "Keccak256 sample_env"]
  by (auto simp: sample_ops_def simp flip: sample_db_def split: option.splits)

lemma GetCode_moved: "GetCode a (AddBalance b x (SubBalance c x s)) = GetCode a s"
  by (simp add: AddBalance_def SubBalance_def getOrNew_eq Let_def getters_obj set_balance_def)


lemma untracked: "balTracker e = None \<Longrightarrow> track ev e = e"
  by (simp add: track_def)

lemma set_db_others: "balTracker (set_db s e) = balTracker e" "precompiles (set_db s e) = precompiles e"
  "jumpTable (set_db s e) = jumpTable e" "MaxCallDepth (set_db s e) = MaxCallDepth e"
  by (simp_all add: set_db_def)

lemma sample_rest: "balTracker sample_evm = None" "precompile sample_env (set_db s sample_evm) a = None"
  by (simp_all add: sample_defs precompile_def set_db_def)

lemma sample_transfer:
  "transfer_value True 1 2 3 s (set_db s sample_evm) = Done (set_db (AddBalance 2 3 (SubBalance 1 3 s)) sample_evm)"
  by (simp add: transfer_value_def untracked set_db_others sample_rest sample_evm_fields no_rules_def)

lemma sample_call:
  "\<exists>e'. Call sample_env 5 (Run sample_env 5) 1 2 [] 1000 (Some 3) sample_evm =
     Done (([], 0, Some ErrInvalidOpCode), e')"
proof -
  let ?s = "AddBalance 2 3 (SubBalance 1 3 (snd (Snapshot sample_db)))"
  obtain t where t: "RevertToSnapshot (fst (Snapshot sample_db)) ?s = Some t"
    using sample_revert(1) by blast
  have "\<exists>e'. call_code sample_env 5 (Run sample_env 5) (fst (Snapshot sample_db)) 1 2 [] 1000 (Some 3)
      (set_db ?s sample_evm) = Done (([], 0, Some ErrInvalidOpCode), e')"
    using run_invalid [where n = 4 and E = sample_env] t
    by (simp add: call_code_def sample_rest GetCode_moved snapshot_getters sample_getters set_db_others
        sample_evm_fields no_rules_def run_deeper_def call_contract_def revert_db_def Let_def)
  then show ?thesis
    by (simp add: Call_def sample_evm_fields Let_def or_zero_def sample_getters split_beta snapshot_getters sample_transfer)
qed
lemma sample_static:
  "\<exists>e'. StaticCall sample_env (Run sample_env 5) 1 2 [] 1000 sample_evm = Done (([], 0, Some ErrInvalidOpCode), e')"
proof -
  obtain t where "RevertToSnapshot (fst (Snapshot sample_db)) (snd (Snapshot sample_db)) = Some t"
    using sample_revert(2) by blast
  moreover have "precompile sample_env (set_db s (sample_evm\<lparr>readOnly := True\<rparr>)) a = None" for s a
    by (simp add: sample_defs precompile_def set_db_def)
  ultimately show ?thesis
    using run_invalid [where n = 4 and E = sample_env]
    by (simp add: StaticCall_def snapshot_getters sample_getters set_db_others sample_evm_fields split_beta
        run_deeper_def call_contract_def revert_db_def Let_def)
qed

section \<open>Properties\<close>

text \<open>
  C5. Execution creates and destroys no value, and nobody overdraws.  Whatever a message call or a
  contract creation runs, including all calls, creations, self-destructs and reverts inside it, when
  it returns the sum of all balances is what it was before, and if no balance was negative then
  none is.
\<close>

theorem execution_conserves_supply:
  assumes "exec_ops hash_fn ops NewMemoryStateDB = Some s" "StateDB e = Some s"
    and "Call E n (Run E fuel) caller addr input gas v e = Done (r, e') \<or>
      Create E (Run E fuel) caller c gas endowment e = Done (q, e') \<or>
      Create2 E (Run E fuel) caller c gas endowment salt e = Done (q, e')"
  shows "\<exists>t. StateDB e' = Some t \<and> total_supply t = total_supply s \<and> (solvent s \<longrightarrow> solvent t)"
proof -
  obtain h where inv: "pdb_inv s h" using pdb_inv_built [OF assms(1)] by blast
  have "evm_kept value_kept e e'"
    using assms(3) supply_view.Call_kept [OF supply_view.Run_kept, of e E n E fuel caller addr input gas v]
      supply_view.Create_kept(1) [OF supply_view.Run_kept, of e E E fuel caller c gas endowment]
      supply_view.Create_kept(2) [OF supply_view.Run_kept, of e E E fuel caller c gas endowment salt]
    by (auto simp: supply_view.call_kept_def)
  then show ?thesis
    using assms(2) inv by (auto simp: evm_kept_def db_kept_def option_rel_Some1 value_kept_def)
qed

theorem execution_conserves_supply_witness:
  "\<exists>r e' t. Call sample_env 5 (Run sample_env 5) 1 2 [] 1000 (Some 3) sample_evm = Done (r, e') \<and>
     StateDB e' = Some t \<and> total_supply t = total_supply sample_db"
  using sample_call execution_conserves_supply [OF sample_built sample_evm_fields(1)] by metis

text \<open>
  C8. A static call changes nothing.  Whatever code it runs, after \<open>StaticCall\<close> every account has its
  balance, nonce, code, storage, transient storage and destruction mark, the logs and the
  refund counter are as before, and the read-only flag is back to its value.
\<close>

theorem static_call_changes_nothing:
  assumes "exec_ops hash_fn ops NewMemoryStateDB = Some s" "StateDB e = Some s"
    and "StaticCall E (Run E fuel) caller addr input gas e = Done (r, e')"
  shows "(\<exists>t. StateDB e' = Some t \<and> same_state s t) \<and> readOnly e' = readOnly e"
proof -
  obtain h where inv: "pdb_inv s h" using pdb_inv_built [OF assms(1)] by blast
  have "evm_kept same_state e e'"
    using assms(3) static_view.StaticCall_kept [OF static_view.Run_kept, of e E E fuel caller addr input gas]
    by (simp add: static_view.call_kept_def)
  then show ?thesis
    using assms(2) inv by (auto simp: evm_kept_def db_kept_def option_rel_Some1 same_env_def)
qed

theorem static_call_changes_nothing_witness:
  "\<exists>r e' t. StaticCall sample_env (Run sample_env 5) 1 2 [] 1000 sample_evm = Done (r, e') \<and>
     StateDB e' = Some t \<and> same_state sample_db t \<and> \<not> readOnly e'"
  using sample_static static_call_changes_nothing [OF sample_built sample_evm_fields(1)] sample_evm_fields(3) by metis

text \<open>
  C7. A call that fails leaves no trace.  When a call of any of the four kinds returns an error, be it a revert,
  an exceptional halt of the code, a failed precompile or a check before the code runs, then no getter but
  \<open>Exist\<close> and \<open>GetCodeHash\<close> distinguishes the state from that before the call, whatever the code has done.
\<close>

theorem failed_call_restores:
  assumes "exec_ops hash_fn ops NewMemoryStateDB = Some s" "StateDB e = Some s"
    and "r = Done ((ret, gasLeft, Some err), e')"
    and "r = Call E n (Run E fuel) caller addr input gas w e \<or>
      r = CallCode E (Run E fuel) caller addr input gas v e \<or>
      r = DelegateCall E (Run E fuel) caller addr input gas e \<or>
      r = StaticCall E (Run E fuel) caller addr input gas e"
  shows "\<exists>t. StateDB e' = Some t \<and> same_observations s t"
proof -
  obtain h where inv: "pdb_inv s h" using pdb_inv_built [OF assms(1)] by blast
  note undone = supply_view.Call_undone [OF supply_view.Run_kept _ assms(2) inv]
    supply_view.call_in_context_undone [OF supply_view.Run_kept _ assms(2) inv]
    supply_view.StaticCall_undone [OF supply_view.Run_kept assms(2) inv]
  have "exec_all (failure_undone s) r"
    using assms(4) by (auto simp: undone CallCode_def DelegateCall_def)
  then show ?thesis using assms(3) by simp
qed

theorem failed_call_restores_witness:
  "\<exists>err e' t. Call sample_env 5 (Run sample_env 5) 1 2 [] 1000 (Some 3) sample_evm = Done (([], 0, Some err), e') \<and>
     StateDB e' = Some t \<and> same_observations sample_db t"
  using sample_call failed_call_restores [OF sample_built sample_evm_fields(1)] by metis

end
