(* ===== verification/Evm_Metered.thy ===== *)
theory Evm_Metered
  imports Evm_Atomic
begin

text \<open>
  Gas bounds execution.  Every instruction of the tables from Berlin to Prague costs gas or
  ends the run, and what a call or a creation returns is less than what was paid for it, so a
  run with gas \<open>g\<close> ends within \<open>g + 1\<close> units of fuel and never ends with more gas than it began with.
\<close>

section \<open>Results that are reached\<close>

definition exec_ends :: "('a \<Rightarrow> bool) \<Rightarrow> 'a exec \<Rightarrow> bool" where
  "exec_ends Q r = (case r of Done x \<Rightarrow> Q x | Crash \<Rightarrow> True | NoFuel \<Rightarrow> False)"

lemma exec_ends_simps [simp]: "exec_ends Q (Done x) = Q x" "exec_ends Q Crash" "\<not> exec_ends Q NoFuel"
  by (simp_all add: exec_ends_def)

lemma exec_ends_then:
  assumes "exec_ends Q m" "\<And>x. Q x \<Longrightarrow> exec_ends R (k x)"
  shows "exec_ends R (exec_bind m k)"
  using assms by (cases m) simp_all

lemma exec_ends_mono: "exec_ends Q r \<Longrightarrow> (\<And>x. Q x \<Longrightarrow> R x) \<Longrightarrow> exec_ends R r"
  by (cases r) simp_all

lemma exec_ends_option: "(\<And>x. r = Some x \<Longrightarrow> exec_ends Q (k x)) \<Longrightarrow> exec_ends Q (exec_bind (of_option r) k)"
  by (cases r) (simp_all add: of_option_def)

lemma exec_ends_revert: "(\<And>e. exec_ends Q (k e)) \<Longrightarrow> exec_ends Q (exec_bind (revert_db sid e) k)"
  by (simp add: revert_db_def split: option.split)

section \<open>Calls\<close>

text \<open>
  What a call needs of the loop it is given: with gas below \<open>n\<close> it ends and returns no more gas.
  \<open>T\<close> is what is known of the jump table.
\<close>

definition metered_run :: "(jump_table \<Rightarrow> bool) \<Rightarrow> nat \<Rightarrow> run_fn \<Rightarrow> bool" where
  "metered_run T n run \<longleftrightarrow>
     (\<forall>c input e. T (jumpTable e) \<and> \<not> IsIPlus (forkRules e) \<and> unat (Gas c) < n \<longrightarrow>
        exec_ends (\<lambda>(r, c', e'). Gas c' \<le> Gas c) (run c input e))"

lemma run_deeper_metered:
  assumes "metered_run T n run" "T (jumpTable e)" "\<not> IsIPlus (forkRules e)" "unat (Gas c) < n"
  shows "exec_ends (\<lambda>(r, c', e'). Gas c' \<le> Gas c) (run_deeper run c input e)"
proof -
  have "exec_ends (\<lambda>(r, c', e'). Gas c' \<le> Gas c) (run c input (e\<lparr>depth := depth e + 1\<rparr>))"
    using assms by (simp add: metered_run_def)
  then show ?thesis
    unfolding run_deeper_def by (rule exec_ends_then) auto
qed

definition returns_at_most :: "u64 \<Rightarrow> call_result \<Rightarrow> bool" where
  "returns_at_most g r = exec_ends (\<lambda>((ret, gasLeft, err), e). gasLeft \<le> g) r"

lemma settle_returns:
  assumes "Gas c \<le> g"
  shows "returns_at_most g (settle_call sid (r, c, e))"
proof -
  obtain ret err where r: "r = (ret, err)" by (cases r)
  show ?thesis
    using assms by (cases err) (auto simp: r returns_at_most_def intro!: exec_ends_revert)
qed

lemma settle_other_returns: "gasLeft \<le> g \<Longrightarrow> returns_at_most g (settle_other sid e (ret, gasLeft, err))"
  by (cases err) (auto simp: settle_other_def returns_at_most_def intro!: exec_ends_revert)

lemma runPrecompile_returns: "fst (snd (runPrecompile p input gas)) \<le> gas"
  by (simp add: runPrecompile_def Let_def split_beta word_sub_le not_less)

lemma settle_precompile: "returns_at_most gas (settle_other sid e (runPrecompile p input gas))"
  using runPrecompile_returns [of p input gas] settle_other_returns
  by (cases "runPrecompile p input gas") auto

lemma returns_then:
  assumes "exec_ends Q m" "\<And>x. Q x \<Longrightarrow> returns_at_most g (k x)"
  shows "returns_at_most g (exec_bind m k)"
  using assms exec_ends_then unfolding returns_at_most_def by blast

lemma returns_Done [simp]: "returns_at_most g (Done ((ret, gasLeft, err), e)) \<longleftrightarrow> gasLeft \<le> g" "returns_at_most g Crash"
  by (simp_all add: returns_at_most_def)

lemma Gas_call_contract [simp]: "Gas (call_contract s caller self addr value gas) = gas"
  by (simp add: call_contract_def NewContract_def)

lemma call_code_returns:
  assumes "metered_run T n run" "T (jumpTable e)" "\<not> IsIPlus (forkRules e)" "unat gas < n"
  shows "returns_at_most gas (call_code E fuel run sid caller addr input gas v e)"
proof (cases "StateDB e")
  case (Some s)
  let ?ct = "(call_contract s caller addr addr v gas)\<lparr>StateGasReservoir := callReservoirForward e\<rparr>"
  have "exec_ends (\<lambda>(r, c', e'). Gas c' \<le> Gas ?ct) (run_deeper run ?ct input (e\<lparr>callReservoirForward := 0\<rparr>))"
    by (rule run_deeper_metered [OF assms(1)]) (use assms(2-4) in simp_all)
  then have "returns_at_most gas (exec_bind (run_deeper run ?ct input (e\<lparr>callReservoirForward := 0\<rparr>))
      (\<lambda>((ret, err), ct, e). settle_call sid ((ret, err), ct, e\<lparr>callReservoirReturn := g err ct\<rparr>)))" for g
    by (rule returns_then) (auto intro: settle_returns)
  then show ?thesis
    using Some assms(3) by (auto simp: call_code_def Let_def settle_precompile split: option.split)
qed (simp add: call_code_def split: option.split)

lemma transfer_value_ends:
  "exec_ends (\<lambda>e'. jumpTable e' = jumpTable e \<and> forkRules e' = forkRules e) (transfer_value both caller addr v s e)"
  by (auto simp: transfer_value_def Let_def track_def set_db_def intro!: exec_ends_option)

lemma set_db_table [simp]: "jumpTable (set_db s e) = jumpTable e"
  by (simp add: set_db_def)

lemma Call_returns:
  assumes "metered_run T n run" "T (jumpTable e)" "\<not> IsIPlus (forkRules e)" "unat gas < n"
  shows "returns_at_most gas (Call E fuel run caller addr input gas v e)"
proof (cases "StateDB e")
  case (Some s)
  have code: "returns_at_most gas (call_code E fuel run sid caller addr input gas v e')"
    if "jumpTable e' = jumpTable e \<and> forkRules e' = forkRules e" for sid e'
    by (rule call_code_returns [OF assms(1)]) (use that assms in simp_all)
  have "returns_at_most gas (exec_bind (transfer_value both caller addr w s' (set_db s'' e))
      (call_code E fuel run sid caller addr input gas v))" for both w s' s'' sid
    by (rule returns_then [OF transfer_value_ends code]) simp
  then show ?thesis
    using Some code by (simp add: Call_def Let_def split: prod.split)
qed (simp add: Call_def Let_def)

lemma call_in_context_returns:
  assumes "metered_run T n run" "T (jumpTable e)" "\<not> IsIPlus (forkRules e)" "unat gas < n"
  shows "returns_at_most gas (call_in_context E run caller addr input gas v e)"
proof -
  have "exec_ends (\<lambda>(r, c', e'). Gas c' \<le> gas) (run_deeper run (call_contract s caller caller addr v gas) input (set_db s e))" for s
    using run_deeper_metered [OF assms(1), of "set_db s e" "call_contract s caller caller addr v gas" input] assms(2-4) by simp
  then have "returns_at_most gas
      (exec_bind (run_deeper run (call_contract s caller caller addr v gas) input (set_db s e)) (settle_call sid))" for s sid
    by (rule returns_then) (auto intro: settle_returns)
  moreover have "returns_at_most gas (Done (runPrecompile p input gas, e))" for p
    using runPrecompile_returns [of p input gas] by (cases "runPrecompile p input gas") simp
  ultimately show ?thesis
    by (simp add: call_in_context_def Let_def split: option.split prod.split)
qed

lemma StaticCall_returns:
  assumes "metered_run T n run" "T (jumpTable e)" "\<not> IsIPlus (forkRules e)" "unat gas < n"
  shows "returns_at_most gas (StaticCall E run caller addr input gas e)"
proof -
  let ?e = "\<lambda>s. set_db s (e\<lparr>readOnly := True\<rparr>)" and ?c = "\<lambda>s. call_contract s caller addr addr (Some 0) gas"
  have "exec_ends (\<lambda>(r, c', e'). Gas c' \<le> gas) (run_deeper run (?c s) input (?e s))" for s
    using run_deeper_metered [OF assms(1), of "?e s" "?c s" input] assms(2-4) by simp
  then have run: "returns_at_most gas (exec_bind (run_deeper run (?c s) input (?e s)) (settle_call sid))" for s sid
    by (rule returns_then) (auto intro: settle_returns)
  have restore: "returns_at_most gas (exec_bind r (\<lambda>(r, e). Done (r, e\<lparr>readOnly := b\<rparr>)))" if "returns_at_most gas r" for r b
    using that by (cases r) (auto simp: returns_at_most_def)
  have "returns_at_most gas
     (case precompile E (?e s) addr of
        Some p \<Rightarrow> settle_other sid (?e s) (runPrecompile p input gas)
      | None \<Rightarrow>
          if length (GetCode addr s) = 0 then Done (([], gas, None), ?e s)
          else exec_bind (run_deeper run (?c s) input (?e s)) (settle_call sid))" for s sid
    using run by (simp add: settle_precompile split: option.split)
  from restore [OF this] show ?thesis
    by (simp add: StaticCall_def Let_def split: option.split prod.split)
qed

section \<open>Creation\<close>

definition leaves_at_most :: "nat \<Rightarrow> create_result \<Rightarrow> bool" where
  "leaves_at_most g r = exec_ends (\<lambda>((ret, addr, gasLeft, err), e). unat gasLeft \<le> g) r"

lemma leaves_simps [simp]:
  "leaves_at_most g (Done ((ret, addr, gasLeft, err), e)) \<longleftrightarrow> unat gasLeft \<le> g" "leaves_at_most g Crash"
  by (simp_all add: leaves_at_most_def)

lemma leaves_then:
  assumes "exec_ends Q m" "\<And>x. Q x \<Longrightarrow> leaves_at_most g (k x)"
  shows "leaves_at_most g (exec_bind m k)"
  using assms exec_ends_then unfolding leaves_at_most_def by blast

lemma leaves_revert: "(\<And>e. leaves_at_most g (k e)) \<Longrightarrow> leaves_at_most g (exec_bind (revert_db sid e) k)"
  unfolding leaves_at_most_def by (rule exec_ends_revert)

lemma deposit_code_leaves: "unat gas \<le> g \<Longrightarrow> leaves_at_most g (deposit_code E sid addr ret gas e)"
  using unat_sub_if_size [of gas "u64_len ret * CreateDataGas"]
  by (auto simp: deposit_code_def Let_def not_less word_le_nat_alt intro!: leaves_revert)

lemma run_init_leaves:
  assumes "metered_run T n run" "T (jumpTable e)" "\<not> IsIPlus (forkRules e)" "unat gas < n"
  shows "leaves_at_most (unat gas) (run_init E run sid caller c gas v addr e)"
proof -
  let ?call = "gas - gas div CallGasFraction"
  have le: "gas div CallGasFraction \<le> gas" by (simp add: word_le_nat_alt unat_div)
  have call: "?call \<le> gas" by (rule word_sub_le [OF le])
  have rest: "unat (gas - ?call) + unat ?call = unat gas" using unat_sub [OF le] le by (simp add: word_le_nat_alt)
  have sum: "unat (gas div CallGasFraction + x) \<le> unat gas" "unat (gas div CallGasFraction) \<le> unat gas"
    if "x \<le> ?call" for x
    using that rest unat_plus_if_size [of "gas div CallGasFraction" x] by (auto simp: word_le_nat_alt)
  have "exec_ends (\<lambda>(r, c', e'). Gas c' \<le> ?call) (run_deeper run ((NewContract caller addr (Some v) ?call)\<lparr>Code := c\<rparr>) [] e)"
    using run_deeper_metered [OF assms(1), of e "(NewContract caller addr (Some v) ?call)\<lparr>Code := c\<rparr>" "[]"] assms(2-4) call
    by (simp add: NewContract_def word_le_nat_alt)
  then show ?thesis
    unfolding run_init_def Let_def
    by (rule leaves_then) (auto split: option.split intro!: deposit_code_leaves leaves_revert sum)
qed

lemma create_leaves:
  assumes "metered_run T n run" "T (jumpTable e)" "\<not> IsIPlus (forkRules e)" "unat gas < n"
  shows "leaves_at_most (unat gas) (create E run caller c gas v addr s e)"
proof -
  have init: "leaves_at_most (unat gas) (run_init E run sid caller c gas v addr e')"
    if "jumpTable e' = jumpTable e \<and> forkRules e' = forkRules e" for sid e'
    by (rule run_init_leaves [OF assms(1)]) (use that assms in simp_all)
  have "leaves_at_most (unat gas) (exec_bind (transfer_value both caller addr v s' e) (run_init E run sid caller c gas v addr))"
    for both s' sid
    by (rule leaves_then [OF transfer_value_ends init])
  then show ?thesis
    using init by (simp add: create_def Let_def split: prod.split)
qed

lemma Create_leaves:
  assumes "metered_run T n run" "T (jumpTable e)" "\<not> IsIPlus (forkRules e)" "unat gas < n"
  shows "leaves_at_most (unat gas) (Create E run caller c gas v e)"
    "leaves_at_most (unat gas) (Create2 E run caller c gas v salt e)"
  using create_leaves [OF assms]
  by (simp_all add: Create_def Create2_def Let_def of_option_def split: option.split)

section \<open>Instructions\<close>

text \<open>Instructions on the frame and those that start no call leave the gas of the contract alone.\<close>

definition gas_kept :: "frame_fn \<Rightarrow> bool" where
  "gas_kept g \<longleftrightarrow> (\<forall>f r f'. g f = Some (r, f') \<longrightarrow> Gas (the_contract f') = Gas (the_contract f))"

lemma push_contract [simp]: "the_contract (push v f) = the_contract f"
  by (simp add: push_def)

lemma set_mem_contract: "set_mem off l data f = Some f' \<Longrightarrow> the_contract f' = the_contract f"
  by (auto simp: set_mem_def)

lemma copy_op_gas: "copy_op src f = Some (r, f') \<Longrightarrow> the_contract f' = the_contract f"
  by (auto simp: copy_op_def next_frame_def bind_eq_Some_conv Let_def dest: set_mem_contract split: list.splits if_splits)

named_theorems gas_kept_ops

lemma frame_ops_gas [gas_kept_ops]:
  "gas_kept opCalldataLoad" "gas_kept opCalldataSize" "gas_kept opCalldataCopy" "gas_kept opCodeSize" "gas_kept opCodeCopy"
  "gas_kept opAddress" "gas_kept opCaller" "gas_kept opCallValue" "gas_kept opPc" "gas_kept opMsize" "gas_kept opGas"
  "gas_kept opPush0" "gas_kept opPush1" "gas_kept opJumpdest" "gas_kept opStop" "gas_kept opInvalid"
  by (auto simp: gas_kept_def opCalldataLoad_def opCalldataSize_def opCalldataCopy_def opCodeSize_def opCodeCopy_def
      opAddress_def opCaller_def opCallValue_def opPc_def opMsize_def opGas_def opPush0_def opPush1_def opJumpdest_def
      opStop_def opInvalid_def next_frame_def fail_frame_def dest: copy_op_gas split: list.splits)

lemma frame_ops_gas' [gas_kept_ops]:
  "gas_kept opMload" "gas_kept opMstore" "gas_kept opMstore8" "gas_kept opJump" "gas_kept opJumpi"
  "gas_kept (makePush n)" "gas_kept (makeDup k)" "gas_kept (makeSwap k)" "gas_kept opReturn" "gas_kept opRevert" "gas_kept opMcopy"
  by (auto simp: gas_kept_def opMload_def opMstore_def opMstore8_def opJump_def opJumpi_def makePush_def makeDup_def
      makeSwap_def opReturn_def opRevert_def opMcopy_def next_frame_def fail_frame_def bind_eq_Some_conv Let_def
      dest: set_mem_contract split: list.splits if_splits)

definition gas_left :: "nat \<Rightarrow> op_result \<Rightarrow> bool" where
  "gas_left g r = exec_ends (\<lambda>(x, f, e). unat (Gas (the_contract f)) \<le> g) r"

lemma gas_left_simps [simp]:
  "gas_left g (Done (x, f, e)) \<longleftrightarrow> unat (Gas (the_contract f)) \<le> g" "gas_left g Crash"
  "gas_left g (of_option (next_evm f e)) \<longleftrightarrow> unat (Gas (the_contract f)) \<le> g"
  "gas_left g (of_option (fail_evm err f e)) \<longleftrightarrow> unat (Gas (the_contract f)) \<le> g"
  "gas_left g (of_option (push_evm v e f)) \<longleftrightarrow> unat (Gas (the_contract f)) \<le> g"
  "gas_left g (of_option (Some (x, f, e))) \<longleftrightarrow> unat (Gas (the_contract f)) \<le> g"
  "gas_left g (of_option None)"
  by (simp_all add: gas_left_def of_option_def next_evm_def fail_evm_def push_evm_def)

lemma gas_left_bind: "(\<And>x. m = Some x \<Longrightarrow> gas_left g (of_option (k x))) \<Longrightarrow> gas_left g (of_option (Option.bind m k))"
  by (cases m) simp_all

lemma on_top_contract: "on_top h f = Some f' \<Longrightarrow> the_contract f' = the_contract f"
  by (auto simp: on_top_def split: list.splits)

lemma environment_ops_gas:
  assumes "unat (Gas (the_contract f)) \<le> g"
  shows "gas_left g (of_option (opOrigin e f))" "gas_left g (of_option (opGasPrice e f))"
    "gas_left g (of_option (opCoinbase e f))" "gas_left g (of_option (opTimestamp e f))"
    "gas_left g (of_option (opNumber e f))" "gas_left g (of_option (opPrevRandao e f))"
    "gas_left g (of_option (opGasLimit e f))" "gas_left g (of_option (opChainID e f))"
    "gas_left g (of_option (opBaseFee e f))" "gas_left g (of_option (opBlobBaseFee e f))"
    "gas_left g (of_option (opSlotNum e f))" "gas_left g (of_option (opReturndataSize e f))"
    "gas_left g (of_option (opBlobHash e f))" "gas_left g (of_option (opBlockhash e f))" "gas_left g (of_option (opTload e f))"
  using assms
  by (auto simp: opOrigin_def opGasPrice_def opCoinbase_def opTimestamp_def opNumber_def opPrevRandao_def
      opGasLimit_def opChainID_def opBaseFee_def opBlobBaseFee_def opSlotNum_def opReturndataSize_def
      opBlobHash_def opBlockhash_def opTload_def intro!: gas_left_bind dest!: on_top_contract)

lemma reading_ops_gas:
  assumes "unat (Gas (the_contract f)) \<le> g"
  shows "gas_left g (of_option (opKeccak256 E e f))" "gas_left g (of_option (opReturndataCopy e f))"
    "gas_left g (of_option (opSload e f))" "gas_left g (of_option (opSelfBalance e f))"
    "gas_left g (of_option (opBalance e f))" "gas_left g (of_option (opExtcodesize e f))"
    "gas_left g (of_option (opExtcodehash e f))" "gas_left g (of_option (opExtcodecopy e f))"
  using assms
  by (auto simp: opKeccak256_def opReturndataCopy_def opSload_def opSelfBalance_def opBalance_def opExtcodesize_def
      opExtcodehash_def opExtcodecopy_def account_op_def Let_def split_beta
      split: list.split option.split intro!: gas_left_bind dest!: set_mem_contract)

lemma writing_ops_gas:
  assumes "unat (Gas (the_contract f)) \<le> g"
  shows "gas_left g (of_option (opSstore e f))" "gas_left g (of_option (opSstoreGlamst e f))"
    "gas_left g (of_option (makeLog n e f))" "gas_left g (of_option (opTstore e f))"
    "gas_left g (of_option (opSelfdestruct e f))"
  using assms
  by (auto simp: opSstore_def opSstoreGlamst_def makeLog_def opTstore_def opSelfdestruct_def Let_def split_beta
      split: list.split option.split intro!: gas_left_bind)

lemma transaction_ops_gas:
  assumes "unat (Gas (the_contract f)) \<le> g"
  shows "gas_left g (of_option (opApprove e f))" "gas_left g (of_option (opTxParamLoad e f))"
    "gas_left g (of_option (opTxParamSize e f))" "gas_left g (of_option (opTxParamCopy e f))"
  using assms
  by (auto simp: opApprove_def opTxParamLoad_def opTxParamSize_def opTxParamCopy_def Let_def
      split: list.split option.split sum.split intro!: gas_left_bind dest!: set_mem_contract)

text \<open>The instructions that start calls: \<open>g\<close> covers the gas kept, the gas passed on and the stipend.\<close>

lemma unat_plus_le: "unat (a + b :: u64) \<le> unat a + unat b"
  using unat_plus_if_size [of a b] by simp

definition covers :: "nat \<Rightarrow> evm \<Rightarrow> frame \<Rightarrow> bool" where
  "covers g e f \<longleftrightarrow> unat (Gas (the_contract f)) + unat (callGasTemp e) \<le> g"

definition covers_stipend :: "nat \<Rightarrow> evm \<Rightarrow> frame \<Rightarrow> bool" where
  "covers_stipend g e f \<longleftrightarrow> covers g e f \<and>
     (2 < length (stack f) \<and> stack f ! 2 > 0 \<longrightarrow> unat (Gas (the_contract f)) + unat (callGasTemp e) + 2300 \<le> g)"

lemma finish_call_gas:
  assumes "returns_at_most gas r" "\<And>e. unat (Gas (the_contract (h e))) + unat gas \<le> g"
  shows "gas_left g (exec_bind r (\<lambda>(q, e). finish_call offs n (h e) (q, k e)))"
proof -
  have "gas_left g (finish_call offs n (h e) ((ret, gasLeft, err), k e))" if "gasLeft \<le> gas" for ret gasLeft err e
    using that assms(2) [of e] unat_plus_le [of "Gas (the_contract (h e))" gasLeft]
    by (auto simp: finish_call_def Let_def gas_left_def word_le_nat_alt intro!: exec_ends_option dest!: set_mem_contract)
  then show ?thesis
    using assms(1) by (cases r) (auto simp: returns_at_most_def gas_left_def)
qed

lemma finish_call_gas':
  assumes "returns_at_most gas r" "unat (Gas (the_contract f)) + unat gas \<le> g"
  shows "gas_left g (exec_bind r (finish_call offs n f))"
  using finish_call_gas [OF assms(1), of "\<lambda>_. f" g offs n "\<lambda>e. e"] assms(2) by simp

lemma gas_left_option: "(\<And>x. gas_left g (k x)) \<Longrightarrow> gas_left g (exec_bind (of_option r) k)"
  by (cases r) (simp_all add: of_option_def)

lemma opCall_gas:
  assumes "metered_run T n run" "T (jumpTable e)" "\<not> IsIPlus (forkRules e)" "g < n" and paid: "covers_stipend g e f"
  shows "gas_left g (opCall E fuel run e f)"
proof -
  have "gas_left g (opCall E fuel run e f)" if st: "stack f = gs # a # v # io # sz # ro # rs # st" for gs a v io sz ro rs st
  proof -
    let ?gas = "if v > 0 then callGasTemp e + CallStipend else callGasTemp e"
    have gas: "unat (Gas (the_contract f)) + unat ?gas \<le> g"
      using paid st unat_plus_le [of "callGasTemp e" 2300] by (auto simp: covers_stipend_def covers_def)
    have "returns_at_most ?gas (Call E fuel run caller addr args ?gas w ((track ev e)\<lparr>callReservoirForward := x\<rparr>))"
      for caller addr args w ev x
      by (rule Call_returns [OF assms(1)]) (use assms(2-4) gas in \<open>auto simp: track_def\<close>)
    from finish_call_gas [OF this] gas show ?thesis
      by (auto simp: opCall_def st Let_def track_def intro!: gas_left_option)
  qed
  then show ?thesis by (cases "stack f"; auto simp: opCall_def gas_left_def split: list.split)
qed

lemma opCallCode_gas:
  assumes "metered_run T n run" "T (jumpTable e)" "\<not> IsIPlus (forkRules e)" "g < n" and paid: "covers_stipend g e f"
  shows "gas_left g (opCallCode E run e f)"
proof -
  have "gas_left g (opCallCode E run e f)" if st: "stack f = gs # a # v # io # sz # ro # rs # st" for gs a v io sz ro rs st
  proof -
    let ?gas = "if v > 0 then callGasTemp e + CallStipend else callGasTemp e"
    have gas: "unat (Gas (the_contract f)) + unat ?gas \<le> g"
      using paid st unat_plus_le [of "callGasTemp e" 2300] by (auto simp: covers_stipend_def covers_def)
    have "returns_at_most ?gas (call_in_context E run caller addr args ?gas w (track ev e))" for caller addr args w ev
      by (rule call_in_context_returns [OF assms(1)]) (use assms(2-4) gas in \<open>auto simp: track_def\<close>)
    from finish_call_gas' [OF this] gas show ?thesis
      by (auto simp: opCallCode_def CallCode_def st Let_def track_def intro!: gas_left_option)
  qed
  then show ?thesis by (cases "stack f"; auto simp: opCallCode_def gas_left_def split: list.split)
qed

lemma other_calls_gas:
  assumes "metered_run T n run" "T (jumpTable e)" "\<not> IsIPlus (forkRules e)" "g < n" and paid: "covers g e f"
  shows "gas_left g (opDelegateCall E run e f)" "gas_left g (opStaticCall E run e f)"
proof -
  have gas: "unat (Gas (the_contract f)) + unat (callGasTemp e) \<le> g" using paid by (simp add: covers_def)
  have "returns_at_most (callGasTemp e) (call_in_context E run caller addr args (callGasTemp e) w (track ev e))"
    "returns_at_most (callGasTemp e) (StaticCall E run caller addr args (callGasTemp e) (track ev e))" for caller addr args w ev
    by (rule call_in_context_returns [OF assms(1)] StaticCall_returns [OF assms(1)];
        use assms(2-4) gas in \<open>auto simp: track_def\<close>)+
  from finish_call_gas' [OF this(1)] finish_call_gas' [OF this(2)] gas
  show "gas_left g (opDelegateCall E run e f)" "gas_left g (opStaticCall E run e f)"
    by (auto simp: opDelegateCall_def DelegateCall_def opStaticCall_def Let_def track_def split: list.split intro!: gas_left_option)
qed

lemma finish_create_gas:
  assumes "leaves_at_most g r" "Gas (the_contract f) = 0"
  shows "gas_left g (exec_bind r (finish_create f))"
  using assms by (cases r) (auto simp: leaves_at_most_def gas_left_def finish_create_def Let_def)

lemma create_ops_gas:
  assumes "metered_run T n run" "T (jumpTable e)" "\<not> IsIPlus (forkRules e)" "unat (Gas (the_contract f)) < n"
  shows "gas_left (unat (Gas (the_contract f))) (opCreate E run e f)" "gas_left (unat (Gas (the_contract f))) (opCreate2 E run e f)"
  using Create_leaves [OF assms]
  by (auto simp: opCreate_def opCreate2_def Let_def split: list.split intro!: gas_left_option finish_create_gas)

section \<open>What the gas functions charge\<close>

lemma safeAdd_exact: "unat a + unat b < 2 ^ 64 \<Longrightarrow> unat (safeAdd a b) = unat a + unat b"
  and safeAdd_ge: "unat a \<le> unat (safeAdd a b)" "unat b \<le> unat (safeAdd a b)"
proof -
  have max: "unat (MaxUint64 :: u64) = 2 ^ 64 - 1" by (simp add: MaxUint64_def)
  have le: "b \<le> MaxUint64" using max unat_u64_less [of b] by (simp add: word_le_nat_alt)
  have "(a > MaxUint64 - b) \<longleftrightarrow> unat a + unat b > 2 ^ 64 - 1"
    using unat_sub [OF le] max le by (simp add: word_less_nat_alt word_le_nat_alt less_diff_conv2)
  then have "unat (safeAdd a b) = (if unat a + unat b < 2 ^ 64 then unat a + unat b else 2 ^ 64 - 1)"
    using unat_plus_if_size [of a b] max by (auto simp: safeAdd_def word_size)
  then show "unat a + unat b < 2 ^ 64 \<Longrightarrow> unat (safeAdd a b) = unat a + unat b"
    "unat a \<le> unat (safeAdd a b)" "unat b \<le> unat (safeAdd a b)"
    using unat_u64_less [of a] unat_u64_less [of b] by simp_all
qed

lemma callGasEIP150_le: "base \<le> g \<Longrightarrow> unat (callGasEIP150 g base req) \<le> unat g - unat base"
proof -
  assume "base \<le> g"
  then have av: "unat (g - base) = unat g - unat base" by (rule unat_sub)
  have le: "(g - base) div CallGasFraction \<le> g - base" by (simp add: word_le_nat_alt unat_div)
  then have "(g - base) - (g - base) div CallGasFraction \<le> g - base" by (rule word_sub_le)
  then show ?thesis
    using \<open>base \<le> g\<close> av by (auto simp: callGasEIP150_def Let_def word_le_nat_alt word_less_nat_alt)
qed

text \<open>The cost of a call covers the gas passed on and everything that was added to \<open>gas\<close>.\<close>

lemma call_gas_end_paid:
  assumes "call_gas_end gas e c st m n = Some (cost, e')" "cost \<le> Gas c"
  shows "unat (Gas c - cost) + unat (callGasTemp e') + unat gas \<le> unat (Gas c)"
proof -
  define base where "base = safeAdd gas (gasMemExpansion m n)"
  obtain req where cost: "cost = safeAdd base (callGasEIP150 (Gas c) base (Uint64 req))"
    and temp: "callGasTemp e' = callGasEIP150 (Gas c) base (Uint64 req)"
    using assms(1) by (auto simp: call_gas_end_def Let_def bind_eq_Some_conv base_def)
  have gas: "unat gas \<le> unat base" by (simp add: base_def safeAdd_ge)
  have "base \<le> cost" by (simp add: cost word_le_nat_alt safeAdd_ge)
  then have le: "base \<le> Gas c" using assms(2) by simp
  then have "unat (callGasTemp e') \<le> unat (Gas c) - unat base" "unat base \<le> unat (Gas c)"
    using callGasEIP150_le temp by (auto simp: word_le_nat_alt)
  then have "unat cost = unat base + unat (callGasTemp e')"
    using safeAdd_exact [of base "callGasTemp e'"] unat_u64_less [of "Gas c"] by (simp add: cost temp)
  then show ?thesis using unat_sub [OF assms(2)] assms(2) gas by (simp add: word_le_nat_alt)
qed

lemma value_gas_ge: "v \<noteq> 0 \<Longrightarrow> unat transfer \<le> unat (value_gas transfer fresh addr v gas e)"
  using safeAdd_ge(2) [of transfer gas] safeAdd_ge(1) [of "safeAdd gas transfer" fresh]
  by (auto simp: value_gas_def Let_def)

lemma call_gas_paid:
  assumes "call_gas check transfer fresh e c st m n = Some (cost, e')" "cost \<le> Gas c"
  shows "unat (Gas c - cost) + unat (callGasTemp e') \<le> unat (Gas c)"
    "2 < length st \<Longrightarrow> st ! 2 > 0 \<Longrightarrow> unat (Gas c - cost) + unat (callGasTemp e') + unat transfer \<le> unat (Gas c)"
proof -
  obtain a v where v: "stack_Back 2 st = Some v"
    and r: "call_gas_end (value_gas transfer fresh (bigToAddress a) v (fst (check e (bigToAddress a))) (snd (check e (bigToAddress a))))
      (snd (check e (bigToAddress a))) c st m n = Some (cost, e')"
    using assms(1) by (auto simp: call_gas_def Let_def split_beta bind_eq_Some_conv)
  note paid = call_gas_end_paid [OF r assms(2)]
  then show "unat (Gas c - cost) + unat (callGasTemp e') \<le> unat (Gas c)" by linarith
  show "unat (Gas c - cost) + unat (callGasTemp e') + unat transfer \<le> unat (Gas c)" if "2 < length st" "st ! 2 > 0"
  proof -
    have "v \<noteq> 0" using v that by (auto simp: stack_Back_def split: if_splits)
    then show ?thesis using paid value_gas_ge [of v transfer] by (meson add_le_mono le_refl le_trans)
  qed
qed

lemma plain_call_gas_paid:
  assumes "plain_call_gas check e c st m n = Some (cost, e')" "cost \<le> Gas c"
  shows "unat (Gas c - cost) + unat (callGasTemp e') \<le> unat (Gas c)"
proof -
  obtain a where "call_gas_end (fst (check e (bigToAddress a))) (snd (check e (bigToAddress a))) c st m n = Some (cost, e')"
    using assms(1) by (auto simp: plain_call_gas_def Let_def split_beta bind_eq_Some_conv)
  from call_gas_end_paid [OF this assms(2)] show ?thesis by linarith
qed

text \<open>A storage write costs at least a warm read.\<close>

lemma slot_check_cost: "slot_check cold a k e = Some (g, e') \<Longrightarrow> g = 0 \<or> g = cold"
  by (auto simp: slot_check_def bind_eq_Some_conv split: option.splits if_splits)

lemma gasSstore_pos:
  assumes "gasSstoreEIP2929 e c st = Some (cost, e')"
  shows "0 < cost"
proof -
  have costs: "fst (SstoreGas x y z False) \<in> {WarmStorageReadCost, GasSstoreSet, GasSstoreReset}" for x y z
    by (simp add: SstoreGas_def Let_def)
  have pos: "0 < fst (SstoreGas x y z False)" "0 < fst (SstoreGas x y z False) + ColdSloadCost" for x y z
    using costs [of x y z] by auto
  then show ?thesis
    using assms by (auto simp: pos gasSstoreEIP2929_def Let_def split_beta bind_eq_Some_conv split: option.splits dest!: slot_check_cost)
qed

section \<open>Tables\<close>

text \<open>What is needed of an entry: it costs gas, fails or ends the run, and calls are paired with their gas functions.\<close>

definition call_entry :: "operation \<Rightarrow> bool" where
  "call_entry op \<longleftrightarrow>
     (op_execute op = Fn_opCall \<longrightarrow> dynamicGas op = Some Fn_gasCallEIP2929) \<and>
     (op_execute op = Fn_opCallCode \<longrightarrow> dynamicGas op = Some Fn_gasCallCodeEIP2929) \<and>
     (op_execute op = Fn_opDelegateCall \<longrightarrow> dynamicGas op = Some Fn_gasDelegateCallEIP2929) \<and>
     (op_execute op = Fn_opStaticCall \<longrightarrow> dynamicGas op = Some Fn_gasStaticCallEIP2929)"

definition frame_entry :: "operation \<Rightarrow> bool" where
  "frame_entry op = (case op_execute op of FrameFn g \<Rightarrow> gas_kept g | _ \<Rightarrow> True)"

definition costly :: "operation \<Rightarrow> bool" where
  "costly op \<longleftrightarrow> 0 < constantGas op \<or>
     (case op_execute op of
        FrameFn g \<Rightarrow> halts op \<or> g = opInvalid
      | Fn_opSstore \<Rightarrow> dynamicGas op = Some Fn_gasSstoreEIP2929
      | _ \<Rightarrow> False)"

definition metered_op :: "operation \<Rightarrow> bool" where
  "metered_op op \<longleftrightarrow> call_entry op \<and> frame_entry op \<and> costly op"

definition metered_table :: "jump_table \<Rightarrow> bool" where
  "metered_table tbl \<longleftrightarrow> (\<forall>b op. tbl b = Some op \<longrightarrow> metered_op op)"

lemma find_in_set: "find Q xs = Some x \<Longrightarrow> x \<in> set xs \<and> Q x"
  by (induction xs) (auto split: if_splits)

lemma set_ops_cases:
  "set_ops ops t b = Some op \<Longrightarrow> (b, op) \<in> set ops \<or> b \<notin> fst ` set ops \<and> t b = Some op"
  using find_in_set [of "\<lambda>(c, op). c = b" "rev ops"]
  by (cases "find (\<lambda>(c, op). c = b) (rev ops)") (auto simp: set_ops_find find_None_iff)

lemma metered_set_ops: "list_all (\<lambda>(b, op). metered_op op) ops \<Longrightarrow> metered_table t \<Longrightarrow> metered_table (set_ops ops t)"
  by (fastforce simp: metered_table_def list_all_iff dest!: set_ops_cases)

lemmas metered_op_defs = metered_op_def call_entry_def frame_entry_def costly_def entry_defs gas_kept_ops

text \<open>Before Berlin the call instructions have other gas functions; Berlin replaces them.\<close>

definition old_calls :: "byte set" where
  "old_calls = {0xf1, 0xf2, 0xf4, 0xfa}"

definition metered_below :: "jump_table \<Rightarrow> bool" where
  "metered_below tbl \<longleftrightarrow> (\<forall>b op. tbl b = Some op \<longrightarrow> b \<in> old_calls \<or> metered_op op)"

lemma below_set_ops:
  "list_all (\<lambda>(b, op). b \<in> old_calls \<or> metered_op op) ops \<Longrightarrow> metered_below t \<Longrightarrow> metered_below (set_ops ops t)"
  by (fastforce simp: metered_below_def list_all_iff dest!: set_ops_cases)

lemma families_metered: "list_all (\<lambda>(b, op). metered_op op) (push_ops @ dup_ops @ swap_ops @ log_ops)"
  by (auto simp: push_ops_def dup_ops_def swap_ops_def log_ops_def list_all_iff metered_op_defs)

lemma frontier_below: "metered_below NewFrontierJumpTable"
proof -
  have "list_all (\<lambda>(b, op). b \<in> old_calls \<or> metered_op op) frontier_ops"
    by (simp add: frontier_ops_def old_calls_def metered_op_defs)
  moreover have "list_all (\<lambda>(b, op). b \<in> old_calls \<or> metered_op op) (push_ops @ dup_ops @ swap_ops @ log_ops)"
    using families_metered unfolding list_all_iff by fast
  ultimately show ?thesis
    unfolding NewFrontierJumpTable_def by (intro below_set_ops) (auto simp: metered_below_def)
qed

lemma istanbul_below: "metered_below NewIstanbulJumpTable"
  unfolding NewIstanbulJumpTable_def NewConstantinopleJumpTable_def NewByzantiumJumpTable_def
    NewSpuriousDragonJumpTable_def NewTangerineWhistleJumpTable_def NewHomesteadJumpTable_def
  by (intro below_set_ops frontier_below)
     (simp_all add: istanbul_ops_def constantinople_ops_def byzantium_ops_def tangerineWhistle_ops_def
       homestead_ops_def old_calls_def metered_op_defs)

lemma berlin_metered: "metered_table NewBerlinJumpTable"
proof -
  have "list_all (\<lambda>(b, op). metered_op op) berlin_ops" by (simp add: berlin_ops_def metered_op_defs)
  moreover have "old_calls \<subseteq> fst ` set berlin_ops" by (simp add: old_calls_def berlin_ops_def)
  ultimately show ?thesis
    using istanbul_below
    by (fastforce simp: NewBerlinJumpTable_def metered_table_def metered_below_def list_all_iff dest!: set_ops_cases)
qed

lemma forks_metered:
  "metered_table NewLondonJumpTable" "metered_table NewMergeJumpTable" "metered_table NewShanghaiJumpTable"
  "metered_table NewCancunJumpTable" "metered_table NewPragueJumpTable"
  unfolding NewPragueJumpTable_def NewCancunJumpTable_def NewShanghaiJumpTable_def NewMergeJumpTable_def NewLondonJumpTable_def
  by (intro metered_set_ops berlin_metered;
      simp add: london_ops_def shanghai_ops_def cancun_ops_def metered_op_defs)+

section \<open>Steps\<close>

definition same_gas :: "contract \<Rightarrow> (u64 \<times> contract \<times> evm) option \<Rightarrow> bool" where
  "same_gas c r = (case r of None \<Rightarrow> True | Some (cost, c', e) \<Rightarrow> Gas c' = Gas c)"

lemma same_gas_simps [simp]: "same_gas c None" "same_gas c (Some (cost, c', e)) \<longleftrightarrow> Gas c' = Gas c" "same_gas c (keep c r)"
  by (simp_all add: same_gas_def keep_def split: option.split prod.split)

lemma same_gas_bind: "(\<And>x. same_gas c (k x)) \<Longrightarrow> same_gas c (Option.bind m k)"
  by (cases m) simp_all

lemma gasSstoreGlamst_same: "same_gas c (gasSstoreGlamst e c st)"
  unfolding gasSstoreGlamst_def by (intro same_gas_bind) (auto simp: Let_def split_beta split: option.split intro!: same_gas_bind)

lemma dynamic_gas_same: "same_gas c (dynamic_gas g e c st m n)"
  by (cases g) (simp_all add: gasSstoreGlamst_same, simp add: same_gas_def split: option.split)

lemma dynamic_gas_contract: "dynamic_gas g e c st m n = Some (cost, c', e') \<Longrightarrow> Gas c' = Gas c"
  using dynamic_gas_same [of c g e st m n] by simp

lemma opRVCreate_gas: "unat (Gas (the_contract f)) \<le> g \<Longrightarrow> gas_left g (opRVCreate E e f)"
  by (auto simp: opRVCreate_def Let_def split: list.split option.split intro!: gas_left_option)

lemma call_op_gas:
  assumes op: "call_entry op" "op_execute op \<in> {Fn_opCall, Fn_opCallCode, Fn_opDelegateCall, Fn_opStaticCall}"
    and run: "metered_run T n run" "T (jumpTable e)" "\<not> IsIPlus (forkRules e)" "unat (Gas c) < n"
    and dyn: "dynamic_cost op memSize e0 c f = Some (cost, c1, e)" "cost \<le> Gas c1"
  shows "gas_left (unat (Gas c)) (run_op E fuel run (op_execute op) e (f\<lparr>the_contract := c1\<lparr>Gas := Gas c1 - cost\<rparr>, mem := m\<rparr>))"
proof -
  let ?f = "f\<lparr>the_contract := c1\<lparr>Gas := Gas c1 - cost\<rparr>, mem := m\<rparr>"
  have paid: "covers_stipend (unat (Gas c)) e ?f"
    if "c1 = c" "call_gas check CallValueTransferGas fresh e0 c (stack f) (mem f) memSize = Some (cost, e)" for check fresh
    using call_gas_paid [OF that(2)] dyn(2) that(1) by (auto simp: covers_stipend_def covers_def)
  have plain: "covers (unat (Gas c)) e ?f"
    if "c1 = c" "plain_call_gas check e0 c (stack f) (mem f) memSize = Some (cost, e)" for check
    using plain_call_gas_paid [OF that(2)] dyn(2) that(1) by (simp add: covers_def)
  show ?thesis
    using op dyn(1) paid plain opCall_gas [OF run] opCallCode_gas [OF run] other_calls_gas [OF run]
    by (auto simp: call_entry_def dynamic_cost_def keep_def gasCallEIP2929_def gasCallCodeEIP2929_def
        gasDelegateCallEIP2929_def gasStaticCallEIP2929_def)
qed

lemma frame_op_gas: "gas_kept g \<Longrightarrow> gas_left (unat (Gas (the_contract f))) (exec_frame g e f)"
  by (cases "g f") (auto simp: exec_frame_def of_option_def gas_kept_def)

lemma other_op_gas:
  assumes op: "frame_entry op" "op_execute op \<notin> {Fn_opCall, Fn_opCallCode, Fn_opDelegateCall, Fn_opStaticCall}"
    and run: "metered_run T n run" "T (jumpTable e)" "\<not> IsIPlus (forkRules e)" "unat (Gas (the_contract f)) < n"
  shows "gas_left (unat (Gas (the_contract f))) (run_op E fuel run (op_execute op) e f)"
proof -
  have "gas_left (unat (Gas (the_contract f))) (exec_stack g e f)" for g
    by (cases "g (stack f)") (auto simp: exec_stack_def of_option_def)
  then show ?thesis
    using op create_ops_gas [OF run]
    by (cases "op_execute op")
       (simp_all add: frame_entry_def frame_op_gas environment_ops_gas reading_ops_gas writing_ops_gas
         transaction_ops_gas opRVCreate_gas)
qed

lemma gas_left_mono: "gas_left g r \<Longrightarrow> g \<le> g' \<Longrightarrow> gas_left g' r"
  by (auto simp: gas_left_def elim!: exec_ends_mono)

lemma run_op_gas:
  assumes op: "metered_op op"
    and run: "metered_run T n run" "T (jumpTable e)" "\<not> IsIPlus (forkRules e)" "unat (Gas c) < n"
    and dyn: "dynamic_cost op memSize e0 c f = Some (cost, c1, e)" "cost \<le> Gas c1" "Gas c1 = Gas c"
  shows "gas_left (unat (Gas c)) (run_op E fuel run (op_execute op) e (f\<lparr>the_contract := c1\<lparr>Gas := Gas c1 - cost\<rparr>, mem := m\<rparr>))"
proof (cases "op_execute op \<in> {Fn_opCall, Fn_opCallCode, Fn_opDelegateCall, Fn_opStaticCall}")
  case True
  then show ?thesis using call_op_gas [OF _ True run dyn(1,2)] op by (simp add: metered_op_def)
next
  case False
  let ?f = "f\<lparr>the_contract := c1\<lparr>Gas := Gas c1 - cost\<rparr>, mem := m\<rparr>"
  have le: "unat (Gas (the_contract ?f)) \<le> unat (Gas c)"
    using word_sub_le [OF dyn(2)] dyn(3) by (simp add: word_le_nat_alt)
  have "gas_left (unat (Gas (the_contract ?f))) (run_op E fuel run (op_execute op) e ?f)"
    by (rule other_op_gas [OF _ False run(1-3)]) (use op le run(4) in \<open>simp_all add: metered_op_def\<close>)
  then show ?thesis using le by (rule gas_left_mono)
qed

text \<open>A step that goes on has used gas.\<close>

fun spent :: "nat \<Rightarrow> step_result \<Rightarrow> bool" where
  "spent g (Next f e) \<longleftrightarrow> unat (Gas (the_contract f)) < g"
| "spent g (Halt r c e) \<longleftrightarrow> unat (Gas c) \<le> g"

lemma after_op_spent:
  assumes "gas_left g r" "g < g0 \<or> halts op \<and> g \<le> g0"
  shows "exec_ends (spent g0) (exec_bind r (\<lambda>x. Done (after_op op x)))"
  using assms by (cases r) (auto simp: gas_left_def after_op_def split: option.split)

lemma UseGas_Some:
  assumes "UseGas k c = Some c'"
  shows "k \<le> Gas c" "c' = c\<lparr>Gas := Gas c - k\<rparr>" "unat (Gas c') = unat (Gas c) - unat k" "unat k \<le> unat (Gas c)"
  using assms by (auto simp: UseGas_def not_less unat_sub word_le_nat_alt split: if_splits)

lemma step_op_spent:
  assumes op: "metered_op op"
    and run: "metered_run T n run" "T (jumpTable e)" "\<not> IsIPlus (forkRules e)" "unat (Gas (the_contract f)) \<le> n"
    and c: "UseGas (constantGas op) (the_contract f) = Some c"
    and dyn: "dynamic_cost op memSize e0 c f = Some (cost, c1, e)" and c2: "UseGas cost c1 = Some c2"
  shows "exec_ends (spent (unat (Gas (the_contract f))))
    (exec_bind (run_op E fuel run (op_execute op) e (f\<lparr>the_contract := c2, mem := m\<rparr>)) (\<lambda>r. Done (after_op op r)))"
proof -
  have c1: "Gas c1 = Gas c"
    using dyn dynamic_gas_contract by (auto simp: dynamic_cost_def split: option.splits)
  show ?thesis
  proof (cases "0 < constantGas op")
    case True
    then have less: "unat (Gas c) < unat (Gas (the_contract f))"
      using UseGas_Some(3,4) [OF c] by (simp add: word_less_nat_alt)
    then show ?thesis
      using run_op_gas [OF op run(1-3) _ dyn UseGas_Some(1) [OF c2] c1] UseGas_Some(2) [OF c2] run(4)
      by (intro after_op_spent [where g = "unat (Gas c)"]) auto
  next
    case False
    have le: "unat (Gas c2) \<le> unat (Gas (the_contract f))"
      using UseGas_Some(3) [OF c] UseGas_Some(3) [OF c2] c1 by simp
    consider g where "op_execute op = FrameFn g" "gas_kept g" "halts op \<or> g = opInvalid"
      | "op_execute op = Fn_opSstore" "dynamicGas op = Some Fn_gasSstoreEIP2929"
      using op False by (auto simp: metered_op_def costly_def frame_entry_def split: exec_fn.splits)
    then show ?thesis
    proof cases
      case 1
      let ?f = "f\<lparr>the_contract := c2, mem := m\<rparr>"
      show ?thesis
      proof (cases "halts op")
        case True
        then show ?thesis
          using frame_op_gas [OF 1(2), of ?f e] 1(1) le
          by (intro after_op_spent [where g = "unat (Gas c2)"]) auto
      next
        case False
        then show ?thesis
          using 1 le by (auto simp: exec_frame_def of_option_def opInvalid_def fail_frame_def after_op_def)
      qed
    next
      case 2
      have "0 < cost" using dyn 2(2) gasSstore_pos by (auto simp: dynamic_cost_def keep_def)
      then have "unat (Gas c2) < unat (Gas (the_contract f))"
        using UseGas_Some(3) [OF c] UseGas_Some(3,4) [OF c2] c1 by (simp add: word_less_nat_alt)
      then show ?thesis
        using 2(1) writing_ops_gas(1) [of "f\<lparr>the_contract := c2, mem := m\<rparr>" "unat (Gas c2)" e]
        by (intro after_op_spent [where g = "unat (Gas c2)"]) auto
    qed
  qed
qed

lemma step_spent:
  assumes "metered_run metered_table n run" "metered_table (jumpTable e)" "\<not> IsIPlus (forkRules e)"
    "unat (Gas (the_contract f)) \<le> n"
  shows "exec_ends (spent (unat (Gas (the_contract f)))) (step E fuel run f e)"
proof -
  have env: "jumpTable e1 = jumpTable e \<and> forkRules e1 = forkRules e" if "dynamic_cost op n e c f = Some (cost, c1, e1)" for op n c cost c1 e1
    using that supply_view.dynamic_gas_kept [of e] evm_kept_env(3,4)
    by (fastforce simp: dynamic_cost_def supply_view.op_kept_def split: option.splits)
  have "exec_ends (spent (unat (Gas (the_contract f))))
    (exec_bind (run_op E fuel run (op_execute op) e1 (f\<lparr>the_contract := c2, mem := m\<rparr>)) (\<lambda>r. Done (after_op op r)))"
    if "jumpTable e b = Some op" "UseGas (constantGas op) (the_contract f) = Some c"
      "dynamic_cost op memSize e c f = Some (cost, c1, e1)" "UseGas cost c1 = Some c2" for b op c memSize cost c1 e1 c2 m
    by (rule step_op_spent [OF _ assms(1) _ _ assms(4) that(2-4)])
       (use assms(2,3) that(1) env [OF that(3)] in \<open>auto simp: metered_table_def\<close>)
  moreover have "unat (Gas c) \<le> unat (Gas (the_contract f))" if "UseGas k (the_contract f) = Some c" for k c
    using UseGas_Some(3) [OF that] by simp
  ultimately show ?thesis
    using dynamic_gas_contract
    by (fastforce simp: step_def Let_def dynamic_cost_def split: option.splits intro!: exec_ends_option)
qed

section \<open>Runs\<close>

lemma exec_ends_all: "exec_ends Q r \<Longrightarrow> exec_all R r \<Longrightarrow> exec_ends (\<lambda>x. Q x \<and> R x) r"
  by (cases r) simp_all

lemma run_loop_metered:
  assumes "metered_table (jumpTable e)" "\<not> IsIPlus (forkRules e)" "unat (Gas (the_contract f)) < fuel"
  shows "exec_ends (\<lambda>(r, c, e'). Gas c \<le> Gas (the_contract f)) (run_loop E fuel f e)"
  using assms
proof (induction fuel arbitrary: f e)
  case (Suc fuel)
  let ?run = "\<lambda>c input e. run_loop E fuel (new_frame c input) e"
  have "Gas (the_contract (new_frame c input)) = Gas c" for c input by (simp add: new_frame_def)
  then have run: "metered_run metered_table fuel ?run"
    using Suc.IH [of _ "new_frame _ _"] by (simp add: metered_run_def)
  have kept: "supply_view.run_kept ?run"
    using supply_view.Run_kept [of E fuel] by (simp add: Run_def [abs_def])
  have step: "exec_ends (\<lambda>r. spent (unat (Gas (the_contract f))) r \<and> evm_kept value_kept e (evm_of r))
      (step E fuel ?run f e)"
    by (rule exec_ends_all [OF step_spent [OF run] supply_view.step_kept [OF kept]]) (use Suc.prems in auto)
  show ?case
    unfolding run_loop.simps
  proof (rule exec_ends_then [OF step])
    fix r assume r: "spent (unat (Gas (the_contract f))) r \<and> evm_kept value_kept e (evm_of r)"
    show "exec_ends (\<lambda>(r, c, e'). Gas c \<le> Gas (the_contract f))
      (case r of Next f' e' \<Rightarrow> run_loop E fuel f' e' | Halt res c e' \<Rightarrow> Done (res, c, e'))"
    proof (cases r)
      case (Next f' e')
      then have "exec_ends (\<lambda>(r, c, e'). Gas c \<le> Gas (the_contract f')) (run_loop E fuel f' e')"
        using Suc.IH [of e' f'] Suc.prems r evm_kept_env(3,4) [of value_kept e e'] by auto
      then show ?thesis using Next r by (auto simp: word_le_nat_alt elim!: exec_ends_mono)
    next
      case (Halt res c e')
      then show ?thesis using r by (simp add: word_le_nat_alt)
    qed
  qed
qed simp

section \<open>Properties\<close>

text \<open>
  C6. Gas bounds execution.  With the jump table of any fork from Berlin to Prague, a run of any contract
  on any input and state ends: fuel of one more than its gas is enough, where each round of the loop takes one unit and a
  nested run starts with what its caller has left.  And it never ends with more gas than it was given.
\<close>

theorem Run_terminates:
  assumes "jumpTable e \<in> {NewBerlinJumpTable, NewLondonJumpTable, NewMergeJumpTable, NewShanghaiJumpTable,
      NewCancunJumpTable, NewPragueJumpTable}"
    and "\<not> IsIPlus (forkRules e)" and "unat (Gas c) < fuel"
  shows "Run E fuel c input e \<noteq> NoFuel \<and> (\<forall>r c' e'. Run E fuel c input e = Done (r, c', e') \<longrightarrow> Gas c' \<le> Gas c)"
proof -
  have "exec_ends (\<lambda>(r, c', e'). Gas c' \<le> Gas c) (Run E fuel c input e)"
    using run_loop_metered [of e "new_frame c input" fuel E] assms berlin_metered forks_metered
    by (auto simp: Run_def new_frame_def)
  then show ?thesis by (auto simp: exec_ends_def)
qed

text \<open>The contract \<open>JUMPDEST; PUSH1 0; JUMP\<close>, which loops for ever, ends with its gas.\<close>

theorem Run_terminates_witness:
  "Run sample_env 100 ((NewContract 1 2 None 99)\<lparr>Code := [0x5B, 0x60, 0x00, 0x56]\<rparr>) [] sample_evm \<noteq> NoFuel"
  using Run_terminates [of sample_evm "(NewContract 1 2 None 99)\<lparr>Code := [0x5B, 0x60, 0x00, 0x56]\<rparr>" 100 sample_env "[]"]
  by (simp add: sample_evm_fields no_rules_def NewContract_def)

end
