(* ===== verification/Chain_Config.thy ===== *)
theory Chain_Config
  imports Evm_Tables
begin

text \<open>
  The fork schedule, \<^verbatim>\<open>src/pkg/core/config/chain_config.go\<close>: the activation points of a chain, the
  predicates on block numbers and times, and the flags \<open>Rules\<close> gives the other components.
  Nil pointers are \<open>None\<close>.
\<close>

record chain_config =
  ChainID :: "int option"
  HomesteadBlock :: "int option"
  EIP150Block :: "int option"
  EIP155Block :: "int option"
  EIP158Block :: "int option"
  ByzantiumBlock :: "int option"
  ConstantinopleBlock :: "int option"
  PetersburgBlock :: "int option"
  IstanbulBlock :: "int option"
  MuirGlacierBlock :: "int option"
  BerlinBlock :: "int option"
  LondonBlock :: "int option"
  ArrowGlacierBlock :: "int option"
  GrayGlacierBlock :: "int option"
  TerminalTotalDifficulty :: "int option"
  ShanghaiTime :: "u64 option"
  CancunTime :: "u64 option"
  PragueTime :: "u64 option"
  AmsterdamTime :: "u64 option"
  GlamsterdanTime :: "u64 option"
  HogotaTime :: "u64 option"
  IPlusTime :: "u64 option"
  BPO1Time :: "u64 option"
  BPO2Time :: "u64 option"
  EIP7864FinalHashTime :: "u64 option"
  BinaryTreeHashFunc :: string

section \<open>Fork predicates\<close>

definition isBlockForked :: "int option \<Rightarrow> int option \<Rightarrow> bool" where
  "isBlockForked forkBlock head =
     (case (forkBlock, head) of (Some f, Some h) \<Rightarrow> f \<le> h | _ \<Rightarrow> False)"

definition isTimestampForked :: "u64 option \<Rightarrow> u64 \<Rightarrow> bool" where
  "isTimestampForked forkTime blockTime = (case forkTime of None \<Rightarrow> False | Some t \<Rightarrow> t \<le> blockTime)"

text \<open>
  The predicates by block number.  Petersburg, when it has no block of its own, starts with
  Constantinople.
\<close>

definition config_IsPetersburg :: "chain_config \<Rightarrow> int option \<Rightarrow> bool" where
  "config_IsPetersburg c num \<longleftrightarrow>
     isBlockForked (PetersburgBlock c) num \<or> PetersburgBlock c = None \<and> isBlockForked (ConstantinopleBlock c) num"

abbreviation config_IsLondon :: "chain_config \<Rightarrow> int option \<Rightarrow> bool" where
  "config_IsLondon c num \<equiv> isBlockForked (LondonBlock c) num"

text \<open>The predicates by time.\<close>

abbreviation config_IsShanghai :: "chain_config \<Rightarrow> u64 \<Rightarrow> bool" where
  "config_IsShanghai c t \<equiv> isTimestampForked (ShanghaiTime c) t"

abbreviation config_IsCancun :: "chain_config \<Rightarrow> u64 \<Rightarrow> bool" where
  "config_IsCancun c t \<equiv> isTimestampForked (CancunTime c) t"

abbreviation config_IsPrague :: "chain_config \<Rightarrow> u64 \<Rightarrow> bool" where
  "config_IsPrague c t \<equiv> isTimestampForked (PragueTime c) t"

abbreviation config_IsGlamsterdan :: "chain_config \<Rightarrow> u64 \<Rightarrow> bool" where
  "config_IsGlamsterdan c t \<equiv> isTimestampForked (GlamsterdanTime c) t"

definition BinaryTrieHashFuncAt :: "chain_config \<Rightarrow> u64 \<Rightarrow> string" where
  "BinaryTrieHashFuncAt c t =
     (if BinaryTreeHashFunc c \<noteq> [] then BinaryTreeHashFunc c
      else if isTimestampForked (EIP7864FinalHashTime c) t then ''blake3'' else ''sha256'')"

definition config_IsMerge :: "chain_config \<Rightarrow> bool" where
  "config_IsMerge c \<longleftrightarrow> TerminalTotalDifficulty c \<noteq> None"

section \<open>Rules\<close>

record rules =
  R_ChainID :: int
  R_IsHomestead :: bool
  R_IsEIP150 :: bool
  R_IsEIP155 :: bool
  R_IsEIP158 :: bool
  R_IsByzantium :: bool
  R_IsConstantinople :: bool
  R_IsPetersburg :: bool
  R_IsIstanbul :: bool
  R_IsBerlin :: bool
  R_IsEIP2929 :: bool
  R_IsLondon :: bool
  R_IsEIP1559 :: bool
  R_IsEIP3529 :: bool
  R_IsMerge :: bool
  R_IsShanghai :: bool
  R_IsCancun :: bool
  R_IsEIP4844 :: bool
  R_IsPrague :: bool
  R_IsEIP7702 :: bool
  R_IsAmsterdam :: bool
  R_IsGlamsterdan :: bool
  R_IsEIP7904 :: bool
  R_IsEIP7706 :: bool
  R_IsEIP7708 :: bool
  R_IsEIP7954 :: bool
  R_IsEIP7778 :: bool
  R_IsEIP2780 :: bool
  R_IsEIP7976 :: bool
  R_IsEIP7981 :: bool
  R_IsEIP8037 :: bool
  R_IsEIP8038 :: bool
  R_IsHogota :: bool
  R_IsEIP7999 :: bool
  R_IsIPlus :: bool
  R_IsEIP7885 :: bool

text \<open>A configuration without chain ID panics in \<open>new(big.Int).Set(nil)\<close>.\<close>

definition Rules :: "chain_config \<Rightarrow> int option \<Rightarrow> bool \<Rightarrow> u64 \<Rightarrow> rules option" where
  "Rules c num is_merge t =
     (let merge = is_merge \<and> config_IsLondon c num;
          at = (\<lambda>fork. merge \<and> isTimestampForked (fork c) t);
          glamst = at GlamsterdanTime in
      case ChainID c of
        None \<Rightarrow> None
      | Some chain \<Rightarrow> Some
         \<lparr>R_ChainID = chain,
          R_IsHomestead = isBlockForked (HomesteadBlock c) num,
          R_IsEIP150 = isBlockForked (EIP150Block c) num,
          R_IsEIP155 = isBlockForked (EIP155Block c) num,
          R_IsEIP158 = isBlockForked (EIP158Block c) num,
          R_IsByzantium = isBlockForked (ByzantiumBlock c) num,
          R_IsConstantinople = isBlockForked (ConstantinopleBlock c) num,
          R_IsPetersburg = config_IsPetersburg c num,
          R_IsIstanbul = isBlockForked (IstanbulBlock c) num,
          R_IsBerlin = isBlockForked (BerlinBlock c) num,
          R_IsEIP2929 = isBlockForked (BerlinBlock c) num,
          R_IsLondon = config_IsLondon c num,
          R_IsEIP1559 = config_IsLondon c num,
          R_IsEIP3529 = config_IsLondon c num,
          R_IsMerge = merge,
          R_IsShanghai = at ShanghaiTime,
          R_IsCancun = at CancunTime,
          R_IsEIP4844 = at CancunTime,
          R_IsPrague = at PragueTime,
          R_IsEIP7702 = at PragueTime,
          R_IsAmsterdam = at AmsterdamTime,
          R_IsGlamsterdan = glamst,
          R_IsEIP7904 = glamst,
          R_IsEIP7706 = glamst,
          R_IsEIP7708 = glamst,
          R_IsEIP7954 = glamst,
          R_IsEIP7778 = glamst,
          R_IsEIP2780 = glamst,
          R_IsEIP7976 = glamst,
          R_IsEIP7981 = glamst,
          R_IsEIP8037 = glamst,
          R_IsEIP8038 = glamst,
          R_IsHogota = at HogotaTime,
          R_IsEIP7999 = at HogotaTime,
          R_IsIPlus = at IPlusTime,
          R_IsEIP7885 = at IPlusTime\<rparr>)"

text \<open>The flags \<open>applyMessage\<close> hands to the interpreter; \<open>IsVerkle\<close> stays unset.\<close>

definition vm_rules :: "rules \<Rightarrow> fork_rules" where
  "vm_rules r =
     \<lparr>IsVerkle = False, IsGlamsterdan = R_IsGlamsterdan r, IsPrague = R_IsPrague r, IsCancun = R_IsCancun r,
      IsShanghai = R_IsShanghai r, IsMerge = R_IsMerge r, IsLondon = R_IsLondon r, IsBerlin = R_IsBerlin r,
      IsIstanbul = R_IsIstanbul r, IsConstantinople = R_IsConstantinople r, IsByzantium = R_IsByzantium r,
      IsHomestead = R_IsHomestead r, IsEIP158 = R_IsEIP158 r, IsEIP7708 = R_IsEIP7708 r,
      IsEIP7954 = R_IsEIP7954 r, IsIPlus = R_IsIPlus r\<rparr>"

end
