(* ===== verification/Fee_Market.thy ===== *)
theory Fee_Market
  imports Chain_Config Complex_Main
begin

text \<open>
  Fees and limits that one block header derives from its parent: the base fee of
  \<^verbatim>\<open>src/pkg/core/gas/fee.go\<close>, the blob fees of \<^verbatim>\<open>blob_gas.go\<close>, \<^verbatim>\<open>blob_schedule.go\<close> and
  \<^verbatim>\<open>blob_validation.go\<close>, the calldata fee of \<^verbatim>\<open>calldata_gas.go\<close>, the exponential of \<^verbatim>\<open>constants.go\<close> and the
  gas limit of \<^verbatim>\<open>gas_limit.go\<close>.  \<open>*big.Int\<close> is \<^typ>\<open>int\<close>; a division by zero, which panics, is \<open>None\<close>.
\<close>

section \<open>Headers\<close>

text \<open>\<^verbatim>\<open>src/pkg/core/types/header.go\<close>, without the caches\<close>

record header =
  H_ParentHash :: hash
  H_UncleHash :: hash
  H_Coinbase :: address
  H_Root :: hash
  H_TxHash :: hash
  H_ReceiptHash :: hash
  H_Bloom :: bytes
  H_Difficulty :: "int option"
  H_Number :: "int option"
  H_GasLimit :: u64
  H_GasUsed :: u64
  H_Time :: u64
  H_Extra :: bytes
  H_MixDigest :: hash
  H_Nonce :: bytes
  H_BaseFee :: "int option"
  H_WithdrawalsHash :: "hash option"
  H_BlobGasUsed :: "u64 option"
  H_ExcessBlobGas :: "u64 option"
  H_ParentBeaconRoot :: "hash option"
  H_RequestsHash :: "hash option"
  H_BlockAccessListHash :: "hash option"
  H_TargetBlobsPerBlock :: "u64 option"
  H_CalldataGasUsed :: "u64 option"
  H_CalldataExcessGas :: "u64 option"
  H_GasLimitVec :: "(u64 \<times> u64 \<times> u64) option"
  H_GasUsedVec :: "(u64 \<times> u64 \<times> u64) option"
  H_ExcessGasVec :: "(u64 \<times> u64 \<times> u64) option"

text \<open>The zero value of the struct.\<close>

definition zero_header :: header where
  "zero_header =
     \<lparr>H_ParentHash = 0, H_UncleHash = 0, H_Coinbase = 0, H_Root = 0, H_TxHash = 0, H_ReceiptHash = 0,
      H_Bloom = replicate 256 0, H_Difficulty = None, H_Number = None, H_GasLimit = 0, H_GasUsed = 0, H_Time = 0,
      H_Extra = [], H_MixDigest = 0, H_Nonce = replicate 8 0, H_BaseFee = None, H_WithdrawalsHash = None,
      H_BlobGasUsed = None, H_ExcessBlobGas = None, H_ParentBeaconRoot = None, H_RequestsHash = None,
      H_BlockAccessListHash = None, H_TargetBlobsPerBlock = None, H_CalldataGasUsed = None,
      H_CalldataExcessGas = None, H_GasLimitVec = None, H_GasUsedVec = None, H_ExcessGasVec = None\<rparr>"

section \<open>Base fee\<close>

abbreviation (input) InitialBaseFee :: int where "InitialBaseFee \<equiv> 1000000000"
abbreviation (input) MinBaseFee :: int where "MinBaseFee \<equiv> 7"
abbreviation (input) ElasticityMultiplier :: u64 where "ElasticityMultiplier \<equiv> 2"
abbreviation (input) BaseFeeChangeDenominator :: u64 where "BaseFeeChangeDenominator \<equiv> 8"

text \<open>\<open>fee * delta / target / 8\<close>\<close>

definition base_fee_delta :: "int \<Rightarrow> u64 \<Rightarrow> u64 \<Rightarrow> int option" where
  "base_fee_delta fee delta target =
     (if target = 0 then None
      else Some (fee * uint delta div uint target div uint BaseFeeChangeDenominator))"

definition CalcBaseFee :: "header \<Rightarrow> int option" where
  "CalcBaseFee parent =
     (case H_BaseFee parent of
        None \<Rightarrow> Some InitialBaseFee
      | Some fee \<Rightarrow>
          let parentGasTarget = H_GasLimit parent div ElasticityMultiplier; used = H_GasUsed parent in
          if used = parentGasTarget then Some fee
          else if used > parentGasTarget then
            do { baseFeeDelta \<leftarrow> base_fee_delta fee (used - parentGasTarget) parentGasTarget;
                 Some (fee + (if baseFeeDelta = 0 then 1 else baseFeeDelta)) }
          else
            do { baseFeeDelta \<leftarrow> base_fee_delta fee (parentGasTarget - used) parentGasTarget;
                 let baseFee = fee - baseFeeDelta in
                 Some (if baseFee < MinBaseFee then MinBaseFee else baseFee) })"

section \<open>Exponential fees\<close>

text \<open>
  The loop of \<open>fakeExponential\<close> on naturals, which is what all callers pass.  The accumulator may
  grow while \<open>i\<close> is small; once \<open>den * i\<close> exceeds \<open>num\<close> it decreases.
\<close>

function exp_loop :: "nat \<Rightarrow> nat \<Rightarrow> nat \<Rightarrow> nat \<Rightarrow> nat \<Rightarrow> nat" where
  "exp_loop num den i accum out =
     (if accum = 0 \<or> den * i = 0 then out
      else exp_loop num den (i + 1) (accum * num div (den * i)) (out + accum))"
  by pat_completeness auto

text \<open>The case \<open>den * i = 0\<close> is the division by zero that \<open>fakeExponential\<close> rules out below.\<close>

termination exp_loop
proof (relation "measures [\<lambda>(num, den, i, accum, out). num div den + 1 - i, \<lambda>(num, den, i, accum, out). accum]")
  fix num den i accum out :: nat
  assume pos: "\<not> (accum = 0 \<or> den * i = 0)"
  show "((num, den, i + 1, accum * num div (den * i), out + accum), num, den, i, accum, out)
     \<in> measures [\<lambda>(num, den, i, accum, out). num div den + 1 - i, \<lambda>(num, den, i, accum, out). accum]"
  proof (cases "i \<le> num div den")
    case False
    then have "num < den * i"
      using pos by (simp add: not_le div_less_iff_less_mult mult.commute)
    then have "accum * num div (den * i) < accum"
      using pos by (simp add: div_less_iff_less_mult)
    then show ?thesis using False by simp
  qed (simp add: Suc_diff_le)
qed simp

declare exp_loop.simps [simp del]

definition fakeExponential :: "nat \<Rightarrow> nat \<Rightarrow> nat \<Rightarrow> nat option" where
  "fakeExponential factor numerator denominator =
     (if denominator = 0 then None
      else Some (exp_loop numerator denominator 1 (factor * denominator) 0 div denominator))"

text \<open>
  \<open>fakeExponential\<close> stands in \<^verbatim>\<open>constants.go\<close>, in \<^verbatim>\<open>processor.go\<close> and, as \<open>FakeExponentialV2\<close>, in
  \<^verbatim>\<open>blob_gas.go\<close>, three times with the same steps.
\<close>

definition calcBlobBaseFee :: "u64 \<Rightarrow> nat option" where
  "calcBlobBaseFee excessBlobGas = fakeExponential 1 (unat excessBlobGas) 3338477"

section \<open>Blob gas\<close>

abbreviation (input) GasPerBlob :: u64 where "GasPerBlob \<equiv> 131072"
abbreviation (input) MinBaseFeePerBlobGas :: nat where "MinBaseFeePerBlobGas \<equiv> 33554432"
abbreviation (input) BlobBaseCost :: int where "BlobBaseCost \<equiv> 8192"
abbreviation (input) TargetBlobGasPerBlock :: u64 where "TargetBlobGasPerBlock \<equiv> 393216"
abbreviation (input) MaxBlobGasPerBlock :: u64 where "MaxBlobGasPerBlock \<equiv> 786432"

record blob_schedule =
  BS_Target :: u64
  BS_Max :: u64
  BS_UpdateFraction :: u64

definition CancunBlobSchedule :: blob_schedule where
  "CancunBlobSchedule = \<lparr>BS_Target = 3, BS_Max = 6, BS_UpdateFraction = 3338477\<rparr>"

definition PragueBlobSchedule :: blob_schedule where
  "PragueBlobSchedule = \<lparr>BS_Target = 6, BS_Max = 9, BS_UpdateFraction = 5376681\<rparr>"

definition BPO1BlobSchedule :: blob_schedule where
  "BPO1BlobSchedule = \<lparr>BS_Target = 10, BS_Max = 15, BS_UpdateFraction = 8346193\<rparr>"

definition BPO2BlobSchedule :: blob_schedule where
  "BPO2BlobSchedule = \<lparr>BS_Target = 14, BS_Max = 21, BS_UpdateFraction = 11684671\<rparr>"

definition GetBlobSchedule :: "chain_config \<Rightarrow> u64 \<Rightarrow> blob_schedule" where
  "GetBlobSchedule c t =
     (if isTimestampForked (BPO2Time c) t then BPO2BlobSchedule
      else if isTimestampForked (BPO1Time c) t then BPO1BlobSchedule
      else if config_IsPrague c t then PragueBlobSchedule
      else CancunBlobSchedule)"

text \<open>The named schedules of \<^verbatim>\<open>blob_schedule.go\<close>.\<close>

definition GetBlobScheduleEntry :: "chain_config \<Rightarrow> u64 \<Rightarrow> blob_schedule" where
  "GetBlobScheduleEntry c t =
     (if config_IsPrague c t then \<lparr>BS_Target = 6, BS_Max = 9, BS_UpdateFraction = 5007716\<rparr>
      else \<lparr>BS_Target = 3, BS_Max = 6, BS_UpdateFraction = 3338477\<rparr>)"

definition positive :: "int option \<Rightarrow> bool" where
  "positive v = (case v of None \<Rightarrow> False | Some x \<Rightarrow> x > 0)"

definition BlobBaseFeeWithFloor :: "int \<Rightarrow> int option \<Rightarrow> int" where
  "BlobBaseFeeWithFloor computedFee baseFeePerGas =
     (case baseFeePerGas of
        None \<Rightarrow> computedFee
      | Some fee \<Rightarrow>
          if fee \<le> 0 then computedFee
          else
            let reservePrice = BlobBaseCost * fee div uint GasPerBlob in
            if reservePrice > computedFee then reservePrice else computedFee)"

definition CalcBlobBaseFeeV2WithFraction :: "u64 \<Rightarrow> int option \<Rightarrow> u64 \<Rightarrow> int option" where
  "CalcBlobBaseFeeV2WithFraction excessBlobGas baseFeePerGas updateFraction =
     map_option (\<lambda>computedFee. BlobBaseFeeWithFloor (int computedFee) baseFeePerGas)
       (fakeExponential MinBaseFeePerBlobGas (unat excessBlobGas) (unat updateFraction))"

definition CalcBlobBaseFeeV2 :: "u64 \<Rightarrow> int option \<Rightarrow> int option" where
  "CalcBlobBaseFeeV2 excessBlobGas baseFeePerGas =
     CalcBlobBaseFeeV2WithFraction excessBlobGas baseFeePerGas 5376681"

definition CalcBlobReservePrice :: "int option \<Rightarrow> int" where
  "CalcBlobReservePrice baseFeePerGas =
     (case baseFeePerGas of
        None \<Rightarrow> 0
      | Some fee \<Rightarrow> if fee \<le> 0 then 0 else BlobBaseCost * fee div uint GasPerBlob)"

definition IsExecutionFeeLed :: "int option \<Rightarrow> int option \<Rightarrow> bool" where
  "IsExecutionFeeLed baseFeePerGas blobBaseFee =
     (case (baseFeePerGas, blobBaseFee) of
        (Some b, Some f) \<Rightarrow> BlobBaseCost * b > uint GasPerBlob * f
      | _ \<Rightarrow> False)"

definition CalcExcessBlobGasV2WithSchedule ::
    "u64 \<Rightarrow> u64 \<Rightarrow> int option \<Rightarrow> blob_schedule \<Rightarrow> u64 option" where
  "CalcExcessBlobGasV2WithSchedule parentExcess parentUsed parentBaseFee sched =
     (let targetBlobGas = BS_Target sched * GasPerBlob;
          normal = parentExcess + parentUsed - targetBlobGas in
      if parentExcess + parentUsed < targetBlobGas then Some 0
      else if positive parentBaseFee then
        do { blobBaseFee \<leftarrow> fakeExponential MinBaseFeePerBlobGas (unat parentExcess) (unat (BS_UpdateFraction sched));
             if BlobBaseCost * the parentBaseFee > uint GasPerBlob * int blobBaseFee then
               if BS_Max sched = 0 then None
               else Some (parentExcess + parentUsed * (BS_Max sched - BS_Target sched) div BS_Max sched)
             else Some normal }
      else Some normal)"

definition or_zero64 :: "u64 option \<Rightarrow> u64" where
  "or_zero64 v = (case v of None \<Rightarrow> 0 | Some x \<Rightarrow> x)"

definition CalcExcessBlobGasV2ForHeader :: "header \<Rightarrow> chain_config \<Rightarrow> u64 \<Rightarrow> u64 option" where
  "CalcExcessBlobGasV2ForHeader parent c headerTime =
     (let sched = GetBlobSchedule c headerTime;
          sched = (case H_TargetBlobsPerBlock parent of None \<Rightarrow> sched | Some t \<Rightarrow> sched\<lparr>BS_Target := t\<rparr>) in
      CalcExcessBlobGasV2WithSchedule (or_zero64 (H_ExcessBlobGas parent)) (or_zero64 (H_BlobGasUsed parent))
        (H_BaseFee parent) sched)"

definition CalcExcessBlobGas :: "u64 \<Rightarrow> u64 \<Rightarrow> u64" where
  "CalcExcessBlobGas parentExcess parentUsed =
     (let s = parentExcess + parentUsed in
      if s < TargetBlobGasPerBlock then 0 else s - TargetBlobGasPerBlock)"

definition CalcExcessBlobGasWithSchedule :: "u64 \<Rightarrow> u64 \<Rightarrow> blob_schedule \<Rightarrow> u64" where
  "CalcExcessBlobGasWithSchedule parentExcess parentBlobsUsed sched =
     (let used = parentBlobsUsed * GasPerBlob; target = BS_Target sched * GasPerBlob in
      if parentExcess + used < target then 0 else parentExcess + used - target)"

datatype fee_error =
    ErrBlobGasUsedNil | ErrBlobGasUsedExceeded | ErrExcessBlobGasNil | ErrExcessBlobGasMismatch
  | ErrGasLimitScheduleEmpty | ErrGasLimitScheduleNotMonotone | ErrGasLimitScheduleJumpTooLarge
  | ErrGasLimitScheduleExceedsMax | ErrGasLimitBelowMinimum | ErrGasLimitChangeTooLarge

text \<open>\<open>ValidateBlockBlobGas\<close> and \<open>ValidateBlockBlobGasWithConfig\<close>; the inner option is the error.\<close>

definition blob_fields_error :: "u64 \<Rightarrow> header \<Rightarrow> u64 \<Rightarrow> fee_error option" where
  "blob_fields_error maxBlobGas h expectedExcess =
     (case H_BlobGasUsed h of
        None \<Rightarrow> Some ErrBlobGasUsedNil
      | Some used \<Rightarrow>
          if used > maxBlobGas then Some ErrBlobGasUsedExceeded
          else case H_ExcessBlobGas h of
              None \<Rightarrow> Some ErrExcessBlobGasNil
            | Some excess \<Rightarrow> if excess \<noteq> expectedExcess then Some ErrExcessBlobGasMismatch else None)"

definition ValidateBlockBlobGas :: "header \<Rightarrow> header \<Rightarrow> fee_error option" where
  "ValidateBlockBlobGas h parent =
     blob_fields_error MaxBlobGasPerBlock h
       (CalcExcessBlobGas (or_zero64 (H_ExcessBlobGas parent)) (or_zero64 (H_BlobGasUsed parent)))"

definition ValidateBlockBlobGasWithConfig :: "chain_config \<Rightarrow> header \<Rightarrow> header \<Rightarrow> fee_error option option" where
  "ValidateBlockBlobGasWithConfig c h parent =
     (let maxBlobGas = BS_Max (GetBlobSchedule c (H_Time h)) * GasPerBlob in
      if H_BlobGasUsed h = None \<or> or_zero64 (H_BlobGasUsed h) > maxBlobGas \<or> H_ExcessBlobGas h = None
      then Some (blob_fields_error maxBlobGas h 0)
      else map_option (blob_fields_error maxBlobGas h) (CalcExcessBlobGasV2ForHeader parent c (H_Time h)))"

section \<open>Calldata gas\<close>

abbreviation (input) CalldataGasLimitRatio :: u64 where "CalldataGasLimitRatio \<equiv> 4"
abbreviation (input) CalldataTargetRatio :: u64 where "CalldataTargetRatio \<equiv> 4"
abbreviation (input) MinCalldataBaseFee :: nat where "MinCalldataBaseFee \<equiv> 1"

definition CalcCalldataGasLimit :: "u64 \<Rightarrow> u64" where
  "CalcCalldataGasLimit executionGasLimit = executionGasLimit div CalldataGasLimitRatio"

definition CalcCalldataGasTarget :: "u64 \<Rightarrow> u64" where
  "CalcCalldataGasTarget calldataGasLimit = calldataGasLimit div CalldataTargetRatio"

definition CalcCalldataExcessGas :: "u64 \<Rightarrow> u64 \<Rightarrow> u64 \<Rightarrow> u64" where
  "CalcCalldataExcessGas parentExcess parentUsed parentGasLimit =
     (let target = CalcCalldataGasTarget (CalcCalldataGasLimit parentGasLimit); s = parentExcess + parentUsed in
      if s < target then 0 else s - target)"

definition CalcCalldataBaseFee :: "u64 \<Rightarrow> u64 \<Rightarrow> nat option" where
  "CalcCalldataBaseFee excessCalldataGas calldataGasLimit =
     (let target = CalcCalldataGasTarget calldataGasLimit in
      if target = 0 then Some MinCalldataBaseFee
      else fakeExponential MinCalldataBaseFee (unat excessCalldataGas) (unat (target * 8)))"

definition CalcCalldataBaseFeeFromHeader :: "header \<Rightarrow> nat option" where
  "CalcCalldataBaseFeeFromHeader parent =
     (case H_CalldataExcessGas parent of
        None \<Rightarrow> Some MinCalldataBaseFee
      | Some excess \<Rightarrow> CalcCalldataBaseFee excess (CalcCalldataGasLimit (H_GasLimit parent)))"

definition CalldataGasCost :: "u64 \<Rightarrow> int \<Rightarrow> int" where
  "CalldataGasCost calldataGas calldataBaseFee = calldataBaseFee * uint calldataGas"

section \<open>Gas limit\<close>

abbreviation (input) GasLimitBoundDivisor :: u64 where "GasLimitBoundDivisor \<equiv> 1024"
abbreviation (input) MinGasLimit :: u64 where "MinGasLimit \<equiv> 5000"
abbreviation (input) MaxGigagas :: u64 where "MaxGigagas \<equiv> 1000000000"

record gas_limit_entry =
  ActivationTime :: u64
  TargetGasLimit :: u64

fun check_schedule :: "gas_limit_entry option \<Rightarrow> gas_limit_entry list \<Rightarrow> fee_error option" where
  "check_schedule prev [] = None"
| "check_schedule prev (entry # rest) =
     (if TargetGasLimit entry > MaxGigagas then Some ErrGasLimitScheduleExceedsMax
      else case prev of
          None \<Rightarrow> check_schedule (Some entry) rest
        | Some p \<Rightarrow>
            if ActivationTime entry \<le> ActivationTime p then Some ErrGasLimitScheduleNotMonotone
            else if TargetGasLimit entry > 3 * TargetGasLimit p then Some ErrGasLimitScheduleJumpTooLarge
            else check_schedule (Some entry) rest)"

definition ValidateGasLimitSchedule :: "gas_limit_entry list \<Rightarrow> fee_error option" where
  "ValidateGasLimitSchedule schedule =
     (if schedule = [] then Some ErrGasLimitScheduleEmpty else check_schedule None schedule)"

definition DefaultGasLimitSchedule :: "gas_limit_entry list" where
  "DefaultGasLimitSchedule =
     [\<lparr>ActivationTime = 0, TargetGasLimit = 60000000\<rparr>,
      \<lparr>ActivationTime = 15768000, TargetGasLimit = 180000000\<rparr>,
      \<lparr>ActivationTime = 31536000, TargetGasLimit = 540000000\<rparr>,
      \<lparr>ActivationTime = 47304000, TargetGasLimit = 1000000000\<rparr>]"

text \<open>
  The search stops at the first entry that is not active.  Entries with the same time, whose order
  \<open>sort.Slice\<close> does not fix, are taken in the order of the list.
\<close>

definition GetTargetGasLimit :: "gas_limit_entry list \<Rightarrow> u64 \<Rightarrow> u64" where
  "GetTargetGasLimit schedule t =
     (if schedule = [] then 0
      else
        let by_time = sort_key ActivationTime schedule in
        fold (\<lambda>entry target. TargetGasLimit entry) (takeWhile (\<lambda>entry. ActivationTime entry \<le> t) by_time)
          (TargetGasLimit (hd by_time)))"

definition gas_limit_delta :: "u64 \<Rightarrow> u64" where
  "gas_limit_delta parentGasLimit =
     (let delta = parentGasLimit div GasLimitBoundDivisor in if delta < 1 then 1 else delta)"

definition CalcGasLimit :: "u64 \<Rightarrow> u64 \<Rightarrow> u64" where
  "CalcGasLimit parentGasLimit targetGasLimit =
     (let delta = gas_limit_delta parentGasLimit;
          limit =
            (if targetGasLimit > parentGasLimit then
               if parentGasLimit + delta > targetGasLimit then targetGasLimit else parentGasLimit + delta
             else if targetGasLimit < parentGasLimit then
               if parentGasLimit - delta < targetGasLimit then targetGasLimit else parentGasLimit - delta
             else parentGasLimit) in
      if limit < MinGasLimit then MinGasLimit else limit)"

text \<open>The schedule is a parameter of \<open>ValidateGasLimit\<close> but its body does not use it.\<close>

definition ValidateGasLimit :: "gas_limit_entry list \<Rightarrow> header \<Rightarrow> header \<Rightarrow> fee_error option" where
  "ValidateGasLimit schedule parent h =
     (let p = H_GasLimit parent; g = H_GasLimit h in
      if g < MinGasLimit then Some ErrGasLimitBelowMinimum
      else
        let diff = (if g > p then g - p else p - g) in
        if diff > gas_limit_delta p then Some ErrGasLimitChangeTooLarge else None)"

section \<open>Properties\<close>

lemma uint_sub_le: "b \<le> a \<Longrightarrow> uint (a - b) = uint a - uint (b :: u64)"
  by (simp add: uint_minus_simple_alt word_le_def)

lemma fee_delta_bounds:
  assumes "0 < uint target" "uint d \<le> uint target" "0 \<le> fee"
  shows "\<exists>x. base_fee_delta fee d target = Some x \<and> 0 \<le> x \<and> x \<le> fee div 8"
proof -
  have "fee * uint d \<le> fee * uint target" using assms by (simp add: mult_left_mono)
  then have "fee * uint d div uint target \<le> fee"
    using assms(1) by (metis nonzero_mult_div_cancel_right order_less_irrefl zdiv_mono1)
  moreover have "target \<noteq> 0" using assms(1) by auto
  ultimately show ?thesis
    using assms by (simp add: base_fee_delta_def zdiv_mono1 pos_imp_zdiv_nonneg_iff)
qed

text \<open>
  C21. The base fee follows the use of the parent block, for every base fee of the parent and a
  parent that used at most twice its target.  It stays when the target was met; above the target it rises by at
  least one wei and at most an eighth or one wei, whichever is more; below the target it falls by at most an
  eighth and is 7 wei at least, which raises the base fee of a parent that had less.
\<close>

theorem base_fee_bounds:
  assumes "H_BaseFee parent = Some fee" "0 \<le> fee" "2 \<le> H_GasLimit parent"
    and "target = H_GasLimit parent div 2" "uint (H_GasUsed parent) \<le> 2 * uint target"
  shows "\<exists>next. CalcBaseFee parent = Some next \<and>
     (H_GasUsed parent = target \<longrightarrow> next = fee) \<and>
     (target < H_GasUsed parent \<longrightarrow> fee + 1 \<le> next \<and> next \<le> fee + max 1 (fee div 8)) \<and>
     (H_GasUsed parent < target \<longrightarrow> max 7 (fee - fee div 8) \<le> next \<and> next \<le> max 7 fee)"
proof -
  let ?used = "H_GasUsed parent"
  have pos: "0 < uint target"
    using assms(3,4) by (simp add: uint_div_distrib word_le_def pos_imp_zdiv_pos_iff)
  note calc = CalcBaseFee_def assms(1) assms(4) [symmetric]
  consider "?used = target" | "target < ?used" | "?used < target" by (rule linorder_cases)
  then show ?thesis
  proof cases
    case 1
    then show ?thesis by (simp add: calc Let_def)
  next
    case 2
    then have "uint (?used - target) \<le> uint target" using assms(5) by (simp add: uint_sub_le)
    then obtain x where "base_fee_delta fee (?used - target) target = Some x" "0 \<le> x" "x \<le> fee div 8"
      using fee_delta_bounds [OF pos _ assms(2)] by blast
    then show ?thesis using 2 by (auto simp: calc Let_def)
  next
    case 3
    then have "uint (target - ?used) \<le> uint target" by (simp add: uint_sub_le)
    then obtain x where "base_fee_delta fee (target - ?used) target = Some x" "0 \<le> x" "x \<le> fee div 8"
      using fee_delta_bounds [OF pos _ assms(2)] by blast
    moreover from this(3) have "fee - x < 7 \<Longrightarrow> fee \<le> 7" by linarith
    moreover have "\<not> target < ?used" "?used \<noteq> target" using 3 by auto
    ultimately show ?thesis by (auto simp: calc Let_def)
  qed
qed

theorem base_fee_bounds_witness:
  "(\<exists>next. CalcBaseFee (zero_header\<lparr>H_BaseFee := Some 1000, H_GasLimit := 100, H_GasUsed := 80\<rparr>) = Some next \<and>
     1000 < next \<and> next \<le> 1125) \<and>
   CalcBaseFee (zero_header\<lparr>H_BaseFee := Some 3, H_GasLimit := 100, H_GasUsed := 20\<rparr>) = Some 7"
  using base_fee_bounds [of "zero_header\<lparr>H_BaseFee := Some 1000, H_GasLimit := 100, H_GasUsed := 80\<rparr>" 1000 50]
    base_fee_bounds [of "zero_header\<lparr>H_BaseFee := Some 3, H_GasLimit := 100, H_GasUsed := 20\<rparr>" 3 50] by auto

text \<open>
  The terms of the loop: at step \<open>i\<close> the accumulator is at most the \<open>i - 1\<close>-st term of the series of
  the exponential function, times \<open>factor * den\<close>.
\<close>

lemma exp_loop_ge: "out \<le> exp_loop num den i accum out"
proof (induction num den i accum out rule: exp_loop.induct)
  case (1 num den i accum out)
  then show ?case by (subst exp_loop.simps) (auto intro: add_leD1)
qed

lemma exp_loop_le:
  assumes "0 < den" "0 < i" "real accum \<le> c * (real num / real den) ^ (i - 1) / fact (i - 1)" "0 \<le> c"
    "real out \<le> c * (\<Sum>k<i - 1. (real num / real den) ^ k / fact k)"
  shows "real (exp_loop num den i accum out) \<le> c * exp (real num / real den)"
  using assms
proof (induction num den i accum out rule: exp_loop.induct)
  case (1 num den i accum out)
  let ?x = "real num / real den"
  show ?case
  proof (cases "accum = 0")
    case True
    have "(\<Sum>k<i - 1. ?x ^ k / fact k) \<le> exp ?x"
      using sum_le_suminf [OF summable_exp_generic, of "{..<i - 1}" ?x]
      by (simp add: exp_def divide_inverse mult.commute scaleR_conv_of_real)
    then have "c * (\<Sum>k<i - 1. ?x ^ k / fact k) \<le> c * exp ?x"
      using "1.prems"(4) by (rule mult_left_mono)
    then show ?thesis using True "1.prems"(5) by (simp add: exp_loop.simps)
  next
    case False
    obtain j where j: "i = Suc j" using "1.prems"(2) by (cases i) auto
    have "real (accum * num div (den * i)) \<le> real accum * ?x / real i"
      using of_nat_div_le_of_nat [of "accum * num" "den * i", where ?'a = real] by (simp add: field_simps)
    also have "\<dots> \<le> (c * ?x ^ j / fact j) * ?x / real i"
      using "1.prems"(3) j by (intro divide_right_mono mult_right_mono) auto
    also have "\<dots> = c * ?x ^ i / fact i" by (simp add: j field_simps)
    finally have "real (accum * num div (den * i)) \<le> c * ?x ^ i / fact i" .
    moreover have "real (out + accum) \<le> c * (\<Sum>k<i. ?x ^ k / fact k)"
      using "1.prems"(3,5) j by (simp add: distrib_left)
    ultimately show ?thesis
      using "1.IH" False "1.prems" by (simp add: exp_loop.simps [of num den i])
  qed
qed

text \<open>
  C22. The exponential fee is bracketed.  For a positive denominator the loop of \<open>fakeExponential\<close> ends, and its result
  lies between the line \<open>factor + factor * numerator / denominator\<close> and
  \<open>factor * exp (numerator / denominator)\<close>.  In particular a blob fee is never below the minimum fee.
\<close>

theorem fakeExponential_bounds:
  assumes "0 < denominator"
  shows "\<exists>fee. fakeExponential factor numerator denominator = Some fee \<and>
     factor + factor * numerator div denominator \<le> fee \<and>
     real fee \<le> real factor * exp (real numerator / real denominator)"
proof -
  let ?out = "exp_loop numerator denominator 1 (factor * denominator) 0"
  have "factor * denominator + factor * numerator \<le> ?out"
  proof (cases "factor = 0")
    case False
    have "?out = exp_loop numerator denominator 2 (factor * numerator) (factor * denominator)"
      using assms False by (simp add: exp_loop.simps [of numerator denominator "Suc 0"] numeral_2_eq_2)
    also have "\<dots> \<ge> factor * denominator + factor * numerator"
      using exp_loop_ge assms
      by (cases "numerator = 0") (simp_all add: exp_loop.simps [of numerator denominator 2] False)
    finally show ?thesis .
  qed simp
  then have low: "factor + factor * numerator div denominator \<le> ?out div denominator"
    using div_le_mono [of "factor * denominator + factor * numerator" ?out denominator] assms by simp
  have "real ?out \<le> real (factor * denominator) * exp (real numerator / real denominator)"
    by (rule exp_loop_le) (use assms in simp_all)
  then have "real ?out / real denominator \<le> real (factor * denominator) * exp (real numerator / real denominator) / real denominator"
    by (rule divide_right_mono) simp
  also have "\<dots> = real factor * exp (real numerator / real denominator)" using assms by simp
  finally have "real (?out div denominator) \<le> real factor * exp (real numerator / real denominator)"
    by (rule order_trans [OF of_nat_div_le_of_nat])
  then show ?thesis using assms low by (simp add: fakeExponential_def)
qed

theorem fakeExponential_bounds_witness:
  "\<exists>fee. fakeExponential 1 10 2 = Some fee \<and> 6 \<le> fee \<and> real fee \<le> exp 5"
  using fakeExponential_bounds [of 2 1 10] by simp

text \<open>
  C23. A proposed gas limit passes validation.  Whatever the target, the limit that \<open>CalcGasLimit\<close> gives after
  a valid parent limit is accepted by \<open>ValidateGasLimit\<close>, and lies between the parent's limit and the
  target, or is the minimum.
\<close>

theorem gas_limit_accepted:
  assumes "H_GasLimit h = CalcGasLimit (H_GasLimit parent) target"
    and "5000 \<le> H_GasLimit parent" "uint (H_GasLimit parent) < 2 ^ 63"
  shows "ValidateGasLimit schedule parent h = None \<and>
     (H_GasLimit h = 5000 \<or> H_GasLimit h \<in> {min (H_GasLimit parent) target .. max (H_GasLimit parent) target})"
proof -
  let ?p = "H_GasLimit parent" and ?d = "gas_limit_delta (H_GasLimit parent)"
  have d: "uint ?d \<le> uint ?p" "1 \<le> uint ?d"
    using assms(2) by (auto simp: gas_limit_delta_def Let_def uint_div_distrib word_less_def word_le_def not_less)
  have up: "uint (?p + ?d) = uint ?p + uint ?d"
    using d assms(3) by (simp add: uint_plus_if')
  have down: "uint (?p - ?d) = uint ?p - uint ?d" using d by (simp add: uint_sub_le word_le_def)
  show ?thesis
    using assms(1,2) d up down
    by (auto simp: ValidateGasLimit_def CalcGasLimit_def Let_def word_less_def word_le_def uint_sub_le
        min_def max_def split: if_splits)
qed

theorem gas_limit_accepted_witness:
  "ValidateGasLimit [] (zero_header\<lparr>H_GasLimit := 60000000\<rparr>)
     (zero_header\<lparr>H_GasLimit := CalcGasLimit 60000000 180000000\<rparr>) = None"
  using gas_limit_accepted [of "zero_header\<lparr>H_GasLimit := CalcGasLimit 60000000 180000000\<rparr>"
    "zero_header\<lparr>H_GasLimit := 60000000\<rparr>" 180000000] by simp

end
