(* ===== verification/Tx_Gas.thy ===== *)
theory Tx_Gas
  imports Fee_Market
begin

text \<open>
  The gas of a transaction outside the interpreter: the block gas pool
  (\<^verbatim>\<open>src/pkg/core/gaspool/gas_pool.go\<close>), intrinsic gas and the calldata floor
  (\<^verbatim>\<open>src/pkg/core/execution/processor.go\<close>), the refund and floor adjustment of
  \<^verbatim>\<open>src/pkg/core/gas/eip7623_floor.go\<close> and the seeding of the state-creation reservoir
  (\<^verbatim>\<open>src/pkg/core/vm/gas_reservoir.go\<close>).  All sums wrap at 64 bits, as in the code.
\<close>

section \<open>Gas pool\<close>

definition AddGas :: "u64 \<Rightarrow> u64 \<Rightarrow> u64" where
  "AddGas amount gp = gp + amount"

text \<open>\<open>None\<close> is \<open>ErrGasPoolExhausted\<close>.\<close>

definition SubGas :: "u64 \<Rightarrow> u64 \<Rightarrow> u64 option" where
  "SubGas amount gp = (if gp < amount then None else Some (gp - amount))"

section \<open>Intrinsic gas\<close>

abbreviation (input) TxGas :: u64 where "TxGas \<equiv> 21000"
abbreviation (input) TxDataZeroGas :: u64 where "TxDataZeroGas \<equiv> 4"
abbreviation (input) TxDataNonZeroGas :: u64 where "TxDataNonZeroGas \<equiv> 16"
abbreviation (input) TxCreateGas :: u64 where "TxCreateGas \<equiv> 32000"
abbreviation (input) PerAuthBaseCost :: u64 where "PerAuthBaseCost \<equiv> 12500"
abbreviation (input) PerEmptyAccountCost :: u64 where "PerEmptyAccountCost \<equiv> 25000"
abbreviation (input) TotalCostFloorPerToken :: u64 where "TotalCostFloorPerToken \<equiv> 10"
abbreviation (input) TotalCostFloorPerTokenGlamst :: u64 where "TotalCostFloorPerTokenGlamst \<equiv> 16"
abbreviation (input) TxBaseGlamsterdam :: u64 where "TxBaseGlamsterdam \<equiv> 4500"
abbreviation (input) GasNewAccount :: u64 where "GasNewAccount \<equiv> 25000"
abbreviation (input) AccessListAddressGlamst :: u64 where "AccessListAddressGlamst \<equiv> 3200"
abbreviation (input) AccessListStorageGlamst :: u64 where "AccessListStorageGlamst \<equiv> 2500"

record access_tuple =
  AT_Address :: address
  AT_StorageKeys :: "hash list"

text \<open>The loops that add one amount for a zero byte and another for any other byte.\<close>

definition per_byte :: "u64 \<Rightarrow> u64 \<Rightarrow> bytes \<Rightarrow> u64 \<Rightarrow> u64" where
  "per_byte zero nonzero data g = fold (\<lambda>b g. g + (if b = 0 then zero else nonzero)) data g"

definition intrinsicGas :: "bytes \<Rightarrow> bool \<Rightarrow> bool \<Rightarrow> u64 \<Rightarrow> u64" where
  "intrinsicGas data isCreate isShanghai authCount =
     (let g = TxGas;
          g = (if isCreate then g + TxCreateGas else g);
          g = per_byte TxDataZeroGas TxDataNonZeroGas data g;
          g = (if isCreate \<and> isShanghai then g + ((u64_len data + 31) div 32) * InitCodeWordGas else g) in
      g + authCount * PerEmptyAccountCost)"

definition calldataTokens :: "bytes \<Rightarrow> u64" where
  "calldataTokens data = per_byte 1 4 data 0"

definition calldataFloorGas :: "bytes \<Rightarrow> bool \<Rightarrow> u64" where
  "calldataFloorGas data isCreate =
     (let tokens = per_byte 1 4 data 0; floor = TxGas + tokens * TotalCostFloorPerToken in
      if isCreate then floor + TxCreateGas else floor)"

text \<open>All bytes of the addresses and keys of an access list, in order.\<close>

definition access_list_bytes :: "access_tuple list \<Rightarrow> bytes" where
  "access_list_bytes al =
     concat (map (\<lambda>t. address_bytes (AT_Address t) @ concat (map hash_bytes (AT_StorageKeys t))) al)"

definition accessListDataTokens :: "access_tuple list \<Rightarrow> u64" where
  "accessListDataTokens al =
     (let bs = access_list_bytes al; zero = per_byte 1 0 bs 0; nonzero = per_byte 0 1 bs 0 in zero + nonzero * 4)"

definition calldataFloorGasGlamst :: "bytes \<Rightarrow> access_tuple list \<Rightarrow> bool \<Rightarrow> u64" where
  "calldataFloorGasGlamst data al isCreate =
     (let totalTokens = u64_len data * 4 + accessListDataTokens al;
          floor = TxBaseGlamsterdam + totalTokens * TotalCostFloorPerTokenGlamst in
      if isCreate then floor + TxCreateGas else floor)"

definition accessListGas :: "access_tuple list \<Rightarrow> u64" where
  "accessListGas al = fold (\<lambda>t g. g + 2400 + u64_len (AT_StorageKeys t) * 1900) al 0"

definition accessListGasGlamst :: "access_tuple list \<Rightarrow> u64" where
  "accessListGasGlamst al =
     fold (\<lambda>t g. g + AccessListAddressGlamst + u64_len (AT_StorageKeys t) * AccessListStorageGlamst) al 0 +
     accessListDataTokens al * TotalCostFloorPerTokenGlamst"

definition intrinsicGasGlamst :: "bytes \<Rightarrow> bool \<Rightarrow> bool \<Rightarrow> bool \<Rightarrow> u64 \<Rightarrow> u64" where
  "intrinsicGasGlamst data isCreate hasValue toExists authCount =
     (let g = TxBaseGlamsterdam;
          g = (if isCreate then g + TxCreateGas else g);
          g = per_byte TxDataZeroGas TxDataNonZeroGas data g;
          g = (if \<not> isCreate \<and> hasValue \<and> \<not> toExists then g + GasNewAccount else g) in
      g + authCount * PerEmptyAccountCost)"

text \<open>\<open>types.CalldataTokenGas\<close>\<close>

definition CalldataTokenGas :: "bytes \<Rightarrow> u64" where
  "CalldataTokenGas data = per_byte 1 4 data 0 * 4"

section \<open>Refund and floor\<close>

definition CalcFloorGas :: "bytes \<Rightarrow> bool \<Rightarrow> u64 \<times> u64" where
  "CalcFloorGas data isCreate =
     (let tokens = calldataTokens data; floor = TxGas + tokens * TotalCostFloorPerToken in
      (if isCreate then floor + TxCreateGas else floor, tokens))"

definition CalcFloorGasGlamst :: "bytes \<Rightarrow> access_tuple list \<Rightarrow> bool \<Rightarrow> u64 \<times> u64" where
  "CalcFloorGasGlamst data al isCreate =
     (let totalTokens = u64_len data * 4 + accessListDataTokens al;
          floor = TxBaseGlamsterdam + totalTokens * TotalCostFloorPerTokenGlamst in
      (if isCreate then floor + TxCreateGas else floor, totalTokens))"

definition ApplyCalldataFloor :: "u64 \<Rightarrow> bytes \<Rightarrow> bool \<Rightarrow> u64 \<times> bool" where
  "ApplyCalldataFloor executionGas data isCreate =
     (let floor = fst (CalcFloorGas data isCreate) in
      if floor > executionGas then (floor, True) else (executionGas, False))"

definition ApplyCalldataFloorGlamst :: "u64 \<Rightarrow> bytes \<Rightarrow> access_tuple list \<Rightarrow> bool \<Rightarrow> u64 \<times> bool" where
  "ApplyCalldataFloorGlamst executionGas data al isCreate =
     (let floor = fst (CalcFloorGasGlamst data al isCreate) in
      if floor > executionGas then (floor, True) else (executionGas, False))"

definition CalcEffectiveGas ::
    "chain_config option \<Rightarrow> u64 \<Rightarrow> u64 \<Rightarrow> bytes \<Rightarrow> access_tuple list \<Rightarrow> bool \<Rightarrow> u64 \<times> bool" where
  "CalcEffectiveGas config headerTime executionGas data al isCreate =
     (case config of
        None \<Rightarrow> (executionGas, False)
      | Some c \<Rightarrow>
          if \<not> config_IsPrague c headerTime then (executionGas, False)
          else if config_IsGlamsterdan c headerTime then ApplyCalldataFloorGlamst executionGas data al isCreate
          else ApplyCalldataFloor executionGas data isCreate)"

definition RefundWithFloor ::
    "u64 \<Rightarrow> u64 \<Rightarrow> bytes \<Rightarrow> access_tuple list \<Rightarrow> bool \<Rightarrow> chain_config option \<Rightarrow> u64 \<Rightarrow> u64 \<times> u64 \<times> bool" where
  "RefundWithFloor gasUsed rawRefund data al isCreate config headerTime =
     (let maxRefund = gasUsed div 5;
          refundApplied = (if rawRefund > maxRefund then maxRefund else rawRefund);
          (finalGas, floorApplied) = CalcEffectiveGas config headerTime (gasUsed - refundApplied) data al isCreate in
      (finalGas, refundApplied, floorApplied))"

section \<open>Reservoir\<close>

text \<open>
  \<open>float64(g)\<close>: the nearest multiple of the unit in the last place of a 53-bit significand, ties to
  even.  Scaling by the fraction 0.25 of \<open>DefaultReservoirConfig\<close> is exact, and the conversion back
  truncates.
\<close>

definition float64_of :: "nat \<Rightarrow> nat" where
  "float64_of n =
     (if n < 2 ^ 53 then n
      else
        let u = (if n < 2 ^ 54 then 2 else if n < 2 ^ 55 then 4 else if n < 2 ^ 56 then 8 else if n < 2 ^ 57 then 16
                 else if n < 2 ^ 58 then 32 else if n < 2 ^ 59 then 64 else if n < 2 ^ 60 then 128
                 else if n < 2 ^ 61 then 256 else if n < 2 ^ 62 then 512 else if n < 2 ^ 63 then 1024 else 2048);
            q = n div u; r = n mod u in
        u * (if 2 * r > u \<or> 2 * r = u \<and> odd q then q + 1 else q))"

text \<open>\<open>InitReservoir\<close> with the default configuration, the only one the program makes.\<close>

definition InitReservoir :: "u64 \<Rightarrow> u64 \<times> u64" where
  "InitReservoir intrinsic =
     (let reservoir = of_nat (float64_of (unat intrinsic) div 4);
          reservoir = (if reservoir < 5000 then 5000 else reservoir);
          reservoir = (if reservoir > 500000 then 500000 else reservoir);
          reservoir = (if reservoir > intrinsic then intrinsic else reservoir) in
      (intrinsic - reservoir, reservoir))"

end
