(* ===== verification/Tx_Types.thy ===== *)
theory Tx_Types
  imports Tx_Gas Rlp_Roundtrip
begin

text \<open>
  Transactions: the ten kinds of \<open>TxData\<close> with their accessors (\<^verbatim>\<open>src/pkg/core/types/transaction.go\<close>,
  \<^verbatim>\<open>tx_aa.go\<close>, \<^verbatim>\<open>tx_frame.go\<close>, \<^verbatim>\<open>pq_transaction.go\<close>, \<^verbatim>\<open>local_tx.go\<close>, \<^verbatim>\<open>tx_multidim.go\<close>) and their
  encoding as typed envelopes (\<^verbatim>\<open>transaction_rlp.go\<close>), on top of the RLP codec.

  The \<open>copy\<close> methods are identities on values.  A nil slice and an empty one are both the empty list.
  The caches of a \<open>Transaction\<close> for its hash and size are left out.
\<close>

section \<open>Data\<close>

record authorization =
  AU_ChainID :: "int option"
  AU_Address :: address
  AU_Nonce :: u64
  AU_V :: "int option"
  AU_R :: "int option"
  AU_S :: "int option"

record tx_frame_def =
  FD_Mode :: byte
  FD_Target :: "address option"
  FD_GasLimit :: u64
  FD_Data :: bytes

record legacy_tx =
  L_Nonce :: u64
  L_GasPrice :: "int option"
  L_Gas :: u64
  L_To :: "address option"
  L_Value :: "int option"
  L_Data :: bytes
  L_V :: "int option"
  L_R :: "int option"
  L_S :: "int option"

record access_list_tx =
  A_ChainID :: "int option"
  A_Nonce :: u64
  A_GasPrice :: "int option"
  A_Gas :: u64
  A_To :: "address option"
  A_Value :: "int option"
  A_Data :: bytes
  A_AccessList :: "access_tuple list"
  A_V :: "int option"
  A_R :: "int option"
  A_S :: "int option"

record dynamic_fee_tx =
  D_ChainID :: "int option"
  D_Nonce :: u64
  D_GasTipCap :: "int option"
  D_GasFeeCap :: "int option"
  D_Gas :: u64
  D_To :: "address option"
  D_Value :: "int option"
  D_Data :: bytes
  D_AccessList :: "access_tuple list"
  D_V :: "int option"
  D_R :: "int option"
  D_S :: "int option"

record blob_tx =
  B_ChainID :: "int option"
  B_Nonce :: u64
  B_GasTipCap :: "int option"
  B_GasFeeCap :: "int option"
  B_Gas :: u64
  B_To :: address
  B_Value :: "int option"
  B_Data :: bytes
  B_AccessList :: "access_tuple list"
  B_BlobFeeCap :: "int option"
  B_BlobHashes :: "hash list"
  B_V :: "int option"
  B_R :: "int option"
  B_S :: "int option"

record set_code_tx =
  S_ChainID :: "int option"
  S_Nonce :: u64
  S_GasTipCap :: "int option"
  S_GasFeeCap :: "int option"
  S_Gas :: u64
  S_To :: address
  S_Value :: "int option"
  S_Data :: bytes
  S_AccessList :: "access_tuple list"
  S_AuthorizationList :: "authorization list"
  S_V :: "int option"
  S_R :: "int option"
  S_S :: "int option"

record aa_tx =
  AA_ChainID :: "int option"
  AA_Nonce :: u64
  AA_Sender :: address
  AA_SenderValidationData :: bytes
  AA_Deployer :: "address option"
  AA_DeployerData :: bytes
  AA_Paymaster :: "address option"
  AA_PaymasterData :: bytes
  AA_SenderExecutionData :: bytes
  AA_MaxPriorityFeePerGas :: "int option"
  AA_MaxFeePerGas :: "int option"
  AA_SenderValidationGas :: u64
  AA_PaymasterValidationGas :: u64
  AA_SenderExecutionGas :: u64
  AA_PaymasterPostOpGas :: u64
  AA_AccessList :: "access_tuple list"
  AA_AuthorizationList :: "authorization list"

record frame_tx =
  F_ChainID :: "int option"
  F_Nonce :: "int option"
  F_Sender :: address
  F_Frames :: "tx_frame_def list"
  F_MaxPriorityFeePerGas :: "int option"
  F_MaxFeePerGas :: "int option"
  F_MaxFeePerBlobGas :: "int option"
  F_BlobVersionedHashes :: "hash list"

record pq_tx =
  PQ_ChainID :: "int option"
  PQ_Nonce :: u64
  PQ_To :: "address option"
  PQ_Value :: "int option"
  PQ_Gas :: u64
  PQ_GasPrice :: "int option"
  PQ_Data :: bytes
  PQ_PQSignatureType :: byte
  PQ_PQSignature :: bytes
  PQ_PQPublicKey :: bytes
  PQ_ClassicSignature :: bytes

record local_tx =
  LX_ChainID :: "int option"
  LX_Nonce :: u64
  LX_GasTipCap :: "int option"
  LX_GasFeeCap :: "int option"
  LX_Gas :: u64
  LX_To :: "address option"
  LX_Value :: "int option"
  LX_Data :: bytes
  LX_ScopeHint :: bytes

record multi_dim_tx =
  MD_ChainID :: "int option"
  MD_Nonce :: u64
  MD_GasLimit :: u64
  MD_To :: "address option"
  MD_Value :: "int option"
  MD_Data :: bytes
  MD_AccessList :: "access_tuple list"
  MD_MaxFeesPerGas :: "int option list"
  MD_PriorityFeesPerGas :: "int option list"
  MD_V :: "int option"
  MD_R :: "int option"
  MD_S :: "int option"

datatype tx_data =
    LegacyTx legacy_tx
  | AccessListTx access_list_tx
  | DynamicFeeTx dynamic_fee_tx
  | BlobTx blob_tx
  | SetCodeTx set_code_tx
  | AATx aa_tx
  | FrameTx frame_tx
  | PQTransaction pq_tx
  | LocalTx local_tx
  | MultiDimFeeTx multi_dim_tx

record blob_sidecar =
  Blobs :: "bytes list"
  Commitments :: "bytes list"
  Proofs :: "bytes list"

record transaction =
  inner :: tx_data
  tx_from :: "address option"
  sidecar :: "blob_sidecar option"

definition NewTransaction :: "tx_data \<Rightarrow> transaction" where
  "NewTransaction d = \<lparr>inner = d, tx_from = None, sidecar = None\<rparr>"

definition SetSender :: "address \<Rightarrow> transaction \<Rightarrow> transaction" where
  "SetSender a tx = tx\<lparr>tx_from := Some a\<rparr>"

abbreviation (input) FrameTxIntrinsicCost :: u64 where "FrameTxIntrinsicCost \<equiv> 15000"
abbreviation (input) AABaseCost :: u64 where "AABaseCost \<equiv> 15000"

section \<open>RLP layouts\<close>

definition addressPtrToBytes :: "address option \<Rightarrow> bytes" where
  "addressPtrToBytes a = (case a of None \<Rightarrow> [] | Some a \<Rightarrow> address_bytes a)"

definition bytesToAddressPtr :: "bytes \<Rightarrow> address option" where
  "bytesToAddressPtr b = (if length b = 0 then None else Some (BytesToAddress b))"

definition bigOrZero :: "int option \<Rightarrow> int" where
  "bigOrZero i = (case i of None \<Rightarrow> 0 | Some i \<Rightarrow> i)"

text \<open>An exported field, and the values of pointers to \<open>big.Int\<close>.\<close>

abbreviation fld :: "'a \<Rightarrow> bool \<times> 'a" where
  "fld x \<equiv> (True, x)"

definition big_val :: "int option \<Rightarrow> goval" where
  "big_val i = VPtr (Some (VBig (bigOrZero i)))"

definition nil_big_val :: "int option \<Rightarrow> goval" where
  "nil_big_val i = VPtr (map_option VBig i)"

definition hashes_val :: "hash list \<Rightarrow> goval" where
  "hashes_val hs = VSlice (map (\<lambda>h. VByteArray (hash_bytes h)) hs)"

definition access_list_val :: "access_tuple list \<Rightarrow> goval" where
  "access_list_val al =
     VSlice (map (\<lambda>t. VStruct [fld (VByteArray (address_bytes (AT_Address t))), fld (hashes_val (AT_StorageKeys t))]) al)"

definition access_list_type :: gotype where
  "access_list_type = TSlice (TStruct [fld (TByteArray 20), fld (TSlice (TByteArray 32))])"

definition auth_list_val :: "authorization list \<Rightarrow> goval" where
  "auth_list_val auths =
     VSlice (map (\<lambda>a. VStruct [fld (big_val (AU_ChainID a)), fld (VByteArray (address_bytes (AU_Address a))),
       fld (VUint (AU_Nonce a)), fld (big_val (AU_V a)), fld (big_val (AU_R a)), fld (big_val (AU_S a))]) auths)"

definition auth_list_type :: gotype where
  "auth_list_type =
     TSlice (TStruct [fld (TPtr TBig), fld (TByteArray 20), fld (TUint 64), fld (TPtr TBig), fld (TPtr TBig), fld (TPtr TBig)])"

definition frame_val :: "tx_frame_def \<Rightarrow> bytes \<Rightarrow> goval" where
  "frame_val f data =
     VStruct [fld (VUint (ucast (FD_Mode f))), fld (VBytes (addressPtrToBytes (FD_Target f))),
       fld (VUint (FD_GasLimit f)), fld (VBytes data)]"

definition frames_val :: "tx_frame_def list \<Rightarrow> goval" where
  "frames_val fs = VSlice (map (\<lambda>f. frame_val f (FD_Data f)) fs)"

definition frames_type :: gotype where
  "frames_type = TSlice (TStruct [fld (TUint 8), fld TBytes, fld (TUint 64), fld TBytes])"

text \<open>Reading the fields of a decoded struct.\<close>

definition field :: "goval \<Rightarrow> nat \<Rightarrow> goval" where
  "field v i = snd (as_fields v ! i)"

fun as_uint :: "goval \<Rightarrow> u64" where
  "as_uint (VUint u) = u"
| "as_uint _ = 0"

fun as_big :: "goval \<Rightarrow> int option" where
  "as_big (VPtr (Some (VBig i))) = Some i"
| "as_big _ = None"

definition hashes_of :: "goval \<Rightarrow> hash list" where
  "hashes_of v = map (\<lambda>h. BytesToHash (as_bytes h)) (as_list v)"

definition access_list_of :: "goval \<Rightarrow> access_tuple list" where
  "access_list_of v =
     map (\<lambda>t. \<lparr>AT_Address = BytesToAddress (as_bytes (field t 0)), AT_StorageKeys = hashes_of (field t 1)\<rparr>) (as_list v)"

definition auth_list_of :: "goval \<Rightarrow> authorization list" where
  "auth_list_of v =
     map (\<lambda>a. \<lparr>AU_ChainID = as_big (field a 0), AU_Address = BytesToAddress (as_bytes (field a 1)),
       AU_Nonce = as_uint (field a 2), AU_V = as_big (field a 3), AU_R = as_big (field a 4), AU_S = as_big (field a 5)\<rparr>)
       (as_list v)"

definition frames_of :: "goval \<Rightarrow> tx_frame_def list" where
  "frames_of v =
     map (\<lambda>f. \<lparr>FD_Mode = ucast (as_uint (field f 0)), FD_Target = bytesToAddressPtr (as_bytes (field f 1)),
       FD_GasLimit = as_uint (field f 2), FD_Data = as_bytes (field f 3)\<rparr>) (as_list v)"

text \<open>One layout per kind: the struct that is encoded, its type, and the data read back from it.\<close>

definition legacy_tx_val :: "legacy_tx \<Rightarrow> goval" where
  "legacy_tx_val tx =
     VStruct [fld (VUint (L_Nonce tx)), fld (big_val (L_GasPrice tx)), fld (VUint (L_Gas tx)),
              fld (VBytes (addressPtrToBytes (L_To tx))), fld (big_val (L_Value tx)), fld (VBytes (L_Data tx)),
              fld (big_val (L_V tx)), fld (big_val (L_R tx)), fld (big_val (L_S tx))]"

definition legacy_tx_type :: gotype where
  "legacy_tx_type =
     TStruct [fld (TUint 64), fld (TPtr TBig), fld (TUint 64), fld (TBytes), fld (TPtr TBig), fld (TBytes),
              fld (TPtr TBig), fld (TPtr TBig), fld (TPtr TBig)]"

definition legacy_tx_of :: "goval \<Rightarrow> legacy_tx" where
  "legacy_tx_of v =
     (let f = field v in
      \<lparr>L_Nonce = as_uint (f 0), L_GasPrice = as_big (f 1), L_Gas = as_uint (f 2),
       L_To = bytesToAddressPtr (as_bytes (f 3)), L_Value = as_big (f 4), L_Data = as_bytes (f 5),
       L_V = as_big (f 6), L_R = as_big (f 7), L_S = as_big (f 8)\<rparr>)"

definition access_list_tx_val :: "access_list_tx \<Rightarrow> goval" where
  "access_list_tx_val tx =
     VStruct [fld (big_val (A_ChainID tx)), fld (VUint (A_Nonce tx)), fld (big_val (A_GasPrice tx)),
              fld (VUint (A_Gas tx)), fld (VBytes (addressPtrToBytes (A_To tx))), fld (big_val (A_Value tx)),
              fld (VBytes (A_Data tx)), fld (access_list_val (A_AccessList tx)), fld (big_val (A_V tx)),
              fld (big_val (A_R tx)), fld (big_val (A_S tx))]"

definition access_list_tx_type :: gotype where
  "access_list_tx_type =
     TStruct [fld (TPtr TBig), fld (TUint 64), fld (TPtr TBig), fld (TUint 64), fld (TBytes), fld (TPtr TBig),
              fld (TBytes), fld (access_list_type), fld (TPtr TBig), fld (TPtr TBig), fld (TPtr TBig)]"

definition access_list_tx_of :: "goval \<Rightarrow> access_list_tx" where
  "access_list_tx_of v =
     (let f = field v in
      \<lparr>A_ChainID = as_big (f 0), A_Nonce = as_uint (f 1), A_GasPrice = as_big (f 2), A_Gas = as_uint (f 3),
       A_To = bytesToAddressPtr (as_bytes (f 4)), A_Value = as_big (f 5), A_Data = as_bytes (f 6),
       A_AccessList = access_list_of (f 7), A_V = as_big (f 8), A_R = as_big (f 9), A_S = as_big (f 10)\<rparr>)"

definition dynamic_fee_tx_val :: "dynamic_fee_tx \<Rightarrow> goval" where
  "dynamic_fee_tx_val tx =
     VStruct [fld (big_val (D_ChainID tx)), fld (VUint (D_Nonce tx)), fld (big_val (D_GasTipCap tx)),
              fld (big_val (D_GasFeeCap tx)), fld (VUint (D_Gas tx)), fld (VBytes (addressPtrToBytes (D_To tx))),
              fld (big_val (D_Value tx)), fld (VBytes (D_Data tx)), fld (access_list_val (D_AccessList tx)),
              fld (big_val (D_V tx)), fld (big_val (D_R tx)), fld (big_val (D_S tx))]"

definition dynamic_fee_tx_type :: gotype where
  "dynamic_fee_tx_type =
     TStruct [fld (TPtr TBig), fld (TUint 64), fld (TPtr TBig), fld (TPtr TBig), fld (TUint 64), fld (TBytes),
              fld (TPtr TBig), fld (TBytes), fld (access_list_type), fld (TPtr TBig), fld (TPtr TBig),
              fld (TPtr TBig)]"

definition dynamic_fee_tx_of :: "goval \<Rightarrow> dynamic_fee_tx" where
  "dynamic_fee_tx_of v =
     (let f = field v in
      \<lparr>D_ChainID = as_big (f 0), D_Nonce = as_uint (f 1), D_GasTipCap = as_big (f 2), D_GasFeeCap = as_big (f 3),
       D_Gas = as_uint (f 4), D_To = bytesToAddressPtr (as_bytes (f 5)), D_Value = as_big (f 6),
       D_Data = as_bytes (f 7), D_AccessList = access_list_of (f 8), D_V = as_big (f 9), D_R = as_big (f 10),
       D_S = as_big (f 11)\<rparr>)"

definition blob_tx_val :: "blob_tx \<Rightarrow> goval" where
  "blob_tx_val tx =
     VStruct [fld (big_val (B_ChainID tx)), fld (VUint (B_Nonce tx)), fld (big_val (B_GasTipCap tx)),
              fld (big_val (B_GasFeeCap tx)), fld (VUint (B_Gas tx)), fld (VByteArray (address_bytes (B_To tx))),
              fld (big_val (B_Value tx)), fld (VBytes (B_Data tx)), fld (access_list_val (B_AccessList tx)),
              fld (big_val (B_BlobFeeCap tx)), fld (hashes_val (B_BlobHashes tx)), fld (big_val (B_V tx)),
              fld (big_val (B_R tx)), fld (big_val (B_S tx))]"

definition blob_tx_type :: gotype where
  "blob_tx_type =
     TStruct [fld (TPtr TBig), fld (TUint 64), fld (TPtr TBig), fld (TPtr TBig), fld (TUint 64),
              fld (TByteArray 20), fld (TPtr TBig), fld (TBytes), fld (access_list_type), fld (TPtr TBig),
              fld (TSlice (TByteArray 32)), fld (TPtr TBig), fld (TPtr TBig), fld (TPtr TBig)]"

definition blob_tx_of :: "goval \<Rightarrow> blob_tx" where
  "blob_tx_of v =
     (let f = field v in
      \<lparr>B_ChainID = as_big (f 0), B_Nonce = as_uint (f 1), B_GasTipCap = as_big (f 2), B_GasFeeCap = as_big (f 3),
       B_Gas = as_uint (f 4), B_To = BytesToAddress (as_bytes (f 5)), B_Value = as_big (f 6),
       B_Data = as_bytes (f 7), B_AccessList = access_list_of (f 8), B_BlobFeeCap = as_big (f 9),
       B_BlobHashes = hashes_of (f 10), B_V = as_big (f 11), B_R = as_big (f 12), B_S = as_big (f 13)\<rparr>)"

definition set_code_tx_val :: "set_code_tx \<Rightarrow> goval" where
  "set_code_tx_val tx =
     VStruct [fld (big_val (S_ChainID tx)), fld (VUint (S_Nonce tx)), fld (big_val (S_GasTipCap tx)),
              fld (big_val (S_GasFeeCap tx)), fld (VUint (S_Gas tx)), fld (VByteArray (address_bytes (S_To tx))),
              fld (big_val (S_Value tx)), fld (VBytes (S_Data tx)), fld (access_list_val (S_AccessList tx)),
              fld (auth_list_val (S_AuthorizationList tx)), fld (big_val (S_V tx)), fld (big_val (S_R tx)),
              fld (big_val (S_S tx))]"

definition set_code_tx_type :: gotype where
  "set_code_tx_type =
     TStruct [fld (TPtr TBig), fld (TUint 64), fld (TPtr TBig), fld (TPtr TBig), fld (TUint 64),
              fld (TByteArray 20), fld (TPtr TBig), fld (TBytes), fld (access_list_type), fld (auth_list_type),
              fld (TPtr TBig), fld (TPtr TBig), fld (TPtr TBig)]"

definition set_code_tx_of :: "goval \<Rightarrow> set_code_tx" where
  "set_code_tx_of v =
     (let f = field v in
      \<lparr>S_ChainID = as_big (f 0), S_Nonce = as_uint (f 1), S_GasTipCap = as_big (f 2), S_GasFeeCap = as_big (f 3),
       S_Gas = as_uint (f 4), S_To = BytesToAddress (as_bytes (f 5)), S_Value = as_big (f 6),
       S_Data = as_bytes (f 7), S_AccessList = access_list_of (f 8), S_AuthorizationList = auth_list_of (f 9),
       S_V = as_big (f 10), S_R = as_big (f 11), S_S = as_big (f 12)\<rparr>)"

definition aa_tx_val :: "aa_tx \<Rightarrow> goval" where
  "aa_tx_val tx =
     VStruct [fld (big_val (AA_ChainID tx)), fld (VUint (AA_Nonce tx)),
              fld (VByteArray (address_bytes (AA_Sender tx))), fld (VBytes (AA_SenderValidationData tx)),
              fld (VBytes (addressPtrToBytes (AA_Deployer tx))), fld (VBytes (AA_DeployerData tx)),
              fld (VBytes (addressPtrToBytes (AA_Paymaster tx))), fld (VBytes (AA_PaymasterData tx)),
              fld (VBytes (AA_SenderExecutionData tx)), fld (big_val (AA_MaxPriorityFeePerGas tx)),
              fld (big_val (AA_MaxFeePerGas tx)), fld (VUint (AA_SenderValidationGas tx)),
              fld (VUint (AA_PaymasterValidationGas tx)), fld (VUint (AA_SenderExecutionGas tx)),
              fld (VUint (AA_PaymasterPostOpGas tx)), fld (access_list_val (AA_AccessList tx)),
              fld (auth_list_val (AA_AuthorizationList tx))]"

definition aa_tx_type :: gotype where
  "aa_tx_type =
     TStruct [fld (TPtr TBig), fld (TUint 64), fld (TByteArray 20), fld (TBytes), fld (TBytes), fld (TBytes),
              fld (TBytes), fld (TBytes), fld (TBytes), fld (TPtr TBig), fld (TPtr TBig), fld (TUint 64),
              fld (TUint 64), fld (TUint 64), fld (TUint 64), fld (access_list_type), fld (auth_list_type)]"

definition aa_tx_of :: "goval \<Rightarrow> aa_tx" where
  "aa_tx_of v =
     (let f = field v in
      \<lparr>AA_ChainID = as_big (f 0), AA_Nonce = as_uint (f 1), AA_Sender = BytesToAddress (as_bytes (f 2)),
       AA_SenderValidationData = as_bytes (f 3), AA_Deployer = bytesToAddressPtr (as_bytes (f 4)),
       AA_DeployerData = as_bytes (f 5), AA_Paymaster = bytesToAddressPtr (as_bytes (f 6)),
       AA_PaymasterData = as_bytes (f 7), AA_SenderExecutionData = as_bytes (f 8),
       AA_MaxPriorityFeePerGas = as_big (f 9), AA_MaxFeePerGas = as_big (f 10),
       AA_SenderValidationGas = as_uint (f 11), AA_PaymasterValidationGas = as_uint (f 12),
       AA_SenderExecutionGas = as_uint (f 13), AA_PaymasterPostOpGas = as_uint (f 14),
       AA_AccessList = access_list_of (f 15), AA_AuthorizationList = auth_list_of (f 16)\<rparr>)"

definition frame_tx_val :: "frame_tx \<Rightarrow> goval" where
  "frame_tx_val tx =
     VStruct [fld (big_val (F_ChainID tx)), fld (big_val (F_Nonce tx)),
              fld (VByteArray (address_bytes (F_Sender tx))), fld (frames_val (F_Frames tx)),
              fld (big_val (F_MaxPriorityFeePerGas tx)), fld (big_val (F_MaxFeePerGas tx)),
              fld (big_val (F_MaxFeePerBlobGas tx)), fld (hashes_val (F_BlobVersionedHashes tx))]"

definition frame_tx_type :: gotype where
  "frame_tx_type =
     TStruct [fld (TPtr TBig), fld (TPtr TBig), fld (TByteArray 20), fld (frames_type), fld (TPtr TBig),
              fld (TPtr TBig), fld (TPtr TBig), fld (TSlice (TByteArray 32))]"

definition frame_tx_of :: "goval \<Rightarrow> frame_tx" where
  "frame_tx_of v =
     (let f = field v in
      \<lparr>F_ChainID = as_big (f 0), F_Nonce = as_big (f 1), F_Sender = BytesToAddress (as_bytes (f 2)),
       F_Frames = frames_of (f 3), F_MaxPriorityFeePerGas = as_big (f 4), F_MaxFeePerGas = as_big (f 5),
       F_MaxFeePerBlobGas = as_big (f 6), F_BlobVersionedHashes = hashes_of (f 7)\<rparr>)"

definition pq_tx_val :: "pq_tx \<Rightarrow> goval" where
  "pq_tx_val tx =
     VStruct [fld (big_val (PQ_ChainID tx)), fld (VUint (PQ_Nonce tx)),
              fld (VBytes (addressPtrToBytes (PQ_To tx))), fld (big_val (PQ_Value tx)), fld (VUint (PQ_Gas tx)),
              fld (big_val (PQ_GasPrice tx)), fld (VBytes (PQ_Data tx)),
              fld (VUint (ucast (PQ_PQSignatureType tx))), fld (VBytes (PQ_PQSignature tx)),
              fld (VBytes (PQ_PQPublicKey tx)), fld (VBytes (PQ_ClassicSignature tx))]"

definition pq_tx_type :: gotype where
  "pq_tx_type =
     TStruct [fld (TPtr TBig), fld (TUint 64), fld (TBytes), fld (TPtr TBig), fld (TUint 64), fld (TPtr TBig),
              fld (TBytes), fld (TUint 8), fld (TBytes), fld (TBytes), fld (TBytes)]"

definition pq_tx_of :: "goval \<Rightarrow> pq_tx" where
  "pq_tx_of v =
     (let f = field v in
      \<lparr>PQ_ChainID = as_big (f 0), PQ_Nonce = as_uint (f 1), PQ_To = bytesToAddressPtr (as_bytes (f 2)),
       PQ_Value = as_big (f 3), PQ_Gas = as_uint (f 4), PQ_GasPrice = as_big (f 5), PQ_Data = as_bytes (f 6),
       PQ_PQSignatureType = ucast (as_uint (f 7)), PQ_PQSignature = as_bytes (f 8),
       PQ_PQPublicKey = as_bytes (f 9), PQ_ClassicSignature = as_bytes (f 10)\<rparr>)"

definition local_tx_val :: "local_tx \<Rightarrow> goval" where
  "local_tx_val tx =
     VStruct [fld (big_val (LX_ChainID tx)), fld (VUint (LX_Nonce tx)), fld (big_val (LX_GasTipCap tx)),
              fld (big_val (LX_GasFeeCap tx)), fld (VUint (LX_Gas tx)),
              fld (VBytes (addressPtrToBytes (LX_To tx))), fld (big_val (LX_Value tx)), fld (VBytes (LX_Data tx)),
              fld (VBytes (LX_ScopeHint tx))]"

definition local_tx_type :: gotype where
  "local_tx_type =
     TStruct [fld (TPtr TBig), fld (TUint 64), fld (TPtr TBig), fld (TPtr TBig), fld (TUint 64), fld (TBytes),
              fld (TPtr TBig), fld (TBytes), fld (TBytes)]"

definition local_tx_of :: "goval \<Rightarrow> local_tx" where
  "local_tx_of v =
     (let f = field v in
      \<lparr>LX_ChainID = as_big (f 0), LX_Nonce = as_uint (f 1), LX_GasTipCap = as_big (f 2),
       LX_GasFeeCap = as_big (f 3), LX_Gas = as_uint (f 4), LX_To = bytesToAddressPtr (as_bytes (f 5)),
       LX_Value = as_big (f 6), LX_Data = as_bytes (f 7), LX_ScopeHint = as_bytes (f 8)\<rparr>)"

definition multi_dim_tx_val :: "multi_dim_tx \<Rightarrow> goval" where
  "multi_dim_tx_val tx =
     VStruct [fld (nil_big_val (MD_ChainID tx)), fld (VUint (MD_Nonce tx)), fld (VUint (MD_GasLimit tx)),
              fld (VBytes (addressPtrToBytes (MD_To tx))), fld (nil_big_val (MD_Value tx)),
              fld (VBytes (MD_Data tx)), fld (access_list_val (MD_AccessList tx)),
              fld (VSlice (map nil_big_val (MD_MaxFeesPerGas tx))),
              fld (VSlice (map nil_big_val (MD_PriorityFeesPerGas tx))), fld (nil_big_val (MD_V tx)),
              fld (nil_big_val (MD_R tx)), fld (nil_big_val (MD_S tx))]"

definition multi_dim_tx_type :: gotype where
  "multi_dim_tx_type =
     TStruct [fld (TPtr TBig), fld (TUint 64), fld (TUint 64), fld (TBytes), fld (TPtr TBig), fld (TBytes),
              fld (access_list_type), fld (TSlice (TPtr TBig)), fld (TSlice (TPtr TBig)), fld (TPtr TBig),
              fld (TPtr TBig), fld (TPtr TBig)]"

definition multi_dim_tx_of :: "goval \<Rightarrow> multi_dim_tx" where
  "multi_dim_tx_of v =
     (let f = field v in
      \<lparr>MD_ChainID = as_big (f 0), MD_Nonce = as_uint (f 1), MD_GasLimit = as_uint (f 2),
       MD_To = bytesToAddressPtr (as_bytes (f 3)), MD_Value = as_big (f 4), MD_Data = as_bytes (f 5),
       MD_AccessList = access_list_of (f 6), MD_MaxFeesPerGas = map as_big (as_list (f 7)),
       MD_PriorityFeesPerGas = map as_big (as_list (f 8)), MD_V = as_big (f 9), MD_R = as_big (f 10),
       MD_S = as_big (f 11)\<rparr>)"

text \<open>The gas of a frame transaction covers the encoding of its frames.  An empty list is a nil slice.\<close>

definition ok_or :: "'a \<Rightarrow> ('e, 'a) outcome \<Rightarrow> 'a" where
  "ok_or d r = (case r of Ok x \<Rightarrow> x | _ \<Rightarrow> d)"

definition CalcFrameTxGas :: "frame_tx \<Rightarrow> u64" where
  "CalcFrameTxGas tx =
     (let gas = FrameTxIntrinsicCost;
          gas = (if F_Frames tx = [] then gas
                 else gas + ok_or 0 (map_ok CalldataTokenGas (EncodeToBytes (frames_val (F_Frames tx))))) in
      fold (\<lambda>f gas. gas + FD_GasLimit f) (F_Frames tx) gas)"

definition NonceSeq :: "frame_tx \<Rightarrow> u64" where
  "NonceSeq tx = (case F_Nonce tx of None \<Rightarrow> 0 | Some n \<Rightarrow> of_int n)"

definition totalGas :: "aa_tx \<Rightarrow> u64" where
  "totalGas tx = AABaseCost + AA_SenderValidationGas tx + AA_PaymasterValidationGas tx + AA_SenderExecutionGas tx +
     AA_PaymasterPostOpGas tx"

section \<open>Accessors\<close>

fun txType :: "tx_data \<Rightarrow> byte" where
  "txType (LegacyTx tx) = 0x00"
| "txType (AccessListTx tx) = 0x01"
| "txType (DynamicFeeTx tx) = 0x02"
| "txType (BlobTx tx) = 0x03"
| "txType (SetCodeTx tx) = 0x04"
| "txType (AATx tx) = 0x05"
| "txType (FrameTx tx) = 0x06"
| "txType (PQTransaction tx) = 0x07"
| "txType (LocalTx tx) = 0x08"
| "txType (MultiDimFeeTx tx) = 0x09"

fun tx_accessList :: "tx_data \<Rightarrow> access_tuple list" where
  "tx_accessList (LegacyTx tx) = []"
| "tx_accessList (AccessListTx tx) = A_AccessList tx"
| "tx_accessList (DynamicFeeTx tx) = D_AccessList tx"
| "tx_accessList (BlobTx tx) = B_AccessList tx"
| "tx_accessList (SetCodeTx tx) = S_AccessList tx"
| "tx_accessList (AATx tx) = AA_AccessList tx"
| "tx_accessList (FrameTx tx) = []"
| "tx_accessList (PQTransaction tx) = []"
| "tx_accessList (LocalTx tx) = []"
| "tx_accessList (MultiDimFeeTx tx) = MD_AccessList tx"

fun tx_data_bytes :: "tx_data \<Rightarrow> bytes" where
  "tx_data_bytes (LegacyTx tx) = L_Data tx"
| "tx_data_bytes (AccessListTx tx) = A_Data tx"
| "tx_data_bytes (DynamicFeeTx tx) = D_Data tx"
| "tx_data_bytes (BlobTx tx) = B_Data tx"
| "tx_data_bytes (SetCodeTx tx) = S_Data tx"
| "tx_data_bytes (AATx tx) = AA_SenderExecutionData tx"
| "tx_data_bytes (FrameTx tx) = []"
| "tx_data_bytes (PQTransaction tx) = PQ_Data tx"
| "tx_data_bytes (LocalTx tx) = LX_Data tx"
| "tx_data_bytes (MultiDimFeeTx tx) = MD_Data tx"

fun tx_gas :: "tx_data \<Rightarrow> u64" where
  "tx_gas (LegacyTx tx) = L_Gas tx"
| "tx_gas (AccessListTx tx) = A_Gas tx"
| "tx_gas (DynamicFeeTx tx) = D_Gas tx"
| "tx_gas (BlobTx tx) = B_Gas tx"
| "tx_gas (SetCodeTx tx) = S_Gas tx"
| "tx_gas (AATx tx) = totalGas tx"
| "tx_gas (FrameTx tx) = CalcFrameTxGas tx"
| "tx_gas (PQTransaction tx) = PQ_Gas tx"
| "tx_gas (LocalTx tx) = LX_Gas tx"
| "tx_gas (MultiDimFeeTx tx) = MD_GasLimit tx"

fun tx_gasPrice :: "tx_data \<Rightarrow> int option" where
  "tx_gasPrice (LegacyTx tx) = L_GasPrice tx"
| "tx_gasPrice (AccessListTx tx) = A_GasPrice tx"
| "tx_gasPrice (DynamicFeeTx tx) = D_GasFeeCap tx"
| "tx_gasPrice (BlobTx tx) = B_GasFeeCap tx"
| "tx_gasPrice (SetCodeTx tx) = S_GasFeeCap tx"
| "tx_gasPrice (AATx tx) = AA_MaxFeePerGas tx"
| "tx_gasPrice (FrameTx tx) = F_MaxFeePerGas tx"
| "tx_gasPrice (PQTransaction tx) = PQ_GasPrice tx"
| "tx_gasPrice (LocalTx tx) = LX_GasFeeCap tx"
| "tx_gasPrice (MultiDimFeeTx tx) = Some (bigOrZero (MD_MaxFeesPerGas tx ! 0))"

fun tx_gasTipCap :: "tx_data \<Rightarrow> int option" where
  "tx_gasTipCap (LegacyTx tx) = L_GasPrice tx"
| "tx_gasTipCap (AccessListTx tx) = A_GasPrice tx"
| "tx_gasTipCap (DynamicFeeTx tx) = D_GasTipCap tx"
| "tx_gasTipCap (BlobTx tx) = B_GasTipCap tx"
| "tx_gasTipCap (SetCodeTx tx) = S_GasTipCap tx"
| "tx_gasTipCap (AATx tx) = AA_MaxPriorityFeePerGas tx"
| "tx_gasTipCap (FrameTx tx) = F_MaxPriorityFeePerGas tx"
| "tx_gasTipCap (PQTransaction tx) = PQ_GasPrice tx"
| "tx_gasTipCap (LocalTx tx) = LX_GasTipCap tx"
| "tx_gasTipCap (MultiDimFeeTx tx) = Some (bigOrZero (MD_PriorityFeesPerGas tx ! 0))"

fun tx_gasFeeCap :: "tx_data \<Rightarrow> int option" where
  "tx_gasFeeCap (LegacyTx tx) = L_GasPrice tx"
| "tx_gasFeeCap (AccessListTx tx) = A_GasPrice tx"
| "tx_gasFeeCap (DynamicFeeTx tx) = D_GasFeeCap tx"
| "tx_gasFeeCap (BlobTx tx) = B_GasFeeCap tx"
| "tx_gasFeeCap (SetCodeTx tx) = S_GasFeeCap tx"
| "tx_gasFeeCap (AATx tx) = AA_MaxFeePerGas tx"
| "tx_gasFeeCap (FrameTx tx) = F_MaxFeePerGas tx"
| "tx_gasFeeCap (PQTransaction tx) = PQ_GasPrice tx"
| "tx_gasFeeCap (LocalTx tx) = LX_GasFeeCap tx"
| "tx_gasFeeCap (MultiDimFeeTx tx) = Some (bigOrZero (MD_MaxFeesPerGas tx ! 0))"

fun tx_value :: "tx_data \<Rightarrow> int option" where
  "tx_value (LegacyTx tx) = L_Value tx"
| "tx_value (AccessListTx tx) = A_Value tx"
| "tx_value (DynamicFeeTx tx) = D_Value tx"
| "tx_value (BlobTx tx) = B_Value tx"
| "tx_value (SetCodeTx tx) = S_Value tx"
| "tx_value (AATx tx) = Some 0"
| "tx_value (FrameTx tx) = Some 0"
| "tx_value (PQTransaction tx) = PQ_Value tx"
| "tx_value (LocalTx tx) = LX_Value tx"
| "tx_value (MultiDimFeeTx tx) = MD_Value tx"

fun tx_nonce :: "tx_data \<Rightarrow> u64" where
  "tx_nonce (LegacyTx tx) = L_Nonce tx"
| "tx_nonce (AccessListTx tx) = A_Nonce tx"
| "tx_nonce (DynamicFeeTx tx) = D_Nonce tx"
| "tx_nonce (BlobTx tx) = B_Nonce tx"
| "tx_nonce (SetCodeTx tx) = S_Nonce tx"
| "tx_nonce (AATx tx) = AA_Nonce tx"
| "tx_nonce (FrameTx tx) = NonceSeq tx"
| "tx_nonce (PQTransaction tx) = PQ_Nonce tx"
| "tx_nonce (LocalTx tx) = LX_Nonce tx"
| "tx_nonce (MultiDimFeeTx tx) = MD_Nonce tx"

fun tx_to :: "tx_data \<Rightarrow> address option" where
  "tx_to (LegacyTx tx) = L_To tx"
| "tx_to (AccessListTx tx) = A_To tx"
| "tx_to (DynamicFeeTx tx) = D_To tx"
| "tx_to (BlobTx tx) = Some (B_To tx)"
| "tx_to (SetCodeTx tx) = Some (S_To tx)"
| "tx_to (AATx tx) = Some (AA_Sender tx)"
| "tx_to (FrameTx tx) = None"
| "tx_to (PQTransaction tx) = PQ_To tx"
| "tx_to (LocalTx tx) = LX_To tx"
| "tx_to (MultiDimFeeTx tx) = MD_To tx"

definition BlobHashes_of :: "tx_data \<Rightarrow> hash list" where
  "BlobHashes_of d = (case d of BlobTx tx \<Rightarrow> B_BlobHashes tx | _ \<Rightarrow> [])"

definition BlobGasFeeCap :: "tx_data \<Rightarrow> int option" where
  "BlobGasFeeCap d = (case d of BlobTx tx \<Rightarrow> B_BlobFeeCap tx | _ \<Rightarrow> None)"

definition BlobGas :: "tx_data \<Rightarrow> u64" where
  "BlobGas d = (case d of BlobTx tx \<Rightarrow> u64_len (B_BlobHashes tx) * 131072 | _ \<Rightarrow> 0)"

definition AuthorizationList :: "tx_data \<Rightarrow> authorization list" where
  "AuthorizationList d = (case d of SetCodeTx tx \<Rightarrow> S_AuthorizationList tx | _ \<Rightarrow> [])"

definition tx_Frames :: "tx_data \<Rightarrow> tx_frame_def list" where
  "tx_Frames d = (case d of FrameTx tx \<Rightarrow> F_Frames tx | _ \<Rightarrow> [])"

definition FrameSender :: "tx_data \<Rightarrow> address" where
  "FrameSender d = (case d of FrameTx tx \<Rightarrow> F_Sender tx | _ \<Rightarrow> 0)"

definition GasWithDiscount :: "u64 \<Rightarrow> local_tx \<Rightarrow> u64" where
  "GasWithDiscount discountBPS tx =
     (if discountBPS = 0 then LX_Gas tx
      else if discountBPS \<ge> 10000 then 0
      else LX_Gas tx * (10000 - discountBPS) div 10000)"

definition ApplyLocalTxDiscount :: "tx_data \<Rightarrow> u64" where
  "ApplyLocalTxDiscount d = (case d of LocalTx tx \<Rightarrow> GasWithDiscount 5000 tx | _ \<Rightarrow> tx_gas d)"

end
