(* ===== verification/Tx_Codec.thy ===== *)
theory Tx_Codec
  imports Tx_Types
begin

text \<open>
  The envelope encoding of transactions (\<^verbatim>\<open>src/pkg/core/types/transaction_rlp.go\<close> and the encoders of the
  other kinds) and the proof that decoding undoes it.
\<close>

section \<open>Encoding\<close>

definition typed_rlp :: "byte \<Rightarrow> goval \<Rightarrow> (rlp_error, bytes) outcome" where
  "typed_rlp ty v = map_ok (\<lambda>payload. ty # payload) (EncodeToBytes v)"

definition EncodeRLP :: "tx_data \<Rightarrow> (rlp_error, bytes) outcome" where
  "EncodeRLP d =
     (case d of
        LegacyTx tx \<Rightarrow> EncodeToBytes (legacy_tx_val tx)
      | AccessListTx tx \<Rightarrow> typed_rlp 0x01 (access_list_tx_val tx)
      | DynamicFeeTx tx \<Rightarrow> typed_rlp 0x02 (dynamic_fee_tx_val tx)
      | BlobTx tx \<Rightarrow> typed_rlp 0x03 (blob_tx_val tx)
      | SetCodeTx tx \<Rightarrow> typed_rlp 0x04 (set_code_tx_val tx)
      | AATx tx \<Rightarrow> typed_rlp 0x05 (aa_tx_val tx)
      | FrameTx tx \<Rightarrow> typed_rlp 0x06 (frame_tx_val tx)
      | PQTransaction tx \<Rightarrow> typed_rlp 0x07 (pq_tx_val tx)
      | LocalTx tx \<Rightarrow> typed_rlp 0x08 (local_tx_val tx)
      | MultiDimFeeTx tx \<Rightarrow> typed_rlp 0x09 (multi_dim_tx_val tx))"

text \<open>\<open>copy(h[:], sum)\<close>\<close>

definition copy_hash :: "bytes \<Rightarrow> hash" where
  "copy_hash b = BytesToHash (take 32 (b @ replicate 32 0))"

definition hashRLP :: "(bytes \<Rightarrow> bytes) \<Rightarrow> tx_data \<Rightarrow> hash" where
  "hashRLP kec d = (case EncodeRLP d of Ok enc \<Rightarrow> copy_hash (kec enc) | _ \<Rightarrow> 0)"

text \<open>The data of \<open>VERIFY\<close> frames is not signed.\<close>

definition elide_verify :: "tx_frame_def \<Rightarrow> tx_frame_def" where
  "elide_verify f = (if FD_Mode f = 1 then f\<lparr>FD_Data := []\<rparr> else f)"

definition ComputeFrameSigHash :: "(bytes \<Rightarrow> bytes) \<Rightarrow> frame_tx \<Rightarrow> hash" where
  "ComputeFrameSigHash kec tx =
     (case typed_rlp 0x06 (frame_tx_val (tx\<lparr>F_Frames := map elide_verify (F_Frames tx)\<rparr>)) of
        Ok enc \<Rightarrow> copy_hash (kec enc)
      | _ \<Rightarrow> 0)"

section \<open>Decoding\<close>

datatype tx_codec_error =
    ErrEmptyTxData | ErrShortTypedTx | ErrUnsupportedTxType byte | ErrFirstByte byte | ErrFeeVectors
  | ErrTxRlp rlp_error

type_synonym 'a tx_decoded = "(tx_codec_error, 'a) outcome option"

text \<open>\<open>rlp.DecodeBytes\<close> into a zero value; each list loop runs at most once per byte.\<close>

definition rlp_decode :: "gotype \<Rightarrow> (goval \<Rightarrow> 'a) \<Rightarrow> bytes \<Rightarrow> 'a tx_decoded" where
  "rlp_decode t f b =
     (case DecodeBytes (length b + 1) b t (zero_val t) of
        None \<Rightarrow> None
      | Some (Ok (v, s)) \<Rightarrow> Some (Ok (f v))
      | Some (Err e) \<Rightarrow> Some (Err (ErrTxRlp e))
      | Some Panic \<Rightarrow> Some Panic)"

text \<open>A blob transaction, alone or in one of the two network forms with its blobs.\<close>

definition blob_v0_type :: gotype where
  "blob_v0_type = TStruct [fld blob_tx_type, fld (TSlice TBytes), fld (TSlice TBytes), fld (TSlice TBytes)]"

definition blob_v1_type :: gotype where
  "blob_v1_type =
     TStruct [fld blob_tx_type, fld (TUint 8), fld (TSlice TBytes), fld (TSlice TBytes), fld (TSlice TBytes)]"

definition with_sidecar :: "nat \<Rightarrow> goval \<Rightarrow> transaction" where
  "with_sidecar k v =
     (let side = (\<lambda>i. map as_bytes (as_list (field v i))) in
      (NewTransaction (BlobTx (blob_tx_of (field v 0))))
        \<lparr>sidecar := Some \<lparr>Blobs = side k, Commitments = side (k + 1), Proofs = side (k + 2)\<rparr>\<rparr>)"

definition decodeBlobTx :: "bytes \<Rightarrow> transaction tx_decoded" where
  "decodeBlobTx data =
     (case rlp_decode blob_tx_type (\<lambda>v. NewTransaction (BlobTx (blob_tx_of v))) data of
        Some (Err err) \<Rightarrow>
          (case rlp_decode blob_v0_type (with_sidecar 1) data of
             Some (Err err0) \<Rightarrow>
               (case rlp_decode blob_v1_type (with_sidecar 2) data of
                  Some (Err err1) \<Rightarrow> Some (Err err)
                | r \<Rightarrow> r)
           | r \<Rightarrow> r)
      | r \<Rightarrow> r)"

definition DecodeMultiDimFeeTx :: "bytes \<Rightarrow> transaction tx_decoded" where
  "DecodeMultiDimFeeTx payload =
     (case rlp_decode multi_dim_tx_type multi_dim_tx_of payload of
        Some (Ok tx) \<Rightarrow>
          if length (MD_MaxFeesPerGas tx) \<noteq> 3 \<or> length (MD_PriorityFeesPerGas tx) \<noteq> 3 then Some (Err ErrFeeVectors)
          else Some (Ok (NewTransaction (MultiDimFeeTx tx)))
      | Some (Err e) \<Rightarrow> Some (Err e)
      | Some Panic \<Rightarrow> Some Panic
      | None \<Rightarrow> None)"

definition decodeLegacyTx :: "bytes \<Rightarrow> transaction tx_decoded" where
  "decodeLegacyTx = rlp_decode legacy_tx_type (\<lambda>v. NewTransaction (LegacyTx (legacy_tx_of v)))"

definition decodeTypedTx :: "byte \<Rightarrow> bytes \<Rightarrow> transaction tx_decoded" where
  "decodeTypedTx ty payload =
     (if length payload = 0 then Some (Err ErrShortTypedTx)
      else if ty = 0x01 then rlp_decode access_list_tx_type (\<lambda>v. NewTransaction (AccessListTx (access_list_tx_of v))) payload
      else if ty = 0x02 then rlp_decode dynamic_fee_tx_type (\<lambda>v. NewTransaction (DynamicFeeTx (dynamic_fee_tx_of v))) payload
      else if ty = 0x03 then decodeBlobTx payload
      else if ty = 0x04 then rlp_decode set_code_tx_type (\<lambda>v. NewTransaction (SetCodeTx (set_code_tx_of v))) payload
      else if ty = 0x05 then rlp_decode aa_tx_type (\<lambda>v. NewTransaction (AATx (aa_tx_of v))) payload
      else if ty = 0x06 then rlp_decode frame_tx_type (\<lambda>v. NewTransaction (FrameTx (frame_tx_of v))) payload
      else if ty = 0x07 then rlp_decode pq_tx_type (\<lambda>v. NewTransaction (PQTransaction (pq_tx_of v))) payload
      else if ty = 0x09 then DecodeMultiDimFeeTx payload
      else Some (Err (ErrUnsupportedTxType ty)))"

definition DecodeTxRLP :: "bytes \<Rightarrow> transaction tx_decoded" where
  "DecodeTxRLP data =
     (case data of
        [] \<Rightarrow> Some (Err ErrEmptyTxData)
      | b # rest \<Rightarrow>
          if b \<le> 0x7f \<and> b \<noteq> 0 then decodeTypedTx b rest
          else if b \<ge> 0xc0 then decodeLegacyTx data
          else if b = 0x00 then (if length data < 2 then Some (Err ErrShortTypedTx) else decodeLegacyTx rest)
          else Some (Err (ErrFirstByte b)))"

section \<open>Round trip\<close>

text \<open>A transaction as it comes out of the decoder: all \<open>big.Int\<close> fields are there, and not negative.\<close>

definition big_ok :: "int option \<Rightarrow> bool" where
  "big_ok i = (case i of None \<Rightarrow> False | Some n \<Rightarrow> 0 \<le> n)"

definition auth_ok :: "authorization \<Rightarrow> bool" where
  "auth_ok a \<longleftrightarrow> big_ok (AU_ChainID a) \<and> big_ok (AU_V a) \<and> big_ok (AU_R a) \<and> big_ok (AU_S a)"

fun tx_ok :: "tx_data \<Rightarrow> bool" where
  "tx_ok (LegacyTx tx) \<longleftrightarrow> list_all big_ok [L_GasPrice tx, L_Value tx, L_V tx, L_R tx, L_S tx]"
| "tx_ok (AccessListTx tx) \<longleftrightarrow> list_all big_ok [A_ChainID tx, A_GasPrice tx, A_Value tx, A_V tx, A_R tx, A_S tx]"
| "tx_ok (DynamicFeeTx tx) \<longleftrightarrow>
     list_all big_ok [D_ChainID tx, D_GasTipCap tx, D_GasFeeCap tx, D_Value tx, D_V tx, D_R tx, D_S tx]"
| "tx_ok (BlobTx tx) \<longleftrightarrow>
     list_all big_ok [B_ChainID tx, B_GasTipCap tx, B_GasFeeCap tx, B_Value tx, B_BlobFeeCap tx, B_V tx, B_R tx, B_S tx]"
| "tx_ok (SetCodeTx tx) \<longleftrightarrow>
     list_all big_ok [S_ChainID tx, S_GasTipCap tx, S_GasFeeCap tx, S_Value tx, S_V tx, S_R tx, S_S tx] \<and>
     list_all auth_ok (S_AuthorizationList tx)"
| "tx_ok (AATx tx) \<longleftrightarrow> list_all big_ok [AA_ChainID tx, AA_MaxPriorityFeePerGas tx, AA_MaxFeePerGas tx] \<and>
     list_all auth_ok (AA_AuthorizationList tx)"
| "tx_ok (FrameTx tx) \<longleftrightarrow>
     list_all big_ok [F_ChainID tx, F_Nonce tx, F_MaxPriorityFeePerGas tx, F_MaxFeePerGas tx, F_MaxFeePerBlobGas tx]"
| "tx_ok (PQTransaction tx) \<longleftrightarrow> list_all big_ok [PQ_ChainID tx, PQ_Value tx, PQ_GasPrice tx]"
| "tx_ok (LocalTx tx) \<longleftrightarrow> list_all big_ok [LX_ChainID tx, LX_GasTipCap tx, LX_GasFeeCap tx, LX_Value tx]"
| "tx_ok (MultiDimFeeTx tx) \<longleftrightarrow> list_all big_ok [MD_ChainID tx, MD_Value tx, MD_V tx, MD_R tx, MD_S tx] \<and>
     list_all big_ok (MD_MaxFeesPerGas tx) \<and> list_all big_ok (MD_PriorityFeesPerGas tx) \<and>
     length (MD_MaxFeesPerGas tx) = 3 \<and> length (MD_PriorityFeesPerGas tx) = 3"

lemma big_ok_Some: "big_ok i \<longleftrightarrow> (\<exists>n. i = Some n \<and> 0 \<le> n)"
  by (auto simp: big_ok_def split: option.split)

lemma big_val_ok [simp]:
  "big_ok i \<Longrightarrow> rt_ok (TPtr TBig) (big_val i)" "big_ok i \<Longrightarrow> as_big (big_val i) = i"
  "big_ok i \<Longrightarrow> rt_ok (TPtr TBig) (nil_big_val i)" "big_ok i \<Longrightarrow> as_big (nil_big_val i) = i"
  by (auto simp: big_ok_Some big_val_def nil_big_val_def bigOrZero_def)

lemma rt_all_map [simp]: "rt_all t (map f xs) \<longleftrightarrow> (\<forall>x \<in> set xs. rt_ok t (f x))"
  by (induction xs) auto

lemma address_ptr [simp]: "bytesToAddressPtr (addressPtrToBytes a) = a"
  by (cases a) (simp_all add: bytesToAddressPtr_def addressPtrToBytes_def)

lemma take_bit_byte [simp]: "take_bit 8 (ucast (b :: byte) :: u64) = ucast b"
  by (rule bit_eqI) (auto simp: bit_simps dest: bit_imp_le_length)

lemma ucast_u64_byte [simp]: "ucast (ucast (b :: byte) :: u64) = b"
  by (rule bit_eqI) (auto simp: bit_simps dest: bit_imp_le_length)

lemma take_bit_u64 [simp]: "take_bit 64 (u :: u64) = u"
  by (rule bit_eqI) (simp add: bit_take_bit_iff)

lemmas list_val_defs = hashes_val_def access_list_val_def auth_list_val_def frames_val_def frame_val_def
  access_list_type_def auth_list_type_def frames_type_def hashes_of_def access_list_of_def auth_list_of_def
  frames_of_def field_def

lemma hashes_ok [simp]: "rt_ok (TSlice (TByteArray 32)) (hashes_val hs)" "hashes_of (hashes_val hs) = hs"
  by (simp_all add: list_val_defs comp_def)

lemma access_list_ok [simp]: "rt_ok access_list_type (access_list_val al)" "access_list_of (access_list_val al) = al"
  by (simp_all add: list_val_defs comp_def map_idI)

lemma auth_list_ok [simp]:
  assumes "list_all auth_ok auths"
  shows "rt_ok auth_list_type (auth_list_val auths)" "auth_list_of (auth_list_val auths) = auths"
  using assms by (auto simp: list_val_defs comp_def list_all_iff auth_ok_def intro!: map_idI)

lemma frames_ok [simp]: "rt_ok frames_type (frames_val fs)" "frames_of (frames_val fs) = fs"
  by (simp_all add: list_val_defs comp_def map_idI)

lemma bigs_ok [simp]:
  assumes "list_all big_ok is"
  shows "\<forall>i \<in> set is. rt_ok (TPtr TBig) (nil_big_val i)" "map (as_big \<circ> nil_big_val) is = is"
  using assms by (auto simp: list_all_iff intro!: map_idI)

named_theorems layouts

lemmas [layouts] = legacy_tx_val_def legacy_tx_type_def legacy_tx_of_def
  access_list_tx_val_def access_list_tx_type_def access_list_tx_of_def
  dynamic_fee_tx_val_def dynamic_fee_tx_type_def dynamic_fee_tx_of_def
  blob_tx_val_def blob_tx_type_def blob_tx_of_def
  set_code_tx_val_def set_code_tx_type_def set_code_tx_of_def
  aa_tx_val_def aa_tx_type_def aa_tx_of_def
  frame_tx_val_def frame_tx_type_def frame_tx_of_def
  pq_tx_val_def pq_tx_type_def pq_tx_of_def
  multi_dim_tx_val_def multi_dim_tx_type_def multi_dim_tx_of_def

lemma field_simps_struct [simp]: "field (VStruct ((x, v) # fs)) 0 = v" "field (VStruct (p # fs)) (Suc i) = field (VStruct fs) i"
  "field (VStruct (p # fs)) (numeral k) = field (VStruct fs) (pred_numeral k)"
  by (simp_all add: field_def numeral_eq_Suc)

lemma layouts_ok:
  "tx_ok (LegacyTx a) \<Longrightarrow> rt_ok legacy_tx_type (legacy_tx_val a) \<and> legacy_tx_of (legacy_tx_val a) = a"
  "tx_ok (AccessListTx b) \<Longrightarrow> rt_ok access_list_tx_type (access_list_tx_val b) \<and> access_list_tx_of (access_list_tx_val b) = b"
  "tx_ok (DynamicFeeTx c) \<Longrightarrow> rt_ok dynamic_fee_tx_type (dynamic_fee_tx_val c) \<and> dynamic_fee_tx_of (dynamic_fee_tx_val c) = c"
  "tx_ok (BlobTx d) \<Longrightarrow> rt_ok blob_tx_type (blob_tx_val d) \<and> blob_tx_of (blob_tx_val d) = d"
  "tx_ok (SetCodeTx e) \<Longrightarrow> rt_ok set_code_tx_type (set_code_tx_val e) \<and> set_code_tx_of (set_code_tx_val e) = e"
  by (simp_all add: layouts)

lemma layouts_ok':
  "tx_ok (AATx a) \<Longrightarrow> rt_ok aa_tx_type (aa_tx_val a) \<and> aa_tx_of (aa_tx_val a) = a"
  "tx_ok (FrameTx b) \<Longrightarrow> rt_ok frame_tx_type (frame_tx_val b) \<and> frame_tx_of (frame_tx_val b) = b"
  "tx_ok (PQTransaction c) \<Longrightarrow> rt_ok pq_tx_type (pq_tx_val c) \<and> pq_tx_of (pq_tx_val c) = c"
  "tx_ok (MultiDimFeeTx d) \<Longrightarrow> rt_ok multi_dim_tx_type (multi_dim_tx_val d) \<and> multi_dim_tx_of (multi_dim_tx_val d) = d"
  by (simp_all add: layouts) (auto simp: list_all_iff)


lemma rlp_decode_encoded:
  assumes "EncodeToBytes v = Ok b" "rt_ok t v" "length b \<le> 2 ^ 62"
  shows "rlp_decode t f b = Some (Ok (f v))"
  using decode_encoded [of False v b t "[]" "length b + 1"] assms by (simp add: rlp_decode_def EncodeToBytes_def)

lemma EncodeToBytes_struct:
  assumes "EncodeToBytes (VStruct fs) = Ok b" "length b \<le> 2 ^ 62"
  shows "\<exists>c rest. b = c # rest \<and> 0xc0 \<le> c"
proof -
  obtain p where p: "b = wrapList p" using assms(1) by (auto simp: EncodeToBytes_def map_ok_Ok_iff)
  then have l: "length p < 2 ^ 64" using assms(2) length_wrapList_ge [of p] by simp
  have "0xc0 \<le> (of_nat n :: byte)" if "192 \<le> n" "n < 256" for n
    using that by (simp add: word_le_nat_alt unat_of_nat)
  moreover have "length (nat_be (length p)) \<le> 8" using l by (simp add: length_nat_be_le)
  ultimately show ?thesis
    using l by (simp add: p wrapList_rlp rlp_list_def del: of_nat_add)
qed


lemma vals_struct [simp]: "\<exists>fs. legacy_tx_val l = VStruct fs" "\<exists>fs. access_list_tx_val a = VStruct fs"
  "\<exists>fs. dynamic_fee_tx_val d = VStruct fs" "\<exists>fs. blob_tx_val b = VStruct fs" "\<exists>fs. set_code_tx_val s = VStruct fs"
  "\<exists>fs. aa_tx_val aa = VStruct fs" "\<exists>fs. frame_tx_val f = VStruct fs" "\<exists>fs. pq_tx_val q = VStruct fs"
  "\<exists>fs. local_tx_val x = VStruct fs" "\<exists>fs. multi_dim_tx_val m = VStruct fs"
  by (simp_all add: layouts local_tx_val_def)

lemma typed_payload:
  assumes "typed_rlp ty v = Ok b" "\<exists>fs. v = VStruct fs" "length b \<le> 2 ^ 62"
  shows "\<exists>p. b = ty # p \<and> p \<noteq> [] \<and> (\<forall>t f. rt_ok t v \<longrightarrow> rlp_decode t f p = Some (Ok (f v)))"
proof -
  obtain fs p where v: "v = VStruct fs" and p: "EncodeToBytes v = Ok p" "b = ty # p"
    using assms(1,2) by (auto simp: typed_rlp_def map_ok_Ok_iff)
  moreover have "p \<noteq> []" using EncodeToBytes_struct [of fs p] assms(3) p v by fastforce
  moreover have "rlp_decode t f p = Some (Ok (f v))" if "rt_ok t v" for t and f :: "goval \<Rightarrow> 'a"
    using rlp_decode_encoded [OF p(1) that] assms(3) p by simp
  ultimately show ?thesis by blast
qed

lemma legacy_payload:
  assumes "EncodeToBytes v = Ok b" "\<exists>fs. v = VStruct fs" "rt_ok legacy_tx_type v" "length b \<le> 2 ^ 62"
  shows "DecodeTxRLP b = Some (Ok (NewTransaction (LegacyTx (legacy_tx_of v))))"
proof -
  obtain c rest where b: "b = c # rest" "0xc0 \<le> c" using assms EncodeToBytes_struct by blast
  then have "\<not> c \<le> 0x7f" by (auto simp: word_le_nat_alt)
  with b show ?thesis
    using rlp_decode_encoded [OF assms(1,3,4)] by (simp add: DecodeTxRLP_def decodeLegacyTx_def)
qed

lemma typed_decoded:
  assumes "typed_rlp ty v = Ok b" "\<exists>fs. v = VStruct fs" "length b \<le> 2 ^ 62" "ty \<le> 0x7f \<and> ty \<noteq> 0"
  shows "\<exists>p. DecodeTxRLP b = decodeTypedTx ty p \<and> p \<noteq> [] \<and>
    (\<forall>t (f :: goval \<Rightarrow> transaction). rt_ok t v \<longrightarrow> rlp_decode t f p = Some (Ok (f v))) \<and>
    (\<forall>t (f :: goval \<Rightarrow> multi_dim_tx). rt_ok t v \<longrightarrow> rlp_decode t f p = Some (Ok (f v)))"
proof -
  obtain p where p: "b = ty # p" "p \<noteq> []"
    "\<forall>t (f :: goval \<Rightarrow> transaction). rt_ok t v \<longrightarrow> rlp_decode t f p = Some (Ok (f v))"
    using typed_payload [OF assms(1,2,3)] by metis
  moreover have "\<forall>t (f :: goval \<Rightarrow> multi_dim_tx). rt_ok t v \<longrightarrow> rlp_decode t f p = Some (Ok (f v))"
    using typed_payload [OF assms(1,2,3)] p(1) by (metis list.inject)
  ultimately show ?thesis using assms(4) by (auto simp: DecodeTxRLP_def)
qed

lemmas decoders = decodeTypedTx_def decodeBlobTx_def DecodeMultiDimFeeTx_def

section \<open>Properties\<close>

text \<open>
  C19. Round trip of transactions: the bytes that \<open>EncodeRLP\<close> gives for a transaction of any kind but one decode to that
  transaction.  The kind left out is \<open>LocalTx\<close>, which the decoder does not know.
\<close>

theorem tx_roundtrip:
  assumes "EncodeRLP d = Ok b" "tx_ok d" "length b \<le> 2 ^ 62"
  shows "DecodeTxRLP b =
     (case d of LocalTx tx \<Rightarrow> Some (Err (ErrUnsupportedTxType 0x08)) | _ \<Rightarrow> Some (Ok (NewTransaction d)))"
proof (cases d)
  case (LegacyTx tx)
  then show ?thesis
    using legacy_payload [of "legacy_tx_val tx" b] layouts_ok(1) [of tx] assms by (simp add: EncodeRLP_def)
next
  case (AccessListTx tx)
  then show ?thesis
    using typed_decoded [of 1 "access_list_tx_val tx" b] layouts_ok(2) [of tx] assms
    by (auto simp: EncodeRLP_def decoders)
next
  case (DynamicFeeTx tx)
  then show ?thesis
    using typed_decoded [of 2 "dynamic_fee_tx_val tx" b] layouts_ok(3) [of tx] assms
    by (auto simp: EncodeRLP_def decoders)
next
  case (BlobTx tx)
  then show ?thesis
    using typed_decoded [of 3 "blob_tx_val tx" b] layouts_ok(4) [of tx] assms
    by (auto simp: EncodeRLP_def decoders)
next
  case (SetCodeTx tx)
  then show ?thesis
    using typed_decoded [of 4 "set_code_tx_val tx" b] layouts_ok(5) [of tx] assms
    by (auto simp: EncodeRLP_def decoders)
next
  case (AATx tx)
  then show ?thesis
    using typed_decoded [of 5 "aa_tx_val tx" b] layouts_ok'(1) [of tx] assms
    by (auto simp: EncodeRLP_def decoders)
next
  case (FrameTx tx)
  then show ?thesis
    using typed_decoded [of 6 "frame_tx_val tx" b] layouts_ok'(2) [of tx] assms
    by (auto simp: EncodeRLP_def decoders)
next
  case (PQTransaction tx)
  then show ?thesis
    using typed_decoded [of 7 "pq_tx_val tx" b] layouts_ok'(3) [of tx] assms
    by (auto simp: EncodeRLP_def decoders)
next
  case (LocalTx tx)
  then show ?thesis
    using typed_decoded [of 8 "local_tx_val tx" b] assms by (auto simp: EncodeRLP_def decoders)
next
  case (MultiDimFeeTx tx)
  then show ?thesis
    using typed_decoded [of 9 "multi_dim_tx_val tx" b] layouts_ok'(4) [of tx] assms
    by (auto simp: EncodeRLP_def decoders)
qed

definition sample_tx :: tx_data where
  "sample_tx = DynamicFeeTx
     \<lparr>D_ChainID = Some 1, D_Nonce = 3, D_GasTipCap = Some 2, D_GasFeeCap = Some 30, D_Gas = 21000, D_To = Some 0xabcd,
      D_Value = Some 1000, D_Data = [1, 2], D_AccessList = [],
      D_V = Some 1, D_R = Some 300, D_S = Some 77\<rparr>"

theorem tx_roundtrip_witness:
  "\<exists>b. EncodeRLP sample_tx = Ok b \<and> tx_ok sample_tx \<and> length b \<le> 2 ^ 62 \<and>
     DecodeTxRLP b = Some (Ok (NewTransaction sample_tx))"
proof -
  have "case EncodeRLP sample_tx of Ok b \<Rightarrow> length b < 1000 | _ \<Rightarrow> False"
    by (simp add: EncodeRLP_def sample_tx_def typed_rlp_def dynamic_fee_tx_val_def EncodeToBytes_def big_val_def
      bigOrZero_def access_list_val_def addressPtrToBytes_def encodeBigInt_def encodeUint_def encodeString_def
      wrapList_def putUintBigEndian_def big_bytes_def nat_be.simps)
  then obtain b where b: "EncodeRLP sample_tx = Ok b" "length b \<le> 2 ^ 62"
    by (auto split: outcome.splits)
  moreover have "tx_ok sample_tx" by (simp add: sample_tx_def big_ok_def)
  ultimately show ?thesis using tx_roundtrip [of sample_tx b] by (simp add: sample_tx_def)
qed

end
