(* ===== verification/Tx_Signing.thy ===== *)
theory Tx_Signing
  imports Tx_Codec Secp256k1
begin

text \<open>
  What a transaction's signature covers and who signed it: the signing hashes of
  \<^verbatim>\<open>src/pkg/core/types/transaction_rlp.go\<close> and \<^verbatim>\<open>pq_tx_validator.go\<close>, the signers of
  \<^verbatim>\<open>signer.go\<close>.  Keccak-256 is the parameter \<open>kec\<close>.
\<close>

section \<open>Signing hashes\<close>

text \<open>\<open>b, _ := rlp.EncodeToBytes(v)\<close>: an error leaves no bytes.\<close>

definition enc_ignored :: "goval \<Rightarrow> bytes" where
  "enc_ignored v = ok_or [] (EncodeToBytes v)"

definition encodeUnsignedFields :: "goval list \<Rightarrow> bytes" where
  "encodeUnsignedFields vals = concat (map enc_ignored vals)"

definition typedSigningHash :: "(bytes \<Rightarrow> bytes) \<Rightarrow> byte \<Rightarrow> bytes \<Rightarrow> hash" where
  "typedSigningHash kec ty payload = copy_hash (kec (ty # wrapList payload))"

definition encodeHashList :: "hash list \<Rightarrow> bytes" where
  "encodeHashList hs = wrapList (concat (map (\<lambda>h. enc_ignored (VBytes (hash_bytes h))) hs))"

definition encodeAccessListBytes :: "access_tuple list \<Rightarrow> bytes" where
  "encodeAccessListBytes al =
     wrapList (concat (map (\<lambda>t. wrapList (enc_ignored (VBytes (address_bytes (AT_Address t))) @
       encodeHashList (AT_StorageKeys t))) al))"

definition encodeAuthListBytes :: "authorization list \<Rightarrow> bytes" where
  "encodeAuthListBytes auths =
     wrapList (concat (map (\<lambda>a. wrapList (encodeUnsignedFields
       [nil_big_val (AU_ChainID a), VBytes (address_bytes (AU_Address a)), VUint (AU_Nonce a), big_val (AU_V a),
        big_val (AU_R a), big_val (AU_S a)])) auths))"

definition deriveChainID :: "int option \<Rightarrow> int" where
  "deriveChainID v =
     (case v of
        None \<Rightarrow> 0
      | Some v \<Rightarrow>
          if BitLen v \<le> 8 \<and> (Evm_Machine.Uint64 v = 27 \<or> Evm_Machine.Uint64 v = 28) then 0 else big_Div (v - 35) 2)"

definition signingHashLegacy :: "(bytes \<Rightarrow> bytes) \<Rightarrow> legacy_tx \<Rightarrow> hash" where
  "signingHashLegacy kec tx =
     (let chain = deriveChainID (L_V tx) in
      copy_hash (kec (wrapList (encodeUnsignedFields
        ([VUint (L_Nonce tx), nil_big_val (L_GasPrice tx), VUint (L_Gas tx), VBytes (addressPtrToBytes (L_To tx)),
          nil_big_val (L_Value tx), VBytes (L_Data tx)] @
         (if chain > 0 then [nil_big_val (Some chain), VUint 0, VUint 0] else []))))))"

definition signingHashAccessList :: "(bytes \<Rightarrow> bytes) \<Rightarrow> access_list_tx \<Rightarrow> hash" where
  "signingHashAccessList kec tx =
     typedSigningHash kec 0x01 (encodeUnsignedFields
       [nil_big_val (A_ChainID tx), VUint (A_Nonce tx), nil_big_val (A_GasPrice tx), VUint (A_Gas tx),
        VBytes (addressPtrToBytes (A_To tx)), nil_big_val (A_Value tx), VBytes (A_Data tx)] @
       encodeAccessListBytes (A_AccessList tx))"

definition signingHashDynamicFee :: "(bytes \<Rightarrow> bytes) \<Rightarrow> dynamic_fee_tx \<Rightarrow> hash" where
  "signingHashDynamicFee kec tx =
     typedSigningHash kec 0x02 (encodeUnsignedFields
       [nil_big_val (D_ChainID tx), VUint (D_Nonce tx), nil_big_val (D_GasTipCap tx), nil_big_val (D_GasFeeCap tx),
        VUint (D_Gas tx), VBytes (addressPtrToBytes (D_To tx)), nil_big_val (D_Value tx), VBytes (D_Data tx)] @
       encodeAccessListBytes (D_AccessList tx))"

definition signingHashBlob :: "(bytes \<Rightarrow> bytes) \<Rightarrow> blob_tx \<Rightarrow> hash" where
  "signingHashBlob kec tx =
     typedSigningHash kec 0x03 (encodeUnsignedFields
       [nil_big_val (B_ChainID tx), VUint (B_Nonce tx), nil_big_val (B_GasTipCap tx), nil_big_val (B_GasFeeCap tx),
        VUint (B_Gas tx), VBytes (address_bytes (B_To tx)), nil_big_val (B_Value tx), VBytes (B_Data tx)] @
       encodeAccessListBytes (B_AccessList tx) @ enc_ignored (nil_big_val (B_BlobFeeCap tx)) @
       encodeHashList (B_BlobHashes tx))"

definition signingHashSetCode :: "(bytes \<Rightarrow> bytes) \<Rightarrow> set_code_tx \<Rightarrow> hash" where
  "signingHashSetCode kec tx =
     typedSigningHash kec 0x04 (encodeUnsignedFields
       [nil_big_val (S_ChainID tx), VUint (S_Nonce tx), nil_big_val (S_GasTipCap tx), nil_big_val (S_GasFeeCap tx),
        VUint (S_Gas tx), VBytes (address_bytes (S_To tx)), nil_big_val (S_Value tx), VBytes (S_Data tx)] @
       encodeAccessListBytes (S_AccessList tx) @ encodeAuthListBytes (S_AuthorizationList tx))"

text \<open>Post-quantum transactions hash their fields one after the other.\<close>

definition big_bytes_or_nil :: "int option \<Rightarrow> bytes" where
  "big_bytes_or_nil i = (case i of None \<Rightarrow> [] | Some i \<Rightarrow> big_bytes i)"

definition pqRealSigningHash :: "(bytes \<Rightarrow> bytes) \<Rightarrow> pq_tx \<Rightarrow> bytes" where
  "pqRealSigningHash kec tx =
     kec (big_bytes_or_nil (PQ_ChainID tx) @ be_fixed 8 (unat (PQ_Nonce tx)) @ addressPtrToBytes (PQ_To tx) @
       big_bytes_or_nil (PQ_Value tx) @ be_fixed 8 (unat (PQ_Gas tx)) @ big_bytes_or_nil (PQ_GasPrice tx) @ PQ_Data tx)"

definition SigningHash :: "(bytes \<Rightarrow> bytes) \<Rightarrow> tx_data \<Rightarrow> hash" where
  "SigningHash kec d =
     (case d of
        LegacyTx tx \<Rightarrow> signingHashLegacy kec tx
      | AccessListTx tx \<Rightarrow> signingHashAccessList kec tx
      | DynamicFeeTx tx \<Rightarrow> signingHashDynamicFee kec tx
      | BlobTx tx \<Rightarrow> signingHashBlob kec tx
      | SetCodeTx tx \<Rightarrow> signingHashSetCode kec tx
      | FrameTx tx \<Rightarrow> ComputeFrameSigHash kec tx
      | PQTransaction tx \<Rightarrow> copy_hash (pqRealSigningHash kec tx)
      | _ \<Rightarrow> 0)"

section \<open>Signers\<close>

fun RawSignatureValues :: "tx_data \<Rightarrow> int option \<times> int option \<times> int option" where
  "RawSignatureValues (LegacyTx tx) = (L_V tx, L_R tx, L_S tx)"
| "RawSignatureValues (AccessListTx tx) = (A_V tx, A_R tx, A_S tx)"
| "RawSignatureValues (DynamicFeeTx tx) = (D_V tx, D_R tx, D_S tx)"
| "RawSignatureValues (BlobTx tx) = (B_V tx, B_R tx, B_S tx)"
| "RawSignatureValues (SetCodeTx tx) = (S_V tx, S_R tx, S_S tx)"
| "RawSignatureValues _ = (None, None, None)"

fun tx_chainID :: "tx_data \<Rightarrow> int option" where
  "tx_chainID (LegacyTx tx) = Some (deriveChainID (L_V tx))"
| "tx_chainID (AccessListTx tx) = A_ChainID tx"
| "tx_chainID (DynamicFeeTx tx) = D_ChainID tx"
| "tx_chainID (BlobTx tx) = B_ChainID tx"
| "tx_chainID (SetCodeTx tx) = S_ChainID tx"
| "tx_chainID (AATx tx) = AA_ChainID tx"
| "tx_chainID (FrameTx tx) = F_ChainID tx"
| "tx_chainID (PQTransaction tx) = PQ_ChainID tx"
| "tx_chainID (LocalTx tx) = LX_ChainID tx"
| "tx_chainID (MultiDimFeeTx tx) = MD_ChainID tx"

datatype signer_error = ErrInvalidSig | ErrInvalidChainID | ErrTxTypeNotSupported | ErrNoRecovery

definition RecoverPlain :: "(bytes \<Rightarrow> bytes) \<Rightarrow> hash \<Rightarrow> int \<Rightarrow> int \<Rightarrow> byte \<Rightarrow> (signer_error, address) outcome" where
  "RecoverPlain kec sighash r s v =
     (if v > 1 then Err ErrInvalidSig
      else if r \<le> 0 \<or> s \<le> 0 then Err ErrInvalidSig
      else if r \<ge> secp256k1NCopy \<or> s \<ge> secp256k1NCopy then Err ErrInvalidSig
      else case recoverPubkey (hash_bytes sighash) r s v of
          None \<Rightarrow> Err ErrNoRecovery
        | Some pub \<Rightarrow> Ok (BytesToAddress (drop 12 (kec (drop 1 pub)))))"

text \<open>The recovery id in the \<open>V\<close> of a legacy transaction.\<close>

definition legacy_recovery :: "u64 \<Rightarrow> int \<Rightarrow> byte" where
  "legacy_recovery chain v =
     (let vVal = Evm_Machine.Uint64 v in
      if vVal = 27 \<or> vVal = 28 then ucast (vVal - 27) else ucast (vVal - 35 - 2 * chain))"

definition LondonSigner_Sender :: "(bytes \<Rightarrow> bytes) \<Rightarrow> u64 \<Rightarrow> tx_data \<Rightarrow> (signer_error, address) outcome" where
  "LondonSigner_Sender kec chain d =
     (case RawSignatureValues d of
        (v, Some r, Some s) \<Rightarrow>
          let recover = (\<lambda>recovery.
                if recovery > 1 then Err ErrInvalidSig else RecoverPlain kec (SigningHash kec d) r s recovery) in
          if txType d = 0x00 then
            (case v of None \<Rightarrow> Err ErrInvalidSig | Some v \<Rightarrow> recover (legacy_recovery chain v))
          else if txType d \<in> {0x01, 0x02, 0x03, 0x04} then
            let recovery = (case v of None \<Rightarrow> 0 | Some v \<Rightarrow> ucast (Evm_Machine.Uint64 v)) in
            (case tx_chainID d of
               Some c \<Rightarrow> if Evm_Machine.Uint64 c \<noteq> chain then Err ErrInvalidChainID else recover recovery
             | None \<Rightarrow> recover recovery)
          else Err ErrTxTypeNotSupported
      | _ \<Rightarrow> Err ErrInvalidSig)"

definition EIP155Signer_Sender :: "(bytes \<Rightarrow> bytes) \<Rightarrow> u64 \<Rightarrow> tx_data \<Rightarrow> (signer_error, address) outcome" where
  "EIP155Signer_Sender kec chain d =
     (if txType d \<noteq> 0x00 then Err ErrTxTypeNotSupported
      else case RawSignatureValues d of
          (Some v, Some r, Some s) \<Rightarrow>
            let recovery = legacy_recovery chain v in
            if recovery > 1 then Err ErrInvalidSig else RecoverPlain kec (SigningHash kec d) r s recovery
        | _ \<Rightarrow> Err ErrInvalidSig)"

definition parseSignatureValues :: "bytes \<Rightarrow> (signer_error, int \<times> int \<times> byte) outcome" where
  "parseSignatureValues sig =
     (if length sig \<noteq> 65 then Err ErrInvalidSig
      else
        let r = big_set_bytes (take 32 sig); s = big_set_bytes (take 32 (drop 32 sig)); v = sig ! 64 in
        if v > 1 then Err ErrInvalidSig
        else if r \<le> 0 \<or> s \<le> 0 then Err ErrInvalidSig
        else if r \<ge> secp256k1NCopy \<or> s \<ge> secp256k1NCopy then Err ErrInvalidSig
        else Ok (r, s, v))"

text \<open>\<open>PQPubKeyToAddress\<close>; \<open>copy(addr[:], hash[12:32])\<close>\<close>

definition PQPubKeyToAddress :: "(bytes \<Rightarrow> bytes) \<Rightarrow> bytes \<Rightarrow> address" where
  "PQPubKeyToAddress kec pubkey = BytesToAddress (take 20 (drop 12 (kec pubkey)))"

definition PQPublicKey_of :: "tx_data \<Rightarrow> bytes" where
  "PQPublicKey_of d = (case d of PQTransaction tx \<Rightarrow> PQ_PQPublicKey tx | _ \<Rightarrow> [])"

section \<open>Properties\<close>

lemma big_bytes_times:
  assumes "0 < g" "b < 256"
  shows "big_bytes (256 * g + int b) = big_bytes g @ [of_nat b]"
proof -
  have "nat (256 * g + int b) = 256 * nat g + b" using assms by (simp add: nat_add_distrib nat_mult_distrib)
  moreover have "(of_nat (256 * nat g + b) :: byte) = of_nat b"
    using assms(2) by (simp add: word_unat_eq_iff unat_of_nat del: of_nat_add of_nat_mult)
  ultimately show ?thesis using assms by (simp add: big_bytes_def nat_be.simps [of "256 * nat g + b"])
qed

text \<open>
  C15. Signatures of post-quantum transactions do not bind their fields.  The last byte of a gas price and the first byte
  of the data can trade places: two transactions with different gas prices and different data have one
  signing hash, whatever the hash function, so a signature for either is a signature for the other.
\<close>

theorem pq_signing_hash_ambiguous:
  assumes "0 < g" "b < 256"
  shows "SigningHash kec (PQTransaction ((tx :: pq_tx)\<lparr>PQ_GasPrice := Some (256 * g + int b), PQ_Data := d\<rparr>)) =
     SigningHash kec (PQTransaction (tx\<lparr>PQ_GasPrice := Some g, PQ_Data := of_nat b # d\<rparr>))"
  using big_bytes_times [OF assms] by (simp add: SigningHash_def pqRealSigningHash_def big_bytes_or_nil_def)

definition sample_pq_tx :: pq_tx where
  "sample_pq_tx = \<lparr>PQ_ChainID = Some 1, PQ_Nonce = 0, PQ_To = Some 0xab, PQ_Value = Some 5, PQ_Gas = 21000,
     PQ_GasPrice = Some 0, PQ_Data = [], PQ_PQSignatureType = 0, PQ_PQSignature = [], PQ_PQPublicKey = [],
     PQ_ClassicSignature = []\<rparr>"

theorem pq_signing_hash_ambiguous_witness:
  "SigningHash (\<lambda>b. b) (PQTransaction (sample_pq_tx\<lparr>PQ_GasPrice := Some 1000, PQ_Data := [7]\<rparr>)) =
   SigningHash (\<lambda>b. b) (PQTransaction (sample_pq_tx\<lparr>PQ_GasPrice := Some 3, PQ_Data := [232, 7]\<rparr>))"
  using pq_signing_hash_ambiguous [of 3 232 "\<lambda>b. b" "[7]" sample_pq_tx] by simp

end
