(* ===== verification/Tx_Auth.thy ===== *)
theory Tx_Auth
  imports Tx_Signing Evm_Interp
begin

text \<open>
  EIP-7702 authorizations: delegation designators (\<^verbatim>\<open>src/pkg/core/types/tx_setcode.go\<close>) and their processing before a
  transaction runs (\<^verbatim>\<open>src/pkg/core/eips/eip7702.go\<close>).
\<close>

section \<open>Delegation designators\<close>

definition DelegationPrefix :: bytes where
  "DelegationPrefix = [0xef, 0x01, 0x00]"

definition ParseDelegation :: "bytes \<Rightarrow> address option" where
  "ParseDelegation b =
     (if length b \<noteq> length DelegationPrefix + 20 then None
      else if take (length DelegationPrefix) b \<noteq> DelegationPrefix then None
      else Some (BytesToAddress (drop (length DelegationPrefix) b)))"

definition AddressToDelegation :: "address \<Rightarrow> bytes" where
  "AddressToDelegation addr = DelegationPrefix @ address_bytes addr"

definition HasDelegationPrefix :: "bytes \<Rightarrow> bool" where
  "HasDelegationPrefix c \<longleftrightarrow> take (length DelegationPrefix) c = DelegationPrefix"

section \<open>The RLP of an authorization\<close>

fun trim_zeros :: "bytes \<Rightarrow> bytes" where
  "trim_zeros (b # c # bs) = (if b = 0 then trim_zeros (c # bs) else b # c # bs)"
| "trim_zeros bs = bs"

definition encodeLength :: "u64 \<Rightarrow> bytes" where
  "encodeLength n = (if n < 256 then [ucast n] else trim_zeros (be_fixed 8 (unat n)))"

definition encodeBytesRLP :: "bytes \<Rightarrow> bytes" where
  "encodeBytesRLP b =
     (if length b = 1 \<and> hd b < 128 then b
      else if length b \<le> 55 then (0x80 + of_nat (length b)) # b
      else let lenBytes = encodeLength (u64_len b) in (0xb7 + of_nat (length lenBytes)) # lenBytes @ b)"

definition encodeUint64RLP :: "u64 \<Rightarrow> bytes" where
  "encodeUint64RLP n =
     (if n = 0 then [0x80] else if n < 128 then [ucast n] else encodeBytesRLP (trim_zeros (be_fixed 8 (unat n))))"

definition encodeBigIntRLP :: "int option \<Rightarrow> bytes" where
  "encodeBigIntRLP i =
     (case i of None \<Rightarrow> [0x80] | Some i \<Rightarrow> if i = 0 then [0x80] else encodeBytesRLP (big_bytes i))"

definition encodeListHeaderRLP :: "bytes \<Rightarrow> bytes" where
  "encodeListHeaderRLP payload =
     (if length payload \<le> 55 then (0xc0 + of_nat (length payload)) # payload
      else let lenBytes = encodeLength (u64_len payload) in (0xf7 + of_nat (length lenBytes)) # lenBytes @ payload)"

definition computeAuthorizationHash :: "(bytes \<Rightarrow> bytes) \<Rightarrow> authorization \<Rightarrow> bytes" where
  "computeAuthorizationHash kec auth =
     kec (0x05 # encodeListHeaderRLP (encodeBigIntRLP (AU_ChainID auth) @
       encodeBytesRLP (address_bytes (AU_Address auth)) @ encodeUint64RLP (AU_Nonce auth)))"

section \<open>Processing\<close>

datatype auth_error = ErrAuthChainID | ErrAuthNonce | ErrAuthSignature | ErrAuthInvalidSig

definition RecoverAuthority :: "crypto_fns \<Rightarrow> authorization \<Rightarrow> (auth_error, address) outcome" where
  "RecoverAuthority C auth =
     (if (case AU_V auth of None \<Rightarrow> False | Some v \<Rightarrow> \<not> IsUint64 v \<or> Evm_Machine.Uint64 v > 1) then Err ErrAuthInvalidSig
      else
        let v = (case AU_V auth of None \<Rightarrow> 0 | Some v \<Rightarrow> ucast (Evm_Machine.Uint64 v)) in
        if \<not> ValidateSignatureValues v (AU_R auth) (AU_S auth) True then Err ErrAuthInvalidSig
        else
          let sig = be_fixed 32 (nat (bigOrZero (AU_R auth))) @ be_fixed 32 (nat (bigOrZero (AU_S auth))) @ [v] in
          case Ecrecover (computeAuthorizationHash (keccak C) auth) sig of
            Ok pubBytes \<Rightarrow> Ok (BytesToAddress (drop 12 (keccak C (drop 1 pubBytes))))
          | _ \<Rightarrow> Err ErrAuthSignature)"

definition processOneAuthorization ::
    "crypto_fns \<Rightarrow> authorization \<Rightarrow> int option \<Rightarrow> statedb \<Rightarrow> (auth_error, statedb) outcome" where
  "processOneAuthorization C auth chain s =
     (if (case AU_ChainID auth of None \<Rightarrow> False | Some c \<Rightarrow> c \<noteq> 0 \<and> chain \<noteq> Some c) then Err ErrAuthChainID
      else case RecoverAuthority C auth of
          Err e \<Rightarrow> Err e
        | Panic \<Rightarrow> Panic
        | Ok signerAddr \<Rightarrow>
            let currentNonce = GetNonce signerAddr s in
            if AU_Nonce auth \<noteq> currentNonce then Err ErrAuthNonce
            else
              let s = (if \<not> Empty signerAddr s then AddRefund (PerEmptyAccountCost - PerAuthBaseCost) s else s);
                  s = SetCode (keccak C) signerAddr (AddressToDelegation (AU_Address auth)) s in
              Ok (SetNonce signerAddr (currentNonce + 1) s))"

text \<open>An authorization that fails is skipped.\<close>

definition ProcessAuthorizations :: "crypto_fns \<Rightarrow> authorization list \<Rightarrow> int option \<Rightarrow> statedb \<Rightarrow> statedb" where
  "ProcessAuthorizations C auths chain s =
     fold (\<lambda>auth s. ok_or s (processOneAuthorization C auth chain s)) auths s"

section \<open>Properties\<close>

lemma HasDelegationPrefix_delegation [simp]: "HasDelegationPrefix (AddressToDelegation addr)"
  by (simp add: HasDelegationPrefix_def AddressToDelegation_def)

lemma ParseDelegation_delegation [simp]: "ParseDelegation (AddressToDelegation addr) = Some addr"
  by (simp add: ParseDelegation_def AddressToDelegation_def)

lemma trim_zeros_dropWhile: "dropWhile (\<lambda>b. b = 0) bs \<noteq> [] \<Longrightarrow> trim_zeros bs = dropWhile (\<lambda>b. b = 0) bs"
  by (induction bs rule: trim_zeros.induct) (auto split: if_splits)

lemma trim_zeros_be: "n \<noteq> 0 \<Longrightarrow> trim_zeros (be_fixed 8 (unat (n :: u64))) = nat_be (unat n)"
  using trim_zeros_dropWhile [of "be_fixed 8 (unat n)"] unat_u64_less [of n]
  by (simp add: dropWhile_zero_nat_be be_nat_be_fixed unat_eq_zero word_neq_0_conv unat_gt_0)

lemma encodeLength_eq: "encodeLength n = putUintBigEndian n"
proof (cases "n < 256")
  case False
  then have "n \<noteq> 0" by auto
  with False show ?thesis by (simp add: encodeLength_def trim_zeros_be putUintBigEndian_eq)
qed (simp add: encodeLength_def putUintBigEndian_def)

lemma encodeBytesRLP_eq: "encodeBytesRLP b = encodeString b"
proof -
  have "hd b < 128 \<longleftrightarrow> hd b \<le> 0x7f" by (simp add: word_less_nat_alt word_le_nat_alt) linarith
  then show ?thesis by (simp add: encodeBytesRLP_def encodeString_def encodeLength_eq u64_len_def Let_def)
qed

lemma encodeListHeaderRLP_eq: "encodeListHeaderRLP b = wrapList b"
  by (simp add: encodeListHeaderRLP_def wrapList_def encodeLength_eq u64_len_def Let_def)

lemma encodeUint64RLP_eq: "encodeUint64RLP n = encodeUint n"
  by (simp add: encodeUint64RLP_def encodeUint_def encodeBytesRLP_eq trim_zeros_be putUintBigEndian_eq)

text \<open>
  C13. The hash an authorization is signed under is that of its RLP.  The helpers of \<^verbatim>\<open>eip7702.go\<close>, which encode the
  fields by hand, agree with the encoder of the library on the struct of chain id, address and nonce, for all values of the
  fields.
\<close>

theorem authorization_hash_is_rlp:
  "\<exists>enc. EncodeToBytes (VStruct [fld (big_val (AU_ChainID auth)), fld (VByteArray (address_bytes (AU_Address auth))),
      fld (VUint (AU_Nonce auth))]) = Ok enc \<and>
    computeAuthorizationHash kec auth = kec (0x05 # enc)"
  by (auto simp: computeAuthorizationHash_def EncodeToBytes_def encodeListHeaderRLP_eq encodeBytesRLP_eq
      encodeUint64RLP_eq encodeBigIntRLP_def big_val_def bigOrZero_def encodeBigInt_def split: option.split)

end
