(* ===== verification/Tx_Frames.thy ===== *)
theory Tx_Frames
  imports Tx_Types Evm_Interp
begin

text \<open>
  Frame transactions, \<^verbatim>\<open>src/pkg/core/eips/frame_execution.go\<close>: the loop over the frames and the approvals it collects.
  The callback that runs one frame changes a state of any type, and may crash or not end.
\<close>

section \<open>Contexts\<close>

record frame_result =
  FR_Status :: u64
  FR_GasUsed :: u64
  FR_Logs :: "log list"

record frame_execution =
  FX_SenderApproved :: bool
  FX_PayerApproved :: bool
  FX_Payer :: address
  FX_CurrentFrame :: nat
  FX_FrameResults :: "frame_result list"

datatype frame_error =
    ErrFrameSenderNotApproved | ErrFrameVerifyNoApprove | ErrFramePayerNotApproved | ErrFrameNonceMismatch
  | ErrFrameInvalidMode byte | ErrSenderAlreadyApproved | ErrPayerAlreadyApproved | ErrApproveCaller
  | ErrApproveNeedsSender | ErrApproveScope byte

abbreviation (input) ModeDefault :: byte where "ModeDefault \<equiv> 0"
abbreviation (input) ModeVerify :: byte where "ModeVerify \<equiv> 1"
abbreviation (input) ModeSender :: byte where "ModeSender \<equiv> 2"

definition EntryPointAddress :: address where
  "EntryPointAddress = 0xaa"

text \<open>
  What the callback returns: status, gas used, logs, whether \<open>APPROVE\<close> was called, its scope, and
  whether there was an error.
\<close>

type_synonym frame_reply = "u64 \<times> u64 \<times> log list \<times> bool \<times> byte \<times> bool"
type_synonym 's frame_call_fn = "address \<Rightarrow> address \<Rightarrow> u64 \<Rightarrow> bytes \<Rightarrow> byte \<Rightarrow> nat \<Rightarrow> 's \<Rightarrow> (frame_reply \<times> 's) exec"

section \<open>Execution\<close>

definition processApprove ::
    "byte \<Rightarrow> address \<Rightarrow> address \<Rightarrow> frame_execution \<Rightarrow> (frame_error, frame_execution) outcome" where
  "processApprove scope sender target ctx =
     (if scope = 0 then
        if FX_SenderApproved ctx then Err ErrSenderAlreadyApproved
        else if target \<noteq> sender then Err ErrApproveCaller
        else Ok (ctx\<lparr>FX_SenderApproved := True\<rparr>)
      else if scope = 1 then
        if FX_PayerApproved ctx then Err ErrPayerAlreadyApproved
        else if \<not> FX_SenderApproved ctx then Err ErrApproveNeedsSender
        else Ok (ctx\<lparr>FX_PayerApproved := True, FX_Payer := target\<rparr>)
      else if scope = 2 then
        if FX_SenderApproved ctx then Err ErrSenderAlreadyApproved
        else if FX_PayerApproved ctx then Err ErrPayerAlreadyApproved
        else if target \<noteq> sender then Err ErrApproveCaller
        else Ok (ctx\<lparr>FX_SenderApproved := True, FX_PayerApproved := True, FX_Payer := target\<rparr>)
      else Err (ErrApproveScope scope))"

definition frame_target :: "address \<Rightarrow> tx_frame_def \<Rightarrow> address" where
  "frame_target sender f = (case FD_Target f of None \<Rightarrow> sender | Some a \<Rightarrow> a)"

definition frame_caller :: "address \<Rightarrow> byte \<Rightarrow> frame_execution \<Rightarrow> (frame_error, address) outcome" where
  "frame_caller sender mode ctx =
     (if mode = ModeDefault \<or> mode = ModeVerify then Ok EntryPointAddress
      else if mode = ModeSender then
        if \<not> FX_SenderApproved ctx then Err ErrFrameSenderNotApproved else Ok sender
      else Err (ErrFrameInvalidMode mode))"

text \<open>What happens after the call of a frame.\<close>

definition after_frame ::
    "address \<Rightarrow> nat \<Rightarrow> tx_frame_def \<Rightarrow> frame_reply \<Rightarrow> frame_execution \<Rightarrow> (frame_error, frame_execution) outcome" where
  "after_frame sender i f reply ctx =
     (case reply of (status, gasUsed, ls, approved, scope, err) \<Rightarrow>
        let r = (if err then \<lparr>FR_Status = 0, FR_GasUsed = FD_GasLimit f, FR_Logs = ls\<rparr>
                 else \<lparr>FR_Status = status, FR_GasUsed = gasUsed, FR_Logs = ls\<rparr>);
            ctx = ctx\<lparr>FX_FrameResults := (FX_FrameResults ctx)[i := r]\<rparr> in
        if approved then processApprove scope sender (frame_target sender f) ctx
        else if FD_Mode f = ModeVerify then Err ErrFrameVerifyNoApprove
        else Ok ctx)"

fun frame_loop ::
    "'s frame_call_fn \<Rightarrow> address \<Rightarrow> nat \<Rightarrow> tx_frame_def list \<Rightarrow> frame_execution \<Rightarrow> 's \<Rightarrow>
     ((frame_error, frame_execution) outcome \<times> 's) exec" where
  "frame_loop callFn sender i [] ctx st = Done (Ok ctx, st)"
| "frame_loop callFn sender i (f # fs) ctx st =
     (let ctx = ctx\<lparr>FX_CurrentFrame := i\<rparr> in
      case frame_caller sender (FD_Mode f) ctx of
        Err e \<Rightarrow> Done (Err e, st)
      | Panic \<Rightarrow> Crash
      | Ok caller \<Rightarrow>
          exec_bind (callFn caller (frame_target sender f) (FD_GasLimit f) (FD_Data f) (FD_Mode f) i st)
            (\<lambda>(reply, st).
               case after_frame sender i f reply ctx of
                 Ok ctx \<Rightarrow> frame_loop callFn sender (i + 1) fs ctx st
               | r \<Rightarrow> Done (r, st)))"

definition new_frame_execution :: "frame_tx \<Rightarrow> frame_execution" where
  "new_frame_execution tx =
     \<lparr>FX_SenderApproved = False, FX_PayerApproved = False, FX_Payer = 0, FX_CurrentFrame = 0,
      FX_FrameResults = replicate (length (F_Frames tx)) \<lparr>FR_Status = 0, FR_GasUsed = 0, FR_Logs = []\<rparr>\<rparr>"

definition ExecuteFrameTx ::
    "frame_tx \<Rightarrow> u64 \<Rightarrow> 's frame_call_fn \<Rightarrow> 's \<Rightarrow> ((frame_error, frame_execution) outcome \<times> 's) exec" where
  "ExecuteFrameTx tx stateNonce callFn st =
     (if NonceSeq tx \<noteq> stateNonce then Done (Err ErrFrameNonceMismatch, st)
      else
        exec_bind (frame_loop callFn (F_Sender tx) 0 (F_Frames tx) (new_frame_execution tx) st)
          (\<lambda>(r, st).
             Done (case r of
                     Ok ctx \<Rightarrow> if \<not> FX_PayerApproved ctx then Err ErrFramePayerNotApproved else Ok ctx
                   | _ \<Rightarrow> r, st)))"

section \<open>Cost and refund\<close>

definition MaxFrameTxCost :: "frame_tx \<Rightarrow> int" where
  "MaxFrameTxCost tx =
     (let cost = uint (CalcFrameTxGas tx) * bigOrZero (F_MaxFeePerGas tx) in
      case F_MaxFeePerBlobGas tx of
        Some fee \<Rightarrow>
          if F_BlobVersionedHashes tx \<noteq> [] then cost + uint (u64_len (F_BlobVersionedHashes tx) * 131072) * fee else cost
      | None \<Rightarrow> cost)"

definition CalcFrameRefund :: "frame_tx \<Rightarrow> frame_execution \<Rightarrow> u64" where
  "CalcFrameRefund tx ctx =
     (let totalLimit = fold (\<lambda>f t. t + FD_GasLimit f) (F_Frames tx) 0;
          totalUsed = fold (\<lambda>r t. t + FR_GasUsed r) (take (length (F_Frames tx)) (FX_FrameResults ctx)) 0 in
      if totalUsed \<ge> totalLimit then 0 else totalLimit - totalUsed)"

section \<open>Properties\<close>

text \<open>
  The approvals as a state machine: a payer is approved only together with or after the sender, by
  a frame that targets the payer, and nothing takes an approval back.
\<close>

definition approvals_ok :: "frame_execution \<Rightarrow> bool" where
  "approvals_ok ctx \<longleftrightarrow> (FX_PayerApproved ctx \<longrightarrow> FX_SenderApproved ctx) \<and> (FX_PayerApproved ctx \<or> FX_Payer ctx = 0)"

definition ctx_le :: "frame_execution \<Rightarrow> frame_execution \<Rightarrow> bool" where
  "ctx_le c d \<longleftrightarrow> (FX_SenderApproved c \<longrightarrow> FX_SenderApproved d) \<and>
     (FX_PayerApproved c \<longrightarrow> FX_PayerApproved d \<and> FX_Payer d = FX_Payer c) \<and>
     length (FX_FrameResults d) = length (FX_FrameResults c)"

lemma ctx_le_trans: "ctx_le a b \<Longrightarrow> ctx_le b c \<Longrightarrow> ctx_le a c"
  by (auto simp: ctx_le_def)

lemma processApprove_ok:
  "processApprove scope sender target ctx = Ok ctx' \<Longrightarrow> approvals_ok ctx \<Longrightarrow>
     approvals_ok ctx' \<and> ctx_le ctx ctx' \<and> (FX_PayerApproved ctx' \<and> \<not> FX_PayerApproved ctx \<longrightarrow> FX_Payer ctx' = target)"
  by (auto simp: processApprove_def approvals_ok_def ctx_le_def split: if_splits)

lemma after_frame_ok:
  assumes "after_frame sender i f reply ctx = Ok ctx'" "approvals_ok ctx"
  shows "approvals_ok ctx' \<and> ctx_le ctx ctx' \<and>
    (FX_PayerApproved ctx' \<and> \<not> FX_PayerApproved ctx \<longrightarrow> FX_Payer ctx' = frame_target sender f)"
proof -
  obtain status gasUsed ls approved scope err where reply: "reply = (status, gasUsed, ls, approved, scope, err)"
    by (metis prod_cases6)
  define r where "r = (if err then \<lparr>FR_Status = 0, FR_GasUsed = FD_GasLimit f, FR_Logs = ls\<rparr>
                 else \<lparr>FR_Status = status, FR_GasUsed = gasUsed, FR_Logs = ls\<rparr>)"
  let ?c = "ctx\<lparr>FX_FrameResults := (FX_FrameResults ctx)[i := r]\<rparr>"
  have c: "approvals_ok ?c" "ctx_le ctx ?c" "FX_PayerApproved ?c = FX_PayerApproved ctx"
    using assms(2) by (auto simp: approvals_ok_def ctx_le_def)
  show ?thesis
  proof (cases approved)
    case True
    then have "processApprove scope sender (frame_target sender f) ?c = Ok ctx'"
      using assms(1) by (simp add: after_frame_def reply r_def Let_def)
    then show ?thesis using processApprove_ok [OF _ c(1)] ctx_le_trans [OF c(2)] c(3) by fastforce
  next
    case False
    then have "ctx' = ?c" using assms(1) by (simp add: after_frame_def reply r_def Let_def split: if_splits)
    then show ?thesis using c by simp
  qed
qed

lemma frame_loop_ok:
  assumes "frame_loop callFn sender i fs ctx st = Done (Ok ctx', st')" "approvals_ok ctx"
  shows "approvals_ok ctx' \<and> ctx_le ctx ctx' \<and> (\<forall>f \<in> set fs. FD_Mode f \<in> {ModeDefault, ModeVerify, ModeSender}) \<and>
    (FX_PayerApproved ctx' \<and> \<not> FX_PayerApproved ctx \<longrightarrow> FX_Payer ctx' \<in> frame_target sender ` set fs)"
  using assms
proof (induction fs arbitrary: i ctx st)
  case (Cons f fs)
  let ?c = "ctx\<lparr>FX_CurrentFrame := i\<rparr>"
  obtain caller where caller: "frame_caller sender (FD_Mode f) ?c = Ok caller"
    using Cons.prems(1) by (auto simp: Let_def split: outcome.splits)
  then obtain reply st1 where
    "callFn caller (frame_target sender f) (FD_GasLimit f) (FD_Data f) (FD_Mode f) i st = Done (reply, st1)"
    and rest: "(case after_frame sender i f reply ?c of
        Ok ctx \<Rightarrow> frame_loop callFn sender (i + 1) fs ctx st1 | r \<Rightarrow> Done (r, st1)) = Done (Ok ctx', st')"
    using Cons.prems(1)
    by (cases "callFn caller (frame_target sender f) (FD_GasLimit f) (FD_Data f) (FD_Mode f) i st")
      (auto simp: Let_def)
  then obtain c1 where c1: "after_frame sender i f reply ?c = Ok c1" "frame_loop callFn sender (i + 1) fs c1 st1 = Done (Ok ctx', st')"
    by (auto split: outcome.splits)
  have inv: "approvals_ok ?c" using Cons.prems(2) by (simp add: approvals_ok_def)
  note step = after_frame_ok [OF c1(1) inv]
  note IH = Cons.IH [OF c1(2)]
  have "FD_Mode f \<in> {ModeDefault, ModeVerify, ModeSender}"
    using caller by (auto simp: frame_caller_def split: if_splits)
  moreover have "ctx_le ctx ctx'"
    using step IH ctx_le_trans by (fastforce simp: ctx_le_def)
  ultimately show ?case using step IH by (auto simp: ctx_le_def)
qed (auto simp: ctx_le_def)

text \<open>
  What a run shows to the outside: the replies of the callback to the frames in their order, with the caller the mode
  of a frame asks for.
\<close>

fun replay :: "'s frame_call_fn \<Rightarrow> address \<Rightarrow> nat \<Rightarrow> tx_frame_def list \<Rightarrow> frame_reply list \<Rightarrow> 's \<Rightarrow> 's \<Rightarrow> bool" where
  "replay callFn sender i [] [] st st' \<longleftrightarrow> st = st'"
| "replay callFn sender i (f # fs) (r # rs) st st' \<longleftrightarrow>
     (\<exists>st1. callFn (if FD_Mode f = ModeSender then sender else EntryPointAddress) (frame_target sender f)
        (FD_GasLimit f) (FD_Data f) (FD_Mode f) i st = Done (r, st1) \<and> replay callFn sender (i + 1) fs rs st1 st')"
| "replay callFn sender i _ _ st st' \<longleftrightarrow> False"

definition approved :: "frame_reply \<Rightarrow> bool" where
  "approved = (\<lambda>(status, gasUsed, ls, appr, scope, err). appr)"

definition approve_scope :: "frame_reply \<Rightarrow> byte" where
  "approve_scope = (\<lambda>(status, gasUsed, ls, appr, scope, err). scope)"

text \<open>The calls of \<open>APPROVE\<close>, each with the target of its frame and its scope.\<close>

definition approvals :: "address \<Rightarrow> tx_frame_def list \<Rightarrow> frame_reply list \<Rightarrow> (address \<times> byte) list" where
  "approvals sender fs rs =
     concat (map2 (\<lambda>f r. if approved r then [(frame_target sender f, approve_scope r)] else []) fs rs)"

lemma approvals_simps [simp]:
  "approvals sender [] rs = []"
  "approvals sender (f # fs) (r # rs) =
     (if approved r then [(frame_target sender f, approve_scope r)] else []) @ approvals sender fs rs"
  by (simp_all add: approvals_def)

text \<open>How far the approvals have come.\<close>

definition stage :: "address \<Rightarrow> (address \<times> byte) list \<Rightarrow> frame_execution \<Rightarrow> bool" where
  "stage sender as ctx \<longleftrightarrow>
     as = [] \<and> \<not> FX_SenderApproved ctx \<and> \<not> FX_PayerApproved ctx \<or>
     as = [(sender, 0)] \<and> FX_SenderApproved ctx \<and> \<not> FX_PayerApproved ctx \<or>
     as = [(sender, 0), (FX_Payer ctx, 1)] \<and> FX_SenderApproved ctx \<and> FX_PayerApproved ctx \<or>
     as = [(sender, 2)] \<and> FX_Payer ctx = sender \<and> FX_SenderApproved ctx \<and> FX_PayerApproved ctx"

lemma processApprove_stage:
  "processApprove scope sender target ctx = Ok ctx' \<Longrightarrow> stage sender as ctx \<Longrightarrow> stage sender (as @ [(target, scope)]) ctx'"
  by (auto simp: processApprove_def stage_def split: if_splits)

lemma after_frame_stage:
  assumes "after_frame sender i f r ctx = Ok ctx'" "stage sender as ctx"
  shows "stage sender (as @ approvals sender [f] [r]) ctx'" "FD_Mode f = ModeVerify \<Longrightarrow> approved r"
proof -
  obtain status gasUsed ls appr scope err where r: "r = (status, gasUsed, ls, appr, scope, err)" by (metis prod_cases6)
  define c where "c = ctx\<lparr>FX_FrameResults := (FX_FrameResults ctx)[i := (if err then \<lparr>FR_Status = 0, FR_GasUsed = FD_GasLimit f, FR_Logs = ls\<rparr>
    else \<lparr>FR_Status = status, FR_GasUsed = gasUsed, FR_Logs = ls\<rparr>)]\<rparr>"
  have "(if appr then processApprove scope sender (frame_target sender f) c
      else if FD_Mode f = ModeVerify then Err ErrFrameVerifyNoApprove else Ok c) = Ok ctx'"
    using assms(1) unfolding after_frame_def r c_def Let_def prod.case .
  moreover have "stage sender as c" using assms(2) by (simp add: stage_def c_def)
  ultimately show "stage sender (as @ approvals sender [f] [r]) ctx'" "FD_Mode f = ModeVerify \<Longrightarrow> approved r"
    using processApprove_stage by (auto simp: approved_def approve_scope_def r split: if_splits)
qed

lemma frame_loop_trace:
  assumes "frame_loop callFn sender i fs ctx st = Done (Ok ctx', st')" "stage sender as ctx"
  shows "\<exists>rs. replay callFn sender i fs rs st st' \<and> stage sender (as @ approvals sender fs rs) ctx' \<and>
    list_all2 (\<lambda>f r. FD_Mode f = ModeVerify \<longrightarrow> approved r) fs rs \<and>
    (\<forall>j<length fs. FD_Mode (fs ! j) = ModeSender \<longrightarrow> as @ approvals sender (take j fs) (take j rs) \<noteq> [])"
  using assms
proof (induction fs arbitrary: i ctx st as)
  case (Cons f fs)
  let ?c = "ctx\<lparr>FX_CurrentFrame := i\<rparr>" and ?caller = "if FD_Mode f = ModeSender then sender else EntryPointAddress"
  have caller: "frame_caller sender (FD_Mode f) ?c = Ok ?caller" "FD_Mode f = ModeSender \<Longrightarrow> FX_SenderApproved ctx"
    using Cons.prems(1) by (auto simp: Let_def frame_caller_def split: outcome.splits if_splits)
  then obtain r st1 c1 where
    r: "callFn ?caller (frame_target sender f) (FD_GasLimit f) (FD_Data f) (FD_Mode f) i st = Done (r, st1)"
    and c1: "after_frame sender i f r ?c = Ok c1" "frame_loop callFn sender (i + 1) fs c1 st1 = Done (Ok ctx', st')"
    using Cons.prems(1)
    by (cases "callFn ?caller (frame_target sender f) (FD_GasLimit f) (FD_Data f) (FD_Mode f) i st")
      (auto simp: Let_def split: outcome.splits)
  have "stage sender as ?c" using Cons.prems(2) by (simp add: stage_def)
  note step = after_frame_stage [OF c1(1) this]
  obtain rs where rs: "replay callFn sender (i + 1) fs rs st1 st'"
    "stage sender ((as @ approvals sender [f] [r]) @ approvals sender fs rs) ctx'"
    "list_all2 (\<lambda>f r. FD_Mode f = ModeVerify \<longrightarrow> approved r) fs rs"
    "\<forall>j<length fs. FD_Mode (fs ! j) = ModeSender \<longrightarrow> (as @ approvals sender [f] [r]) @ approvals sender (take j fs) (take j rs) \<noteq> []"
    using Cons.IH [OF c1(2) step(1)] by blast
  have "FD_Mode f = ModeSender \<Longrightarrow> as \<noteq> []" using caller(2) Cons.prems(2) by (auto simp: stage_def)
  then have "\<forall>j<length (f # fs). FD_Mode ((f # fs) ! j) = ModeSender \<longrightarrow>
      as @ approvals sender (take j (f # fs)) (take j (r # rs)) \<noteq> []"
    using rs(4) by (auto simp: less_Suc_eq_0_disj)
  then show ?case using r rs(1-3) step(2) by (intro exI [of _ "r # rs"]) auto
qed (auto intro: exI [of _ "[]"])

text \<open>
  C11. A frame transaction that executes has been approved.  Whatever the frames do, execution without error means
  that the nonce matched, that every frame has a known mode, and that the callback's replies to the frames satisfy: every \<open>VERIFY\<close> frame
  called \<open>APPROVE\<close>; no frame of mode \<open>SENDER\<close> ran before an approval; and the calls of \<open>APPROVE\<close> are, in this order, either one
  of scope 2 by a frame that targets the sender, who is the payer, or one of scope 0 by a frame that targets the sender and
  one of scope 1 by a frame that targets the payer.
\<close>

theorem frames_approved:
  assumes "ExecuteFrameTx tx nonce callFn st = Done (Ok ctx, st')"
  shows "NonceSeq tx = nonce \<and> FX_SenderApproved ctx \<and> FX_PayerApproved ctx \<and>
    length (FX_FrameResults ctx) = length (F_Frames tx) \<and>
    (\<forall>f \<in> set (F_Frames tx). FD_Mode f \<in> {ModeDefault, ModeVerify, ModeSender}) \<and>
    (\<exists>rs. replay callFn (F_Sender tx) 0 (F_Frames tx) rs st st' \<and>
       list_all2 (\<lambda>f r. FD_Mode f = ModeVerify \<longrightarrow> approved r) (F_Frames tx) rs \<and>
       (\<forall>j<length (F_Frames tx). FD_Mode (F_Frames tx ! j) = ModeSender \<longrightarrow>
          approvals (F_Sender tx) (take j (F_Frames tx)) (take j rs) \<noteq> []) \<and>
       (approvals (F_Sender tx) (F_Frames tx) rs = [(F_Sender tx, 2)] \<and> FX_Payer ctx = F_Sender tx \<or>
        approvals (F_Sender tx) (F_Frames tx) rs = [(F_Sender tx, 0), (FX_Payer ctx, 1)]))"
proof -
  have n: "NonceSeq tx = nonce" using assms by (auto simp: ExecuteFrameTx_def split: if_splits)
  obtain r where "frame_loop callFn (F_Sender tx) 0 (F_Frames tx) (new_frame_execution tx) st = Done (r, st')"
    "Ok ctx = (case r of Ok ctx \<Rightarrow> if \<not> FX_PayerApproved ctx then Err ErrFramePayerNotApproved else Ok ctx | _ \<Rightarrow> r)"
    using assms n
    by (cases "frame_loop callFn (F_Sender tx) 0 (F_Frames tx) (new_frame_execution tx) st")
      (auto simp: ExecuteFrameTx_def)
  then have l: "frame_loop callFn (F_Sender tx) 0 (F_Frames tx) (new_frame_execution tx) st = Done (Ok ctx, st')"
    "FX_PayerApproved ctx"
    by (auto split: outcome.splits if_splits)
  have new: "approvals_ok (new_frame_execution tx)" "stage (F_Sender tx) [] (new_frame_execution tx)"
    "length (FX_FrameResults (new_frame_execution tx)) = length (F_Frames tx)"
    by (simp_all add: new_frame_execution_def approvals_ok_def stage_def)
  show ?thesis
    using frame_loop_ok [OF l(1) new(1)] frame_loop_trace [OF l(1) new(2)] n l(2) new(3)
    by (auto simp: approvals_ok_def ctx_le_def stage_def)
qed

definition sample_frame_tx :: frame_tx where
  "sample_frame_tx = \<lparr>F_ChainID = Some 1, F_Nonce = Some 5, F_Sender = 0x11,
     F_Frames = [\<lparr>FD_Mode = 1, FD_Target = None, FD_GasLimit = 50000, FD_Data = []\<rparr>,
       \<lparr>FD_Mode = 2, FD_Target = Some 0x22, FD_GasLimit = 80000, FD_Data = [1]\<rparr>],
     F_MaxPriorityFeePerGas = Some 1, F_MaxFeePerGas = Some 20, F_MaxFeePerBlobGas = Some 0, F_BlobVersionedHashes = []\<rparr>"

text \<open>A callback whose \<open>VERIFY\<close> frames approve execution and payment.\<close>

definition approving_call :: "unit frame_call_fn" where
  "approving_call caller target gas data mode i st = Done ((1, 100, [], mode = ModeVerify, 2, False), st)"

theorem frames_approved_witness:
  "\<exists>ctx. ExecuteFrameTx sample_frame_tx 5 approving_call () = Done (Ok ctx, ()) \<and>
     FX_SenderApproved ctx \<and> (\<exists>rs. replay approving_call 0x11 0 (F_Frames sample_frame_tx) rs () () \<and>
       (approvals 0x11 (F_Frames sample_frame_tx) rs = [(0x11, 2)] \<and> FX_Payer ctx = 0x11 \<or>
        approvals 0x11 (F_Frames sample_frame_tx) rs = [(0x11, 0), (FX_Payer ctx, 1)]))"
proof -
  let ?r = "\<lparr>FR_Status = 1, FR_GasUsed = 100, FR_Logs = []\<rparr>"
  have "ExecuteFrameTx sample_frame_tx 5 approving_call () =
      Done (Ok \<lparr>FX_SenderApproved = True, FX_PayerApproved = True, FX_Payer = 0x11, FX_CurrentFrame = 1,
        FX_FrameResults = [?r, ?r]\<rparr>, ())"
    by (simp add: ExecuteFrameTx_def sample_frame_tx_def approving_call_def NonceSeq_def new_frame_execution_def
        frame_caller_def after_frame_def processApprove_def frame_target_def)
  then show ?thesis
    using frames_approved [of sample_frame_tx 5 approving_call "()"] by (fastforce simp: sample_frame_tx_def)
qed

end
