(* ===== verification/Receipts.thy ===== *)
theory Receipts
  imports Types_Common
begin

text \<open>
  Receipts and their bloom filters, \<^verbatim>\<open>src/pkg/core/types/receipt.go\<close>, \<^verbatim>\<open>bloom.go\<close> and \<^verbatim>\<open>bloom_methods.go\<close>.
  Keccak-256 is the parameter \<open>kec\<close>.
\<close>

section \<open>Bloom filters\<close>

text \<open>The 256 bytes of a filter.\<close>

type_synonym bloom = bytes

definition zero_bloom :: bloom where
  "zero_bloom = replicate 256 0"

definition bloom9 :: "(bytes \<Rightarrow> bytes) \<Rightarrow> bytes \<Rightarrow> nat list" where
  "bloom9 kec data =
     (let h = kec data in map (\<lambda>i. (256 * unat (h ! (2 * i)) + unat (h ! (2 * i + 1))) mod 2048) [0, 1, 2])"

definition set_bloom_bit :: "nat \<Rightarrow> bloom \<Rightarrow> bloom" where
  "set_bloom_bit n bloom =
     (let byteIdx = 255 - n div 8 in bloom[byteIdx := bloom ! byteIdx OR push_bit (n mod 8) 1])"

definition BloomAdd :: "(bytes \<Rightarrow> bytes) \<Rightarrow> bytes \<Rightarrow> bloom \<Rightarrow> bloom" where
  "BloomAdd kec data bloom = fold set_bloom_bit (bloom9 kec data) bloom"

definition LogsBloom :: "(bytes \<Rightarrow> bytes) \<Rightarrow> log list \<Rightarrow> bloom" where
  "LogsBloom kec ls =
     fold (\<lambda>log bloom.
         fold (\<lambda>topic. BloomAdd kec (hash_bytes topic)) (Topics log) (BloomAdd kec (address_bytes (Address log)) bloom))
       ls zero_bloom"

definition BloomContains :: "(bytes \<Rightarrow> bytes) \<Rightarrow> bloom \<Rightarrow> bytes \<Rightarrow> bool" where
  "BloomContains kec bloom data \<longleftrightarrow>
     list_all (\<lambda>n. bloom ! (255 - n div 8) AND push_bit (n mod 8) 1 \<noteq> 0) (bloom9 kec data)"

definition bloom_Or :: "bloom \<Rightarrow> bloom \<Rightarrow> bloom" where
  "bloom_Or b other = map2 (OR) b other"

definition BytesToBloom :: "bytes \<Rightarrow> bloom" where
  "BytesToBloom data =
     (let data = (if length data > 256 then drop (length data - 256) data else data) in
      replicate (256 - length data) 0 @ data)"

definition bloomBits :: "(bytes \<Rightarrow> bytes) \<Rightarrow> bytes \<Rightarrow> (nat \<times> nat) list" where
  "bloomBits kec data = map (\<lambda>n. (255 - n div 8, n mod 8)) (bloom9 kec data)"

section \<open>Receipts\<close>

record receipt =
  RC_Type :: byte
  RC_PostState :: bytes
  RC_Status :: u64
  RC_CumulativeGasUsed :: u64
  RC_Bloom :: bloom
  RC_Logs :: "log list"
  RC_TxHash :: hash
  RC_ContractAddress :: address
  RC_GasUsed :: u64
  RC_EffectiveGasPrice :: "int option"
  RC_BlobGasUsed :: u64
  RC_BlobGasPrice :: "int option"
  RC_CalldataGasUsed :: u64
  RC_CalldataGasPrice :: "int option"
  RC_DimStorageGas :: u64
  RC_BlockGasUsed :: u64
  RC_BlockHash :: hash
  RC_BlockNumber :: "int option"
  RC_TransactionIndex :: u64

definition NewReceipt :: "u64 \<Rightarrow> u64 \<Rightarrow> receipt" where
  "NewReceipt status cumulativeGasUsed =
     \<lparr>RC_Type = 0, RC_PostState = [], RC_Status = status, RC_CumulativeGasUsed = cumulativeGasUsed,
      RC_Bloom = zero_bloom, RC_Logs = [], RC_TxHash = 0, RC_ContractAddress = 0, RC_GasUsed = 0,
      RC_EffectiveGasPrice = None, RC_BlobGasUsed = 0, RC_BlobGasPrice = None, RC_CalldataGasUsed = 0,
      RC_CalldataGasPrice = None, RC_DimStorageGas = 0, RC_BlockGasUsed = 0, RC_BlockHash = 0, RC_BlockNumber = None,
      RC_TransactionIndex = 0\<rparr>"

definition CreateBloom :: "receipt list \<Rightarrow> bloom" where
  "CreateBloom rs = fold (\<lambda>r bloom. bloom_Or bloom (RC_Bloom r)) rs zero_bloom"

text \<open>
  \<open>DeriveReceiptFields\<close>: the logs of receipt \<open>i\<close> are numbered on from \<open>logIndex\<close>; \<open>hashes\<close> are the hashes of
  the transactions.
\<close>

definition derive_log :: "hash \<Rightarrow> u64 \<Rightarrow> nat \<Rightarrow> hash option \<Rightarrow> u64 \<Rightarrow> log \<Rightarrow> log" where
  "derive_log blockHash blockNumber i h logIndex log =
     (let log = log\<lparr>BlockHash := blockHash, BlockNumber := blockNumber, TxIndex := of_nat i, Index := logIndex\<rparr> in
      case h of None \<Rightarrow> log | Some h \<Rightarrow> log\<lparr>TxHash := h\<rparr>)"

fun derive_logs :: "hash \<Rightarrow> u64 \<Rightarrow> nat \<Rightarrow> hash option \<Rightarrow> u64 \<Rightarrow> log list \<Rightarrow> log list" where
  "derive_logs bh bn i h n [] = []"
| "derive_logs bh bn i h n (l # ls) = derive_log bh bn i h n l # derive_logs bh bn i h (n + 1) ls"

fun derive_receipts :: "hash \<Rightarrow> u64 \<Rightarrow> hash list \<Rightarrow> nat \<Rightarrow> u64 \<Rightarrow> receipt list \<Rightarrow> receipt list" where
  "derive_receipts bh bn hs i n [] = []"
| "derive_receipts bh bn hs i n (r # rs) =
     (let h = (if i < length hs then Some (hs ! i) else None);
          r = r\<lparr>RC_BlockHash := bh, RC_BlockNumber := Some (uint bn), RC_TransactionIndex := of_nat i\<rparr>;
          r = (case h of None \<Rightarrow> r | Some h \<Rightarrow> r\<lparr>RC_TxHash := h\<rparr>) in
      r\<lparr>RC_Logs := derive_logs bh bn i h n (RC_Logs r)\<rparr> #
      derive_receipts bh bn hs (i + 1) (n + of_nat (length (RC_Logs r))) rs)"

definition DeriveReceiptFields :: "hash \<Rightarrow> u64 \<Rightarrow> hash list \<Rightarrow> receipt list \<Rightarrow> receipt list" where
  "DeriveReceiptFields blockHash blockNumber hs rs = derive_receipts blockHash blockNumber hs 0 0 rs"

section \<open>Filters have no false negatives\<close>

definition bloom_bit :: "bloom \<Rightarrow> nat \<Rightarrow> bool" where
  "bloom_bit b n \<longleftrightarrow> bit (b ! (255 - n div 8)) (n mod 8)"

lemma BloomContains_bits: "BloomContains kec b data \<longleftrightarrow> (\<forall>n \<in> set (bloom9 kec data). bloom_bit b n)"
  by (simp add: BloomContains_def list_all_iff bloom_bit_def and_exp_eq_0_iff_not_bit)

lemma set_bloom_bit_length [simp]: "length (set_bloom_bit n b) = length b"
  by (simp add: set_bloom_bit_def Let_def)

lemma bloom_bit_kept: "length b = 256 \<Longrightarrow> bloom_bit b m \<Longrightarrow> bloom_bit (set_bloom_bit n b) m"
  by (auto simp: bloom_bit_def set_bloom_bit_def Let_def nth_list_update bit_or_iff)

lemma bloom_bit_new: "length b = 256 \<Longrightarrow> bloom_bit (set_bloom_bit n b) n"
  by (auto simp: bloom_bit_def set_bloom_bit_def Let_def bit_or_iff bit_exp_iff)

lemma fold_bits:
  assumes "length b = 256"
  shows "length (fold set_bloom_bit ns b) = 256 \<and> (\<forall>m. bloom_bit b m \<longrightarrow> bloom_bit (fold set_bloom_bit ns b) m) \<and>
    (\<forall>n \<in> set ns. bloom_bit (fold set_bloom_bit ns b) n)"
  using assms
proof (induction ns arbitrary: b)
  case (Cons n ns)
  then show ?case
    using Cons.IH [of "set_bloom_bit n b"] bloom_bit_kept [of b _ n] bloom_bit_new [of b n] by auto
qed simp

lemma BloomAdd_length [simp]: "length b = 256 \<Longrightarrow> length (BloomAdd kec data b) = 256"
  by (simp add: BloomAdd_def fold_bits)

lemma BloomAdd_new: "length b = 256 \<Longrightarrow> BloomContains kec (BloomAdd kec data b) data"
  by (simp add: BloomAdd_def BloomContains_bits fold_bits)

lemma BloomAdd_kept: "length b = 256 \<Longrightarrow> BloomContains kec b x \<Longrightarrow> BloomContains kec (BloomAdd kec data b) x"
  by (simp add: BloomAdd_def BloomContains_bits fold_bits)

text \<open>All data a log adds, in order.\<close>

definition log_data :: "log \<Rightarrow> bytes list" where
  "log_data log = address_bytes (Address log) # map hash_bytes (Topics log)"

lemma LogsBloom_fold: "LogsBloom kec ls = fold (BloomAdd kec) (concat (map log_data ls)) zero_bloom"
proof -
  have "fold (\<lambda>topic. BloomAdd kec (hash_bytes topic)) ts b = fold (BloomAdd kec) (map hash_bytes ts) b" for ts b
    by (induction ts arbitrary: b) simp_all
  then have "fold (\<lambda>log bloom. fold (\<lambda>topic. BloomAdd kec (hash_bytes topic)) (Topics log)
      (BloomAdd kec (address_bytes (Address log)) bloom)) ls b = fold (BloomAdd kec) (concat (map log_data ls)) b" for b
    by (induction ls arbitrary: b) (simp_all add: log_data_def)
  then show ?thesis by (simp add: LogsBloom_def)
qed

lemma fold_BloomAdd:
  assumes "length b = 256"
  shows "length (fold (BloomAdd kec) xs b) = 256 \<and>
    (\<forall>x. BloomContains kec b x \<or> x \<in> set xs \<longrightarrow> BloomContains kec (fold (BloomAdd kec) xs b) x)"
  using assms
proof (induction xs arbitrary: b)
  case (Cons y xs)
  then show ?case
    using Cons.IH [of "BloomAdd kec y b"] BloomAdd_new [of b kec y] BloomAdd_kept [of b kec _ y] by auto
qed simp

lemma LogsBloom_complete:
  "length (LogsBloom kec ls) = 256 \<and> (\<forall>log \<in> set ls. \<forall>x \<in> set (log_data log). BloomContains kec (LogsBloom kec ls) x)"
  using fold_BloomAdd [of zero_bloom kec "concat (map log_data ls)"] unfolding LogsBloom_fold
  by (auto simp: zero_bloom_def)

lemma bloom_Or_bit:
  "length b = 256 \<Longrightarrow> length c = 256 \<Longrightarrow> bloom_bit (bloom_Or b c) n \<longleftrightarrow> bloom_bit b n \<or> bloom_bit c n"
  by (simp add: bloom_bit_def bloom_Or_def bit_or_iff)

lemma CreateBloom_bits:
  assumes "length b = 256" "\<forall>r \<in> set rs. length (RC_Bloom r) = 256"
  shows "length (fold (\<lambda>r bloom. bloom_Or bloom (RC_Bloom r)) rs b) = 256 \<and>
    (bloom_bit (fold (\<lambda>r bloom. bloom_Or bloom (RC_Bloom r)) rs b) n \<longleftrightarrow>
       bloom_bit b n \<or> (\<exists>r \<in> set rs. bloom_bit (RC_Bloom r) n))"
  using assms
proof (induction rs arbitrary: b)
  case (Cons r rs)
  moreover have "length (bloom_Or b (RC_Bloom r)) = 256" using Cons.prems by (simp add: bloom_Or_def)
  ultimately show ?case using bloom_Or_bit [of b "RC_Bloom r" n] by auto
qed simp

section \<open>Properties\<close>

text \<open>
  C14. The filter of a block finds every log.  When each receipt carries the filter of its logs, the address and the
  topics of every log of every receipt are reported as contained in the combined filter.
\<close>

theorem bloom_complete:
  assumes "\<forall>r \<in> set rs. RC_Bloom r = LogsBloom kec (RC_Logs r)" "r \<in> set rs" "log \<in> set (RC_Logs r)"
  shows "BloomContains kec (CreateBloom rs) (address_bytes (Address log)) \<and>
    (\<forall>t \<in> set (Topics log). BloomContains kec (CreateBloom rs) (hash_bytes t))"
proof -
  have "\<forall>r \<in> set rs. length (RC_Bloom r) = 256" using assms(1) LogsBloom_complete by simp
  then have "bloom_bit (CreateBloom rs) n" if "bloom_bit (RC_Bloom r) n" for n
    using CreateBloom_bits [of zero_bloom rs n] assms(2) that by (auto simp: CreateBloom_def zero_bloom_def)
  then have "BloomContains kec (CreateBloom rs) x" if "BloomContains kec (RC_Bloom r) x" for x
    using that by (simp add: BloomContains_bits)
  moreover have "\<forall>x \<in> set (log_data log). BloomContains kec (RC_Bloom r) x"
    using LogsBloom_complete [of kec "RC_Logs r"] assms by simp
  ultimately show ?thesis by (auto simp: log_data_def)
qed

definition sample_log :: log where
  "sample_log = \<lparr>Address = 0xab, Topics = [3], Data = [], BlockNumber = 0, TxHash = 0, TxIndex = 0, BlockHash = 0,
     BlockTimestamp = 0, Index = 0, Removed = False\<rparr>"

theorem bloom_complete_witness:
  "BloomContains (\<lambda>x. take 6 (rev x)) (CreateBloom
     [(NewReceipt 1 21000)\<lparr>RC_Logs := [sample_log], RC_Bloom := LogsBloom (\<lambda>x. take 6 (rev x)) [sample_log]\<rparr>]) (hash_bytes 3)"
  using bloom_complete [of "[(NewReceipt 1 21000)\<lparr>RC_Logs := [sample_log],
      RC_Bloom := LogsBloom (\<lambda>x. take 6 (rev x)) [sample_log]\<rparr>]" "\<lambda>x. take 6 (rev x)"]
  by (simp add: sample_log_def)

end
