(* ===== verification/Tx_Apply.thy ===== *)
theory Tx_Apply
  imports Tx_Auth Tx_Frames Receipts Fee_Market Tx_Gas
begin

text \<open>
  The state transition of one transaction: messages (\<^verbatim>\<open>src/pkg/core/config/message.go\<close>), the gas pool of a block
  (\<^verbatim>\<open>src/pkg/core/gaspool\<close>), and \<open>applyMessage\<close> and \<open>applyTransactionInternal\<close> of
  \<^verbatim>\<open>src/pkg/core/execution/processor.go\<close>.

  \<open>applyMessage\<close> is split in source order: \<open>msg_invalid\<close> (the checks), the costs, \<open>message_intrinsic\<close>,
  \<open>message_evm\<close>, \<open>warm_up\<close>, \<open>run_message\<close> and \<open>settle_message\<close>.  The gas pool is passed along; so is the
  access tracker, as the list of its calls in the EVM.  The loop over the map of precompiled contracts has no
  fixed order in Go: the order is the argument \<open>pcs\<close>.
\<close>

section \<open>Messages\<close>

record message =
  M_From :: address
  M_To :: "address option"
  M_Nonce :: u64
  M_Value :: "int option"
  M_GasLimit :: u64
  M_GasPrice :: "int option"
  M_GasFeeCap :: "int option"
  M_GasTipCap :: "int option"
  M_Data :: bytes
  M_AccessList :: "access_tuple list"
  M_BlobHashes :: "hash list"
  M_AuthList :: "authorization list"
  M_Frames :: "tx_frame_def list"
  M_FrameSender :: address
  M_TxType :: byte
  M_TxHash :: hash

definition TransactionToMessage :: "(bytes \<Rightarrow> bytes) \<Rightarrow> transaction \<Rightarrow> message" where
  "TransactionToMessage kec tx =
     (let d = inner tx; frame = (txType d = 0x06) in
      \<lparr>M_From = (if frame then FrameSender d else case tx_from tx of None \<Rightarrow> 0 | Some a \<Rightarrow> a),
       M_To = tx_to d, M_Nonce = tx_nonce d,
       M_Value = Some (bigOrZero (tx_value d)),
       M_GasLimit = ApplyLocalTxDiscount d, M_GasPrice = tx_gasPrice d, M_GasFeeCap = tx_gasFeeCap d,
       M_GasTipCap = tx_gasTipCap d, M_Data = tx_data_bytes d, M_AccessList = tx_accessList d,
       M_BlobHashes = BlobHashes_of d, M_AuthList = AuthorizationList d,
       M_Frames = (if frame then tx_Frames d else []), M_FrameSender = (if frame then FrameSender d else 0),
       M_TxType = txType d, M_TxHash = hashRLP kec d\<rparr>)"

definition msgEffectiveGasPrice :: "message \<Rightarrow> int option \<Rightarrow> int" where
  "msgEffectiveGasPrice msg baseFee =
     (case (M_GasFeeCap msg, baseFee) of
        (Some cap, Some fee) \<Rightarrow>
          if fee > 0 then
            let effectivePrice = fee + bigOrZero (M_GasTipCap msg) in
            if effectivePrice > cap then cap else effectivePrice
          else bigOrZero (M_GasPrice msg)
      | _ \<Rightarrow> bigOrZero (M_GasPrice msg))"

section \<open>The gas pool\<close>

definition pool_AddGas :: "u64 \<Rightarrow> u64 \<Rightarrow> u64" where
  "pool_AddGas amount gp = gp + amount"

definition pool_SubGas :: "u64 \<Rightarrow> u64 \<Rightarrow> u64 option" where
  "pool_SubGas amount gp = (if gp < amount then None else Some (gp - amount))"

section \<open>Checks and costs\<close>

datatype msg_error =
    ErrGasPoolExhausted | ErrNonceTooLow | ErrNonceTooHigh | ErrSenderNotEOA | ErrTipAboveFeeCap
  | ErrFeeCapBelowBaseFee | ErrInsufficientFunds | ErrIntrinsicGasTooLow | ErrPQNeedsIPlus

abbreviation (input) FrameTxType :: byte where "FrameTxType \<equiv> 0x06"
abbreviation (input) SetCodeTxType :: byte where "SetCodeTxType \<equiv> 0x04"
abbreviation (input) DynamicFeeTxType :: byte where "DynamicFeeTxType \<equiv> 0x02"
abbreviation (input) AATxType :: byte where "AATxType \<equiv> 0x05"

text \<open>Nonce, sender and fee caps.\<close>

definition sender_not_eoa :: "message \<Rightarrow> statedb \<Rightarrow> bool" where
  "sender_not_eoa msg s \<longleftrightarrow>
     (let codeHash = GetCodeHash (M_From msg) s in
      codeHash \<noteq> 0 \<and> codeHash \<noteq> EmptyCodeHash \<and> \<not> HasDelegationPrefix (GetCode (M_From msg) s))"

definition has_base_fee :: "header \<Rightarrow> bool" where
  "has_base_fee h = (case H_BaseFee h of None \<Rightarrow> False | Some fee \<Rightarrow> fee > 0)"

definition fee_caps_error :: "header \<Rightarrow> message \<Rightarrow> msg_error option" where
  "fee_caps_error h msg =
     (case (M_GasFeeCap msg, M_GasTipCap msg) of
        (Some cap, Some tip) \<Rightarrow>
          if has_base_fee h then
            if cap < tip then Some ErrTipAboveFeeCap
            else if cap < bigOrZero (H_BaseFee h) then Some ErrFeeCapBelowBaseFee
            else None
          else None
      | _ \<Rightarrow> None)"

definition msg_invalid :: "header \<Rightarrow> message \<Rightarrow> statedb \<Rightarrow> msg_error option" where
  "msg_invalid h msg s =
     (let stateNonce = GetNonce (M_From msg) s in
      if M_Nonce msg < stateNonce then Some ErrNonceTooLow
      else if M_Nonce msg > stateNonce then Some ErrNonceTooHigh
      else if M_TxType msg \<noteq> FrameTxType \<and> sender_not_eoa msg s then Some ErrSenderNotEOA
      else fee_caps_error h msg)"

definition glamsterdan_at :: "chain_config option \<Rightarrow> header \<Rightarrow> bool" where
  "glamsterdan_at config h = (case config of None \<Rightarrow> False | Some c \<Rightarrow> config_IsGlamsterdan c (H_Time h))"

definition prague_at :: "chain_config option \<Rightarrow> header \<Rightarrow> bool" where
  "prague_at config h = (case config of None \<Rightarrow> False | Some c \<Rightarrow> config_IsPrague c (H_Time h))"

definition shanghai_at :: "chain_config option \<Rightarrow> header \<Rightarrow> bool" where
  "shanghai_at config h = (case config of None \<Rightarrow> False | Some c \<Rightarrow> config_IsMerge c \<and> config_IsShanghai c (H_Time h))"

text \<open>The calldata fee of EIP-7706; \<open>None\<close> is a panic.\<close>

definition calldata_gas_cost :: "chain_config option \<Rightarrow> header \<Rightarrow> message \<Rightarrow> int option" where
  "calldata_gas_cost config h msg =
     (if glamsterdan_at config h \<and> H_CalldataExcessGas h \<noteq> None then
        map_option (\<lambda>fee. CalldataGasCost (CalldataTokenGas (M_Data msg)) (int fee)) (CalcCalldataBaseFeeFromHeader h)
      else Some 0)"

definition gas_cost :: "header \<Rightarrow> message \<Rightarrow> int" where
  "gas_cost h msg = msgEffectiveGasPrice msg (H_BaseFee h) * uint (M_GasLimit msg)"

definition balance_gas_cost :: "header \<Rightarrow> message \<Rightarrow> int" where
  "balance_gas_cost h msg =
     (case M_GasFeeCap msg of
        Some cap \<Rightarrow> if M_TxType msg \<ge> DynamicFeeTxType then cap * uint (M_GasLimit msg) else gas_cost h msg
      | None \<Rightarrow> gas_cost h msg)"

definition auth_count :: "message \<Rightarrow> u64" where
  "auth_count msg = (if M_TxType msg = SetCodeTxType then u64_len (M_AuthList msg) else 0)"

definition message_floor :: "chain_config option \<Rightarrow> header \<Rightarrow> message \<Rightarrow> u64" where
  "message_floor config h msg =
     (if glamsterdan_at config h then calldataFloorGasGlamst (M_Data msg) (M_AccessList msg) (M_To msg = None)
      else calldataFloorGas (M_Data msg) (M_To msg = None))"

text \<open>The list of authorities that exist, which the source builds here, is not used.\<close>

definition message_intrinsic :: "chain_config option \<Rightarrow> header \<Rightarrow> message \<Rightarrow> statedb \<Rightarrow> u64" where
  "message_intrinsic config h msg s =
     (let isCreate = (M_To msg = None);
          hasValue = (case M_Value msg of None \<Rightarrow> False | Some v \<Rightarrow> v > 0);
          toExists = (case M_To msg of None \<Rightarrow> False | Some a \<Rightarrow> Exist a s);
          igas = (if glamsterdan_at config h then
                    intrinsicGasGlamst (M_Data msg) isCreate hasValue toExists (auth_count msg) +
                    accessListGasGlamst (M_AccessList msg)
                  else intrinsicGas (M_Data msg) isCreate (shanghai_at config h) (auth_count msg) +
                    accessListGas (M_AccessList msg)) in
      if prague_at config h \<and> message_floor config h msg > igas then message_floor config h msg else igas)"

section \<open>The EVM of a message\<close>

definition message_evm ::
    "evm_env \<Rightarrow> chain_config option \<Rightarrow> (u64 \<Rightarrow> hash) option \<Rightarrow> header \<Rightarrow> message \<Rightarrow> bal_event list option \<Rightarrow> u64 \<Rightarrow>
     statedb \<Rightarrow> evm exec" where
  "message_evm E config getHash h msg tracker gasLeft s =
     (let blockCtx = \<lparr>GetHash = getHash, BC_BlockNumber = H_Number h, Time = H_Time h, Coinbase = H_Coinbase h,
            BC_GasLimit = H_GasLimit h, BaseFee = H_BaseFee h, PrevRandao = H_MixDigest h, BlobBaseFee = None,
            SlotNumber = 0\<rparr>;
          txCtx = \<lparr>Origin = M_From msg, GasPrice = Some (msgEffectiveGasPrice msg (H_BaseFee h)),
            BlobHashes = M_BlobHashes msg\<rparr>;
          e = NewEVMWithState blockCtx txCtx 0 (Some s);
          e = (if tracker \<noteq> None then SetBALTracker tracker 0 e else e);
          e = (if glamsterdan_at config h then
                 SetInitialReservoir (snd (InitReservoir gasLeft))
                   (SetDimGasUsage (Some \<lparr>DimCompute = 0, DimStorage = 0, DimBandwidth = 0, DimBlob = 0, DimWitness = 0\<rparr>) e)
               else e) in
      case config of
        None \<Rightarrow> Done e
      | Some c \<Rightarrow>
          exec_bind (of_option (Rules c (H_Number h) (config_IsMerge c) (H_Time h)))
            (\<lambda>r. let rules = vm_rules r in
               Done (SetForkRules rules (SetPrecompiles (SelectPrecompiles E rules) (SetJumpTable (SelectJumpTable rules) e)))))"

definition warm_tuple :: "access_tuple \<Rightarrow> statedb \<Rightarrow> statedb option" where
  "warm_tuple t s =
     fold (\<lambda>key s. Option.bind s (AddSlotToAccessList (AT_Address t) key)) (AT_StorageKeys t)
       (Some (AddAddressToAccessList (AT_Address t) s))"

definition warm_up :: "address list \<Rightarrow> header \<Rightarrow> message \<Rightarrow> statedb \<Rightarrow> statedb option" where
  "warm_up pcs h msg s =
     (let s = AddAddressToAccessList (M_From msg) s;
          s = (case M_To msg of None \<Rightarrow> s | Some a \<Rightarrow> AddAddressToAccessList a s);
          s = AddAddressToAccessList (H_Coinbase h) s;
          s = fold AddAddressToAccessList pcs s in
      fold (\<lambda>t s. Option.bind s (warm_tuple t)) (M_AccessList msg) (Some s))"

section \<open>Running a message\<close>

datatype exec_error = VmError vm_error | FrameError frame_error

record exec_result =
  UsedGas :: u64
  BlockGasUsed :: u64
  DimStorageGas :: u64
  ExecErr :: "exec_error option"
  ReturnData :: bytes
  ContractAddress :: address

definition Failed :: "exec_result \<Rightarrow> bool" where
  "Failed r \<longleftrightarrow> ExecErr r \<noteq> None"

text \<open>Return data, remaining gas, address of a new contract, error, and the context of a frame transaction.\<close>

type_synonym message_run = "bytes \<times> u64 \<times> address \<times> exec_error option \<times> frame_execution option"

definition message_frame_tx :: "message \<Rightarrow> frame_tx" where
  "message_frame_tx msg =
     \<lparr>F_ChainID = None, F_Nonce = Some (uint (M_Nonce msg)), F_Sender = M_FrameSender msg, F_Frames = M_Frames msg,
      F_MaxPriorityFeePerGas = M_GasTipCap msg, F_MaxFeePerGas = M_GasFeeCap msg, F_MaxFeePerBlobGas = None,
      F_BlobVersionedHashes = []\<rparr>"

definition message_frame_context :: "(bytes \<Rightarrow> bytes) \<Rightarrow> message \<Rightarrow> frame_context" where
  "message_frame_context kec msg =
     (let frameTx = message_frame_tx msg in
      \<lparr>SenderApproved = False, PayerApproved = False, LastApproveScope = 0, ApproveCalledThisFrame = False,
       TxType = 6, FC_Nonce = Some (uint (M_Nonce msg)), Sender = M_FrameSender msg, MaxPriorityFee = M_GasTipCap msg,
       MaxFee = M_GasFeeCap msg, MaxBlobFee = None, MaxCost = Some (MaxFrameTxCost frameTx),
       BlobCount = u64_len (M_BlobHashes msg), SigHash = ComputeFrameSigHash kec frameTx,
       Frames = map (\<lambda>f. \<lparr>Mode = ucast (FD_Mode f), Target = frame_target (M_FrameSender msg) f,
         TF_GasLimit = FD_GasLimit f, TF_Data = FD_Data f, Status = 0\<rparr>) (M_Frames msg),
       CurrentFrameIndex = 0\<rparr>)"

text \<open>\<open>callFn\<close>\<close>

definition frame_call :: "evm_env \<Rightarrow> nat \<Rightarrow> message \<Rightarrow> u64 \<Rightarrow> evm frame_call_fn" where
  "frame_call E fuel msg gasLeft caller target frameGasLimit data mode i e =
     (let e = (if i > 0 then on_db ClearTransientStorage e else e);
          e = e\<lparr>FrameCtx := map_option (\<lambda>c. c\<lparr>CurrentFrameIndex := of_nat i, ApproveCalledThisFrame := False\<rparr>) (FrameCtx e)\<rparr>;
          availGas = fold (\<lambda>f g. g - FD_GasLimit f) (take i (M_Frames msg)) gasLeft;
          frameGasLimit = (if frameGasLimit > availGas then availGas else frameGasLimit) in
      exec_bind
        (if mode = ModeVerify then StaticCall E (Run E fuel) caller target data frameGasLimit e
         else Call E fuel (Run E fuel) caller target data frameGasLimit (Some 0) e)
        (\<lambda>((_, remainGas, callErr), e).
           case (FrameCtx e, StateDB e) of
             (Some c, Some s) \<Rightarrow>
               let status = (if callErr \<noteq> None then 0 else 1);
                   approved = ApproveCalledThisFrame c;
                   scope = (if approved then LastApproveScope c else 0);
                   c = (if i < length (Frames c)
                        then c\<lparr>Frames := (Frames c)[i := (Frames c ! i)\<lparr>Status := status\<rparr>]\<rparr> else c) in
               Done ((status, frameGasLimit - remainGas, GetLogs (M_TxHash msg) s, approved, scope, callErr \<noteq> None),
                     e\<lparr>FrameCtx := Some c\<rparr>)
           | _ \<Rightarrow> Crash))"

text \<open>
  The transfer from the payer is guarded by a type that frame transactions do not have; the call of
  the slasher inside it does not change the state.
\<close>

definition run_frames :: "evm_env \<Rightarrow> nat \<Rightarrow> message \<Rightarrow> u64 \<Rightarrow> int \<Rightarrow> evm \<Rightarrow> (message_run \<times> evm) exec" where
  "run_frames E fuel msg gasLeft gasCostTransfer e =
     (case StateDB e of
        None \<Rightarrow> Crash
      | Some s \<Rightarrow>
          exec_bind
            (ExecuteFrameTx (message_frame_tx msg) (GetNonce (M_FrameSender msg) s) (frame_call E fuel msg gasLeft)
               (e\<lparr>FrameCtx := Some (message_frame_context (Keccak256 E) msg)\<rparr>))
            (\<lambda>(r, e).
               case r of
                 Panic \<Rightarrow> Crash
               | Err err \<Rightarrow> Done (([], 0, 0, Some (FrameError err), None), e)
               | Ok ctx \<Rightarrow>
                   let total = fold (\<lambda>fr t. t + FR_GasUsed fr) (FX_FrameResults ctx) 0;
                       gasRemaining = (if total \<ge> gasLeft then 0 else gasLeft - total);
                       e = (if FX_SenderApproved ctx then on_db (SetNonce (M_FrameSender msg) (M_Nonce msg + 1)) e else e);
                       e = (if M_TxType msg \<noteq> FrameTxType \<and> FX_Payer ctx \<noteq> 0 \<and> FX_Payer ctx \<noteq> M_From msg
                            then on_db (\<lambda>s. SubBalance (FX_Payer ctx) gasCostTransfer
                                   (AddBalance (M_From msg) gasCostTransfer s)) e
                            else e) in
                   Done (([], gasRemaining, 0, None, Some ctx), e)))"

definition run_message :: "evm_env \<Rightarrow> nat \<Rightarrow> message \<Rightarrow> u64 \<Rightarrow> int \<Rightarrow> evm \<Rightarrow> (message_run \<times> evm) exec" where
  "run_message E fuel msg gasLeft gasCostTransfer e =
     (if M_TxType msg = FrameTxType \<and> M_Frames msg \<noteq> [] then run_frames E fuel msg gasLeft gasCostTransfer e
      else case M_To msg of
          None \<Rightarrow>
            exec_bind (Create E (Run E fuel) (M_From msg) (M_Data msg) gasLeft (bigOrZero (M_Value msg)) e)
              (\<lambda>((ret, addr, gasRemaining, err), e). Done ((ret, gasRemaining, addr, map_option VmError err, None), e))
        | Some to \<Rightarrow>
            exec_bind (Call E fuel (Run E fuel) (M_From msg) to (M_Data msg) gasLeft (M_Value msg) e)
              (\<lambda>((ret, gasRemaining, err), e). Done ((ret, gasRemaining, 0, map_option VmError err, None), e)))"

section \<open>Settlement\<close>

text \<open>Gas used, and gas used as the block counts it, after refund and floor.\<close>

definition final_gas :: "chain_config option \<Rightarrow> header \<Rightarrow> message \<Rightarrow> u64 \<Rightarrow> u64 \<Rightarrow> u64 \<times> u64" where
  "final_gas config h msg rawRefund gasUsed =
     (let maxRefund = gasUsed div 5;
          refundGas = (if rawRefund > maxRefund then maxRefund else rawRefund);
          net = gasUsed - refundGas;
          floor = message_floor config h msg in
      if prague_at config h then
        (if floor > net then floor else net, if floor > gasUsed then floor else gasUsed)
      else (net, gasUsed))"

definition refund_recipient :: "message \<Rightarrow> frame_execution option \<Rightarrow> address" where
  "refund_recipient msg fctx =
     (case fctx of
        None \<Rightarrow> M_From msg
      | Some c \<Rightarrow> if FX_Payer c \<noteq> 0 \<and> FX_Payer c \<noteq> M_From msg then FX_Payer c else M_From msg)"

text \<open>The tip, or before London the whole fee, goes to the coinbase; a burn log may be emitted.\<close>

definition pay_coinbase :: "fork_rules \<Rightarrow> header \<Rightarrow> message \<Rightarrow> u64 \<Rightarrow> statedb \<Rightarrow> statedb option" where
  "pay_coinbase rules h msg gasUsed s =
     (let gasPrice = msgEffectiveGasPrice msg (H_BaseFee h); fee = bigOrZero (H_BaseFee h) in
      if has_base_fee h then
        let tip = gasPrice - fee;
            s = (if tip > 0 then AddBalance (H_Coinbase h) (tip * uint gasUsed) s else s) in
        if IsEIP7708 rules then EmitBurnLog (M_From msg) (fee * uint gasUsed) s else Some s
      else Some (AddBalance (H_Coinbase h) (gasPrice * uint gasUsed) s))"

definition settle_message ::
    "chain_config option \<Rightarrow> header \<Rightarrow> message \<Rightarrow> u64 \<Rightarrow> u64 \<Rightarrow> u64 \<Rightarrow> message_run \<Rightarrow> evm \<Rightarrow> (exec_result \<times> statedb \<times> u64) exec" where
  "settle_message config h msg igas gasLeft gp run e =
     (case (run, StateDB e) of
        (_, None) \<Rightarrow> Crash
      | ((ret, gasRemaining, addr, err, fctx), Some s) \<Rightarrow>
          let gasUsed = igas + (gasLeft - gasRemaining);
              (gasUsed, before) = final_gas config h msg (GetRefund s) gasUsed;
              remainingGas = M_GasLimit msg - gasUsed;
              s = (if remainingGas > 0
                   then AddBalance (refund_recipient msg fctx) (msgEffectiveGasPrice msg (H_BaseFee h) * uint remainingGas) s
                   else s);
              gp = pool_AddGas (if glamsterdan_at config h then M_GasLimit msg - before else remainingGas) gp in
          exec_bind (of_option (pay_coinbase (forkRules e) h msg gasUsed s))
            (\<lambda>s. Done (\<lparr>UsedGas = gasUsed, BlockGasUsed = before,
                DimStorageGas = (case dimGasUsage e of None \<Rightarrow> 0 | Some d \<Rightarrow> DimStorage d),
                ExecErr = err, ReturnData = ret, ContractAddress = addr\<rparr>, s, gp)))"

section \<open>Applying a message\<close>

type_synonym message_result = "((msg_error, exec_result) outcome \<times> statedb \<times> u64 \<times> bal_event list option) exec"

definition charge_sender :: "header \<Rightarrow> message \<Rightarrow> int \<Rightarrow> statedb \<Rightarrow> statedb" where
  "charge_sender h msg calldataGasCost s =
     (let s = (if M_TxType msg \<noteq> FrameTxType then SubBalance (M_From msg) (gas_cost h msg + calldataGasCost) s else s) in
      if M_To msg \<noteq> None \<and> M_TxType msg \<noteq> FrameTxType \<and> M_TxType msg \<noteq> AATxType
      then SetNonce (M_From msg) (M_Nonce msg + 1) s else s)"

definition execute_message ::
    "evm_env \<Rightarrow> nat \<Rightarrow> address list \<Rightarrow> chain_config option \<Rightarrow> (u64 \<Rightarrow> hash) option \<Rightarrow> header \<Rightarrow> message \<Rightarrow> int \<Rightarrow> u64 \<Rightarrow>
     bal_event list option \<Rightarrow> u64 \<Rightarrow> statedb \<Rightarrow> message_result" where
  "execute_message E fuel pcs config getHash h msg calldataGasCost igas tracker gp s =
     (let gasLeft = M_GasLimit msg - igas in
      exec_bind (message_evm E config getHash h msg tracker gasLeft s) (\<lambda>e.
      exec_bind (of_option (warm_up (if config = None then [] else pcs) h msg s)) (\<lambda>s.
        let s = (if M_TxType msg = SetCodeTxType
                 then ProcessAuthorizations (Crypto E) (M_AuthList msg) (Option.bind config ChainID) s else s) in
        exec_bind (run_message E fuel msg gasLeft (gas_cost h msg + calldataGasCost) (set_db s e)) (\<lambda>(run, e).
          exec_bind (settle_message config h msg igas gasLeft gp run e) (\<lambda>(r, s, gp).
            Done (Ok r, s, gp, balTracker e))))))"

definition applyMessage ::
    "evm_env \<Rightarrow> nat \<Rightarrow> address list \<Rightarrow> chain_config option \<Rightarrow> (u64 \<Rightarrow> hash) option \<Rightarrow> header \<Rightarrow> message \<Rightarrow>
     bal_event list option \<Rightarrow> u64 \<Rightarrow> statedb \<Rightarrow> message_result" where
  "applyMessage E fuel pcs config getHash h msg tracker pool s =
     (case pool_SubGas (M_GasLimit msg) pool of
        None \<Rightarrow> Done (Err ErrGasPoolExhausted, s, pool, tracker)
      | Some gp \<Rightarrow>
          let fail = (\<lambda>err s. Done (Err err, s, pool_AddGas (M_GasLimit msg) gp, tracker)) in
          case msg_invalid h msg s of
            Some err \<Rightarrow> fail err s
          | None \<Rightarrow>
              (case (M_Value msg, calldata_gas_cost config h msg) of
                 (Some val, Some calldataGasCost) \<Rightarrow>
                   let totalCost = val + balance_gas_cost h msg + calldataGasCost in
                   if M_TxType msg \<noteq> FrameTxType \<and> GetBalance (M_From msg) s < totalCost then fail ErrInsufficientFunds s
                   else
                     let s = charge_sender h msg calldataGasCost s; igas = message_intrinsic config h msg s in
                     if igas > M_GasLimit msg then fail ErrIntrinsicGasTooLow s
                     else execute_message E fuel pcs config getHash h msg calldataGasCost igas tracker gp s
               | _ \<Rightarrow> Crash))"

section \<open>Applying a transaction\<close>

definition recover_sender :: "(bytes \<Rightarrow> bytes) \<Rightarrow> chain_config \<Rightarrow> transaction \<Rightarrow> transaction" where
  "recover_sender kec c tx =
     (if tx_from tx \<noteq> None then tx
      else case inner tx of
          AATx aa \<Rightarrow> SetSender (AA_Sender aa) tx
        | PQTransaction pq \<Rightarrow>
            if length (PQ_PQPublicKey pq) > 0 then SetSender (PQPubKeyToAddress kec (PQ_PQPublicKey pq)) tx else tx
        | d \<Rightarrow>
            (case ChainID c of
               None \<Rightarrow> tx
             | Some chain \<Rightarrow>
                 (case LondonSigner_Sender kec (Evm_Machine.Uint64 chain) d of Ok addr \<Rightarrow> SetSender addr tx | _ \<Rightarrow> tx)))"

text \<open>The receipt of a transaction that was executed; \<open>None\<close> is a panic of the fee functions.\<close>

definition blob_fields :: "header \<Rightarrow> tx_data \<Rightarrow> receipt \<Rightarrow> receipt option" where
  "blob_fields h d r =
     (if BlobGas d > 0 then
        let r = r\<lparr>RC_BlobGasUsed := BlobGas d\<rparr> in
        case H_ExcessBlobGas h of
          None \<Rightarrow> Some r
        | Some excess \<Rightarrow> map_option (\<lambda>fee. r\<lparr>RC_BlobGasPrice := Some (int fee)\<rparr>) (calcBlobBaseFee excess)
      else Some r)"

definition calldata_fields :: "header \<Rightarrow> tx_data \<Rightarrow> receipt \<Rightarrow> receipt option" where
  "calldata_fields h d r =
     (let calldataGas = CalldataTokenGas (tx_data_bytes d) in
      if calldataGas > 0 \<and> H_CalldataExcessGas h \<noteq> None then
        map_option (\<lambda>fee. r\<lparr>RC_CalldataGasUsed := calldataGas, RC_CalldataGasPrice := Some (int fee)\<rparr>)
          (CalcCalldataBaseFeeFromHeader h)
      else Some r)"

definition tx_receipt ::
    "(bytes \<Rightarrow> bytes) \<Rightarrow> header \<Rightarrow> tx_data \<Rightarrow> message \<Rightarrow> exec_result \<Rightarrow> statedb \<Rightarrow> receipt option" where
  "tx_receipt kec h d msg result s =
     (let r = (NewReceipt (if Failed result then 0 else 1) (UsedGas result))
            \<lparr>RC_TxHash := hashRLP kec d, RC_GasUsed := UsedGas result,
             RC_EffectiveGasPrice := Some (msgEffectiveGasPrice msg (H_BaseFee h)), RC_Type := txType d\<rparr>;
          r = (if M_To msg = None then r\<lparr>RC_ContractAddress := ContractAddress result\<rparr> else r) in
      do { r \<leftarrow> blob_fields h d r;
           r \<leftarrow> calldata_fields h d r;
           let logs = GetLogs (hashRLP kec d) s;
           Some (r\<lparr>RC_DimStorageGas := DimStorageGas result, RC_BlockGasUsed := BlockGasUsed result, RC_Logs := logs,
             RC_Bloom := LogsBloom kec logs\<rparr>) })"

type_synonym tx_result = "((msg_error, receipt \<times> u64) outcome \<times> statedb \<times> u64 \<times> bal_event list option) exec"

text \<open>What follows \<open>applyMessage\<close>: the revert of a rejected message, or the receipt.\<close>

definition finish_transaction ::
    "(bytes \<Rightarrow> bytes) \<Rightarrow> header \<Rightarrow> tx_data \<Rightarrow> message \<Rightarrow> int \<Rightarrow>
     (msg_error, exec_result) outcome \<times> statedb \<times> u64 \<times> bal_event list option \<Rightarrow> tx_result" where
  "finish_transaction kec h d msg sid q =
     (case q of (r, s, gp, tracker) \<Rightarrow>
        (case r of
           Panic \<Rightarrow> Crash
         | Err err \<Rightarrow> exec_bind (of_option (RevertToSnapshot sid s)) (\<lambda>s. Done (Err err, s, gp, tracker))
         | Ok result \<Rightarrow>
             exec_bind (of_option (tx_receipt kec h d msg result s)) (\<lambda>receipt.
               Done (Ok (receipt, UsedGas result), s, gp, tracker))))"

text \<open>The debug message about addresses that were warm before is left out.\<close>

definition applyTransactionInternal ::
    "evm_env \<Rightarrow> nat \<Rightarrow> address list \<Rightarrow> chain_config \<Rightarrow> (u64 \<Rightarrow> hash) option \<Rightarrow> header \<Rightarrow> transaction \<Rightarrow>
     bal_event list option \<Rightarrow> u64 \<Rightarrow> statedb \<Rightarrow> tx_result" where
  "applyTransactionInternal E fuel pcs c getHash h tx tracker gp s =
     exec_bind (of_option (Rules c (H_Number h) (config_IsMerge c) (H_Time h))) (\<lambda>rules.
       if txType (inner tx) = 0x07 \<and> \<not> R_IsIPlus rules then Done (Err ErrPQNeedsIPlus, s, gp, tracker)
       else
         let kec = Keccak256 E; msg = TransactionToMessage kec (recover_sender kec c tx);
             (sid, s) = Snapshot (ClearAccessList s) in
         exec_bind (applyMessage E fuel pcs (Some c) getHash h msg tracker gp s)
           (finish_transaction kec h (inner tx) msg sid))"

end
