(* ===== verification/Tx_Accounting.thy ===== *)
theory Tx_Accounting
  imports Tx_Apply Evm_Metered
begin

text \<open>
  What applying a message does to the books: every unit of gas and every wei is accounted for, and a
  transaction that is rejected leaves no trace.  The relation \<open>tx_kept\<close> lifts the views of the interpreter
  to a whole transaction, whose steps may change the state past the journal.
\<close>

section \<open>Steps of a transaction\<close>

text \<open>The journal of the state is sound, for some history of snapshots.\<close>

definition consistent :: "statedb \<Rightarrow> bool" where
  "consistent s \<longleftrightarrow> (\<exists>h. pdb_inv s h)"

definition tx_kept :: "(statedb \<Rightarrow> statedb \<Rightarrow> bool) \<Rightarrow> statedb \<Rightarrow> statedb \<Rightarrow> bool" where
  "tx_kept P s t \<longleftrightarrow> (consistent s \<longrightarrow> P s t \<and> consistent t)"

lemma consistent_valid: "consistent s \<Longrightarrow> db_valid s"
  using pdb_inv_valid by (auto simp: consistent_def)

lemma consistent_built: "exec_ops hash_fn ops NewMemoryStateDB = Some s \<Longrightarrow> consistent s"
  unfolding consistent_def by (rule pdb_inv_built)

lemma consistent_restart: "consistent s \<Longrightarrow> db_valid t \<Longrightarrow> db_journal t = db_journal s \<Longrightarrow> consistent t"
  unfolding consistent_def using pdb_inv_restart by blast

lemma tx_kept_db: "db_kept P s t \<Longrightarrow> tx_kept P s t"
  unfolding db_kept_def tx_kept_def consistent_def by blast

lemma tx_kept_mono: "tx_kept P s t \<Longrightarrow> (\<And>s t. P s t \<Longrightarrow> Q s t) \<Longrightarrow> tx_kept Q s t"
  by (auto simp: tx_kept_def)

lemma evm_kept_db:
  assumes "evm_kept P e e'" "StateDB e = Some s"
  obtains t where "StateDB e' = Some t" "tx_kept P s t"
  using assms tx_kept_db by (auto simp: evm_kept_def option_rel_Some1)

text \<open>The weakest view: only the journal matters.\<close>

interpretation any_view: evm_view "\<lambda>s t. True" False
  by unfold_locales simp_all

lemma valid_cleared: "db_valid (ClearAccessList s)" "db_valid s \<Longrightarrow> db_valid (ClearTransientStorage s)"
  by (simp_all add: db_valid_def ClearAccessList_def ClearTransientStorage_def)

lemma tx_kept_cleared:
  "tx_kept value_kept s (ClearAccessList s)" "tx_kept value_kept s (ClearTransientStorage s)"
proof -
  have "value_kept s (ClearAccessList s)" "value_kept s (ClearTransientStorage s)"
    by (rule value_kept_cong; simp add: getters_obj obj_of_def ClearAccessList_def ClearTransientStorage_def)+
  moreover have "consistent (ClearAccessList s)" "consistent (ClearTransientStorage s)" if "consistent s"
    by (rule consistent_restart [OF that]; use that valid_cleared consistent_valid in
        \<open>simp add: ClearAccessList_def ClearTransientStorage_def\<close>)+
  ultimately show "tx_kept value_kept s (ClearAccessList s)" "tx_kept value_kept s (ClearTransientStorage s)"
    by (simp_all add: tx_kept_def)
qed

lemma value_trans: "value_kept s t \<Longrightarrow> value_kept t u \<Longrightarrow> value_kept s u"
  by (simp add: value_kept_def)

lemma tx_trans: "tx_kept value_kept s t \<Longrightarrow> tx_kept value_kept t u \<Longrightarrow> tx_kept value_kept s u"
  using value_trans unfolding tx_kept_def by blast

lemma tx_refl: "tx_kept value_kept s s"
  by (simp add: tx_kept_def value_kept_def)

section \<open>Balances\<close>

lemma supply_credited:
  assumes "\<And>x. GetBalance x t = GetBalance x s + (if x = a then v else 0)"
  shows "total_supply t = total_supply s + v"
proof -
  let ?A = "fmdom' (stateObjects s) \<union> fmdom' (stateObjects t) \<union> {a}"
  have "total_supply t = (\<Sum>x\<in>?A. GetBalance x t)" "total_supply s = (\<Sum>x\<in>?A. GetBalance x s)"
    by (rule supply_superset; auto)+
  then show ?thesis by (simp add: assms sum.distrib)
qed

lemma supply_AddBalance: "total_supply (AddBalance a v s) = total_supply s + v"
  by (rule supply_credited) (simp add: GetBalance_AddBalance)

lemma supply_SubBalance: "total_supply (SubBalance a v s) = total_supply s - v"
  using supply_credited [of "SubBalance a v s" s a "- v"] by (simp add: GetBalance_SubBalance)

lemma solvent_AddBalance: "solvent s \<Longrightarrow> 0 \<le> v \<Longrightarrow> solvent (AddBalance a v s)"
  by (simp add: solvent_def GetBalance_AddBalance)

lemma solvent_SubBalance: "solvent s \<Longrightarrow> v \<le> GetBalance a s \<Longrightarrow> solvent (SubBalance a v s)"
  by (simp add: solvent_def GetBalance_SubBalance)

lemma kept_balances: "db_kept (\<lambda>s t. True) s (AddBalance a v s)" "db_kept (\<lambda>s t. True) s (SubBalance a v s)"
  by (rule any_view.kept_logged [OF logged_AddBalance] any_view.kept_logged [OF logged_SubBalance]; simp)+

lemma consistent_kept: "db_kept P s t \<Longrightarrow> consistent s \<Longrightarrow> consistent t"
  by (auto simp: db_kept_def consistent_def)

lemmas consistent_balances = kept_balances [THEN consistent_kept]

lemma consistent_AddLog: "consistent s \<Longrightarrow> consistent (AddLog l s)"
  by (rule consistent_kept [OF any_view.kept_writes(2)]) simp_all

section \<open>Before the code runs\<close>

lemma charge_supply:
  "total_supply (charge_sender h msg k s) =
     total_supply s - (if M_TxType msg = FrameTxType then 0 else gas_cost h msg + k)"
proof -
  have "total_supply (SetNonce a n t) = total_supply t" for a n t by (rule supply_cong) simp
  then show ?thesis by (simp add: charge_sender_def Let_def supply_SubBalance)
qed

lemma charge_kept: "db_kept (\<lambda>s t. True) s (charge_sender h msg k s)"
  using any_view.db_kept_trans [OF kept_balances(2) any_view.kept_writes(6)]
  by (simp add: charge_sender_def Let_def kept_balances any_view.kept_writes(6) any_view.db_kept_refl)

lemma charge_solvent:
  assumes "solvent s" "M_TxType msg = FrameTxType \<or> gas_cost h msg + k \<le> GetBalance (M_From msg) s"
  shows "solvent (charge_sender h msg k s)"
proof -
  have "solvent (SetNonce a n t) = solvent t" for a n t by (simp add: solvent_def)
  then show ?thesis using assms solvent_SubBalance by (auto simp: charge_sender_def Let_def)
qed

lemma fold_kept:
  assumes "\<And>x s. x \<in> set xs \<Longrightarrow> tx_kept value_kept s (f x s)"
  shows "tx_kept value_kept s (fold f xs s)"
  using assms
proof (induction xs arbitrary: s)
  case (Cons x xs)
  then show ?case using tx_trans [of s "f x s" "fold f xs (f x s)"] by simp
qed (simp add: tx_refl)

lemma fold_option_kept:
  assumes "\<And>x s t. f x s = Some t \<Longrightarrow> tx_kept value_kept s t" "fold (\<lambda>x s. Option.bind s (f x)) xs (Some s) = Some t"
  shows "tx_kept value_kept s t"
  using assms(2)
proof (induction xs arbitrary: s)
  case (Cons x xs)
  have "fold (\<lambda>x s. Option.bind s (f x)) xs None = None" by (induction xs) simp_all
  then obtain s1 where "f x s = Some s1" "fold (\<lambda>x s. Option.bind s (f x)) xs (Some s1) = Some t"
    using Cons.prems by (cases "f x s") auto
  then show ?case using Cons.IH assms(1) tx_trans by blast
qed (simp add: tx_refl)

lemma AddAddress_kept: "tx_kept value_kept s (AddAddressToAccessList a s)"
  by (rule tx_kept_db [OF supply_view.kept_AddAddress])

lemma writes_then:
  assumes "tx_kept value_kept s t"
  shows "tx_kept value_kept s (AddAddressToAccessList a t)" "tx_kept value_kept s (SetNonce a n t)"
    "tx_kept value_kept s (SetCode hf a c t)" "tx_kept value_kept s (AddRefund g t)"
    "tx_kept value_kept s (SetState a k v t)" "tx_kept value_kept s (AddLog l t)"
  by (rule tx_trans [OF assms tx_kept_db]; simp add: supply_view.kept_AddAddress supply_view.kept_writes)+

lemma warm_up_kept:
  assumes "warm_up pcs h msg s = Some t"
  shows "tx_kept value_kept s t"
proof -
  have tuple: "tx_kept value_kept s t" if "warm_tuple tp s = Some t" for tp s t
  proof (rule tx_trans [OF AddAddress_kept fold_option_kept])
    show "fold (\<lambda>key s. Option.bind s (AddSlotToAccessList (AT_Address tp) key)) (AT_StorageKeys tp)
      (Some (AddAddressToAccessList (AT_Address tp) s)) = Some t"
      using that by (simp add: warm_tuple_def)
    show "AddSlotToAccessList (AT_Address tp) key s = Some t \<Longrightarrow> tx_kept value_kept s t" for key s t
      by (rule tx_kept_db [OF supply_view.kept_AddSlot])
  qed
  let ?s2 = "AddAddressToAccessList (H_Coinbase h)
      (case M_To msg of None \<Rightarrow> AddAddressToAccessList (M_From msg) s
       | Some a \<Rightarrow> AddAddressToAccessList a (AddAddressToAccessList (M_From msg) s))"
  have "tx_kept value_kept s ?s2"
    by (cases "M_To msg") (auto intro: writes_then tx_refl)
  moreover have "tx_kept value_kept ?s2 (fold AddAddressToAccessList pcs ?s2)"
    by (rule fold_kept) (rule AddAddress_kept)
  moreover have "tx_kept value_kept (fold AddAddressToAccessList pcs ?s2) t"
    by (rule fold_option_kept [of warm_tuple, OF tuple]) (use assms in \<open>auto simp: warm_up_def Let_def\<close>)
  ultimately show ?thesis by (rule tx_trans [OF tx_trans])
qed

lemma ProcessAuthorizations_kept: "tx_kept value_kept s (ProcessAuthorizations C auths chain s)"
proof -
  have "tx_kept value_kept s t" if "processOneAuthorization C auth chain s = Ok t" for auth s t
    using that unfolding processOneAuthorization_def
    by (auto simp: Let_def split: if_splits outcome.splits option.splits
        intro: writes_then tx_refl)
  then show ?thesis
    unfolding ProcessAuthorizations_def by (intro fold_kept) (auto simp: ok_or_def tx_refl split: outcome.split)
qed

section \<open>The run\<close>

lemma message_evm_fields:
  assumes "message_evm E config getHash h msg tracker g s = Done e"
  shows "StateDB e = Some s" "readOnly e = False"
    "config = Some c \<Longrightarrow> \<exists>r. Rules c (H_Number h) (config_IsMerge c) (H_Time h) = Some r \<and>
       forkRules e = vm_rules r \<and> jumpTable e = SelectJumpTable (vm_rules r)"
  using assms
  by (auto simp: message_evm_def Let_def NewEVMWithState_def NewEVM_def SetBALTracker_def SetInitialReservoir_def
      SetDimGasUsage_def SetForkRules_def SetPrecompiles_def SetJumpTable_def of_option_def split: option.splits if_splits)

text \<open>What is kept by the call of one frame is kept by all of them.\<close>

lemma frame_loop_all:
  assumes "\<And>caller target g data mode i st. I st \<Longrightarrow> exec_all (\<lambda>(reply, st). I st) (callFn caller target g data mode i st)" "I st"
  shows "exec_all (\<lambda>(r, st). I st) (frame_loop callFn sender i fs ctx st)"
  using assms(2)
proof (induction fs arbitrary: i ctx st)
  case (Cons f fs)
  have "exec_all (\<lambda>(r, st). I st) (exec_bind (callFn caller target g data mode i st)
      (\<lambda>(reply, st). case after_frame sender i f reply ctx of
         Ok ctx \<Rightarrow> frame_loop callFn sender (i + 1) fs ctx st | r \<Rightarrow> Done (r, st)))" for caller target g data mode ctx
    by (rule exec_all_then [OF assms(1) [OF Cons.prems]]) (auto split: outcome.split intro: Cons.IH)
  then show ?case using Cons.prems by (auto simp: Let_def split: outcome.split)
qed simp

lemma frame_loop_ends:
  assumes "\<And>caller target g data mode i st. I st \<Longrightarrow> g \<in> G \<Longrightarrow> exec_ends (\<lambda>(reply, st). I st) (callFn caller target g data mode i st)"
    and "I st" "FD_GasLimit ` set fs \<subseteq> G"
  shows "exec_ends (\<lambda>(r, st). I st) (frame_loop callFn sender i fs ctx st)"
  using assms(2,3)
proof (induction fs arbitrary: i ctx st)
  case (Cons f fs)
  have "exec_ends (\<lambda>(r, st). I st) (exec_bind (callFn caller target (FD_GasLimit f) data mode i st)
      (\<lambda>(reply, st). case after_frame sender i f reply ctx of
         Ok ctx \<Rightarrow> frame_loop callFn sender (i + 1) fs ctx st | r \<Rightarrow> Done (r, st)))" for caller target data mode ctx
    by (rule exec_ends_then [OF assms(1)]) (use Cons in \<open>auto split: outcome.split\<close>)
  then show ?case using Cons.prems by (auto simp: Let_def split: outcome.split)
qed simp

definition run_from :: "statedb \<Rightarrow> evm \<Rightarrow> bool" where
  "run_from s e \<longleftrightarrow> (\<exists>t. StateDB e = Some t \<and> tx_kept value_kept s t)"

lemma run_from_fields [simp]: "run_from s (e\<lparr>FrameCtx := c\<rparr>) = run_from s e"
  by (simp add: run_from_def)

lemma run_from_kept: "run_from s e \<Longrightarrow> evm_kept value_kept e e' \<Longrightarrow> run_from s e'"
  unfolding run_from_def using evm_kept_db tx_trans by metis

lemma run_from_on_db: "run_from s e \<Longrightarrow> (\<And>t. tx_kept value_kept s t \<Longrightarrow> tx_kept value_kept s (f t)) \<Longrightarrow> run_from s (on_db f e)"
  by (auto simp: run_from_def on_db_def)

lemma run_from_nonce: "run_from s e \<Longrightarrow> run_from s (on_db (SetNonce a n) e)"
  by (erule run_from_on_db) (rule writes_then)

lemma calls_run_from:
  assumes "run_from s e"
  shows "exec_all (\<lambda>(r, e'). run_from s e') (Call E n (Run E fuel) caller addr input gas v e)"
    "exec_all (\<lambda>(r, e'). run_from s e') (StaticCall E (Run E fuel) caller addr input gas e)"
    "exec_all (\<lambda>(r, e'). run_from s e') (Create E (Run E fuel) caller c gas w e)"
  using supply_view.Call_kept [OF supply_view.Run_kept, of e E n E fuel caller addr input gas v]
    supply_view.StaticCall_kept [OF supply_view.Run_kept, of e E E fuel caller addr input gas]
    supply_view.Create_kept(1) [OF supply_view.Run_kept, of e E E fuel caller c gas w]
    run_from_kept [OF assms]
  by (auto simp: supply_view.call_kept_def elim!: exec_all_mono)

lemma frame_call_from:
  assumes "run_from s e"
  shows "exec_all (\<lambda>(r, e'). run_from s e') (frame_call E fuel msg gasLeft caller target g data mode i e)"
proof -
  have "run_from s (if i > 0 then on_db ClearTransientStorage e else e)"
    using assms tx_trans [OF _ tx_kept_cleared(2)] by (auto intro: run_from_on_db)
  then show ?thesis
    unfolding frame_call_def Let_def
    by (intro exec_all_then [where Q = "\<lambda>(r, e'). run_from s e'"])
       (auto intro: calls_run_from split: option.split)
qed

lemma run_message_from:
  assumes "run_from s e"
  shows "exec_all (\<lambda>(r, e'). run_from s e') (run_message E fuel msg gasLeft k e)"
proof (cases "M_TxType msg = FrameTxType \<and> M_Frames msg \<noteq> []")
  case True
  have loop: "exec_all (\<lambda>(r, e'). run_from s e')
      (frame_loop (frame_call E fuel msg gasLeft) sender i fs ctx (e\<lparr>FrameCtx := c\<rparr>))" for sender i fs ctx c
    by (rule frame_loop_all [OF frame_call_from]) (simp_all add: assms)
  have tx: "exec_all (\<lambda>(r, e'). run_from s e')
      (ExecuteFrameTx tx n (frame_call E fuel msg gasLeft) (e\<lparr>FrameCtx := c\<rparr>))" for tx n c
    unfolding ExecuteFrameTx_def using assms by (auto intro!: exec_all_mono [OF loop])
  show ?thesis
    using True
    by (auto simp: run_message_def run_frames_def Let_def split: option.split outcome.split
        intro!: exec_all_mono [OF tx] intro: run_from_nonce)
next
  case False
  then show ?thesis
    unfolding run_message_def
    by (auto split: option.split intro!: exec_all_mono [OF calls_run_from(1) [OF assms]] exec_all_mono [OF calls_run_from(3) [OF assms]])
qed

section \<open>Gas\<close>

text \<open>The forks whose jump tables bound execution by gas.\<close>

definition metered_fork :: "chain_config \<Rightarrow> header \<Rightarrow> bool" where
  "metered_fork c h =
     (case Rules c (H_Number h) (config_IsMerge c) (H_Time h) of
        None \<Rightarrow> True
      | Some r \<Rightarrow> R_IsBerlin r \<and> \<not> R_IsGlamsterdan r \<and> \<not> R_IsIPlus r)"

definition metered_evm :: "evm \<Rightarrow> bool" where
  "metered_evm e \<longleftrightarrow> metered_table (jumpTable e) \<and> \<not> IsIPlus (forkRules e)"

lemma message_evm_metered:
  assumes "message_evm E (Some c) getHash h msg tracker g s = Done e" "metered_fork c h"
  shows "metered_evm e"
  using message_evm_fields(3) [OF assms(1), of c] assms(2) berlin_metered forks_metered
  by (auto simp: metered_fork_def metered_evm_def vm_rules_def SelectJumpTable_def)

lemma metered_Run: "metered_run metered_table fuel (Run E fuel)"
  using run_loop_metered [of _ "new_frame _ _" fuel E] by (auto simp: metered_run_def Run_def new_frame_def)

lemma metered_kept: "metered_evm e \<Longrightarrow> evm_kept P e e' \<Longrightarrow> metered_evm e'"
  by (auto simp: metered_evm_def dest: evm_kept_env)

lemma metered_fields [simp]: "metered_evm (e\<lparr>FrameCtx := x\<rparr>) = metered_evm e" "metered_evm (set_db s e) = metered_evm e"
  "metered_evm (on_db f e) = metered_evm e"
  by (simp_all add: metered_evm_def set_db_def on_db_def split: option.split)

lemma calls_metered:
  assumes "metered_evm e" "unat gas < fuel"
  shows "exec_ends (\<lambda>((ret, g, err), e'). g \<le> gas \<and> metered_evm e') (Call E n (Run E fuel) caller addr input gas v e)"
    "exec_ends (\<lambda>((ret, g, err), e'). g \<le> gas \<and> metered_evm e') (StaticCall E (Run E fuel) caller addr input gas e)"
    "exec_ends (\<lambda>((ret, a, g, err), e'). g \<le> gas \<and> metered_evm e') (Create E (Run E fuel) caller c gas w e)"
proof -
  have m: "metered_table (jumpTable e)" "\<not> IsIPlus (forkRules e)" using assms(1) by (auto simp: metered_evm_def)
  note ends = Call_returns [OF metered_Run m assms(2)] StaticCall_returns [OF metered_Run m assms(2)]
    Create_leaves(1) [OF metered_Run m assms(2)]
  note kept = supply_view.Call_kept [OF supply_view.Run_kept, of e E n E fuel caller addr input gas v]
    supply_view.StaticCall_kept [OF supply_view.Run_kept, of e E E fuel caller addr input gas]
    supply_view.Create_kept(1) [OF supply_view.Run_kept, of e E E fuel caller c gas w]
  show "exec_ends (\<lambda>((ret, g, err), e'). g \<le> gas \<and> metered_evm e') (Call E n (Run E fuel) caller addr input gas v e)"
    using exec_ends_all [OF ends(1) [unfolded returns_at_most_def] kept(1) [unfolded supply_view.call_kept_def, simplified]]
      metered_kept [OF assms(1)] by (auto elim!: exec_ends_mono)
  show "exec_ends (\<lambda>((ret, g, err), e'). g \<le> gas \<and> metered_evm e') (StaticCall E (Run E fuel) caller addr input gas e)"
    using exec_ends_all [OF ends(2) [unfolded returns_at_most_def] kept(2) [unfolded supply_view.call_kept_def, simplified]]
      metered_kept [OF assms(1)] by (auto elim!: exec_ends_mono)
  show "exec_ends (\<lambda>((ret, a, g, err), e'). g \<le> gas \<and> metered_evm e') (Create E (Run E fuel) caller c gas w e)"
    using exec_ends_all [OF ends(3) [unfolded leaves_at_most_def] kept(3) [unfolded supply_view.call_kept_def, simplified]]
      metered_kept [OF assms(1)] by (auto simp: word_le_nat_alt elim!: exec_ends_mono)
qed

lemma frame_call_metered:
  assumes "metered_evm e" "g \<in> {g. unat g < fuel}"
  shows "exec_ends (\<lambda>(r, e'). metered_evm e') (frame_call E fuel msg gasLeft caller target g data mode i e)"
proof -
  have e: "metered_evm ((if i > 0 then on_db ClearTransientStorage e else e)\<lparr>FrameCtx := c\<rparr>)" for c
    using assms(1) by simp
  have g: "unat (if g > avail then avail else g) < fuel" for avail
    using assms(2) by (auto simp: word_less_nat_alt)
  have call: "exec_ends (\<lambda>(r, e'). metered_evm e')
      (if mode = ModeVerify then StaticCall E (Run E fuel) caller target data g' e'
       else Call E fuel (Run E fuel) caller target data g' (Some 0) e')" if "metered_evm e'" "unat g' < fuel" for g' e'
    by (auto intro!: exec_ends_mono [OF calls_metered(1) [OF that]] exec_ends_mono [OF calls_metered(2) [OF that]])
  show ?thesis
    unfolding frame_call_def Let_def
    by (rule exec_ends_then [OF call [OF e g]]) (auto split: option.split)
qed

definition enough_fuel :: "nat \<Rightarrow> message \<Rightarrow> bool" where
  "enough_fuel fuel msg \<longleftrightarrow> unat (M_GasLimit msg) < fuel \<and> list_all (\<lambda>f. unat (FD_GasLimit f) < fuel) (M_Frames msg)"

lemma run_message_metered:
  assumes e: "metered_evm e" and fuel: "enough_fuel fuel msg" "gasLeft \<le> M_GasLimit msg"
  shows "exec_ends (\<lambda>((ret, g, addr, err, ctx), e'). g \<le> gasLeft) (run_message E fuel msg gasLeft k e)"
proof (cases "M_TxType msg = FrameTxType \<and> M_Frames msg \<noteq> []")
  case True
  have loop: "exec_ends (\<lambda>(r, e'). metered_evm e')
      (frame_loop (frame_call E fuel msg gasLeft) sender i (M_Frames msg) ctx (e\<lparr>FrameCtx := c\<rparr>))" for sender i ctx c
    by (rule frame_loop_ends [where I = metered_evm and G = "{g. unat g < fuel}", OF frame_call_metered]) (use e fuel in \<open>auto simp: enough_fuel_def list_all_iff\<close>)
  have tx: "exec_ends (\<lambda>x. True) (ExecuteFrameTx (message_frame_tx msg) n (frame_call E fuel msg gasLeft) (e\<lparr>FrameCtx := c\<rparr>))" for n c
    unfolding ExecuteFrameTx_def by (auto simp: message_frame_tx_def intro!: exec_ends_then [OF loop])
  show ?thesis
    using True
    by (auto simp: run_message_def run_frames_def Let_def word_sub_le less_imp_le split: option.split outcome.split
        intro!: exec_ends_then [OF tx])
next
  case False
  have g: "unat gasLeft < fuel" using fuel by (auto simp: enough_fuel_def word_le_nat_alt)
  then show ?thesis
    using False unfolding run_message_def
    by (auto split: option.split intro!: exec_ends_then [OF calls_metered(1) [OF e g]] exec_ends_then [OF calls_metered(3) [OF e g]])
qed

section \<open>Settlement\<close>

definition price_of :: "header \<Rightarrow> message \<Rightarrow> int" where
  "price_of h msg = msgEffectiveGasPrice msg (H_BaseFee h)"

text \<open>What the coinbase receives for the gas used, and what nobody receives.\<close>

definition coinbase_share :: "header \<Rightarrow> message \<Rightarrow> u64 \<Rightarrow> int" where
  "coinbase_share h msg used =
     (if has_base_fee h then max 0 (price_of h msg - bigOrZero (H_BaseFee h)) else price_of h msg) * uint used"

definition burnt :: "header \<Rightarrow> message \<Rightarrow> u64 \<Rightarrow> int" where
  "burnt h msg used = (if has_base_fee h then min (price_of h msg) (bigOrZero (H_BaseFee h)) * uint used else 0)"

lemma share_and_burnt: "coinbase_share h msg used + burnt h msg used = price_of h msg * uint used"
  by (auto simp: coinbase_share_def burnt_def max_def min_def algebra_simps)

lemma pay_coinbase_books:
  assumes "pay_coinbase rules h msg used s = Some t"
  shows "total_supply t = total_supply s + coinbase_share h msg used"
    "consistent s \<Longrightarrow> consistent t"
    "solvent s \<Longrightarrow> 0 \<le> price_of h msg \<Longrightarrow> solvent t"
proof -
  let ?tip = "price_of h msg - bigOrZero (H_BaseFee h)"
  let ?s1 = "if ?tip > 0 then AddBalance (H_Coinbase h) (?tip * uint used) s else s"
  have log: "total_supply t = total_supply s' \<and> (consistent s' \<longrightarrow> consistent t) \<and> (solvent s' \<longrightarrow> solvent t)"
    if "EmitBurnLog a v s' = Some t" for a v s'
  proof -
    have bal: "GetBalance b t = GetBalance b s'" for b by (rule emitted_balance(2) [OF that])
    moreover have "consistent s' \<Longrightarrow> consistent t"
      using that by (auto simp: EmitBurnLog_def bind_eq_Some_conv consistent_AddLog split: if_splits)
    ultimately show ?thesis using supply_cong [of t s'] by (simp add: solvent_def)
  qed
  have s1: "total_supply ?s1 = total_supply s + max 0 ?tip * uint used" "consistent s \<longrightarrow> consistent ?s1" "solvent s \<longrightarrow> solvent ?s1"
    by (auto simp: supply_AddBalance consistent_balances max_def intro: solvent_AddBalance)
  have s2: "total_supply (AddBalance a (p * uint used) s) = total_supply s + p * uint used"
    "consistent s \<longrightarrow> consistent (AddBalance a v s)" "solvent s \<Longrightarrow> 0 \<le> p \<Longrightarrow> solvent (AddBalance a (p * uint used) s)" for a p v
    by (auto simp: supply_AddBalance consistent_balances intro: solvent_AddBalance)
  show "total_supply t = total_supply s + coinbase_share h msg used" "consistent s \<Longrightarrow> consistent t"
    "solvent s \<Longrightarrow> 0 \<le> price_of h msg \<Longrightarrow> solvent t"
    using assms s1 s2 log
    by (auto simp: pay_coinbase_def coinbase_share_def price_of_def [symmetric] Let_def split: if_splits)
qed

text \<open>Refund and floor keep the gas used within the gas limit.\<close>

lemma final_gas_bounds:
  assumes "final_gas config h msg raw g = (used, before)" "prague_at config h \<Longrightarrow> message_floor config h msg \<le> g"
  shows "used \<le> before" "before = g" "prague_at config h \<Longrightarrow> message_floor config h msg \<le> used"
proof -
  have "(if raw > g div 5 then g div 5 else raw) \<le> g"
    by (auto simp: word_le_nat_alt unat_div word_less_nat_alt not_less)
  then have le: "g - (if raw > g div 5 then g div 5 else raw) \<le> g" by (rule word_sub_le)
  show "used \<le> before" "before = g" "prague_at config h \<Longrightarrow> message_floor config h msg \<le> used"
    using assms le unfolding final_gas_def Let_def by (auto split: if_splits)
qed

lemma intrinsic_floor: "prague_at config h \<Longrightarrow> message_floor config h msg \<le> message_intrinsic config h msg s"
  by (auto simp: message_intrinsic_def Let_def)

lemma u64_split: "(a :: u64) \<le> b \<Longrightarrow> uint (b - a) = uint b - uint a"
  by (simp add: uint_sub_if' word_le_def)

lemma gas_used_bounds:
  assumes "igas \<le> gl" "g \<le> gl - igas"
  shows "igas \<le> igas + (gl - igas - g)" "igas + (gl - igas - g) \<le> (gl :: u64)"
proof -
  have le: "uint g + uint igas \<le> uint gl" using assms u64_split [of igas gl] by (simp add: word_le_def)
  then have "g \<le> gl" using uint_ge_0 [of igas] unfolding word_le_def by linarith
  with le show "igas \<le> igas + (gl - igas - g)" "igas + (gl - igas - g) \<le> gl"
    using u64_split [of g gl] by (simp_all add: word_le_def)
qed

text \<open>Settling credits the refund and the share of the coinbase.\<close>

lemma settle_books:
  assumes "settle_message config h msg igas gasLeft gp run e = Done (res, s', gp')" "StateDB e = Some s"
  shows "total_supply s' = total_supply s + price_of h msg * uint (M_GasLimit msg - UsedGas res) + coinbase_share h msg (UsedGas res)"
    "consistent s \<Longrightarrow> consistent s'" "solvent s \<Longrightarrow> 0 \<le> price_of h msg \<Longrightarrow> solvent s'"
proof -
  obtain ret g addr err ctx where run: "run = (ret, g, addr, err, ctx)" by (cases run)
  obtain used before where f: "final_gas config h msg (GetRefund s) (igas + (gasLeft - g)) = (used, before)" by fastforce
  let ?left = "M_GasLimit msg - used"
  let ?s1 = "if ?left > 0 then AddBalance (refund_recipient msg ctx) (price_of h msg * uint ?left) s else s"
  have r: "UsedGas res = used" "pay_coinbase (forkRules e) h msg used ?s1 = Some s'"
    using assms run f
    by (auto simp: settle_message_def Let_def price_of_def of_option_def split: option.splits)
  have "total_supply ?s1 = total_supply s + price_of h msg * uint ?left" "consistent s \<longrightarrow> consistent ?s1"
    "solvent s \<Longrightarrow> 0 \<le> price_of h msg \<Longrightarrow> solvent ?s1"
    by (auto simp: supply_AddBalance consistent_balances not_less intro: solvent_AddBalance)
  then show "total_supply s' = total_supply s + price_of h msg * uint (M_GasLimit msg - UsedGas res) + coinbase_share h msg (UsedGas res)"
    "consistent s \<Longrightarrow> consistent s'" "solvent s \<Longrightarrow> 0 \<le> price_of h msg \<Longrightarrow> solvent s'"
    using pay_coinbase_books [OF r(2)] r(1) by auto
qed

lemma settle_gas:
  assumes "igas = message_intrinsic config h msg s0" "igas \<le> M_GasLimit msg" "g \<le> M_GasLimit msg - igas"
    and "gp = pool - M_GasLimit msg"
  shows "exec_ends (\<lambda>(res, s', gp').
      UsedGas res \<le> BlockGasUsed res \<and> BlockGasUsed res \<le> M_GasLimit msg \<and>
      (prague_at config h \<longrightarrow> message_floor config h msg \<le> UsedGas res) \<and>
      gp' = pool - (if glamsterdan_at config h then BlockGasUsed res else UsedGas res))
    (settle_message config h msg igas (M_GasLimit msg - igas) gp (ret, g, addr, err, ctx) e)"
proof (cases "StateDB e")
  case (Some s)
  let ?g = "igas + (M_GasLimit msg - igas - g)"
  obtain used before where f: "final_gas config h msg (GetRefund s) ?g = (used, before)" by fastforce
  have "prague_at config h \<Longrightarrow> message_floor config h msg \<le> ?g"
    using intrinsic_floor [of config h msg s0] gas_used_bounds(1) [OF assms(2,3)] assms(1) by simp
  from final_gas_bounds [OF f this] show ?thesis
    using Some f gas_used_bounds(2) [OF assms(2,3)] assms(4)
    by (auto simp: settle_message_def Let_def pool_AddGas_def of_option_def split: option.split)
qed (simp add: settle_message_def)

section \<open>A whole message\<close>

lemma exec_bind_Done: "exec_bind m k = Done y \<longleftrightarrow> (\<exists>x. m = Done x \<and> k x = Done y)"
  by (cases m) simp_all

lemma of_option_Done: "of_option r = Done y \<longleftrightarrow> r = Some y"
  by (cases r) (simp_all add: of_option_def)

lemma execute_books:
  assumes "execute_message E fuel pcs config getHash h msg k igas tracker gp s = Done (r, s', gp', tr')" "consistent s"
  obtains res where "r = Ok res" "consistent s'"
    "total_supply s' = total_supply s + price_of h msg * uint (M_GasLimit msg - UsedGas res) + coinbase_share h msg (UsedGas res)"
    "solvent s \<Longrightarrow> 0 \<le> price_of h msg \<Longrightarrow> solvent s'"
proof -
  obtain e s1 run e1 res where e: "message_evm E config getHash h msg tracker (M_GasLimit msg - igas) s = Done e"
    and s1: "warm_up (if config = None then [] else pcs) h msg s = Some s1"
    and run: "run_message E fuel msg (M_GasLimit msg - igas) (gas_cost h msg + k)
      (set_db (if M_TxType msg = SetCodeTxType
               then ProcessAuthorizations (Crypto E) (M_AuthList msg) (Option.bind config ChainID) s1 else s1) e) = Done (run, e1)"
    and res: "settle_message config h msg igas (M_GasLimit msg - igas) gp run e1 = Done (res, s', gp')" "r = Ok res"
    using assms(1) by (auto simp: execute_message_def Let_def of_option_Done exec_bind_Done)
  let ?s2 = "if M_TxType msg = SetCodeTxType
    then ProcessAuthorizations (Crypto E) (M_AuthList msg) (Option.bind config ChainID) s1 else s1"
  have "tx_kept value_kept s ?s2"
    using tx_trans [OF warm_up_kept [OF s1] ProcessAuthorizations_kept] warm_up_kept [OF s1] by simp
  then have "run_from s (set_db ?s2 e)" by (simp add: run_from_def)
  then have "run_from s e1" using run_message_from [of s _ E fuel msg] run by (metis (no_types, lifting) case_prodD exec_all_simps(1))
  then obtain t where t: "StateDB e1 = Some t" "value_kept s t" "consistent t"
    using assms(2) by (auto simp: run_from_def tx_kept_def)
  show ?thesis
    by (rule that [OF res(2)]) (use settle_books [OF res(1) t(1)] t(2,3) in \<open>auto simp: value_kept_def\<close>)
qed

lemma calldata_cost_nonneg: "calldata_gas_cost config h msg = Some k \<Longrightarrow> 0 \<le> k"
  by (auto simp: calldata_gas_cost_def CalldataGasCost_def split: if_splits)

lemma apply_books:
  assumes "applyMessage E fuel pcs config getHash h msg tracker pool s = Done (Ok res, s', gp', tr')" "consistent s"
  obtains k where "calldata_gas_cost config h msg = Some k" "consistent s'"
    "total_supply s' = total_supply s - (if M_TxType msg = FrameTxType then 0 else gas_cost h msg + k)
       + price_of h msg * uint (M_GasLimit msg - UsedGas res) + coinbase_share h msg (UsedGas res)"
    "\<lbrakk>solvent s; 0 \<le> price_of h msg; 0 \<le> bigOrZero (M_Value msg); gas_cost h msg \<le> balance_gas_cost h msg\<rbrakk> \<Longrightarrow> solvent s'"
proof -
  obtain v k gp igas where k: "calldata_gas_cost config h msg = Some k" "M_Value msg = Some v"
    and bal: "M_TxType msg = FrameTxType \<or> v + balance_gas_cost h msg + k \<le> GetBalance (M_From msg) s"
    and ex: "execute_message E fuel pcs config getHash h msg k igas tracker gp (charge_sender h msg k s) = Done (Ok res, s', gp', tr')"
    using assms(1) by (auto simp: applyMessage_def Let_def not_less split: option.splits if_splits)
  have "consistent (charge_sender h msg k s)" by (rule consistent_kept [OF charge_kept assms(2)])
  from execute_books [OF ex this] have books: "consistent s'"
    "total_supply s' = total_supply (charge_sender h msg k s) + price_of h msg * uint (M_GasLimit msg - UsedGas res)
       + coinbase_share h msg (UsedGas res)"
    "solvent (charge_sender h msg k s) \<Longrightarrow> 0 \<le> price_of h msg \<Longrightarrow> solvent s'"
    by auto
  have "solvent (charge_sender h msg k s)"
    if "solvent s" "0 \<le> bigOrZero (M_Value msg)" "gas_cost h msg \<le> balance_gas_cost h msg"
    by (rule charge_solvent [OF that(1)]) (use bal that k in \<open>auto simp: bigOrZero_def\<close>)
  then show ?thesis using that [OF k(1) books(1)] books by (simp add: charge_supply)
qed

lemma execute_gas:
  assumes "metered_fork c h" "enough_fuel fuel msg" "igas = message_intrinsic (Some c) h msg s0" "igas \<le> M_GasLimit msg"
  shows "exec_ends (\<lambda>(r, s', gp', tr'). \<exists>res. r = Ok res \<and> UsedGas res \<le> BlockGasUsed res \<and> BlockGasUsed res \<le> M_GasLimit msg \<and>
      (prague_at (Some c) h \<longrightarrow> message_floor (Some c) h msg \<le> UsedGas res) \<and>
      gp' = pool - (if glamsterdan_at (Some c) h then BlockGasUsed res else UsedGas res))
    (execute_message E fuel pcs (Some c) getHash h msg k igas tracker (pool - M_GasLimit msg) s)"
proof -
  have left: "M_GasLimit msg - igas \<le> M_GasLimit msg" by (rule word_sub_le [OF assms(4)])
  have run: "exec_ends (\<lambda>((ret, g, addr, err, ctx), e'). g \<le> M_GasLimit msg - igas)
      (run_message E fuel msg (M_GasLimit msg - igas) j (set_db t e))" if "metered_evm e" for e t j
    by (rule run_message_metered [OF _ assms(2) left]) (simp add: that)
  have evm: "exec_ends metered_evm (message_evm E (Some c) getHash h msg tracker g s)" for g
    using message_evm_metered [OF _ assms(1), of E getHash msg tracker g s]
    by (cases "message_evm E (Some c) getHash h msg tracker g s") (auto simp: message_evm_def Let_def of_option_def split: option.splits)
  show ?thesis
    unfolding execute_message_def Let_def
    by (rule exec_ends_then [OF evm], rule exec_ends_option, rule exec_ends_then [OF run], assumption)
       (auto intro!: exec_ends_then [OF settle_gas [OF assms(3,4) _ refl]])
qed

lemma apply_gas:
  assumes "metered_fork c h" "enough_fuel fuel msg"
  shows "exec_ends (\<lambda>(r, s', gp', tr'). case r of
        Ok res \<Rightarrow> UsedGas res \<le> BlockGasUsed res \<and> BlockGasUsed res \<le> M_GasLimit msg \<and> M_GasLimit msg \<le> pool \<and>
          (prague_at (Some c) h \<longrightarrow> message_floor (Some c) h msg \<le> UsedGas res) \<and>
          gp' = pool - (if glamsterdan_at (Some c) h then BlockGasUsed res else UsedGas res)
      | Err err \<Rightarrow> gp' = pool
      | Panic \<Rightarrow> False)
    (applyMessage E fuel pcs (Some c) getHash h msg tracker pool s)"
  using assms
  by (auto simp: applyMessage_def pool_SubGas_def pool_AddGas_def Let_def not_less split: option.split
      intro!: exec_ends_mono [OF execute_gas [OF _ _ refl]])

lemma apply_rejected:
  assumes "applyMessage E fuel pcs config getHash h msg tracker pool s = Done (Err err, s', gp', tr')" "consistent s"
  shows "db_kept (\<lambda>s t. True) s s'" "gp' = pool" "tr' = tracker"
proof -
  have "execute_message E fuel pcs config getHash h msg k igas tracker gp t \<noteq> Done (Err err, s', gp', tr')"
    if "consistent t" for k igas gp t
    using execute_books [OF _ that] by (metis outcome.distinct(1))
  moreover have "consistent (charge_sender h msg k s)" for k by (rule consistent_kept [OF charge_kept assms(2)])
  ultimately show "db_kept (\<lambda>s t. True) s s'" "gp' = pool" "tr' = tracker"
    using assms(1) charge_kept any_view.db_kept_refl
    by (auto simp: applyMessage_def Let_def pool_SubGas_def pool_AddGas_def split: option.splits if_splits)
qed

section \<open>A whole transaction\<close>

definition tx_message :: "evm_env \<Rightarrow> chain_config \<Rightarrow> transaction \<Rightarrow> message" where
  "tx_message E c tx = TransactionToMessage (Keccak256 E) (recover_sender (Keccak256 E) c tx)"

lemma recover_sender_inner [simp]: "inner (recover_sender kec c tx) = inner tx"
  by (auto simp: recover_sender_def SetSender_def split: tx_data.split option.split outcome.split)

lemma tx_message_fields [simp]:
  "M_TxType (tx_message E c tx) = txType (inner tx)" "M_GasLimit (tx_message E c tx) = ApplyLocalTxDiscount (inner tx)"
  "M_Value (tx_message E c tx) = Some (bigOrZero (tx_value (inner tx)))" "M_GasPrice (tx_message E c tx) = tx_gasPrice (inner tx)"
  "M_GasFeeCap (tx_message E c tx) = tx_gasFeeCap (inner tx)" "M_GasTipCap (tx_message E c tx) = tx_gasTipCap (inner tx)"
  by (simp_all add: tx_message_def TransactionToMessage_def Let_def)

lemma tx_gasPrice_cap: "tx_gasPrice d = tx_gasFeeCap d"
  by (cases d) simp_all

text \<open>Amounts are not negative, as in every decoded transaction.\<close>

definition tx_amounts :: "tx_data \<Rightarrow> bool" where
  "tx_amounts d \<longleftrightarrow> 0 \<le> bigOrZero (tx_value d) \<and> 0 \<le> bigOrZero (tx_gasFeeCap d) \<and> 0 \<le> bigOrZero (tx_gasTipCap d)"

lemma tx_price:
  assumes "tx_amounts (inner tx)"
  shows "0 \<le> price_of h (tx_message E c tx)" "gas_cost h (tx_message E c tx) \<le> balance_gas_cost h (tx_message E c tx)"
proof -
  let ?msg = "tx_message E c tx"
  show p: "0 \<le> price_of h ?msg"
    using assms by (auto simp: tx_amounts_def price_of_def msgEffectiveGasPrice_def Let_def tx_gasPrice_cap bigOrZero_def split: option.splits)
  have "price_of h ?msg \<le> cap" if "tx_gasFeeCap (inner tx) = Some cap" for cap
    using that by (auto simp: price_of_def msgEffectiveGasPrice_def Let_def tx_gasPrice_cap bigOrZero_def split: option.splits)
  then show "gas_cost h ?msg \<le> balance_gas_cost h ?msg"
    by (auto simp: gas_cost_def balance_gas_cost_def price_of_def [symmetric] mult_right_mono split: option.split)
qed

lemma applied_cases:
  assumes "applyTransactionInternal E fuel pcs c getHash h tx tracker gp s = Done (r, s', gp', tr')"
  obtains "r = Err ErrPQNeedsIPlus" "s' = s" "gp' = gp" "tr' = tracker"
  | q where "applyMessage E fuel pcs (Some c) getHash h (tx_message E c tx) tracker gp (snd (Snapshot (ClearAccessList s))) = Done q"
    "finish_transaction (Keccak256 E) h (inner tx) (tx_message E c tx) (fst (Snapshot (ClearAccessList s))) q = Done (r, s', gp', tr')"
  using assms
  by (auto simp: applyTransactionInternal_def tx_message_def Let_def exec_bind_Done of_option_Done split_beta split: if_splits)

lemma applied_message:
  assumes "applyTransactionInternal E fuel pcs c getHash h tx tracker gp s = Done (Ok (receipt, used), s', gp', tr')"
  obtains res where "applyMessage E fuel pcs (Some c) getHash h (tx_message E c tx) tracker gp (snd (Snapshot (ClearAccessList s)))
      = Done (Ok res, s', gp', tr')" "used = UsedGas res"
  using assms
  by (rule applied_cases) (auto simp: finish_transaction_def exec_bind_Done of_option_Done split: outcome.splits)

lemma receipt_gas: "tx_receipt kec h d msg res s = Some receipt \<Longrightarrow> RC_BlockGasUsed receipt = BlockGasUsed res"
  by (auto simp: tx_receipt_def Let_def bind_eq_Some_conv)

lemma snapshot_kept: "tx_kept value_kept s (snd (Snapshot (ClearAccessList s)))"
  by (rule tx_trans [OF tx_kept_cleared(1) tx_kept_db [OF supply_view.kept_snapshot]])

definition gas_counted :: "chain_config \<Rightarrow> header \<Rightarrow> message \<Rightarrow> u64 \<Rightarrow> u64 \<Rightarrow> u64 \<Rightarrow> u64 \<Rightarrow> bool" where
  "gas_counted c h msg pool used blockUsed pool' \<longleftrightarrow>
     used \<le> blockUsed \<and> blockUsed \<le> M_GasLimit msg \<and> M_GasLimit msg \<le> pool \<and>
     (prague_at (Some c) h \<longrightarrow> message_floor (Some c) h msg \<le> used) \<and>
     pool' = pool - (if glamsterdan_at (Some c) h then blockUsed else used)"

lemma finish_gas:
  assumes "case r of Ok res \<Rightarrow> gas_counted c h msg pool (UsedGas res) (BlockGasUsed res) gp' | Err err \<Rightarrow> gp' = pool | Panic \<Rightarrow> False"
  shows "exec_ends (\<lambda>(r, s', gp', tr').
      case r of Ok (receipt, used) \<Rightarrow> gas_counted c h msg pool used (RC_BlockGasUsed receipt) gp' | Err err \<Rightarrow> gp' = pool | Panic \<Rightarrow> False)
    (finish_transaction kec h d msg sid (r, s', gp', tr'))"
  using assms by (cases r) (auto simp: finish_transaction_def intro!: exec_ends_option dest: receipt_gas)

lemma applied_gas:
  assumes "metered_fork c h" "enough_fuel fuel (tx_message E c tx)"
  shows "exec_ends (\<lambda>(r, s', gp', tr').
      case r of Ok (receipt, used) \<Rightarrow> gas_counted c h (tx_message E c tx) gp used (RC_BlockGasUsed receipt) gp'
      | Err err \<Rightarrow> gp' = gp | Panic \<Rightarrow> False)
    (applyTransactionInternal E fuel pcs c getHash h tx tracker gp s)"
proof -
  obtain sid s1 where sn: "Snapshot (ClearAccessList s) = (sid, s1)" by fastforce
  have "exec_ends (\<lambda>(r, s', gp', tr').
      case r of Ok res \<Rightarrow> gas_counted c h (tx_message E c tx) gp (UsedGas res) (BlockGasUsed res) gp' | Err err \<Rightarrow> gp' = gp | Panic \<Rightarrow> False)
    (applyMessage E fuel pcs (Some c) getHash h (tx_message E c tx) tracker gp s1)"
    using apply_gas [OF assms, of gp E pcs getHash tracker s1] unfolding gas_counted_def .
  then have "exec_ends (\<lambda>(r, s', gp', tr').
      case r of Ok (receipt, used) \<Rightarrow> gas_counted c h (tx_message E c tx) gp used (RC_BlockGasUsed receipt) gp'
      | Err err \<Rightarrow> gp' = gp | Panic \<Rightarrow> False)
    (exec_bind (applyMessage E fuel pcs (Some c) getHash h (tx_message E c tx) tracker gp s1)
      (finish_transaction (Keccak256 E) h (inner tx) (tx_message E c tx) sid))"
    by (rule exec_ends_then) (auto intro: finish_gas)
  then show ?thesis
    by (cases "Rules c (H_Number h) (config_IsMerge c) (H_Time h)")
       (simp_all add: applyTransactionInternal_def sn Let_def of_option_def tx_message_def)
qed

text \<open>A rejected transaction.\<close>

lemma same_cleared: "same_state s (ClearAccessList s)"
  by (rule same_objects) (simp_all add: ClearAccessList_def)

lemma applied_rejected:
  assumes "applyTransactionInternal E fuel pcs c getHash h tx tracker gp s = Done (Err err, s', gp', tr')" "consistent s"
  shows "same_state s s' \<and> consistent s' \<and> gp' = gp \<and> tr' = tracker"
  using assms(1)
proof (rule applied_cases)
  obtain sid s1 where sn: "Snapshot (ClearAccessList s) = (sid, s1)" by fastforce
  fix q assume m: "applyMessage E fuel pcs (Some c) getHash h (tx_message E c tx) tracker gp (snd (Snapshot (ClearAccessList s))) = Done q"
    and f: "finish_transaction (Keccak256 E) h (inner tx) (tx_message E c tx) (fst (Snapshot (ClearAccessList s))) q = Done (Err err, s', gp', tr')"
  obtain s2 where q: "q = (Err err, s2, gp', tr')" "RevertToSnapshot sid s2 = Some s'"
    using f sn by (cases q) (auto simp: finish_transaction_def exec_bind_Done of_option_Done split: outcome.splits)
  have cl: "consistent (ClearAccessList s)" using assms(2) tx_kept_cleared(1) [of s] by (simp add: tx_kept_def)
  have s1: "consistent s1" using snapshot_kept [of s] assms(2) sn by (simp add: tx_kept_def)
  note r = apply_rejected [OF m [unfolded sn snd_conv q(1)] s1]
  obtain hs where hs: "pdb_inv (ClearAccessList s) hs" using cl by (auto simp: consistent_def)
  have "restored (ClearAccessList s) s'" by (rule any_view.revert_restored [OF sn r(1) q(2) hs])
  then have "same_state (ClearAccessList s) s'" by (rule same.P_restored [OF valid_cleared(1)])
  moreover have "consistent s'" by (rule consistent_kept [OF any_view.kept_revert [OF sn r(1) q(2)] cl])
  ultimately show ?thesis using r(2,3) same.P_trans [OF same_cleared] by blast
qed (use assms(2) same.P_refl consistent_valid in auto)

end
