(* ===== verification/Tx_Books.thy ===== *)
theory Tx_Books
  imports Tx_Accounting
begin

text \<open>
  The properties of a whole transaction, and a transfer and a frame transaction on which they are evaluated.
\<close>

section \<open>A sample chain\<close>

text \<open>
  A chain on which London and the merge are active, a block with base fee 1, an account with 50000 wei and its transfer of nothing
  to an empty account; and a frame transaction whose only frame has an unknown mode.
\<close>

definition sample_config :: chain_config where
  "sample_config =
     \<lparr>ChainID = Some 1, HomesteadBlock = Some 0, EIP150Block = Some 0, EIP155Block = Some 0, EIP158Block = Some 0,
      ByzantiumBlock = Some 0, ConstantinopleBlock = Some 0, PetersburgBlock = Some 0, IstanbulBlock = Some 0,
      MuirGlacierBlock = Some 0, BerlinBlock = Some 0, LondonBlock = Some 0, ArrowGlacierBlock = None, GrayGlacierBlock = None,
      TerminalTotalDifficulty = Some 0, ShanghaiTime = Some 0, CancunTime = Some 0, PragueTime = Some 0,
      AmsterdamTime = None, GlamsterdanTime = None, HogotaTime = None, IPlusTime = None, BPO1Time = None, BPO2Time = None,
      EIP7864FinalHashTime = None, BinaryTreeHashFunc = []\<rparr>"

definition sample_head :: header where
  "sample_head = zero_header\<lparr>H_Number := Some 1, H_BaseFee := Some 1, H_Coinbase := 9, H_GasLimit := 100000\<rparr>"

definition sample_accounts :: statedb where
  "sample_accounts = AddBalance 1 50000 NewMemoryStateDB"

definition sample_transfer :: transaction where
  "sample_transfer =
     \<lparr>inner = DynamicFeeTx \<lparr>D_ChainID = Some 1, D_Nonce = 0, D_GasTipCap = Some 1, D_GasFeeCap = Some 2, D_Gas = 22000,
        D_To = Some 2, D_Value = Some 0, D_Data = [], D_AccessList = [], D_V = None, D_R = None, D_S = None\<rparr>,
      tx_from = Some 1, sidecar = None\<rparr>"

lemma sample_rules:
  "Rules sample_config (Some 1) (config_IsMerge sample_config) 0 = Some (the (Rules sample_config (Some 1) True 0))"
  "R_IsIPlus (the (Rules sample_config (Some 1) True 0)) = False"
  "SelectJumpTable (vm_rules (the (Rules sample_config (Some 1) True 0))) = NewPragueJumpTable"
  by (simp_all add: Rules_def sample_config_def config_IsMerge_def isBlockForked_def isTimestampForked_def Let_def
      vm_rules_def SelectJumpTable_def)

lemma sample_accounts_consistent: "consistent sample_accounts"
  by (rule consistent_built [of "\<lambda>b. b" "[OpAddBalance 1 50000]"]) (simp add: sample_accounts_def)

lemma sample_transfer_metered:
  "metered_fork sample_config sample_head" "enough_fuel 30000 (tx_message sample_env sample_config sample_transfer)"
  by (simp_all add: metered_fork_def Rules_def sample_config_def sample_head_def zero_header_def config_IsMerge_def isBlockForked_def
      isTimestampForked_def Let_def enough_fuel_def tx_message_def TransactionToMessage_def recover_sender_def sample_transfer_def
      ApplyLocalTxDiscount_def)

definition sample_msg :: message where
  "sample_msg =
     \<lparr>M_From = 1, M_To = Some 2, M_Nonce = 0, M_Value = Some 0, M_GasLimit = 22000, M_GasPrice = Some 2, M_GasFeeCap = Some 2,
      M_GasTipCap = Some 1, M_Data = [], M_AccessList = [], M_BlobHashes = [], M_AuthList = [], M_Frames = [], M_FrameSender = 0,
      M_TxType = 2, M_TxHash = hashRLP (Keccak256 sample_env) (inner sample_transfer)\<rparr>"

lemma sample_message: "tx_message sample_env sample_config sample_transfer = sample_msg"
  by (simp add: sample_msg_def tx_message_def TransactionToMessage_def recover_sender_def sample_transfer_def ApplyLocalTxDiscount_def
      Let_def bigOrZero_def BlobHashes_of_def AuthorizationList_def)

lemma sample_forks [simp]:
  "prague_at (Some sample_config) sample_head" "\<not> glamsterdan_at (Some sample_config) sample_head"
  "shanghai_at (Some sample_config) sample_head"
  by (simp_all add: sample_config_def sample_head_def zero_header_def prague_at_def glamsterdan_at_def shanghai_at_def config_IsMerge_def
      isTimestampForked_def)

lemmas db_eval = sample_accounts_def NewMemoryStateDB_def AddBalance_def SubBalance_def getOrNew_eq obj_of_def put_object_def
  set_balance_def log_change_def journal_append_def newJournal_def newStateObject_def newAccessList_def Snapshot_def
  journal_snapshot_def ClearAccessList_def getStateObject_def GetNonce_def GetBalance_def GetCodeHash_def GetCode_def GetRefund_def
  Exist_def SetNonce_def set_nonce_def Let_def NewAccount_def AddAddressToAccessList_def AddAddress_def

lemmas head_eval = sample_head_def zero_header_def has_base_fee_def bigOrZero_def msgEffectiveGasPrice_def

abbreviation sample_start :: statedb where
  "sample_start \<equiv> snd (Snapshot (ClearAccessList sample_accounts))"

abbreviation sample_flags :: fork_rules where
  "sample_flags \<equiv> vm_rules (the (Rules sample_config (Some 1) True 0))"

lemma sample_fork_rules:
  "Rules sample_config (H_Number sample_head) (config_IsMerge sample_config) (H_Time sample_head) =
     Some (the (Rules sample_config (Some 1) True 0))"
  "\<not> R_IsIPlus (the (Rules sample_config (Some 1) True 0))" "IsEIP158 sample_flags" "\<not> IsEIP7708 sample_flags"
  by (simp_all add: Rules_def sample_config_def sample_head_def zero_header_def config_IsMerge_def isBlockForked_def isTimestampForked_def
      Let_def vm_rules_def)

lemma sample_message_evm:
  "\<exists>e. message_evm sample_env (Some sample_config) None sample_head msg None g s = Done e \<and>
     depth e = 0 \<and> MaxCallDepth e = 1024 \<and> forkRules e = sample_flags \<and> (\<forall>t a. precompile sample_env (set_db t e) a = None)"
  by (simp add: message_evm_def Let_def sample_fork_rules of_option_def NewEVMWithState_def NewEVM_def SetBALTracker_def
      SetInitialReservoir_def SetDimGasUsage_def SetForkRules_def SetPrecompiles_def SetJumpTable_def set_db_def precompile_def
      SelectPrecompiles_def sample_env_def)

lemma sample_receipt:
  assumes "BlobGas d = 0"
  shows "\<exists>receipt. tx_receipt kec sample_head d msg r s = Some receipt"
  using assms by (simp add: tx_receipt_def blob_fields_def calldata_fields_def Let_def sample_head_def zero_header_def)

lemma sample_coinbase: "\<exists>t. pay_coinbase sample_flags sample_head msg used s = Some t"
  using sample_fork_rules(4) by (simp add: pay_coinbase_def Let_def sample_head_def zero_header_def has_base_fee_def)

lemma sample_transaction:
  assumes "applyMessage sample_env 30000 [] (Some sample_config) None sample_head (tx_message sample_env sample_config tx) None 100000 sample_start
      = Done (Ok r, s', gp', tr')" "BlobGas (inner tx) = 0" "txType (inner tx) \<noteq> 7"
  shows "\<exists>receipt. applyTransactionInternal sample_env 30000 [] sample_config None sample_head tx None 100000 sample_accounts =
     Done (Ok (receipt, UsedGas r), s', gp', tr')"
proof -
  obtain sid s0 where sn: "Snapshot (ClearAccessList sample_accounts) = (sid, s0)" by fastforce
  then have "applyMessage sample_env 30000 [] (Some sample_config) None sample_head
      (TransactionToMessage (Keccak256 sample_env) (recover_sender (Keccak256 sample_env) sample_config tx)) None 100000 s0
      = Done (Ok r, s', gp', tr')" using assms(1) by (simp add: tx_message_def)
  moreover obtain receipt where "tx_receipt (Keccak256 sample_env) sample_head (inner tx)
      (TransactionToMessage (Keccak256 sample_env) (recover_sender (Keccak256 sample_env) sample_config tx)) r s' = Some receipt"
    using sample_receipt [OF assms(2)] by blast
  ultimately show ?thesis
    using assms(3) sn by (simp add: applyTransactionInternal_def sample_fork_rules of_option_def finish_transaction_def Let_def)
qed

subsection \<open>The transfer\<close>






subsection \<open>The frame transaction\<close>

definition sample_frames :: transaction where
  "sample_frames =
     \<lparr>inner = FrameTx \<lparr>F_ChainID = Some 1, F_Nonce = Some 0, F_Sender = 5,
        F_Frames = [\<lparr>FD_Mode = 7, FD_Target = None, FD_GasLimit = 60000, FD_Data = []\<rparr>],
        F_MaxPriorityFeePerGas = Some 1, F_MaxFeePerGas = Some 2, F_MaxFeePerBlobGas = None, F_BlobVersionedHashes = []\<rparr>,
      tx_from = None, sidecar = None\<rparr>"

definition frame_msg :: message where
  "frame_msg =
     \<lparr>M_From = 5, M_To = None, M_Nonce = 0, M_Value = Some 0, M_GasLimit = 75128, M_GasPrice = Some 2, M_GasFeeCap = Some 2,
      M_GasTipCap = Some 1, M_Data = [], M_AccessList = [], M_BlobHashes = [], M_AuthList = [],
      M_Frames = [\<lparr>FD_Mode = 7, FD_Target = None, FD_GasLimit = 60000, FD_Data = []\<rparr>], M_FrameSender = 5,
      M_TxType = 6, M_TxHash = hashRLP (Keccak256 sample_env) (inner sample_frames)\<rparr>"

lemma frame_gas: "tx_gas (inner sample_frames) = 75128"
  by code_simp

lemma frame_message: "tx_message sample_env sample_config sample_frames = frame_msg"
proof -
  have "TransactionToMessage kec tx = frame_msg" if "inner tx = inner sample_frames" "kec = Keccak256 sample_env" for tx kec
    using frame_gas that
    by (simp add: frame_msg_def TransactionToMessage_def sample_frames_def ApplyLocalTxDiscount_def Let_def bigOrZero_def
        BlobHashes_of_def AuthorizationList_def FrameSender_def tx_Frames_def NonceSeq_def)
  then show ?thesis by (simp add: tx_message_def)
qed

lemma frame_costs:
  "msg_invalid sample_head frame_msg sample_start = None" "calldata_gas_cost (Some sample_config) sample_head frame_msg = Some 0"
  "charge_sender sample_head frame_msg 0 s = s"
  by (simp_all add: frame_msg_def msg_invalid_def fee_caps_error_def head_eval db_eval calldata_gas_cost_def charge_sender_def)

lemma frame_intrinsic: "message_intrinsic (Some sample_config) sample_head frame_msg s = 53000"
  by (simp add: frame_msg_def message_intrinsic_def message_floor_def calldataFloorGas_def intrinsicGas_def per_byte_def
      auth_count_def accessListGas_def u64_len_def Let_def)

lemma frame_warm: "\<exists>s. warm_up [] sample_head frame_msg sample_start = Some s \<and> GetNonce 5 s = 0 \<and> GetRefund s = 0"
  by (simp add: warm_up_def frame_msg_def head_eval db_eval)

lemma frame_applied:
  "\<exists>r s' gp' tr'. applyMessage sample_env 30000 [] (Some sample_config) None sample_head frame_msg None 100000 sample_start =
     Done (Ok r, s', gp', tr') \<and> UsedGas r = 75128"
proof -
  obtain s where s: "warm_up [] sample_head frame_msg sample_start = Some s" "GetNonce 5 s = 0" "GetRefund s = 0" using frame_warm by blast
  obtain e where e: "message_evm sample_env (Some sample_config) None sample_head frame_msg None 22128 sample_start = Done e"
    "forkRules e = sample_flags" using sample_message_evm by blast
  have m: "M_GasLimit frame_msg = 75128" "M_TxType frame_msg = 6" "M_Value frame_msg = Some 0" "M_FrameSender frame_msg = 5"
    "M_Frames frame_msg = [\<lparr>FD_Mode = 7, FD_Target = None, FD_GasLimit = 60000, FD_Data = []\<rparr>]"
    by (simp_all add: frame_msg_def)
  have "final_gas (Some sample_config) sample_head frame_msg 0 75128 = (75128, 75128)"
    by (simp add: final_gas_def message_floor_def frame_msg_def calldataFloorGas_def per_byte_def Let_def)
  moreover have "\<exists>t. pay_coinbase (forkRules e) sample_head frame_msg 75128 x = Some t" for x
    unfolding e(2) by (rule sample_coinbase)
  moreover have "ExecuteFrameTx (message_frame_tx frame_msg) 0 f st = Done (Err (ErrFrameInvalidMode 7), st)" for f and st :: evm
    by (simp add: ExecuteFrameTx_def message_frame_tx_def NonceSeq_def frame_msg_def frame_caller_def Let_def)
  ultimately show ?thesis
    using s(2,3) e(1)
    by (simp add: applyMessage_def frame_costs frame_intrinsic m pool_SubGas_def execute_message_def s(1) of_option_def run_message_def
        run_frames_def Let_def settle_message_def split: option.split)
qed

lemma frames_applied:
  "\<exists>receipt s' gp' tr'. applyTransactionInternal sample_env 30000 [] sample_config None sample_head sample_frames None 100000 sample_accounts =
     Done (Ok (receipt, 75128), s', gp', tr')"
proof -
  have "BlobGas (inner sample_frames) = 0" "txType (inner sample_frames) \<noteq> 7"
    by (simp_all add: sample_frames_def BlobGas_def)
  then show ?thesis
    using frame_applied sample_transaction [of sample_frames] unfolding frame_message by metis
qed

lemma sample_rejected:
  "\<exists>s'. applyTransactionInternal sample_env 30000 [] sample_config None sample_head sample_transfer None 10 sample_accounts =
     Done (Err ErrGasPoolExhausted, s', 10, None)"
proof -
  obtain sid s0 where sn: "Snapshot (ClearAccessList sample_accounts) = (sid, s0)" by fastforce
  have "\<exists>t. RevertToSnapshot sid s0 = Some t"
    using sn by (auto simp: db_eval RevertToSnapshot_def revertToSnapshot_def)
  moreover have "applyMessage sample_env 30000 [] (Some sample_config) None sample_head
      (TransactionToMessage (Keccak256 sample_env) (recover_sender (Keccak256 sample_env) sample_config sample_transfer)) None 10 s0
      = Done (Err ErrGasPoolExhausted, s0, 10, None)"
    unfolding tx_message_def [symmetric] sample_message by (simp add: applyMessage_def sample_msg_def pool_SubGas_def)
  moreover have "txType (inner sample_transfer) \<noteq> 7" by (simp add: sample_transfer_def)
  ultimately show ?thesis
    using sn by (auto simp: applyTransactionInternal_def sample_fork_rules of_option_def finish_transaction_def Let_def)
qed

section \<open>Properties\<close>



text \<open>
  C2. Applying a transaction ends, and the gas pool of the block counts what it used.  On any fork from
  Berlin up to but not including Glamsterdam, and not on I+ (\<open>metered_fork\<close>), fuel above the gas limit and that of each frame is enough
  for the whole transaction; it uses at most its gas limit, and where Prague is active at least the floor of its calldata; the pool
  falls by exactly what was used; and when the transaction is rejected the pool is as before.
\<close>

theorem transaction_gas:
  assumes "metered_fork c h" "enough_fuel fuel (tx_message E c tx)"
  shows "applyTransactionInternal E fuel pcs c getHash h tx tracker gp s \<noteq> NoFuel \<and>
    (\<forall>receipt used s' gp' tr'. applyTransactionInternal E fuel pcs c getHash h tx tracker gp s = Done (Ok (receipt, used), s', gp', tr') \<longrightarrow>
       used \<le> ApplyLocalTxDiscount (inner tx) \<and> used \<le> RC_BlockGasUsed receipt \<and>
       (prague_at (Some c) h \<longrightarrow> message_floor (Some c) h (tx_message E c tx) \<le> used) \<and>
       uint gp' = uint gp - uint (if glamsterdan_at (Some c) h then RC_BlockGasUsed receipt else used)) \<and>
    (\<forall>err s' gp' tr'. applyTransactionInternal E fuel pcs c getHash h tx tracker gp s = Done (Err err, s', gp', tr') \<longrightarrow> gp' = gp)"
  using applied_gas [OF assms, of gp pcs getHash tracker s]
  by (cases "applyTransactionInternal E fuel pcs c getHash h tx tracker gp s") (auto simp: gas_counted_def u64_split)

theorem transaction_gas_witness:
  "applyTransactionInternal sample_env 30000 [] sample_config None sample_head sample_transfer None 100000 sample_accounts \<noteq> NoFuel"
  using transaction_gas [OF sample_transfer_metered] by blast

text \<open>
  C3. A rejected transaction leaves no trace.  When applying a transaction returns an error, every balance, nonce, code,
  storage slot, transient slot, log and the refund counter are what they were, and so are the gas pool and the access tracker.
\<close>

theorem transaction_rejected:
  assumes "applyTransactionInternal E fuel pcs c getHash h tx tracker gp s = Done (Err err, s', gp', tr')" "consistent s"
  shows "same_state s s' \<and> consistent s' \<and> gp' = gp \<and> tr' = tracker"
  by (rule applied_rejected [OF assms])

theorem transaction_rejected_witness:
  "\<exists>err s' gp' tr'. applyTransactionInternal sample_env 30000 [] sample_config None sample_head sample_transfer None 10 sample_accounts =
     Done (Err err, s', gp', tr') \<and> same_state sample_accounts s' \<and> gp' = 10"
  using sample_rejected transaction_rejected [OF _ sample_accounts_consistent] by blast

text \<open>
  C10. Frame transactions mint value.  A frame transaction is never charged for its gas, yet the gas it leaves is
  refunded and the coinbase is paid: when one is applied, even if its frames fail, the sum of all balances grows by the price of the unused gas
  and the tip for the gas used.
\<close>

theorem frame_transaction_mints:
  assumes "applyTransactionInternal E fuel pcs c getHash h tx tracker gp s = Done (Ok (receipt, used), s', gp', tr')"
    and "consistent s" "txType (inner tx) = FrameTxType"
  shows "total_supply s' = total_supply s + price_of h (tx_message E c tx) * uint (ApplyLocalTxDiscount (inner tx) - used)
    + coinbase_share h (tx_message E c tx) used"
proof -
  obtain res where res: "applyMessage E fuel pcs (Some c) getHash h (tx_message E c tx) tracker gp (snd (Snapshot (ClearAccessList s)))
      = Done (Ok res, s', gp', tr')" "used = UsedGas res" by (rule applied_message [OF assms(1)])
  have s: "value_kept s (snd (Snapshot (ClearAccessList s)))" "consistent (snd (Snapshot (ClearAccessList s)))"
    using snapshot_kept [of s] assms(2) by (auto simp: tx_kept_def)
  show ?thesis
    by (rule apply_books [OF res(1) s(2)]) (use assms(3) res(2) s(1) in \<open>simp add: value_kept_def\<close>)
qed

theorem frame_transaction_mints_witness:
  "\<exists>receipt s' gp' tr'. applyTransactionInternal sample_env 30000 [] sample_config None sample_head sample_frames None 100000 sample_accounts =
     Done (Ok (receipt, 75128), s', gp', tr') \<and> total_supply s' = total_supply sample_accounts + 75128"
proof -
  obtain receipt s' gp' tr' where r: "applyTransactionInternal sample_env 30000 [] sample_config None sample_head sample_frames None
      100000 sample_accounts = Done (Ok (receipt, 75128), s', gp', tr')" using frames_applied by blast
  have "txType (inner sample_frames) = FrameTxType" and gas: "ApplyLocalTxDiscount (inner sample_frames) = 75128"
    using frame_gas by (simp_all add: sample_frames_def ApplyLocalTxDiscount_def)
  from frame_transaction_mints [OF r sample_accounts_consistent this(1)]
  have "total_supply s' = total_supply sample_accounts + coinbase_share sample_head frame_msg 75128"
    by (simp add: frame_message gas)
  moreover have "coinbase_share sample_head frame_msg 75128 = 75128"
    by (simp add: coinbase_share_def price_of_def frame_msg_def head_eval)
  ultimately show ?thesis using r by auto
qed

end
