(* ===== verification/Bal_List.thy ===== *)
theory Bal_List
  imports Evm_State Tx_Types "HOL-Library.Product_Lexorder" "HOL-Library.Multiset"
begin

text \<open>
  Block access lists (EIP-7928), \<^verbatim>\<open>src/pkg/bal\<close>: the entries (\<^verbatim>\<open>types.go\<close>), the tracker that records the
  accesses of one phase of a block (\<^verbatim>\<open>tracker.go\<close>), the tracker of a whole block
  (\<^verbatim>\<open>block_tracker.go\<close>), the check of the order (\<^verbatim>\<open>validator.go\<close>) and the hashes
  (\<^verbatim>\<open>hash.go\<close>, \<^verbatim>\<open>hash_extended.go\<close>).

  A \<open>*BlockAccessList\<close> is the list of its entries; the functions that test it for nil treat nil and the
  empty list alike.  Addresses and hashes are words, whose order is that of their bytes.
\<close>

section \<open>Entries\<close>

record storage_access =
  SA_Slot :: hash
  SA_Value :: hash

record storage_change =
  SC_Slot :: hash
  SC_OldValue :: hash
  SC_NewValue :: hash

record balance_change =
  BD_OldValue :: "int option"
  BD_NewValue :: "int option"

record nonce_change =
  ND_OldValue :: u64
  ND_NewValue :: u64

record code_change =
  CD_OldCode :: bytes
  CD_NewCode :: bytes

record access_entry =
  AE_Address :: address
  AE_AccessIndex :: u64
  AE_StorageReads :: "storage_access list"
  AE_StorageChanges :: "storage_change list"
  AE_BalanceChange :: "balance_change option"
  AE_NonceChange :: "nonce_change option"
  AE_CodeChange :: "code_change option"

type_synonym block_access_list = "access_entry list"

definition AddEntry :: "access_entry \<Rightarrow> block_access_list \<Rightarrow> block_access_list" where
  "AddEntry e es = es @ [e]"

definition entry_key :: "access_entry \<Rightarrow> address \<times> u64" where
  "entry_key e = (AE_Address e, AE_AccessIndex e)"

text \<open>\<open>sort.SliceStable\<close> by address and access index.\<close>

definition bal_Sort :: "block_access_list \<Rightarrow> block_access_list" where
  "bal_Sort es = sort_key entry_key es"

section \<open>The order of entries\<close>

abbreviation (input) BALItemCost :: u64 where "BALItemCost \<equiv> 2000"

datatype bal_error = ErrBALSizeExceeded | ErrBALAddressOrder nat | ErrBALDuplicate nat

text \<open>The position in an error is that of the later entry.\<close>

fun check_order :: "nat \<Rightarrow> block_access_list \<Rightarrow> bal_error option" where
  "check_order i (prev # cur # rest) =
     (if AE_Address prev > AE_Address cur then Some (ErrBALAddressOrder i)
      else if AE_Address prev = AE_Address cur \<and> AE_AccessIndex prev \<ge> AE_AccessIndex cur then Some (ErrBALDuplicate i)
      else check_order (i + 1) (cur # rest))"
| "check_order i es = None"

definition ValidateBALOrdering :: "block_access_list \<Rightarrow> bal_error option" where
  "ValidateBALOrdering es = check_order 1 es"

section \<open>The tracker of a phase\<close>

text \<open>\<open>slotKey\<close>, ordered by address and then by slot.\<close>

datatype slot_key = SlotKey (SK_Addr: address) (SK_Slot: hash)

instantiation slot_key :: linorder
begin

definition less_eq_slot_key :: "slot_key \<Rightarrow> slot_key \<Rightarrow> bool" where
  "less_eq_slot_key k l \<longleftrightarrow> SK_Addr k < SK_Addr l \<or> SK_Addr k = SK_Addr l \<and> SK_Slot k \<le> SK_Slot l"

definition less_slot_key :: "slot_key \<Rightarrow> slot_key \<Rightarrow> bool" where
  "less_slot_key k l \<longleftrightarrow> SK_Addr k < SK_Addr l \<or> SK_Addr k = SK_Addr l \<and> SK_Slot k < SK_Slot l"

instance
  by intro_classes (auto simp: less_eq_slot_key_def less_slot_key_def slot_key.expand)

end

record access_tracker =
  T_reads :: "(slot_key, hash) fmap"
  T_changes :: "(slot_key, hash \<times> hash) fmap"
  T_balanceChanges :: "(address, balance_change) fmap"
  T_nonceChanges :: "(address, nonce_change) fmap"
  T_codeChanges :: "(address, code_change) fmap"
  T_touchedAddrs :: "address fset"

definition NewTracker :: access_tracker where
  "NewTracker = \<lparr>T_reads = fmempty, T_changes = fmempty, T_balanceChanges = fmempty, T_nonceChanges = fmempty,
     T_codeChanges = fmempty, T_touchedAddrs = {||}\<rparr>"

definition tracker_RecordAddressTouch :: "address \<Rightarrow> access_tracker \<Rightarrow> access_tracker" where
  "tracker_RecordAddressTouch a t = t\<lparr>T_touchedAddrs := finsert a (T_touchedAddrs t)\<rparr>"

definition tracker_RecordStorageRead :: "address \<Rightarrow> hash \<Rightarrow> hash \<Rightarrow> access_tracker \<Rightarrow> access_tracker" where
  "tracker_RecordStorageRead a slot v t =
     t\<lparr>T_reads := fmupd (SlotKey a slot) v (T_reads t), T_touchedAddrs := finsert a (T_touchedAddrs t)\<rparr>"

definition tracker_RecordStorageChange :: "address \<Rightarrow> hash \<Rightarrow> hash \<Rightarrow> hash \<Rightarrow> access_tracker \<Rightarrow> access_tracker" where
  "tracker_RecordStorageChange a slot oldVal newVal t =
     t\<lparr>T_changes := fmupd (SlotKey a slot) (oldVal, newVal) (T_changes t), T_touchedAddrs := finsert a (T_touchedAddrs t)\<rparr>"

definition tracker_RecordBalanceChange :: "address \<Rightarrow> int \<Rightarrow> int \<Rightarrow> access_tracker \<Rightarrow> access_tracker" where
  "tracker_RecordBalanceChange a oldBal newBal t =
     t\<lparr>T_balanceChanges := fmupd a \<lparr>BD_OldValue = Some oldBal, BD_NewValue = Some newBal\<rparr> (T_balanceChanges t),
       T_touchedAddrs := finsert a (T_touchedAddrs t)\<rparr>"

definition tracker_RecordNonceChange :: "address \<Rightarrow> u64 \<Rightarrow> u64 \<Rightarrow> access_tracker \<Rightarrow> access_tracker" where
  "tracker_RecordNonceChange a oldNonce newNonce t =
     t\<lparr>T_nonceChanges := fmupd a \<lparr>ND_OldValue = oldNonce, ND_NewValue = newNonce\<rparr> (T_nonceChanges t),
       T_touchedAddrs := finsert a (T_touchedAddrs t)\<rparr>"

definition tracker_RecordCodeChange :: "address \<Rightarrow> bytes \<Rightarrow> bytes \<Rightarrow> access_tracker \<Rightarrow> access_tracker" where
  "tracker_RecordCodeChange a oldCode newCode t =
     t\<lparr>T_codeChanges := fmupd a \<lparr>CD_OldCode = oldCode, CD_NewCode = newCode\<rparr> (T_codeChanges t),
       T_touchedAddrs := finsert a (T_touchedAddrs t)\<rparr>"

definition tracker_Reset :: "access_tracker \<Rightarrow> access_tracker" where
  "tracker_Reset t = NewTracker"

text \<open>The calls the interpreter has made, newest first, on a tracker.\<close>

fun tracker_call :: "bal_event \<Rightarrow> access_tracker \<Rightarrow> access_tracker" where
  "tracker_call (RecordStorageRead a slot v) t = tracker_RecordStorageRead a slot v t"
| "tracker_call (RecordStorageChange a slot v w) t = tracker_RecordStorageChange a slot v w t"
| "tracker_call (RecordBalanceChange a v w) t = tracker_RecordBalanceChange a v w t"
| "tracker_call (RecordAddressTouch a) t = tracker_RecordAddressTouch a t"

definition tracker_calls :: "bal_event list \<Rightarrow> access_tracker" where
  "tracker_calls evs = foldr tracker_call evs NewTracker"

text \<open>The entry of one address.  The loops over the maps collect in key order; what they collect is sorted.\<close>

definition build_entry :: "access_tracker \<Rightarrow> u64 \<Rightarrow> address \<Rightarrow> access_entry" where
  "build_entry t ti a =
     \<lparr>AE_Address = a, AE_AccessIndex = ti,
      AE_StorageReads = sort_key SA_Slot (map (\<lambda>k. \<lparr>SA_Slot = SK_Slot k, SA_Value = the (fmlookup (T_reads t) k)\<rparr>)
        (filter (\<lambda>k. SK_Addr k = a) (fm_keys (T_reads t)))),
      AE_StorageChanges = sort_key SC_Slot (map (\<lambda>k. \<lparr>SC_Slot = SK_Slot k, SC_OldValue = fst (the (fmlookup (T_changes t) k)),
          SC_NewValue = snd (the (fmlookup (T_changes t) k))\<rparr>)
        (filter (\<lambda>k. SK_Addr k = a) (fm_keys (T_changes t)))),
      AE_BalanceChange = fmlookup (T_balanceChanges t) a,
      AE_NonceChange = fmlookup (T_nonceChanges t) a,
      AE_CodeChange = fmlookup (T_codeChanges t) a\<rparr>"

definition tracker_Build :: "u64 \<Rightarrow> access_tracker \<Rightarrow> block_access_list" where
  "tracker_Build ti t = fold (\<lambda>a. AddEntry (build_entry t ti a)) (sorted_list_of_fset (T_touchedAddrs t)) []"

section \<open>The tracker of a block\<close>

record block_bal_tracker =
  BT_gasLimit :: u64
  BT_maxItems :: u64
  BT_itemCount :: u64
  BT_currentIdx :: u64
  BT_entries :: block_access_list
  BT_addressSeen :: "(address \<times> u64) fset"

definition NewBlockBALTracker :: "u64 \<Rightarrow> block_bal_tracker" where
  "NewBlockBALTracker gl = \<lparr>BT_gasLimit = gl, BT_maxItems = gl div BALItemCost, BT_itemCount = 0, BT_currentIdx = 0,
     BT_entries = [], BT_addressSeen = {||}\<rparr>"

definition BeginPreExecution :: "block_bal_tracker \<Rightarrow> block_bal_tracker" where
  "BeginPreExecution t = t\<lparr>BT_currentIdx := 0\<rparr>"

definition BeginTx :: "u64 \<Rightarrow> block_bal_tracker \<Rightarrow> block_bal_tracker" where
  "BeginTx ti t = t\<lparr>BT_currentIdx := ti\<rparr>"

definition BeginPostExecution :: "u64 \<Rightarrow> block_bal_tracker \<Rightarrow> block_bal_tracker" where
  "BeginPostExecution txCount t = t\<lparr>BT_currentIdx := txCount + 1\<rparr>"

definition plain_entry :: "address \<Rightarrow> u64 \<Rightarrow> access_entry" where
  "plain_entry a i = \<lparr>AE_Address = a, AE_AccessIndex = i, AE_StorageReads = [], AE_StorageChanges = [],
     AE_BalanceChange = None, AE_NonceChange = None, AE_CodeChange = None\<rparr>"

definition RecordAccess :: "address \<Rightarrow> block_bal_tracker \<Rightarrow> (bal_error, unit) outcome \<times> block_bal_tracker" where
  "RecordAccess a t =
     (if (a, BT_currentIdx t) |\<in>| BT_addressSeen t then (Ok (), t)
      else if BT_itemCount t \<ge> BT_maxItems t then (Err ErrBALSizeExceeded, t)
      else (Ok (), t\<lparr>BT_addressSeen := finsert (a, BT_currentIdx t) (BT_addressSeen t), BT_itemCount := BT_itemCount t + 1,
              BT_entries := BT_entries t @ [plain_entry a (BT_currentIdx t)]\<rparr>))"

section \<open>Hashes\<close>

text \<open>The reflected value of a list, as the RLP encoder sees it.\<close>

definition entry_val :: "access_entry \<Rightarrow> goval" where
  "entry_val e =
     VStruct [fld (VByteArray (address_bytes (AE_Address e))), fld (VUint (AE_AccessIndex e)),
       fld (VSlice (map (\<lambda>r. VStruct [fld (VByteArray (hash_bytes (SA_Slot r))), fld (VByteArray (hash_bytes (SA_Value r)))])
         (AE_StorageReads e))),
       fld (VSlice (map (\<lambda>c. VStruct [fld (VByteArray (hash_bytes (SC_Slot c))), fld (VByteArray (hash_bytes (SC_OldValue c))),
         fld (VByteArray (hash_bytes (SC_NewValue c)))]) (AE_StorageChanges e))),
       fld (VPtr (map_option (\<lambda>b. VStruct [fld (nil_big_val (BD_OldValue b)), fld (nil_big_val (BD_NewValue b))]) (AE_BalanceChange e))),
       fld (VPtr (map_option (\<lambda>n. VStruct [fld (VUint (ND_OldValue n)), fld (VUint (ND_NewValue n))]) (AE_NonceChange e))),
       fld (VPtr (map_option (\<lambda>c. VStruct [fld (VBytes (CD_OldCode c)), fld (VBytes (CD_NewCode c))]) (AE_CodeChange e)))]"

definition bal_EncodeRLP :: "block_access_list \<Rightarrow> (rlp_error, bytes) outcome" where
  "bal_EncodeRLP es = EncodeToBytes (VPtr (Some (VStruct [fld (VSlice (map entry_val es))])))"

definition bal_Hash :: "(bytes \<Rightarrow> bytes) \<Rightarrow> block_access_list \<Rightarrow> hash option" where
  "bal_Hash kec es =
     (case bal_EncodeRLP es of Ok enc \<Rightarrow> Some (BytesToHash (kec enc)) | Err err \<Rightarrow> Some 0 | Panic \<Rightarrow> None)"

text \<open>What \<open>HashAccessEntry\<close> hashes.\<close>

definition entry_preimage :: "access_entry \<Rightarrow> bytes" where
  "entry_preimage e =
     address_bytes (AE_Address e) @ putUint64 (AE_AccessIndex e) @
     concat (map (\<lambda>r. hash_bytes (SA_Slot r) @ hash_bytes (SA_Value r)) (AE_StorageReads e)) @
     concat (map (\<lambda>c. hash_bytes (SC_Slot c) @ hash_bytes (SC_OldValue c) @ hash_bytes (SC_NewValue c)) (AE_StorageChanges e)) @
     (case AE_BalanceChange e of
        None \<Rightarrow> []
      | Some b \<Rightarrow> (case BD_OldValue b of None \<Rightarrow> [] | Some v \<Rightarrow> big_bytes v) @ [0xff] @
                  (case BD_NewValue b of None \<Rightarrow> [] | Some v \<Rightarrow> big_bytes v)) @
     (case AE_NonceChange e of None \<Rightarrow> [] | Some n \<Rightarrow> putUint64 (ND_OldValue n) @ putUint64 (ND_NewValue n)) @
     (case AE_CodeChange e of None \<Rightarrow> [] | Some c \<Rightarrow> CD_OldCode c @ [0xfe] @ CD_NewCode c)"

definition HashAccessEntry :: "(bytes \<Rightarrow> bytes) \<Rightarrow> access_entry \<Rightarrow> hash" where
  "HashAccessEntry kec e = BytesToHash (kec (entry_preimage e))"

definition hashPair :: "(bytes \<Rightarrow> bytes) \<Rightarrow> hash \<Rightarrow> hash \<Rightarrow> hash" where
  "hashPair kec l r = BytesToHash (kec (hash_bytes l @ hash_bytes r))"

fun next_layer :: "(bytes \<Rightarrow> bytes) \<Rightarrow> hash list \<Rightarrow> hash list" where
  "next_layer kec (l # r # rest) = hashPair kec l r # next_layer kec rest"
| "next_layer kec layer = layer"

lemma next_layer_length: "length (next_layer kec layer) = (length layer + 1) div 2"
  by (induction kec layer rule: next_layer.induct) auto

function bal_merkle_loop :: "(bytes \<Rightarrow> bytes) \<Rightarrow> hash list \<Rightarrow> hash" where
  "bal_merkle_loop kec layer = (if length layer > 1 then bal_merkle_loop kec (next_layer kec layer) else layer ! 0)"
  by auto
termination
  by (relation "measure (\<lambda>(kec, layer). length layer)") (auto simp: next_layer_length)

declare bal_merkle_loop.simps [simp del]

definition computeMerkleRoot :: "(bytes \<Rightarrow> bytes) \<Rightarrow> hash list \<Rightarrow> hash" where
  "computeMerkleRoot kec leaves =
     (if length leaves = 0 then 0 else if length leaves = 1 then leaves ! 0 else bal_merkle_loop kec leaves)"

definition EntryHashes :: "(bytes \<Rightarrow> bytes) \<Rightarrow> block_access_list \<Rightarrow> hash list" where
  "EntryHashes kec es = map (HashAccessEntry kec) es"

definition MerkleRoot :: "(bytes \<Rightarrow> bytes) \<Rightarrow> block_access_list \<Rightarrow> hash" where
  "MerkleRoot kec es = (if es = [] then 0 else computeMerkleRoot kec (map (HashAccessEntry kec) es))"

definition VerifyMerkleRoot :: "(bytes \<Rightarrow> bytes) \<Rightarrow> block_access_list \<Rightarrow> hash \<Rightarrow> bool" where
  "VerifyMerkleRoot kec es expectedRoot \<longleftrightarrow> MerkleRoot kec es = expectedRoot"

text \<open>
  The workers of \<open>ParallelMerkleRoot\<close> write disjoint parts of \<open>leaves\<close>, so the order in which they run
  is not observable: worker \<open>w\<close> writes the positions of its chunk.
\<close>

definition chunk_bounds :: "nat \<Rightarrow> nat \<Rightarrow> nat \<Rightarrow> nat \<times> nat" where
  "chunk_bounds n workers w =
     (let chunkSize = (n + workers - 1) div workers; start = w * chunkSize; stop = start + chunkSize in
      (start, if stop > n then n else stop))"

definition worker_writes :: "(bytes \<Rightarrow> bytes) \<Rightarrow> block_access_list \<Rightarrow> nat \<times> nat \<Rightarrow> hash list \<Rightarrow> hash list" where
  "worker_writes kec es b leaves = fold (\<lambda>i l. l[i := HashAccessEntry kec (es ! i)]) [fst b..<snd b] leaves"

definition ParallelMerkleRoot :: "(bytes \<Rightarrow> bytes) \<Rightarrow> block_access_list \<Rightarrow> int \<Rightarrow> hash" where
  "ParallelMerkleRoot kec es workers =
     (if es = [] then 0
      else
        let workers = (if workers < 1 then 1 else workers);
            workers = nat (if workers > int (length es) then int (length es) else workers);
            bounds = takeWhile (\<lambda>(start, stop). start < stop) (map (chunk_bounds (length es) workers) [0..<workers]) in
        computeMerkleRoot kec (fold (worker_writes kec es) bounds (replicate (length es) 0)))"

definition HashAddressSlot :: "(bytes \<Rightarrow> bytes) \<Rightarrow> address \<Rightarrow> hash \<Rightarrow> hash" where
  "HashAddressSlot kec a slot = BytesToHash (kec (address_bytes a @ hash_bytes slot))"

section \<open>Order\<close>

text \<open>A list passes the check exactly when its keys increase strictly.\<close>

lemma check_order_iff: "check_order i es = None \<longleftrightarrow> sorted_wrt (<) (map entry_key es)"
proof (induction i es rule: check_order.induct)
  case (1 i prev cur rest)
  have "sorted_wrt (<) (map entry_key (prev # cur # rest)) \<longleftrightarrow>
      entry_key prev < entry_key cur \<and> sorted_wrt (<) (map entry_key (cur # rest))"
    by (auto intro: less_trans)
  then show ?case using 1 by (auto simp: entry_key_def less_prod_def)
qed auto

lemma ordering_iff: "ValidateBALOrdering es = None \<longleftrightarrow> sorted_wrt (<) (map entry_key es)"
  by (simp add: ValidateBALOrdering_def check_order_iff)

lemma sort_key_strict:
  assumes "distinct (map f xs)"
  shows "sorted_wrt (<) (map f (sort_key f xs))"
proof -
  have "distinct (map f (sort_key f xs))" using assms by (simp add: distinct_map)
  then show ?thesis by (simp add: strict_sorted_iff)
qed

lemma Build_map: "tracker_Build ti t = map (build_entry t ti) (sorted_list_of_fset (T_touchedAddrs t))"
proof -
  have "fold (\<lambda>a. AddEntry (build_entry t ti a)) as es = es @ map (build_entry t ti) as" for as es
    by (induction as arbitrary: es) (simp_all add: AddEntry_def)
  then show ?thesis by (simp add: tracker_Build_def)
qed

lemma Build_keys: "map entry_key (tracker_Build ti t) = map (\<lambda>a. (a, ti)) (sorted_list_of_fset (T_touchedAddrs t))"
  by (simp add: Build_map build_entry_def entry_key_def comp_def)

lemma Build_distinct: "distinct (map entry_key (tracker_Build ti t))"
  unfolding Build_keys by (simp add: distinct_map inj_on_def sorted_list_of_fset.rep_eq)

lemma phases_distinct:
  assumes "distinct (map fst ps)"
  shows "distinct (map entry_key (concat (map (\<lambda>(ti, t). tracker_Build ti t) ps)))"
  using assms
proof (induction ps)
  case (Cons p ps)
  obtain ti t where p: "p = (ti, t)" by (cases p)
  have "snd ` entry_key ` set (tracker_Build ti t) \<subseteq> {ti}"
    using arg_cong [OF Build_keys [of ti t], of set] by (auto simp: image_image)
  moreover have "snd ` entry_key ` set (concat (map (\<lambda>(ti, t). tracker_Build ti t) ps)) \<subseteq> set (map fst ps)"
  proof -
    have "snd (entry_key e) = ui" if "e \<in> set (tracker_Build ui u)" for e ui u
    proof -
      have "entry_key e \<in> set (map entry_key (tracker_Build ui u))" using that by simp
      then show ?thesis unfolding Build_keys by auto
    qed
    then show ?thesis by force
  qed
  ultimately show ?case
    using Cons Build_distinct [of ti t] p by (force simp: distinct_append)
qed simp

section \<open>Parallel hashing\<close>

lemma worker_writes_nth:
  assumes "snd b \<le> length leaves"
  shows "length (worker_writes kec es b leaves) = length leaves"
    and "i < length leaves \<Longrightarrow> worker_writes kec es b leaves ! i =
      (if fst b \<le> i \<and> i < snd b then HashAccessEntry kec (es ! i) else leaves ! i)"
proof -
  have "length (fold (\<lambda>i l. l[i := f i]) is l) = length l \<and>
      (i < length l \<longrightarrow> fold (\<lambda>i l. l[i := f i]) is l ! i = (if i \<in> set is then f i else l ! i))"
    for f :: "nat \<Rightarrow> hash" and "is" l and i
  proof (induction "is" arbitrary: l)
    case (Cons j js)
    then show ?case using Cons.IH [of "l[j := f j]"] by (auto simp: nth_list_update)
  qed simp
  from this [of "\<lambda>i. HashAccessEntry kec (es ! i)" "[fst b..<snd b]" leaves]
  show "length (worker_writes kec es b leaves) = length leaves"
    "i < length leaves \<Longrightarrow> worker_writes kec es b leaves ! i =
      (if fst b \<le> i \<and> i < snd b then HashAccessEntry kec (es ! i) else leaves ! i)"
    by (simp_all add: worker_writes_def)
qed

lemma workers_nth:
  assumes "\<forall>b\<in>set bs. snd b \<le> length leaves"
  shows "length (fold (worker_writes kec es) bs leaves) = length leaves \<and>
    (\<forall>i<length leaves. fold (worker_writes kec es) bs leaves ! i =
      (if \<exists>b\<in>set bs. fst b \<le> i \<and> i < snd b then HashAccessEntry kec (es ! i) else leaves ! i))"
  using assms
proof (induction bs arbitrary: leaves)
  case (Cons b bs)
  have "length (worker_writes kec es b leaves) = length leaves" using Cons.prems worker_writes_nth(1) [of b] by simp
  then show ?case
    using Cons.prems Cons.IH [of "worker_writes kec es b leaves"] worker_writes_nth(2) [of b leaves _ kec es] by auto
qed simp

lemma in_takeWhile:
  assumes "\<And>j. j \<le> k \<Longrightarrow> P (f j)" "k < w"
  shows "f k \<in> set (takeWhile P (map f [0..<w]))"
proof -
  have k: "k < length (takeWhile P (map f [0..<w]))"
    using assms length_takeWhile_less_P_nth [of "Suc k" P "map f [0..<w]"] by simp
  then have "takeWhile P (map f [0..<w]) ! k = f k" using assms(2) by (simp add: takeWhile_nth)
  then show ?thesis using k nth_mem by metis
qed

text \<open>The chunks of the workers cover the list.\<close>

lemma chunks_cover:
  assumes "0 < workers" "i < n"
  shows "\<exists>b\<in>set (takeWhile (\<lambda>(start, stop). start < stop) (map (chunk_bounds n workers) [0..<workers])).
    fst b \<le> i \<and> i < snd b"
proof -
  define c where "c = (n + workers - 1) div workers"
  have c: "n \<le> c * workers"
    using assms div_mult_mod_eq [of "n + workers - 1" workers] mod_less_divisor [OF assms(1), of "n + workers - 1"]
    unfolding c_def by linarith
  then have "0 < c" using assms(2) by (cases c) simp_all
  note c = c this
  let ?k = "i div c"
  have k: "?k * c \<le> i" "i < ?k * c + c" 
    using div_mult_mod_eq [of i c] mod_less_divisor [OF c(2), of i] by linarith+
  have w: "?k < workers" using assms(2) c by (simp add: less_mult_imp_div_less mult.commute)
  have b: "chunk_bounds n workers j = (j * c, min (j * c + c) n)" for j
    by (auto simp: chunk_bounds_def c_def Let_def)
  have "(\<lambda>(start, stop). start < stop) (chunk_bounds n workers j)" if "j \<le> ?k" for j
  proof -
    have "j * c \<le> ?k * c" by (rule mult_le_mono1 [OF that])
    then have "j * c < n" using k(1) assms(2) by linarith
    then show ?thesis using c(2) by (simp add: b)
  qed
  then have "chunk_bounds n workers ?k \<in> set (takeWhile (\<lambda>(start, stop). start < stop) (map (chunk_bounds n workers) [0..<workers]))"
    using w by (intro in_takeWhile [where f = "chunk_bounds n workers"]) auto
  then show ?thesis using k assms(2) by (force simp: b)
qed

lemma chunks_inside:
  "b \<in> set (takeWhile P (map (chunk_bounds n workers) ws)) \<Longrightarrow> snd b \<le> n"
  by (drule set_takeWhileD) (auto simp: chunk_bounds_def Let_def)

section \<open>The item budget\<close>

text \<open>The calls a block makes on its tracker.\<close>

datatype block_call = CallPre | CallTx u64 | CallPost u64 | CallAccess address

fun block_step :: "block_call \<Rightarrow> block_bal_tracker \<Rightarrow> block_bal_tracker" where
  "block_step CallPre t = BeginPreExecution t"
| "block_step (CallTx i) t = BeginTx i t"
| "block_step (CallPost n) t = BeginPostExecution n t"
| "block_step (CallAccess a) t = snd (RecordAccess a t)"

definition budget_inv :: "u64 \<Rightarrow> block_bal_tracker \<Rightarrow> bool" where
  "budget_inv gl t \<longleftrightarrow>
     BT_maxItems t = gl div BALItemCost \<and> BT_itemCount t \<le> BT_maxItems t \<and> unat (BT_itemCount t) = length (BT_entries t) \<and>
     set (map entry_key (BT_entries t)) = fset (BT_addressSeen t) \<and> distinct (map entry_key (BT_entries t))"

lemma budget_new: "budget_inv gl (NewBlockBALTracker gl)"
  by (simp add: budget_inv_def NewBlockBALTracker_def)

lemma budget_step: "budget_inv gl t \<Longrightarrow> budget_inv gl (block_step c t)"
proof (cases c)
  case (CallAccess a)
  assume inv: "budget_inv gl t"
  have "unat (BT_itemCount t + 1) = Suc (unat (BT_itemCount t)) \<and> BT_itemCount t + 1 \<le> BT_maxItems t"
    if "BT_itemCount t < BT_maxItems t"
    using that unsigned_less [where 'a = nat, of "BT_maxItems t"] by (simp add: word_less_nat_alt word_le_nat_alt unat_plus_if')
  then show ?thesis
    using inv CallAccess by (auto simp: budget_inv_def RecordAccess_def plain_entry_def entry_key_def not_le)
qed (auto simp: budget_inv_def BeginPreExecution_def BeginTx_def BeginPostExecution_def)

lemma budget_run: "budget_inv gl (fold block_step cs (NewBlockBALTracker gl))"
  by (rule fold_invariant [of cs "\<lambda>_. True"]) (auto intro: budget_new budget_step)

section \<open>Properties\<close>

text \<open>
  C16. The access list of a block passes its own check.  Lists built by trackers for phases with different access indices, put together in any
  order and sorted, keep all their entries and pass \<open>ValidateBALOrdering\<close>: addresses ascend, and no address occurs twice for
  one phase.
\<close>

theorem phases_ordered:
  assumes "distinct (map fst ps)"
  shows "ValidateBALOrdering (bal_Sort (concat (map (\<lambda>(ti, t). tracker_Build ti t) ps))) = None \<and>
    mset (bal_Sort (concat (map (\<lambda>(ti, t). tracker_Build ti t) ps))) = (\<Sum>(ti, t)\<leftarrow>ps. mset (tracker_Build ti t))"
proof -
  have "mset (concat (map f xs)) = (\<Sum>x\<leftarrow>xs. mset (f x))" for f :: "u64 \<times> access_tracker \<Rightarrow> block_access_list" and xs
    by (induction xs) simp_all
  then show ?thesis
    using sort_key_strict [OF phases_distinct [OF assms]] by (simp add: ordering_iff bal_Sort_def split_def)
qed

theorem phases_ordered_witness:
  "ValidateBALOrdering (bal_Sort (tracker_Build 1 (tracker_RecordAddressTouch 7 NewTracker) @
     tracker_Build 0 (tracker_RecordStorageRead 7 1 2 NewTracker))) = None"
  using phases_ordered [of "[(1, tracker_RecordAddressTouch 7 NewTracker), (0, tracker_RecordStorageRead 7 1 2 NewTracker)]"] by simp

text \<open>
  C18. Hashing in parallel changes nothing.  For every number of workers, also none or a negative one, the chunks of the workers cover the
  list, and \<open>ParallelMerkleRoot\<close> returns what \<open>MerkleRoot\<close> returns.
\<close>

theorem ParallelMerkleRoot_eq: "ParallelMerkleRoot kec es workers = MerkleRoot kec es"
proof (cases "es = []")
  case False
  define n where "n = length es"
  define w1 where "w1 = (if workers < 1 then 1 else workers)"
  define w where "w = nat (if w1 > int n then int n else w1)"
  have w: "0 < w" using False by (auto simp: w_def w1_def n_def)
  let ?bs = "takeWhile (\<lambda>(start, stop). start < stop) (map (chunk_bounds n w) [0..<w])"
  have "fold (worker_writes kec es) ?bs (replicate n 0) = map (HashAccessEntry kec) es"
    using workers_nth [of ?bs "replicate n 0" kec es] chunks_inside chunks_cover [OF w]
    by (intro nth_equalityI) (auto simp: n_def)
  then show ?thesis
    using False by (simp only: ParallelMerkleRoot_def MerkleRoot_def Let_def n_def [symmetric] w1_def [symmetric] w_def [symmetric] if_False)
qed (simp add: ParallelMerkleRoot_def MerkleRoot_def)

text \<open>
  C17. The access list of a block stays within its budget.  Whatever phases and accesses a block makes on its tracker, in whatever order, it
  holds at most one item for every 2000 gas of the limit, counts them without overflow, records no access twice, and the
  sorted entries pass \<open>ValidateBALOrdering\<close>.
\<close>

theorem block_tracker_budget:
  "2000 * length (BT_entries (fold block_step cs (NewBlockBALTracker gl))) \<le> unat gl \<and>
   unat (BT_itemCount (fold block_step cs (NewBlockBALTracker gl))) = length (BT_entries (fold block_step cs (NewBlockBALTracker gl))) \<and>
   ValidateBALOrdering (bal_Sort (BT_entries (fold block_step cs (NewBlockBALTracker gl)))) = None"
proof -
  define t where "t = fold block_step cs (NewBlockBALTracker gl)"
  have inv: "budget_inv gl t" unfolding t_def by (rule budget_run)
  then have "unat (BT_itemCount t) \<le> unat gl div 2000"
    by (auto simp: budget_inv_def word_le_nat_alt unat_div)
  then show ?thesis
    using inv sort_key_strict [of entry_key "BT_entries t"] unfolding t_def [symmetric]
    by (auto simp: budget_inv_def ordering_iff bal_Sort_def)
qed

text \<open>
  The hash of an access entry does not determine the entry.  The parts are joined without their lengths, so three reads and two
  changes of storage can be the same bytes: two different entries have the same hash, for every hash function.
\<close>

theorem entry_hash_ambiguous:
  "\<exists>e e'. e \<noteq> e' \<and> AE_StorageChanges e = [] \<and> AE_StorageReads e' = [] \<and> (\<forall>kec. HashAccessEntry kec e = HashAccessEntry kec e')"
proof -
  let ?e = "(plain_entry 0 1)\<lparr>AE_StorageReads := replicate 3 \<lparr>SA_Slot = 5, SA_Value = 5\<rparr>\<rparr>"
  let ?e' = "(plain_entry 0 1)\<lparr>AE_StorageChanges := replicate 2 \<lparr>SC_Slot = 5, SC_OldValue = 5, SC_NewValue = 5\<rparr>\<rparr>"
  have "entry_preimage ?e = entry_preimage ?e'" by (simp add: entry_preimage_def plain_entry_def numeral_eq_Suc)
  then show ?thesis
    by (intro exI [of _ ?e] exI [of _ ?e']) (simp add: HashAccessEntry_def plain_entry_def numeral_eq_Suc)
qed

end
