(* ===== verification/Spec2Isabelle.thy ===== *)
theory Spec2Isabelle
  imports Rlp_Roundtrip State_Revert Mpt_Hash Riscv_Guest Evm_Arith Evm_Metered Tx_Codec Tx_Books Bal_List
begin

text \<open>
  Verification of eth2030, an Ethereum execution client written in Go
  (\<^verbatim>\<open>src/pkg\<close>).

  \<^bold>\<open>Conventions.\<close>  \<open>Prelude\<close> fixes how Go is read: \<open>byte\<close>, \<open>u64\<close> and
  \<open>u256\<close> are words; an \<open>int\<close> is an integer kept in range by \<open>wrap64\<close>; a
  fallible function returns an \<open>outcome\<close>, which is a value, an error or a panic; a slice
  expression out of range is a panic; a loop that may not stop takes fuel and running out of
  fuel is \<open>None\<close>.

  \<^bold>\<open>RLP\<close> (\<^verbatim>\<open>src/pkg/rlp\<close>).  \<open>Rlp_Encode\<close> models
  \<^verbatim>\<open>encode.go\<close> and \<^verbatim>\<open>encoder_pool.go\<close>: a Go value is a \<open>goval\<close>, and
  \<open>encodeValue\<close>, \<open>encodeList\<close> and \<open>encodeStruct\<close> are the reflection encoder.  The
  specification is the encoding \<open>rlp\<close> of an \<open>rlp_item\<close>; \<open>item_of\<close> is the item a value
  denotes.  \<open>Rlp_Decode\<close> models \<^verbatim>\<open>decode.go\<close>: the record \<open>stream\<close> is
  \<open>Stream\<close>, its readers are functions from a stream to an outcome and a stream, and
  \<open>decodeInto\<close> is the reflection decoder for a static type \<open>gotype\<close>.
  \<open>Rlp_Roundtrip\<close> proves the typed round trip, canonicity and unique decodability; the locale
  \<open>stream_codec\<close> is the contract of a reader and is interpreted for strings, unsigned integers,
  big integers and Booleans.  Fuel: each list loop needs at most one iteration more than the
  encoding has bytes.

  \<^bold>\<open>State\<close> (\<^verbatim>\<open>src/pkg/core/state\<close>, \<^verbatim>\<open>src/pkg/core/types/common.go\<close>).  \<open>Types_Common\<close> holds hashes,
  addresses, accounts and logs; \<open>Journal\<close> the undo log and its contract, the locale \<open>undo_log\<close>;
  \<open>Access_List\<close> the warm addresses and slots; \<open>State_DB\<close> the in-memory database, whose record
  \<open>statedb\<close> has the fields of \<open>MemoryStateDB\<close>.  \<open>State_Revert\<close> shows that without
  writes of zero to transient storage a revert neither panics nor leaves a difference, and when such a write makes it panic; \<open>State_Partial\<close> shows
  that with any operations a revert that returns restores every observation, and \<open>State_Views\<close> defines the sum of all balances and the state as reads see it.

  \<^bold>\<open>Trie\<close> (\<^verbatim>\<open>src/pkg/trie/mpt\<close>).  \<open>Mpt_Encoding\<close>, \<open>Mpt_Trie\<close> and \<open>Mpt_Hash\<close> are key
  encodings, nodes and the hasher with its caches; \<open>Mpt_Map\<close> shows that the trie is a map with one canonical
  shape per map, so the root hash depends on the contents only.

  \<^bold>\<open>zkVM\<close> (\<^verbatim>\<open>src/pkg/zkvm\<close>).  \<open>Riscv_Memory\<close>, \<open>Riscv_Encode\<close>, \<open>Riscv_Cpu\<close> and
  \<open>Riscv_Witness\<close> are the RV32IM machine and its trace; \<open>Riscv_Guest\<close> runs the precompile guests.
  With a gas limit, fuel above it is enough.

  \<^bold>\<open>EVM\<close> (\<^verbatim>\<open>src/pkg/core/vm\<close>).  \<open>Evm_Machine\<close>, \<open>Evm_Gas\<close>, \<open>Evm_State\<close>, \<open>Evm_Ops\<close>,
  \<open>Evm_Dynamic\<close>, \<open>Evm_Tables\<close> and \<open>Evm_Interp\<close> are stack, memory and contract, gas, the EVM with its
  database, the instructions, the dynamic gas functions, the jump tables of the forks, and the calls, creations and the loop.  A run is
  an \<open>exec\<close>: a result, a crash or no fuel.  The locale \<open>evm_view\<close> (\<open>Evm_Kept\<close>) is the contract of a
  view of the state that execution keeps; \<open>Evm_Atomic\<close> interprets it for the sum of balances and for
  read-only execution.  \<open>Evm_Metered\<close> bounds a run by its gas: with \<open>g\<close> gas, \<open>g + 1\<close> fuel is
  enough on the forks from Berlin to Prague.  \<open>Evm_Arith\<close> compares the arithmetic instructions with 256-bit words.
  Precompiled contracts and hashes are fields of the environment \<open>evm_env\<close>.

  \<^bold>\<open>Transactions\<close> (\<^verbatim>\<open>src/pkg/core/types\<close>, \<^verbatim>\<open>config\<close>, \<^verbatim>\<open>gas\<close>,
  \<^verbatim>\<open>eips\<close>, \<^verbatim>\<open>execution\<close>).  \<open>Chain_Config\<close>, \<open>Fee_Market\<close> and \<open>Tx_Gas\<close> are fork rules,
  fees and intrinsic gas; \<open>Tx_Types\<close> and \<open>Tx_Codec\<close> the ten kinds of transaction and their envelope, with the
  round trip; \<open>Tx_Signing\<close> signing hashes and senders; \<open>Secp256k1\<close> and
  \<open>Secp256k1_Keys\<close> the curve and both implementations of key recovery, that of \<^verbatim>\<open>signer.go\<close> and \<open>Ecrecover\<close> of
  \<^verbatim>\<open>src/pkg/crypto/secp256k1\<close>; \<open>Tx_Auth\<close>,
  \<open>Tx_Frames\<close> and \<open>Receipts\<close> set-code authorizations, frames, and receipts with bloom filters.  \<open>Tx_Apply\<close> is
  \<open>applyMessage\<close> and \<open>applyTransactionInternal\<close>, with the state database, the gas pool and the access
  tracker passed along.  \<open>Tx_Accounting\<close> and \<open>Tx_Books\<close> show that gas and value of a whole transaction are
  accounted for, that it ends on the forks from Berlin up to but not including Glamsterdam, and that a rejected one leaves no trace.

  \<^bold>\<open>Block access lists\<close> (\<^verbatim>\<open>src/pkg/bal\<close>).  \<open>Bal_List\<close> is the list, the trackers that build
  it and its hashes.  The interpreter records its accesses as a list of \<open>bal_event\<close>s, which \<open>tracker_calls\<close> replays
  on a tracker.  Lists of different phases, joined and sorted, pass the check of the order; the
  tracker of a block keeps to its budget; the parallel Merkle root is the sequential one.

  \<^bold>\<open>Not modelled.\<close>  The loop over a block and the chain around it, headers and blocks as bytes, precompiled
  contracts, hash functions and proof systems (parameters where the modelled code calls them), the conflict analysis over access lists,
  the transaction pool, and the subsystems that no modelled code calls: consensus, data availability,
  builder protocols, rollup, light client, SSZ.  Networking, RPC, databases on disk,
  logging, metrics and locks are input, output or concurrency without a counterpart in pure functions.
\<close>

end
